(* ===== verification/Prelude.thy ===== *)
theory Prelude
  imports Main
begin

text \<open>
  Shared vocabulary of the development: the result type of fallible code, the collections of
  simplification rules the component theories fill, and the generic facts on lists and folds
  that several components use.

  A Go function that returns \<open>(T, error)\<close> is a function into \<open>'e + 'a\<close>, with \<open>Inl\<close> for the
  error. A method that also writes to the database returns the pair of that result and the
  database it leaves behind, on the error paths too, because a failed call may have written
  rows before it failed.
\<close>

named_theorems go_simps "evaluation rules of the Go standard library functions"
named_theorems query_defs "definitions of the SQL statements"
named_theorems check_defs "definitions of the CHECK, UNIQUE and FOREIGN KEY constraints"

type_synonym ('e, 'a) result = "'e + 'a"

definition is_ok :: "('e, 'a) result \<Rightarrow> bool" where
  "is_ok r = (case r of Inl _ \<Rightarrow> False | Inr _ \<Rightarrow> True)"

lemma is_ok_simps [simp]: "is_ok (Inr a)" "\<not> is_ok (Inl e)"
  by (simp_all add: is_ok_def)

lemma is_ok_iff: "is_ok r \<longleftrightarrow> (\<exists>a. r = Inr a)"
  by (cases r) simp_all

subsection \<open>Searching and rewriting lists\<close>

lemma find_Some_iff_first:
  "find P xs = Some x \<Longrightarrow> x \<in> set xs \<and> P x"
  by (induction xs) (auto split: if_splits)

lemma find_None_set: "find P xs = None \<longleftrightarrow> (\<forall>x \<in> set xs. \<not> P x)"
  by (auto simp: find_None_iff)

lemma find_unique:
  assumes "x \<in> set xs" "P x" "\<And>y. y \<in> set xs \<Longrightarrow> P y \<Longrightarrow> y = x"
  shows "find P xs = Some x"
proof (cases "find P xs")
  case None
  with assms(1,2) show ?thesis by (simp add: find_None_set)
next
  case (Some y)
  then have "y \<in> set xs" "P y" by (auto dest: find_Some_iff_first)
  then have "y = x" by (rule assms(3))
  with Some show ?thesis by simp
qed

lemma find_append:
  "find P (xs @ ys) = (case find P xs of None \<Rightarrow> find P ys | Some x \<Rightarrow> Some x)"
  by (induction xs) auto

lemma distinct_map_eq:
  "distinct (map f xs) \<Longrightarrow> x \<in> set xs \<Longrightarrow> y \<in> set xs \<Longrightarrow> f x = f y \<Longrightarrow> x = y"
  by (induction xs) (auto simp: image_iff)

lemma set_map_filter_iff: "x \<in> set (List.map_filter f xs) \<longleftrightarrow> (\<exists>y \<in> set xs. f y = Some x)"
  by (induction xs) (auto simp: List.map_filter_simps split: option.splits)

lemma append_sep_inj:
  "c \<notin> set a \<Longrightarrow> c \<notin> set a' \<Longrightarrow> a @ c # r = a' @ c # r' \<Longrightarrow> a = a' \<and> r = r'"
  by (auto simp: append_eq_append_conv2 append_eq_Cons_conv Cons_eq_append_conv)

lemma takeWhile_append_stop:
  "(\<forall>x \<in> set xs. P x) \<Longrightarrow> ys = [] \<or> \<not> P (hd ys) \<Longrightarrow> takeWhile P (xs @ ys) = xs"
  by (cases ys) auto

lemma dropWhile_append_stop:
  "(\<forall>x \<in> set xs. P x) \<Longrightarrow> ys = [] \<or> \<not> P (hd ys) \<Longrightarrow> dropWhile P (xs @ ys) = ys"
  by (cases ys) auto

lemma append_stop_inj:
  assumes "\<forall>x \<in> set xs. P x" "\<forall>x \<in> set xs'. P x"
    and "ys = [] \<or> \<not> P (hd ys)" "ys' = [] \<or> \<not> P (hd ys')"
    and "xs @ ys = xs' @ ys'"
  shows "xs = xs' \<and> ys = ys'"
  using assms takeWhile_append_stop dropWhile_append_stop by metis

end
