(* ===== verification/GoStrings.thy ===== *)
theory GoStrings
  imports Prelude
begin

text \<open>
  The parts of the Go standard library the sources call on strings and integers. A Go string
  is a sequence of bytes, so it is a \<open>string\<close> here (a \<open>char\<close> is a byte), \<open>len\<close> is \<open>length\<close>
  and \<open>s[i:j]\<close> is a slice of bytes; the functions that work on runes decode UTF-8 first.

  The Unicode character database is not spelled out: a record of type \<open>unicode\<close> supplies the
  digit and letter categories of the runes beyond ASCII and the case mapping of strings that are
  not pure ASCII. On ASCII the model computes what Go's ASCII fast paths compute.
\<close>

subsection \<open>Bytes\<close>

definition byte :: "char \<Rightarrow> nat" where
  "byte c = of_char c"

definition bytes :: "nat list \<Rightarrow> string" where
  "bytes ns = map char_of ns"

lemma byte_less [simp]: "byte c < 256"
  using nat_of_char_less_256 by (simp add: byte_def)

lemma byte_inject [simp]: "byte c = byte d \<longleftrightarrow> c = d"
  by (simp add: byte_def)

lemma byte_char_of [simp]: "n < 256 \<Longrightarrow> byte (char_of n) = n"
  by (simp add: byte_def)

lemma char_of_byte [simp]: "char_of (byte c) = c"
  by (simp add: byte_def)

definition HasPrefix :: "string \<Rightarrow> string \<Rightarrow> bool" where
  "HasPrefix s p = (take (length p) s = p)"

lemma HasPrefix_iff: "HasPrefix s p \<longleftrightarrow> (\<exists>r. s = p @ r)"
  unfolding HasPrefix_def by (metis append_eq_conv_conj append_take_drop_id)

lemma HasPrefix_append: "HasPrefix s p \<Longrightarrow> HasPrefix (s @ r) p"
  by (auto simp: HasPrefix_iff)

fun contains :: "string \<Rightarrow> string \<Rightarrow> bool" where
  "contains [] sub = (sub = [])"
| "contains (c # s) sub = (HasPrefix (c # s) sub \<or> contains s sub)"

fun Join :: "string list \<Rightarrow> string \<Rightarrow> string" where
  "Join [] sep = []"
| "Join [x] sep = x"
| "Join (x # y # xs) sep = x @ sep @ Join (y # xs) sep"

subsection \<open>UTF-8 decoding\<close>

definition is_cont :: "char \<Rightarrow> bool" where
  "is_cont c = (128 \<le> byte c \<and> byte c < 192)"

text \<open>
  \<open>utf8.DecodeRuneInString\<close>: the first rune of a non-empty string and the number of bytes it
  takes. An ill-formed sequence (a stray continuation byte, an overlong form, a surrogate, a
  value beyond U+10FFFF, a truncated sequence) decodes to U+FFFD of width 1.
\<close>

definition rune_error :: nat where
  "rune_error = 65533"

definition decode_rune :: "string \<Rightarrow> nat \<times> nat" where
  "decode_rune s = (case s of
     [] \<Rightarrow> (rune_error, 0)
   | a # r \<Rightarrow>
      (let x = byte a in
       if x < 128 then (x, 1)
       else if 194 \<le> x \<and> x < 224 then
         (case r of b # _ \<Rightarrow>
            if is_cont b then ((x - 192) * 64 + (byte b - 128), 2) else (rune_error, 1)
          | _ \<Rightarrow> (rune_error, 1))
       else if 224 \<le> x \<and> x < 240 then
         (case r of b # c # _ \<Rightarrow>
            if is_cont b \<and> is_cont c \<and> (x = 224 \<longrightarrow> 160 \<le> byte b) \<and> (x = 237 \<longrightarrow> byte b < 160)
            then ((x - 224) * 4096 + (byte b - 128) * 64 + (byte c - 128), 3)
            else (rune_error, 1)
          | _ \<Rightarrow> (rune_error, 1))
       else if 240 \<le> x \<and> x < 245 then
         (case r of b # c # d # _ \<Rightarrow>
            if is_cont b \<and> is_cont c \<and> is_cont d \<and> (x = 240 \<longrightarrow> 144 \<le> byte b)
               \<and> (x = 244 \<longrightarrow> byte b < 144)
            then ((x - 240) * 262144 + (byte b - 128) * 4096 + (byte c - 128) * 64
                  + (byte d - 128), 4)
            else (rune_error, 1)
          | _ \<Rightarrow> (rune_error, 1))
       else (rune_error, 1)))"

lemma decode_rune_width:
  "s \<noteq> [] \<Longrightarrow> 0 < snd (decode_rune s) \<and> snd (decode_rune s) \<le> length s"
  by (auto simp: decode_rune_def Let_def neq_Nil_conv split: list.splits)

text \<open>\<open>for _, r := range s\<close>: the runes of a string, each with its bytes.\<close>

function rune_slices :: "string \<Rightarrow> (nat \<times> string) list" where
  "rune_slices s =
     (if s = [] then []
      else (fst (decode_rune s), take (snd (decode_rune s)) s)
           # rune_slices (drop (snd (decode_rune s)) s))"
  by pat_completeness auto
termination
  by (relation "measure length") (auto dest: decode_rune_width)

declare rune_slices.simps [simp del]

lemma rune_slices_Nil [simp]: "rune_slices [] = []"
  by (subst rune_slices.simps) simp

text \<open>Decoding loses no byte: the slices concatenate to the string.\<close>

lemma rune_slices_concat: "concat (map snd (rune_slices s)) = s"
proof (induction s rule: rune_slices.induct)
  case (1 s)
  then show ?case by (cases "s = []") (simp_all add: rune_slices.simps [of s])
qed

subsection \<open>The Unicode tables\<close>

record unicode =
  u_is_digit :: "nat \<Rightarrow> bool"
  u_is_letter :: "nat \<Rightarrow> bool"
  u_to_lower :: "string \<Rightarrow> string"
  u_to_upper :: "string \<Rightarrow> string"
  u_equal_fold :: "string \<Rightarrow> string \<Rightarrow> bool"

definition is_ascii :: "string \<Rightarrow> bool" where
  "is_ascii s = list_all (\<lambda>c. byte c < 128) s"

definition is_ascii_digit :: "char \<Rightarrow> bool" where
  "is_ascii_digit c = (48 \<le> byte c \<and> byte c \<le> 57)"

text \<open>\<open>unicode.IsDigit\<close>: ASCII digits, or the table for the other runes.\<close>

definition IsDigit :: "unicode \<Rightarrow> nat \<Rightarrow> bool" where
  "IsDigit u r = (if r < 128 then 48 \<le> r \<and> r \<le> 57 else r \<noteq> rune_error \<and> u_is_digit u r)"

definition ascii_lower :: "char \<Rightarrow> char" where
  "ascii_lower c = (if 65 \<le> byte c \<and> byte c \<le> 90 then char_of (byte c + 32) else c)"

definition ascii_upper :: "char \<Rightarrow> char" where
  "ascii_upper c = (if 97 \<le> byte c \<and> byte c \<le> 122 then char_of (byte c - 32) else c)"

definition ToLower :: "unicode \<Rightarrow> string \<Rightarrow> string" where
  "ToLower u s = (if is_ascii s then map ascii_lower s else u_to_lower u s)"

definition ToUpper :: "unicode \<Rightarrow> string \<Rightarrow> string" where
  "ToUpper u s = (if is_ascii s then map ascii_upper s else u_to_upper u s)"

definition EqualFold :: "unicode \<Rightarrow> string \<Rightarrow> string \<Rightarrow> bool" where
  "EqualFold u s t =
     (if is_ascii s \<and> is_ascii t then map ascii_lower s = map ascii_lower t
      else s = t \<or> u_equal_fold u s t)"

text \<open>The loop shared by \<open>digits\<close> and \<open>normalizeDigits\<close>: the digit runes of a string.\<close>

definition digit_runes :: "unicode \<Rightarrow> string \<Rightarrow> string" where
  "digit_runes u s = concat (map snd (filter (\<lambda>(r, b). IsDigit u r) (rune_slices s)))"

lemma is_ascii_simps [simp]:
  "is_ascii []" "is_ascii (c # s) \<longleftrightarrow> byte c < 128 \<and> is_ascii s"
  "is_ascii (s @ t) \<longleftrightarrow> is_ascii s \<and> is_ascii t"
  by (simp_all add: is_ascii_def)

lemma rune_slices_ascii:
  "is_ascii s \<Longrightarrow> rune_slices s = map (\<lambda>c. (byte c, [c])) s"
proof (induction s)
  case Nil
  then show ?case by simp
next
  case (Cons c s)
  then have "decode_rune (c # s) = (byte c, 1)"
    by (simp add: decode_rune_def Let_def)
  with Cons show ?case by (simp add: rune_slices.simps [of "c # s"])
qed

lemma digit_runes_ascii:
  "is_ascii s \<Longrightarrow> digit_runes u s = filter is_ascii_digit s"
proof -
  assume a: "is_ascii s"
  then have "\<forall>c \<in> set s. byte c < 128" by (simp add: is_ascii_def list_all_iff)
  then have "concat (map snd (filter (\<lambda>(r, b). IsDigit u r) (map (\<lambda>c. (byte c, [c])) s)))
             = filter is_ascii_digit s"
    by (induction s) (auto simp: IsDigit_def is_ascii_digit_def)
  with a show ?thesis by (simp add: digit_runes_def rune_slices_ascii)
qed

lemma digit_runes_length: "length (digit_runes u s) \<le> length s"
proof -
  have *: "length (concat (map snd (filter P xs))) \<le> length (concat (map snd xs))"
    for P :: "nat \<times> string \<Rightarrow> bool" and xs
    by (induction xs) auto
  have "length (digit_runes u s) \<le> length (concat (map snd (rune_slices s)))"
    unfolding digit_runes_def by (rule *)
  then show ?thesis by (simp add: rune_slices_concat)
qed

end
