(* ===== verification/GoConv.thy ===== *)
theory GoConv
  imports GoText
begin

text \<open>
  Decimal numbers: \<open>strconv.Atoi\<close> on a 64-bit platform, the \<open>%d\<close> and \<open>%0Nd\<close> verbs of
  \<open>fmt.Sprintf\<close>, and the wrap-around of \<open>int64\<close> addition.
\<close>

subsection \<open>64-bit integers\<close>

definition int64_min :: int where
  "int64_min = - (2 ^ 63)"

definition int64_max :: int where
  "int64_max = 2 ^ 63 - 1"

definition wrap64 :: "int \<Rightarrow> int" where
  "wrap64 x = (x + 2 ^ 63) mod 2 ^ 64 - 2 ^ 63"

lemma wrap64_id: "int64_min \<le> x \<Longrightarrow> x \<le> int64_max \<Longrightarrow> wrap64 x = x"
  by (simp add: wrap64_def int64_min_def int64_max_def)

lemma wrap64_overflow: "wrap64 (int64_max + 1) = int64_min"
  by (simp add: wrap64_def int64_min_def int64_max_def)

lemma wrap64_bounds: "int64_min \<le> wrap64 x \<and> wrap64 x \<le> int64_max"
proof -
  have "0 \<le> (x + 2 ^ 63) mod 2 ^ 64" "(x + 2 ^ 63) mod 2 ^ 64 < (2::int) ^ 64" by simp_all
  then show ?thesis by (simp add: wrap64_def int64_min_def int64_max_def)
qed

subsection \<open>Reading\<close>

definition digit_val :: "char \<Rightarrow> nat" where
  "digit_val c = byte c - 48"

definition digits_val :: "string \<Rightarrow> nat" where
  "digits_val s = foldl (\<lambda>n c. 10 * n + digit_val c) 0 s"

text \<open>
  \<open>strconv.Atoi\<close>: an optional sign and at least one ASCII digit; \<open>None\<close> for a syntax error
  and for a value outside \<open>int64\<close>.
\<close>

definition Atoi :: "string \<Rightarrow> int option" where
  "Atoi s =
     (let neg = (s \<noteq> [] \<and> hd s = CHR ''-'');
          body = (if s \<noteq> [] \<and> (hd s = CHR ''-'' \<or> hd s = CHR ''+'') then tl s else s)
      in if body = [] \<or> \<not> list_all is_ascii_digit body then None
         else let v = (if neg then - int (digits_val body) else int (digits_val body))
              in if int64_min \<le> v \<and> v \<le> int64_max then Some v else None)"

lemma Atoi_chars:
  "Atoi s = Some v \<Longrightarrow> c \<in> set s \<Longrightarrow> is_ascii_digit c \<or> c = CHR ''+'' \<or> c = CHR ''-''"
  by (cases s) (auto simp: Atoi_def Let_def list_all_iff split: if_splits)

lemma Atoi_nonempty: "Atoi s = Some v \<Longrightarrow> s \<noteq> []"
  by (auto simp: Atoi_def)

lemma Atoi_bounds: "Atoi s = Some v \<Longrightarrow> int64_min \<le> v \<and> v \<le> int64_max"
  by (auto simp: Atoi_def Let_def split: if_splits)

subsection \<open>Printing\<close>

definition digit_char :: "nat \<Rightarrow> char" where
  "digit_char n = char_of (n + 48)"

fun show_nat :: "nat \<Rightarrow> string" where
  "show_nat n = (if n < 10 then [digit_char n] else show_nat (n div 10) @ [digit_char (n mod 10)])"

declare show_nat.simps [simp del]

text \<open>\<open>%d\<close> and \<open>%0wd\<close>: the sign counts towards the width.\<close>

definition show_int :: "int \<Rightarrow> string" where
  "show_int i = (if i < 0 then CHR ''-'' # show_nat (nat (- i)) else show_nat (nat i))"

definition show_padded :: "nat \<Rightarrow> int \<Rightarrow> string" where
  "show_padded w i =
     (if i < 0
      then (let d = show_nat (nat (- i)) in CHR ''-'' # replicate (w - 1 - length d) (CHR ''0'') @ d)
      else (let d = show_nat (nat i) in replicate (w - length d) (CHR ''0'') @ d))"

lemma digit_char_digit [simp]: "n < 10 \<Longrightarrow> is_ascii_digit (digit_char n)"
  by (simp add: is_ascii_digit_def digit_char_def)

lemma digit_val_char [simp]: "n < 10 \<Longrightarrow> digit_val (digit_char n) = n"
  by (simp add: digit_val_def digit_char_def)

lemma show_nat_digits: "list_all is_ascii_digit (show_nat n)"
proof (induction n rule: show_nat.induct)
  case (1 n)
  then show ?case by (cases "n < 10") (simp_all add: show_nat.simps [of n])
qed

lemma show_nat_nonempty [simp]: "show_nat n \<noteq> []"
  by (simp add: show_nat.simps [of n])

lemma digits_val_append: "digits_val (s @ [c]) = 10 * digits_val s + digit_val c"
  by (simp add: digits_val_def)

lemma digits_val_show_nat: "digits_val (show_nat n) = n"
proof (induction n rule: show_nat.induct)
  case (1 n)
  show ?case
  proof (cases "n < 10")
    case True
    then show ?thesis by (simp add: show_nat.simps [of n]) (simp add: digits_val_def)
  next
    case False
    with 1 have "digits_val (show_nat (n div 10)) = n div 10" by blast
    with False show ?thesis by (simp add: show_nat.simps [of n] digits_val_append)
  qed
qed

lemma digits_val_zeros: "digits_val (replicate k (CHR ''0'') @ s) = digits_val s"
proof -
  have "digit_val (CHR ''0'') = 0" by (simp add: digit_val_def byte_def)
  then have "foldl (\<lambda>n c. 10 * n + digit_val c) 0 (replicate k (CHR ''0'')) = 0"
    by (induction k) simp_all
  then show ?thesis by (simp add: digits_val_def)
qed

lemma show_padded_nonneg:
  assumes "0 \<le> i"
  shows "show_padded w i \<noteq> []" "list_all is_ascii_digit (show_padded w i)"
    "digits_val (show_padded w i) = nat i"
proof -
  have "is_ascii_digit (CHR ''0'')" by (simp add: is_ascii_digit_def byte_def)
  then show "list_all is_ascii_digit (show_padded w i)"
    using assms show_nat_digits [of "nat i"] by (auto simp: show_padded_def Let_def list_all_iff)
qed (use assms in \<open>simp_all add: show_padded_def Let_def digits_val_zeros digits_val_show_nat\<close>)

lemma digit_not_sign:
  "is_ascii_digit c \<Longrightarrow> c \<noteq> CHR ''-'' \<and> c \<noteq> CHR ''+'' \<and> c \<noteq> CHR ''/''"
  by (auto simp: is_ascii_digit_def byte_def)

lemma digit_solid: "is_ascii_digit c \<Longrightarrow> solid c"
  by (simp add: is_ascii_digit_def solid_def)

lemma Atoi_digits:
  assumes "s \<noteq> []" "list_all is_ascii_digit s" "int (digits_val s) \<le> int64_max"
  shows "Atoi s = Some (int (digits_val s))"
proof -
  have "is_ascii_digit (hd s)" using assms(1,2) by (cases s) auto
  then have "hd s \<noteq> CHR ''-''" "hd s \<noteq> CHR ''+''" by (auto dest: digit_not_sign)
  then show ?thesis using assms by (auto simp: Atoi_def Let_def int64_min_def)
qed

text \<open>Reading back a printed number, padded or not.\<close>

theorem Atoi_show_padded:
  "0 \<le> i \<Longrightarrow> i \<le> int64_max \<Longrightarrow> Atoi (show_padded w i) = Some i"
  by (simp add: Atoi_digits show_padded_nonneg)

lemma show_padded_inj:
  "0 \<le> i \<Longrightarrow> 0 \<le> j \<Longrightarrow> show_padded w i = show_padded w j \<Longrightarrow> i = j"
  by (metis eq_nat_nat_iff show_padded_nonneg(3))

subsection \<open>The calendar\<close>

text \<open>The days of a month, which \<open>time.Parse\<close> checks a day against.\<close>

definition days_in :: "int \<Rightarrow> int \<Rightarrow> int" where
  "days_in y m =
     (if m = 2 then (if y mod 4 = 0 \<and> (y mod 100 \<noteq> 0 \<or> y mod 400 = 0) then 29 else 28)
      else if m \<in> {4, 6, 9, 11} then 30 else 31)"

end
