(* ===== verification/SqlTable.thy ===== *)
theory SqlTable
  imports GoConv
begin

text \<open>
  SQLite tables and the single-row statements sqlc generates. A table is the list of its rows
  in \<open>rowid\<close> order. A statement returns the row it reads or writes and, when it writes, the new
  table; a statement that fails leaves the table as it was.

  \<open>INSERT\<close> takes the next \<open>rowid\<close> (the largest one plus 1), then evaluates the CHECK
  constraints, the unique indexes and the foreign keys of the new row. \<open>UPDATE ... WHERE id = ?\<close>
  does the same for the row it rewrites. The locale \<open>sql_table\<close> states what a table's
  definitions must satisfy, and proves once what every table then guarantees.
\<close>

subsection \<open>Errors of the driver and their mapping (storage/sqlite\_errors.go)\<close>

datatype violation = CheckViolation | UniqueViolation | ForeignKeyViolation

datatype db_error = ErrNoRows | ConstraintFailed violation

text \<open>
  The text of an error: \<open>sql.ErrNoRows\<close>, or the driver's rendering of SQLITE\_CONSTRAINT,
  which starts with SQLite's own result string.
\<close>

fun error_text :: "db_error \<Rightarrow> string" where
  "error_text ErrNoRows = ''sql: no rows in result set''"
| "error_text (ConstraintFailed CheckViolation) = ''constraint failed: CHECK constraint failed''"
| "error_text (ConstraintFailed UniqueViolation) = ''constraint failed: UNIQUE constraint failed''"
| "error_text (ConstraintFailed ForeignKeyViolation) =
     ''constraint failed: FOREIGN KEY constraint failed''"

datatype app_error = ErrConflict db_error | Unmapped db_error

definition MapSQLiteError :: "db_error \<Rightarrow> app_error" where
  "MapSQLiteError e =
     (let message = error_text e in
      if contains message ''constraint failed'' \<or> contains message ''constraint violation''
      then ErrConflict e else Unmapped e)"

text \<open>\<open>errors.Is(storage.MapSQLiteError(err), storage.ErrConflict)\<close>.\<close>

definition is_conflict :: "db_error \<Rightarrow> bool" where
  "is_conflict e = (case MapSQLiteError e of ErrConflict _ \<Rightarrow> True | Unmapped _ \<Rightarrow> False)"

lemma is_conflict_simps [simp]:
  "is_conflict (ConstraintFailed v)" "\<not> is_conflict ErrNoRows"
proof -
  show "is_conflict (ConstraintFailed v)"
    by (cases v) (simp_all add: is_conflict_def MapSQLiteError_def HasPrefix_def)
  show "\<not> is_conflict ErrNoRows" by (simp add: is_conflict_def MapSQLiteError_def HasPrefix_def)
qed

subsection \<open>Statements\<close>

definition next_rowid :: "('r \<Rightarrow> int) \<Rightarrow> 'r list \<Rightarrow> int" where
  "next_rowid rid t = (if t = [] then 1 else Max (set (map rid t)) + 1)"

definition sql_get :: "('r \<Rightarrow> bool) \<Rightarrow> 'r list \<Rightarrow> (db_error, 'r) result" where
  "sql_get P t = (case find P t of None \<Rightarrow> Inl ErrNoRows | Some r \<Rightarrow> Inr r)"

definition sql_insert ::
  "('r \<Rightarrow> int) \<Rightarrow> (int \<Rightarrow> 'r \<Rightarrow> 'r) \<Rightarrow> ('r \<Rightarrow> bool) \<Rightarrow> ('r \<Rightarrow> 'r \<Rightarrow> bool) \<Rightarrow> ('r \<Rightarrow> bool)
   \<Rightarrow> 'r \<Rightarrow> 'r list \<Rightarrow> (db_error, 'r \<times> 'r list) result" where
  "sql_insert rid with_rid check clash fk r t =
     (let r' = with_rid (next_rowid rid t) r in
      if \<not> check r' then Inl (ConstraintFailed CheckViolation)
      else if list_ex (clash r') t then Inl (ConstraintFailed UniqueViolation)
      else if \<not> fk r' then Inl (ConstraintFailed ForeignKeyViolation)
      else Inr (r', t @ [r']))"

text \<open>An \<open>INSERT\<close> that gives the \<open>rowid\<close> itself: it must be free.\<close>

definition sql_insert_at ::
  "('r \<Rightarrow> int) \<Rightarrow> ('r \<Rightarrow> bool) \<Rightarrow> ('r \<Rightarrow> 'r \<Rightarrow> bool) \<Rightarrow> ('r \<Rightarrow> bool) \<Rightarrow> 'r \<Rightarrow> 'r list
   \<Rightarrow> (db_error, 'r \<times> 'r list) result" where
  "sql_insert_at rid check clash fk r t =
     (if \<not> check r then Inl (ConstraintFailed CheckViolation)
      else if list_ex (\<lambda>x. rid x = rid r \<or> clash r x) t then Inl (ConstraintFailed UniqueViolation)
      else if \<not> fk r then Inl (ConstraintFailed ForeignKeyViolation)
      else Inr (r, t @ [r]))"

definition sql_update ::
  "('r \<Rightarrow> int) \<Rightarrow> ('r \<Rightarrow> bool) \<Rightarrow> ('r \<Rightarrow> 'r \<Rightarrow> bool) \<Rightarrow> ('r \<Rightarrow> bool)
   \<Rightarrow> int \<Rightarrow> ('r \<Rightarrow> bool) \<Rightarrow> ('r \<Rightarrow> 'r) \<Rightarrow> 'r list \<Rightarrow> (db_error, 'r \<times> 'r list) result" where
  "sql_update rid check clash fk i cond upd t =
     (case find (\<lambda>r. rid r = i \<and> cond r) t of
        None \<Rightarrow> Inl ErrNoRows
      | Some r \<Rightarrow>
          (let r' = upd r in
           if \<not> check r' then Inl (ConstraintFailed CheckViolation)
           else if list_ex (\<lambda>x. rid x \<noteq> i \<and> clash r' x) t
                then Inl (ConstraintFailed UniqueViolation)
           else if \<not> fk r' then Inl (ConstraintFailed ForeignKeyViolation)
           else Inr (r', map (\<lambda>x. if rid x = i then r' else x) t)))"

text \<open>A statement on a table, lifted to the state that holds the table.\<close>

definition stored ::
  "('t \<Rightarrow> 'd) \<Rightarrow> (db_error, 'r \<times> 't) result \<Rightarrow> (db_error, 'r \<times> 'd) result" where
  "stored put res = (case res of Inl e \<Rightarrow> Inl e | Inr (r, t) \<Rightarrow> Inr (r, put t))"

lemma stored_Inr: "stored put res = Inr (r, d') \<longleftrightarrow> (\<exists>t. res = Inr (r, t) \<and> d' = put t)"
  by (auto simp: stored_def split: sum.splits)

lemma stored_Inl: "stored put res = Inl e \<longleftrightarrow> res = Inl e"
  by (auto simp: stored_def split: sum.splits)

text \<open>
  What a table guarantees: positive and distinct ids, every row passes the CHECK constraints,
  and no two rows collide on a unique index.
\<close>

definition table_ok ::
  "('r \<Rightarrow> int) \<Rightarrow> ('r \<Rightarrow> bool) \<Rightarrow> ('r \<Rightarrow> 'r \<Rightarrow> bool) \<Rightarrow> 'r list \<Rightarrow> bool" where
  "table_ok rid check clash t \<longleftrightarrow>
     distinct (map rid t) \<and> (\<forall>r \<in> set t. 0 < rid r) \<and> (\<forall>r \<in> set t. check r)
     \<and> (\<forall>x \<in> set t. \<forall>y \<in> set t. rid x \<noteq> rid y \<longrightarrow> \<not> clash x y)"

definition row_ids :: "('r \<Rightarrow> int) \<Rightarrow> 'r list \<Rightarrow> int set" where
  "row_ids rid t = rid ` set t"

lemma sql_get_Inr: "sql_get P t = Inr r \<Longrightarrow> r \<in> set t \<and> P r"
  by (auto simp: sql_get_def split: option.splits dest: find_Some_iff_first)

lemma sql_get_Inl: "sql_get P t = Inl e \<Longrightarrow> e = ErrNoRows \<and> (\<forall>r \<in> set t. \<not> P r)"
  by (auto simp: sql_get_def find_None_set split: option.splits)

lemma sql_get_ErrNoRows: "(\<forall>r \<in> set t. \<not> P r) \<Longrightarrow> sql_get P t = Inl ErrNoRows"
  by (simp add: sql_get_def find_None_set [symmetric])

lemma next_rowid_fresh: "r \<in> set t \<Longrightarrow> rid r < next_rowid rid t"
  by (auto simp: next_rowid_def intro: Max_ge zle_add1_eq_le [THEN iffD2])

lemma table_ok_Nil [simp]: "table_ok rid check clash []"
  by (simp add: table_ok_def)

lemma table_ok_unique:
  "table_ok rid check clash t \<Longrightarrow> x \<in> set t \<Longrightarrow> y \<in> set t \<Longrightarrow> clash x y \<Longrightarrow> x = y"
  unfolding table_ok_def by (metis distinct_map_eq)

lemma table_ok_id:
  "table_ok rid check clash t \<Longrightarrow> x \<in> set t \<Longrightarrow> y \<in> set t \<Longrightarrow> rid x = rid y \<Longrightarrow> x = y"
  unfolding table_ok_def by (metis distinct_map_eq)

lemma table_ok_get:
  "table_ok rid check clash t \<Longrightarrow> r \<in> set t \<Longrightarrow> sql_get (\<lambda>x. rid x = rid r) t = Inr r"
  using find_unique [of r t "\<lambda>x. rid x = rid r"] table_ok_id [of rid check clash t _ r]
  by (auto simp: sql_get_def)

lemma sql_insert_Inr:
  "sql_insert rid with_rid check clash fk r t = Inr (r', t') \<longleftrightarrow>
     r' = with_rid (next_rowid rid t) r \<and> t' = t @ [r'] \<and> check r'
     \<and> (\<forall>x \<in> set t. \<not> clash r' x) \<and> fk r'"
  by (auto simp: sql_insert_def Let_def list_ex_iff)

lemma sql_insert_Inl:
  "sql_insert rid with_rid check clash fk r t = Inl e \<Longrightarrow> is_conflict e"
  by (auto simp: sql_insert_def Let_def split: if_splits)

lemma sql_insert_at_Inr:
  "sql_insert_at rid check clash fk r t = Inr (r', t') \<longleftrightarrow>
     r' = r \<and> t' = t @ [r] \<and> check r \<and> (\<forall>x \<in> set t. rid x \<noteq> rid r \<and> \<not> clash r x) \<and> fk r"
  by (auto simp: sql_insert_at_def list_ex_iff)

lemma sql_insert_at_ok:
  assumes "table_ok rid check clash t" "sql_insert_at rid check clash fk r t = Inr (r', t')" "0 < rid r"
    and "\<And>x y. clash x y \<Longrightarrow> clash y x"
  shows "table_ok rid check clash t'"
  using assms by (auto simp: sql_insert_at_Inr table_ok_def)

lemma sql_update_Inr:
  "sql_update rid check clash fk i cond upd t = Inr (r', t') \<longleftrightarrow>
     (\<exists>r. find (\<lambda>r. rid r = i \<and> cond r) t = Some r \<and> r' = upd r \<and> check r'
        \<and> (\<forall>x \<in> set t. rid x \<noteq> i \<longrightarrow> \<not> clash r' x) \<and> fk r'
        \<and> t' = map (\<lambda>x. if rid x = i then r' else x) t)"
  by (auto simp: sql_update_def Let_def list_ex_iff split: option.splits)

lemma sql_update_row:
  assumes "sql_update rid check clash fk i cond upd t = Inr (r', t')"
  shows "\<exists>r \<in> set t. rid r = i \<and> cond r \<and> r' = upd r"
  using assms by (auto simp: sql_update_Inr dest: find_Some_iff_first)

lemma sql_update_set:
  assumes "sql_update rid check clash fk i cond upd t = Inr (r', t')"
  shows "set t' = insert r' {x \<in> set t. rid x \<noteq> i}"
proof -
  from assms obtain r where "r \<in> set t" "rid r = i" using sql_update_row by metis
  moreover from assms have "t' = map (\<lambda>x. if rid x = i then r' else x) t"
    by (auto simp: sql_update_Inr)
  ultimately show ?thesis by auto
qed

text \<open>Reading by id from a table in which one row was replaced.\<close>

lemma find_replaced:
  "rid r = i \<Longrightarrow> find (\<lambda>x. rid x = j) (map (\<lambda>x. if rid x = i then r else x) t)
     = (if j = i then (if i \<in> rid ` set t then Some r else None) else find (\<lambda>x. rid x = j) t)"
  by (induction t) auto

lemma get_replaced:
  "rid r = i \<Longrightarrow> i \<in> rid ` set t \<Longrightarrow>
     sql_get (\<lambda>x. rid x = j) (map (\<lambda>x. if rid x = i then r else x) t)
     = (if j = i then Inr r else sql_get (\<lambda>x. rid x = j) t)"
  by (simp add: sql_get_def find_replaced)

lemma stored_update_rows:
  assumes "stored put (sql_update rid check clash fk i cond f t) = Inr (r', d')"
  obtains r where "r \<in> set t" "rid r = i" "cond r" "r' = f r"
    "d' = put (map (\<lambda>x. if rid x = i then r' else x) t)"
proof -
  from assms obtain t' where u: "sql_update rid check clash fk i cond f t = Inr (r', t')"
    and d': "d' = put t'" by (auto simp: stored_Inr)
  from sql_update_row [OF u] u d' that show ?thesis by (auto simp: sql_update_Inr)
qed

lemma stored_insert_rows:
  assumes "stored put (sql_insert rid with_rid check clash fk r t) = Inr (r', d')"
  shows "r' = with_rid (next_rowid rid t) r \<and> d' = put (t @ [r'])"
  using assms by (auto simp: stored_Inr sql_insert_Inr)

lemma next_rowid_new: "next_rowid rid t \<notin> rid ` set t"
  using next_rowid_fresh [of _ t rid] by fastforce

text \<open>An update of one row succeeds when the new row passes its constraints.\<close>

lemma sql_update_succeeds:
  assumes "table_ok rid check clash t" "r \<in> set t" "cond r" "check (f r)" "fk (f r)"
    and "\<And>x. x \<in> set t \<Longrightarrow> rid x \<noteq> rid r \<Longrightarrow> \<not> clash (f r) x"
  shows "sql_update rid check clash fk (rid r) cond f t
    = Inr (f r, map (\<lambda>x. if rid x = rid r then f r else x) t)"
proof -
  have "find (\<lambda>x. rid x = rid r \<and> cond x) t = Some r"
    using table_ok_id [OF assms(1) _ assms(2)] assms(2,3) by (intro find_unique) auto
  then show ?thesis using assms(4-6) by (auto simp: sql_update_def Let_def list_ex_iff)
qed

subsection \<open>The interface of a table\<close>

locale sql_table =
  fixes rid :: "'r \<Rightarrow> int"
    and with_rid :: "int \<Rightarrow> 'r \<Rightarrow> 'r"
    and check :: "'r \<Rightarrow> bool"
    and clash :: "'r \<Rightarrow> 'r \<Rightarrow> bool"
  assumes rid_with_rid: "rid (with_rid i r) = i"
    and clash_sym: "clash x y \<Longrightarrow> clash y x"
begin

lemma insert_id: "sql_insert rid with_rid check clash fk r t = Inr (r', t') \<Longrightarrow>
    rid r' = next_rowid rid t \<and> rid r' \<notin> row_ids rid t"
  using next_rowid_fresh [of _ t rid] by (force simp: sql_insert_Inr rid_with_rid row_ids_def)

lemma insert_ok:
  assumes ok: "table_ok rid check clash t"
    and ins: "sql_insert rid with_rid check clash fk r t = Inr (r', t')"
  shows "table_ok rid check clash t'"
proof -
  from ins have r': "check r'" "\<forall>x \<in> set t. \<not> clash r' x" and t': "t' = t @ [r']"
    unfolding sql_insert_Inr by blast+
  from insert_id [OF ins] have new: "rid r' \<notin> rid ` set t" and nx: "rid r' = next_rowid rid t"
    by (auto simp: row_ids_def)
  have pos: "0 < rid r'"
  proof (cases t)
    case Nil
    then show ?thesis using nx by (simp add: next_rowid_def)
  next
    case (Cons x xs)
    then have "rid x < rid r'" "0 < rid x"
      using nx next_rowid_fresh [of x t rid] ok by (auto simp: table_ok_def)
    then show ?thesis by simp
  qed
  from r' have "\<forall>x \<in> set t. \<not> clash x r'" using clash_sym by blast
  with ok r' t' new pos show ?thesis by (auto simp: table_ok_def)
qed

lemma update_ok:
  assumes ok: "table_ok rid check clash t"
    and upd: "sql_update rid check clash fk i cond f t = Inr (r', t')"
    and keep: "\<And>r. rid (f r) = rid r"
  shows "table_ok rid check clash t'"
proof -
  from upd obtain r where r: "rid r = i" "r \<in> set t" "r' = f r"
    using sql_update_row by metis
  from upd have c: "check r'" "\<forall>x \<in> set t. rid x \<noteq> i \<longrightarrow> \<not> clash r' x"
    and t': "t' = map (\<lambda>x. if rid x = i then r' else x) t"
    by (auto simp: sql_update_Inr)
  from r keep have i: "rid r' = i" by simp
  have ids: "map rid t' = map rid t" using t' i by simp
  have "\<forall>x \<in> set t. rid x \<noteq> i \<longrightarrow> \<not> clash x r'" using c(2) clash_sym by blast
  then have "\<forall>x \<in> set t'. \<forall>y \<in> set t'. rid x \<noteq> rid y \<longrightarrow> \<not> clash x y"
    using ok c(2) t' i by (auto simp: table_ok_def)
  moreover have "\<forall>x \<in> set t'. 0 < rid x" "\<forall>x \<in> set t'. check x"
    using ok c(1) t' i r by (auto simp: table_ok_def)
  ultimately show ?thesis using ok ids by (simp add: table_ok_def)
qed

lemma update_ids:
  assumes upd: "sql_update rid check clash fk i cond f t = Inr (r', t')"
    and keep: "\<And>r. rid (f r) = rid r"
  shows "map rid t' = map rid t" "row_ids rid t' = row_ids rid t"
proof -
  from upd obtain r where "rid r = i" "r' = f r" using sql_update_row by metis
  moreover from upd have "t' = map (\<lambda>x. if rid x = i then r' else x) t"
    by (auto simp: sql_update_Inr)
  ultimately show ids: "map rid t' = map rid t" using keep by simp
  have "row_ids rid t' = set (map rid t')" by (simp add: row_ids_def)
  also have "\<dots> = row_ids rid t" unfolding ids by (simp add: row_ids_def)
  finally show "row_ids rid t' = row_ids rid t" .
qed

lemma insert_ids:
  "sql_insert rid with_rid check clash fk r t = Inr (r', t') \<Longrightarrow>
     row_ids rid t' = insert (rid r') (row_ids rid t)"
  by (auto simp: sql_insert_Inr row_ids_def)

text \<open>The effect of a stored statement on a table that is in order.\<close>

lemma stored_insert:
  assumes "stored put (sql_insert rid with_rid check clash fk r t) = Inr (r', d')"
    and "table_ok rid check clash t"
  obtains t' where "d' = put t'" "table_ok rid check clash t'"
    "row_ids rid t' = insert (rid r') (row_ids rid t)" "set t' = insert r' (set t)" "fk r'"
proof -
  from assms(1) obtain t' where d': "d' = put t'"
    and ins: "sql_insert rid with_rid check clash fk r t = Inr (r', t')"
    by (auto simp: stored_Inr)
  from ins have "t' = t @ [r']" "fk r'" unfolding sql_insert_Inr by blast+
  with d' insert_ok [OF assms(2) ins] insert_ids [OF ins] show ?thesis
    by (intro that [of t']) auto
qed

lemma stored_update:
  assumes "stored put (sql_update rid check clash fk i cond f t) = Inr (r', d')"
    and "table_ok rid check clash t"
    and keep: "\<And>r. rid (f r) = rid r"
  obtains t' where "d' = put t'" "table_ok rid check clash t'"
    "row_ids rid t' = row_ids rid t" "set t' \<subseteq> insert r' (set t)" "fk r'"
proof -
  from assms(1) obtain t' where d': "d' = put t'"
    and upd: "sql_update rid check clash fk i cond f t = Inr (r', t')"
    by (auto simp: stored_Inr)
  from upd have "set t' \<subseteq> insert r' (set t)" "fk r'" by (auto simp: sql_update_Inr)
  with d' update_ok [OF assms(2) upd keep] update_ids [OF upd keep] show ?thesis
    by (intro that [of t']) auto
qed

text \<open>What a later read returns: the inserted or rewritten row, and every other row as before.\<close>

lemma get_after_insert:
  assumes ins: "sql_insert rid with_rid check clash fk r t = Inr (r', t')"
  shows "sql_get (\<lambda>x. rid x = j) t'
         = (if j = rid r' then Inr r' else sql_get (\<lambda>x. rid x = j) t)"
proof -
  from ins have t': "t' = t @ [r']" by (simp add: sql_insert_Inr)
  from insert_id [OF ins] have "\<forall>x \<in> set t. rid x \<noteq> rid r'" by (force simp: row_ids_def)
  then have "find (\<lambda>x. rid x = rid r') t = None" by (simp add: find_None_set)
  then show ?thesis by (simp add: sql_get_def t' find_append split: option.splits)
qed

lemma get_after_update:
  assumes upd: "sql_update rid check clash fk i cond f t = Inr (r', t')"
    and keep: "\<And>r. rid (f r) = rid r"
  shows "sql_get (\<lambda>x. rid x = j) t' = (if j = i then Inr r' else sql_get (\<lambda>x. rid x = j) t)"
proof -
  from upd obtain r where r: "r \<in> set t" "rid r = i" "r' = f r" using sql_update_row by metis
  from upd have t': "t' = map (\<lambda>x. if rid x = i then r' else x) t"
    by (auto simp: sql_update_Inr)
  have i: "rid r' = i" using r keep by simp
  show ?thesis using r(1,2) i unfolding t' by (intro get_replaced) auto
qed

end

end
