(* ===== verification/Schema.thy ===== *)
theory Schema
  imports SqlTable
begin

text \<open>
  The database of the application: one record per row type of \<^verbatim>\<open>storage/db/models.go\<close>, the
  CHECK, UNIQUE and FOREIGN KEY constraints that \<^verbatim>\<open>migrations/001_baseline.sql\<close> puts on its
  table, and the record \<open>db\<close> of all tables. A \<open>sql.NullString\<close> or \<open>sql.NullInt64\<close> is an
  \<open>option\<close>. The names of the fields are the column names behind a prefix for the table.

  The tables are interpretations of the locale \<open>sql_table\<close>, so that what the locale proves of
  inserts and updates holds for each of them. \<open>db_ok\<close> collects what the constraints promise of
  the whole database.
\<close>

text \<open>
  A JSON document, as \<open>json.Marshal\<close> receives it in the details of an audit entry. The column
  stores its text; here it stores the value, an association list per object.
\<close>

datatype json = JStr string | JInt int | JBool bool | JObj "(string \<times> json) list"

record ProgramGroup =
  gp_id :: int
  gp_code :: string
  gp_name :: string
  gp_status :: string
  gp_created_at :: string
  gp_updated_at :: string

record Program =
  pg_id :: int
  pg_program_group_id :: int
  pg_code :: string
  pg_name :: string
  pg_default_hours :: int
  pg_moodle_course_id :: "string option"
  pg_status :: string
  pg_created_at :: string
  pg_updated_at :: string

record Employer =
  em_id :: int
  em_inn :: string
  em_inn_normalized :: string
  em_canonical_name :: string
  em_created_at :: string
  em_updated_at :: string
  em_status :: string

record Worker =
  wk_id :: int
  wk_last_name :: string
  wk_first_name :: string
  wk_middle_name :: "string option"
  wk_snils :: string
  wk_snils_normalized :: string
  wk_email :: string
  wk_birth_date :: "string option"
  wk_created_at :: string
  wk_updated_at :: string
  wk_status :: string

record WorkerEmployer =
  we_id :: int
  we_worker_id :: int
  we_employer_id :: int
  we_current_position :: string
  we_current_department :: "string option"
  we_status :: string
  we_created_at :: string
  we_updated_at :: string

record Import =
  im_id :: int
  im_profile :: string
  im_source_file_name :: "string option"
  im_source_sha256 :: "string option"
  im_source_size_bytes :: "int option"
  im_idempotency_key :: "string option"
  im_uploaded_by_actor :: string
  im_received_at :: string
  im_status :: string
  im_phase :: "string option"
  im_temp_file_token :: "string option"
  im_temp_file_expires_at :: "string option"
  im_lease_owner :: "string option"
  im_lease_expires_at :: "string option"
  im_heartbeat_at :: "string option"
  im_attempt :: int
  im_rows_total :: int
  im_rows_processed :: int
  im_rows_applied :: int
  im_rows_duplicate :: int
  im_rows_needs_review :: int
  im_error_code :: "string option"
  im_error_detail :: "string option"
  im_started_at :: "string option"
  im_staged_at :: "string option"
  im_completed_at :: "string option"
  im_created_at :: string
  im_updated_at :: string

record ImportRow =
  ir_id :: int
  ir_import_id :: int
  ir_sheet_name :: string
  ir_row_number :: int
  ir_raw_data :: string
  ir_created_at :: string

record ImportSheet =
  is_id :: int
  is_import_id :: int
  is_sheet_name :: string
  is_sheet_order :: int
  is_sheet_profile :: string
  is_header_map :: string
  is_rows_found :: int
  is_rows_staged :: int
  is_status :: string
  is_created_at :: string
  is_updated_at :: string

record LegacyImportRow =
  ly_import_row_id :: int
  ly_source_fingerprint :: string
  ly_employer_name :: "string option"
  ly_inn_normalized :: "string option"
  ly_last_name :: "string option"
  ly_first_name :: "string option"
  ly_middle_name :: "string option"
  ly_snils_normalized :: "string option"
  ly_email_normalized :: "string option"
  ly_position :: "string option"
  ly_department :: "string option"
  ly_program_text :: "string option"
  ly_training_start_date :: "string option"
  ly_training_end_date :: "string option"
  ly_protocol_number :: "string option"
  ly_protocol_date :: "string option"
  ly_assessment_result :: "string option"
  ly_mintrud_registry_number :: "string option"
  ly_source_reference :: "string option"
  ly_moodle_username :: "string option"
  ly_moodle_email :: "string option"
  ly_extra_fields :: string
  ly_status :: string
  ly_version :: int
  ly_employer_id :: "int option"
  ly_worker_id :: "int option"
  ly_worker_employer_id :: "int option"
  ly_program_id :: "int option"
  ly_client_request_id :: "int option"
  ly_training_record_id :: "int option"
  ly_protocol_id :: "int option"
  ly_protocol_participant_id :: "int option"
  ly_moodle_account_id :: "int option"
  ly_created_at :: string
  ly_updated_at :: string

record ClientRequest =
  cr_id :: int
  cr_employer_id :: int
  cr_received_date :: string
  cr_source_type :: string
  cr_source_import_id :: "int option"
  cr_status :: string
  cr_notes :: "string option"
  cr_created_at :: string
  cr_updated_at :: string

record RequestRow =
  rr_id :: int
  rr_client_request_id :: int
  rr_row_number :: int
  rr_raw_data :: string
  rr_raw_full_name :: "string option"
  rr_parsed_last_name :: "string option"
  rr_parsed_first_name :: "string option"
  rr_parsed_middle_name :: "string option"
  rr_parsed_snils :: "string option"
  rr_parsed_email :: "string option"
  rr_parsed_position :: "string option"
  rr_status :: string
  rr_error_summary :: "string option"
  rr_created_at :: string
  rr_updated_at :: string

record TrainingRecord =
  tr_id :: int
  tr_worker_employer_id :: int
  tr_program_id :: int
  tr_client_request_id :: "int option"
  tr_position :: string
  tr_department :: "string option"
  tr_source_reference :: "string option"
  tr_hours :: int
  tr_requires_mintrud_test :: int
  tr_moodle_status :: string
  tr_moodle_error :: "string option"
  tr_moodle_enrolled_at :: "string option"
  tr_status :: string
  tr_created_at :: string
  tr_updated_at :: string

record RequestTrainingItem =
  ri_id :: int
  ri_request_row_id :: int
  ri_program_id :: int
  ri_status :: string
  ri_error_summary :: "string option"
  ri_resolution :: "string option"
  ri_training_record_id :: "int option"
  ri_created_at :: string
  ri_updated_at :: string

record Protocol =
  pr_id :: int
  pr_program_group_id :: int
  pr_status :: string
  pr_training_start_date :: "string option"
  pr_training_end_date :: "string option"
  pr_protocol_date :: "string option"
  pr_sequence_year :: "int option"
  pr_protocol_month :: "int option"
  pr_annual_sequence_number :: "int option"
  pr_protocol_number :: "string option"
  pr_fixed_at :: "string option"
  pr_created_at :: string
  pr_updated_at :: string
  pr_protocol_suffix :: "string option"

record ProtocolParticipant =
  pp_id :: int
  pp_protocol_id :: int
  pp_training_record_id :: int
  pp_status :: string
  pp_requires_mintrud_test_confirmed_at :: "string option"
  pp_mintrud_registry_number :: "string option"
  pp_mintrud_registry_entered_at :: "string option"
  pp_assessment_result :: "string option"
  pp_created_at :: string
  pp_updated_at :: string

record GenerationRun =
  gr_id :: int
  gr_protocol_id :: int
  gr_type :: string
  gr_status :: string
  gr_file_name :: "string option"
  gr_generated_at :: string
  gr_error_message :: "string option"
  gr_created_at :: string

record ActionLog =
  al_id :: int
  al_actor :: string
  al_action :: string
  al_entity_type :: string
  al_entity_id :: "int option"
  al_details :: "(string \<times> json) list option"
  al_created_at :: string

record User =
  us_id :: int
  us_login :: string
  us_password_hash :: string
  us_role :: string
  us_status :: string
  us_created_at :: string
  us_updated_at :: string

record db =
  program_groups :: "ProgramGroup list"
  programs :: "Program list"
  employers :: "Employer list"
  workers :: "Worker list"
  worker_employers :: "WorkerEmployer list"
  imports_tbl :: "Import list"
  import_rows :: "ImportRow list"
  import_sheets :: "ImportSheet list"
  legacy_import_rows :: "LegacyImportRow list"
  client_requests :: "ClientRequest list"
  request_rows :: "RequestRow list"
  training_records :: "TrainingRecord list"
  request_training_items :: "RequestTrainingItem list"
  protocols :: "Protocol list"
  protocol_participants :: "ProtocolParticipant list"
  generation_runs :: "GenerationRun list"
  action_log :: "ActionLog list"
  users :: "User list"

definition empty_db :: db where
  "empty_db = \<lparr>program_groups = [], programs = [], employers = [], workers = [],
     worker_employers = [], imports_tbl = [], import_rows = [], import_sheets = [],
     legacy_import_rows = [], client_requests = [],
     request_rows = [], training_records = [], request_training_items = [], protocols = [],
     protocol_participants = [], generation_runs = [], action_log = [], users = []\<rparr>"

text \<open>
  SQLite's \<open>length\<close> of a text: its characters up to the first NUL. A lead byte takes the
  continuation bytes behind it along.
\<close>

function sqlite_length :: "string \<Rightarrow> nat" where
  "sqlite_length [] = 0"
| "sqlite_length (c # s) =
     (if byte c = 0 then 0
      else if 192 \<le> byte c then Suc (sqlite_length (dropWhile is_cont s))
      else Suc (sqlite_length s))"
  by pat_completeness auto
termination
  by (relation "measure length") (auto simp: le_imp_less_Suc length_dropWhile_le)

subsection \<open>CHECK constraints and unique indexes\<close>

definition group_check :: "ProgramGroup \<Rightarrow> bool" where
  "group_check r = (gp_status r \<in> set [''active'', ''inactive''])"

definition group_clash :: "ProgramGroup \<Rightarrow> ProgramGroup \<Rightarrow> bool" where
  "group_clash x y = (gp_code x = gp_code y)"

definition program_check :: "Program \<Rightarrow> bool" where
  "program_check r = (0 < pg_default_hours r \<and> pg_status r \<in> set [''active'', ''inactive''])"

definition program_clash :: "Program \<Rightarrow> Program \<Rightarrow> bool" where
  "program_clash x y = (pg_program_group_id x = pg_program_group_id y \<and> pg_code x = pg_code y)"

definition employer_check :: "Employer \<Rightarrow> bool" where
  "employer_check r = (em_status r \<in> set [''active'', ''inactive''])"

definition employer_clash :: "Employer \<Rightarrow> Employer \<Rightarrow> bool" where
  "employer_clash x y = (em_inn_normalized x = em_inn_normalized y)"

definition worker_check :: "Worker \<Rightarrow> bool" where
  "worker_check r = (wk_status r \<in> set [''active'', ''inactive''])"

definition worker_clash :: "Worker \<Rightarrow> Worker \<Rightarrow> bool" where
  "worker_clash x y = (wk_snils_normalized x = wk_snils_normalized y)"

definition worker_employer_check :: "WorkerEmployer \<Rightarrow> bool" where
  "worker_employer_check r = (we_status r \<in> set [''active'', ''inactive''])"

definition worker_employer_clash :: "WorkerEmployer \<Rightarrow> WorkerEmployer \<Rightarrow> bool" where
  "worker_employer_clash x y =
     (we_status x = ''active'' \<and> we_status y = ''active''
      \<and> we_worker_id x = we_worker_id y \<and> we_employer_id x = we_employer_id y)"

definition is_lower_hex :: "char \<Rightarrow> bool" where
  "is_lower_hex c = (is_ascii_digit c \<or> 97 \<le> byte c \<and> byte c \<le> 102)"

definition sha256_hex :: "string \<Rightarrow> bool" where
  "sha256_hex s = (sqlite_length s = 64 \<and> list_all is_lower_hex s)"

definition import_check :: "Import \<Rightarrow> bool" where
  "import_check r =
     (im_profile r \<in> set [''legacy_registry'', ''client_request'']
      \<and> (case im_source_sha256 r of None \<Rightarrow> True | Some h \<Rightarrow> sha256_hex h)
      \<and> (case im_source_size_bytes r of None \<Rightarrow> True | Some n \<Rightarrow> 0 \<le> n)
      \<and> im_status r \<in> set [''queued'', ''processing'', ''completed'',
          ''completed_with_issues'', ''failed'', ''cancelled'']
      \<and> (case im_phase r of None \<Rightarrow> True
         | Some p \<Rightarrow> p \<in> set [''parsing'', ''staging'', ''validating'', ''applying'', ''finalizing''])
      \<and> 0 \<le> im_attempt r \<and> 0 \<le> im_rows_total r \<and> 0 \<le> im_rows_processed r
      \<and> 0 \<le> im_rows_applied r \<and> 0 \<le> im_rows_duplicate r \<and> 0 \<le> im_rows_needs_review r)"

definition active_legacy :: "Import \<Rightarrow> bool" where
  "active_legacy r =
     (im_profile r = ''legacy_registry'' \<and> im_source_sha256 r \<noteq> None
      \<and> im_status r \<in> set [''queued'', ''processing'', ''completed'', ''completed_with_issues''])"

definition import_clash :: "Import \<Rightarrow> Import \<Rightarrow> bool" where
  "import_clash x y =
     (im_idempotency_key x \<noteq> None \<and> im_idempotency_key x = im_idempotency_key y
      \<or> active_legacy x \<and> active_legacy y \<and> im_source_sha256 x = im_source_sha256 y)"

definition import_row_check :: "ImportRow \<Rightarrow> bool" where
  "import_row_check r = (0 < ir_row_number r)"

definition import_row_clash :: "ImportRow \<Rightarrow> ImportRow \<Rightarrow> bool" where
  "import_row_clash x y =
     (ir_import_id x = ir_import_id y \<and> ir_sheet_name x = ir_sheet_name y
      \<and> ir_row_number x = ir_row_number y)"

definition import_sheet_check :: "ImportSheet \<Rightarrow> bool" where
  "import_sheet_check r =
     (0 < is_sheet_order r \<and> 0 \<le> is_rows_found r \<and> 0 \<le> is_rows_staged r
      \<and> is_status r \<in> set [''pending'', ''parsing'', ''staged'', ''failed''])"

definition import_sheet_clash :: "ImportSheet \<Rightarrow> ImportSheet \<Rightarrow> bool" where
  "import_sheet_clash x y =
     (is_import_id x = is_import_id y
      \<and> (is_sheet_name x = is_sheet_name y \<or> is_sheet_order x = is_sheet_order y))"

definition legacy_row_check :: "LegacyImportRow \<Rightarrow> bool" where
  "legacy_row_check r =
     (sha256_hex (ly_source_fingerprint r)
      \<and> ly_status r \<in> set [''staged'', ''valid'', ''applying'', ''applied'', ''duplicate'',
          ''needs_review'', ''skipped'']
      \<and> 0 < ly_version r)"

definition client_request_check :: "ClientRequest \<Rightarrow> bool" where
  "client_request_check r =
     (cr_source_type r \<in> set [''xlsx'', ''manual'', ''other'']
      \<and> cr_status r \<in> set [''review'', ''completed'', ''cancelled''])"

definition no_clash :: "'r \<Rightarrow> 'r \<Rightarrow> bool" where
  "no_clash x y = False"

definition request_row_check :: "RequestRow \<Rightarrow> bool" where
  "request_row_check r =
     (0 < rr_row_number r
      \<and> rr_status r \<in> set [''pending'', ''parsed'', ''invalid'', ''applied'', ''skipped''])"

definition request_row_clash :: "RequestRow \<Rightarrow> RequestRow \<Rightarrow> bool" where
  "request_row_clash x y =
     (rr_client_request_id x = rr_client_request_id y \<and> rr_row_number x = rr_row_number y)"

definition training_record_check :: "TrainingRecord \<Rightarrow> bool" where
  "training_record_check r =
     (0 < tr_hours r \<and> tr_requires_mintrud_test r \<in> set [0, 1]
      \<and> tr_moodle_status r \<in> set [''not_required'', ''pending'', ''enrolled'', ''failed'']
      \<and> tr_status r \<in> set [''active'', ''cancelled''])"

definition request_item_check :: "RequestTrainingItem \<Rightarrow> bool" where
  "request_item_check r =
     (ri_status r \<in> set [''pending'', ''valid'', ''invalid'', ''duplicate'', ''conflict'',
        ''applied'', ''skipped'']
      \<and> (case ri_resolution r of None \<Rightarrow> True
         | Some x \<Rightarrow> x \<in> set [''skip_duplicate'', ''link_existing'', ''create_repeat'']))"

definition protocol_check :: "Protocol \<Rightarrow> bool" where
  "protocol_check r =
     (pr_status r \<in> set [''draft'', ''fixed'', ''xml_uploaded'', ''registry_entered'',
        ''generated'', ''completed'', ''cancelled'']
      \<and> (case pr_sequence_year r of None \<Rightarrow> True | Some y \<Rightarrow> 2000 \<le> y)
      \<and> (case pr_protocol_month r of None \<Rightarrow> True | Some m \<Rightarrow> 1 \<le> m \<and> m \<le> 12)
      \<and> (case pr_annual_sequence_number r of None \<Rightarrow> True | Some n \<Rightarrow> 0 < n)
      \<and> (pr_protocol_number r = None
         \<or> pr_sequence_year r \<noteq> None \<and> pr_protocol_month r \<noteq> None
            \<and> pr_annual_sequence_number r \<noteq> None \<and> pr_fixed_at r \<noteq> None)
      \<and> (pr_status r \<notin> set [''fixed'', ''xml_uploaded'', ''registry_entered'', ''generated'',
            ''completed'']
         \<or> pr_training_start_date r \<noteq> None \<and> pr_training_end_date r \<noteq> None
            \<and> pr_protocol_date r \<noteq> None \<and> pr_sequence_year r \<noteq> None
            \<and> pr_protocol_month r \<noteq> None \<and> pr_annual_sequence_number r \<noteq> None
            \<and> pr_protocol_number r \<noteq> None \<and> pr_fixed_at r \<noteq> None))"

definition coalesce :: "string option \<Rightarrow> string" where
  "coalesce x = (case x of None \<Rightarrow> '''' | Some s \<Rightarrow> s)"

text \<open>
  The two partial unique indexes of \<open>protocols\<close>. A NULL in an indexed column makes the entry
  distinct from every other one.
\<close>

definition same_slot :: "Protocol \<Rightarrow> Protocol \<Rightarrow> bool" where
  "same_slot x y =
     (pr_annual_sequence_number x \<noteq> None
      \<and> pr_annual_sequence_number x = pr_annual_sequence_number y
      \<and> pr_program_group_id x = pr_program_group_id y
      \<and> pr_sequence_year x \<noteq> None \<and> pr_sequence_year x = pr_sequence_year y
      \<and> coalesce (pr_protocol_suffix x) = coalesce (pr_protocol_suffix y))"

definition same_number :: "Protocol \<Rightarrow> Protocol \<Rightarrow> bool" where
  "same_number x y =
     (pr_protocol_number x \<noteq> None \<and> pr_protocol_number x = pr_protocol_number y
      \<and> pr_program_group_id x = pr_program_group_id y)"

definition protocol_clash :: "Protocol \<Rightarrow> Protocol \<Rightarrow> bool" where
  "protocol_clash x y = (same_slot x y \<or> same_number x y)"

definition participant_check :: "ProtocolParticipant \<Rightarrow> bool" where
  "participant_check r = (pp_status r \<in> set [''active'', ''removed''])"

definition participant_clash :: "ProtocolParticipant \<Rightarrow> ProtocolParticipant \<Rightarrow> bool" where
  "participant_clash x y =
     (pp_status x = ''active'' \<and> pp_status y = ''active''
      \<and> pp_training_record_id x = pp_training_record_id y)"

definition generation_check :: "GenerationRun \<Rightarrow> bool" where
  "generation_check r =
     (gr_type r \<in> set [''xml'', ''docx'', ''moodle_credentials'', ''xlsx_export'']
      \<and> gr_status r \<in> set [''success'', ''failed'', ''stale''])"

definition action_log_check :: "ActionLog \<Rightarrow> bool" where
  "action_log_check r = (0 < sqlite_length (al_actor r) \<and> sqlite_length (al_actor r) \<le> 200)"

definition user_check :: "User \<Rightarrow> bool" where
  "user_check r =
     (us_role r \<in> set [''operator'', ''admin''] \<and> us_status r \<in> set [''active'', ''disabled''])"

definition user_clash :: "User \<Rightarrow> User \<Rightarrow> bool" where
  "user_clash x y = (us_login x = us_login y)"

lemmas clash_defs = group_clash_def program_clash_def employer_clash_def worker_clash_def
  worker_employer_clash_def import_clash_def import_row_clash_def import_sheet_clash_def no_clash_def
  request_row_clash_def same_slot_def same_number_def protocol_clash_def participant_clash_def
  user_clash_def

subsection \<open>Foreign keys\<close>

definition opt_ref :: "int option \<Rightarrow> int set \<Rightarrow> bool" where
  "opt_ref x ids = (case x of None \<Rightarrow> True | Some i \<Rightarrow> i \<in> ids)"

definition program_fk :: "db \<Rightarrow> Program \<Rightarrow> bool" where
  "program_fk d r = (pg_program_group_id r \<in> row_ids gp_id (program_groups d))"

definition worker_employer_fk :: "db \<Rightarrow> WorkerEmployer \<Rightarrow> bool" where
  "worker_employer_fk d r =
     (we_worker_id r \<in> row_ids wk_id (workers d) \<and> we_employer_id r \<in> row_ids em_id (employers d))"

definition import_row_fk :: "db \<Rightarrow> ImportRow \<Rightarrow> bool" where
  "import_row_fk d r = (ir_import_id r \<in> row_ids im_id (imports_tbl d))"

definition import_sheet_fk :: "db \<Rightarrow> ImportSheet \<Rightarrow> bool" where
  "import_sheet_fk d r = (is_import_id r \<in> row_ids im_id (imports_tbl d))"

text \<open>No statement of the sources fills \<open>moodle_accounts\<close>, so a reference into it cannot hold.\<close>

definition legacy_row_fk :: "db \<Rightarrow> LegacyImportRow \<Rightarrow> bool" where
  "legacy_row_fk d r =
     (ly_import_row_id r \<in> row_ids ir_id (import_rows d)
      \<and> opt_ref (ly_employer_id r) (row_ids em_id (employers d))
      \<and> opt_ref (ly_worker_id r) (row_ids wk_id (workers d))
      \<and> opt_ref (ly_worker_employer_id r) (row_ids we_id (worker_employers d))
      \<and> opt_ref (ly_program_id r) (row_ids pg_id (programs d))
      \<and> opt_ref (ly_client_request_id r) (row_ids cr_id (client_requests d))
      \<and> opt_ref (ly_training_record_id r) (row_ids tr_id (training_records d))
      \<and> opt_ref (ly_protocol_id r) (row_ids pr_id (protocols d))
      \<and> opt_ref (ly_protocol_participant_id r) (row_ids pp_id (protocol_participants d))
      \<and> opt_ref (ly_moodle_account_id r) {})"

definition client_request_fk :: "db \<Rightarrow> ClientRequest \<Rightarrow> bool" where
  "client_request_fk d r =
     (cr_employer_id r \<in> row_ids em_id (employers d)
      \<and> opt_ref (cr_source_import_id r) (row_ids im_id (imports_tbl d)))"

definition request_row_fk :: "db \<Rightarrow> RequestRow \<Rightarrow> bool" where
  "request_row_fk d r = (rr_client_request_id r \<in> row_ids cr_id (client_requests d))"

definition training_record_fk :: "db \<Rightarrow> TrainingRecord \<Rightarrow> bool" where
  "training_record_fk d r =
     (tr_worker_employer_id r \<in> row_ids we_id (worker_employers d)
      \<and> tr_program_id r \<in> row_ids pg_id (programs d)
      \<and> opt_ref (tr_client_request_id r) (row_ids cr_id (client_requests d)))"

definition request_item_fk :: "db \<Rightarrow> RequestTrainingItem \<Rightarrow> bool" where
  "request_item_fk d r =
     (ri_request_row_id r \<in> row_ids rr_id (request_rows d)
      \<and> ri_program_id r \<in> row_ids pg_id (programs d)
      \<and> opt_ref (ri_training_record_id r) (row_ids tr_id (training_records d)))"

definition protocol_fk :: "db \<Rightarrow> Protocol \<Rightarrow> bool" where
  "protocol_fk d r = (pr_program_group_id r \<in> row_ids gp_id (program_groups d))"

definition participant_fk :: "db \<Rightarrow> ProtocolParticipant \<Rightarrow> bool" where
  "participant_fk d r =
     (pp_protocol_id r \<in> row_ids pr_id (protocols d)
      \<and> pp_training_record_id r \<in> row_ids tr_id (training_records d))"

definition generation_fk :: "db \<Rightarrow> GenerationRun \<Rightarrow> bool" where
  "generation_fk d r = (gr_protocol_id r \<in> row_ids pr_id (protocols d))"

definition no_fk :: "'r \<Rightarrow> bool" where
  "no_fk r = True"

lemmas fk_defs = program_fk_def worker_employer_fk_def import_row_fk_def import_sheet_fk_def legacy_row_fk_def client_request_fk_def
  request_row_fk_def training_record_fk_def request_item_fk_def protocol_fk_def
  participant_fk_def generation_fk_def no_fk_def

subsection \<open>The tables as instances of the interface\<close>

interpretation gp: sql_table gp_id "\<lambda>i r. r\<lparr>gp_id := i\<rparr>" group_check group_clash
  by unfold_locales (auto simp: clash_defs)

interpretation pg: sql_table pg_id "\<lambda>i r. r\<lparr>pg_id := i\<rparr>" program_check program_clash
  by unfold_locales (auto simp: clash_defs)

interpretation em: sql_table em_id "\<lambda>i r. r\<lparr>em_id := i\<rparr>" employer_check employer_clash
  by unfold_locales (auto simp: clash_defs)

interpretation wk: sql_table wk_id "\<lambda>i r. r\<lparr>wk_id := i\<rparr>" worker_check worker_clash
  by unfold_locales (auto simp: clash_defs)

interpretation we: sql_table we_id "\<lambda>i r. r\<lparr>we_id := i\<rparr>" worker_employer_check worker_employer_clash
  by unfold_locales (auto simp: clash_defs)

interpretation im: sql_table im_id "\<lambda>i r. r\<lparr>im_id := i\<rparr>" import_check import_clash
  by unfold_locales (simp, metis import_clash_def)

interpretation ir: sql_table ir_id "\<lambda>i r. r\<lparr>ir_id := i\<rparr>" import_row_check import_row_clash
  by unfold_locales (auto simp: clash_defs)

interpretation ish: sql_table is_id "\<lambda>i r. r\<lparr>is_id := i\<rparr>" import_sheet_check import_sheet_clash
  by unfold_locales (auto simp: clash_defs)

interpretation cr: sql_table cr_id "\<lambda>i r. r\<lparr>cr_id := i\<rparr>" client_request_check no_clash
  by unfold_locales (auto simp: clash_defs)

interpretation rr: sql_table rr_id "\<lambda>i r. r\<lparr>rr_id := i\<rparr>" request_row_check request_row_clash
  by unfold_locales (auto simp: clash_defs)

interpretation tr: sql_table tr_id "\<lambda>i r. r\<lparr>tr_id := i\<rparr>" training_record_check no_clash
  by unfold_locales (auto simp: clash_defs)

interpretation ri: sql_table ri_id "\<lambda>i r. r\<lparr>ri_id := i\<rparr>" request_item_check no_clash
  by unfold_locales (auto simp: clash_defs)

interpretation pr: sql_table pr_id "\<lambda>i r. r\<lparr>pr_id := i\<rparr>" protocol_check protocol_clash
  by unfold_locales (auto simp: clash_defs)

interpretation pp: sql_table pp_id "\<lambda>i r. r\<lparr>pp_id := i\<rparr>" participant_check participant_clash
  by unfold_locales (auto simp: clash_defs)

interpretation gr: sql_table gr_id "\<lambda>i r. r\<lparr>gr_id := i\<rparr>" generation_check no_clash
  by unfold_locales (auto simp: clash_defs)

interpretation al: sql_table al_id "\<lambda>i r. r\<lparr>al_id := i\<rparr>" action_log_check no_clash
  by unfold_locales (auto simp: clash_defs)

interpretation us: sql_table us_id "\<lambda>i r. r\<lparr>us_id := i\<rparr>" user_check user_clash
  by unfold_locales (auto simp: clash_defs)

subsection \<open>The invariant of the database\<close>

definition tables_ok :: "db \<Rightarrow> bool" where
  "tables_ok d \<longleftrightarrow>
     table_ok gp_id group_check group_clash (program_groups d)
     \<and> table_ok pg_id program_check program_clash (programs d)
     \<and> table_ok em_id employer_check employer_clash (employers d)
     \<and> table_ok wk_id worker_check worker_clash (workers d)
     \<and> table_ok we_id worker_employer_check worker_employer_clash (worker_employers d)
     \<and> table_ok im_id import_check import_clash (imports_tbl d)
     \<and> table_ok ir_id import_row_check import_row_clash (import_rows d)
     \<and> table_ok is_id import_sheet_check import_sheet_clash (import_sheets d)
     \<and> table_ok ly_import_row_id legacy_row_check no_clash (legacy_import_rows d)
     \<and> table_ok cr_id client_request_check no_clash (client_requests d)
     \<and> table_ok rr_id request_row_check request_row_clash (request_rows d)
     \<and> table_ok tr_id training_record_check no_clash (training_records d)
     \<and> table_ok ri_id request_item_check no_clash (request_training_items d)
     \<and> table_ok pr_id protocol_check protocol_clash (protocols d)
     \<and> table_ok pp_id participant_check participant_clash (protocol_participants d)
     \<and> table_ok gr_id generation_check no_clash (generation_runs d)
     \<and> table_ok al_id action_log_check no_clash (action_log d)
     \<and> table_ok us_id user_check user_clash (users d)"

definition refs_ok :: "db \<Rightarrow> bool" where
  "refs_ok d \<longleftrightarrow>
     (\<forall>r \<in> set (programs d). program_fk d r)
     \<and> (\<forall>r \<in> set (worker_employers d). worker_employer_fk d r)
     \<and> (\<forall>r \<in> set (import_rows d). import_row_fk d r)
     \<and> (\<forall>r \<in> set (import_sheets d). import_sheet_fk d r)
     \<and> (\<forall>r \<in> set (legacy_import_rows d). legacy_row_fk d r)
     \<and> (\<forall>r \<in> set (client_requests d). client_request_fk d r)
     \<and> (\<forall>r \<in> set (request_rows d). request_row_fk d r)
     \<and> (\<forall>r \<in> set (training_records d). training_record_fk d r)
     \<and> (\<forall>r \<in> set (request_training_items d). request_item_fk d r)
     \<and> (\<forall>r \<in> set (protocols d). protocol_fk d r)
     \<and> (\<forall>r \<in> set (protocol_participants d). participant_fk d r)
     \<and> (\<forall>r \<in> set (generation_runs d). generation_fk d r)"

definition db_ok :: "db \<Rightarrow> bool" where
  "db_ok d \<longleftrightarrow> tables_ok d \<and> refs_ok d"

lemma empty_db_ok: "db_ok empty_db"
  by (simp add: db_ok_def tables_ok_def refs_ok_def empty_db_def)

end
