(* ===== verification/Statements.thy ===== *)
theory Statements
  imports Schema
begin

text \<open>
  The write statements of each table, lifted to the database: \<open>ins_<table>\<close> inserts a row and
  \<open>upd_<table>\<close> rewrites the row with a given id that satisfies a condition. Each evaluates its
  table's CHECK constraints, unique indexes and foreign keys, and each keeps \<open>db_ok\<close>: whatever
  sequence of statements the services issue, in whatever interleaving, the constraints of the
  schema hold between any two statements.
\<close>

definition ins_group :: "db \<Rightarrow> ProgramGroup \<Rightarrow> (db_error, ProgramGroup \<times> db) result" where
  "ins_group d r = stored (\<lambda>t. d\<lparr>program_groups := t\<rparr>)
     (sql_insert gp_id (\<lambda>i r. r\<lparr>gp_id := i\<rparr>) group_check group_clash no_fk r (program_groups d))"

definition upd_group ::
  "db \<Rightarrow> int \<Rightarrow> (ProgramGroup \<Rightarrow> bool) \<Rightarrow> (ProgramGroup \<Rightarrow> ProgramGroup) \<Rightarrow> (db_error, ProgramGroup \<times> db) result" where
  "upd_group d i cond f = stored (\<lambda>t. d\<lparr>program_groups := t\<rparr>)
     (sql_update gp_id group_check group_clash no_fk i cond f (program_groups d))"

definition ins_program :: "db \<Rightarrow> Program \<Rightarrow> (db_error, Program \<times> db) result" where
  "ins_program d r = stored (\<lambda>t. d\<lparr>programs := t\<rparr>)
     (sql_insert pg_id (\<lambda>i r. r\<lparr>pg_id := i\<rparr>) program_check program_clash (program_fk d) r (programs d))"

definition upd_program ::
  "db \<Rightarrow> int \<Rightarrow> (Program \<Rightarrow> bool) \<Rightarrow> (Program \<Rightarrow> Program) \<Rightarrow> (db_error, Program \<times> db) result" where
  "upd_program d i cond f = stored (\<lambda>t. d\<lparr>programs := t\<rparr>)
     (sql_update pg_id program_check program_clash (program_fk d) i cond f (programs d))"

definition ins_employer :: "db \<Rightarrow> Employer \<Rightarrow> (db_error, Employer \<times> db) result" where
  "ins_employer d r = stored (\<lambda>t. d\<lparr>employers := t\<rparr>)
     (sql_insert em_id (\<lambda>i r. r\<lparr>em_id := i\<rparr>) employer_check employer_clash no_fk r (employers d))"

definition upd_employer ::
  "db \<Rightarrow> int \<Rightarrow> (Employer \<Rightarrow> bool) \<Rightarrow> (Employer \<Rightarrow> Employer) \<Rightarrow> (db_error, Employer \<times> db) result" where
  "upd_employer d i cond f = stored (\<lambda>t. d\<lparr>employers := t\<rparr>)
     (sql_update em_id employer_check employer_clash no_fk i cond f (employers d))"

definition ins_worker :: "db \<Rightarrow> Worker \<Rightarrow> (db_error, Worker \<times> db) result" where
  "ins_worker d r = stored (\<lambda>t. d\<lparr>workers := t\<rparr>)
     (sql_insert wk_id (\<lambda>i r. r\<lparr>wk_id := i\<rparr>) worker_check worker_clash no_fk r (workers d))"

definition upd_worker ::
  "db \<Rightarrow> int \<Rightarrow> (Worker \<Rightarrow> bool) \<Rightarrow> (Worker \<Rightarrow> Worker) \<Rightarrow> (db_error, Worker \<times> db) result" where
  "upd_worker d i cond f = stored (\<lambda>t. d\<lparr>workers := t\<rparr>)
     (sql_update wk_id worker_check worker_clash no_fk i cond f (workers d))"

definition ins_worker_employer :: "db \<Rightarrow> WorkerEmployer \<Rightarrow> (db_error, WorkerEmployer \<times> db) result" where
  "ins_worker_employer d r = stored (\<lambda>t. d\<lparr>worker_employers := t\<rparr>)
     (sql_insert we_id (\<lambda>i r. r\<lparr>we_id := i\<rparr>) worker_employer_check worker_employer_clash (worker_employer_fk d) r (worker_employers d))"

definition upd_worker_employer ::
  "db \<Rightarrow> int \<Rightarrow> (WorkerEmployer \<Rightarrow> bool) \<Rightarrow> (WorkerEmployer \<Rightarrow> WorkerEmployer) \<Rightarrow> (db_error, WorkerEmployer \<times> db) result" where
  "upd_worker_employer d i cond f = stored (\<lambda>t. d\<lparr>worker_employers := t\<rparr>)
     (sql_update we_id worker_employer_check worker_employer_clash (worker_employer_fk d) i cond f (worker_employers d))"

definition ins_import :: "db \<Rightarrow> Import \<Rightarrow> (db_error, Import \<times> db) result" where
  "ins_import d r = stored (\<lambda>t. d\<lparr>imports_tbl := t\<rparr>)
     (sql_insert im_id (\<lambda>i r. r\<lparr>im_id := i\<rparr>) import_check import_clash no_fk r (imports_tbl d))"

definition ins_import_row :: "db \<Rightarrow> ImportRow \<Rightarrow> (db_error, ImportRow \<times> db) result" where
  "ins_import_row d r = stored (\<lambda>t. d\<lparr>import_rows := t\<rparr>)
     (sql_insert ir_id (\<lambda>i r. r\<lparr>ir_id := i\<rparr>) import_row_check import_row_clash (import_row_fk d) r (import_rows d))"

definition upd_import ::
  "db \<Rightarrow> int \<Rightarrow> (Import \<Rightarrow> bool) \<Rightarrow> (Import \<Rightarrow> Import) \<Rightarrow> (db_error, Import \<times> db) result" where
  "upd_import d i cond f = stored (\<lambda>t. d\<lparr>imports_tbl := t\<rparr>)
     (sql_update im_id import_check import_clash no_fk i cond f (imports_tbl d))"

definition ins_import_sheet :: "db \<Rightarrow> ImportSheet \<Rightarrow> (db_error, ImportSheet \<times> db) result" where
  "ins_import_sheet d r = stored (\<lambda>t. d\<lparr>import_sheets := t\<rparr>)
     (sql_insert is_id (\<lambda>i r. r\<lparr>is_id := i\<rparr>) import_sheet_check import_sheet_clash (import_sheet_fk d) r (import_sheets d))"

definition upd_import_sheet ::
  "db \<Rightarrow> int \<Rightarrow> (ImportSheet \<Rightarrow> bool) \<Rightarrow> (ImportSheet \<Rightarrow> ImportSheet) \<Rightarrow> (db_error, ImportSheet \<times> db) result" where
  "upd_import_sheet d i cond f = stored (\<lambda>t. d\<lparr>import_sheets := t\<rparr>)
     (sql_update is_id import_sheet_check import_sheet_clash (import_sheet_fk d) i cond f (import_sheets d))"

definition ins_legacy_row :: "db \<Rightarrow> LegacyImportRow \<Rightarrow> (db_error, LegacyImportRow \<times> db) result" where
  "ins_legacy_row d r = stored (\<lambda>t. d\<lparr>legacy_import_rows := t\<rparr>)
     (sql_insert_at ly_import_row_id legacy_row_check no_clash (legacy_row_fk d) r (legacy_import_rows d))"

definition ins_client_request :: "db \<Rightarrow> ClientRequest \<Rightarrow> (db_error, ClientRequest \<times> db) result" where
  "ins_client_request d r = stored (\<lambda>t. d\<lparr>client_requests := t\<rparr>)
     (sql_insert cr_id (\<lambda>i r. r\<lparr>cr_id := i\<rparr>) client_request_check no_clash (client_request_fk d) r (client_requests d))"

definition upd_client_request ::
  "db \<Rightarrow> int \<Rightarrow> (ClientRequest \<Rightarrow> bool) \<Rightarrow> (ClientRequest \<Rightarrow> ClientRequest) \<Rightarrow> (db_error, ClientRequest \<times> db) result" where
  "upd_client_request d i cond f = stored (\<lambda>t. d\<lparr>client_requests := t\<rparr>)
     (sql_update cr_id client_request_check no_clash (client_request_fk d) i cond f (client_requests d))"

definition ins_request_row :: "db \<Rightarrow> RequestRow \<Rightarrow> (db_error, RequestRow \<times> db) result" where
  "ins_request_row d r = stored (\<lambda>t. d\<lparr>request_rows := t\<rparr>)
     (sql_insert rr_id (\<lambda>i r. r\<lparr>rr_id := i\<rparr>) request_row_check request_row_clash (request_row_fk d) r (request_rows d))"

definition upd_request_row ::
  "db \<Rightarrow> int \<Rightarrow> (RequestRow \<Rightarrow> bool) \<Rightarrow> (RequestRow \<Rightarrow> RequestRow) \<Rightarrow> (db_error, RequestRow \<times> db) result" where
  "upd_request_row d i cond f = stored (\<lambda>t. d\<lparr>request_rows := t\<rparr>)
     (sql_update rr_id request_row_check request_row_clash (request_row_fk d) i cond f (request_rows d))"

definition ins_training_record :: "db \<Rightarrow> TrainingRecord \<Rightarrow> (db_error, TrainingRecord \<times> db) result" where
  "ins_training_record d r = stored (\<lambda>t. d\<lparr>training_records := t\<rparr>)
     (sql_insert tr_id (\<lambda>i r. r\<lparr>tr_id := i\<rparr>) training_record_check no_clash (training_record_fk d) r (training_records d))"

definition ins_request_item :: "db \<Rightarrow> RequestTrainingItem \<Rightarrow> (db_error, RequestTrainingItem \<times> db) result" where
  "ins_request_item d r = stored (\<lambda>t. d\<lparr>request_training_items := t\<rparr>)
     (sql_insert ri_id (\<lambda>i r. r\<lparr>ri_id := i\<rparr>) request_item_check no_clash (request_item_fk d) r (request_training_items d))"

definition upd_request_item ::
  "db \<Rightarrow> int \<Rightarrow> (RequestTrainingItem \<Rightarrow> bool) \<Rightarrow> (RequestTrainingItem \<Rightarrow> RequestTrainingItem) \<Rightarrow> (db_error, RequestTrainingItem \<times> db) result" where
  "upd_request_item d i cond f = stored (\<lambda>t. d\<lparr>request_training_items := t\<rparr>)
     (sql_update ri_id request_item_check no_clash (request_item_fk d) i cond f (request_training_items d))"

definition ins_protocol :: "db \<Rightarrow> Protocol \<Rightarrow> (db_error, Protocol \<times> db) result" where
  "ins_protocol d r = stored (\<lambda>t. d\<lparr>protocols := t\<rparr>)
     (sql_insert pr_id (\<lambda>i r. r\<lparr>pr_id := i\<rparr>) protocol_check protocol_clash (protocol_fk d) r (protocols d))"

definition upd_protocol ::
  "db \<Rightarrow> int \<Rightarrow> (Protocol \<Rightarrow> bool) \<Rightarrow> (Protocol \<Rightarrow> Protocol) \<Rightarrow> (db_error, Protocol \<times> db) result" where
  "upd_protocol d i cond f = stored (\<lambda>t. d\<lparr>protocols := t\<rparr>)
     (sql_update pr_id protocol_check protocol_clash (protocol_fk d) i cond f (protocols d))"

definition ins_participant :: "db \<Rightarrow> ProtocolParticipant \<Rightarrow> (db_error, ProtocolParticipant \<times> db) result" where
  "ins_participant d r = stored (\<lambda>t. d\<lparr>protocol_participants := t\<rparr>)
     (sql_insert pp_id (\<lambda>i r. r\<lparr>pp_id := i\<rparr>) participant_check participant_clash (participant_fk d) r (protocol_participants d))"

definition upd_participant ::
  "db \<Rightarrow> int \<Rightarrow> (ProtocolParticipant \<Rightarrow> bool) \<Rightarrow> (ProtocolParticipant \<Rightarrow> ProtocolParticipant) \<Rightarrow> (db_error, ProtocolParticipant \<times> db) result" where
  "upd_participant d i cond f = stored (\<lambda>t. d\<lparr>protocol_participants := t\<rparr>)
     (sql_update pp_id participant_check participant_clash (participant_fk d) i cond f (protocol_participants d))"

definition ins_generation :: "db \<Rightarrow> GenerationRun \<Rightarrow> (db_error, GenerationRun \<times> db) result" where
  "ins_generation d r = stored (\<lambda>t. d\<lparr>generation_runs := t\<rparr>)
     (sql_insert gr_id (\<lambda>i r. r\<lparr>gr_id := i\<rparr>) generation_check no_clash (generation_fk d) r (generation_runs d))"

definition ins_action_log :: "db \<Rightarrow> ActionLog \<Rightarrow> (db_error, ActionLog \<times> db) result" where
  "ins_action_log d r = stored (\<lambda>t. d\<lparr>action_log := t\<rparr>)
     (sql_insert al_id (\<lambda>i r. r\<lparr>al_id := i\<rparr>) action_log_check no_clash no_fk r (action_log d))"

definition ins_user :: "db \<Rightarrow> User \<Rightarrow> (db_error, User \<times> db) result" where
  "ins_user d r = stored (\<lambda>t. d\<lparr>users := t\<rparr>)
     (sql_insert us_id (\<lambda>i r. r\<lparr>us_id := i\<rparr>) user_check user_clash no_fk r (users d))"

subsection \<open>Every statement keeps the invariant\<close>

lemmas db_ok_defs = db_ok_def tables_ok_def refs_ok_def
lemmas ref_defs = fk_defs opt_ref_def subset_iff

text \<open>
  References stay valid when no id disappears and every new row passes its foreign keys.
\<close>

definition ids_kept :: "db \<Rightarrow> db \<Rightarrow> bool" where
  "ids_kept d d' \<longleftrightarrow>
     row_ids gp_id (program_groups d) \<subseteq> row_ids gp_id (program_groups d')
     \<and> row_ids pg_id (programs d) \<subseteq> row_ids pg_id (programs d')
     \<and> row_ids em_id (employers d) \<subseteq> row_ids em_id (employers d')
     \<and> row_ids wk_id (workers d) \<subseteq> row_ids wk_id (workers d')
     \<and> row_ids we_id (worker_employers d) \<subseteq> row_ids we_id (worker_employers d')
     \<and> row_ids im_id (imports_tbl d) \<subseteq> row_ids im_id (imports_tbl d')
     \<and> row_ids ir_id (import_rows d) \<subseteq> row_ids ir_id (import_rows d')
     \<and> row_ids cr_id (client_requests d) \<subseteq> row_ids cr_id (client_requests d')
     \<and> row_ids rr_id (request_rows d) \<subseteq> row_ids rr_id (request_rows d')
     \<and> row_ids tr_id (training_records d) \<subseteq> row_ids tr_id (training_records d')
     \<and> row_ids pr_id (protocols d) \<subseteq> row_ids pr_id (protocols d')
     \<and> row_ids pp_id (protocol_participants d) \<subseteq> row_ids pp_id (protocol_participants d')"

definition new_rows_ok :: "db \<Rightarrow> db \<Rightarrow> bool" where
  "new_rows_ok d d' \<longleftrightarrow>
     (\<forall>r \<in> set (programs d'). r \<in> set (programs d) \<or> program_fk d r)
     \<and> (\<forall>r \<in> set (worker_employers d'). r \<in> set (worker_employers d) \<or> worker_employer_fk d r)
     \<and> (\<forall>r \<in> set (import_rows d'). r \<in> set (import_rows d) \<or> import_row_fk d r)
     \<and> (\<forall>r \<in> set (import_sheets d'). r \<in> set (import_sheets d) \<or> import_sheet_fk d r)
     \<and> (\<forall>r \<in> set (legacy_import_rows d'). r \<in> set (legacy_import_rows d) \<or> legacy_row_fk d r)
     \<and> (\<forall>r \<in> set (client_requests d'). r \<in> set (client_requests d) \<or> client_request_fk d r)
     \<and> (\<forall>r \<in> set (request_rows d'). r \<in> set (request_rows d) \<or> request_row_fk d r)
     \<and> (\<forall>r \<in> set (training_records d'). r \<in> set (training_records d) \<or> training_record_fk d r)
     \<and> (\<forall>r \<in> set (request_training_items d'). r \<in> set (request_training_items d) \<or> request_item_fk d r)
     \<and> (\<forall>r \<in> set (protocols d'). r \<in> set (protocols d) \<or> protocol_fk d r)
     \<and> (\<forall>r \<in> set (protocol_participants d'). r \<in> set (protocol_participants d) \<or> participant_fk d r)
     \<and> (\<forall>r \<in> set (generation_runs d'). r \<in> set (generation_runs d) \<or> generation_fk d r)"

lemma opt_ref_mono: "opt_ref x A \<Longrightarrow> A \<subseteq> B \<Longrightarrow> opt_ref x B"
  by (auto simp: opt_ref_def split: option.splits)

lemma fk_mono:
  assumes "ids_kept d d'"
  shows "program_fk d r0 \<Longrightarrow> program_fk d' r0"
    "worker_employer_fk d r1 \<Longrightarrow> worker_employer_fk d' r1"
    "import_row_fk d r2 \<Longrightarrow> import_row_fk d' r2"
    "import_sheet_fk d r3 \<Longrightarrow> import_sheet_fk d' r3"
    "legacy_row_fk d r4 \<Longrightarrow> legacy_row_fk d' r4"
    "client_request_fk d r5 \<Longrightarrow> client_request_fk d' r5"
    "request_row_fk d r6 \<Longrightarrow> request_row_fk d' r6"
    "training_record_fk d r7 \<Longrightarrow> training_record_fk d' r7"
    "request_item_fk d r8 \<Longrightarrow> request_item_fk d' r8"
    "protocol_fk d r9 \<Longrightarrow> protocol_fk d' r9"
    "participant_fk d r10 \<Longrightarrow> participant_fk d' r10"
    "generation_fk d r11 \<Longrightarrow> generation_fk d' r11"
  using assms unfolding ids_kept_def fk_defs by (blast intro: opt_ref_mono)+

lemma refs_ok_step:
  assumes "refs_ok d" "ids_kept d d'" "new_rows_ok d d'"
  shows "refs_ok d'"
  using assms(1,3) unfolding refs_ok_def new_rows_ok_def
  by (intro conjI ballI; elim conjE; meson fk_mono [OF assms(2)])

lemmas step_defs = db_ok_def tables_ok_def ids_kept_def new_rows_ok_def

lemma ins_group_ok:
  assumes "db_ok d" "ins_group d r = Inr (r', d')"
  shows "db_ok d'"
  using assms(2) unfolding ins_group_def
  by (rule gp.stored_insert)
    (use assms(1) in \<open>auto simp: step_defs intro!: refs_ok_step [of d]\<close>)

lemma upd_group_ok:
  assumes "db_ok d" "upd_group d i cond f = Inr (r', d')" "\<And>r. gp_id (f r) = gp_id r"
  shows "db_ok d'"
  using assms(2) unfolding upd_group_def
  by (rule gp.stored_update)
    (use assms(1,3) in \<open>auto simp: step_defs intro!: refs_ok_step [of d]\<close>)

lemma ins_program_ok:
  assumes "db_ok d" "ins_program d r = Inr (r', d')"
  shows "db_ok d'"
  using assms(2) unfolding ins_program_def
  by (rule pg.stored_insert)
    (use assms(1) in \<open>auto simp: step_defs intro!: refs_ok_step [of d]\<close>)

lemma upd_program_ok:
  assumes "db_ok d" "upd_program d i cond f = Inr (r', d')" "\<And>r. pg_id (f r) = pg_id r"
  shows "db_ok d'"
  using assms(2) unfolding upd_program_def
  by (rule pg.stored_update)
    (use assms(1,3) in \<open>auto simp: step_defs intro!: refs_ok_step [of d]\<close>)

lemma ins_employer_ok:
  assumes "db_ok d" "ins_employer d r = Inr (r', d')"
  shows "db_ok d'"
  using assms(2) unfolding ins_employer_def
  by (rule em.stored_insert)
    (use assms(1) in \<open>auto simp: step_defs intro!: refs_ok_step [of d]\<close>)

lemma upd_employer_ok:
  assumes "db_ok d" "upd_employer d i cond f = Inr (r', d')" "\<And>r. em_id (f r) = em_id r"
  shows "db_ok d'"
  using assms(2) unfolding upd_employer_def
  by (rule em.stored_update)
    (use assms(1,3) in \<open>auto simp: step_defs intro!: refs_ok_step [of d]\<close>)

lemma ins_worker_ok:
  assumes "db_ok d" "ins_worker d r = Inr (r', d')"
  shows "db_ok d'"
  using assms(2) unfolding ins_worker_def
  by (rule wk.stored_insert)
    (use assms(1) in \<open>auto simp: step_defs intro!: refs_ok_step [of d]\<close>)

lemma upd_worker_ok:
  assumes "db_ok d" "upd_worker d i cond f = Inr (r', d')" "\<And>r. wk_id (f r) = wk_id r"
  shows "db_ok d'"
  using assms(2) unfolding upd_worker_def
  by (rule wk.stored_update)
    (use assms(1,3) in \<open>auto simp: step_defs intro!: refs_ok_step [of d]\<close>)

lemma ins_worker_employer_ok:
  assumes "db_ok d" "ins_worker_employer d r = Inr (r', d')"
  shows "db_ok d'"
  using assms(2) unfolding ins_worker_employer_def
  by (rule we.stored_insert)
    (use assms(1) in \<open>auto simp: step_defs intro!: refs_ok_step [of d]\<close>)

lemma upd_worker_employer_ok:
  assumes "db_ok d" "upd_worker_employer d i cond f = Inr (r', d')" "\<And>r. we_id (f r) = we_id r"
  shows "db_ok d'"
  using assms(2) unfolding upd_worker_employer_def
  by (rule we.stored_update)
    (use assms(1,3) in \<open>auto simp: step_defs intro!: refs_ok_step [of d]\<close>)

lemma ins_import_ok:
  assumes "db_ok d" "ins_import d r = Inr (r', d')"
  shows "db_ok d'"
  using assms(2) unfolding ins_import_def
  by (rule im.stored_insert)
    (use assms(1) in \<open>auto simp: step_defs intro!: refs_ok_step [of d]\<close>)

lemma ins_import_row_ok:
  assumes "db_ok d" "ins_import_row d r = Inr (r', d')"
  shows "db_ok d'"
  using assms(2) unfolding ins_import_row_def
  by (rule ir.stored_insert)
    (use assms(1) in \<open>auto simp: step_defs intro!: refs_ok_step [of d]\<close>)

lemma upd_import_ok:
  assumes "db_ok d" "upd_import d i cond f = Inr (r', d')" "\<And>r. im_id (f r) = im_id r"
  shows "db_ok d'"
  using assms(2) unfolding upd_import_def
  by (rule im.stored_update)
    (use assms(1,3) in \<open>auto simp: step_defs intro!: refs_ok_step [of d]\<close>)

lemma ins_import_sheet_ok:
  assumes "db_ok d" "ins_import_sheet d r = Inr (r', d')"
  shows "db_ok d'"
  using assms(2) unfolding ins_import_sheet_def
  by (rule ish.stored_insert)
    (use assms(1) in \<open>auto simp: step_defs intro!: refs_ok_step [of d]\<close>)

lemma upd_import_sheet_ok:
  assumes "db_ok d" "upd_import_sheet d i cond f = Inr (r', d')" "\<And>r. is_id (f r) = is_id r"
  shows "db_ok d'"
  using assms(2) unfolding upd_import_sheet_def
  by (rule ish.stored_update)
    (use assms(1,3) in \<open>auto simp: step_defs intro!: refs_ok_step [of d]\<close>)

lemma ins_legacy_row_ok:
  assumes "db_ok d" "ins_legacy_row d r = Inr (r', d')"
  shows "db_ok d'"
proof -
  from assms(2) obtain t' where t': "d' = d\<lparr>legacy_import_rows := t'\<rparr>"
    and ins: "sql_insert_at ly_import_row_id legacy_row_check no_clash (legacy_row_fk d) r
        (legacy_import_rows d) = Inr (r', t')"
    by (auto simp: ins_legacy_row_def stored_Inr)
  from ins have fk: "legacy_row_fk d r" and app: "t' = legacy_import_rows d @ [r]"
    by (auto simp: sql_insert_at_Inr)
  have "0 < ly_import_row_id r"
    using fk assms(1) by (auto simp: legacy_row_fk_def row_ids_def db_ok_defs table_ok_def)
  then have "table_ok ly_import_row_id legacy_row_check no_clash t'"
    using sql_insert_at_ok [OF _ ins] assms(1) by (auto simp: db_ok_defs no_clash_def)
  with assms(1) t' fk app show ?thesis by (auto simp: step_defs intro!: refs_ok_step [of d])
qed

lemma ins_client_request_ok:
  assumes "db_ok d" "ins_client_request d r = Inr (r', d')"
  shows "db_ok d'"
  using assms(2) unfolding ins_client_request_def
  by (rule cr.stored_insert)
    (use assms(1) in \<open>auto simp: step_defs intro!: refs_ok_step [of d]\<close>)

lemma upd_client_request_ok:
  assumes "db_ok d" "upd_client_request d i cond f = Inr (r', d')" "\<And>r. cr_id (f r) = cr_id r"
  shows "db_ok d'"
  using assms(2) unfolding upd_client_request_def
  by (rule cr.stored_update)
    (use assms(1,3) in \<open>auto simp: step_defs intro!: refs_ok_step [of d]\<close>)

lemma ins_request_row_ok:
  assumes "db_ok d" "ins_request_row d r = Inr (r', d')"
  shows "db_ok d'"
  using assms(2) unfolding ins_request_row_def
  by (rule rr.stored_insert)
    (use assms(1) in \<open>auto simp: step_defs intro!: refs_ok_step [of d]\<close>)

lemma upd_request_row_ok:
  assumes "db_ok d" "upd_request_row d i cond f = Inr (r', d')" "\<And>r. rr_id (f r) = rr_id r"
  shows "db_ok d'"
  using assms(2) unfolding upd_request_row_def
  by (rule rr.stored_update)
    (use assms(1,3) in \<open>auto simp: step_defs intro!: refs_ok_step [of d]\<close>)

lemma ins_training_record_ok:
  assumes "db_ok d" "ins_training_record d r = Inr (r', d')"
  shows "db_ok d'"
  using assms(2) unfolding ins_training_record_def
  by (rule tr.stored_insert)
    (use assms(1) in \<open>auto simp: step_defs intro!: refs_ok_step [of d]\<close>)

lemma ins_request_item_ok:
  assumes "db_ok d" "ins_request_item d r = Inr (r', d')"
  shows "db_ok d'"
  using assms(2) unfolding ins_request_item_def
  by (rule ri.stored_insert)
    (use assms(1) in \<open>auto simp: step_defs intro!: refs_ok_step [of d]\<close>)

lemma upd_request_item_ok:
  assumes "db_ok d" "upd_request_item d i cond f = Inr (r', d')" "\<And>r. ri_id (f r) = ri_id r"
  shows "db_ok d'"
  using assms(2) unfolding upd_request_item_def
  by (rule ri.stored_update)
    (use assms(1,3) in \<open>auto simp: step_defs intro!: refs_ok_step [of d]\<close>)

lemma ins_protocol_ok:
  assumes "db_ok d" "ins_protocol d r = Inr (r', d')"
  shows "db_ok d'"
  using assms(2) unfolding ins_protocol_def
  by (rule pr.stored_insert)
    (use assms(1) in \<open>auto simp: step_defs intro!: refs_ok_step [of d]\<close>)

lemma upd_protocol_ok:
  assumes "db_ok d" "upd_protocol d i cond f = Inr (r', d')" "\<And>r. pr_id (f r) = pr_id r"
  shows "db_ok d'"
  using assms(2) unfolding upd_protocol_def
  by (rule pr.stored_update)
    (use assms(1,3) in \<open>auto simp: step_defs intro!: refs_ok_step [of d]\<close>)

lemma ins_participant_ok:
  assumes "db_ok d" "ins_participant d r = Inr (r', d')"
  shows "db_ok d'"
  using assms(2) unfolding ins_participant_def
  by (rule pp.stored_insert)
    (use assms(1) in \<open>auto simp: step_defs intro!: refs_ok_step [of d]\<close>)

lemma upd_participant_ok:
  assumes "db_ok d" "upd_participant d i cond f = Inr (r', d')" "\<And>r. pp_id (f r) = pp_id r"
  shows "db_ok d'"
  using assms(2) unfolding upd_participant_def
  by (rule pp.stored_update)
    (use assms(1,3) in \<open>auto simp: step_defs intro!: refs_ok_step [of d]\<close>)

lemma ins_generation_ok:
  assumes "db_ok d" "ins_generation d r = Inr (r', d')"
  shows "db_ok d'"
  using assms(2) unfolding ins_generation_def
  by (rule gr.stored_insert)
    (use assms(1) in \<open>auto simp: step_defs intro!: refs_ok_step [of d]\<close>)

lemma ins_action_log_ok:
  assumes "db_ok d" "ins_action_log d r = Inr (r', d')"
  shows "db_ok d'"
  using assms(2) unfolding ins_action_log_def
  by (rule al.stored_insert)
    (use assms(1) in \<open>auto simp: step_defs intro!: refs_ok_step [of d]\<close>)

lemma ins_user_ok:
  assumes "db_ok d" "ins_user d r = Inr (r', d')"
  shows "db_ok d'"
  using assms(2) unfolding ins_user_def
  by (rule us.stored_insert)
    (use assms(1) in \<open>auto simp: step_defs intro!: refs_ok_step [of d]\<close>)

end
