(* ===== verification/Queries.thy ===== *)
theory Queries
  imports Statements "HOL-Library.List_Lexorder" "HOL-Library.Char_ord"
    "HOL-Library.Product_Lexorder"
begin

text \<open>
  The statements of \<^verbatim>\<open>storage/db/*.sql.go\<close> that the services call, one definition each, named
  after the generated method with the prefix \<open>q_\<close>. A read returns the row or \<open>ErrNoRows\<close>; a
  \<open>:one\<close> read without an order returns the first match in \<open>rowid\<close> order. A write returns the
  row of its RETURNING clause and the new database. A column the statement leaves out gets
  its default: NULL, or the DEFAULT of the schema.

  \<open>ORDER BY\<close> on text compares bytes (SQLite's BINARY collation), which is the lexicographic
  order of \<open>string\<close>.
\<close>

subsection \<open>action\_log\<close>

definition q_CreateActionLog ::
  "db \<Rightarrow> string \<Rightarrow> string \<Rightarrow> string \<Rightarrow> int option \<Rightarrow> (string \<times> json) list option \<Rightarrow> string
   \<Rightarrow> (db_error, ActionLog \<times> db) result" where
  "q_CreateActionLog d actor act etype eid details created =
     ins_action_log d \<lparr>al_id = 0, al_actor = actor, al_action = act, al_entity_type = etype,
       al_entity_id = eid, al_details = details, al_created_at = created\<rparr>"

definition q_ListActionLogsByEntity :: "db \<Rightarrow> string \<Rightarrow> int \<Rightarrow> ActionLog list" where
  "q_ListActionLogsByEntity d etype eid =
     sort_key al_id (filter (\<lambda>r. al_entity_type r = etype \<and> al_entity_id r = Some eid) (action_log d))"

definition log_filter ::
  "string \<Rightarrow> string \<Rightarrow> string \<Rightarrow> string \<Rightarrow> string \<Rightarrow> ActionLog \<Rightarrow> bool" where
  "log_filter actor act etype lo hi r =
     ((sqlite_length actor = 0 \<or> al_actor r = actor)
      \<and> (sqlite_length act = 0 \<or> al_action r = act)
      \<and> (sqlite_length etype = 0 \<or> al_entity_type r = etype)
      \<and> (sqlite_length lo = 0 \<or> lo \<le> al_created_at r)
      \<and> (sqlite_length hi = 0 \<or> al_created_at r \<le> hi))"

text \<open>\<open>LIMIT\<close> and \<open>OFFSET\<close>: a negative limit is no limit, a negative offset is 0.\<close>

definition limit_offset :: "int \<Rightarrow> int \<Rightarrow> 'r list \<Rightarrow> 'r list" where
  "limit_offset lim off xs =
     (let ys = drop (nat off) xs in if lim < 0 then ys else take (nat lim) ys)"

definition q_ListActionLogsFiltered ::
  "db \<Rightarrow> string \<Rightarrow> string \<Rightarrow> string \<Rightarrow> string \<Rightarrow> string \<Rightarrow> int \<Rightarrow> int \<Rightarrow> ActionLog list" where
  "q_ListActionLogsFiltered d actor act etype lo hi lim off =
     limit_offset lim off
       (rev (sort_key (\<lambda>r. (al_created_at r, al_id r))
          (filter (log_filter actor act etype lo hi) (action_log d))))"

definition q_CountActionLogsFiltered ::
  "db \<Rightarrow> string \<Rightarrow> string \<Rightarrow> string \<Rightarrow> string \<Rightarrow> string \<Rightarrow> nat" where
  "q_CountActionLogsFiltered d actor act etype lo hi =
     length (filter (log_filter actor act etype lo hi) (action_log d))"

subsection \<open>program\_groups\<close>

definition q_ListProgramGroups :: "db \<Rightarrow> ProgramGroup list" where
  "q_ListProgramGroups d = sort_key gp_code (program_groups d)"

definition q_GetProgramGroup :: "db \<Rightarrow> int \<Rightarrow> (db_error, ProgramGroup) result" where
  "q_GetProgramGroup d i = sql_get (\<lambda>r. gp_id r = i) (program_groups d)"

definition q_GetGroupByID :: "db \<Rightarrow> int \<Rightarrow> (db_error, ProgramGroup) result" where
  "q_GetGroupByID d i = sql_get (\<lambda>r. gp_id r = i) (program_groups d)"

definition q_CreateProgramGroup ::
  "db \<Rightarrow> string \<Rightarrow> string \<Rightarrow> string \<Rightarrow> string \<Rightarrow> (db_error, ProgramGroup \<times> db) result" where
  "q_CreateProgramGroup d code name created updated =
     ins_group d \<lparr>gp_id = 0, gp_code = code, gp_name = name, gp_status = ''active'',
       gp_created_at = created, gp_updated_at = updated\<rparr>"

definition q_UpdateGroup ::
  "db \<Rightarrow> string \<Rightarrow> string \<Rightarrow> string \<Rightarrow> int \<Rightarrow> (db_error, ProgramGroup \<times> db) result" where
  "q_UpdateGroup d code name updated i =
     upd_group d i (\<lambda>_. True)
       (\<lambda>r. r\<lparr>gp_code := code, gp_name := name, gp_updated_at := updated\<rparr>)"

definition q_DeactivateGroup ::
  "db \<Rightarrow> string \<Rightarrow> int \<Rightarrow> (db_error, ProgramGroup \<times> db) result" where
  "q_DeactivateGroup d updated i =
     upd_group d i (\<lambda>_. True) (\<lambda>r. r\<lparr>gp_status := ''inactive'', gp_updated_at := updated\<rparr>)"

subsection \<open>programs\<close>

definition q_ListPrograms :: "db \<Rightarrow> Program list" where
  "q_ListPrograms d = sort_key pg_code (programs d)"

definition q_GetProgram :: "db \<Rightarrow> int \<Rightarrow> (db_error, Program) result" where
  "q_GetProgram d i = sql_get (\<lambda>r. pg_id r = i) (programs d)"

definition q_GetProgramByID :: "db \<Rightarrow> int \<Rightarrow> (db_error, Program) result" where
  "q_GetProgramByID d i = sql_get (\<lambda>r. pg_id r = i) (programs d)"

definition q_GetProgramByCode :: "db \<Rightarrow> string \<Rightarrow> (db_error, Program) result" where
  "q_GetProgramByCode d code = sql_get (\<lambda>r. pg_code r = code) (programs d)"

definition q_CreateProgram ::
  "db \<Rightarrow> int \<Rightarrow> string \<Rightarrow> string \<Rightarrow> int \<Rightarrow> string option \<Rightarrow> string \<Rightarrow> string
   \<Rightarrow> (db_error, Program \<times> db) result" where
  "q_CreateProgram d gid code name hours moodle created updated =
     ins_program d \<lparr>pg_id = 0, pg_program_group_id = gid, pg_code = code, pg_name = name,
       pg_default_hours = hours, pg_moodle_course_id = moodle, pg_status = ''active'',
       pg_created_at = created, pg_updated_at = updated\<rparr>"

definition q_UpdateProgram ::
  "db \<Rightarrow> int \<Rightarrow> string \<Rightarrow> string \<Rightarrow> int \<Rightarrow> string option \<Rightarrow> string \<Rightarrow> int
   \<Rightarrow> (db_error, Program \<times> db) result" where
  "q_UpdateProgram d gid code name hours moodle updated i =
     upd_program d i (\<lambda>_. True)
       (\<lambda>r. r\<lparr>pg_program_group_id := gid, pg_code := code, pg_name := name,
          pg_default_hours := hours, pg_moodle_course_id := moodle, pg_updated_at := updated\<rparr>)"

definition q_DeactivateProgram :: "db \<Rightarrow> string \<Rightarrow> int \<Rightarrow> (db_error, Program \<times> db) result" where
  "q_DeactivateProgram d updated i =
     upd_program d i (\<lambda>_. True) (\<lambda>r. r\<lparr>pg_status := ''inactive'', pg_updated_at := updated\<rparr>)"

subsection \<open>employers\<close>

definition q_ListEmployers :: "db \<Rightarrow> Employer list" where
  "q_ListEmployers d = sort_key em_canonical_name (employers d)"

definition q_GetEmployerByID :: "db \<Rightarrow> int \<Rightarrow> (db_error, Employer) result" where
  "q_GetEmployerByID d i = sql_get (\<lambda>r. em_id r = i) (employers d)"

definition q_CreateEmployer ::
  "db \<Rightarrow> string \<Rightarrow> string \<Rightarrow> string \<Rightarrow> string \<Rightarrow> string \<Rightarrow> (db_error, Employer \<times> db) result" where
  "q_CreateEmployer d inn inn_n name created updated =
     ins_employer d \<lparr>em_id = 0, em_inn = inn, em_inn_normalized = inn_n,
       em_canonical_name = name, em_created_at = created, em_updated_at = updated,
       em_status = ''active''\<rparr>"

definition q_UpdateEmployer ::
  "db \<Rightarrow> string \<Rightarrow> string \<Rightarrow> string \<Rightarrow> string \<Rightarrow> int \<Rightarrow> (db_error, Employer \<times> db) result" where
  "q_UpdateEmployer d inn inn_n name updated i =
     upd_employer d i (\<lambda>_. True)
       (\<lambda>r. r\<lparr>em_inn := inn, em_inn_normalized := inn_n, em_canonical_name := name,
          em_updated_at := updated\<rparr>)"

definition q_DeactivateEmployer :: "db \<Rightarrow> string \<Rightarrow> int \<Rightarrow> (db_error, Employer \<times> db) result" where
  "q_DeactivateEmployer d updated i =
     upd_employer d i (\<lambda>r. em_status r = ''active'')
       (\<lambda>r. r\<lparr>em_status := ''inactive'', em_updated_at := updated\<rparr>)"

subsection \<open>workers\<close>

definition q_ListWorkers :: "db \<Rightarrow> Worker list" where
  "q_ListWorkers d =
     sort_key (\<lambda>r. (wk_last_name r, wk_first_name r,
                    case wk_middle_name r of None \<Rightarrow> [] | Some m \<Rightarrow> [m])) (workers d)"

definition q_GetWorkerByNormalizedSNILS :: "db \<Rightarrow> string \<Rightarrow> (db_error, Worker) result" where
  "q_GetWorkerByNormalizedSNILS d snils =
     sql_get (\<lambda>r. wk_snils_normalized r = snils) (workers d)"

definition q_GetWorkerByID :: "db \<Rightarrow> int \<Rightarrow> (db_error, Worker) result" where
  "q_GetWorkerByID d i = sql_get (\<lambda>r. wk_id r = i) (workers d)"

definition q_CreateWorker ::
  "db \<Rightarrow> string \<Rightarrow> string \<Rightarrow> string option \<Rightarrow> string \<Rightarrow> string \<Rightarrow> string \<Rightarrow> string option
   \<Rightarrow> string \<Rightarrow> string \<Rightarrow> (db_error, Worker \<times> db) result" where
  "q_CreateWorker d lname gname middle snils snils_n email birth created updated =
     ins_worker d \<lparr>wk_id = 0, wk_last_name = lname, wk_first_name = gname,
       wk_middle_name = middle, wk_snils = snils, wk_snils_normalized = snils_n,
       wk_email = email, wk_birth_date = birth, wk_created_at = created,
       wk_updated_at = updated, wk_status = ''active''\<rparr>"

definition q_UpdateWorker ::
  "db \<Rightarrow> string \<Rightarrow> string \<Rightarrow> string option \<Rightarrow> string \<Rightarrow> string \<Rightarrow> string \<Rightarrow> string option
   \<Rightarrow> string \<Rightarrow> int \<Rightarrow> (db_error, Worker \<times> db) result" where
  "q_UpdateWorker d lname gname middle snils snils_n email birth updated i =
     upd_worker d i (\<lambda>_. True)
       (\<lambda>r. r\<lparr>wk_last_name := lname, wk_first_name := gname, wk_middle_name := middle,
          wk_snils := snils, wk_snils_normalized := snils_n, wk_email := email,
          wk_birth_date := birth, wk_updated_at := updated\<rparr>)"

subsection \<open>worker\_employers\<close>

definition q_ListWorkerEmployersForWorker :: "db \<Rightarrow> int \<Rightarrow> WorkerEmployer list" where
  "q_ListWorkerEmployersForWorker d w =
     sort_key we_status (rev (sort_key we_updated_at
       (filter (\<lambda>r. we_worker_id r = w) (worker_employers d))))"

definition q_GetWorkerEmployer :: "db \<Rightarrow> int \<Rightarrow> (db_error, WorkerEmployer) result" where
  "q_GetWorkerEmployer d i = sql_get (\<lambda>r. we_id r = i) (worker_employers d)"

definition q_CreateWorkerEmployer ::
  "db \<Rightarrow> int \<Rightarrow> int \<Rightarrow> string \<Rightarrow> string \<Rightarrow> string \<Rightarrow> (db_error, WorkerEmployer \<times> db) result" where
  "q_CreateWorkerEmployer d w e position created updated =
     ins_worker_employer d \<lparr>we_id = 0, we_worker_id = w, we_employer_id = e,
       we_current_position = position, we_current_department = None, we_status = ''active'',
       we_created_at = created, we_updated_at = updated\<rparr>"

definition q_UpdateAssignment ::
  "db \<Rightarrow> int \<Rightarrow> string \<Rightarrow> string \<Rightarrow> int \<Rightarrow> (db_error, WorkerEmployer \<times> db) result" where
  "q_UpdateAssignment d e position updated i =
     upd_worker_employer d i (\<lambda>_. True)
       (\<lambda>r. r\<lparr>we_employer_id := e, we_current_position := position, we_updated_at := updated\<rparr>)"

definition q_DeactivateAssignment ::
  "db \<Rightarrow> string \<Rightarrow> int \<Rightarrow> (db_error, WorkerEmployer \<times> db) result" where
  "q_DeactivateAssignment d updated i =
     upd_worker_employer d i (\<lambda>_. True)
       (\<lambda>r. r\<lparr>we_status := ''inactive'', we_updated_at := updated\<rparr>)"

definition q_FindActiveWorkerEmployer ::
  "db \<Rightarrow> int \<Rightarrow> int \<Rightarrow> (db_error, WorkerEmployer) result" where
  "q_FindActiveWorkerEmployer d w e =
     sql_get (\<lambda>r. we_worker_id r = w \<and> we_employer_id r = e \<and> we_status r = ''active'')
       (worker_employers d)"

subsection \<open>imports and import\_rows\<close>

definition q_CreateImport ::
  "db \<Rightarrow> string \<Rightarrow> string option \<Rightarrow> string option \<Rightarrow> int option \<Rightarrow> string option \<Rightarrow> string
   \<Rightarrow> string \<Rightarrow> string \<Rightarrow> string option \<Rightarrow> string option \<Rightarrow> string option \<Rightarrow> string \<Rightarrow> string
   \<Rightarrow> (db_error, Import \<times> db) result" where
  "q_CreateImport d profile fname sha sz idem actor received status phase token expires
     created updated =
     ins_import d \<lparr>im_id = 0, im_profile = profile, im_source_file_name = fname,
       im_source_sha256 = sha, im_source_size_bytes = sz, im_idempotency_key = idem,
       im_uploaded_by_actor = actor, im_received_at = received, im_status = status,
       im_phase = phase, im_temp_file_token = token, im_temp_file_expires_at = expires,
       im_lease_owner = None, im_lease_expires_at = None, im_heartbeat_at = None,
       im_attempt = 0, im_rows_total = 0, im_rows_processed = 0, im_rows_applied = 0,
       im_rows_duplicate = 0, im_rows_needs_review = 0, im_error_code = None,
       im_error_detail = None, im_started_at = None, im_staged_at = None,
       im_completed_at = None, im_created_at = created, im_updated_at = updated\<rparr>"

text \<open>
  The queue and the lease of an import. A comparison with NULL is never true, hence \<open>sql_eq\<close>
  and \<open>sql_ge\<close> on nullable values.
\<close>

definition sql_eq :: "'a option \<Rightarrow> 'a option \<Rightarrow> bool" where
  "sql_eq x y = (x \<noteq> None \<and> x = y)"

definition sql_ge :: "string option \<Rightarrow> string option \<Rightarrow> bool" where
  "sql_ge x y = (case (x, y) of (Some a, Some b) \<Rightarrow> b \<le> a | _ \<Rightarrow> False)"

definition active_import :: "Import \<Rightarrow> bool" where
  "active_import r = (im_status r \<in> set [''queued'', ''processing''])"

definition q_CountActiveImports :: "db \<Rightarrow> int" where
  "q_CountActiveImports d = int (length (filter active_import (imports_tbl d)))"

definition q_CountImportsAhead :: "db \<Rightarrow> int \<Rightarrow> int" where
  "q_CountImportsAhead d i = int (length (filter (\<lambda>r. im_id r < i \<and> active_import r) (imports_tbl d)))"

definition q_GetImportByID :: "db \<Rightarrow> int \<Rightarrow> (db_error, Import) result" where
  "q_GetImportByID d i = sql_get (\<lambda>r. im_id r = i) (imports_tbl d)"

definition q_GetImportByIdempotencyKey :: "db \<Rightarrow> string option \<Rightarrow> (db_error, Import) result" where
  "q_GetImportByIdempotencyKey d key = sql_get (\<lambda>r. sql_eq (im_idempotency_key r) key) (imports_tbl d)"

text \<open>The newest match: the last one in \<open>rowid\<close> order.\<close>

definition q_FindExistingLegacyImportBySHA256 :: "db \<Rightarrow> string option \<Rightarrow> (db_error, Import) result" where
  "q_FindExistingLegacyImportBySHA256 d sha =
     sql_get (\<lambda>r. im_profile r = ''legacy_registry'' \<and> sql_eq (im_source_sha256 r) sha
        \<and> im_status r \<in> set [''queued'', ''processing'', ''completed'', ''completed_with_issues''])
       (rev (sort_key im_id (imports_tbl d)))"

text \<open>The projection of \<open>GetImportAPI\<close> and \<open>ListImportsAPI\<close>: the row with its place in the queue.\<close>

definition with_queue_position :: "db \<Rightarrow> Import \<Rightarrow> Import \<times> int" where
  "with_queue_position d r =
     (r, if im_status r = ''queued'' then 1 + q_CountImportsAhead d (im_id r) else 0)"

definition q_GetImportAPI :: "db \<Rightarrow> int \<Rightarrow> (db_error, Import \<times> int) result" where
  "q_GetImportAPI d i =
     (case sql_get (\<lambda>r. im_id r = i) (imports_tbl d) of
        Inl e \<Rightarrow> Inl e
      | Inr r \<Rightarrow> Inr (with_queue_position d r))"

definition q_ListImportsAPI :: "db \<Rightarrow> int \<Rightarrow> int \<Rightarrow> (Import \<times> int) list" where
  "q_ListImportsAPI d before page =
     map (with_queue_position d)
       (limit_offset page 0
         (rev (sort_key im_id (filter (\<lambda>r. im_id r < before \<or> before = 0) (imports_tbl d)))))"

text \<open>
  The oldest import that is queued or whose lease has run out, unless another import holds a
  lease that has not.
\<close>

definition claimable :: "string \<Rightarrow> Import \<Rightarrow> bool" where
  "claimable now r =
     (im_status r = ''queued''
      \<or> im_status r = ''processing''
        \<and> (case im_lease_expires_at r of None \<Rightarrow> True | Some e \<Rightarrow> e < now))"

definition holds_lease :: "string \<Rightarrow> Import \<Rightarrow> bool" where
  "holds_lease now r = (im_status r = ''processing'' \<and> sql_ge (im_lease_expires_at r) (Some now))"

definition q_ClaimNextImport ::
  "db \<Rightarrow> string option \<Rightarrow> string option \<Rightarrow> string \<Rightarrow> (db_error, Import \<times> db) result" where
  "q_ClaimNextImport d owner expires now =
     (if list_ex (holds_lease now) (imports_tbl d) then Inl ErrNoRows
      else case find (claimable now) (sort_key im_id (imports_tbl d)) of
        None \<Rightarrow> Inl ErrNoRows
      | Some c \<Rightarrow>
          upd_import d (im_id c) (\<lambda>_. True)
            (\<lambda>r. r\<lparr>im_status := ''processing'',
               im_phase := (case im_phase r of None \<Rightarrow> Some ''parsing'' | p \<Rightarrow> p),
               im_lease_owner := owner, im_lease_expires_at := expires,
               im_heartbeat_at := Some now, im_attempt := im_attempt r + 1,
               im_started_at := (case im_started_at r of None \<Rightarrow> Some now | t \<Rightarrow> t),
               im_updated_at := now\<rparr>))"

text \<open>The condition the staging statements share: the caller's lease on the import has not run out.\<close>

definition owned :: "string option \<Rightarrow> string option \<Rightarrow> string list \<Rightarrow> Import \<Rightarrow> bool" where
  "owned owner now phases r =
     (im_status r = ''processing'' \<and> sql_eq (im_lease_owner r) owner
      \<and> sql_ge (im_lease_expires_at r) now
      \<and> (case im_phase r of None \<Rightarrow> False | Some p \<Rightarrow> p \<in> set phases))"

definition q_StartImportStaging ::
  "db \<Rightarrow> string \<Rightarrow> string option \<Rightarrow> int \<Rightarrow> string option \<Rightarrow> (db_error, Import \<times> db) result" where
  "q_StartImportStaging d now expires i owner =
     upd_import d i (owned owner (Some now) [''parsing'', ''staging''])
       (\<lambda>r. r\<lparr>im_phase := Some ''staging'', im_heartbeat_at := Some now,
          im_lease_expires_at := expires, im_updated_at := now\<rparr>)"

definition q_UpdateImportStagingProgress ::
  "db \<Rightarrow> int \<Rightarrow> string \<Rightarrow> string option \<Rightarrow> int \<Rightarrow> string option \<Rightarrow> (db_error, Import \<times> db) result" where
  "q_UpdateImportStagingProgress d rows_total now expires i owner =
     upd_import d i (\<lambda>r. owned owner (Some now) [''staging''] r \<and> im_rows_total r \<le> rows_total)
       (\<lambda>r. r\<lparr>im_rows_total := rows_total, im_heartbeat_at := Some now,
          im_lease_expires_at := expires, im_updated_at := now\<rparr>)"

definition q_CompleteImportStaging ::
  "db \<Rightarrow> int \<Rightarrow> string \<Rightarrow> string option \<Rightarrow> int \<Rightarrow> string option \<Rightarrow> (db_error, Import \<times> db) result" where
  "q_CompleteImportStaging d rows_total now expires i owner =
     upd_import d i (\<lambda>r. owned owner (Some now) [''staging''] r \<and> im_rows_total r \<le> rows_total)
       (\<lambda>r. r\<lparr>im_phase := Some ''validating'', im_rows_total := rows_total, im_staged_at := Some now,
          im_heartbeat_at := Some now, im_lease_expires_at := expires, im_updated_at := now\<rparr>)"

definition q_ClearImportTempFile ::
  "db \<Rightarrow> string \<Rightarrow> int \<Rightarrow> string option \<Rightarrow> (db_error, Import \<times> db) result" where
  "q_ClearImportTempFile d now i owner =
     upd_import d i (\<lambda>r. owned owner (Some now) [''validating''] r \<and> im_staged_at r \<noteq> None)
       (\<lambda>r. r\<lparr>im_temp_file_token := None, im_temp_file_expires_at := None, im_updated_at := now\<rparr>)"

definition q_CreateImportRow ::
  "db \<Rightarrow> int \<Rightarrow> string \<Rightarrow> int \<Rightarrow> string \<Rightarrow> string \<Rightarrow> (db_error, ImportRow \<times> db) result" where
  "q_CreateImportRow d import_id sheet num raw created =
     ins_import_row d \<lparr>ir_id = 0, ir_import_id = import_id, ir_sheet_name = sheet,
       ir_row_number = num, ir_raw_data = raw, ir_created_at = created\<rparr>"

definition q_GetImportRowByCoordinate ::
  "db \<Rightarrow> int \<Rightarrow> string \<Rightarrow> int \<Rightarrow> (db_error, ImportRow) result" where
  "q_GetImportRowByCoordinate d import_id sheet num =
     sql_get (\<lambda>r. ir_import_id r = import_id \<and> ir_sheet_name r = sheet \<and> ir_row_number r = num)
       (import_rows d)"

subsection \<open>import\_sheets and legacy\_import\_rows\<close>

definition q_CreateImportSheet ::
  "db \<Rightarrow> int \<Rightarrow> string \<Rightarrow> int \<Rightarrow> string \<Rightarrow> string \<Rightarrow> string \<Rightarrow> string
   \<Rightarrow> (db_error, ImportSheet \<times> db) result" where
  "q_CreateImportSheet d import_id name order profile header_map created updated =
     ins_import_sheet d \<lparr>is_id = 0, is_import_id = import_id, is_sheet_name = name,
       is_sheet_order = order, is_sheet_profile = profile, is_header_map = header_map,
       is_rows_found = 0, is_rows_staged = 0, is_status = ''pending'', is_created_at = created,
       is_updated_at = updated\<rparr>"

definition q_ListImportSheets :: "db \<Rightarrow> int \<Rightarrow> ImportSheet list" where
  "q_ListImportSheets d import_id =
     sort_key (\<lambda>r. (is_sheet_order r, is_id r))
       (filter (\<lambda>r. is_import_id r = import_id) (import_sheets d))"

text \<open>The EXISTS of the two staging updates.\<close>

definition import_owned :: "db \<Rightarrow> int \<Rightarrow> string option \<Rightarrow> string option \<Rightarrow> bool" where
  "import_owned d import_id owner now =
     list_ex (\<lambda>r. im_id r = import_id \<and> owned owner now [''staging''] r) (imports_tbl d)"

definition q_UpdateImportSheetStagingProgress ::
  "db \<Rightarrow> int \<Rightarrow> int \<Rightarrow> string \<Rightarrow> int \<Rightarrow> int \<Rightarrow> string option \<Rightarrow> string option
   \<Rightarrow> (db_error, ImportSheet \<times> db) result" where
  "q_UpdateImportSheetStagingProgress d found staged updated sheet_id import_id owner now =
     upd_import_sheet d sheet_id
       (\<lambda>r. is_import_id r = import_id \<and> is_rows_found r \<le> found \<and> is_rows_staged r \<le> staged
          \<and> is_status r \<in> set [''pending'', ''parsing''] \<and> import_owned d import_id owner now)
       (\<lambda>r. r\<lparr>is_rows_found := found, is_rows_staged := staged, is_status := ''parsing'',
          is_updated_at := updated\<rparr>)"

definition q_CompleteImportSheetStaging ::
  "db \<Rightarrow> int \<Rightarrow> int \<Rightarrow> string \<Rightarrow> int \<Rightarrow> int \<Rightarrow> string option \<Rightarrow> string option
   \<Rightarrow> (db_error, ImportSheet \<times> db) result" where
  "q_CompleteImportSheetStaging d found staged updated sheet_id import_id owner now =
     upd_import_sheet d sheet_id
       (\<lambda>r. is_import_id r = import_id \<and> is_rows_found r \<le> found \<and> is_rows_staged r \<le> staged
          \<and> is_status r \<in> set [''pending'', ''parsing'', ''staged'']
          \<and> import_owned d import_id owner now)
       (\<lambda>r. r\<lparr>is_rows_found := found, is_rows_staged := staged, is_status := ''staged'',
          is_updated_at := updated\<rparr>)"

definition q_CreateLegacyImportRow ::
  "db \<Rightarrow> int \<Rightarrow> string \<Rightarrow> string \<Rightarrow> string \<Rightarrow> string \<Rightarrow> (db_error, LegacyImportRow \<times> db) result" where
  "q_CreateLegacyImportRow d row_id fingerprint extra created updated =
     ins_legacy_row d \<lparr>ly_import_row_id = row_id, ly_source_fingerprint = fingerprint,
       ly_employer_name = None, ly_inn_normalized = None, ly_last_name = None,
       ly_first_name = None, ly_middle_name = None, ly_snils_normalized = None,
       ly_email_normalized = None, ly_position = None, ly_department = None,
       ly_program_text = None, ly_training_start_date = None, ly_training_end_date = None,
       ly_protocol_number = None, ly_protocol_date = None, ly_assessment_result = None,
       ly_mintrud_registry_number = None, ly_source_reference = None, ly_moodle_username = None,
       ly_moodle_email = None, ly_extra_fields = extra, ly_status = ''staged'', ly_version = 1,
       ly_employer_id = None, ly_worker_id = None, ly_worker_employer_id = None,
       ly_program_id = None, ly_client_request_id = None, ly_training_record_id = None,
       ly_protocol_id = None, ly_protocol_participant_id = None, ly_moodle_account_id = None,
       ly_created_at = created, ly_updated_at = updated\<rparr>"

subsection \<open>client\_requests\<close>

definition q_CreateClientRequest ::
  "db \<Rightarrow> int \<Rightarrow> string \<Rightarrow> string \<Rightarrow> int option \<Rightarrow> string \<Rightarrow> string option \<Rightarrow> string \<Rightarrow> string
   \<Rightarrow> (db_error, ClientRequest \<times> db) result" where
  "q_CreateClientRequest d e received stype import_id status notes created updated =
     ins_client_request d \<lparr>cr_id = 0, cr_employer_id = e, cr_received_date = received,
       cr_source_type = stype, cr_source_import_id = import_id, cr_status = status,
       cr_notes = notes, cr_created_at = created, cr_updated_at = updated\<rparr>"

definition q_GetClientRequest :: "db \<Rightarrow> int \<Rightarrow> (db_error, ClientRequest) result" where
  "q_GetClientRequest d i = sql_get (\<lambda>r. cr_id r = i) (client_requests d)"

definition q_ListClientRequests :: "db \<Rightarrow> ClientRequest list" where
  "q_ListClientRequests d =
     rev (sort_key (\<lambda>r. (cr_received_date r, cr_id r)) (client_requests d))"

definition q_ListClientRequestsByStatus :: "db \<Rightarrow> string \<Rightarrow> ClientRequest list" where
  "q_ListClientRequestsByStatus d st =
     rev (sort_key (\<lambda>r. (cr_received_date r, cr_id r))
       (filter (\<lambda>r. cr_status r = st) (client_requests d)))"

definition q_SetClientRequestSourceImport ::
  "db \<Rightarrow> int option \<Rightarrow> string \<Rightarrow> int \<Rightarrow> (db_error, ClientRequest \<times> db) result" where
  "q_SetClientRequestSourceImport d import_id updated i =
     upd_client_request d i (\<lambda>_. True)
       (\<lambda>r. r\<lparr>cr_source_import_id := import_id, cr_updated_at := updated\<rparr>)"

subsection \<open>request\_rows and request\_training\_items\<close>

definition q_CreateRequestRow ::
  "db \<Rightarrow> int \<Rightarrow> int \<Rightarrow> string \<Rightarrow> string option \<Rightarrow> string option \<Rightarrow> string option \<Rightarrow> string option
   \<Rightarrow> string option \<Rightarrow> string option \<Rightarrow> string option \<Rightarrow> string \<Rightarrow> string option \<Rightarrow> string \<Rightarrow> string
   \<Rightarrow> (db_error, RequestRow \<times> db) result" where
  "q_CreateRequestRow d req num raw raw_name lname gname middle snils email position status
     summary created updated =
     ins_request_row d \<lparr>rr_id = 0, rr_client_request_id = req, rr_row_number = num,
       rr_raw_data = raw, rr_raw_full_name = raw_name, rr_parsed_last_name = lname,
       rr_parsed_first_name = gname, rr_parsed_middle_name = middle, rr_parsed_snils = snils,
       rr_parsed_email = email, rr_parsed_position = position, rr_status = status,
       rr_error_summary = summary, rr_created_at = created, rr_updated_at = updated\<rparr>"

definition q_GetRequestRow :: "db \<Rightarrow> int \<Rightarrow> (db_error, RequestRow) result" where
  "q_GetRequestRow d i = sql_get (\<lambda>r. rr_id r = i) (request_rows d)"

definition q_ListRequestRows :: "db \<Rightarrow> int \<Rightarrow> RequestRow list" where
  "q_ListRequestRows d req =
     sort_key (\<lambda>r. (rr_row_number r, rr_id r))
       (filter (\<lambda>r. rr_client_request_id r = req) (request_rows d))"

definition q_UpdateRequestRowStatus ::
  "db \<Rightarrow> string \<Rightarrow> string option \<Rightarrow> string \<Rightarrow> int \<Rightarrow> (db_error, RequestRow \<times> db) result" where
  "q_UpdateRequestRowStatus d status summary updated i =
     upd_request_row d i (\<lambda>_. True)
       (\<lambda>r. r\<lparr>rr_status := status, rr_error_summary := summary, rr_updated_at := updated\<rparr>)"

definition q_CreateRequestTrainingItem ::
  "db \<Rightarrow> int \<Rightarrow> int \<Rightarrow> string \<Rightarrow> string option \<Rightarrow> string option \<Rightarrow> int option \<Rightarrow> string \<Rightarrow> string
   \<Rightarrow> (db_error, RequestTrainingItem \<times> db) result" where
  "q_CreateRequestTrainingItem d row program status summary resolution training created updated =
     ins_request_item d \<lparr>ri_id = 0, ri_request_row_id = row, ri_program_id = program,
       ri_status = status, ri_error_summary = summary, ri_resolution = resolution,
       ri_training_record_id = training, ri_created_at = created, ri_updated_at = updated\<rparr>"

definition q_ListRequestTrainingItems :: "db \<Rightarrow> int \<Rightarrow> RequestTrainingItem list" where
  "q_ListRequestTrainingItems d row =
     sort_key ri_id (filter (\<lambda>r. ri_request_row_id r = row) (request_training_items d))"

definition q_UpdateRequestTrainingItemStatus ::
  "db \<Rightarrow> string \<Rightarrow> string option \<Rightarrow> string option \<Rightarrow> int option \<Rightarrow> string \<Rightarrow> int
   \<Rightarrow> (db_error, RequestTrainingItem \<times> db) result" where
  "q_UpdateRequestTrainingItemStatus d status summary resolution training updated i =
     upd_request_item d i (\<lambda>_. True)
       (\<lambda>r. r\<lparr>ri_status := status, ri_error_summary := summary, ri_resolution := resolution,
          ri_training_record_id := training, ri_updated_at := updated\<rparr>)"

subsection \<open>training\_records\<close>

definition q_CreateTrainingRecord ::
  "db \<Rightarrow> int \<Rightarrow> int \<Rightarrow> int option \<Rightarrow> string \<Rightarrow> int \<Rightarrow> int \<Rightarrow> string \<Rightarrow> string \<Rightarrow> string \<Rightarrow> string
   \<Rightarrow> (db_error, TrainingRecord \<times> db) result" where
  "q_CreateTrainingRecord d we program req position hours mintrud moodle status created updated =
     ins_training_record d \<lparr>tr_id = 0, tr_worker_employer_id = we, tr_program_id = program,
       tr_client_request_id = req, tr_position = position, tr_department = None,
       tr_source_reference = None, tr_hours = hours, tr_requires_mintrud_test = mintrud,
       tr_moodle_status = moodle, tr_moodle_error = None, tr_moodle_enrolled_at = None,
       tr_status = status, tr_created_at = created, tr_updated_at = updated\<rparr>"

definition q_FindActiveTrainingRecord :: "db \<Rightarrow> int \<Rightarrow> int \<Rightarrow> (db_error, TrainingRecord) result" where
  "q_FindActiveTrainingRecord d we program =
     sql_get (\<lambda>r. tr_worker_employer_id r = we \<and> tr_program_id r = program
                  \<and> tr_status r = ''active'') (training_records d)"

definition q_GetTrainingRecord :: "db \<Rightarrow> int \<Rightarrow> (db_error, TrainingRecord) result" where
  "q_GetTrainingRecord d i = sql_get (\<lambda>r. tr_id r = i) (training_records d)"

subsection \<open>protocols\<close>

definition q_ListProtocols :: "db \<Rightarrow> Protocol list" where
  "q_ListProtocols d = rev (sort_key (\<lambda>r. (pr_created_at r, pr_id r)) (protocols d))"

definition q_GetProtocolByID :: "db \<Rightarrow> int \<Rightarrow> (db_error, Protocol) result" where
  "q_GetProtocolByID d i = sql_get (\<lambda>r. pr_id r = i) (protocols d)"

definition q_CreateProtocol ::
  "db \<Rightarrow> int \<Rightarrow> string \<Rightarrow> string \<Rightarrow> (db_error, Protocol \<times> db) result" where
  "q_CreateProtocol d gid created updated =
     ins_protocol d \<lparr>pr_id = 0, pr_program_group_id = gid, pr_status = ''draft'',
       pr_training_start_date = None, pr_training_end_date = None, pr_protocol_date = None,
       pr_sequence_year = None, pr_protocol_month = None, pr_annual_sequence_number = None,
       pr_protocol_number = None, pr_fixed_at = None, pr_created_at = created,
       pr_updated_at = updated, pr_protocol_suffix = None\<rparr>"

definition q_FixProtocol ::
  "db \<Rightarrow> string option \<Rightarrow> string option \<Rightarrow> string option \<Rightarrow> int option \<Rightarrow> int option \<Rightarrow> int option
   \<Rightarrow> string option \<Rightarrow> string option \<Rightarrow> string option \<Rightarrow> string \<Rightarrow> int
   \<Rightarrow> (db_error, Protocol \<times> db) result" where
  "q_FixProtocol d startd endd pdate year month seq number suffix fixed_at updated i =
     upd_protocol d i (\<lambda>r. pr_status r = ''draft'')
       (\<lambda>r. r\<lparr>pr_status := ''fixed'', pr_training_start_date := startd,
          pr_training_end_date := endd, pr_protocol_date := pdate, pr_sequence_year := year,
          pr_protocol_month := month, pr_annual_sequence_number := seq,
          pr_protocol_number := number, pr_protocol_suffix := suffix,
          pr_fixed_at := fixed_at, pr_updated_at := updated\<rparr>)"

definition q_SetProtocolStatus ::
  "db \<Rightarrow> string \<Rightarrow> string \<Rightarrow> int \<Rightarrow> (db_error, Protocol \<times> db) result" where
  "q_SetProtocolStatus d status updated i =
     upd_protocol d i (\<lambda>_. True) (\<lambda>r. r\<lparr>pr_status := status, pr_updated_at := updated\<rparr>)"

text \<open>\<open>MAX\<close> over the slots of one (group, year, suffix): NULL when there is none.\<close>

definition slot_numbers :: "db \<Rightarrow> int \<Rightarrow> int \<Rightarrow> string \<Rightarrow> int list" where
  "slot_numbers d gid year suffix =
     List.map_filter (\<lambda>r. if pr_program_group_id r = gid \<and> pr_sequence_year r = Some year
                            \<and> coalesce (pr_protocol_suffix r) = suffix
                         then pr_annual_sequence_number r else None) (protocols d)"

definition q_MaxAnnualSequenceForGroupYear :: "db \<Rightarrow> int \<Rightarrow> int \<Rightarrow> string \<Rightarrow> int option" where
  "q_MaxAnnualSequenceForGroupYear d gid year suffix =
     (let ns = slot_numbers d gid year suffix in if ns = [] then None else Some (Max (set ns)))"

subsection \<open>protocol\_participants\<close>

definition q_ListProtocolParticipants :: "db \<Rightarrow> int \<Rightarrow> ProtocolParticipant list" where
  "q_ListProtocolParticipants d p =
     sort_key pp_id (filter (\<lambda>r. pp_protocol_id r = p \<and> pp_status r = ''active'')
       (protocol_participants d))"

definition q_GetProtocolParticipantByID :: "db \<Rightarrow> int \<Rightarrow> (db_error, ProtocolParticipant) result" where
  "q_GetProtocolParticipantByID d i = sql_get (\<lambda>r. pp_id r = i) (protocol_participants d)"

definition q_GetActiveParticipantForTrainingRecord ::
  "db \<Rightarrow> int \<Rightarrow> (db_error, ProtocolParticipant) result" where
  "q_GetActiveParticipantForTrainingRecord d tr =
     sql_get (\<lambda>r. pp_training_record_id r = tr \<and> pp_status r = ''active'')
       (protocol_participants d)"

definition q_CreateProtocolParticipant ::
  "db \<Rightarrow> int \<Rightarrow> int \<Rightarrow> string \<Rightarrow> string \<Rightarrow> (db_error, ProtocolParticipant \<times> db) result" where
  "q_CreateProtocolParticipant d p tr created updated =
     ins_participant d \<lparr>pp_id = 0, pp_protocol_id = p, pp_training_record_id = tr,
       pp_status = ''active'', pp_requires_mintrud_test_confirmed_at = None,
       pp_mintrud_registry_number = None, pp_mintrud_registry_entered_at = None,
       pp_assessment_result = None, pp_created_at = created, pp_updated_at = updated\<rparr>"

definition q_MarkParticipantRemoved ::
  "db \<Rightarrow> string \<Rightarrow> int \<Rightarrow> (db_error, ProtocolParticipant \<times> db) result" where
  "q_MarkParticipantRemoved d updated i =
     upd_participant d i (\<lambda>r. pp_status r = ''active'')
       (\<lambda>r. r\<lparr>pp_status := ''removed'', pp_updated_at := updated\<rparr>)"

subsection \<open>users\<close>

definition q_GetUserByLogin :: "db \<Rightarrow> string \<Rightarrow> (db_error, User) result" where
  "q_GetUserByLogin d login = sql_get (\<lambda>r. us_login r = login) (users d)"

definition q_GetUser :: "db \<Rightarrow> int \<Rightarrow> (db_error, User) result" where
  "q_GetUser d i = sql_get (\<lambda>r. us_id r = i) (users d)"

definition q_CreateUser ::
  "db \<Rightarrow> string \<Rightarrow> string \<Rightarrow> string \<Rightarrow> string \<Rightarrow> string \<Rightarrow> string \<Rightarrow> (db_error, User \<times> db) result" where
  "q_CreateUser d login hash role status created updated =
     ins_user d \<lparr>us_id = 0, us_login = login, us_password_hash = hash, us_role = role,
       us_status = status, us_created_at = created, us_updated_at = updated\<rparr>"

subsection \<open>The statements keep the invariant\<close>

lemmas write_defs = q_CreateActionLog_def q_CreateProgramGroup_def q_UpdateGroup_def
  q_DeactivateGroup_def q_CreateProgram_def q_UpdateProgram_def q_DeactivateProgram_def
  q_CreateEmployer_def q_UpdateEmployer_def q_DeactivateEmployer_def q_CreateWorker_def
  q_UpdateWorker_def q_CreateWorkerEmployer_def q_UpdateAssignment_def q_DeactivateAssignment_def
  q_CreateImport_def q_CreateImportRow_def q_CreateClientRequest_def
  q_SetClientRequestSourceImport_def q_CreateRequestRow_def q_UpdateRequestRowStatus_def
  q_CreateRequestTrainingItem_def q_UpdateRequestTrainingItemStatus_def
  q_CreateTrainingRecord_def q_CreateProtocol_def q_FixProtocol_def q_SetProtocolStatus_def
  q_CreateProtocolParticipant_def q_MarkParticipantRemoved_def q_CreateUser_def
  q_StartImportStaging_def q_UpdateImportStagingProgress_def q_CompleteImportStaging_def
  q_ClearImportTempFile_def q_CreateImportSheet_def q_UpdateImportSheetStagingProgress_def
  q_CompleteImportSheetStaging_def q_CreateLegacyImportRow_def

lemmas read_defs = q_GetProgramGroup_def q_GetGroupByID_def q_GetProgram_def q_GetProgramByID_def
  q_GetProgramByCode_def q_GetEmployerByID_def q_GetWorkerByNormalizedSNILS_def
  q_GetWorkerByID_def q_GetWorkerEmployer_def q_FindActiveWorkerEmployer_def
  q_GetClientRequest_def q_GetRequestRow_def q_FindActiveTrainingRecord_def
  q_GetTrainingRecord_def q_GetProtocolByID_def q_GetProtocolParticipantByID_def
  q_GetActiveParticipantForTrainingRecord_def q_GetUserByLogin_def q_GetUser_def
  q_GetImportByID_def q_GetImportByIdempotencyKey_def q_GetImportRowByCoordinate_def

text \<open>One write statement of the services, with any arguments.\<close>

inductive statement :: "db \<Rightarrow> db \<Rightarrow> bool" where
  action_log: "q_CreateActionLog d a b c e f g = Inr (r1, d') \<Longrightarrow> statement d d'"
| create_group: "q_CreateProgramGroup d a b c e = Inr (r2, d') \<Longrightarrow> statement d d'"
| update_group: "q_UpdateGroup d a b c i = Inr (r2, d') \<Longrightarrow> statement d d'"
| deactivate_group: "q_DeactivateGroup d a i = Inr (r2, d') \<Longrightarrow> statement d d'"
| create_program: "q_CreateProgram d g a b h m c e = Inr (r3, d') \<Longrightarrow> statement d d'"
| update_program: "q_UpdateProgram d g a b h m c i = Inr (r3, d') \<Longrightarrow> statement d d'"
| deactivate_program: "q_DeactivateProgram d a i = Inr (r3, d') \<Longrightarrow> statement d d'"
| create_employer: "q_CreateEmployer d a b c e f' = Inr (r4, d') \<Longrightarrow> statement d d'"
| update_employer: "q_UpdateEmployer d a b c e i = Inr (r4, d') \<Longrightarrow> statement d d'"
| deactivate_employer: "q_DeactivateEmployer d a i = Inr (r4, d') \<Longrightarrow> statement d d'"
| create_worker: "q_CreateWorker d a b m c s e o' u v = Inr (r5, d') \<Longrightarrow> statement d d'"
| update_worker: "q_UpdateWorker d a b m c s e o' u i = Inr (r5, d') \<Longrightarrow> statement d d'"
| create_assignment: "q_CreateWorkerEmployer d w k a b c = Inr (r6, d') \<Longrightarrow> statement d d'"
| update_assignment: "q_UpdateAssignment d k a b i = Inr (r6, d') \<Longrightarrow> statement d d'"
| deactivate_assignment: "q_DeactivateAssignment d a i = Inr (r6, d') \<Longrightarrow> statement d d'"
| create_import: "q_CreateImport d a b' c' k' e' a1 a2 a3 p' t' x' a4 a5 = Inr (r7, d')
    \<Longrightarrow> statement d d'"
| create_import_row: "q_CreateImportRow d i a k b c = Inr (r8, d') \<Longrightarrow> statement d d'"
| create_request: "q_CreateClientRequest d k a b i' c n' u v = Inr (r9, d') \<Longrightarrow> statement d d'"
| link_import: "q_SetClientRequestSourceImport d i' u i = Inr (r9, d') \<Longrightarrow> statement d d'"
| create_row: "q_CreateRequestRow d k n a b1 b2 b3 b4 b5 b6 b7 c b8 u v = Inr (r10, d')
    \<Longrightarrow> statement d d'"
| set_row_status: "q_UpdateRequestRowStatus d a b1 u i = Inr (r10, d') \<Longrightarrow> statement d d'"
| create_item: "q_CreateRequestTrainingItem d k p a b1 b2 k' u v = Inr (r11, d')
    \<Longrightarrow> statement d d'"
| set_item_status: "q_UpdateRequestTrainingItemStatus d a b1 b2 k' u i = Inr (r11, d')
    \<Longrightarrow> statement d d'"
| create_training: "q_CreateTrainingRecord d w p k' a h m b c u v = Inr (r12, d')
    \<Longrightarrow> statement d d'"
| create_protocol: "q_CreateProtocol d g a b = Inr (r13, d') \<Longrightarrow> statement d d'"
| fix_protocol: "q_FixProtocol d b1 b2 b3 k1 k2 k3 b4 b5 b6 u i = Inr (r13, d')
    \<Longrightarrow> statement d d'"
| set_protocol_status: "q_SetProtocolStatus d a u i = Inr (r13, d') \<Longrightarrow> statement d d'"
| create_participant: "q_CreateProtocolParticipant d p t a b = Inr (r14, d') \<Longrightarrow> statement d d'"
| remove_participant: "q_MarkParticipantRemoved d u i = Inr (r14, d') \<Longrightarrow> statement d d'"
| create_user: "q_CreateUser d a b c e f' g' = Inr (r15, d') \<Longrightarrow> statement d d'"
| claim_import: "q_ClaimNextImport d b1 b2 u = Inr (r7, d') \<Longrightarrow> statement d d'"
| start_staging: "q_StartImportStaging d u b1 i b2 = Inr (r7, d') \<Longrightarrow> statement d d'"
| staging_progress: "q_UpdateImportStagingProgress d n u b1 i b2 = Inr (r7, d') \<Longrightarrow> statement d d'"
| complete_staging: "q_CompleteImportStaging d n u b1 i b2 = Inr (r7, d') \<Longrightarrow> statement d d'"
| clear_temp_file: "q_ClearImportTempFile d u i b2 = Inr (r7, d') \<Longrightarrow> statement d d'"
| create_sheet: "q_CreateImportSheet d i a n b c u v = Inr (r16, d') \<Longrightarrow> statement d d'"
| sheet_progress: "q_UpdateImportSheetStagingProgress d n m u i k b1 b2 = Inr (r16, d')
    \<Longrightarrow> statement d d'"
| complete_sheet: "q_CompleteImportSheetStaging d n m u i k b1 b2 = Inr (r16, d')
    \<Longrightarrow> statement d d'"
| create_legacy_row: "q_CreateLegacyImportRow d i a b u v = Inr (r17, d') \<Longrightarrow> statement d d'"

lemmas stmt_ok = ins_group_ok upd_group_ok ins_program_ok upd_program_ok ins_employer_ok
  upd_employer_ok ins_worker_ok upd_worker_ok ins_worker_employer_ok upd_worker_employer_ok
  ins_import_ok ins_import_row_ok ins_client_request_ok upd_client_request_ok
  ins_request_row_ok upd_request_row_ok ins_training_record_ok ins_request_item_ok
  upd_request_item_ok ins_protocol_ok upd_protocol_ok ins_participant_ok upd_participant_ok
  ins_action_log_ok ins_user_ok upd_import_ok ins_import_sheet_ok upd_import_sheet_ok
  ins_legacy_row_ok

lemma q_ClaimNextImport_ok: "q_ClaimNextImport d owner expires now = Inr (r, d') \<Longrightarrow> db_ok d \<Longrightarrow> db_ok d'"
  by (auto simp: q_ClaimNextImport_def split: if_splits option.splits elim!: upd_import_ok [rotated])

lemma statement_ok: "statement d d' \<Longrightarrow> db_ok d \<Longrightarrow> db_ok d'"
  by (induction rule: statement.induct;
      (erule (1) q_ClaimNextImport_ok)?; (unfold write_defs, erule stmt_ok [rotated]; simp)?)

lemma statements_ok: "statement\<^sup>*\<^sup>* d d' \<Longrightarrow> db_ok d \<Longrightarrow> db_ok d'"
  by (induction rule: rtranclp_induct) (auto intro: statement_ok)

end
