(* ===== verification/Services.thy ===== *)
theory Services
  imports Queries
begin

text \<open>
  The audit service (\<^verbatim>\<open>audit/service.go\<close>) and the environment a request runs in: the actor
  published on the context, the clock, whether an audit service is configured, and the
  library functions the sources call. A clock reading is indexed by its position in the
  operation, so two readings of one operation may differ.

  The services call \<open>recordAudit\<close> after a write and drop its error: the lemmas here say that
  such a call appends at most one row to \<open>action_log\<close> and touches nothing else.
\<close>

text \<open>
  An opened XLSX file, as far as the sources use it: its sheet names in order and the rows of
  a sheet (\<open>excelize.OpenReader\<close>, \<open>GetSheetList\<close>, \<open>GetRows\<close>). Errors are their texts.
\<close>

record workbook =
  wb_sheets :: "string list"
  wb_rows :: "string \<Rightarrow> (string, string list list) result"

text \<open>
  \<open>e_parse_address\<close> is \<open>net/mail.ParseAddress\<close>, giving the address part; \<open>e_sha256\<close> the
  hexadecimal SHA-256 of the bytes; \<open>e_open_xlsx\<close> opens a workbook from its bytes;
  \<open>e_map_order\<close> is the order in which a \<open>range\<close> visits the keys of a map, which Go leaves
  open; \<open>e_has_db\<close> says that the requests service was given its database handle (\<open>SetDB\<close>).
\<close>

record env =
  e_actor :: string
  e_clock :: "nat \<Rightarrow> string"
  e_audit :: bool
  e_audit_clock :: "nat \<Rightarrow> string"
  e_unicode :: unicode
  e_parse_address :: "string \<Rightarrow> string option"
  e_sha256 :: "string \<Rightarrow> string"
  e_open_xlsx :: "string \<Rightarrow> (string, workbook) result"
  e_map_order :: "nat \<Rightarrow> string list \<Rightarrow> string list"
  e_has_db :: bool

definition DefaultActor :: string where
  "DefaultActor = ''operator_unidentified''"

definition WithActor :: "env \<Rightarrow> string \<Rightarrow> env" where
  "WithActor ctx actor = (if actor = '''' then ctx else ctx\<lparr>e_actor := actor\<rparr>)"

definition ActorFromContext :: "env \<Rightarrow> string" where
  "ActorFromContext ctx = e_actor ctx"

record RecordInput =
  ri_Action :: string
  ri_EntityType :: string
  ri_EntityID :: "int option"
  ri_Actor :: string
  ri_Details :: "(string \<times> json) list"

definition marshalDetails :: "(string \<times> json) list \<Rightarrow> (string \<times> json) list option" where
  "marshalDetails details = (if details = [] then None else Some details)"

definition resolve_actor :: "env \<Rightarrow> RecordInput \<Rightarrow> string" where
  "resolve_actor ctx inp =
     (let actor = ri_Actor inp;
          actor = (if actor = '''' then ActorFromContext ctx else actor)
      in if actor = '''' then DefaultActor else actor)"

definition Record :: "env \<Rightarrow> nat \<Rightarrow> RecordInput \<Rightarrow> db \<Rightarrow> (db_error, db) result" where
  "Record ctx k inp d =
     (case q_CreateActionLog d (resolve_actor ctx inp) (ri_Action inp) (ri_EntityType inp)
             (ri_EntityID inp) (marshalDetails (ri_Details inp)) (e_audit_clock ctx k) of
        Inl e \<Rightarrow> Inl e
      | Inr (_, d') \<Rightarrow> Inr d')"

text \<open>\<open>recordAudit\<close>, the same in every service: no audit service, no entry; errors dropped.\<close>

definition recordAudit :: "env \<Rightarrow> nat \<Rightarrow> RecordInput \<Rightarrow> db \<Rightarrow> db" where
  "recordAudit ctx k inp d =
     (if \<not> e_audit ctx then d
      else case Record ctx k inp d of Inl _ \<Rightarrow> d | Inr d' \<Rightarrow> d')"

text \<open>The usual shape of an entry: no explicit actor, an entity id.\<close>

definition entry :: "string \<Rightarrow> string \<Rightarrow> int \<Rightarrow> (string \<times> json) list \<Rightarrow> RecordInput" where
  "entry act etype eid details =
     \<lparr>ri_Action = act, ri_EntityType = etype, ri_EntityID = Some eid, ri_Actor = '''',
      ri_Details = details\<rparr>"

text \<open>An entry with an explicit actor.\<close>

definition entry_by :: "string \<Rightarrow> string \<Rightarrow> string \<Rightarrow> int \<Rightarrow> (string \<times> json) list \<Rightarrow> RecordInput" where
  "entry_by actor act etype eid details = (entry act etype eid details)\<lparr>ri_Actor := actor\<rparr>"

lemma resolve_actor_nonempty: "resolve_actor ctx inp \<noteq> ''''"
  by (simp add: resolve_actor_def Let_def DefaultActor_def)

text \<open>An entry is written exactly when auditing is on and the actor fits the column.\<close>

definition actor_fits :: "env \<Rightarrow> RecordInput \<Rightarrow> bool" where
  "actor_fits ctx inp =
     (0 < sqlite_length (resolve_actor ctx inp) \<and> sqlite_length (resolve_actor ctx inp) \<le> 200)"

definition log_row :: "env \<Rightarrow> nat \<Rightarrow> RecordInput \<Rightarrow> db \<Rightarrow> ActionLog" where
  "log_row ctx k inp d =
     \<lparr>al_id = next_rowid al_id (action_log d), al_actor = resolve_actor ctx inp,
      al_action = ri_Action inp, al_entity_type = ri_EntityType inp,
      al_entity_id = ri_EntityID inp, al_details = marshalDetails (ri_Details inp),
      al_created_at = e_audit_clock ctx k\<rparr>"

lemma recordAudit_eq:
  "recordAudit ctx k inp d = d\<lparr>action_log := action_log d @
     (if e_audit ctx \<and> actor_fits ctx inp then [log_row ctx k inp d] else [])\<rparr>"
  by (simp add: recordAudit_def Record_def q_CreateActionLog_def ins_action_log_def stored_def
      sql_insert_def Let_def action_log_check_def no_clash_def no_fk_def actor_fits_def
      log_row_def list_ex_iff)

lemma recordAudit_other [simp]:
  "program_groups (recordAudit ctx k inp d) = program_groups d"
  "programs (recordAudit ctx k inp d) = programs d"
  "employers (recordAudit ctx k inp d) = employers d"
  "workers (recordAudit ctx k inp d) = workers d"
  "worker_employers (recordAudit ctx k inp d) = worker_employers d"
  "imports_tbl (recordAudit ctx k inp d) = imports_tbl d"
  "import_rows (recordAudit ctx k inp d) = import_rows d"
  "import_sheets (recordAudit ctx k inp d) = import_sheets d"
  "legacy_import_rows (recordAudit ctx k inp d) = legacy_import_rows d"
  "client_requests (recordAudit ctx k inp d) = client_requests d"
  "request_rows (recordAudit ctx k inp d) = request_rows d"
  "training_records (recordAudit ctx k inp d) = training_records d"
  "request_training_items (recordAudit ctx k inp d) = request_training_items d"
  "protocols (recordAudit ctx k inp d) = protocols d"
  "protocol_participants (recordAudit ctx k inp d) = protocol_participants d"
  "generation_runs (recordAudit ctx k inp d) = generation_runs d"
  "users (recordAudit ctx k inp d) = users d"
  by (simp_all add: recordAudit_eq)

lemma recordAudit_ok: "db_ok d \<Longrightarrow> db_ok (recordAudit ctx k inp d)"
  by (auto simp: recordAudit_def Record_def q_CreateActionLog_def
      split: sum.splits elim: ins_action_log_ok)

lemma recordAudit_log:
  "action_log (recordAudit ctx k inp d) =
     action_log d @ (if e_audit ctx \<and> actor_fits ctx inp then [log_row ctx k inp d] else [])"
  by (simp add: recordAudit_eq)

text \<open>An audit entry, and a write followed by one, as runs of statements.\<close>

lemma audit_run: "statement\<^sup>*\<^sup>* d (recordAudit ctx k inp d)"
  by (auto simp: recordAudit_def Record_def split: sum.splits
      intro: r_into_rtranclp statement.action_log)

lemma stmt_audit_run: "statement d d' \<Longrightarrow> statement\<^sup>*\<^sup>* d (recordAudit ctx k inp d')"
  by (rule converse_rtranclp_into_rtranclp [OF _ audit_run])

text \<open>
  What the service packages share: the error values their methods return and the nullable
  strings they build. A \<open>FieldErrors\<close> map is an association list from the field to a message;
  the operator-facing texts are constructors of a message type, one per package. \<open>Failed\<close> is
  \<open>fmt.Errorf\<close> with a wrapped database error, \<open>Refused\<close> an error of the service's own, \<open>Wrapped\<close> an
  \<open>fmt.Errorf\<close> around an error value of the package.
\<close>

datatype 'm svc_error =
    FieldErrors "(string \<times> 'm) list"
  | Failed string db_error
  | Refused string "string list"
  | Wrapped string 'm

type_synonym ('m, 'a) svc_result = "('m svc_error, 'a) result \<times> db"

definition nullableString :: "string \<Rightarrow> string option" where
  "nullableString value = (if value = '''' then None else Some value)"

text \<open>\<open>if cond \<open>{\<close> errs[field] = msg \<open>}\<close>\<close>.\<close>

definition err_if :: "bool \<Rightarrow> string \<Rightarrow> 'm \<Rightarrow> (string \<times> 'm) list" where
  "err_if cond field msg = (if cond then [(field, msg)] else [])"

lemma err_if_Nil [simp]: "err_if c f m = [] \<longleftrightarrow> \<not> c"
  by (simp add: err_if_def)

text \<open>The String field of a \<open>sql.NullString\<close>: empty when not valid.\<close>

definition str_of :: "string option \<Rightarrow> string" where
  "str_of x = (case x of None \<Rightarrow> '''' | Some s \<Rightarrow> s)"

lemma str_of_nullable [simp]: "str_of (nullableString s) = s"
  by (simp add: str_of_def nullableString_def)

end
