(* ===== verification/ProtocolState.thy ===== *)
theory ProtocolState
  imports Prelude
begin

text \<open>
  The interface of a status vocabulary: which moves it permits and which statuses are final.
  The protocols and the rows and items of a request each have one. A move to the same status
  is a no-op where the source permits it.
\<close>

locale status_machine =
  fixes can :: "string \<Rightarrow> string \<Rightarrow> bool"
    and vocabulary :: "string list"
    and final_states :: "string list"
  assumes closed: "can a b \<Longrightarrow> a \<noteq> b \<Longrightarrow> a \<in> set vocabulary \<and> b \<in> set vocabulary"
    and final: "t \<in> set final_states \<Longrightarrow> can t b \<Longrightarrow> b = t"
    and escape: "a \<in> set vocabulary \<Longrightarrow> a \<notin> set final_states \<Longrightarrow> \<exists>t \<in> set final_states. can a t"
begin

lemma run_in_vocabulary: "can\<^sup>*\<^sup>* a b \<Longrightarrow> a \<in> set vocabulary \<Longrightarrow> b \<in> set vocabulary"
proof (induction rule: rtranclp_induct)
  case base
  then show ?case .
next
  case (step y z)
  then show ?case using closed [of y z] by (cases "y = z") auto
qed

lemma final_absorbs: "can\<^sup>*\<^sup>* t b \<Longrightarrow> t \<in> set final_states \<Longrightarrow> b = t"
proof (induction rule: rtranclp_induct)
  case base
  then show ?case by simp
next
  case (step y z)
  then show ?case using final [of t z] by simp
qed

lemma reaches_final:
  assumes "a \<in> set vocabulary"
  shows "\<exists>t \<in> set final_states. can\<^sup>*\<^sup>* a t"
proof (cases "a \<in> set final_states")
  case True
  then show ?thesis by auto
next
  case False
  then show ?thesis using escape [OF assms] by auto
qed

end

text \<open>
  The lifecycle vocabulary of protocols and its transition table (\<^verbatim>\<open>protocols/state.go\<close>).
\<close>

definition StatusDraft :: string where [simp]: "StatusDraft = ''draft''"
definition StatusFixed :: string where [simp]: "StatusFixed = ''fixed''"
definition StatusXmlUploaded :: string where [simp]: "StatusXmlUploaded = ''xml_uploaded''"
definition StatusRegistryEntered :: string where
  [simp]: "StatusRegistryEntered = ''registry_entered''"
definition StatusGenerated :: string where [simp]: "StatusGenerated = ''generated''"
definition StatusCompleted :: string where [simp]: "StatusCompleted = ''completed''"
definition StatusCancelled :: string where [simp]: "StatusCancelled = ''cancelled''"

definition AllStatuses :: "string list" where
  "AllStatuses = [StatusDraft, StatusFixed, StatusXmlUploaded, StatusRegistryEntered,
     StatusGenerated, StatusCompleted, StatusCancelled]"

fun IsValid_loop :: "string \<Rightarrow> string list \<Rightarrow> bool" where
  "IsValid_loop s [] = False"
| "IsValid_loop s (candidate # rest) = (if s = candidate then True else IsValid_loop s rest)"

definition IsValid :: "string \<Rightarrow> bool" where
  "IsValid s = IsValid_loop s AllStatuses"

text \<open>A Go map from a status to the set of statuses it may move to.\<close>

definition validTransitions :: "string \<rightharpoonup> (string \<rightharpoonup> bool)" where
  "validTransitions =
     [StatusDraft \<mapsto> [StatusFixed \<mapsto> True, StatusCancelled \<mapsto> True],
      StatusFixed \<mapsto> [StatusXmlUploaded \<mapsto> True, StatusCancelled \<mapsto> True],
      StatusXmlUploaded \<mapsto> [StatusRegistryEntered \<mapsto> True, StatusCancelled \<mapsto> True],
      StatusRegistryEntered \<mapsto> [StatusGenerated \<mapsto> True, StatusCancelled \<mapsto> True],
      StatusGenerated \<mapsto> [StatusCompleted \<mapsto> True, StatusCancelled \<mapsto> True],
      StatusCompleted \<mapsto> Map.empty,
      StatusCancelled \<mapsto> Map.empty]"

text \<open>An absent key of a \<open>map[..]bool\<close> reads as false.\<close>

definition go_flag :: "(string \<rightharpoonup> bool) \<Rightarrow> string \<Rightarrow> bool" where
  "go_flag m k = (case m k of None \<Rightarrow> False | Some b \<Rightarrow> b)"

definition CanTransition :: "string \<Rightarrow> string \<Rightarrow> bool" where
  "CanTransition from_status to_status =
     (case validTransitions from_status of
        None \<Rightarrow> False
      | Some allowed \<Rightarrow> go_flag allowed to_status)"

lemma IsValid_iff: "IsValid s \<longleftrightarrow> s \<in> set AllStatuses"
proof -
  have "IsValid_loop s xs \<longleftrightarrow> s \<in> set xs" for xs by (induction xs) auto
  then show ?thesis by (simp add: IsValid_def)
qed

text \<open>The position of a status on the way from draft to completed.\<close>

definition stage :: "string \<Rightarrow> nat option" where
  "stage s =
     [StatusDraft \<mapsto> 0, StatusFixed \<mapsto> 1, StatusXmlUploaded \<mapsto> 2, StatusRegistryEntered \<mapsto> 3,
      StatusGenerated \<mapsto> 4, StatusCompleted \<mapsto> (5::nat)] s"

lemma CanTransition_iff:
  "CanTransition a b \<longleftrightarrow>
     (\<exists>n < 5. stage a = Some n \<and> (stage b = Some (Suc n) \<or> b = StatusCancelled))"
  by (auto simp: CanTransition_def validTransitions_def go_flag_def stage_def less_Suc_eq
      numeral_eq_Suc split: if_splits option.splits)

lemma CanTransition_irrefl: "\<not> CanTransition a a"
  by (auto simp: CanTransition_iff stage_def split: if_splits)

interpretation protocol_machine: status_machine CanTransition AllStatuses
  "[StatusCompleted, StatusCancelled]"
proof
  fix a b
  assume "CanTransition a b"
  then show "a \<in> set AllStatuses \<and> b \<in> set AllStatuses"
    by (auto simp: CanTransition_iff stage_def AllStatuses_def split: if_splits)
next
  fix t b
  assume "t \<in> set [StatusCompleted, StatusCancelled]" "CanTransition t b"
  then show "b = t" by (auto simp: CanTransition_iff stage_def)
next
  fix a
  assume "a \<in> set AllStatuses" "a \<notin> set [StatusCompleted, StatusCancelled]"
  then show "\<exists>t \<in> set [StatusCompleted, StatusCancelled]. CanTransition a t"
    by (auto simp: CanTransition_iff stage_def AllStatuses_def)
qed

text \<open>A run keeps to the order of the stages and never skips one.\<close>

lemma run_stage:
  "CanTransition\<^sup>*\<^sup>* a b \<Longrightarrow> b \<noteq> StatusCancelled \<Longrightarrow> stage a = Some m \<Longrightarrow>
     \<exists>n \<ge> m. stage b = Some n"
proof (induction rule: rtranclp_induct)
  case base
  then show ?case by auto
next
  case (step y z)
  have "y \<noteq> StatusCancelled" using step.hyps(2) by (auto simp: CanTransition_iff stage_def)
  with step obtain n where "n \<ge> m" "stage y = Some n" by auto
  with step.hyps(2) step.prems(1) show ?case
    by (auto simp: CanTransition_iff intro!: exI [of _ "Suc n"])
qed

end
