(* ===== verification/ProtocolNumbering.thy ===== *)
theory ProtocolNumbering
  imports Queries
begin

text \<open>
  Dates, suffixes and numbers of protocols (\<^verbatim>\<open>protocols/numbering.go\<close>): parsing an ISO date,
  normalising a suffix, printing a protocol number and choosing the next annual sequence
  number. Printing is injective, and the next number is larger than every number in use
  unless \<open>int64\<close> overflows.
\<close>

datatype date_error = BadLayout string | BadYear | BadMonth | BadDay

datatype suffix_error = NotANumber string | TooLong

definition slice :: "nat \<Rightarrow> nat \<Rightarrow> string \<Rightarrow> string" where
  "slice i j s = take (j - i) (drop i s)"

definition ParseISODate :: "string \<Rightarrow> (date_error, int \<times> int) result" where
  "ParseISODate raw =
     (let trimmed = TrimSpace raw in
      if length trimmed \<noteq> 10 \<or> trimmed ! 4 \<noteq> CHR ''-'' \<or> trimmed ! 7 \<noteq> CHR ''-''
      then Inl (BadLayout raw)
      else case Atoi (slice 0 4 trimmed) of
        None \<Rightarrow> Inl BadYear
      | Some yearValue \<Rightarrow>
          if yearValue < 2000 then Inl BadYear
          else case Atoi (slice 5 7 trimmed) of
            None \<Rightarrow> Inl BadMonth
          | Some monthValue \<Rightarrow>
              if monthValue < 1 \<or> monthValue > 12 then Inl BadMonth
              else case Atoi (slice 8 10 trimmed) of
                None \<Rightarrow> Inl BadDay
              | Some dayValue \<Rightarrow>
                  if dayValue < 1 \<or> dayValue > 31 then Inl BadDay
                  else Inr (yearValue, monthValue))"

definition NormalizeSuffix :: "string \<Rightarrow> (suffix_error, string) result" where
  "NormalizeSuffix raw =
     (let trimmed = TrimSpace raw in
      if trimmed = '''' then Inr ''''
      else if Atoi trimmed = None then Inl (NotANumber trimmed)
      else if length trimmed > 8 then Inl TooLong
      else Inr trimmed)"

definition FormatProtocolNumber :: "int \<Rightarrow> int \<Rightarrow> int \<Rightarrow> string \<Rightarrow> string" where
  "FormatProtocolNumber year month seq suffix =
     (let base = show_padded 4 year @ ''-'' @ show_padded 2 month @ ''/'' @ show_padded 3 seq
      in if suffix = '''' then base else base @ ''/'' @ suffix)"

text \<open>
  \<open>nextSequenceLocked\<close>: \<open>v + 1\<close> is \<open>int64\<close> arithmetic. The query returns NULL or an integer,
  so the default branch of the type switch is not reachable.
\<close>

definition nextSequenceLocked :: "db \<Rightarrow> int \<Rightarrow> int \<Rightarrow> string \<Rightarrow> int" where
  "nextSequenceLocked d programGroupID year suffix =
     (case q_MaxAnnualSequenceForGroupYear d programGroupID year suffix of
        None \<Rightarrow> 1
      | Some v \<Rightarrow> wrap64 (v + 1))"

subsection \<open>Dates\<close>

lemma Atoi_short_bound:
  assumes "Atoi s = Some v" "length s \<le> 4"
  shows "v \<le> 9999"
proof -
  have *: "digits_val b < 10 ^ length b" if "list_all is_ascii_digit b" for b
    using that
  proof (induction b rule: rev_induct)
    case Nil
    then show ?case by (simp add: digits_val_def)
  next
    case (snoc c b)
    then have "digit_val c \<le> 9" by (auto simp: digit_val_def is_ascii_digit_def)
    with snoc show ?case by (simp add: digits_val_append)
  qed
  define b where "b = (if s \<noteq> [] \<and> (hd s = CHR ''-'' \<or> hd s = CHR ''+'') then tl s else s)"
  have b: "list_all is_ascii_digit b" "length b \<le> length s"
    "v = int (digits_val b) \<or> v = - int (digits_val b)"
    using assms(1) by (auto simp: Atoi_def Let_def b_def split: if_splits)
  have "digits_val b < 10 ^ 4"
    using * [OF b(1)] b(2) assms(2) power_increasing [of "length b" 4 "10::nat"] by simp
  with b(3) show ?thesis by auto
qed

lemma ParseISODate_Inr:
  assumes "ParseISODate raw = Inr (y, m)"
  shows "2000 \<le> y \<and> y \<le> 9999 \<and> 1 \<le> m \<and> m \<le> 12 \<and> length (TrimSpace raw) = 10"
proof -
  from assms have "Atoi (slice 0 4 (TrimSpace raw)) = Some y" "2000 \<le> y" "1 \<le> m" "m \<le> 12"
    "length (TrimSpace raw) = 10"
    by (auto simp: ParseISODate_def Let_def split: if_splits option.splits)
  moreover have "length (slice 0 4 (TrimSpace raw)) \<le> 4" by (simp add: slice_def)
  ultimately show ?thesis using Atoi_short_bound by blast
qed

lemma ParseISODate_trim [simp]: "is_ok (ParseISODate (TrimSpace s)) = is_ok (ParseISODate s)"
  by (simp add: ParseISODate_def Let_def split: option.splits)

lemma ParseISODate_trim_Inr: "ParseISODate (TrimSpace s) = Inr ym \<longleftrightarrow> ParseISODate s = Inr ym"
  by (simp add: ParseISODate_def Let_def split: option.splits)

lemma length_show_nat: "n < 10 ^ Suc k \<Longrightarrow> length (show_nat n) \<le> Suc k"
proof (induction k arbitrary: n)
  case 0
  then show ?case by (simp add: show_nat.simps [of n])
next
  case (Suc k)
  show ?case
  proof (cases "n < 10")
    case True
    then show ?thesis by (simp add: show_nat.simps [of n])
  next
    case False
    from Suc.prems have "n div 10 < 10 ^ Suc k" by (simp add: div_less_iff_less_mult)
    then have "length (show_nat (n div 10)) \<le> Suc k" by (rule Suc.IH)
    with False show ?thesis by (simp add: show_nat.simps [of n])
  qed
qed

lemma length_show_padded:
  "0 \<le> i \<Longrightarrow> i < 10 ^ Suc k \<Longrightarrow> length (show_padded (Suc k) i) = Suc k"
  using length_show_nat [of "nat i" k] by (simp add: show_padded_def Let_def nat_less_iff)

text \<open>Every date printed as YYYY-MM-DD parses to its year and month.\<close>

lemma ParseISODate_print:
  assumes "2000 \<le> y" "y \<le> 9999" "1 \<le> m" "m \<le> 12" "1 \<le> dd" "dd \<le> 31"
  shows "ParseISODate (show_padded 4 y @ ''-'' @ show_padded 2 m @ ''-'' @ show_padded 2 dd)
         = Inr (y, m)"
proof -
  let ?y = "show_padded 4 y" and ?m = "show_padded 2 m" and ?d = "show_padded 2 dd"
  let ?s = "?y @ ''-'' @ ?m @ ''-'' @ ?d"
  have len: "length ?y = 4" "length ?m = 2" "length ?d = 2"
    using assms length_show_padded [of y 3] length_show_padded [of m 1] length_show_padded [of dd 1]
    by (simp_all add: numeral_eq_Suc)
  have ne: "?y \<noteq> []" "?d \<noteq> []" using len by auto
  have dg: "list_all is_ascii_digit ?y" "list_all is_ascii_digit ?d"
    using assms by (simp_all add: show_padded_nonneg)
  then have "solid (hd ?s)" "solid (last ?s)"
    using ne by (auto simp: list_all_iff intro!: digit_solid)
  then have trim: "TrimSpace ?s = ?s" by (intro TrimSpace_solid) (auto simp: ne)
  have at: "?s ! 4 = CHR ''-''" "?s ! 7 = CHR ''-''" using len by (simp_all add: nth_append)
  have sl: "slice 0 4 ?s = ?y" "slice 5 7 ?s = ?m" "slice 8 10 ?s = ?d"
    using len by (simp_all add: slice_def)
  have rd: "Atoi ?y = Some y" "Atoi ?m = Some m" "Atoi ?d = Some dd"
    using assms by (simp_all add: Atoi_show_padded int64_max_def)
  show ?thesis unfolding ParseISODate_def Let_def trim at sl rd using assms len by simp
qed

subsection \<open>Suffixes\<close>

lemma NormalizeSuffix_Inr:
  assumes "NormalizeSuffix raw = Inr s"
  shows "s = TrimSpace raw \<and> length s \<le> 8 \<and> (s = '''' \<or> Atoi s \<noteq> None)"
  using assms by (auto simp: NormalizeSuffix_def Let_def split: if_splits)

lemma NormalizeSuffix_idem:
  "NormalizeSuffix raw = Inr s \<Longrightarrow> NormalizeSuffix s = Inr s"
  by (auto simp: NormalizeSuffix_def Let_def split: if_splits)

subsection \<open>Numbers\<close>

lemma digits_no_slash:
  "list_all is_ascii_digit s \<Longrightarrow> \<forall>c \<in> set s. c \<noteq> CHR ''-'' \<and> c \<noteq> CHR ''/''"
  by (auto simp: list_all_iff dest: digit_not_sign)

lemma FormatProtocolNumber_inj:
  assumes nn: "0 \<le> y" "0 \<le> y'" "0 \<le> m" "0 \<le> m'" "0 \<le> q" "0 \<le> q'"
    and eq: "FormatProtocolNumber y m q s = FormatProtocolNumber y' m' q' s'"
  shows "y = y' \<and> m = m' \<and> q = q' \<and> s = s'"
proof -
  define tail where "tail x = (if x = '''' then '''' else CHR ''/'' # x)" for x :: string
  have fmt: "FormatProtocolNumber a b c x
      = show_padded 4 a @ CHR ''-'' # show_padded 2 b @ CHR ''/'' # show_padded 3 c @ tail x"
    for a b c x
    by (simp add: FormatProtocolNumber_def Let_def tail_def)
  have dg: "\<forall>c \<in> set (show_padded w i). c \<noteq> CHR ''-'' \<and> c \<noteq> CHR ''/''" if "0 \<le> i" for w i
    using show_padded_nonneg(2) [OF that] by (rule digits_no_slash)
  then have nd: "CHR ''-'' \<notin> set (show_padded w i)" "CHR ''/'' \<notin> set (show_padded w i)"
    if "0 \<le> i" for w i using that by blast+
  have tl: "tail x = [] \<or> \<not> hd (tail x) \<noteq> CHR ''/''" for x by (simp add: tail_def)
  have 1: "show_padded 4 y = show_padded 4 y' \<and>
      show_padded 2 m @ CHR ''/'' # show_padded 3 q @ tail s
      = show_padded 2 m' @ CHR ''/'' # show_padded 3 q' @ tail s'"
    by (rule append_sep_inj [OF nd(1) nd(1) eq [unfolded fmt]]) (use nn in auto)
  have 2: "show_padded 2 m = show_padded 2 m' \<and> show_padded 3 q @ tail s = show_padded 3 q' @ tail s'"
    by (rule append_sep_inj [OF nd(2) nd(2) conjunct2 [OF 1]]) (use nn in auto)
  have 3: "show_padded 3 q = show_padded 3 q' \<and> tail s = tail s'"
    by (rule append_stop_inj [OF _ _ tl tl conjunct2 [OF 2]]) (use dg nn in auto)
  then have "s = s'" by (auto simp: tail_def split: if_splits)
  with 1 2 3 show ?thesis using nn show_padded_inj by blast
qed

subsection \<open>Sequence numbers\<close>

lemma set_slot_numbers:
  "n \<in> set (slot_numbers d g y s) \<longleftrightarrow>
     (\<exists>p \<in> set (protocols d). pr_program_group_id p = g \<and> pr_sequence_year p = Some y
        \<and> coalesce (pr_protocol_suffix p) = s \<and> pr_annual_sequence_number p = Some n)"
  unfolding slot_numbers_def set_map_filter_iff by (auto split: if_splits)

lemma nextSequence_fresh:
  assumes "\<forall>n \<in> set (slot_numbers d g y s). n < int64_max"
    and "\<forall>n \<in> set (slot_numbers d g y s). 0 < n"
  shows "\<forall>n \<in> set (slot_numbers d g y s). n < nextSequenceLocked d g y s"
    and "0 < nextSequenceLocked d g y s"
proof -
  let ?ns = "slot_numbers d g y s"
  have "(\<forall>n \<in> set ?ns. n < nextSequenceLocked d g y s) \<and> 0 < nextSequenceLocked d g y s"
  proof (cases "?ns = []")
    case True
    then show ?thesis by (simp add: nextSequenceLocked_def q_MaxAnnualSequenceForGroupYear_def)
  next
    case False
    then have m: "Max (set ?ns) \<in> set ?ns" by simp
    with assms have "wrap64 (Max (set ?ns) + 1) = Max (set ?ns) + 1"
      by (intro wrap64_id) (auto simp: int64_min_def)
    then have "nextSequenceLocked d g y s = Max (set ?ns) + 1"
      using False by (simp add: nextSequenceLocked_def q_MaxAnnualSequenceForGroupYear_def)
    then show ?thesis using m assms(2) by (auto simp: less_add_one add_strict_increasing2
        intro: Max_ge [THEN le_less_trans])
  qed
  then show "\<forall>n \<in> set ?ns. n < nextSequenceLocked d g y s" "0 < nextSequenceLocked d g y s"
    by simp_all
qed

end
