(* ===== verification/ProtocolService.thy ===== *)
theory ProtocolService
  imports Services ProtocolState ProtocolNumbering
begin

text \<open>
  The service of the protocols slice (\<^verbatim>\<open>protocols/service.go\<close>). \<open>Fix\<close> and \<open>Transition\<close> read and
  write inside one transaction, so each is one step on the database; a return before the
  commit leaves the database as it was. Starting a transaction and committing it do not fail.
\<close>

datatype protocol_msg =
    GroupRequired | GroupNotFound | BadProtocolId | BadTrainingRecordId | ProtocolNotFound
  | AlreadyActiveIn int | AlreadyActiveElsewhere | BadParticipantId | ParticipantNotFound
  | DateRequired | DateMsg date_error | SuffixMsg suffix_error | OnlyFromDraft string
  | NumberTaken | UnknownStatus

record FixInput =
  TrainingStartDate :: string
  TrainingEndDate :: string
  ProtocolDate :: string
  ProtocolSuffix :: string

definition protocols_CreateProtocol :: "env \<Rightarrow> int \<Rightarrow> db \<Rightarrow> (protocol_msg, Protocol) svc_result" where
  "protocols_CreateProtocol ctx gid d =
     (if gid \<le> 0 then (Inl (FieldErrors [(''program_group_id'', GroupRequired)]), d)
      else case q_GetGroupByID d gid of
        Inl ErrNoRows \<Rightarrow> (Inl (FieldErrors [(''program_group_id'', GroupNotFound)]), d)
      | Inl e \<Rightarrow> (Inl (Failed ''get program group'' e), d)
      | Inr _ \<Rightarrow>
          (case q_CreateProtocol d gid (e_clock ctx 0) (e_clock ctx 0) of
             Inl e \<Rightarrow> (Inl (Failed ''create protocol'' e), d)
           | Inr (protocol, d') \<Rightarrow>
               (Inr protocol,
                recordAudit ctx 0 (entry ''create'' ''protocol'' (pr_id protocol)
                  [(''program_group_id'', JInt (pr_program_group_id protocol)),
                   (''status'', JStr (pr_status protocol))]) d')))"

definition protocols_AddParticipant ::
  "env \<Rightarrow> int \<Rightarrow> int \<Rightarrow> db \<Rightarrow> (protocol_msg, unit) svc_result" where
  "protocols_AddParticipant ctx protocolID trainingRecordID d =
     (let errs = err_if (protocolID \<le> 0) ''protocol_id'' BadProtocolId
               @ err_if (trainingRecordID \<le> 0) ''training_record_id'' BadTrainingRecordId
      in if errs \<noteq> [] then (Inl (FieldErrors errs), d)
      else case q_GetProtocolByID d protocolID of
        Inl ErrNoRows \<Rightarrow> (Inl (FieldErrors [(''protocol_id'', ProtocolNotFound)]), d)
      | Inl e \<Rightarrow> (Inl (Failed ''get protocol'' e), d)
      | Inr _ \<Rightarrow>
          (case q_GetActiveParticipantForTrainingRecord d trainingRecordID of
             Inr existing \<Rightarrow>
               (Inl (FieldErrors [(''training_record_id'', AlreadyActiveIn (pp_protocol_id existing))]), d)
           | Inl (ConstraintFailed v) \<Rightarrow>
               (Inl (Failed ''lookup active participant'' (ConstraintFailed v)), d)
           | Inl ErrNoRows \<Rightarrow>
               (case q_CreateProtocolParticipant d protocolID trainingRecordID
                       (e_clock ctx 0) (e_clock ctx 0) of
                  Inl e \<Rightarrow>
                    if is_conflict e
                    then (Inl (FieldErrors [(''training_record_id'', AlreadyActiveElsewhere)]), d)
                    else (Inl (Failed ''add participant'' e), d)
                | Inr (participant, d') \<Rightarrow>
                    (Inr (),
                     recordAudit ctx 0 (entry ''add_participant'' ''protocol_participant''
                       (pp_id participant)
                       [(''protocol_id'', JInt protocolID),
                        (''training_record_id'', JInt trainingRecordID)]) d'))))"

definition protocols_RemoveParticipant :: "env \<Rightarrow> int \<Rightarrow> db \<Rightarrow> (protocol_msg, unit) svc_result" where
  "protocols_RemoveParticipant ctx participantID d =
     (if participantID \<le> 0 then (Inl (FieldErrors [(''participant_id'', BadParticipantId)]), d)
      else case q_GetProtocolParticipantByID d participantID of
        Inl ErrNoRows \<Rightarrow> (Inl (FieldErrors [(''participant_id'', ParticipantNotFound)]), d)
      | Inl e \<Rightarrow> (Inl (Failed ''get participant'' e), d)
      | Inr previous \<Rightarrow>
          (if pp_status previous = ''removed'' then (Inr (), d)
           else case q_MarkParticipantRemoved d (e_clock ctx 0) participantID of
             Inl e \<Rightarrow> (Inl (Failed ''remove participant'' e), d)
           | Inr (removed, d') \<Rightarrow>
               (Inr (),
                recordAudit ctx 0 (entry ''remove_participant'' ''protocol_participant''
                  (pp_id removed)
                  [(''protocol_id'', JInt (pp_protocol_id removed)),
                   (''training_record_id'', JInt (pp_training_record_id removed))]) d')))"

definition date_errs :: "string \<Rightarrow> string \<Rightarrow> (string \<times> protocol_msg) list" where
  "date_errs field value =
     (if value = '''' then [(field, DateRequired)]
      else case ParseISODate value of Inl e \<Rightarrow> [(field, DateMsg e)] | Inr _ \<Rightarrow> [])"

definition validateFixInput ::
  "FixInput \<Rightarrow> string \<times> string \<times> string \<times> string \<times> (string \<times> protocol_msg) list" where
  "validateFixInput inp =
     (let startd = TrimSpace (TrainingStartDate inp);
          endd = TrimSpace (TrainingEndDate inp);
          protoDate = TrimSpace (ProtocolDate inp);
          errs = date_errs ''training_start_date'' startd @ date_errs ''training_end_date'' endd
               @ date_errs ''protocol_date'' protoDate
      in case NormalizeSuffix (ProtocolSuffix inp) of
           Inl e \<Rightarrow> (startd, endd, protoDate, '''', errs @ [(''protocol_suffix'', SuffixMsg e)])
         | Inr normalized \<Rightarrow> (startd, endd, protoDate, normalized, errs))"

definition suffixNull :: "string \<Rightarrow> string option" where
  "suffixNull value = (if value = '''' then None else Some value)"

definition suffixOrEmpty :: "string option \<Rightarrow> string" where
  "suffixOrEmpty value = (case value of Some s \<Rightarrow> s | None \<Rightarrow> '''')"

definition int_of :: "int option \<Rightarrow> int" where
  "int_of x = (case x of None \<Rightarrow> 0 | Some i \<Rightarrow> i)"

definition fix_entry :: "Protocol \<Rightarrow> RecordInput" where
  "fix_entry fixed =
     entry ''fix'' ''protocol'' (pr_id fixed)
       [(''protocol_number'', JStr (str_of (pr_protocol_number fixed))),
        (''sequence_year'', JInt (int_of (pr_sequence_year fixed))),
        (''protocol_month'', JInt (int_of (pr_protocol_month fixed))),
        (''annual_sequence_number'', JInt (int_of (pr_annual_sequence_number fixed))),
        (''protocol_suffix'', JStr (suffixOrEmpty (pr_protocol_suffix fixed))),
        (''training_start_date'', JStr (str_of (pr_training_start_date fixed))),
        (''training_end_date'', JStr (str_of (pr_training_end_date fixed))),
        (''protocol_date'', JStr (str_of (pr_protocol_date fixed)))]"

definition protocols_Fix :: "env \<Rightarrow> int \<Rightarrow> FixInput \<Rightarrow> db \<Rightarrow> (protocol_msg, Protocol) svc_result" where
  "protocols_Fix ctx protocolID inp d =
     (case validateFixInput inp of (startDate, endDate, protocolDate, suffix, errs) \<Rightarrow>
        if errs \<noteq> [] then (Inl (FieldErrors errs), d)
        else case ParseISODate protocolDate of
          Inl e \<Rightarrow> (Inl (FieldErrors [(''protocol_date'', DateMsg e)]), d)
        | Inr (year, month) \<Rightarrow>
            (case q_GetProtocolByID d protocolID of
               Inl ErrNoRows \<Rightarrow> (Inl (FieldErrors [(''protocol_id'', ProtocolNotFound)]), d)
             | Inl e \<Rightarrow> (Inl (Failed ''get protocol'' e), d)
             | Inr existing \<Rightarrow>
                 if pr_status existing \<noteq> StatusDraft
                 then (Inl (FieldErrors [(''protocol_id'', OnlyFromDraft (pr_status existing))]), d)
                 else
                   let nxt = nextSequenceLocked d (pr_program_group_id existing) year suffix in
                   (case q_FixProtocol d (Some startDate) (Some endDate) (Some protocolDate)
                           (Some year) (Some month) (Some nxt)
                           (Some (FormatProtocolNumber year month nxt suffix)) (suffixNull suffix)
                           (Some (e_clock ctx 0)) (e_clock ctx 1) protocolID of
                      Inl e \<Rightarrow>
                        if is_conflict e
                        then (Inl (FieldErrors [(''protocol_number'', NumberTaken)]), d)
                        else (Inl (Failed ''fix protocol'' e), d)
                    | Inr (fixed, d') \<Rightarrow> (Inr fixed, recordAudit ctx 0 (fix_entry fixed) d'))))"

definition protocols_Transition ::
  "env \<Rightarrow> int \<Rightarrow> string \<Rightarrow> db \<Rightarrow> (protocol_msg, unit) svc_result" where
  "protocols_Transition ctx protocolID new_status d =
     (if \<not> IsValid new_status then (Inl (FieldErrors [(''to'', UnknownStatus)]), d)
      else case q_GetProtocolByID d protocolID of
        Inl ErrNoRows \<Rightarrow> (Inl (FieldErrors [(''protocol_id'', ProtocolNotFound)]), d)
      | Inl e \<Rightarrow> (Inl (Failed ''get protocol'' e), d)
      | Inr existing \<Rightarrow>
          (let old_status = pr_status existing in
           if \<not> CanTransition old_status new_status
           then (Inl (Refused ''invalid protocol status transition'' [old_status, new_status]), d)
           else case q_SetProtocolStatus d new_status (e_clock ctx 0) protocolID of
             Inl e \<Rightarrow> (Inl (Failed ''transition protocol'' e), d)
           | Inr (updated, d') \<Rightarrow>
               (Inr (),
                recordAudit ctx 0 (entry ''transition'' ''protocol'' (pr_id updated)
                  [(''from'', JStr old_status), (''to'', JStr new_status)]) d')))"

definition protocols_List :: "db \<Rightarrow> Protocol list" where
  "protocols_List d = q_ListProtocols d"

definition protocols_Get :: "db \<Rightarrow> int \<Rightarrow> (db_error, Protocol) result" where
  "protocols_Get d i = q_GetProtocolByID d i"

definition protocols_ListParticipants :: "db \<Rightarrow> int \<Rightarrow> ProtocolParticipant list" where
  "protocols_ListParticipants d protocolID = q_ListProtocolParticipants d protocolID"

subsection \<open>The invariant of the protocols\<close>

text \<open>
  A protocol that is still a draft has no number; a protocol with a number carries the number
  its year, month, sequence number and suffix print to, and its sequence number fits \<open>int64\<close>;
  and the sequence numbers of one (group, year, suffix) run from 1 without gaps.
\<close>

definition numbering :: "Protocol \<Rightarrow> bool" where
  "numbering p \<longleftrightarrow>
     (pr_status p = StatusDraft \<longrightarrow> pr_annual_sequence_number p = None \<and> pr_protocol_number p = None)
     \<and> (pr_annual_sequence_number p = None \<longleftrightarrow> pr_protocol_number p = None)
     \<and> (\<forall>n. pr_annual_sequence_number p = Some n \<longrightarrow> n \<le> int64_max)
     \<and> (\<forall>num. pr_protocol_number p = Some num \<longrightarrow>
          (\<exists>y m n. pr_sequence_year p = Some y \<and> pr_protocol_month p = Some m
             \<and> pr_annual_sequence_number p = Some n
             \<and> num = FormatProtocolNumber y m n (coalesce (pr_protocol_suffix p))))"

definition gap_free :: "db \<Rightarrow> bool" where
  "gap_free d \<longleftrightarrow> (\<forall>g y s. \<exists>n. set (slot_numbers d g y s) = {1..n})"

definition protocols_inv :: "db \<Rightarrow> bool" where
  "protocols_inv d \<longleftrightarrow> (\<forall>p \<in> set (protocols d). numbering p) \<and> gap_free d"

lemma protocols_inv_cong: "protocols d' = protocols d \<Longrightarrow> protocols_inv d' = protocols_inv d"
  by (simp add: protocols_inv_def gap_free_def slot_numbers_def)

lemma coalesce_suffixNull [simp]: "coalesce (suffixNull s) = s"
  by (simp add: coalesce_def suffixNull_def)

end
