(* ===== verification/ProtocolLaws.thy ===== *)
theory ProtocolLaws
  imports ProtocolService
begin

text \<open>
  What the protocol operations do and keep. \<open>upd_protocol\<close> is characterised once, as a relation
  between the row before and the row after; the lemmas on \<open>Fix\<close> and \<open>Transition\<close> rest on it.
  \<open>protocol_step\<close> is one call of the service with any arguments, successful or not.
\<close>

subsection \<open>Rewriting one protocol\<close>

lemma db_ok_protocols:
  assumes "db_ok d"
  shows "table_ok pr_id protocol_check protocol_clash (protocols d)"
  using assms by (simp add: db_ok_defs)

lemma get_protocol_row:
  assumes "q_GetProtocolByID d i = Inr p"
  shows "p \<in> set (protocols d) \<and> pr_id p = i"
  using assms by (auto simp: read_defs dest: sql_get_Inr)

lemma get_protocol_eq:
  assumes "db_ok d" "p \<in> set (protocols d)"
  shows "q_GetProtocolByID d (pr_id p) = Inr p"
  using table_ok_get [OF db_ok_protocols [OF assms(1)] assms(2)] by (simp add: read_defs)

lemma upd_protocol_Inr:
  assumes ok: "db_ok d" and upd: "upd_protocol d i cond f = Inr (p', d')"
  obtains p where "q_GetProtocolByID d i = Inr p" "cond p" "p' = f p" "protocol_check p'"
    "d' = d\<lparr>protocols := protocols d'\<rparr>"
    "set (protocols d') = insert p' {x \<in> set (protocols d). pr_id x \<noteq> i}"
proof -
  from upd obtain t where d': "d' = d\<lparr>protocols := t\<rparr>"
    and u: "sql_update pr_id protocol_check protocol_clash (protocol_fk d) i cond f (protocols d)
            = Inr (p', t)"
    by (auto simp: upd_protocol_def stored_Inr)
  from sql_update_row [OF u] obtain p where p: "p \<in> set (protocols d)" "pr_id p = i" "cond p"
    "p' = f p" by auto
  from u have "protocol_check p'" by (auto simp: sql_update_Inr)
  with p d' get_protocol_eq [OF ok p(1)] sql_update_set [OF u] show ?thesis
    by (intro that [of p]) auto
qed

lemma upd_protocol_succeeds:
  assumes ok: "db_ok d" and p: "q_GetProtocolByID d i = Inr p" "cond p"
    and chk: "protocol_check (f p)" and grp: "pr_program_group_id (f p) = pr_program_group_id p"
    and free: "\<And>x. x \<in> set (protocols d) \<Longrightarrow> pr_id x \<noteq> i \<Longrightarrow> \<not> protocol_clash (f p) x"
  shows "\<exists>d'. upd_protocol d i cond f = Inr (f p, d')"
proof -
  from p(1) have pi: "p \<in> set (protocols d)" "pr_id p = i" by (auto dest: get_protocol_row)
  have "find (\<lambda>r. pr_id r = i \<and> cond r) (protocols d) = Some p"
  proof (rule find_unique [OF pi(1)])
    show "pr_id p = i \<and> cond p" using pi(2) p(2) by simp
    fix x
    assume "x \<in> set (protocols d)" "pr_id x = i \<and> cond x"
    then show "x = p" using table_ok_id [OF db_ok_protocols [OF ok] _ pi(1)] pi(2) by simp
  qed
  moreover have "protocol_fk d (f p)"
    using ok pi(1) grp by (auto simp: db_ok_defs protocol_fk_def)
  ultimately show ?thesis
    using chk free by (auto simp: upd_protocol_def stored_def sql_update_def Let_def list_ex_iff)
qed

lemma check_draft_fixed:
  "protocol_check p \<Longrightarrow> pr_status p = ''draft'' \<Longrightarrow> pr_protocol_number p = None \<Longrightarrow>
     \<not> protocol_check (p\<lparr>pr_status := ''fixed'', pr_updated_at := u\<rparr>)"
  by (simp add: protocol_check_def)

subsection \<open>Outcomes of the operations\<close>

lemmas op_splits = sum.splits db_error.splits if_splits prod.splits option.splits

lemma Fix_Inr:
  assumes "db_ok d" "protocols_Fix ctx i inp d = (Inr p', d'')"
  obtains p y m sd ed pd s d' where
    "validateFixInput inp = (sd, ed, pd, s, [])" "ParseISODate pd = Inr (y, m)"
    "q_GetProtocolByID d i = Inr p" "pr_status p = ''draft''"
    "p' = p\<lparr>pr_status := ''fixed'', pr_training_start_date := Some sd,
       pr_training_end_date := Some ed, pr_protocol_date := Some pd,
       pr_sequence_year := Some y, pr_protocol_month := Some m,
       pr_annual_sequence_number := Some (nextSequenceLocked d (pr_program_group_id p) y s),
       pr_protocol_number :=
         Some (FormatProtocolNumber y m (nextSequenceLocked d (pr_program_group_id p) y s) s),
       pr_protocol_suffix := suffixNull s, pr_fixed_at := Some (e_clock ctx 0),
       pr_updated_at := e_clock ctx 1\<rparr>"
    "protocol_check p'" "d' = d\<lparr>protocols := protocols d'\<rparr>" "db_ok d'"
    "set (protocols d') = insert p' {x \<in> set (protocols d). pr_id x \<noteq> i}"
    "d'' = recordAudit ctx 0 (fix_entry p') d'"
proof -
  obtain sd ed pd s errs where v: "validateFixInput inp = (sd, ed, pd, s, errs)"
    by (cases "validateFixInput inp") auto
  from assms(2) v have e: "errs = []"
    by (auto simp: protocols_Fix_def split: if_splits)
  with assms(2) v obtain y m where ym: "ParseISODate pd = Inr (y, m)"
    by (auto simp: protocols_Fix_def split: sum.splits)
  with assms(2) v e obtain p where p: "q_GetProtocolByID d i = Inr p" "pr_status p = ''draft''"
    by (auto simp: protocols_Fix_def split: sum.splits db_error.splits if_splits)
  let ?n = "nextSequenceLocked d (pr_program_group_id p) y s"
  from assms(2) v e ym p obtain d' where
    u: "q_FixProtocol d (Some sd) (Some ed) (Some pd) (Some y) (Some m) (Some ?n)
          (Some (FormatProtocolNumber y m ?n s)) (suffixNull s) (Some (e_clock ctx 0))
          (e_clock ctx 1) i = Inr (p', d')"
    and d'': "d'' = recordAudit ctx 0 (fix_entry p') d'"
    by (auto simp: protocols_Fix_def Let_def split: sum.splits if_splits)
  have ok': "db_ok d'" using u assms(1) statement.fix_protocol statement_ok by blast
  from u show ?thesis
    unfolding q_FixProtocol_def
    by (rule upd_protocol_Inr [OF assms(1)])
      (rule that [OF v [unfolded e] ym p, OF _ _ _ ok' _ d''], use p in auto)
qed

lemma Transition_Inr:
  assumes "db_ok d" "protocols_Transition ctx i st d = (Inr u, d'')"
  obtains p p' d' where "q_GetProtocolByID d i = Inr p" "CanTransition (pr_status p) st"
    "p' = p\<lparr>pr_status := st, pr_updated_at := e_clock ctx 0\<rparr>" "protocol_check p'"
    "d' = d\<lparr>protocols := protocols d'\<rparr>" "db_ok d'"
    "set (protocols d') = insert p' {x \<in> set (protocols d). pr_id x \<noteq> i}"
    "protocols d'' = protocols d'" "db_ok d''"
proof -
  from assms(2) obtain p p' d' where p: "q_GetProtocolByID d i = Inr p"
    and c: "CanTransition (pr_status p) st"
    and s: "q_SetProtocolStatus d st (e_clock ctx 0) i = Inr (p', d')"
    and d'': "d'' = recordAudit ctx 0 (entry ''transition'' ''protocol'' (pr_id p')
                  [(''from'', JStr (pr_status p)), (''to'', JStr st)]) d'"
    by (auto simp: protocols_Transition_def Let_def
        split: sum.splits db_error.splits if_splits)
  have ok': "db_ok d'" using s assms(1) statement.set_protocol_status statement_ok by blast
  from s show ?thesis
    unfolding q_SetProtocolStatus_def
    by (rule upd_protocol_Inr [OF assms(1)])
      (rule that [OF p c, OF _ _ _ ok'], use p d'' ok' recordAudit_ok in auto)
qed

lemma CreateProtocol_Inr:
  assumes "db_ok d" "protocols_CreateProtocol ctx g d = (Inr p, d'')"
  shows "protocols d'' = protocols d @ [p]" "pr_id p \<notin> pr_id ` set (protocols d)"
    "pr_status p = ''draft''" "pr_program_group_id p = g" "pr_annual_sequence_number p = None"
    "pr_protocol_number p = None" "pr_sequence_year p = None" "db_ok d''"
proof -
  from assms(2) obtain d' k where
    c: "q_CreateProtocol d g (e_clock ctx 0) (e_clock ctx 0) = Inr (p, d')"
    and d'': "d'' = recordAudit ctx 0 k d'"
    by (auto simp: protocols_CreateProtocol_def split: sum.splits db_error.splits if_splits)
  have ok': "db_ok d'" using c assms(1) statement.create_protocol statement_ok by blast
  from c obtain t where t: "d' = d\<lparr>protocols := t\<rparr>"
    and ins: "sql_insert pr_id (\<lambda>i r. r\<lparr>pr_id := i\<rparr>) protocol_check protocol_clash (protocol_fk d)
       \<lparr>pr_id = 0, pr_program_group_id = g, pr_status = ''draft'',
       pr_training_start_date = None, pr_training_end_date = None, pr_protocol_date = None,
       pr_sequence_year = None, pr_protocol_month = None, pr_annual_sequence_number = None,
       pr_protocol_number = None, pr_fixed_at = None, pr_created_at = e_clock ctx 0,
       pr_updated_at = e_clock ctx 0, pr_protocol_suffix = None\<rparr> (protocols d) = Inr (p, t)"
    by (auto simp: q_CreateProtocol_def ins_protocol_def stored_Inr)
  from pr.insert_id [OF ins] show "pr_id p \<notin> pr_id ` set (protocols d)"
    unfolding row_ids_def by blast
  show "protocols d'' = protocols d @ [p]" using ins t d'' by (auto simp: sql_insert_Inr)
  show "db_ok d''" using d'' ok' recordAudit_ok by simp
qed (use assms(2) in \<open>auto simp: protocols_CreateProtocol_def q_CreateProtocol_def ins_protocol_def
    stored_Inr sql_insert_Inr split: sum.splits db_error.splits if_splits\<close>)

text \<open>A call that fails leaves the whole database as it was.\<close>

lemma protocol_errors_frame:
  "fst (protocols_CreateProtocol ctx g d) = Inl e \<Longrightarrow> snd (protocols_CreateProtocol ctx g d) = d"
  "fst (protocols_AddParticipant ctx i j d) = Inl e \<Longrightarrow> snd (protocols_AddParticipant ctx i j d) = d"
  "fst (protocols_RemoveParticipant ctx i d) = Inl e \<Longrightarrow> snd (protocols_RemoveParticipant ctx i d) = d"
  "fst (protocols_Fix ctx i inp d) = Inl e \<Longrightarrow> snd (protocols_Fix ctx i inp d) = d"
  "fst (protocols_Transition ctx i st d) = Inl e \<Longrightarrow> snd (protocols_Transition ctx i st d) = d"
  by (auto simp: protocols_CreateProtocol_def protocols_AddParticipant_def
      protocols_RemoveParticipant_def protocols_Fix_def protocols_Transition_def Let_def
      split: op_splits)

subsection \<open>Steps of the service\<close>

inductive protocol_step :: "db \<Rightarrow> db \<Rightarrow> bool" where
  create: "protocols_CreateProtocol ctx g d = (r1, d') \<Longrightarrow> protocol_step d d'"
| add: "protocols_AddParticipant ctx i j d = (r2, d') \<Longrightarrow> protocol_step d d'"
| remove: "protocols_RemoveParticipant ctx i d = (r2, d') \<Longrightarrow> protocol_step d d'"
| fix_number: "protocols_Fix ctx i inp d = (r1, d') \<Longrightarrow> protocol_step d d'"
| transition: "protocols_Transition ctx i st d = (r2, d') \<Longrightarrow> protocol_step d d'"

text \<open>How one protocol may change in a step.\<close>

definition evolves :: "Protocol \<Rightarrow> Protocol \<Rightarrow> bool" where
  "evolves p p' \<longleftrightarrow>
     pr_id p' = pr_id p \<and> pr_program_group_id p' = pr_program_group_id p
     \<and> (pr_status p' = pr_status p \<or> CanTransition (pr_status p) (pr_status p'))
     \<and> (pr_protocol_number p \<noteq> None \<longrightarrow>
          pr_protocol_number p' = pr_protocol_number p
          \<and> pr_annual_sequence_number p' = pr_annual_sequence_number p
          \<and> pr_sequence_year p' = pr_sequence_year p
          \<and> pr_protocol_month p' = pr_protocol_month p
          \<and> pr_protocol_suffix p' = pr_protocol_suffix p
          \<and> pr_training_start_date p' = pr_training_start_date p
          \<and> pr_training_end_date p' = pr_training_end_date p
          \<and> pr_protocol_date p' = pr_protocol_date p
          \<and> pr_fixed_at p' = pr_fixed_at p)"

lemma evolves_refl [simp]: "evolves p p"
  by (simp add: evolves_def)

lemma participant_ops_protocols [simp]:
  "protocols (snd (protocols_AddParticipant ctx i j d)) = protocols d"
  "protocols (snd (protocols_RemoveParticipant ctx i d)) = protocols d"
  by (auto simp: protocols_AddParticipant_def protocols_RemoveParticipant_def Let_def write_defs
      ins_participant_def upd_participant_def stored_def split: op_splits)

lemma participant_ops_ok:
  assumes "db_ok d"
  shows "db_ok (snd (protocols_AddParticipant ctx i j d))"
    and "db_ok (snd (protocols_RemoveParticipant ctx i d))"
proof -
  have "db_ok d'" if "q_CreateProtocolParticipant d i j a b = Inr (r, d')" for a b r d'
    using that assms statement.create_participant statement_ok by blast
  then show "db_ok (snd (protocols_AddParticipant ctx i j d))"
    using assms recordAudit_ok
    by (auto simp: protocols_AddParticipant_def Let_def split: sum.splits db_error.splits)
  have "db_ok d'" if "q_MarkParticipantRemoved d u i = Inr (r, d')" for u r d'
    using that assms statement.remove_participant statement_ok by blast
  then show "db_ok (snd (protocols_RemoveParticipant ctx i d))"
    using assms recordAudit_ok
    by (auto simp: protocols_RemoveParticipant_def split: sum.splits db_error.splits)
qed

lemma Fix_step:
  assumes "db_ok d" "protocols_Fix ctx i inp d = (Inr p', d'')"
  shows "db_ok d''" "\<exists>p. q_GetProtocolByID d i = Inr p \<and> pr_status p = ''draft''"
  by (rule Fix_Inr [OF assms], simp add: recordAudit_ok, rule Fix_Inr [OF assms], blast)

lemma step_ok: "protocol_step d d' \<Longrightarrow> db_ok d \<Longrightarrow> db_ok d'"
proof (induction rule: protocol_step.induct)
  case (create ctx g d r1 d')
  show ?case
  proof (cases r1)
    case (Inl e)
    then show ?thesis using create protocol_errors_frame(1) [of ctx g d e] by simp
  next
    case (Inr p)
    then show ?thesis using create CreateProtocol_Inr(8) by blast
  qed
next
  case (add ctx i j d r2 d')
  then show ?case using participant_ops_ok(1) [of d ctx i j] by simp
next
  case (remove ctx i d r2 d')
  then show ?case using participant_ops_ok(2) [of d ctx i] by simp
next
  case (fix_number ctx i inp d r1 d')
  show ?case
  proof (cases r1)
    case (Inl e)
    then show ?thesis using fix_number protocol_errors_frame(4) [of ctx i inp d e] by simp
  next
    case (Inr p)
    then show ?thesis using fix_number Fix_step(1) by blast
  qed
next
  case (transition ctx i st d r2 d')
  show ?case
  proof (cases r2)
    case (Inl e)
    then show ?thesis using transition protocol_errors_frame(5) [of ctx i st d e] by simp
  next
    case (Inr u)
    with transition show ?thesis using Transition_Inr by blast
  qed
qed

end
