(* ===== verification/ProtocolInv.thy ===== *)
theory ProtocolInv
  imports ProtocolLaws
begin

text \<open>
  The invariant of the protocols is kept by every call of the service; each protocol evolves
  along the transition table and keeps its number once it has one; and \<open>Fix\<close> and \<open>Transition\<close>
  succeed exactly where the tables and the invariant say they should.
\<close>

lemma step_cases [consumes 2, case_names same new_draft fixed moved]:
  assumes "protocol_step d d'" "db_ok d"
  obtains
    (same) "protocols d' = protocols d"
  | (new_draft) p where "protocols d' = protocols d @ [p]" "pr_status p = ''draft''"
      "pr_annual_sequence_number p = None" "pr_protocol_number p = None"
  | (fixed) p p' y m s where "p \<in> set (protocols d)" "pr_status p = ''draft''"
      "pr_id p' = pr_id p" "pr_program_group_id p' = pr_program_group_id p"
      "pr_status p' = ''fixed''" "pr_sequence_year p' = Some y" "pr_protocol_month p' = Some m"
      "pr_annual_sequence_number p' = Some (nextSequenceLocked d (pr_program_group_id p) y s)"
      "pr_protocol_number p' =
         Some (FormatProtocolNumber y m (nextSequenceLocked d (pr_program_group_id p) y s) s)"
      "coalesce (pr_protocol_suffix p') = s" "protocol_check p'"
      "set (protocols d') = insert p' {x \<in> set (protocols d). pr_id x \<noteq> pr_id p}"
  | (moved) p p' st u where "p \<in> set (protocols d)" "CanTransition (pr_status p) st"
      "p' = p\<lparr>pr_status := st, pr_updated_at := u\<rparr>"
      "set (protocols d') = insert p' {x \<in> set (protocols d). pr_id x \<noteq> pr_id p}"
  using assms(1)
proof cases
  case (create ctx g r1)
  show ?thesis
  proof (cases r1)
    case (Inl e)
    then show ?thesis using create protocol_errors_frame(1) [of ctx g d e] same by simp
  next
    case (Inr p)
    then show ?thesis using create CreateProtocol_Inr [OF assms(2), of ctx g p d'] new_draft by blast
  qed
next
  case (add ctx i j r2)
  then show ?thesis using participant_ops_protocols(1) [of ctx i j d] same by simp
next
  case (remove ctx i r2)
  then show ?thesis using participant_ops_protocols(2) [of ctx i d] same by simp
next
  case (fix_number ctx i inp r1)
  show ?thesis
  proof (cases r1)
    case (Inl e)
    then show ?thesis using fix_number protocol_errors_frame(4) [of ctx i inp d e] same by simp
  next
    case (Inr p')
    with fix_number have eq: "protocols_Fix ctx i inp d = (Inr p', d')" by simp
    show ?thesis
    proof (rule Fix_Inr [OF assms(2) eq], goal_cases)
      case (1 p y m sd ed pd s d1)
      then have "p \<in> set (protocols d)" "pr_id p = i" by (auto dest: get_protocol_row)
      with 1 show ?thesis by (intro fixed [of p p' y m s]) auto
    qed
  qed
next
  case (transition ctx i st r2)
  show ?thesis
  proof (cases r2)
    case (Inl e)
    then show ?thesis using transition protocol_errors_frame(5) [of ctx i st d e] same by simp
  next
    case (Inr u)
    with transition have eq: "protocols_Transition ctx i st d = (Inr u, d')" by simp
    show ?thesis
    proof (rule Transition_Inr [OF assms(2) eq], goal_cases)
      case (1 p p' d1)
      then have "p \<in> set (protocols d)" "pr_id p = i" by (auto dest: get_protocol_row)
      with 1 show ?thesis by (intro moved [of p st p' "e_clock ctx 0"]) auto
    qed
  qed
qed

subsection \<open>Numbering\<close>

lemma CanTransition_not_draft: "CanTransition a b \<Longrightarrow> b \<noteq> ''draft''"
  by (auto simp: CanTransition_iff stage_def split: if_splits)

lemma nextSequence_bound: "nextSequenceLocked d g y s \<le> int64_max"
  using wrap64_bounds by (simp add: nextSequenceLocked_def int64_max_def split: option.splits)

lemma step_numbering:
  assumes "protocol_step d d'" "db_ok d" "\<forall>p \<in> set (protocols d). numbering p"
  shows "\<forall>p \<in> set (protocols d'). numbering p"
  using assms(1,2)
proof (cases rule: step_cases)
  case same
  then show ?thesis using assms(3) by simp
next
  case (new_draft p)
  then show ?thesis using assms(3) by (simp add: numbering_def)
next
  case (fixed p p' y m s)
  then have "numbering p'" using nextSequence_bound by (simp add: numbering_def)
  then show ?thesis using fixed(12) assms(3) by simp
next
  case (moved p p' st u)
  then have "numbering p'"
    using assms(3) CanTransition_not_draft [OF moved(2)] by (simp add: numbering_def)
  then show ?thesis using moved(4) assms(3) by simp
qed

lemma slots_replace:
  assumes "set (protocols d') = insert p' {x \<in> set (protocols d). pr_id x \<noteq> pr_id p}"
    and "db_ok d" "p \<in> set (protocols d)"
    and "pr_annual_sequence_number p = None
         \<or> pr_annual_sequence_number p' = pr_annual_sequence_number p
            \<and> pr_program_group_id p' = pr_program_group_id p
            \<and> pr_sequence_year p' = pr_sequence_year p
            \<and> pr_protocol_suffix p' = pr_protocol_suffix p"
  shows "set (slot_numbers d' g y s) = set (slot_numbers d g y s) \<union>
     {n. pr_annual_sequence_number p' = Some n \<and> pr_program_group_id p' = g
         \<and> pr_sequence_year p' = Some y \<and> coalesce (pr_protocol_suffix p') = s}"
proof -
  have "x = p" if "x \<in> set (protocols d)" "pr_id x = pr_id p" for x
    using table_ok_id [OF db_ok_protocols [OF assms(2)]] that assms(3) by blast
  then obtain R where R: "set (protocols d) = insert p R" "set (protocols d') = insert p' R"
    using assms(1,3) that [of "{x \<in> set (protocols d). pr_id x \<noteq> pr_id p}"] by auto
  show ?thesis using assms(4) by (intro set_eqI) (auto simp: set_slot_numbers R)
qed

lemma next_of_interval:
  assumes "set (slot_numbers d g y s) = {1..N}" "N \<le> int64_max"
    and "0 < nextSequenceLocked d g y s"
  shows "{1..N} \<union> {nextSequenceLocked d g y s} = {1..max N 0 + 1}"
proof (cases "1 \<le> N")
  case True
  then have "Max {1..N} = N" by (intro Max_eqI) auto
  with True assms(1) have n: "nextSequenceLocked d g y s = wrap64 (N + 1)"
    by (auto simp: nextSequenceLocked_def q_MaxAnnualSequenceForGroupYear_def Let_def)
  have "N \<noteq> int64_max" using n assms(3) wrap64_overflow by (auto simp: int64_min_def)
  then have "wrap64 (N + 1) = N + 1"
    using True assms(2) by (intro wrap64_id) (auto simp: int64_min_def)
  with n True show ?thesis by auto
next
  case False
  then have "slot_numbers d g y s = []" using assms(1) by auto
  with False show ?thesis
    by (auto simp: nextSequenceLocked_def q_MaxAnnualSequenceForGroupYear_def)
qed

lemma slot_numbers_bound:
  "(\<forall>p \<in> set (protocols d). numbering p) \<Longrightarrow> n \<in> set (slot_numbers d g y s) \<Longrightarrow> n \<le> int64_max"
  unfolding set_slot_numbers numbering_def by blast

lemma slot_numbers_pos:
  assumes "db_ok d" "n \<in> set (slot_numbers d g y s)"
  shows "0 < n"
proof -
  obtain p where "p \<in> set (protocols d)" "pr_annual_sequence_number p = Some n"
    using assms(2) by (auto simp: set_slot_numbers)
  then show ?thesis
    using db_ok_protocols [OF assms(1)] by (auto simp: table_ok_def protocol_check_def)
qed

lemma slot_numbers_distinct:
  assumes "db_ok d"
  shows "distinct (slot_numbers d g y s)"
proof -
  let ?f = "\<lambda>r. if pr_program_group_id r = g \<and> pr_sequence_year r = Some y
                 \<and> coalesce (pr_protocol_suffix r) = s then pr_annual_sequence_number r else None"
  have slot: "same_slot x z" if "?f x = Some n" "?f z = Some n" for x z n
    using that by (auto simp: same_slot_def split: if_splits)
  have "distinct (List.map_filter ?f ps)"
    if "distinct (map pr_id ps)"
      "\<forall>x \<in> set ps. \<forall>z \<in> set ps. pr_id x \<noteq> pr_id z \<longrightarrow> \<not> protocol_clash x z" for ps
    using that
  proof (induction ps)
    case Nil
    then show ?case by (simp add: List.map_filter_simps)
  next
    case (Cons x ps)
    have "n \<notin> set (List.map_filter ?f ps)" if "?f x = Some n" for n
    proof
      assume "n \<in> set (List.map_filter ?f ps)"
      then obtain z where z: "z \<in> set ps" "?f z = Some n" by (auto simp only: set_map_filter_iff)
      then have "protocol_clash x z" using slot [OF that z(2)] by (simp add: protocol_clash_def)
      moreover have "pr_id x \<noteq> pr_id z" using Cons.prems(1) z(1) by auto
      ultimately show False using Cons.prems(2) z(1) by auto
    qed
    with Cons show ?case by (auto simp only: List.map_filter_simps split: option.split) auto
  qed
  then show ?thesis
    using db_ok_protocols [OF assms] by (simp add: slot_numbers_def table_ok_def)
qed

lemma step_gap_free:
  assumes step: "protocol_step d d'" "db_ok d" and inv: "protocols_inv d"
  shows "gap_free d'"
proof -
  have num: "\<forall>p \<in> set (protocols d). numbering p" and gf: "gap_free d"
    using inv by (simp_all add: protocols_inv_def)
  show ?thesis using step
  proof (cases rule: step_cases)
    case same
    then show ?thesis using gf by (simp add: gap_free_def slot_numbers_def)
  next
    case (new_draft p)
    then have "set (slot_numbers d' g y s) = set (slot_numbers d g y s)" for g y s
      by (auto simp: set_slot_numbers)
    then show ?thesis using gf by (simp add: gap_free_def)
  next
    case (moved p p' st u)
    then have "set (slot_numbers d' g y s) = set (slot_numbers d g y s)" for g y s
      using slots_replace [OF moved(4) step(2) moved(1)] by (auto simp: set_slot_numbers)
    then show ?thesis using gf by (simp add: gap_free_def)
  next
    case (fixed p p' y m s)
    let ?g = "pr_program_group_id p" and ?n = "nextSequenceLocked d (pr_program_group_id p) y s"
    have "pr_annual_sequence_number p = None" using num fixed(1,2) by (simp add: numbering_def)
    note slots = slots_replace [OF fixed(12) step(2) fixed(1) disjI1, OF this]
    have pos: "0 < ?n" using fixed(8,11) by (simp add: protocol_check_def)
    show ?thesis unfolding gap_free_def
    proof (intro allI)
      fix g y' s'
      obtain N where N: "set (slot_numbers d g y' s') = {1..N}" using gf unfolding gap_free_def by blast
      show "\<exists>n. set (slot_numbers d' g y' s') = {1..n}"
      proof (cases "g = ?g \<and> y' = y \<and> s' = s")
        case True
        have "N \<le> int64_max"
        proof (cases "1 \<le> N")
          case one: True
          then have "N \<in> set (slot_numbers d g y' s')" using N by simp
          then show ?thesis by (rule slot_numbers_bound [OF num])
        qed (simp add: int64_max_def)
        then show ?thesis
          using slots [of g y' s'] N next_of_interval [of d g y' s' N] fixed(4,6,8,10) True pos
          by auto
      next
        case False
        then show ?thesis using slots [of g y' s'] N fixed(4,6,8,10) by auto
      qed
    qed
  qed
qed

lemma step_protocols_inv:
  "protocol_step d d' \<Longrightarrow> db_ok d \<Longrightarrow> protocols_inv d \<Longrightarrow> protocols_inv d'"
  using step_numbering step_gap_free unfolding protocols_inv_def by blast

subsection \<open>The life of one protocol\<close>

lemma step_evolves:
  assumes "protocol_step d d'" "db_ok d" "protocols_inv d" "q \<in> set (protocols d)"
  shows "\<exists>q' \<in> set (protocols d'). evolves q q'"
  using assms(1,2)
proof (cases rule: step_cases)
  case (fixed p p' y m s)
  have "CanTransition ''draft'' ''fixed''" by (simp add: CanTransition_iff stage_def)
  moreover have "pr_protocol_number p = None"
    using assms(3) fixed(1,2) by (simp add: protocols_inv_def numbering_def)
  ultimately have "evolves p p'" using fixed by (simp add: evolves_def)
  moreover have "q = p" if "pr_id q = pr_id p"
    using table_ok_id [OF db_ok_protocols [OF assms(2)]] assms(4) fixed(1) that by blast
  ultimately show ?thesis using fixed(12) assms(4) by (cases "pr_id q = pr_id p") auto
next
  case (moved p p' st u)
  then have "evolves p p'" by (simp add: evolves_def)
  moreover have "q = p" if "pr_id q = pr_id p"
    using table_ok_id [OF db_ok_protocols [OF assms(2)]] assms(4) moved(1) that by blast
  ultimately show ?thesis using moved(4) assms(4) by (cases "pr_id q = pr_id p") auto
qed (use assms(4) in \<open>auto intro: bexI [of _ q]\<close>)

text \<open>Runs of the service: the status follows the table, the number never changes.\<close>

lemma run_ok:
  "protocol_step\<^sup>*\<^sup>* d d' \<Longrightarrow> db_ok d \<Longrightarrow> protocols_inv d \<Longrightarrow> db_ok d' \<and> protocols_inv d'"
  by (induction rule: rtranclp_induct) (auto intro: step_ok step_protocols_inv)

lemma run_evolves:
  assumes "protocol_step\<^sup>*\<^sup>* d d'" "db_ok d" "protocols_inv d" "p \<in> set (protocols d)"
  shows "\<exists>p' \<in> set (protocols d'). pr_id p' = pr_id p
     \<and> CanTransition\<^sup>*\<^sup>* (pr_status p) (pr_status p')
     \<and> (pr_protocol_number p \<noteq> None \<longrightarrow> pr_protocol_number p' = pr_protocol_number p)"
  using assms(1)
proof (induction rule: rtranclp_induct)
  case base
  then show ?case using assms(4) by blast
next
  case (step y z)
  then obtain q where q: "q \<in> set (protocols y)" "pr_id q = pr_id p"
    "CanTransition\<^sup>*\<^sup>* (pr_status p) (pr_status q)"
    "pr_protocol_number p \<noteq> None \<longrightarrow> pr_protocol_number q = pr_protocol_number p" by blast
  have "db_ok y" "protocols_inv y" using run_ok [OF step.hyps(1) assms(2,3)] by simp_all
  then obtain q' where q': "q' \<in> set (protocols z)" "evolves q q'"
    using step_evolves [OF step.hyps(2) _ _ q(1)] by blast
  then have "CanTransition\<^sup>*\<^sup>* (pr_status p) (pr_status q')"
    using q(3) by (auto simp: evolves_def intro: rtranclp.rtrancl_into_rtrancl)
  with q q' show ?case by (intro bexI [of _ q']) (auto simp: evolves_def)
qed

subsection \<open>Where Fix succeeds\<close>

lemma protocol_check_bounds:
  assumes "protocol_check x"
  shows "pr_annual_sequence_number x = Some n \<Longrightarrow> 0 < n"
    "pr_sequence_year x = Some y \<Longrightarrow> 2000 \<le> y" "pr_protocol_month x = Some m \<Longrightarrow> 1 \<le> m"
  using assms by (simp_all add: protocol_check_def)

lemma same_number_same_slot:
  assumes "protocol_check x" "numbering x" "numbering p'" "protocol_check p'" "same_number p' x"
  shows "same_slot p' x"
proof -
  from assms(5) obtain num where num: "pr_protocol_number p' = Some num"
    "pr_protocol_number x = Some num" and g: "pr_program_group_id p' = pr_program_group_id x"
    by (auto simp: same_number_def)
  from num(1) assms(3) obtain y m n where
    1: "pr_sequence_year p' = Some y" "pr_protocol_month p' = Some m"
      "pr_annual_sequence_number p' = Some n"
      "num = FormatProtocolNumber y m n (coalesce (pr_protocol_suffix p'))"
    unfolding numbering_def by blast
  from num(2) assms(2) obtain y' m' n' where
    2: "pr_sequence_year x = Some y'" "pr_protocol_month x = Some m'"
      "pr_annual_sequence_number x = Some n'"
      "num = FormatProtocolNumber y' m' n' (coalesce (pr_protocol_suffix x))"
    unfolding numbering_def by blast
  have "2000 \<le> y" "1 \<le> m" "0 < n" "2000 \<le> y'" "1 \<le> m'" "0 < n'"
    using protocol_check_bounds [OF assms(1)] protocol_check_bounds [OF assms(4)] 1 2 by simp_all
  then have "y = y' \<and> m = m' \<and> n = n'
      \<and> coalesce (pr_protocol_suffix p') = coalesce (pr_protocol_suffix x)"
    by (intro FormatProtocolNumber_inj) (use 1(4) 2(4) in auto)
  with 1 2 g show ?thesis by (simp add: same_slot_def)
qed

lemma Fix_succeeds:
  assumes ok: "db_ok d" and inv: "protocols_inv d"
    and p: "q_GetProtocolByID d i = Inr p" "pr_status p = ''draft''"
    and v: "validateFixInput inp = (sd, ed, pd, s, [])" and ym: "ParseISODate pd = Inr (y, m)"
    and room: "\<forall>n \<in> set (slot_numbers d (pr_program_group_id p) y s). n < int64_max"
  shows "\<exists>p' d'. protocols_Fix ctx i inp d = (Inr p', d')"
proof -
  let ?n = "nextSequenceLocked d (pr_program_group_id p) y s"
  let ?f = "\<lambda>r. r\<lparr>pr_status := ''fixed'', pr_training_start_date := Some sd,
          pr_training_end_date := Some ed, pr_protocol_date := Some pd,
          pr_sequence_year := Some y, pr_protocol_month := Some m,
          pr_annual_sequence_number := Some ?n,
          pr_protocol_number := Some (FormatProtocolNumber y m ?n s),
          pr_protocol_suffix := suffixNull s, pr_fixed_at := Some (e_clock ctx 0),
          pr_updated_at := e_clock ctx 1\<rparr>"
  have num: "\<forall>x \<in> set (protocols d). numbering x" using inv by (simp add: protocols_inv_def)
  have chk: "\<forall>x \<in> set (protocols d). protocol_check x"
    using db_ok_protocols [OF ok] by (simp add: table_ok_def)
  have "\<forall>n \<in> set (slot_numbers d (pr_program_group_id p) y s). 0 < n"
    using chk protocol_check_bounds(1) unfolding Ball_def set_slot_numbers by blast
  note nxt = nextSequence_fresh [OF room this]
  have c: "protocol_check (?f p)"
    using ParseISODate_Inr [OF ym] nxt(2) by (simp add: protocol_check_def)
  have nb: "numbering (?f p)" using nextSequence_bound by (simp add: numbering_def)
  have free: "\<not> protocol_clash (?f p) x" if x: "x \<in> set (protocols d)" for x
  proof
    assume "protocol_clash (?f p) x"
    then have "same_slot (?f p) x"
      using same_number_same_slot [OF _ _ nb c] x num chk by (auto simp: protocol_clash_def)
    then have "?n \<in> set (slot_numbers d (pr_program_group_id p) y s)"
      using x by (auto simp: same_slot_def set_slot_numbers)
    then show False using nxt(1) by blast
  qed
  have "\<exists>d'. upd_protocol d i (\<lambda>r. pr_status r = ''draft'') ?f = Inr (?f p, d')"
    by (rule upd_protocol_succeeds [OF ok p(1)]) (use p(2) c free in simp_all)
  then obtain d' where
    "q_FixProtocol d (Some sd) (Some ed) (Some pd) (Some y) (Some m) (Some ?n)
       (Some (FormatProtocolNumber y m ?n s)) (suffixNull s) (Some (e_clock ctx 0))
       (e_clock ctx 1) i = Inr (?f p, d')"
    by (auto simp: q_FixProtocol_def)
  with p v ym show ?thesis by (simp add: protocols_Fix_def Let_def)
qed

subsection \<open>Where Transition succeeds\<close>

lemma Transition_draft_fixed:
  assumes "db_ok d" "protocols_inv d" "q_GetProtocolByID d i = Inr p" "pr_status p = ''draft''"
  shows "protocols_Transition ctx i ''fixed'' d
         = (Inl (Failed ''transition protocol'' (ConstraintFailed CheckViolation)), d)"
proof -
  have p: "p \<in> set (protocols d)" "pr_id p = i" using assms(3) by (auto dest: get_protocol_row)
  then have none: "pr_protocol_number p = None"
    using assms(2,4) by (simp add: protocols_inv_def numbering_def)
  have "protocol_check p" using p db_ok_protocols [OF assms(1)] by (simp add: table_ok_def)
  then have bad: "\<not> protocol_check (p\<lparr>pr_status := ''fixed'', pr_updated_at := e_clock ctx 0\<rparr>)"
    using check_draft_fixed assms(4) none by blast
  have "find (\<lambda>r. pr_id r = i) (protocols d) = Some p"
    using assms(3) by (auto simp: read_defs sql_get_def split: option.splits)
  with bad have "q_SetProtocolStatus d ''fixed'' (e_clock ctx 0) i
      = Inl (ConstraintFailed CheckViolation)"
    by (simp add: q_SetProtocolStatus_def upd_protocol_def sql_update_def stored_def)
  moreover have "CanTransition ''draft'' ''fixed''" by (simp add: CanTransition_iff stage_def)
  moreover have "IsValid ''fixed''" by (simp add: IsValid_iff AllStatuses_def)
  ultimately show ?thesis using assms(3,4) by (simp add: protocols_Transition_def)
qed

lemma Transition_succeeds:
  assumes ok: "db_ok d" and p: "q_GetProtocolByID d i = Inr p" "CanTransition (pr_status p) st"
    and nf: "\<not> (pr_status p = ''draft'' \<and> st = ''fixed'')"
  shows "\<exists>d'. protocols_Transition ctx i st d = (Inr (), d')"
proof -
  let ?f = "\<lambda>r. r\<lparr>pr_status := st, pr_updated_at := e_clock ctx 0\<rparr>"
  have pin: "p \<in> set (protocols d)" "pr_id p = i" using p(1) by (auto dest: get_protocol_row)
  note tok = db_ok_protocols [OF ok]
  have "protocol_check p" using pin tok by (simp add: table_ok_def)
  then have c: "protocol_check (?f p)"
    using p(2) nf by (auto simp: protocol_check_def CanTransition_iff stage_def split: if_splits)
  have "\<not> protocol_clash p x" if "x \<in> set (protocols d)" "pr_id x \<noteq> i" for x
    using tok pin that by (auto simp: table_ok_def)
  then have free: "\<not> protocol_clash (?f p) x" if "x \<in> set (protocols d)" "pr_id x \<noteq> i" for x
    using that by (simp add: protocol_clash_def same_slot_def same_number_def)
  have "\<exists>d'. upd_protocol d i (\<lambda>_. True) ?f = Inr (?f p, d')"
    by (rule upd_protocol_succeeds [OF ok p(1)]) (use c free in simp_all)
  then obtain d' where "q_SetProtocolStatus d st (e_clock ctx 0) i = Inr (?f p, d')"
    by (auto simp: q_SetProtocolStatus_def)
  moreover have "IsValid st"
    using protocol_machine.closed [OF p(2)] p(2) CanTransition_irrefl by (metis IsValid_iff)
  ultimately show ?thesis using p by (simp add: protocols_Transition_def Let_def)
qed

end
