(* ===== verification/Samples.thy ===== *)
theory Samples
  imports ProtocolInv
begin

text \<open>
  A small concrete database and environment, on which the witnesses of the properties
  evaluate: one program group with one program, one employer with one worker and their
  assignment, one training record, and two protocols of which the first is fixed as the
  first of 2026 and the second is a draft.
\<close>

definition sample_time :: string where
  "sample_time = ''2026-03-01T10:00:00Z''"

definition sample_unicode :: unicode where
  "sample_unicode = \<lparr>u_is_digit = (\<lambda>_. False), u_is_letter = (\<lambda>_. True), u_to_lower = (\<lambda>s. s), u_to_upper = (\<lambda>s. s),
     u_equal_fold = (=)\<rparr>"

definition sample_env :: env where
  "sample_env = \<lparr>e_actor = ''admin'', e_clock = (\<lambda>_. sample_time), e_audit = True,
     e_audit_clock = (\<lambda>_. sample_time), e_unicode = sample_unicode, e_parse_address = Some,
     e_sha256 = (\<lambda>_. replicate 64 CHR ''a''),
     e_open_xlsx = (\<lambda>_. Inl ''zip: not a valid zip file''), e_map_order = (\<lambda>_ ks. ks),
     e_has_db = True\<rparr>"

definition sample_group :: ProgramGroup where
  "sample_group = \<lparr>gp_id = 1, gp_code = ''A'', gp_name = ''Safety'', gp_status = ''active'',
     gp_created_at = sample_time, gp_updated_at = sample_time\<rparr>"

definition sample_program :: Program where
  "sample_program = \<lparr>pg_id = 1, pg_program_group_id = 1, pg_code = ''A-1'', pg_name = ''First aid'',
     pg_default_hours = 8, pg_moodle_course_id = None, pg_status = ''active'',
     pg_created_at = sample_time, pg_updated_at = sample_time\<rparr>"

definition sample_employer :: Employer where
  "sample_employer = \<lparr>em_id = 1, em_inn = ''7700000001'', em_inn_normalized = ''7700000001'',
     em_canonical_name = ''Works'', em_created_at = sample_time, em_updated_at = sample_time,
     em_status = ''active''\<rparr>"

definition sample_worker :: Worker where
  "sample_worker = \<lparr>wk_id = 1, wk_last_name = ''Petrov'', wk_first_name = ''Petr'',
     wk_middle_name = None, wk_snils = ''123-456-789 00'', wk_snils_normalized = ''12345678900'',
     wk_email = ''petr@example.org'', wk_birth_date = None, wk_created_at = sample_time,
     wk_updated_at = sample_time, wk_status = ''active''\<rparr>"

definition sample_assignment :: WorkerEmployer where
  "sample_assignment = \<lparr>we_id = 1, we_worker_id = 1, we_employer_id = 1,
     we_current_position = ''Fitter'', we_current_department = None, we_status = ''active'',
     we_created_at = sample_time, we_updated_at = sample_time\<rparr>"

definition sample_training :: TrainingRecord where
  "sample_training = \<lparr>tr_id = 1, tr_worker_employer_id = 1, tr_program_id = 1,
     tr_client_request_id = None, tr_position = ''Fitter'', tr_department = None,
     tr_source_reference = None, tr_hours = 8, tr_requires_mintrud_test = 0,
     tr_moodle_status = ''not_required'', tr_moodle_error = None, tr_moodle_enrolled_at = None,
     tr_status = ''active'', tr_created_at = sample_time, tr_updated_at = sample_time\<rparr>"

definition sample_fixed :: Protocol where
  "sample_fixed = \<lparr>pr_id = 1, pr_program_group_id = 1, pr_status = ''fixed'',
     pr_training_start_date = Some ''2026-03-01'', pr_training_end_date = Some ''2026-03-05'',
     pr_protocol_date = Some ''2026-03-06'', pr_sequence_year = Some 2026,
     pr_protocol_month = Some 3, pr_annual_sequence_number = Some 1,
     pr_protocol_number = Some (FormatProtocolNumber 2026 3 1 ''''),
     pr_fixed_at = Some sample_time, pr_created_at = sample_time, pr_updated_at = sample_time,
     pr_protocol_suffix = None\<rparr>"

definition sample_draft :: Protocol where
  "sample_draft = \<lparr>pr_id = 2, pr_program_group_id = 1, pr_status = ''draft'',
     pr_training_start_date = None, pr_training_end_date = None, pr_protocol_date = None,
     pr_sequence_year = None, pr_protocol_month = None, pr_annual_sequence_number = None,
     pr_protocol_number = None, pr_fixed_at = None, pr_created_at = sample_time,
     pr_updated_at = sample_time, pr_protocol_suffix = None\<rparr>"

definition sample_db :: db where
  "sample_db = empty_db\<lparr>program_groups := [sample_group], programs := [sample_program],
     employers := [sample_employer], workers := [sample_worker],
     worker_employers := [sample_assignment], training_records := [sample_training],
     protocols := [sample_fixed, sample_draft]\<rparr>"

definition sample_input :: FixInput where
  "sample_input = \<lparr>TrainingStartDate = ''2026-04-01'', TrainingEndDate = ''2026-04-03'',
     ProtocolDate = ''2026-04-04'', ProtocolSuffix = ''''\<rparr>"

lemmas sample_defs = sample_env_def sample_unicode_def sample_group_def sample_program_def
  sample_employer_def sample_worker_def sample_assignment_def sample_training_def
  sample_fixed_def sample_draft_def sample_db_def empty_db_def

lemmas check_all_defs = group_check_def program_check_def employer_check_def worker_check_def
  worker_employer_check_def training_record_check_def protocol_check_def request_row_check_def
  client_request_check_def request_item_check_def import_check_def import_row_check_def
  participant_check_def action_log_check_def user_check_def generation_check_def

lemma sample_ok: "db_ok sample_db"
  by (simp add: db_ok_defs sample_defs table_ok_def check_all_defs clash_defs ref_defs row_ids_def)

lemma sample_slots:
  "set (slot_numbers sample_db g y s) = (if g = 1 \<and> y = 2026 \<and> s = '''' then {1} else {})"
  by (intro set_eqI) (auto simp: set_slot_numbers sample_defs coalesce_def)

lemma sample_inv: "protocols_inv sample_db"
proof -
  have "\<exists>n. (if g = 1 \<and> y = 2026 \<and> s = '''' then {1::int} else {}) = {1..n}"
    for g y :: int and s :: string
    by (rule exI [of _ "if g = 1 \<and> y = 2026 \<and> s = '''' then 1 else (0::int)"]) simp
  then have "gap_free sample_db" by (simp only: gap_free_def sample_slots) blast
  moreover have "\<forall>p \<in> set (protocols sample_db). numbering p"
    by (simp add: sample_defs numbering_def coalesce_def int64_max_def)
  ultimately show ?thesis by (simp add: protocols_inv_def)
qed

end
