(* ===== verification/ProtocolProps.thy ===== *)
theory ProtocolProps
  imports Samples
begin

text \<open>
  The properties of the protocols slice, each with a witness on the sample database where it
  has hypotheses. They rest on the lemmas of \<open>ProtocolNumbering\<close>, \<open>ProtocolLaws\<close> and
  \<open>ProtocolInv\<close>.
\<close>

lemma sample_get:
  "q_GetProtocolByID sample_db 1 = Inr sample_fixed"
  "q_GetProtocolByID sample_db 2 = Inr sample_draft"
  by (simp_all add: read_defs sql_get_def sample_defs)

lemma sample_trims:
  "TrimSpace ''2026-04-01'' = ''2026-04-01''" "TrimSpace ''2026-04-03'' = ''2026-04-03''"
  "TrimSpace ''2026-04-04'' = ''2026-04-04''"
  by (rule TrimSpace_solid; simp add: solid_def byte_def)+

lemmas parse_eval = ParseISODate_def slice_def Atoi_def is_ascii_digit_def byte_def digits_val_def
  digit_val_def int64_min_def int64_max_def Let_def

lemma sample_dates:
  "ParseISODate ''2026-04-01'' = Inr (2026, 4)" "ParseISODate ''2026-04-03'' = Inr (2026, 4)"
  "ParseISODate ''2026-04-04'' = Inr (2026, 4)"
  by (simp_all add: parse_eval sample_trims)

lemma sample_validate:
  "validateFixInput sample_input = (''2026-04-01'', ''2026-04-03'', ''2026-04-04'', '''', [])"
  by (simp add: validateFixInput_def sample_input_def Let_def sample_trims date_errs_def
      sample_dates NormalizeSuffix_def)

lemma sample_next: "nextSequenceLocked sample_db 1 2026 '''' = 2"
proof -
  have "set (slot_numbers sample_db 1 2026 '''') = {1}" by (simp add: sample_slots)
  moreover from this have "slot_numbers sample_db 1 2026 '''' \<noteq> []" by auto
  ultimately show ?thesis
    by (simp add: nextSequenceLocked_def q_MaxAnnualSequenceForGroupYear_def Let_def wrap64_def)
qed

text \<open>
  C1. Starting from a database whose constraints hold and which has no protocols yet, any run
  of protocol operations, with any arguments and outcomes, numbers the protocols of each
  program group, year and suffix 1, 2, ..., n: no number is used twice and none is skipped.
\<close>

theorem protocol_numbers_consecutive:
  assumes "db_ok d" "protocols d = []" "protocol_step\<^sup>*\<^sup>* d d'"
  shows "\<exists>n. set (slot_numbers d' g y s) = {1..n} \<and> distinct (slot_numbers d' g y s)"
proof -
  have "protocols_inv d"
    using assms(2) by (auto simp: protocols_inv_def gap_free_def slot_numbers_def
        List.map_filter_simps intro: exI [of _ 0])
  then have "db_ok d'" "protocols_inv d'" using run_ok [OF assms(3,1)] by simp_all
  then show ?thesis
    using slot_numbers_distinct [of d' g y s] unfolding protocols_inv_def gap_free_def by blast
qed

theorem protocol_numbers_consecutive_witness:
  "\<exists>n. set (slot_numbers empty_db 1 2026 '''') = {1..n} \<and> distinct (slot_numbers empty_db 1 2026 '''')"
  by (rule protocol_numbers_consecutive [OF empty_db_ok _ rtranclp.rtrancl_refl])
    (simp add: empty_db_def)

text \<open>
  C2. Whatever protocol operations follow, a protocol stays in the database, its status only
  moves along the transition table (so it never leaves completed or cancelled, and never goes
  back), and the number it got when it was fixed never changes.
\<close>

theorem protocol_life:
  assumes "db_ok d" "protocols_inv d" "protocol_step\<^sup>*\<^sup>* d d'" "p \<in> set (protocols d)"
  shows "\<exists>p' \<in> set (protocols d'). pr_id p' = pr_id p
     \<and> CanTransition\<^sup>*\<^sup>* (pr_status p) (pr_status p')
     \<and> (pr_status p \<in> {StatusCompleted, StatusCancelled} \<longrightarrow> pr_status p' = pr_status p)
     \<and> (pr_protocol_number p \<noteq> None \<longrightarrow> pr_protocol_number p' = pr_protocol_number p)"
  using run_evolves [OF assms(3,1,2,4)] protocol_machine.final_absorbs by fastforce

theorem protocol_life_witness:
  "\<exists>p' \<in> set (protocols (snd (protocols_Transition sample_env 1 StatusCancelled sample_db))).
     pr_id p' = 1 \<and> CanTransition\<^sup>*\<^sup>* StatusFixed (pr_status p')
     \<and> pr_protocol_number p' = Some (FormatProtocolNumber 2026 3 1 '''')"
proof -
  let ?d' = "snd (protocols_Transition sample_env 1 StatusCancelled sample_db)"
  have "protocol_step sample_db ?d'" by (rule protocol_step.transition) (rule surjective_pairing)
  then have run: "protocol_step\<^sup>*\<^sup>* sample_db ?d'" by simp
  have "sample_fixed \<in> set (protocols sample_db)" by (simp add: sample_db_def)
  from protocol_life [OF sample_ok sample_inv run this] show ?thesis
    by (simp add: sample_fixed_def)
qed

text \<open>
  C3. Fix succeeds: for a draft protocol, valid dates and a valid suffix, as long as the
  sequence numbers have not reached the end of int64, Fix returns the protocol with the next
  free sequence number of its group, year and suffix and with the number printed from it, and
  changes no other protocol.
\<close>

theorem Fix_assigns_next_number:
  assumes "db_ok d" "protocols_inv d" "q_GetProtocolByID d i = Inr p" "pr_status p = StatusDraft"
    and "validateFixInput inp = (sd, ed, pd, s, [])" "ParseISODate pd = Inr (y, m)"
    and "\<forall>n \<in> set (slot_numbers d (pr_program_group_id p) y s). n < int64_max"
  shows "\<exists>p' d'. protocols_Fix ctx i inp d = (Inr p', d')
     \<and> pr_id p' = i \<and> pr_status p' = StatusFixed
     \<and> pr_annual_sequence_number p' = Some (nextSequenceLocked d (pr_program_group_id p) y s)
     \<and> pr_annual_sequence_number p' \<notin> Some ` set (slot_numbers d (pr_program_group_id p) y s)
     \<and> pr_protocol_number p' =
          Some (FormatProtocolNumber y m (nextSequenceLocked d (pr_program_group_id p) y s) s)
     \<and> set (protocols d') = insert p' {x \<in> set (protocols d). pr_id x \<noteq> i}"
proof -
  have draft: "pr_status p = ''draft''" using assms(4) by simp
  obtain p' d' where fx: "protocols_Fix ctx i inp d = (Inr p', d')"
    using Fix_succeeds [OF assms(1,2,3) draft assms(5,6,7)] by blast
  have "\<forall>n \<in> set (slot_numbers d (pr_program_group_id p) y s). 0 < n"
    using slot_numbers_pos [OF assms(1)] by blast
  from nextSequence_fresh(1) [OF assms(7) this] show ?thesis
    by (rule_tac Fix_Inr [OF assms(1) fx])
      (use fx assms(3,5,6) get_protocol_row [OF assms(3)] in \<open>intro exI [of _ p'] exI [of _ d'], force\<close>)
qed

theorem Fix_assigns_next_number_witness:
  "\<exists>p' d'. protocols_Fix sample_env 2 sample_input sample_db = (Inr p', d')
     \<and> pr_status p' = StatusFixed
     \<and> pr_annual_sequence_number p' = Some (nextSequenceLocked sample_db 1 2026 '''')
     \<and> nextSequenceLocked sample_db 1 2026 '''' = 2"
proof -
  have "pr_status sample_draft = StatusDraft" by (simp add: sample_draft_def)
  moreover have "\<forall>n \<in> set (slot_numbers sample_db (pr_program_group_id sample_draft) 2026 ''''). n < int64_max"
    by (simp add: sample_slots int64_max_def)
  ultimately show ?thesis
    using Fix_assigns_next_number [OF sample_ok sample_inv sample_get(2) _ sample_validate sample_dates(3),
        of sample_env]
    by (auto simp: sample_draft_def sample_next)
qed

text \<open>
  C4. Transition succeeds exactly when the protocol exists and the table permits the move,
  except that a draft cannot be moved to fixed this way: it has no number, so the schema
  refuses the row and only Fix can fix a protocol.
\<close>

theorem Transition_succeeds_iff:
  assumes "db_ok d" "protocols_inv d"
  shows "fst (protocols_Transition ctx i st d) = Inr () \<longleftrightarrow>
     (\<exists>p. q_GetProtocolByID d i = Inr p \<and> CanTransition (pr_status p) st
        \<and> \<not> (pr_status p = StatusDraft \<and> st = StatusFixed))"
proof
  assume "fst (protocols_Transition ctx i st d) = Inr ()"
  then obtain d' where t: "protocols_Transition ctx i st d = (Inr (), d')"
    by (metis prod.collapse)
  then obtain p where p: "q_GetProtocolByID d i = Inr p" "CanTransition (pr_status p) st"
    using Transition_Inr [OF assms(1) t] by blast
  moreover have "\<not> (pr_status p = StatusDraft \<and> st = StatusFixed)"
    using Transition_draft_fixed [OF assms p(1)] t by auto
  ultimately show "\<exists>p. q_GetProtocolByID d i = Inr p \<and> CanTransition (pr_status p) st
        \<and> \<not> (pr_status p = StatusDraft \<and> st = StatusFixed)" by blast
next
  assume "\<exists>p. q_GetProtocolByID d i = Inr p \<and> CanTransition (pr_status p) st
        \<and> \<not> (pr_status p = StatusDraft \<and> st = StatusFixed)"
  then show "fst (protocols_Transition ctx i st d) = Inr ()"
    using Transition_succeeds [OF assms(1), of i _ st ctx] by auto
qed

theorem Transition_succeeds_iff_witness:
  "fst (protocols_Transition sample_env 1 StatusXmlUploaded sample_db) = Inr ()
   \<and> fst (protocols_Transition sample_env 2 StatusFixed sample_db) \<noteq> Inr ()"
  unfolding Transition_succeeds_iff [OF sample_ok sample_inv] sample_get
  by (simp add: sample_defs CanTransition_iff stage_def)


end
