(* ===== verification/Programs.thy ===== *)
theory Programs
  imports Services
begin

text \<open>
  The service of program groups and programs (\<^verbatim>\<open>programs/service.go\<close>), every method: the form is
  trimmed and validated, the row is read where the code reads it, one statement writes it and
  one audit entry follows.
\<close>

datatype program_msg =
    GroupCodeRequired | GroupNameRequired | GroupCodeTaken | ChooseGroup | ProgramCodeRequired
  | ProgramNameRequired | HoursNotPositive | ProgramCodeTaken | ChooseExistingGroup
  | GroupInactive

record GroupForm =
  gf_Code :: string
  gf_Name :: string

record ProgramForm =
  pf_ProgramGroupID :: int
  pf_Code :: string
  pf_Name :: string
  pf_DefaultHours :: int
  pf_MoodleCourseID :: string

definition programs_ListGroups :: "db \<Rightarrow> ProgramGroup list" where
  "programs_ListGroups d = q_ListProgramGroups d"

definition programs_ListPrograms :: "db \<Rightarrow> Program list" where
  "programs_ListPrograms d = q_ListPrograms d"

definition programs_GetGroup :: "db \<Rightarrow> int \<Rightarrow> (db_error, ProgramGroup) result" where
  "programs_GetGroup d i = q_GetGroupByID d i"

definition programs_GetProgram :: "db \<Rightarrow> int \<Rightarrow> (db_error, Program) result" where
  "programs_GetProgram d i = q_GetProgramByID d i"

definition programs_CreateGroup ::
  "env \<Rightarrow> GroupForm \<Rightarrow> db \<Rightarrow> (program_msg, ProgramGroup) svc_result" where
  "programs_CreateGroup ctx form d =
     (let code = TrimSpace (gf_Code form); name = TrimSpace (gf_Name form);
          errs = err_if (code = '''') ''code'' GroupCodeRequired
               @ err_if (name = '''') ''name'' GroupNameRequired
      in if errs \<noteq> [] then (Inl (FieldErrors errs), d)
      else case q_CreateProgramGroup d code name (e_clock ctx 0) (e_clock ctx 0) of
        Inl e \<Rightarrow>
          if is_conflict e then (Inl (FieldErrors [(''code'', GroupCodeTaken)]), d)
          else (Inl (Failed ''create program group'' e), d)
      | Inr (grp, d') \<Rightarrow>
          (Inr grp, recordAudit ctx 0 (entry ''create'' ''program_group'' (gp_id grp)
             [(''code'', JStr (gp_code grp)), (''name'', JStr (gp_name grp))]) d'))"

definition groupSnapshot :: "ProgramGroup \<Rightarrow> json" where
  "groupSnapshot g = JObj [(''code'', JStr (gp_code g)), (''name'', JStr (gp_name g)),
     (''status'', JStr (gp_status g))]"

definition programs_UpdateGroup ::
  "env \<Rightarrow> int \<Rightarrow> GroupForm \<Rightarrow> db \<Rightarrow> (program_msg, ProgramGroup) svc_result" where
  "programs_UpdateGroup ctx i form d =
     (let code = TrimSpace (gf_Code form); name = TrimSpace (gf_Name form);
          errs = err_if (code = '''') ''code'' GroupCodeRequired
               @ err_if (name = '''') ''name'' GroupNameRequired
      in if errs \<noteq> [] then (Inl (FieldErrors errs), d)
      else case q_GetGroupByID d i of
        Inl e \<Rightarrow> (Inl (Failed ''get program group'' e), d)
      | Inr previous \<Rightarrow>
          (case q_UpdateGroup d code name (e_clock ctx 0) i of
             Inl e \<Rightarrow>
               if is_conflict e then (Inl (FieldErrors [(''code'', GroupCodeTaken)]), d)
               else (Inl (Failed ''update program group'' e), d)
           | Inr (updated, d') \<Rightarrow>
               (Inr updated, recordAudit ctx 0 (entry ''update'' ''program_group'' (gp_id updated)
                  [(''from'', groupSnapshot previous), (''to'', groupSnapshot updated)]) d')))"

definition programs_DeactivateGroup ::
  "env \<Rightarrow> int \<Rightarrow> db \<Rightarrow> (program_msg, ProgramGroup) svc_result" where
  "programs_DeactivateGroup ctx i d =
     (case q_GetGroupByID d i of
        Inl e \<Rightarrow> (Inl (Failed ''get program group'' e), d)
      | Inr previous \<Rightarrow>
          (if gp_status previous = ''inactive'' then (Inr previous, d)
           else case q_DeactivateGroup d (e_clock ctx 0) i of
             Inl e \<Rightarrow> (Inl (Failed ''deactivate program group'' e), d)
           | Inr (updated, d') \<Rightarrow>
               (Inr updated, recordAudit ctx 0 (entry ''deactivate'' ''program_group''
                  (gp_id updated) [(''from'', JStr (gp_status previous)),
                                   (''to'', JStr (gp_status updated))]) d')))"

text \<open>The validation \<open>CreateProgram\<close> and \<open>UpdateProgram\<close> share.\<close>

definition program_form_errs :: "ProgramForm \<Rightarrow> (string \<times> program_msg) list" where
  "program_form_errs form =
     err_if (pf_ProgramGroupID form \<le> 0) ''program_group_id'' ChooseGroup
     @ err_if (TrimSpace (pf_Code form) = '''') ''code'' ProgramCodeRequired
     @ err_if (TrimSpace (pf_Name form) = '''') ''name'' ProgramNameRequired
     @ err_if (pf_DefaultHours form \<le> 0) ''default_hours'' HoursNotPositive"

definition programs_CreateProgram ::
  "env \<Rightarrow> ProgramForm \<Rightarrow> db \<Rightarrow> (program_msg, Program) svc_result" where
  "programs_CreateProgram ctx form d =
     (let errs = program_form_errs form
      in if errs \<noteq> [] then (Inl (FieldErrors errs), d)
      else case q_CreateProgram d (pf_ProgramGroupID form) (TrimSpace (pf_Code form))
                  (TrimSpace (pf_Name form)) (pf_DefaultHours form)
                  (nullableString (TrimSpace (pf_MoodleCourseID form)))
                  (e_clock ctx 0) (e_clock ctx 0) of
        Inl e \<Rightarrow>
          if is_conflict e then (Inl (FieldErrors [(''code'', ProgramCodeTaken)]), d)
          else (Inl (Failed ''create program'' e), d)
      | Inr (program, d') \<Rightarrow>
          (Inr program, recordAudit ctx 0 (entry ''create'' ''program'' (pg_id program)
             [(''code'', JStr (pg_code program)), (''name'', JStr (pg_name program)),
              (''program_group_id'', JInt (pg_program_group_id program)),
              (''default_hours'', JInt (pg_default_hours program))]) d'))"

definition programSnapshot :: "Program \<Rightarrow> json" where
  "programSnapshot p =
     JObj [(''code'', JStr (pg_code p)), (''name'', JStr (pg_name p)),
       (''program_group_id'', JInt (pg_program_group_id p)),
       (''default_hours'', JInt (pg_default_hours p)),
       (''moodle_course_id'', JStr (str_of (pg_moodle_course_id p))),
       (''status'', JStr (pg_status p))]"

definition programs_UpdateProgram ::
  "env \<Rightarrow> int \<Rightarrow> ProgramForm \<Rightarrow> db \<Rightarrow> (program_msg, Program) svc_result" where
  "programs_UpdateProgram ctx i form d =
     (let errs = program_form_errs form
      in if errs \<noteq> [] then (Inl (FieldErrors errs), d)
      else case q_GetProgramByID d i of
        Inl e \<Rightarrow> (Inl (Failed ''get program'' e), d)
      | Inr previous \<Rightarrow>
          (case q_GetGroupByID d (pf_ProgramGroupID form) of
             Inl _ \<Rightarrow> (Inl (FieldErrors [(''program_group_id'', ChooseExistingGroup)]), d)
           | Inr grp \<Rightarrow>
               if gp_status grp \<noteq> ''active''
               then (Inl (FieldErrors [(''program_group_id'', GroupInactive)]), d)
               else case q_UpdateProgram d (pf_ProgramGroupID form) (TrimSpace (pf_Code form))
                           (TrimSpace (pf_Name form)) (pf_DefaultHours form)
                           (nullableString (TrimSpace (pf_MoodleCourseID form)))
                           (e_clock ctx 0) i of
                 Inl e \<Rightarrow>
                   if is_conflict e then (Inl (FieldErrors [(''code'', ProgramCodeTaken)]), d)
                   else (Inl (Failed ''update program'' e), d)
               | Inr (updated, d') \<Rightarrow>
                   (Inr updated, recordAudit ctx 0 (entry ''update'' ''program'' (pg_id updated)
                      [(''from'', programSnapshot previous), (''to'', programSnapshot updated)]) d')))"

definition programs_DeactivateProgram ::
  "env \<Rightarrow> int \<Rightarrow> db \<Rightarrow> (program_msg, Program) svc_result" where
  "programs_DeactivateProgram ctx i d =
     (case q_GetProgramByID d i of
        Inl e \<Rightarrow> (Inl (Failed ''get program'' e), d)
      | Inr previous \<Rightarrow>
          (if pg_status previous = ''inactive'' then (Inr previous, d)
           else case q_DeactivateProgram d (e_clock ctx 0) i of
             Inl e \<Rightarrow> (Inl (Failed ''deactivate program'' e), d)
           | Inr (updated, d') \<Rightarrow>
               (Inr updated, recordAudit ctx 0 (entry ''deactivate'' ''program''
                  (pg_id updated) [(''from'', JStr (pg_status previous)),
                                   (''to'', JStr (pg_status updated))]) d')))"

end
