(* ===== verification/Employers.thy ===== *)
theory Employers
  imports Services
begin

text \<open>
  The employers service (\<^verbatim>\<open>employers/service.go\<close>), every method. \<open>normalizeDigits\<close> keeps the
  runes \<open>unicode.IsDigit\<close> accepts; the Unicode tables are a parameter of the environment, ASCII
  apart.
\<close>

datatype employer_msg = INNRequired | EmployerNameRequired | INNTaken

record EmployerForm =
  ef_INN :: string
  ef_CanonicalName :: string

definition normalizeDigits :: "unicode \<Rightarrow> string \<Rightarrow> string" where
  "normalizeDigits u value = digit_runes u value"

definition employers_List :: "db \<Rightarrow> Employer list" where
  "employers_List d = q_ListEmployers d"

definition employers_Get :: "db \<Rightarrow> int \<Rightarrow> (db_error, Employer) result" where
  "employers_Get d i = q_GetEmployerByID d i"

definition employers_Create ::
  "env \<Rightarrow> EmployerForm \<Rightarrow> db \<Rightarrow> (employer_msg, Employer) svc_result" where
  "employers_Create ctx form d =
     (let inn = TrimSpace (ef_INN form); name = TrimSpace (ef_CanonicalName form);
          normalizedINN = normalizeDigits (e_unicode ctx) inn;
          errs = err_if (normalizedINN = '''') ''inn'' INNRequired
               @ err_if (name = '''') ''canonical_name'' EmployerNameRequired
      in if errs \<noteq> [] then (Inl (FieldErrors errs), d)
      else case q_CreateEmployer d inn normalizedINN name (e_clock ctx 0) (e_clock ctx 0) of
        Inl e \<Rightarrow>
          if is_conflict e then (Inl (FieldErrors [(''inn'', INNTaken)]), d)
          else (Inl (Failed ''create employer'' e), d)
      | Inr (employer, d') \<Rightarrow>
          (Inr employer, recordAudit ctx 0 (entry ''create'' ''employer'' (em_id employer)
             [(''inn'', JStr (em_inn employer)),
              (''canonical_name'', JStr (em_canonical_name employer))]) d'))"

definition employerSnapshot :: "Employer \<Rightarrow> json" where
  "employerSnapshot e =
     JObj [(''inn'', JStr (em_inn e)), (''inn_normalized'', JStr (em_inn_normalized e)),
       (''canonical_name'', JStr (em_canonical_name e)),
       (''updated_at'', JStr (em_updated_at e))]"

definition employers_Update ::
  "env \<Rightarrow> int \<Rightarrow> EmployerForm \<Rightarrow> db \<Rightarrow> (employer_msg, Employer) svc_result" where
  "employers_Update ctx i form d =
     (let inn = TrimSpace (ef_INN form); name = TrimSpace (ef_CanonicalName form);
          normalizedINN = normalizeDigits (e_unicode ctx) inn;
          errs = err_if (normalizedINN = '''') ''inn'' INNRequired
               @ err_if (name = '''') ''canonical_name'' EmployerNameRequired
      in if errs \<noteq> [] then (Inl (FieldErrors errs), d)
      else case q_GetEmployerByID d i of
        Inl e \<Rightarrow> (Inl (Failed ''get employer'' e), d)
      | Inr previous \<Rightarrow>
          (case q_UpdateEmployer d inn normalizedINN name (e_clock ctx 0) i of
             Inl e \<Rightarrow>
               if is_conflict e then (Inl (FieldErrors [(''inn'', INNTaken)]), d)
               else (Inl (Failed ''update employer'' e), d)
           | Inr (updated, d') \<Rightarrow>
               (Inr updated, recordAudit ctx 0 (entry ''update'' ''employer'' (em_id updated)
                  [(''from'', employerSnapshot previous), (''to'', employerSnapshot updated)]) d')))"

definition employers_Deactivate ::
  "env \<Rightarrow> int \<Rightarrow> db \<Rightarrow> (employer_msg, Employer) svc_result" where
  "employers_Deactivate ctx i d =
     (case q_GetEmployerByID d i of
        Inl e \<Rightarrow> (Inl (Failed ''get employer'' e), d)
      | Inr previous \<Rightarrow>
          (if em_status previous = ''inactive'' then (Inr previous, d)
           else case q_DeactivateEmployer d (e_clock ctx 0) i of
             Inl e \<Rightarrow> (Inl (Failed ''deactivate employer'' e), d)
           | Inr (updated, d') \<Rightarrow>
               (Inr updated, recordAudit ctx 0 (entry ''deactivate'' ''employer'' (em_id updated)
                  [(''from'', JObj [(''status'', JStr ''active'')]),
                   (''to'', JObj [(''status'', JStr ''inactive'')])]) d')))"

end
