(* ===== verification/People.thy ===== *)
theory People
  imports Employers
begin

text \<open>
  The service of workers and their assignments to employers (\<^verbatim>\<open>people/service.go\<close>), every
  method. Its \<open>normalizeDigits\<close> and \<open>nullableString\<close> are those of the employers and requests
  packages.
\<close>

datatype people_msg =
    LastNameRequired | FirstNameRequired | SNILSRequired | EmailRequired | SNILSTaken
  | ChooseWorker | ChooseEmployer | PositionRequired | AssignmentTaken

record WorkerForm =
  wf_LastName :: string
  wf_FirstName :: string
  wf_MiddleName :: string
  wf_SNILS :: string
  wf_Email :: string
  wf_BirthDate :: string

record AssignmentForm =
  af_WorkerID :: int
  af_EmployerID :: int
  af_CurrentPosition :: string

definition people_ListWorkers :: "db \<Rightarrow> Worker list" where
  "people_ListWorkers d = q_ListWorkers d"

definition people_GetWorker :: "db \<Rightarrow> int \<Rightarrow> (db_error, Worker) result" where
  "people_GetWorker d i = q_GetWorkerByID d i"

definition people_ListAssignments :: "db \<Rightarrow> int \<Rightarrow> WorkerEmployer list" where
  "people_ListAssignments d w = q_ListWorkerEmployersForWorker d w"

definition people_GetAssignment :: "db \<Rightarrow> int \<Rightarrow> (db_error, WorkerEmployer) result" where
  "people_GetAssignment d i = q_GetWorkerEmployer d i"

text \<open>The trimming at the start of \<open>CreateWorker\<close> and \<open>UpdateWorker\<close>, and their validation.\<close>

definition trim_worker :: "WorkerForm \<Rightarrow> WorkerForm" where
  "trim_worker form =
     \<lparr>wf_LastName = TrimSpace (wf_LastName form), wf_FirstName = TrimSpace (wf_FirstName form),
      wf_MiddleName = TrimSpace (wf_MiddleName form), wf_SNILS = TrimSpace (wf_SNILS form),
      wf_Email = TrimSpace (wf_Email form), wf_BirthDate = TrimSpace (wf_BirthDate form)\<rparr>"

definition worker_form_errs :: "WorkerForm \<Rightarrow> string \<Rightarrow> (string \<times> people_msg) list" where
  "worker_form_errs form normalizedSNILS =
     err_if (wf_LastName form = '''') ''last_name'' LastNameRequired
     @ err_if (wf_FirstName form = '''') ''first_name'' FirstNameRequired
     @ err_if (normalizedSNILS = '''') ''snils'' SNILSRequired
     @ err_if (wf_Email form = '''') ''email'' EmailRequired"

definition people_CreateWorker ::
  "env \<Rightarrow> WorkerForm \<Rightarrow> db \<Rightarrow> (people_msg, Worker) svc_result" where
  "people_CreateWorker ctx form d =
     (let form = trim_worker form;
          normalizedSNILS = normalizeDigits (e_unicode ctx) (wf_SNILS form);
          errs = worker_form_errs form normalizedSNILS
      in if errs \<noteq> [] then (Inl (FieldErrors errs), d)
      else case q_CreateWorker d (wf_LastName form) (wf_FirstName form)
                  (nullableString (wf_MiddleName form)) (wf_SNILS form) normalizedSNILS
                  (wf_Email form) (nullableString (wf_BirthDate form))
                  (e_clock ctx 0) (e_clock ctx 0) of
        Inl e \<Rightarrow>
          if is_conflict e then (Inl (FieldErrors [(''snils'', SNILSTaken)]), d)
          else (Inl (Failed ''create worker'' e), d)
      | Inr (worker, d') \<Rightarrow>
          (Inr worker, recordAudit ctx 0 (entry ''create'' ''worker'' (wk_id worker)
             [(''last_name'', JStr (wk_last_name worker)),
              (''first_name'', JStr (wk_first_name worker)),
              (''snils'', JStr (wk_snils_normalized worker)),
              (''email'', JStr (wk_email worker))]) d'))"

definition workerSnapshot :: "Worker \<Rightarrow> json" where
  "workerSnapshot w =
     JObj [(''last_name'', JStr (wk_last_name w)), (''first_name'', JStr (wk_first_name w)),
       (''middle_name'', JStr (str_of (wk_middle_name w))),
       (''snils_normalized'', JStr (wk_snils_normalized w)), (''email'', JStr (wk_email w)),
       (''birth_date'', JStr (str_of (wk_birth_date w)))]"

definition people_UpdateWorker ::
  "env \<Rightarrow> int \<Rightarrow> WorkerForm \<Rightarrow> db \<Rightarrow> (people_msg, Worker) svc_result" where
  "people_UpdateWorker ctx i form d =
     (let form = trim_worker form;
          normalizedSNILS = normalizeDigits (e_unicode ctx) (wf_SNILS form);
          errs = worker_form_errs form normalizedSNILS
      in if errs \<noteq> [] then (Inl (FieldErrors errs), d)
      else case q_GetWorkerByID d i of
        Inl e \<Rightarrow> (Inl (Failed ''get worker'' e), d)
      | Inr previous \<Rightarrow>
          (case q_UpdateWorker d (wf_LastName form) (wf_FirstName form)
                  (nullableString (wf_MiddleName form)) (wf_SNILS form) normalizedSNILS
                  (wf_Email form) (nullableString (wf_BirthDate form)) (e_clock ctx 0) i of
             Inl e \<Rightarrow>
               if is_conflict e then (Inl (FieldErrors [(''snils'', SNILSTaken)]), d)
               else (Inl (Failed ''update worker'' e), d)
           | Inr (updated, d') \<Rightarrow>
               (Inr updated, recordAudit ctx 0 (entry ''update'' ''worker'' (wk_id updated)
                  [(''from'', workerSnapshot previous), (''to'', workerSnapshot updated)]) d')))"

definition people_AssignEmployer ::
  "env \<Rightarrow> AssignmentForm \<Rightarrow> db \<Rightarrow> (people_msg, WorkerEmployer) svc_result" where
  "people_AssignEmployer ctx form d =
     (let position = TrimSpace (af_CurrentPosition form);
          errs = err_if (af_WorkerID form \<le> 0) ''worker_id'' ChooseWorker
               @ err_if (af_EmployerID form \<le> 0) ''employer_id'' ChooseEmployer
               @ err_if (position = '''') ''current_position'' PositionRequired
      in if errs \<noteq> [] then (Inl (FieldErrors errs), d)
      else case q_CreateWorkerEmployer d (af_WorkerID form) (af_EmployerID form) position
                  (e_clock ctx 0) (e_clock ctx 0) of
        Inl e \<Rightarrow>
          if is_conflict e then (Inl (FieldErrors [(''employer_id'', AssignmentTaken)]), d)
          else (Inl (Failed ''assign employer'' e), d)
      | Inr (assignment, d') \<Rightarrow>
          (Inr assignment, recordAudit ctx 0 (entry ''create'' ''worker_employer''
             (we_id assignment)
             [(''worker_id'', JInt (we_worker_id assignment)),
              (''employer_id'', JInt (we_employer_id assignment)),
              (''current_position'', JStr (we_current_position assignment))]) d'))"

definition assignmentSnapshot :: "WorkerEmployer \<Rightarrow> json" where
  "assignmentSnapshot a =
     JObj [(''worker_id'', JInt (we_worker_id a)), (''employer_id'', JInt (we_employer_id a)),
       (''current_position'', JStr (we_current_position a)), (''status'', JStr (we_status a))]"

definition people_UpdateAssignment ::
  "env \<Rightarrow> int \<Rightarrow> AssignmentForm \<Rightarrow> db \<Rightarrow> (people_msg, WorkerEmployer) svc_result" where
  "people_UpdateAssignment ctx i form d =
     (let position = TrimSpace (af_CurrentPosition form);
          errs = err_if (af_EmployerID form \<le> 0) ''employer_id'' ChooseEmployer
               @ err_if (position = '''') ''current_position'' PositionRequired
      in if errs \<noteq> [] then (Inl (FieldErrors errs), d)
      else case q_GetWorkerEmployer d i of
        Inl e \<Rightarrow> (Inl (Failed ''get assignment'' e), d)
      | Inr previous \<Rightarrow>
          (case q_UpdateAssignment d (af_EmployerID form) position (e_clock ctx 0) i of
             Inl e \<Rightarrow>
               if is_conflict e then (Inl (FieldErrors [(''employer_id'', AssignmentTaken)]), d)
               else (Inl (Failed ''update assignment'' e), d)
           | Inr (updated, d') \<Rightarrow>
               (Inr updated, recordAudit ctx 0 (entry ''update'' ''worker_employer''
                  (we_id updated) [(''from'', assignmentSnapshot previous),
                                   (''to'', assignmentSnapshot updated)]) d')))"

definition people_DeactivateAssignment ::
  "env \<Rightarrow> int \<Rightarrow> db \<Rightarrow> (people_msg, WorkerEmployer) svc_result" where
  "people_DeactivateAssignment ctx i d =
     (case q_GetWorkerEmployer d i of
        Inl e \<Rightarrow> (Inl (Failed ''get assignment'' e), d)
      | Inr previous \<Rightarrow>
          (if we_status previous = ''inactive'' then (Inr previous, d)
           else case q_DeactivateAssignment d (e_clock ctx 0) i of
             Inl e \<Rightarrow> (Inl (Failed ''deactivate assignment'' e), d)
           | Inr (updated, d') \<Rightarrow>
               (Inr updated, recordAudit ctx 0 (entry ''deactivate'' ''worker_employer''
                  (we_id updated) [(''from'', JStr (we_status previous)),
                                   (''to'', JStr (we_status updated))]) d')))"

end
