(* ===== verification/Directory.thy ===== *)
theory Directory
  imports Programs People
begin

text \<open>
  The contract the directory services share. \<open>directory\<close> is what a client may rely on of a
  service that creates and edits rows of one table; \<open>soft_delete\<close> adds deactivation. Program
  groups, programs, employers, workers and assignments are instances.
\<close>

lemma get_replace_id:
  assumes "table_ok rid check clash t" "sql_get (\<lambda>x. rid x = i) t = Inr r"
  shows "map (\<lambda>x. if rid x = i then r else x) t = t"
  using sql_get_Inr [OF assms(2)] table_ok_id [OF assms(1)] by (intro map_idI) auto

subsection \<open>The contract\<close>

locale directory =
  fixes rows :: "db \<Rightarrow> 'r list"
    and key :: "'r \<Rightarrow> int"
    and status :: "'r \<Rightarrow> string"
    and create :: "env \<Rightarrow> 'f \<Rightarrow> db \<Rightarrow> ('m, 'r) svc_result"
    and update :: "env \<Rightarrow> int \<Rightarrow> 'f \<Rightarrow> db \<Rightarrow> ('m, 'r) svc_result"
  assumes keys: "db_ok d \<Longrightarrow> distinct (map key (rows d))"
    and create_Inr: "create ctx f d = (Inr r, d') \<Longrightarrow>
      rows d' = rows d @ [r] \<and> key r \<notin> key ` set (rows d) \<and> status r = ''active''"
    and create_Inl: "create ctx f d = (Inl e, d') \<Longrightarrow> d' = d"
    and create_run: "statement\<^sup>*\<^sup>* d (snd (create ctx f d))"
    and update_Inr: "update ctx i f d = (Inr r, d') \<Longrightarrow>
      rows d' = map (\<lambda>x. if key x = i then r else x) (rows d) \<and> key r = i
      \<and> (\<exists>x \<in> set (rows d). key x = i \<and> status x = status r)"
    and update_Inl: "update ctx i f d = (Inl e, d') \<Longrightarrow> d' = d"
    and update_run: "statement\<^sup>*\<^sup>* d (snd (update ctx i f d))"
begin

text \<open>What a read by id returns after a successful create or edit.\<close>

lemma get_created:
  assumes "create ctx f d = (Inr r, d')"
  shows "sql_get (\<lambda>x. key x = j) (rows d')
         = (if j = key r then Inr r else sql_get (\<lambda>x. key x = j) (rows d))"
proof -
  from create_Inr [OF assms] have "rows d' = rows d @ [r]" "\<forall>x \<in> set (rows d). key x \<noteq> key r"
    by (simp_all, metis image_eqI)
  then show ?thesis
    by (auto simp: sql_get_def find_append find_None_set [symmetric] split: option.splits)
qed

lemma get_updated:
  assumes "update ctx i f d = (Inr r, d')"
  shows "sql_get (\<lambda>x. key x = j) (rows d')
         = (if j = i then Inr r else sql_get (\<lambda>x. key x = j) (rows d))"
proof -
  note u = update_Inr [OF assms]
  have "i \<in> key ` set (rows d)" using u [THEN conjunct2, THEN conjunct2] by auto
  then show ?thesis using get_replaced [of key r i "rows d" j] u by simp
qed

lemma edits_keep_ok:
  assumes "db_ok d"
  shows "db_ok (snd (create ctx f d))" "db_ok (snd (update ctx i f d))"
  using assms statements_ok [OF create_run] statements_ok [OF update_run] by blast+

end

locale soft_delete = directory rows key status create update
  for rows :: "db \<Rightarrow> 'r list" and key :: "'r \<Rightarrow> int" and status :: "'r \<Rightarrow> string"
    and create :: "env \<Rightarrow> 'f \<Rightarrow> db \<Rightarrow> ('m, 'r) svc_result"
    and update :: "env \<Rightarrow> int \<Rightarrow> 'f \<Rightarrow> db \<Rightarrow> ('m, 'r) svc_result" +
  fixes deactivate :: "env \<Rightarrow> int \<Rightarrow> db \<Rightarrow> ('m, 'r) svc_result"
  assumes deactivate_Inr: "db_ok d \<Longrightarrow> deactivate ctx i d = (Inr r, d') \<Longrightarrow>
      rows d' = map (\<lambda>x. if key x = i then r else x) (rows d) \<and> key r = i
      \<and> status r = ''inactive'' \<and> i \<in> key ` set (rows d)"
    and deactivate_Inl: "deactivate ctx i d = (Inl e, d') \<Longrightarrow> d' = d"
    and deactivate_run: "statement\<^sup>*\<^sup>* d (snd (deactivate ctx i d))"
    and deactivate_done: "db_ok d \<Longrightarrow> r \<in> set (rows d) \<Longrightarrow> status r = ''inactive'' \<Longrightarrow>
      deactivate ctx (key r) d = (Inr r, d)"
    and deactivate_total: "db_ok d \<Longrightarrow> r \<in> set (rows d) \<Longrightarrow>
      is_ok (fst (deactivate ctx (key r) d))"
begin

lemma deactivate_keeps_ok:
  assumes "db_ok d"
  shows "db_ok (snd (deactivate ctx i d))"
  using assms statements_ok [OF deactivate_run] by blast

text \<open>Deactivation succeeds exactly on the rows there are, and a second one does nothing.\<close>

lemma deactivate_iff:
  assumes "db_ok d"
  shows "is_ok (fst (deactivate ctx i d)) \<longleftrightarrow> i \<in> key ` set (rows d)"
proof
  assume "is_ok (fst (deactivate ctx i d))"
  then obtain r where "deactivate ctx i d = (Inr r, snd (deactivate ctx i d))"
    by (metis is_ok_iff prod.collapse)
  then show "i \<in> key ` set (rows d)" using deactivate_Inr [OF assms] by blast
next
  assume "i \<in> key ` set (rows d)"
  then show "is_ok (fst (deactivate ctx i d))" using deactivate_total [OF assms] by blast
qed

lemma deactivate_twice:
  assumes "db_ok d" "deactivate ctx i d = (Inr r, d')"
  shows "deactivate ctx' i d' = (Inr r, d')"
proof -
  from deactivate_Inr [OF assms] have "r \<in> set (rows d')" "key r = i" "status r = ''inactive''"
    by auto
  moreover have "db_ok d'" using deactivate_keeps_ok [OF assms(1), of ctx i] assms(2) by simp
  ultimately show ?thesis using deactivate_done by metis
qed

lemma deactivate_settles:
  assumes "db_ok d"
  shows "deactivate ctx i d = (Inr r, d') \<longrightarrow>
     status r = ''inactive'' \<and> deactivate ctx' i d' = (Inr r, d')"
  using deactivate_Inr [OF assms] deactivate_twice [OF assms] by blast

lemma get_deactivated:
  assumes "db_ok d" "deactivate ctx i d = (Inr r, d')" "j \<noteq> i"
  shows "sql_get (\<lambda>x. key x = j) (rows d') = sql_get (\<lambda>x. key x = j) (rows d)"
proof -
  note u = deactivate_Inr [OF assms(1,2)]
  then show ?thesis using get_replaced [of key r i "rows d" j] assms(3) by simp
qed

end

subsection \<open>The services are sequences of statements\<close>

lemma programs_run:
  "statement\<^sup>*\<^sup>* d (snd (programs_CreateGroup ctx gf d))"
  "statement\<^sup>*\<^sup>* d (snd (programs_UpdateGroup ctx i gf d))"
  "statement\<^sup>*\<^sup>* d (snd (programs_DeactivateGroup ctx i d))"
  "statement\<^sup>*\<^sup>* d (snd (programs_CreateProgram ctx pf d))"
  "statement\<^sup>*\<^sup>* d (snd (programs_UpdateProgram ctx i pf d))"
  "statement\<^sup>*\<^sup>* d (snd (programs_DeactivateProgram ctx i d))"
  by (auto simp: programs_CreateGroup_def programs_UpdateGroup_def programs_DeactivateGroup_def
      programs_CreateProgram_def programs_UpdateProgram_def programs_DeactivateProgram_def
      Let_def split: sum.splits
      intro!: stmt_audit_run
      intro: statement.intros(2-7))

lemma employers_run:
  "statement\<^sup>*\<^sup>* d (snd (employers_Create ctx ef d))"
  "statement\<^sup>*\<^sup>* d (snd (employers_Update ctx i ef d))"
  "statement\<^sup>*\<^sup>* d (snd (employers_Deactivate ctx i d))"
  by (auto simp: employers_Create_def employers_Update_def employers_Deactivate_def
      Let_def split: sum.splits intro!: stmt_audit_run intro: statement.intros(8-10))

lemma people_run:
  "statement\<^sup>*\<^sup>* d (snd (people_CreateWorker ctx wform d))"
  "statement\<^sup>*\<^sup>* d (snd (people_UpdateWorker ctx i wform d))"
  "statement\<^sup>*\<^sup>* d (snd (people_AssignEmployer ctx af d))"
  "statement\<^sup>*\<^sup>* d (snd (people_UpdateAssignment ctx i af d))"
  "statement\<^sup>*\<^sup>* d (snd (people_DeactivateAssignment ctx i d))"
  by (auto simp: people_CreateWorker_def people_UpdateWorker_def people_AssignEmployer_def
      people_UpdateAssignment_def people_DeactivateAssignment_def
      Let_def split: sum.splits intro!: stmt_audit_run intro: statement.intros(11-15))


subsection \<open>Program groups\<close>

lemmas group_ops = programs_CreateGroup_def programs_UpdateGroup_def programs_DeactivateGroup_def
  write_defs read_defs ins_group_def upd_group_def Let_def

interpretation group_dir: soft_delete program_groups gp_id gp_status programs_CreateGroup
  programs_UpdateGroup programs_DeactivateGroup
proof unfold_locales
  fix d ctx f r d'
  assume "programs_CreateGroup ctx f d = (Inr r, d')"
  then show "program_groups d' = program_groups d @ [r]
    \<and> gp_id r \<notin> gp_id ` set (program_groups d) \<and> gp_status r = ''active''"
    by (auto simp: group_ops split: sum.splits if_splits dest!: stored_insert_rows
        dest: next_rowid_fresh [of _ _ gp_id])
next
  fix d ctx i f r d'
  assume "programs_UpdateGroup ctx i f d = (Inr r, d')"
  then show "program_groups d' = map (\<lambda>x. if gp_id x = i then r else x) (program_groups d)
    \<and> gp_id r = i \<and> (\<exists>x \<in> set (program_groups d). gp_id x = i \<and> gp_status x = gp_status r)"
    by (auto simp: group_ops split: sum.splits if_splits elim!: stored_update_rows)
next
  fix d ctx i r d'
  assume "db_ok d" and dx: "programs_DeactivateGroup ctx i d = (Inr r, d')"
  then have t: "table_ok gp_id group_check group_clash (program_groups d)" by (simp add: db_ok_defs)
  from dx consider "q_GetGroupByID d i = Inr r" "gp_status r = ''inactive''" "d' = d"
    | d0 k where "q_DeactivateGroup d (e_clock ctx 0) i = Inr (r, d0)" "d' = recordAudit ctx 0 k d0"
    by (auto simp: programs_DeactivateGroup_def split: sum.splits if_splits)
  then show "program_groups d' = map (\<lambda>x. if gp_id x = i then r else x) (program_groups d)
    \<and> gp_id r = i \<and> gp_status r = ''inactive'' \<and> i \<in> gp_id ` set (program_groups d)"
  proof cases
    case 1
    then show ?thesis using get_replace_id [OF t] by (auto simp: read_defs dest: sql_get_Inr)
  next
    case 2
    then show ?thesis by (auto simp: group_ops elim!: stored_update_rows)
  qed
next
  fix d ctx r
  assume "db_ok d" "r \<in> set (program_groups d)" "gp_status r = ''inactive''"
  moreover from this have "table_ok gp_id group_check group_clash (program_groups d)"
    by (simp add: db_ok_defs)
  ultimately show "programs_DeactivateGroup ctx (gp_id r) d = (Inr r, d)"
    by (simp add: group_ops table_ok_get)
next
  fix d ctx r
  assume ok: "db_ok d" and r: "r \<in> set (program_groups d)"
  then have t: "table_ok gp_id group_check group_clash (program_groups d)"
    by (simp add: db_ok_defs)
  from t r have "group_check r" "\<And>x. x \<in> set (program_groups d) \<Longrightarrow> gp_id x \<noteq> gp_id r \<Longrightarrow> \<not> group_clash r x"
    by (auto simp: table_ok_def)
  moreover have "no_fk r" using ok r by (simp add: db_ok_defs no_fk_def)
  ultimately show "is_ok (fst (programs_DeactivateGroup ctx (gp_id r) d))"
    by (auto simp: group_ops table_ok_get [OF t r] sql_update_succeeds [OF t r] stored_def
        group_check_def group_clash_def no_fk_def)
qed (rule programs_run | (auto simp: db_ok_defs table_ok_def group_ops split: sum.splits if_splits)[1])+

subsection \<open>Programs\<close>

lemmas program_ops = programs_CreateProgram_def programs_UpdateProgram_def programs_DeactivateProgram_def
  write_defs read_defs ins_program_def upd_program_def Let_def

interpretation program_dir: soft_delete programs pg_id pg_status programs_CreateProgram
  programs_UpdateProgram programs_DeactivateProgram
proof unfold_locales
  fix d ctx f r d'
  assume "programs_CreateProgram ctx f d = (Inr r, d')"
  then show "programs d' = programs d @ [r]
    \<and> pg_id r \<notin> pg_id ` set (programs d) \<and> pg_status r = ''active''"
    by (auto simp: program_ops split: sum.splits if_splits dest!: stored_insert_rows
        dest: next_rowid_fresh [of _ _ pg_id])
next
  fix d ctx i f r d'
  assume "programs_UpdateProgram ctx i f d = (Inr r, d')"
  then show "programs d' = map (\<lambda>x. if pg_id x = i then r else x) (programs d)
    \<and> pg_id r = i \<and> (\<exists>x \<in> set (programs d). pg_id x = i \<and> pg_status x = pg_status r)"
    by (auto simp: program_ops split: sum.splits if_splits elim!: stored_update_rows)
next
  fix d ctx i r d'
  assume "db_ok d" and dx: "programs_DeactivateProgram ctx i d = (Inr r, d')"
  then have t: "table_ok pg_id program_check program_clash (programs d)" by (simp add: db_ok_defs)
  from dx consider "q_GetProgramByID d i = Inr r" "pg_status r = ''inactive''" "d' = d"
    | d0 k where "q_DeactivateProgram d (e_clock ctx 0) i = Inr (r, d0)" "d' = recordAudit ctx 0 k d0"
    by (auto simp: programs_DeactivateProgram_def split: sum.splits if_splits)
  then show "programs d' = map (\<lambda>x. if pg_id x = i then r else x) (programs d)
    \<and> pg_id r = i \<and> pg_status r = ''inactive'' \<and> i \<in> pg_id ` set (programs d)"
  proof cases
    case 1
    then show ?thesis using get_replace_id [OF t] by (auto simp: read_defs dest: sql_get_Inr)
  next
    case 2
    then show ?thesis by (auto simp: program_ops elim!: stored_update_rows)
  qed
next
  fix d ctx r
  assume "db_ok d" "r \<in> set (programs d)" "pg_status r = ''inactive''"
  moreover from this have "table_ok pg_id program_check program_clash (programs d)"
    by (simp add: db_ok_defs)
  ultimately show "programs_DeactivateProgram ctx (pg_id r) d = (Inr r, d)"
    by (simp add: program_ops table_ok_get)
next
  fix d ctx r
  assume ok: "db_ok d" and r: "r \<in> set (programs d)"
  then have t: "table_ok pg_id program_check program_clash (programs d)"
    by (simp add: db_ok_defs)
  from t r have "program_check r" "\<And>x. x \<in> set (programs d) \<Longrightarrow> pg_id x \<noteq> pg_id r \<Longrightarrow> \<not> program_clash r x"
    by (auto simp: table_ok_def)
  moreover have "program_fk d r" using ok r by (simp add: db_ok_defs no_fk_def)
  ultimately show "is_ok (fst (programs_DeactivateProgram ctx (pg_id r) d))"
    by (auto simp: program_ops table_ok_get [OF t r] sql_update_succeeds [OF t r] stored_def
        program_check_def program_clash_def program_fk_def)
qed (rule programs_run | (auto simp: db_ok_defs table_ok_def program_ops split: sum.splits if_splits)[1])+

subsection \<open>Employers\<close>

lemmas employer_ops = employers_Create_def employers_Update_def employers_Deactivate_def
  write_defs read_defs ins_employer_def upd_employer_def Let_def

interpretation employer_dir: soft_delete employers em_id em_status employers_Create
  employers_Update employers_Deactivate
proof unfold_locales
  fix d ctx f r d'
  assume "employers_Create ctx f d = (Inr r, d')"
  then show "employers d' = employers d @ [r]
    \<and> em_id r \<notin> em_id ` set (employers d) \<and> em_status r = ''active''"
    by (auto simp: employer_ops split: sum.splits if_splits dest!: stored_insert_rows
        dest: next_rowid_fresh [of _ _ em_id])
next
  fix d ctx i f r d'
  assume "employers_Update ctx i f d = (Inr r, d')"
  then show "employers d' = map (\<lambda>x. if em_id x = i then r else x) (employers d)
    \<and> em_id r = i \<and> (\<exists>x \<in> set (employers d). em_id x = i \<and> em_status x = em_status r)"
    by (auto simp: employer_ops split: sum.splits if_splits elim!: stored_update_rows)
next
  fix d ctx i r d'
  assume "db_ok d" and dx: "employers_Deactivate ctx i d = (Inr r, d')"
  then have t: "table_ok em_id employer_check employer_clash (employers d)" by (simp add: db_ok_defs)
  from dx consider "q_GetEmployerByID d i = Inr r" "em_status r = ''inactive''" "d' = d"
    | d0 k where "q_DeactivateEmployer d (e_clock ctx 0) i = Inr (r, d0)" "d' = recordAudit ctx 0 k d0"
    by (auto simp: employers_Deactivate_def split: sum.splits if_splits)
  then show "employers d' = map (\<lambda>x. if em_id x = i then r else x) (employers d)
    \<and> em_id r = i \<and> em_status r = ''inactive'' \<and> i \<in> em_id ` set (employers d)"
  proof cases
    case 1
    then show ?thesis using get_replace_id [OF t] by (auto simp: read_defs dest: sql_get_Inr)
  next
    case 2
    then show ?thesis by (auto simp: employer_ops elim!: stored_update_rows)
  qed
next
  fix d ctx r
  assume "db_ok d" "r \<in> set (employers d)" "em_status r = ''inactive''"
  moreover from this have "table_ok em_id employer_check employer_clash (employers d)"
    by (simp add: db_ok_defs)
  ultimately show "employers_Deactivate ctx (em_id r) d = (Inr r, d)"
    by (simp add: employer_ops table_ok_get)
next
  fix d ctx r
  assume ok: "db_ok d" and r: "r \<in> set (employers d)"
  then have t: "table_ok em_id employer_check employer_clash (employers d)"
    by (simp add: db_ok_defs)
  from t r have "employer_check r" "\<And>x. x \<in> set (employers d) \<Longrightarrow> em_id x \<noteq> em_id r \<Longrightarrow> \<not> employer_clash r x"
    by (auto simp: table_ok_def)
  moreover have "no_fk r" using ok r by (simp add: db_ok_defs no_fk_def)
  ultimately show "is_ok (fst (employers_Deactivate ctx (em_id r) d))"
    by (auto simp: employer_ops table_ok_get [OF t r] sql_update_succeeds [OF t r] stored_def
        employer_check_def employer_clash_def no_fk_def)
qed (rule employers_run | (auto simp: db_ok_defs table_ok_def employer_ops split: sum.splits if_splits)[1])+

subsection \<open>Workers\<close>

lemmas worker_ops = people_CreateWorker_def people_UpdateWorker_def
  write_defs read_defs ins_worker_def upd_worker_def Let_def

interpretation worker_dir: directory workers wk_id wk_status people_CreateWorker
  people_UpdateWorker
proof unfold_locales
  fix d ctx f r d'
  assume "people_CreateWorker ctx f d = (Inr r, d')"
  then show "workers d' = workers d @ [r]
    \<and> wk_id r \<notin> wk_id ` set (workers d) \<and> wk_status r = ''active''"
    by (auto simp: worker_ops split: sum.splits if_splits dest!: stored_insert_rows
        dest: next_rowid_fresh [of _ _ wk_id])
next
  fix d ctx i f r d'
  assume "people_UpdateWorker ctx i f d = (Inr r, d')"
  then show "workers d' = map (\<lambda>x. if wk_id x = i then r else x) (workers d)
    \<and> wk_id r = i \<and> (\<exists>x \<in> set (workers d). wk_id x = i \<and> wk_status x = wk_status r)"
    by (auto simp: worker_ops split: sum.splits if_splits elim!: stored_update_rows)
qed (rule people_run | (auto simp: db_ok_defs table_ok_def worker_ops split: sum.splits if_splits)[1])+

subsection \<open>Assignments\<close>

lemmas assignment_ops = people_AssignEmployer_def people_UpdateAssignment_def people_DeactivateAssignment_def
  write_defs read_defs ins_worker_employer_def upd_worker_employer_def Let_def

interpretation assignment_dir: soft_delete worker_employers we_id we_status people_AssignEmployer
  people_UpdateAssignment people_DeactivateAssignment
proof unfold_locales
  fix d ctx f r d'
  assume "people_AssignEmployer ctx f d = (Inr r, d')"
  then show "worker_employers d' = worker_employers d @ [r]
    \<and> we_id r \<notin> we_id ` set (worker_employers d) \<and> we_status r = ''active''"
    by (auto simp: assignment_ops split: sum.splits if_splits dest!: stored_insert_rows
        dest: next_rowid_fresh [of _ _ we_id])
next
  fix d ctx i f r d'
  assume "people_UpdateAssignment ctx i f d = (Inr r, d')"
  then show "worker_employers d' = map (\<lambda>x. if we_id x = i then r else x) (worker_employers d)
    \<and> we_id r = i \<and> (\<exists>x \<in> set (worker_employers d). we_id x = i \<and> we_status x = we_status r)"
    by (auto simp: assignment_ops split: sum.splits if_splits elim!: stored_update_rows)
next
  fix d ctx i r d'
  assume "db_ok d" and dx: "people_DeactivateAssignment ctx i d = (Inr r, d')"
  then have t: "table_ok we_id worker_employer_check worker_employer_clash (worker_employers d)" by (simp add: db_ok_defs)
  from dx consider "q_GetWorkerEmployer d i = Inr r" "we_status r = ''inactive''" "d' = d"
    | d0 k where "q_DeactivateAssignment d (e_clock ctx 0) i = Inr (r, d0)" "d' = recordAudit ctx 0 k d0"
    by (auto simp: people_DeactivateAssignment_def split: sum.splits if_splits)
  then show "worker_employers d' = map (\<lambda>x. if we_id x = i then r else x) (worker_employers d)
    \<and> we_id r = i \<and> we_status r = ''inactive'' \<and> i \<in> we_id ` set (worker_employers d)"
  proof cases
    case 1
    then show ?thesis using get_replace_id [OF t] by (auto simp: read_defs dest: sql_get_Inr)
  next
    case 2
    then show ?thesis by (auto simp: assignment_ops elim!: stored_update_rows)
  qed
next
  fix d ctx r
  assume "db_ok d" "r \<in> set (worker_employers d)" "we_status r = ''inactive''"
  moreover from this have "table_ok we_id worker_employer_check worker_employer_clash (worker_employers d)"
    by (simp add: db_ok_defs)
  ultimately show "people_DeactivateAssignment ctx (we_id r) d = (Inr r, d)"
    by (simp add: assignment_ops table_ok_get)
next
  fix d ctx r
  assume ok: "db_ok d" and r: "r \<in> set (worker_employers d)"
  then have t: "table_ok we_id worker_employer_check worker_employer_clash (worker_employers d)"
    by (simp add: db_ok_defs)
  from t r have "worker_employer_check r" "\<And>x. x \<in> set (worker_employers d) \<Longrightarrow> we_id x \<noteq> we_id r \<Longrightarrow> \<not> worker_employer_clash r x"
    by (auto simp: table_ok_def)
  moreover have "worker_employer_fk d r" using ok r by (simp add: db_ok_defs no_fk_def)
  ultimately show "is_ok (fst (people_DeactivateAssignment ctx (we_id r) d))"
    by (auto simp: assignment_ops table_ok_get [OF t r] sql_update_succeeds [OF t r] stored_def
        worker_employer_check_def worker_employer_clash_def worker_employer_fk_def)
qed (rule people_run | (auto simp: db_ok_defs table_ok_def assignment_ops split: sum.splits if_splits)[1])+

end
