(* ===== verification/DirectoryProps.thy ===== *)
theory DirectoryProps
  imports Directory Samples
begin

text \<open>
  The properties of the directory services: what a create, an edit and a deactivation do, when
  they succeed, and how they report a row they cannot store. They rest on the facts of the
  \<open>directory\<close> and \<open>soft_delete\<close> instances.
\<close>

definition sample_form :: EmployerForm where
  "sample_form = \<lparr>ef_INN = ''77-02'', ef_CanonicalName = ''Mill''\<rparr>"

lemma sample_form_eval:
  "TrimSpace (ef_INN sample_form) = ''77-02''" "TrimSpace (ef_CanonicalName sample_form) = ''Mill''"
  "normalizeDigits u ''77-02'' = ''7702''"
proof -
  show "TrimSpace (ef_INN sample_form) = ''77-02''"
    unfolding sample_form_def EmployerForm.select_convs
    by (rule TrimSpace_solid) (simp_all add: solid_def byte_def)
  show "TrimSpace (ef_CanonicalName sample_form) = ''Mill''"
    unfolding sample_form_def EmployerForm.select_convs
    by (rule TrimSpace_solid) (simp_all add: solid_def byte_def)
  have "is_ascii ''77-02''" by (simp add: byte_def)
  then show "normalizeDigits u ''77-02'' = ''7702''"
    by (simp add: normalizeDigits_def digit_runes_ascii is_ascii_digit_def byte_def)
qed

lemma employer_insert_eq:
  "q_CreateEmployer d inn n name c u =
     (if n \<in> em_inn_normalized ` set (employers d) then Inl (ConstraintFailed UniqueViolation)
      else let e = \<lparr>em_id = next_rowid em_id (employers d), em_inn = inn, em_inn_normalized = n,
                    em_canonical_name = name, em_created_at = c, em_updated_at = u,
                    em_status = ''active''\<rparr>
           in Inr (e, d\<lparr>employers := employers d @ [e]\<rparr>))"
  by (auto simp: q_CreateEmployer_def ins_employer_def stored_def sql_insert_def Let_def
      employer_check_def employer_clash_def no_fk_def list_ex_iff)



text \<open>
  An edit that succeeds replaces exactly the row with that id: a read of it returns the
  edited row, with the status it had, and every other read by id is as before.
\<close>

theorem updated_rows_read_back:
  "(programs_UpdateGroup ctx i gf d = (Inr g, d1) \<longrightarrow>
      programs_GetGroup d1 j = (if j = i then Inr g else programs_GetGroup d j))
   \<and> (programs_UpdateProgram ctx i pf d = (Inr p, d2) \<longrightarrow>
      programs_GetProgram d2 j = (if j = i then Inr p else programs_GetProgram d j))
   \<and> (employers_Update ctx i ef d = (Inr e, d3) \<longrightarrow>
      employers_Get d3 j = (if j = i then Inr e else employers_Get d j))
   \<and> (people_UpdateWorker ctx i wform d = (Inr w, d4) \<longrightarrow>
      people_GetWorker d4 j = (if j = i then Inr w else people_GetWorker d j))
   \<and> (people_UpdateAssignment ctx i af d = (Inr a, d5) \<longrightarrow>
      people_GetAssignment d5 j = (if j = i then Inr a else people_GetAssignment d j))"
  unfolding programs_GetGroup_def programs_GetProgram_def employers_Get_def people_GetWorker_def
    people_GetAssignment_def read_defs
  by (intro conjI impI group_dir.get_updated program_dir.get_updated employer_dir.get_updated
      worker_dir.get_updated assignment_dir.get_updated)

theorem updated_rows_read_back_witness:
  "\<exists>e d'. employers_Update sample_env 1 sample_form sample_db = (Inr e, d')
     \<and> em_inn_normalized e = ''7702'' \<and> employers_Get d' 1 = Inr e"
proof -
  obtain e d' where c: "employers_Update sample_env 1 sample_form sample_db = (Inr e, d')"
    "em_inn_normalized e = ''7702''"
    by (auto simp: employers_Update_def Let_def sample_form_eval read_defs sql_get_def
        q_UpdateEmployer_def upd_employer_def stored_def sql_update_def employer_check_def
        employer_clash_def no_fk_def sample_db_def empty_db_def sample_employer_def)
  from updated_rows_read_back [of sample_env 1 _ sample_db] c(1)
  have "employers_Get d' j = (if j = 1 then Inr e else employers_Get sample_db j)" for j
    by blast
  with c show ?thesis by auto
qed

text \<open>
  Deactivation of a group, program, employer or assignment succeeds exactly when the row
  exists, leaves it inactive, and a second deactivation returns the same row and writes
  nothing, not even an audit entry.
\<close>

theorem deactivation_idempotent:
  assumes "db_ok d"
  shows "(is_ok (fst (programs_DeactivateGroup ctx i d)) \<longleftrightarrow> i \<in> gp_id ` set (program_groups d))
   \<and> (is_ok (fst (programs_DeactivateProgram ctx i d)) \<longleftrightarrow> i \<in> pg_id ` set (programs d))
   \<and> (is_ok (fst (employers_Deactivate ctx i d)) \<longleftrightarrow> i \<in> em_id ` set (employers d))
   \<and> (is_ok (fst (people_DeactivateAssignment ctx i d)) \<longleftrightarrow> i \<in> we_id ` set (worker_employers d))
   \<and> (programs_DeactivateGroup ctx i d = (Inr g, d1) \<longrightarrow>
        gp_status g = ''inactive'' \<and> programs_DeactivateGroup ctx' i d1 = (Inr g, d1))
   \<and> (programs_DeactivateProgram ctx i d = (Inr p, d2) \<longrightarrow>
        pg_status p = ''inactive'' \<and> programs_DeactivateProgram ctx' i d2 = (Inr p, d2))
   \<and> (employers_Deactivate ctx i d = (Inr e, d3) \<longrightarrow>
        em_status e = ''inactive'' \<and> employers_Deactivate ctx' i d3 = (Inr e, d3))
   \<and> (people_DeactivateAssignment ctx i d = (Inr a, d4) \<longrightarrow>
        we_status a = ''inactive'' \<and> people_DeactivateAssignment ctx' i d4 = (Inr a, d4))"
  by (intro conjI group_dir.deactivate_iff [OF assms] program_dir.deactivate_iff [OF assms]
      employer_dir.deactivate_iff [OF assms] assignment_dir.deactivate_iff [OF assms]
      group_dir.deactivate_settles [OF assms] program_dir.deactivate_settles [OF assms]
      employer_dir.deactivate_settles [OF assms] assignment_dir.deactivate_settles [OF assms])

theorem deactivation_idempotent_witness:
  "\<exists>e d'. employers_Deactivate sample_env 1 sample_db = (Inr e, d') \<and> em_status e = ''inactive''
     \<and> employers_Deactivate sample_env 1 d' = (Inr e, d')"
proof -
  have "1 \<in> em_id ` set (employers sample_db)" by (simp add: sample_defs)
  then have "is_ok (fst (employers_Deactivate sample_env 1 sample_db))"
    using deactivation_idempotent [OF sample_ok] by blast
  then obtain e where "employers_Deactivate sample_env 1 sample_db
      = (Inr e, snd (employers_Deactivate sample_env 1 sample_db))"
    by (metis is_ok_iff prod.collapse)
  with deactivation_idempotent [OF sample_ok] show ?thesis by blast
qed

text \<open>
  Creating an employer succeeds exactly when the trimmed name is not empty, the INN has a
  digit, and no employer, active or not, has the same INN digits. The new employer then stores
  the trimmed texts and the digits, is active, and every other table but the audit log is as
  it was.
\<close>

theorem employers_Create_outcome:
  "(is_ok (fst (employers_Create ctx form d)) \<longleftrightarrow>
     TrimSpace (ef_CanonicalName form) \<noteq> ''''
     \<and> normalizeDigits (e_unicode ctx) (TrimSpace (ef_INN form)) \<noteq> ''''
     \<and> normalizeDigits (e_unicode ctx) (TrimSpace (ef_INN form))
         \<notin> em_inn_normalized ` set (employers d))
   \<and> (employers_Create ctx form d = (Inr e, d') \<longrightarrow>
        em_inn e = TrimSpace (ef_INN form) \<and> em_canonical_name e = TrimSpace (ef_CanonicalName form)
        \<and> em_inn_normalized e = normalizeDigits (e_unicode ctx) (em_inn e)
        \<and> em_status e = ''active''
        \<and> d' = d\<lparr>employers := employers d @ [e], action_log := action_log d'\<rparr>)"
  by (auto simp: employers_Create_def Let_def employer_insert_eq is_ok_iff recordAudit_eq
      split: if_splits)

theorem employers_Create_outcome_witness:
  "\<exists>e d'. employers_Create sample_env sample_form sample_db = (Inr e, d')
     \<and> em_inn e = ''77-02'' \<and> em_inn_normalized e = ''7702''
     \<and> workers d' = workers sample_db"
proof -
  have "is_ok (fst (employers_Create sample_env sample_form sample_db))"
    using employers_Create_outcome [of sample_env sample_form sample_db]
    by (simp add: sample_form_eval sample_defs)
  then obtain e where e: "employers_Create sample_env sample_form sample_db
      = (Inr e, snd (employers_Create sample_env sample_form sample_db))"
    by (metis is_ok_iff prod.collapse)
  let ?d = "snd (employers_Create sample_env sample_form sample_db)"
  have o: "em_inn e = ''77-02''" "em_inn_normalized e = ''7702''"
    "?d = sample_db\<lparr>employers := employers sample_db @ [e], action_log := action_log ?d\<rparr>"
    using employers_Create_outcome [of sample_env sample_form sample_db e ?d] e
    by (simp_all only: sample_form_eval simp_thms)
  from arg_cong [OF o(3), of workers] have "workers ?d = workers sample_db" by simp
  with e o(1,2) show ?thesis by blast
qed

text \<open>
  \<open>CreateProgram\<close> succeeds exactly when the form is valid, the group exists and the group
  has no program with that code. A group that does not exist is reported as a code that is
  already taken, and an inactive group is no obstacle.
\<close>

theorem CreateProgram_outcome:
  assumes "program_form_errs form = []"
  shows "(is_ok (fst (programs_CreateProgram ctx form d)) \<longleftrightarrow>
       pf_ProgramGroupID form \<in> gp_id ` set (program_groups d)
       \<and> (pf_ProgramGroupID form, TrimSpace (pf_Code form))
           \<notin> (\<lambda>p. (pg_program_group_id p, pg_code p)) ` set (programs d))
     \<and> (is_ok (fst (programs_CreateProgram ctx form d))
        \<or> programs_CreateProgram ctx form d = (Inl (FieldErrors [(''code'', ProgramCodeTaken)]), d))"
  using assms
  by (auto simp: programs_CreateProgram_def Let_def q_CreateProgram_def ins_program_def stored_def
      sql_insert_def program_check_def program_clash_def program_fk_def list_ex_iff is_ok_iff
      row_ids_def program_form_errs_def)

definition sample_program_form :: "int \<Rightarrow> ProgramForm" where
  "sample_program_form g = \<lparr>pf_ProgramGroupID = g, pf_Code = ''A-1'', pf_Name = ''Aid'',
     pf_DefaultHours = 8, pf_MoodleCourseID = ''''\<rparr>"

lemma sample_program_form_eval:
  "TrimSpace ''A-1'' = ''A-1''" "TrimSpace ''Aid'' = ''Aid''"
  by (rule TrimSpace_solid; simp add: solid_def byte_def)+

theorem CreateProgram_outcome_witness:
  "fst (programs_CreateProgram sample_env (sample_program_form 9) sample_db)
     = Inl (FieldErrors [(''code'', ProgramCodeTaken)])
   \<and> 9 \<notin> gp_id ` set (program_groups sample_db)"
proof -
  have f: "program_form_errs (sample_program_form 9) = []"
    by (simp add: program_form_errs_def sample_program_form_def sample_program_form_eval)
  have g: "9 \<notin> gp_id ` set (program_groups sample_db)" by (simp add: sample_defs)
  with CreateProgram_outcome [OF f, of sample_env sample_db] show ?thesis
    by (auto simp: sample_program_form_def)
qed

text \<open>
  C13. With a valid form, \<open>AssignEmployer\<close> succeeds exactly when the worker and the employer
  exist and have no active assignment to each other; every other outcome, a missing worker or
  employer included, is reported as an assignment that is already active.
\<close>

theorem AssignEmployer_outcome:
  assumes "0 < af_WorkerID form" "0 < af_EmployerID form" "TrimSpace (af_CurrentPosition form) \<noteq> ''''"
  shows "(is_ok (fst (people_AssignEmployer ctx form d)) \<longleftrightarrow>
       af_WorkerID form \<in> wk_id ` set (workers d) \<and> af_EmployerID form \<in> em_id ` set (employers d)
       \<and> (af_WorkerID form, af_EmployerID form, ''active'')
           \<notin> (\<lambda>a. (we_worker_id a, we_employer_id a, we_status a)) ` set (worker_employers d))
     \<and> (is_ok (fst (people_AssignEmployer ctx form d))
        \<or> people_AssignEmployer ctx form d
          = (Inl (FieldErrors [(''employer_id'', AssignmentTaken)]), d))"
  using assms
  by (auto simp: people_AssignEmployer_def Let_def q_CreateWorkerEmployer_def
      ins_worker_employer_def stored_def sql_insert_def worker_employer_check_def
      worker_employer_clash_def worker_employer_fk_def list_ex_iff is_ok_iff row_ids_def)

theorem AssignEmployer_outcome_witness:
  "fst (people_AssignEmployer sample_env
     \<lparr>af_WorkerID = 7, af_EmployerID = 1, af_CurrentPosition = ''Aid''\<rparr> sample_db)
     = Inl (FieldErrors [(''employer_id'', AssignmentTaken)])
   \<and> 7 \<notin> wk_id ` set (workers sample_db)"
proof -
  let ?f = "\<lparr>af_WorkerID = 7, af_EmployerID = 1, af_CurrentPosition = ''Aid''\<rparr>"
  have "7 \<notin> wk_id ` set (workers sample_db)" by (simp add: sample_defs)
  with AssignEmployer_outcome [of ?f sample_env sample_db] show ?thesis
    by (auto simp: sample_program_form_eval)
qed

end
