(* ===== verification/Normalizer.thy ===== *)
theory Normalizer
  imports Services
begin

text \<open>
  The field normalizers of a request row (\<^verbatim>\<open>requests/normalizer.go\<close>). A \<open>NormalizeError\<close> is its
  field map. \<open>net/mail.ParseAddress\<close> and the Unicode tables beyond ASCII are parameters of the
  environment.
\<close>

record ParsedRow =
  p_RowNumber :: int
  p_RawFullName :: string
  p_RawSNILS :: string
  p_RawEmail :: string
  p_RawPosition :: string
  p_RawPrograms :: "string list"

record NormalizedRow =
  n_LastName :: string
  n_FirstName :: string
  n_MiddleName :: string
  n_SNILS :: string
  n_SNILSDigits :: string
  n_Email :: string
  n_Position :: string

datatype normalize_msg =
    FullNameRequired | FullNameTooShort | RowSNILSRequired | SNILSNot11 | RowEmailRequired
  | EmailMalformed

type_synonym normalize_error = "(string \<times> normalize_msg) list"

definition NormalizeFullName :: "string \<Rightarrow> (normalize_error, string \<times> string \<times> string) result" where
  "NormalizeFullName raw =
     (let trimmed = TrimSpace raw in
      if trimmed = '''' then Inl [(''full_name'', FullNameRequired)]
      else case Fields trimmed of
        last_name # first_name # rest \<Rightarrow> Inr (last_name, first_name, Join rest '' '')
      | _ \<Rightarrow> Inl [(''full_name'', FullNameTooShort)])"

definition digits :: "unicode \<Rightarrow> string \<Rightarrow> string" where
  "digits u s = digit_runes u s"

text \<open>\<open>s[i:j]\<close> counts bytes.\<close>

definition byte_slice :: "string \<Rightarrow> nat \<Rightarrow> nat \<Rightarrow> string" where
  "byte_slice s i j = take (j - i) (drop i s)"

definition NormalizeSNILS :: "unicode \<Rightarrow> string \<Rightarrow> (normalize_error, string \<times> string) result" where
  "NormalizeSNILS u raw =
     (let trimmed = TrimSpace raw in
      if trimmed = '''' then Inl [(''snils'', RowSNILSRequired)]
      else let digitsOnly = digits u trimmed in
        if length digitsOnly \<noteq> 11 then Inl [(''snils'', SNILSNot11)]
        else Inr (byte_slice digitsOnly 0 3 @ ''-'' @ byte_slice digitsOnly 3 6 @ ''-''
                  @ byte_slice digitsOnly 6 9 @ '' '' @ byte_slice digitsOnly 9 11, digitsOnly))"

definition NormalizeEmail :: "env \<Rightarrow> string \<Rightarrow> (normalize_error, string) result" where
  "NormalizeEmail ctx raw =
     (let trimmed = TrimSpace raw in
      if trimmed = '''' then Inl [(''email'', RowEmailRequired)]
      else let lowered = ToLower (e_unicode ctx) trimmed in
        if e_parse_address ctx lowered \<noteq> Some lowered then Inl [(''email'', EmailMalformed)]
        else Inr lowered)"

definition NormalizeProgramCode :: "unicode \<Rightarrow> string \<Rightarrow> string" where
  "NormalizeProgramCode u raw = ToUpper u (TrimSpace raw)"

definition NormalizePosition :: "string \<Rightarrow> string" where
  "NormalizePosition raw = TrimSpace raw"

definition err_fields :: "(normalize_error, 'a) result \<Rightarrow> normalize_error" where
  "err_fields r = (case r of Inl e \<Rightarrow> e | Inr _ \<Rightarrow> [])"

definition NormalizeRow :: "env \<Rightarrow> ParsedRow \<Rightarrow> (normalize_error, NormalizedRow) result" where
  "NormalizeRow ctx p =
     (let name = NormalizeFullName (p_RawFullName p);
          snils = NormalizeSNILS (e_unicode ctx) (p_RawSNILS p);
          email = NormalizeEmail ctx (p_RawEmail p);
          position = NormalizePosition (p_RawPosition p)
      in case (name, snils, email) of
           (Inr (last_name, first_name, middle), Inr (snilsFmt, snilsDigits), Inr mail) \<Rightarrow>
             Inr \<lparr>n_LastName = last_name, n_FirstName = first_name, n_MiddleName = middle,
                  n_SNILS = snilsFmt, n_SNILSDigits = snilsDigits, n_Email = mail,
                  n_Position = position\<rparr>
         | _ \<Rightarrow> Inl (err_fields name @ err_fields snils @ err_fields email))"

end
