(* ===== verification/RequestParser.thy ===== *)
theory RequestParser
  imports Normalizer
begin

text \<open>
  The XLSX parser of client requests (\<^verbatim>\<open>requests/parser.go\<close>). The workbook comes from the
  environment (excelize is not part of the repository); everything from the sheet choice on is
  the source's own. Cyrillic texts are their UTF-8 bytes.
\<close>

datatype parse_error =
    OpenXlsx string | ErrMissingSheet | ReadSheet string string | ErrEmptyFile | ErrMissingColumns

datatype fieldKind = fieldFullName | fieldSNILS | fieldEmail | fieldPosition | fieldPrograms

text \<open>The sheet name "Zayavka" in Cyrillic.\<close>

definition request_sheet :: string where
  "request_sheet = bytes [208, 151, 208, 176, 209, 143, 208, 178, 208, 186, 208, 176]"

definition parserColumns :: "string \<rightharpoonup> fieldKind" where
  "parserColumns = map_of
     [(bytes [209, 132, 208, 184, 208, 190], fieldFullName),
      (bytes [209, 129, 208, 189, 208, 184, 208, 187, 209, 129], fieldSNILS),
      (''email'', fieldEmail),
      (''e-mail'', fieldEmail),
      (bytes [208, 180, 208, 190, 208, 187, 208, 182, 208, 189, 208, 190, 209, 129, 209, 130,
              209, 140], fieldPosition),
      (bytes [208, 186, 208, 190, 208, 180, 209, 139, 32, 208, 191, 209, 128, 208, 190, 208, 179,
              209, 128, 208, 176, 208, 188, 208, 188], fieldPrograms),
      (bytes [208, 191, 209, 128, 208, 190, 208, 179, 209, 128, 208, 176, 208, 188, 208, 188,
              209, 139], fieldPrograms),
      (''program codes'', fieldPrograms),
      (''programs'', fieldPrograms)]"

record headerIndex =
  h_fullName :: int
  h_snils :: int
  h_email :: int
  h_position :: int
  h_programs :: int

fun first_fold :: "unicode \<Rightarrow> string list \<Rightarrow> string option" where
  "first_fold u [] = None"
| "first_fold u (name # rest) = (if EqualFold u name request_sheet then Some name else first_fold u rest)"

definition pickSheet :: "unicode \<Rightarrow> string list \<Rightarrow> string" where
  "pickSheet u sheets =
     (case first_fold u sheets of
        Some name \<Rightarrow> name
      | None \<Rightarrow> (case sheets of [] \<Rightarrow> '''' | name # _ \<Rightarrow> name))"

text \<open>One header cell: the last column with a known alias wins.\<close>

definition set_column :: "unicode \<Rightarrow> int \<Rightarrow> string \<Rightarrow> headerIndex \<Rightarrow> headerIndex" where
  "set_column u i raw idx =
     (case parserColumns (ToLower u (TrimSpace raw)) of
        None \<Rightarrow> idx
      | Some fieldFullName \<Rightarrow> idx\<lparr>h_fullName := i\<rparr>
      | Some fieldSNILS \<Rightarrow> idx\<lparr>h_snils := i\<rparr>
      | Some fieldEmail \<Rightarrow> idx\<lparr>h_email := i\<rparr>
      | Some fieldPosition \<Rightarrow> idx\<lparr>h_position := i\<rparr>
      | Some fieldPrograms \<Rightarrow> idx\<lparr>h_programs := i\<rparr>)"

fun scan_header :: "unicode \<Rightarrow> int \<Rightarrow> string list \<Rightarrow> headerIndex \<Rightarrow> headerIndex" where
  "scan_header u i [] idx = idx"
| "scan_header u i (raw # rest) idx = scan_header u (i + 1) rest (set_column u i raw idx)"

definition buildHeaderIndex :: "unicode \<Rightarrow> string list \<Rightarrow> headerIndex option" where
  "buildHeaderIndex u headerRow =
     (let idx = scan_header u 0 headerRow
                  \<lparr>h_fullName = -1, h_snils = -1, h_email = -1, h_position = -1, h_programs = -1\<rparr>
      in if h_fullName idx = -1 \<or> h_snils idx = -1 \<or> h_email idx = -1 \<or> h_programs idx = -1
         then None else Some idx)"

definition cellAt :: "string list \<Rightarrow> int \<Rightarrow> string" where
  "cellAt row col =
     (if col < 0 \<or> int (length row) \<le> col then '''' else TrimSpace (row ! nat col))"

fun isRowEmpty :: "string list \<Rightarrow> bool" where
  "isRowEmpty [] = True"
| "isRowEmpty (c # row) = (if TrimSpace c \<noteq> '''' then False else isRowEmpty row)"

definition is_separator :: "char \<Rightarrow> bool" where
  "is_separator c = (byte c \<in> {44, 59, 10, 9})"

text \<open>\<open>strings.NewReplacer\<close> with four one-byte patterns: every comma, semicolon, newline and tab
  becomes a space.\<close>

definition splitPrograms :: "unicode \<Rightarrow> string \<Rightarrow> string list" where
  "splitPrograms u raw =
     (if raw = '''' then []
      else let normalized = map (\<lambda>c. if is_separator c then CHR '' '' else c) raw
           in filter (\<lambda>code. code \<noteq> '''') (map (NormalizeProgramCode u) (Fields normalized)))"

definition parse_row :: "unicode \<Rightarrow> headerIndex \<Rightarrow> int \<Rightarrow> string list \<Rightarrow> ParsedRow" where
  "parse_row u header num r =
     \<lparr>p_RowNumber = num, p_RawFullName = cellAt r (h_fullName header),
      p_RawSNILS = cellAt r (h_snils header), p_RawEmail = cellAt r (h_email header),
      p_RawPosition = cellAt r (h_position header),
      p_RawPrograms = splitPrograms u (cellAt r (h_programs header))\<rparr>"

text \<open>The loop over \<open>rows[1:]\<close>; \<open>num\<close> is \<open>i + 2\<close>.\<close>

fun parse_rows :: "unicode \<Rightarrow> headerIndex \<Rightarrow> int \<Rightarrow> string list list \<Rightarrow> ParsedRow list" where
  "parse_rows u header num [] = []"
| "parse_rows u header num (r # rs) =
     (if isRowEmpty r then parse_rows u header (num + 1) rs
      else parse_row u header num r # parse_rows u header (num + 1) rs)"

definition ParseXLSX :: "env \<Rightarrow> string \<Rightarrow> (parse_error, ParsedRow list) result" where
  "ParseXLSX ctx data =
     (case e_open_xlsx ctx data of
        Inl e \<Rightarrow> Inl (OpenXlsx e)
      | Inr wb \<Rightarrow>
          (let sheet = pickSheet (e_unicode ctx) (wb_sheets wb) in
           if sheet = '''' then Inl ErrMissingSheet
           else case wb_rows wb sheet of
             Inl e \<Rightarrow> Inl (ReadSheet sheet e)
           | Inr [] \<Rightarrow> Inl ErrEmptyFile
           | Inr (headerRow # body) \<Rightarrow>
               (case buildHeaderIndex (e_unicode ctx) headerRow of
                  None \<Rightarrow> Inl ErrMissingColumns
                | Some header \<Rightarrow>
                    (let out = parse_rows (e_unicode ctx) header 2 body
                     in if out = [] then Inl ErrEmptyFile else Inr out))))"

subsection \<open>Which rows come out\<close>

lemma isRowEmpty_iff: "isRowEmpty row \<longleftrightarrow> (\<forall>c \<in> set row. TrimSpace c = '''')"
  by (induction row) auto

lemma parse_rows_numbers:
  "p \<in> set (parse_rows u h n rs) \<Longrightarrow> n \<le> p_RowNumber p \<and> p_RowNumber p < n + int (length rs)"
  by (induction rs arbitrary: n) (force simp: parse_row_def split: if_splits)+

lemma parse_rows_sorted: "sorted_wrt (<) (map p_RowNumber (parse_rows u h n rs))"
proof (induction rs arbitrary: n)
  case (Cons r rs)
  then show ?case using parse_rows_numbers [of _ u h "n + 1" rs] by (force simp: parse_row_def)
qed simp

lemma parse_rows_set:
  "p \<in> set (parse_rows u h n rs) \<longleftrightarrow>
     (\<exists>i < length rs. \<not> isRowEmpty (rs ! i) \<and> p = parse_row u h (n + int i) (rs ! i))"
proof (induction rs arbitrary: n)
  case (Cons r rs)
  have "(\<exists>i < length (r # rs). \<not> isRowEmpty ((r # rs) ! i)
          \<and> p = parse_row u h (n + int i) ((r # rs) ! i))
    \<longleftrightarrow> \<not> isRowEmpty r \<and> p = parse_row u h n r
      \<or> (\<exists>i < length rs. \<not> isRowEmpty (rs ! i) \<and> p = parse_row u h (n + 1 + int i) (rs ! i))"
    by (auto simp: less_Suc_eq_0_disj algebra_simps)
  then show ?case by (simp add: Cons)
qed simp

lemma ParseXLSX_Inr:
  "ParseXLSX ctx data = Inr out \<longleftrightarrow>
     (\<exists>wb headerRow body h. e_open_xlsx ctx data = Inr wb
        \<and> pickSheet (e_unicode ctx) (wb_sheets wb) \<noteq> ''''
        \<and> wb_rows wb (pickSheet (e_unicode ctx) (wb_sheets wb)) = Inr (headerRow # body)
        \<and> buildHeaderIndex (e_unicode ctx) headerRow = Some h
        \<and> out = parse_rows (e_unicode ctx) h 2 body \<and> out \<noteq> [])"
  by (auto simp: ParseXLSX_def Let_def split: sum.splits list.splits option.splits)

end
