(* ===== verification/RequestState.thy ===== *)
theory RequestState
  imports ProtocolState
begin

text \<open>
  The statuses of request rows and request training items and their transition tables
  (\<^verbatim>\<open>requests/state.go\<close>). A move to the same status counts as permitted.
\<close>

definition RowStatusPending :: string where [simp]: "RowStatusPending = ''pending''"
definition RowStatusParsed :: string where [simp]: "RowStatusParsed = ''parsed''"
definition RowStatusInvalid :: string where [simp]: "RowStatusInvalid = ''invalid''"
definition RowStatusApplied :: string where [simp]: "RowStatusApplied = ''applied''"
definition RowStatusSkipped :: string where [simp]: "RowStatusSkipped = ''skipped''"

definition ItemStatusPending :: string where [simp]: "ItemStatusPending = ''pending''"
definition ItemStatusValid :: string where [simp]: "ItemStatusValid = ''valid''"
definition ItemStatusInvalid :: string where [simp]: "ItemStatusInvalid = ''invalid''"
definition ItemStatusDuplicate :: string where [simp]: "ItemStatusDuplicate = ''duplicate''"
definition ItemStatusConflict :: string where [simp]: "ItemStatusConflict = ''conflict''"
definition ItemStatusApplied :: string where [simp]: "ItemStatusApplied = ''applied''"
definition ItemStatusSkipped :: string where [simp]: "ItemStatusSkipped = ''skipped''"

definition rowTransitions :: "string \<rightharpoonup> (string \<rightharpoonup> bool)" where
  "rowTransitions =
     [RowStatusPending \<mapsto> [RowStatusParsed \<mapsto> True, RowStatusInvalid \<mapsto> True,
        RowStatusApplied \<mapsto> True, RowStatusSkipped \<mapsto> True],
      RowStatusParsed \<mapsto> [RowStatusInvalid \<mapsto> True, RowStatusApplied \<mapsto> True,
        RowStatusSkipped \<mapsto> True],
      RowStatusInvalid \<mapsto> [RowStatusParsed \<mapsto> True, RowStatusSkipped \<mapsto> True,
        RowStatusApplied \<mapsto> True],
      RowStatusApplied \<mapsto> Map.empty,
      RowStatusSkipped \<mapsto> Map.empty]"

definition itemTransitions :: "string \<rightharpoonup> (string \<rightharpoonup> bool)" where
  "itemTransitions =
     [ItemStatusPending \<mapsto> [ItemStatusValid \<mapsto> True, ItemStatusInvalid \<mapsto> True,
        ItemStatusDuplicate \<mapsto> True, ItemStatusConflict \<mapsto> True, ItemStatusSkipped \<mapsto> True,
        ItemStatusApplied \<mapsto> True],
      ItemStatusValid \<mapsto> [ItemStatusApplied \<mapsto> True, ItemStatusSkipped \<mapsto> True,
        ItemStatusInvalid \<mapsto> True],
      ItemStatusInvalid \<mapsto> [ItemStatusSkipped \<mapsto> True, ItemStatusValid \<mapsto> True],
      ItemStatusDuplicate \<mapsto> [ItemStatusApplied \<mapsto> True, ItemStatusSkipped \<mapsto> True],
      ItemStatusConflict \<mapsto> [ItemStatusApplied \<mapsto> True, ItemStatusSkipped \<mapsto> True,
        ItemStatusInvalid \<mapsto> True],
      ItemStatusApplied \<mapsto> Map.empty,
      ItemStatusSkipped \<mapsto> Map.empty]"

definition CanTransitionRow :: "string \<Rightarrow> string \<Rightarrow> bool" where
  "CanTransitionRow from_status to_status =
     (if from_status = to_status then True
      else case rowTransitions from_status of
        None \<Rightarrow> False
      | Some nxt \<Rightarrow> go_flag nxt to_status)"

definition CanTransitionItem :: "string \<Rightarrow> string \<Rightarrow> bool" where
  "CanTransitionItem from_status to_status =
     (if from_status = to_status then True
      else case itemTransitions from_status of
        None \<Rightarrow> False
      | Some nxt \<Rightarrow> go_flag nxt to_status)"

lemma CanTransitionRow_iff:
  "CanTransitionRow a b \<longleftrightarrow> a = b
     \<or> a = RowStatusPending \<and> b \<in> {RowStatusParsed, RowStatusInvalid, RowStatusApplied, RowStatusSkipped}
     \<or> a = RowStatusParsed \<and> b \<in> {RowStatusInvalid, RowStatusApplied, RowStatusSkipped}
     \<or> a = RowStatusInvalid \<and> b \<in> {RowStatusParsed, RowStatusApplied, RowStatusSkipped}"
  by (auto simp: CanTransitionRow_def rowTransitions_def go_flag_def split: if_splits option.splits)

lemma CanTransitionItem_iff:
  "CanTransitionItem a b \<longleftrightarrow> a = b
     \<or> a = ItemStatusPending \<and> b \<in> {ItemStatusValid, ItemStatusInvalid, ItemStatusDuplicate,
         ItemStatusConflict, ItemStatusSkipped, ItemStatusApplied}
     \<or> a = ItemStatusValid \<and> b \<in> {ItemStatusApplied, ItemStatusSkipped, ItemStatusInvalid}
     \<or> a = ItemStatusInvalid \<and> b \<in> {ItemStatusSkipped, ItemStatusValid}
     \<or> a = ItemStatusDuplicate \<and> b \<in> {ItemStatusApplied, ItemStatusSkipped}
     \<or> a = ItemStatusConflict \<and> b \<in> {ItemStatusApplied, ItemStatusSkipped, ItemStatusInvalid}"
  by (auto simp: CanTransitionItem_def itemTransitions_def go_flag_def
      split: if_splits option.splits)

interpretation row_machine: status_machine CanTransitionRow
  "[RowStatusPending, RowStatusParsed, RowStatusInvalid, RowStatusApplied, RowStatusSkipped]"
  "[RowStatusApplied, RowStatusSkipped]"
  by unfold_locales (auto simp: CanTransitionRow_iff)

interpretation item_machine: status_machine CanTransitionItem
  "[ItemStatusPending, ItemStatusValid, ItemStatusInvalid, ItemStatusDuplicate,
    ItemStatusConflict, ItemStatusApplied, ItemStatusSkipped]"
  "[ItemStatusApplied, ItemStatusSkipped]"
  by unfold_locales (auto simp: CanTransitionItem_iff)

end
