(* ===== verification/RequestService.thy ===== *)
theory RequestService
  imports RequestParser RequestState
begin

text \<open>
  The requests service (\<^verbatim>\<open>requests/service.go\<close>): creating a client request, staging the rows of
  its XLSX file, applying and skipping a staged row. \<open>ImportRows\<close> runs outside a transaction:
  what it wrote before an error stays. \<open>ApplyRow\<close> writes inside one: an error discards it.

  Successive clock readings are numbered in the order of the calls.
\<close>

datatype request_msg =
    RequestEmployerRequired | ReceivedDateRequired | RequestEmployerNotFound | ParseFailed parse_error

record CreateRequestInput =
  ci_EmployerID :: int
  ci_ReceivedDate :: string
  ci_Notes :: string
  ci_XLSXData :: string
  ci_XLSXFileName :: string

record ImportResult =
  ir_Request :: ClientRequest
  ir_Rows :: "RequestRow list"

record ApplyResult =
  ap_RequestRow :: RequestRow
  ap_Worker :: "Worker option"
  ap_WorkerEmployer :: "WorkerEmployer option"
  ap_TrainingRecord :: "TrainingRecord option"
  ap_Created :: bool
  ap_Duplicate :: bool
  ap_Invalid :: bool

subsection \<open>Helpers\<close>

definition joinFIO :: "string \<Rightarrow> string \<Rightarrow> string \<Rightarrow> string" where
  "joinFIO last_name first_name middle =
     Join ((if last_name \<noteq> '''' then [last_name] else []) @ (if first_name \<noteq> '''' then [first_name] else [])
           @ (if middle \<noteq> '''' then [middle] else [])) '' ''"

definition normalizeFromRow :: "env \<Rightarrow> RequestRow \<Rightarrow> (normalize_error, NormalizedRow) result" where
  "normalizeFromRow ctx row =
     NormalizeRow ctx
       \<lparr>p_RowNumber = rr_row_number row,
        p_RawFullName = joinFIO (str_of (rr_parsed_last_name row)) (str_of (rr_parsed_first_name row))
                          (str_of (rr_parsed_middle_name row)),
        p_RawSNILS = str_of (rr_parsed_snils row), p_RawEmail = str_of (rr_parsed_email row),
        p_RawPosition = str_of (rr_parsed_position row), p_RawPrograms = []\<rparr>"

definition programOrZero :: "(db_error, Program) result \<Rightarrow> int" where
  "programOrZero r = (case r of Inl _ \<Rightarrow> 0 | Inr p \<Rightarrow> pg_id p)"

text \<open>\<open>NormalizeError.Error\<close>, with the order in which Go ranges over the map.\<close>

definition normalize_error_text :: "(string list \<Rightarrow> string list) \<Rightarrow> normalize_error \<Rightarrow> string" where
  "normalize_error_text order flds =
     (if flds = [] then ''normalization failed''
      else ''normalization failed: '' @ Join (order (map fst flds)) '','')"

text \<open>\<open>strings.NewReplacer\<close> on one-byte patterns.\<close>

definition escape_char :: "char \<Rightarrow> string" where
  "escape_char c =
     (if byte c = 92 then [char_of (92::nat), char_of (92::nat)]
      else if byte c = 34 then [char_of (92::nat), char_of (34::nat)]
      else if byte c = 10 then [char_of (92::nat), CHR ''n'']
      else if byte c = 13 then [char_of (92::nat), CHR ''r'']
      else if byte c = 9 then [char_of (92::nat), CHR ''t'']
      else [c])"

definition escapeJSON :: "string \<Rightarrow> string" where
  "escapeJSON s = concat (map escape_char s)"

definition quoted :: "string \<Rightarrow> string" where
  "quoted s = [char_of (34::nat)] @ s @ [char_of (34::nat)]"

definition rawRowJSON :: "ParsedRow \<Rightarrow> string" where
  "rawRowJSON p =
     ''{'' @ quoted ''row_number'' @ '':'' @ show_int (p_RowNumber p)
     @ '','' @ quoted ''raw_full_name'' @ '':'' @ quoted (escapeJSON (p_RawFullName p))
     @ '','' @ quoted ''raw_snils'' @ '':'' @ quoted (escapeJSON (p_RawSNILS p))
     @ '','' @ quoted ''raw_email'' @ '':'' @ quoted (escapeJSON (p_RawEmail p))
     @ '','' @ quoted ''raw_position'' @ '':'' @ quoted (escapeJSON (p_RawPosition p))
     @ '','' @ quoted ''raw_programs'' @ '':['' @ Join (map (\<lambda>c. quoted (escapeJSON c)) (p_RawPrograms p)) '',''
     @ '']}''"

definition MimeXLSX :: string where
  "MimeXLSX = ''application/vnd.openxmlformats-officedocument.spreadsheetml.sheet''"

definition IsAcceptableUploadContentType :: "unicode \<Rightarrow> string \<Rightarrow> bool" where
  "IsAcceptableUploadContentType u raw =
     (let ct = ToLower u (TrimSpace raw) in
      if ct = '''' then False
      else if HasPrefix ct MimeXLSX then True
      else if HasPrefix ct ''application/octet-stream'' then True
      else if HasPrefix ct ''application/zip'' then True
      else False)"

text \<open>\<open>fmt.Errorf\<close> around an error of a callee.\<close>

fun wrap_error :: "string \<Rightarrow> 'm svc_error \<Rightarrow> 'm svc_error" where
  "wrap_error pre (Failed what e) = Failed (if what = '''' then pre else pre @ '': '' @ what) e"
| "wrap_error pre (Refused what args) = Refused (pre @ '': '' @ what) args"
| "wrap_error pre (Wrapped what m) = Wrapped (pre @ '': '' @ what) m"
| "wrap_error pre (FieldErrors errs) = FieldErrors errs"

subsection \<open>Staging\<close>

fun stage_items :: "string \<Rightarrow> int \<Rightarrow> string list \<Rightarrow> db \<Rightarrow> (request_msg, unit) svc_result" where
  "stage_items now rowID [] d = (Inr (), d)"
| "stage_items now rowID (code # codes) d =
     (let found = q_GetProgramByCode d code in
      case found of
        Inl (ConstraintFailed v) \<Rightarrow> (Inl (Failed ''get program by code'' (ConstraintFailed v)), d)
      | _ \<Rightarrow>
        (case q_CreateRequestTrainingItem d rowID (programOrZero found)
                (if is_ok found then ItemStatusValid else ItemStatusInvalid)
                (if is_ok found then None else Some (''unknown program code: '' @ code))
                None None now now of
           Inl e \<Rightarrow> (Inl (Failed ''create training item'' e), d)
         | Inr (_, d') \<Rightarrow> stage_items now rowID codes d'))"

definition stageRow :: "env \<Rightarrow> nat \<Rightarrow> int \<Rightarrow> ParsedRow \<Rightarrow> db \<Rightarrow> (request_msg, RequestRow) svc_result" where
  "stageRow ctx k requestID p d =
     (let now = e_clock ctx k;
          norm = NormalizeRow ctx p;
          field = (\<lambda>f. case norm of Inl _ \<Rightarrow> None | Inr n \<Rightarrow> nullableString (f n));
          status = (case norm of Inl _ \<Rightarrow> RowStatusInvalid | Inr _ \<Rightarrow> RowStatusParsed);
          errSummary = (case norm of Inl e \<Rightarrow> Some (normalize_error_text (e_map_order ctx k) e)
                                   | Inr _ \<Rightarrow> None)
      in case q_CreateRequestRow d requestID (p_RowNumber p) (rawRowJSON p)
                (nullableString (p_RawFullName p)) (field n_LastName) (field n_FirstName)
                (field n_MiddleName) (field n_SNILSDigits) (field n_Email) (field n_Position)
                status errSummary now now of
           Inl e \<Rightarrow> (Inl (Failed '''' e), d)
         | Inr (row, d') \<Rightarrow>
             (case norm of
                Inl _ \<Rightarrow> (Inr row, d')
              | Inr _ \<Rightarrow>
                  (case stage_items now (rr_id row) (p_RawPrograms p) d' of
                     (Inl e, d'') \<Rightarrow> (Inl e, d'')
                   | (Inr _, d'') \<Rightarrow> (Inr row, d''))))"

text \<open>The two loops of \<open>ImportRows\<close>.\<close>

fun copy_import_rows :: "string \<Rightarrow> int \<Rightarrow> ParsedRow list \<Rightarrow> db \<Rightarrow> (request_msg, unit) svc_result" where
  "copy_import_rows now importID [] d = (Inr (), d)"
| "copy_import_rows now importID (p # ps) d =
     (case q_CreateImportRow d importID request_sheet (p_RowNumber p) (rawRowJSON p) now of
        Inl e \<Rightarrow> (Inl (Failed ''create import_row'' e), d)
      | Inr (_, d') \<Rightarrow> copy_import_rows now importID ps d')"

fun stage_rows ::
  "env \<Rightarrow> nat \<Rightarrow> int \<Rightarrow> ParsedRow list \<Rightarrow> db \<Rightarrow> (request_msg, RequestRow list) svc_result" where
  "stage_rows ctx k requestID [] d = (Inr [], d)"
| "stage_rows ctx k requestID (p # ps) d =
     (case stageRow ctx k requestID p d of
        (Inl e, d') \<Rightarrow> (Inl (wrap_error (''stage row '' @ show_int (p_RowNumber p)) e), d')
      | (Inr row, d') \<Rightarrow>
          (case stage_rows ctx (k + 1) requestID ps d' of
             (Inl e, d'') \<Rightarrow> (Inl e, d'')
           | (Inr rows, d'') \<Rightarrow> (Inr (row # rows), d'')))"

definition zero_ClientRequest :: ClientRequest where
  "zero_ClientRequest = \<lparr>cr_id = 0, cr_employer_id = 0, cr_received_date = '''', cr_source_type = '''',
     cr_source_import_id = None, cr_status = '''', cr_notes = None, cr_created_at = '''',
     cr_updated_at = ''''\<rparr>"

definition mustGetClientRequest :: "db \<Rightarrow> int \<Rightarrow> ClientRequest" where
  "mustGetClientRequest d i =
     (case q_GetClientRequest d i of Inl _ \<Rightarrow> zero_ClientRequest | Inr r \<Rightarrow> r)"

definition requests_ImportRows ::
  "env \<Rightarrow> nat \<Rightarrow> int \<Rightarrow> string \<Rightarrow> string \<Rightarrow> db \<Rightarrow> (request_msg, ImportResult) svc_result" where
  "requests_ImportRows ctx k requestID xlsxData fileName d =
     (case ParseXLSX ctx xlsxData of
        Inl e \<Rightarrow> (Inl (Wrapped ''parse xlsx'' (ParseFailed e)), d)
      | Inr parsed \<Rightarrow>
        (let hashHex = e_sha256 ctx xlsxData; now = e_clock ctx k in
         case q_CreateImport d ''client_request'' (nullableString fileName) (nullableString hashHex)
                (Some (int (length xlsxData))) None ''operator'' now ''completed'' None None None
                now now of
           Inl e \<Rightarrow> (Inl (Failed ''create import'' e), d)
         | Inr (imp, d1) \<Rightarrow>
           (case q_SetClientRequestSourceImport d1 (Some (im_id imp)) now requestID of
              Inl e \<Rightarrow> (Inl (Failed ''set source_import'' e), d1)
            | Inr (_, d2) \<Rightarrow>
              (case copy_import_rows now (im_id imp) parsed d2 of
                 (Inl e, d3) \<Rightarrow> (Inl e, d3)
               | (Inr _, d3) \<Rightarrow>
                 (let d4 = recordAudit ctx k (entry ''import'' ''client_request'' requestID
                             [(''import_id'', JInt (im_id imp)),
                              (''row_count'', JInt (int (length parsed))),
                              (''sha256'', JStr hashHex)]) d3
                  in case stage_rows ctx (k + 1) requestID parsed d4 of
                       (Inl e, d5) \<Rightarrow> (Inl e, d5)
                     | (Inr rows, d5) \<Rightarrow>
                         (Inr \<lparr>ir_Request = mustGetClientRequest d5 requestID, ir_Rows = rows\<rparr>,
                          d5))))))"

definition requests_CreateRequest ::
  "env \<Rightarrow> CreateRequestInput \<Rightarrow> db \<Rightarrow> (request_msg, ClientRequest) svc_result" where
  "requests_CreateRequest ctx inp d =
     (if ci_EmployerID inp \<le> 0
      then (Inl (FieldErrors [(''employer_id'', RequestEmployerRequired)]), d)
      else if TrimSpace (ci_ReceivedDate inp) = ''''
      then (Inl (FieldErrors [(''received_date'', ReceivedDateRequired)]), d)
      else case q_GetEmployerByID d (ci_EmployerID inp) of
        Inl ErrNoRows \<Rightarrow> (Inl (FieldErrors [(''employer_id'', RequestEmployerNotFound)]), d)
      | Inl e \<Rightarrow> (Inl (Failed ''get employer'' e), d)
      | Inr _ \<Rightarrow>
        (case q_CreateClientRequest d (ci_EmployerID inp) (TrimSpace (ci_ReceivedDate inp)) ''xlsx''
                None ''review'' (nullableString (TrimSpace (ci_Notes inp)))
                (e_clock ctx 0) (e_clock ctx 0) of
           Inl e \<Rightarrow> (Inl (Failed ''create client_request'' e), d)
         | Inr (req, d1) \<Rightarrow>
           (let d2 = recordAudit ctx 0 (entry ''create'' ''client_request'' (cr_id req)
                       [(''employer_id'', JInt (cr_employer_id req)),
                        (''received_date'', JStr (cr_received_date req))]) d1
            in if ci_XLSXData inp = '''' then (Inr req, d2)
               else case requests_ImportRows ctx 1 (cr_id req) (ci_XLSXData inp)
                           (ci_XLSXFileName inp) d2 of
                 (Inl e, d3) \<Rightarrow> (Inl e, d3)
               | (Inr _, d3) \<Rightarrow> (Inr req, d3))))"

subsection \<open>Applying and skipping a row\<close>

definition find_or_create_worker ::
  "env \<Rightarrow> RequestRow \<Rightarrow> db \<Rightarrow> (request_msg svc_error, Worker \<times> bool \<times> db) result" where
  "find_or_create_worker ctx row d =
     (let snils = str_of (rr_parsed_snils row) in
      case q_GetWorkerByNormalizedSNILS d snils of
        Inl ErrNoRows \<Rightarrow>
          (case q_CreateWorker d (str_of (rr_parsed_last_name row)) (str_of (rr_parsed_first_name row))
                  (rr_parsed_middle_name row) snils snils (str_of (rr_parsed_email row)) None
                  (e_clock ctx 0) (e_clock ctx 0) of
             Inl e \<Rightarrow> Inl (Failed ''create worker'' e)
           | Inr (worker, d') \<Rightarrow> Inr (worker, True, d'))
      | Inl e \<Rightarrow> Inl (Failed ''get worker by snils'' e)
      | Inr worker \<Rightarrow> Inr (worker, False, d))"

text \<open>The position of an assignment created from a row without one is a dash.\<close>

definition find_or_create_assignment ::
  "env \<Rightarrow> RequestRow \<Rightarrow> int \<Rightarrow> int \<Rightarrow> db \<Rightarrow> (request_msg svc_error, WorkerEmployer \<times> bool \<times> db) result" where
  "find_or_create_assignment ctx row workerID employerID d =
     (case q_FindActiveWorkerEmployer d workerID employerID of
        Inl ErrNoRows \<Rightarrow>
          (let position = str_of (rr_parsed_position row);
               position = (if position = '''' then bytes [226, 128, 148] else position)
           in case q_CreateWorkerEmployer d workerID employerID position
                     (e_clock ctx 1) (e_clock ctx 1) of
                Inl e \<Rightarrow> Inl (Failed ''create worker_employer'' e)
              | Inr (assignment, d') \<Rightarrow> Inr (assignment, True, d'))
      | Inl e \<Rightarrow> Inl (Failed ''find worker_employer'' e)
      | Inr assignment \<Rightarrow> Inr (assignment, False, d))"

text \<open>
  The walk over the items. The accumulator holds \<open>anyCreated\<close>, \<open>anyDuplicate\<close> and
  \<open>lastTraining\<close> (\<open>None\<close> for the zero record).
\<close>

fun apply_items ::
  "env \<Rightarrow> nat \<Rightarrow> WorkerEmployer \<Rightarrow> ClientRequest \<Rightarrow> RequestTrainingItem list
   \<Rightarrow> bool \<times> bool \<times> TrainingRecord option \<Rightarrow> db
   \<Rightarrow> (request_msg svc_error, (bool \<times> bool \<times> TrainingRecord option) \<times> db) result" where
  "apply_items ctx k assignment clientReq [] acc d = Inr (acc, d)"
| "apply_items ctx k assignment clientReq (item # items) acc d =
     (case acc of (anyCreated, anyDuplicate, lastTraining) \<Rightarrow>
      if ri_program_id item = 0 then apply_items ctx (k + 1) assignment clientReq items acc d
      else case q_FindActiveTrainingRecord d (we_id assignment) (ri_program_id item) of
        Inr existing \<Rightarrow>
          (case q_UpdateRequestTrainingItemStatus d ItemStatusDuplicate
                  (Some ''training_record already active'') None (Some (tr_id existing))
                  (e_clock ctx k) (ri_id item) of
             Inl e \<Rightarrow> Inl (Failed ''mark item duplicate'' e)
           | Inr (_, d') \<Rightarrow>
               apply_items ctx (k + 1) assignment clientReq items (anyCreated, True, lastTraining) d')
      | Inl (ConstraintFailed v) \<Rightarrow>
          Inl (Failed ''find active training_record'' (ConstraintFailed v))
      | Inl ErrNoRows \<Rightarrow>
          (case q_GetProgram d (ri_program_id item) of
             Inl e \<Rightarrow> Inl (Failed ''get program'' e)
           | Inr program \<Rightarrow>
             (case q_CreateTrainingRecord d (we_id assignment) (ri_program_id item)
                     (Some (cr_id clientReq)) (we_current_position assignment)
                     (pg_default_hours program) 0 ''not_required'' ''active''
                     (e_clock ctx k) (e_clock ctx k) of
                Inl e \<Rightarrow> Inl (Failed ''create training_record'' e)
              | Inr (tr, d') \<Rightarrow>
                (case q_UpdateRequestTrainingItemStatus d' ItemStatusApplied None None
                        (Some (tr_id tr)) (e_clock ctx k) (ri_id item) of
                   Inl e \<Rightarrow> Inl (Failed ''mark item applied'' e)
                 | Inr (_, d'') \<Rightarrow>
                     apply_items ctx (k + 1) assignment clientReq items
                       (True, anyDuplicate, Some tr) d''))))"

text \<open>The body of the transaction.\<close>

definition apply_tx ::
  "env \<Rightarrow> RequestRow \<Rightarrow> ClientRequest \<Rightarrow> RequestTrainingItem list \<Rightarrow> db
   \<Rightarrow> (request_msg svc_error, ApplyResult \<times> db) result" where
  "apply_tx ctx row clientReq items d =
     (case find_or_create_worker ctx row d of
        Inl e \<Rightarrow> Inl e
      | Inr (worker, workerCreated, d1) \<Rightarrow>
        (case find_or_create_assignment ctx row (wk_id worker) (cr_employer_id clientReq) d1 of
           Inl e \<Rightarrow> Inl e
         | Inr (assignment, assignmentCreated, d2) \<Rightarrow>
           (case apply_items ctx 2 assignment clientReq items (False, False, None) d2 of
              Inl e \<Rightarrow> Inl e
            | Inr ((anyCreated, anyDuplicate, lastTraining), d3) \<Rightarrow>
              (case q_UpdateRequestRowStatus d3 RowStatusApplied None
                      (e_clock ctx (2 + length items)) (rr_id row) of
                 Inl e \<Rightarrow> Inl (Failed ''mark row applied'' e)
               | Inr (rowUpdated, d4) \<Rightarrow>
                   Inr (\<lparr>ap_RequestRow = rowUpdated, ap_Worker = Some worker,
                         ap_WorkerEmployer = Some assignment, ap_TrainingRecord = lastTraining,
                         ap_Created = (workerCreated \<or> assignmentCreated \<or> anyCreated),
                         ap_Duplicate = anyDuplicate, ap_Invalid = False\<rparr>, d4)))))"

text \<open>The audit entries after the commit.\<close>

definition apply_audit ::
  "env \<Rightarrow> RequestRow \<Rightarrow> Worker \<Rightarrow> WorkerEmployer \<Rightarrow> TrainingRecord option \<Rightarrow> bool \<Rightarrow> ClientRequest
   \<Rightarrow> db \<Rightarrow> db" where
  "apply_audit ctx row worker assignment training duplicate clientReq d =
     (let d1 = recordAudit ctx 0 (entry ''apply'' ''request_row'' (rr_id row)
                 [(''worker_id'', JInt (wk_id worker)),
                  (''worker_employer_id'', JInt (we_id assignment)),
                  (''duplicate'', JBool duplicate),
                  (''client_request_id'', JInt (cr_id clientReq))]) d;
          d2 = recordAudit ctx 1 (entry_by ''import'' ''create'' ''worker'' (wk_id worker)
                 [(''snils_normalized'', JStr (wk_snils_normalized worker)),
                  (''source'', JStr ''request_apply'')]) d1;
          d3 = recordAudit ctx 2 (entry_by ''import'' ''create'' ''worker_employer''
                 (we_id assignment) [(''worker_id'', JInt (we_worker_id assignment)),
                                     (''employer_id'', JInt (we_employer_id assignment))]) d2;
          d4 = (case training of
                  None \<Rightarrow> d3
                | Some tr \<Rightarrow>
                    if tr_id tr \<noteq> 0
                    then recordAudit ctx 3 (entry_by ''import'' ''create'' ''training_record'' (tr_id tr)
                           [(''worker_employer_id'', JInt (tr_worker_employer_id tr)),
                            (''program_id'', JInt (tr_program_id tr))]) d3
                    else d3)
      in if duplicate
         then recordAudit ctx 4 (entry ''reject'' ''request_row'' (rr_id row)
                [(''reason'', JStr ''duplicate active training_record'')]) d4
         else d4)"

definition requests_ApplyRow :: "env \<Rightarrow> int \<Rightarrow> db \<Rightarrow> (request_msg, ApplyResult) svc_result" where
  "requests_ApplyRow ctx requestRowID d =
     (if \<not> e_has_db ctx then (Inl (Refused ''requests.Service: db handle not configured'' []), d)
      else case q_GetRequestRow d requestRowID of
        Inl e \<Rightarrow> (Inl (Failed ''get request_row'' e), d)
      | Inr row \<Rightarrow>
        if \<not> CanTransitionRow (rr_status row) RowStatusApplied
        then (Inl (Refused ''cannot apply row in status'' [rr_status row]), d)
        else case normalizeFromRow ctx row of
          Inl err \<Rightarrow>
            (let d1 = recordAudit ctx 0 (entry ''reject'' ''request_row'' (rr_id row)
                        [(''reason'', JStr (normalize_error_text (e_map_order ctx 0) err))]) d
             in case q_UpdateRequestRowStatus d1 RowStatusInvalid
                       (Some (normalize_error_text (e_map_order ctx 1) err)) (e_clock ctx 0)
                       (rr_id row) of
                  Inl e \<Rightarrow> (Inl (Failed ''mark invalid'' e), d1)
                | Inr (invalid, d2) \<Rightarrow>
                    (Inr \<lparr>ap_RequestRow = invalid, ap_Worker = None, ap_WorkerEmployer = None,
                          ap_TrainingRecord = None, ap_Created = False, ap_Duplicate = False,
                          ap_Invalid = True\<rparr>, d2))
        | Inr _ \<Rightarrow>
            (case q_GetClientRequest d (rr_client_request_id row) of
               Inl e \<Rightarrow> (Inl (Failed ''get client_request'' e), d)
             | Inr clientReq \<Rightarrow>
               (case apply_tx ctx row clientReq (q_ListRequestTrainingItems d (rr_id row)) d of
                  Inl e \<Rightarrow> (Inl e, d)
                | Inr (result, d1) \<Rightarrow>
                    (Inr result,
                     case (ap_Worker result, ap_WorkerEmployer result) of
                       (Some worker, Some assignment) \<Rightarrow>
                         apply_audit ctx (ap_RequestRow result) worker assignment
                           (ap_TrainingRecord result) (ap_Duplicate result) clientReq d1
                     | _ \<Rightarrow> d1))))"

definition requests_SkipRow :: "env \<Rightarrow> int \<Rightarrow> db \<Rightarrow> (request_msg, RequestRow) svc_result" where
  "requests_SkipRow ctx requestRowID d =
     (case q_GetRequestRow d requestRowID of
        Inl e \<Rightarrow> (Inl (Failed ''get request_row'' e), d)
      | Inr row \<Rightarrow>
        if \<not> CanTransitionRow (rr_status row) RowStatusSkipped
        then (Inl (Refused ''cannot skip row in status'' [rr_status row]), d)
        else case q_UpdateRequestRowStatus d RowStatusSkipped None (e_clock ctx 0) (rr_id row) of
          Inl e \<Rightarrow> (Inl (Failed ''update row status'' e), d)
        | Inr (updated, d') \<Rightarrow>
            (Inr updated, recordAudit ctx 0 (entry ''skip'' ''request_row'' (rr_id updated) []) d'))"

definition requests_ListRequests :: "db \<Rightarrow> string \<Rightarrow> ClientRequest list" where
  "requests_ListRequests d status =
     (if status = '''' then q_ListClientRequests d else q_ListClientRequestsByStatus d status)"

definition requests_GetRequest :: "db \<Rightarrow> int \<Rightarrow> (db_error, ClientRequest) result" where
  "requests_GetRequest d i = q_GetClientRequest d i"

definition requests_ListRows :: "db \<Rightarrow> int \<Rightarrow> RequestRow list" where
  "requests_ListRows d requestID = q_ListRequestRows d requestID"

end
