(* ===== verification/TextLaws.thy ===== *)
theory TextLaws
  imports GoText
begin

text \<open>
  Reading back what was joined: the fields of space-separated fields are those fields, and
  what \<open>TrimSpace\<close>, \<open>ToLower\<close> and the digit filter do on ASCII text.
\<close>

subsection \<open>Fields separated by one space\<close>

lemma space_encodings_cases:
  assumes "p \<in> set space_encodings"
  obtains b where "b \<in> {9, 10, 11, 12, 13, 32::nat}" "p = [char_of b]"
  | "2 \<le> length p" "\<forall>c \<in> set p. 128 \<le> byte c"
proof -
  from assms obtain ns where ns: "p = bytes ns"
    "(\<exists>b \<in> {9, 10, 11, 12, 13, 32}. ns = [b])
     \<or> 2 \<le> length ns \<and> list_all (\<lambda>n. 128 \<le> n \<and> n < 256) ns"
    unfolding space_encodings_def by auto
  then show ?thesis
  proof (elim disjE bexE conjE)
    fix b
    assume "b \<in> {9, 10, 11, 12, 13, 32}" "ns = [b]"
    then show ?thesis using that(1) [of b] ns(1) by (simp add: bytes_def)
  next
    assume "2 \<le> length ns" "list_all (\<lambda>n. 128 \<le> n \<and> n < 256) ns"
    then show ?thesis using that(2) ns(1) by (auto simp: bytes_def list_all_iff)
  qed
qed

lemma ascii_space_encodings:
  "b \<in> {9, 10, 11, 12, 13, 32} \<Longrightarrow> [char_of (b::nat)] \<in> set space_encodings"
  unfolding space_encodings_def bytes_def by auto

lemma byte_space [simp]: "byte CHR '' '' = 32"
  by (simp add: byte_def)

lemma space_encodings_space:
  assumes "p \<in> set space_encodings"
  shows "CHR '' '' \<notin> set (tl p)" "2 \<le> length p \<Longrightarrow> CHR '' '' \<notin> set p"
  by (rule space_encodings_cases [OF assms]; use list.set_sel(2) [of p] in force)+

definition ascii_space :: "char \<Rightarrow> bool" where
  "ascii_space c = (byte c \<in> {9, 10, 11, 12, 13, 32})"

lemma ascii_space_char: "ascii_space c \<longleftrightarrow> [c] \<in> set space_encodings"
proof
  assume "ascii_space c"
  then show "[c] \<in> set space_encodings"
    using ascii_space_encodings [of "byte c"] by (simp add: ascii_space_def)
next
  assume "[c] \<in> set space_encodings"
  then show "ascii_space c"
    by (rule space_encodings_cases) (auto simp: ascii_space_def)
qed

lemma ascii_starts_space:
  assumes "byte c < 128"
  shows "starts_space (c # s) \<longleftrightarrow> ascii_space c"
proof
  assume "starts_space (c # s)"
  then obtain p where p: "p \<in> set space_encodings" "HasPrefix (c # s) p"
    by (auto simp: starts_space_def)
  from p(1) show "ascii_space c"
    by (rule space_encodings_cases) (use p(2) assms in \<open>auto simp: HasPrefix_iff ascii_space_def Cons_eq_append_conv\<close>)
next
  assume "ascii_space c"
  then show "starts_space (c # s)"
    unfolding ascii_space_char starts_space_def by (intro bexI [of _ "[c]"]) (simp_all add: HasPrefix_def)
qed

lemma ascii_ends_space:
  assumes "byte c < 128"
  shows "ends_space (s @ [c]) \<longleftrightarrow> ascii_space c"
proof
  assume "ends_space (s @ [c])"
  then obtain p r where p: "p \<in> set space_encodings" "c # rev s = rev p @ r"
    by (auto simp: ends_space_def HasPrefix_iff)
  from p(1) show "ascii_space c"
  proof (rule space_encodings_cases)
    assume "2 \<le> length p" "\<forall>c \<in> set p. 128 \<le> byte c"
    moreover have "p \<noteq> [] \<Longrightarrow> c \<in> set (rev p)" using p(2) by (cases "rev p") auto
    ultimately show ?thesis using assms by force
  qed (use p(2) in \<open>auto simp: ascii_space_def\<close>)
next
  assume "ascii_space c"
  then show "ends_space (s @ [c])"
    unfolding ascii_space_char ends_space_def by (intro bexI [of _ "[c]"]) (simp_all add: HasPrefix_def)
qed

lemma not_starts_space_append:
  assumes "space_free a" "a \<noteq> []"
  shows "\<not> starts_space (a @ CHR '' '' # r)"
proof
  assume "starts_space (a @ CHR '' '' # r)"
  then obtain p where p: "p \<in> set space_encodings" "HasPrefix (a @ CHR '' '' # r) p"
    by (auto simp: starts_space_def)
  show False
  proof (cases "length p \<le> length a")
    case True
    with p have "HasPrefix a p" by (simp add: HasPrefix_def)
    with p(1) assms(1) show False by (auto simp: space_free_def starts_space_def)
  next
    case False
    then obtain k where k: "length p - length a = Suc k" by (metis Suc_diff_Suc not_le)
    with p(2) have "p = a @ take (Suc k) (CHR '' '' # r)" by (simp add: HasPrefix_def)
    then have "CHR '' '' \<in> set (tl p)" using assms(2) by (cases a) auto
    with p(1) show False using space_encodings_space(1) by blast
  qed
qed

lemma split_field_space:
  "space_free a \<Longrightarrow> split_field (a @ CHR '' '' # r) = (a, CHR '' '' # r)"
proof (induction a)
  case Nil
  then show ?case using ascii_starts_space [of "CHR '' ''" r] by (simp add: ascii_space_def)
next
  case (Cons c a)
  then show ?case using not_starts_space_append [of "c # a" r] by (simp add: space_free_Cons)
qed

lemma split_field_free: "space_free a \<Longrightarrow> split_field a = (a, [])"
  by (induction a) (simp_all add: space_free_Cons)

lemma strip_space: "strip_left space_encodings (CHR '' '' # r) = strip_left space_encodings r"
proof -
  have "starts_space (CHR '' '' # r)" by (simp add: ascii_starts_space ascii_space_def)
  then obtain p where p: "find (HasPrefix (CHR '' '' # r)) space_encodings = Some p"
    by (auto simp: starts_space_iff space_len_def split: option.splits)
  then have "p \<in> set space_encodings" "HasPrefix (CHR '' '' # r) p"
    by (auto dest: find_Some_iff_first)
  then have "length p = 1"
    by (auto simp: HasPrefix_iff Cons_eq_append_conv elim!: space_encodings_cases)
  then have "space_len space_encodings (CHR '' '' # r) = 1" by (simp add: space_len_def p)
  then show ?thesis by (simp add: strip_left.simps [of _ "CHR '' '' # r"])
qed

lemma Fields_space: "Fields (CHR '' '' # r) = Fields r"
  by (simp add: Fields.simps [of r] Fields.simps [of "CHR '' '' # r"] strip_space)

lemma Fields_field:
  assumes "space_free a" "a \<noteq> []"
  shows "Fields (a @ CHR '' '' # r) = a # Fields r" "Fields a = [a]"
proof -
  have "strip_left space_encodings (a @ CHR '' '' # r) = a @ CHR '' '' # r"
    using not_starts_space_append [OF assms] by (simp add: starts_space_iff strip_left_id)
  then show "Fields (a @ CHR '' '' # r) = a # Fields r"
    by (simp add: Fields.simps [of "a @ CHR '' '' # r"] split_field_space [OF assms(1)] Fields_space)
  have "\<not> starts_space a" using assms(1) by (metis append_Nil space_free_def)
  then have "strip_left space_encodings a = a" by (simp add: starts_space_iff strip_left_id)
  moreover have "Fields [] = []" by (subst Fields.simps) (simp add: strip_left_id)
  ultimately show "Fields a = [a]"
    using assms(2) by (simp add: Fields.simps [of a] split_field_free [OF assms(1)])
qed

definition words :: "string list \<Rightarrow> bool" where
  "words fs = (\<forall>f \<in> set fs. f \<noteq> [] \<and> space_free f)"

lemma words_simps [simp]:
  "words []" "words (f # fs) \<longleftrightarrow> f \<noteq> [] \<and> space_free f \<and> words fs"
  by (auto simp: words_def)

lemma words_Fields: "words (Fields s)"
  using Fields_parts by (simp add: words_def)

lemma Fields_Join: "words fs \<Longrightarrow> Fields (Join fs '' '') = fs"
proof (induction fs "'' ''" rule: Join.induct)
  case 1
  show ?case by (subst Join.simps, subst Fields.simps) (simp add: strip_left_id)
qed (simp_all add: Fields_field)

lemma ends_space_field:
  assumes "space_free f" "f \<noteq> []"
  shows "\<not> ends_space (x @ CHR '' '' # f)" "\<not> ends_space f"
proof -
  have free: "\<not> HasPrefix (rev f) (rev p)" if "p \<in> set space_encodings" for p
  proof
    assume "HasPrefix (rev f) (rev p)"
    then obtain a where "f = a @ p" by (metis HasPrefix_iff rev_append rev_rev_ident)
    moreover have "starts_space p"
      using that by (auto simp: starts_space_def HasPrefix_def intro!: bexI [of _ p])
    ultimately show False using assms(1) by (auto simp: space_free_def)
  qed
  then show "\<not> ends_space f" by (auto simp: ends_space_def)
  show "\<not> ends_space (x @ CHR '' '' # f)"
  proof
    assume "ends_space (x @ CHR '' '' # f)"
    then obtain p where p: "p \<in> set space_encodings"
      "HasPrefix (rev f @ CHR '' '' # rev x) (rev p)" by (auto simp: ends_space_def)
    show False
    proof (cases "length p \<le> length f")
      case True
      with p(2) have "HasPrefix (rev f) (rev p)" by (simp add: HasPrefix_def)
      with free p(1) show False by blast
    next
      case False
      then obtain k where k: "length p - length f = Suc k" by (metis Suc_diff_Suc not_le)
      with p(2) have "rev p = rev f @ take (Suc k) (CHR '' '' # rev x)" by (simp add: HasPrefix_def)
      then have "CHR '' '' \<in> set (rev p)" by simp
      moreover have "2 \<le> length p" using False assms(2) by (cases f) auto
      ultimately show False using space_encodings_space(2) p(1) by auto
    qed
  qed
qed

lemma Join_last:
  "fs \<noteq> [] \<Longrightarrow> words fs \<Longrightarrow> \<exists>f x. f \<noteq> [] \<and> space_free f
     \<and> (Join fs '' '' = f \<or> Join fs '' '' = x @ CHR '' '' # f)"
proof (induction fs "'' ''" rule: Join.induct)
  case (3 x y xs)
  then obtain f z where f: "f \<noteq> []" "space_free f"
    "Join (y # xs) '' '' = f \<or> Join (y # xs) '' '' = z @ CHR '' '' # f" by auto
  then have "Join (x # y # xs) '' '' = x @ CHR '' '' # f
    \<or> Join (x # y # xs) '' '' = (x @ CHR '' '' # z) @ CHR '' '' # f" by auto
  with f(1,2) show ?case by blast
qed auto

lemma TrimSpace_Join:
  assumes "words fs"
  shows "TrimSpace (Join fs '' '') = Join fs '' ''"
proof (cases fs)
  case (Cons f gs)
  with assms have f: "f \<noteq> []" "space_free f" by auto
  have "\<not> starts_space f" using f(2) by (metis append_Nil space_free_def)
  then have "\<not> starts_space (Join fs '' '')"
    using not_starts_space_append [OF f(2,1)] Cons by (cases gs) auto
  moreover have "\<not> ends_space (Join fs '' '')"
    using Join_last [of fs] ends_space_field assms Cons by auto
  ultimately show ?thesis by (rule TrimSpace_id)
qed simp

lemma Join_Nil_iff: "words fs \<Longrightarrow> Join fs '' '' = [] \<longleftrightarrow> fs = []"
  by (cases fs; cases "tl fs") auto

subsection \<open>ASCII text\<close>

lemma ascii_TrimSpace_id:
  assumes "is_ascii s"
  shows "TrimSpace s = s \<longleftrightarrow> s = [] \<or> \<not> ascii_space (hd s) \<and> \<not> ascii_space (last s)"
proof (cases "s = []")
  case False
  then have "starts_space s \<longleftrightarrow> ascii_space (hd s)" "ends_space s \<longleftrightarrow> ascii_space (last s)"
    using assms ascii_starts_space [of "hd s" "tl s"] ascii_ends_space [of "last s" "butlast s"]
    by (auto simp: is_ascii_def list_all_iff)
  then show ?thesis using TrimSpace_id [of s] TrimSpace_clean [of s] False by metis
qed simp

lemma is_ascii_TrimSpace: "is_ascii s \<Longrightarrow> is_ascii (TrimSpace s)"
  using TrimSpace_set [of s] by (auto simp: is_ascii_def list_all_iff)

lemma ascii_lower_props:
  "byte c < 128 \<Longrightarrow> byte (ascii_lower c) < 128"
  "byte c < 128 \<Longrightarrow> ascii_space (ascii_lower c) \<longleftrightarrow> ascii_space c"
  "ascii_lower (ascii_lower c) = ascii_lower c"
  by (auto simp: ascii_lower_def ascii_space_def)

lemma ToLower_ascii:
  assumes "is_ascii s"
  shows "ToLower u s = map ascii_lower s" "is_ascii (ToLower u s)"
    "ToLower u (ToLower u s) = ToLower u s"
    "TrimSpace s = s \<Longrightarrow> TrimSpace (ToLower u s) = ToLower u s"
proof -
  show eq: "ToLower u s = map ascii_lower s" using assms by (simp add: ToLower_def)
  show a: "is_ascii (ToLower u s)"
    using assms by (auto simp: eq is_ascii_def list_all_iff ascii_lower_props)
  show "ToLower u (ToLower u s) = ToLower u s"
    using a by (simp add: eq ToLower_def [of u "map ascii_lower s"] ascii_lower_props)
  show "TrimSpace (ToLower u s) = ToLower u s" if "TrimSpace s = s"
    using that assms ascii_TrimSpace_id [OF assms] ascii_TrimSpace_id [OF a]
    by (cases "s = []") (auto simp: eq ToLower_def hd_map last_map ascii_lower_props is_ascii_def list_all_iff)
qed

lemma digit_not_space: "is_ascii_digit c \<Longrightarrow> \<not> ascii_space c" "is_ascii_digit c \<Longrightarrow> byte c < 128"
  by (auto simp: is_ascii_digit_def ascii_space_def)

lemma digits_TrimSpace:
  assumes "list_all is_ascii_digit s"
  shows "is_ascii s" "TrimSpace s = s" "digit_runes u s = s"
proof -
  show a: "is_ascii s" using assms digit_not_space by (auto simp: is_ascii_def list_all_iff)
  then show "TrimSpace s = s"
    using assms digit_not_space ascii_TrimSpace_id [OF a] by (cases s) (auto simp: list_all_iff)
  show "digit_runes u s = s"
    using assms by (simp add: digit_runes_ascii [OF a] list_all_iff)
qed

end
