(* ===== verification/NormalizerLaws.thy ===== *)
theory NormalizerLaws
  imports Normalizer TextLaws
begin

text \<open>
  What the normalizers return and that they are stable: normalizing a normalized value again
  gives the same value.
\<close>

lemma NormalizeFullName_Inr:
  assumes "NormalizeFullName raw = Inr (l, f, m)"
  obtains rest where "Fields (TrimSpace raw) = l # f # rest" "m = Join rest '' ''"
    "words (l # f # rest)"
  using assms words_Fields [of "TrimSpace raw"] that
  by (auto simp: NormalizeFullName_def Let_def split: if_splits list.splits)

lemma NormalizeFullName_words:
  assumes "words (l # f # rest)"
  shows "NormalizeFullName (Join (l # f # rest) '' '') = Inr (l, f, Join rest '' '')"
  using assms TrimSpace_Join [OF assms] Fields_Join [OF assms] Join_Nil_iff [OF assms]
  by (simp add: NormalizeFullName_def)

lemma NormalizeSNILS_Inr:
  "NormalizeSNILS u raw = Inr (fm, ds) \<longleftrightarrow>
     ds = digits u (TrimSpace raw) \<and> length ds = 11 \<and> TrimSpace raw \<noteq> ''''
     \<and> fm = take 3 ds @ ''-'' @ take 3 (drop 3 ds) @ ''-'' @ take 3 (drop 6 ds) @ '' '' @ drop 9 ds"
  by (auto simp: NormalizeSNILS_def Let_def byte_slice_def split: if_splits)

lemma slices_of_11:
  "length ds = 11 \<Longrightarrow> take 3 ds @ take 3 (drop 3 ds) @ take 3 (drop 6 ds) @ drop 9 ds = ds"
proof -
  have "ds = take 3 ds @ take 3 (drop 3 ds) @ take 3 (drop 3 (drop 3 ds)) @ drop 3 (drop 3 (drop 3 ds))"
    by (metis append_take_drop_id)
  then show ?thesis by simp
qed

lemma NormalizeSNILS_ascii:
  assumes "is_ascii raw" "NormalizeSNILS u raw = Inr (fm, ds)"
  shows "list_all is_ascii_digit ds" "length ds = 11" "ds = filter is_ascii_digit fm"
    "NormalizeSNILS u ds = Inr (fm, ds)" "NormalizeSNILS u fm = Inr (fm, ds)"
proof -
  from assms(2) have ds: "ds = digits u (TrimSpace raw)" and l: "length ds = 11"
    and fm: "fm = take 3 ds @ ''-'' @ take 3 (drop 3 ds) @ ''-'' @ take 3 (drop 6 ds) @ '' '' @ drop 9 ds"
    by (auto simp: NormalizeSNILS_Inr)
  have "ds = filter is_ascii_digit (TrimSpace raw)"
    using ds is_ascii_TrimSpace [OF assms(1)] by (simp add: digits_def digit_runes_ascii)
  then show dig: "list_all is_ascii_digit ds" by (simp add: list_all_iff)
  show "length ds = 11" by (rule l)
  have part: "filter is_ascii_digit (take n (drop k ds)) = take n (drop k ds)" for n k
    using dig by (intro filter_True) (auto simp: list_all_iff dest: in_set_takeD in_set_dropD)
  have "filter is_ascii_digit fm
    = take 3 ds @ take 3 (drop 3 ds) @ take 3 (drop 6 ds) @ drop 9 ds"
    using part [of 3 0] part [of 3 3] part [of 3 6] part [of "length ds" 9]
    unfolding fm by (simp add: is_ascii_digit_def byte_def)
  then show f: "ds = filter is_ascii_digit fm" using slices_of_11 [OF l] by simp
  show "NormalizeSNILS u ds = Inr (fm, ds)"
    using digits_TrimSpace [OF dig] l fm by (auto simp: NormalizeSNILS_Inr digits_def)
  have a: "is_ascii fm"
    using digits_TrimSpace(1) [OF dig] unfolding fm
    by (auto simp: is_ascii_def list_all_iff byte_def dest: in_set_takeD in_set_dropD)
  have ne: "ds \<noteq> []" "drop 9 ds \<noteq> []" using l by auto
  have ends: "hd fm = hd ds" "last fm = last ds" "fm \<noteq> []" unfolding fm using ne by (auto simp: last_drop)
  moreover have "\<not> ascii_space (hd ds)" "\<not> ascii_space (last ds)"
    using dig ne digit_not_space by (auto simp: list_all_iff)
  ultimately have t: "TrimSpace fm = fm" using ascii_TrimSpace_id [OF a] by simp
  have "digits u fm = ds" by (simp only: digits_def digit_runes_ascii [OF a] f [symmetric])
  then show "NormalizeSNILS u fm = Inr (fm, ds)"
    unfolding NormalizeSNILS_Inr t using l fm ends(3) by blast
qed

lemma NormalizeEmail_ascii:
  assumes "is_ascii raw" "NormalizeEmail ctx raw = Inr m"
  shows "NormalizeEmail ctx m = Inr m"
proof -
  from assms(2) have m: "m = ToLower (e_unicode ctx) (TrimSpace raw)"
    "e_parse_address ctx m = Some m" "TrimSpace raw \<noteq> ''''"
    by (auto simp: NormalizeEmail_def Let_def split: if_splits)
  note t = ToLower_ascii [OF is_ascii_TrimSpace [OF assms(1)], of "e_unicode ctx"]
  have "TrimSpace m = m" "ToLower (e_unicode ctx) m = m" using t(3,4) m(1) by simp_all
  moreover have "m \<noteq> ''''" using t(1) m(1,3) by simp
  ultimately show ?thesis using m(2) by (simp add: NormalizeEmail_def)
qed

lemma NormalizeRow_Inr:
  assumes "NormalizeRow ctx p = Inr n"
  shows "NormalizeFullName (p_RawFullName p) = Inr (n_LastName n, n_FirstName n, n_MiddleName n)"
    "NormalizeSNILS (e_unicode ctx) (p_RawSNILS p) = Inr (n_SNILS n, n_SNILSDigits n)"
    "NormalizeEmail ctx (p_RawEmail p) = Inr (n_Email n)"
    "n_Position n = TrimSpace (p_RawPosition p)"
  using assms by (auto simp: NormalizeRow_def Let_def NormalizePosition_def split: sum.splits)

text \<open>A row is rejected exactly when one of its three checked fields is.\<close>

lemma NormalizeRow_ok:
  "is_ok (NormalizeRow ctx p) \<longleftrightarrow>
     is_ok (NormalizeFullName (p_RawFullName p))
     \<and> is_ok (NormalizeSNILS (e_unicode ctx) (p_RawSNILS p)) \<and> is_ok (NormalizeEmail ctx (p_RawEmail p))"
  by (auto simp: NormalizeRow_def Let_def is_ok_iff split: sum.splits)

end
