(* ===== verification/RequestLaws.thy ===== *)
theory RequestLaws
  imports RequestService NormalizerLaws
begin

text \<open>
  Each operation of the requests service as a run of statements, so that it keeps the
  constraints of the schema, and what the loops of staging and applying change.
\<close>

subsection \<open>Runs of statements\<close>

lemma stmt_run: "statement d d' \<Longrightarrow> statement\<^sup>*\<^sup>* d' d'' \<Longrightarrow> statement\<^sup>*\<^sup>* d d''"
  by (rule converse_rtranclp_into_rtranclp)

lemma stage_items_run: "statement\<^sup>*\<^sup>* d (snd (stage_items now i codes d))"
proof (induction now i codes d rule: stage_items.induct)
  case (2 now rowID code codes d)
  show ?case
    using 2 by (auto simp: Let_def split: sum.splits db_error.splits
        intro: stmt_run statement.create_item)
qed simp

lemma stageRow_run: "statement\<^sup>*\<^sup>* d (snd (stageRow ctx k i p d))"
proof (cases "NormalizeRow ctx p")
  case (Inl e)
  then show ?thesis
    by (auto simp: stageRow_def Let_def split: sum.splits intro: statement.create_row)
next
  case (Inr n)
  have "statement\<^sup>*\<^sup>* b c"
    if "stage_items now j codes b = (x, c)" for now j codes b c and x :: "(request_msg svc_error, unit) result"
    using stage_items_run [of b now j codes] that by simp
  with Inr show ?thesis
    by (auto simp: stageRow_def Let_def split: sum.splits prod.splits
        intro: stmt_run statement.create_row)
qed

lemma copy_import_rows_run: "statement\<^sup>*\<^sup>* d (snd (copy_import_rows now i ps d))"
  by (induction now i ps d rule: copy_import_rows.induct)
    (auto split: sum.splits intro: stmt_run statement.create_import_row)

lemma stage_rows_run: "statement\<^sup>*\<^sup>* d (snd (stage_rows ctx k i ps d))"
proof (induction ctx k i ps d rule: stage_rows.induct)
  case (2 ctx k i p ps d)
  obtain x d1 where s: "stageRow ctx k i p d = (x, d1)" by fastforce
  have r: "statement\<^sup>*\<^sup>* d d1" using stageRow_run [of d ctx k i p] s by simp
  show ?case
  proof (cases x)
    case (Inr row)
    then have "statement\<^sup>*\<^sup>* d1 (snd (stage_rows ctx (k + 1) i ps d1))" using 2 s by simp
    with r have "statement\<^sup>*\<^sup>* d (snd (stage_rows ctx (k + 1) i ps d1))" by simp
    then show ?thesis using s Inr by (auto split: prod.splits sum.splits)
  qed (use r s in simp)
qed simp

text \<open>The part of \<open>ImportRows\<close> after the import is linked.\<close>

lemma staging_run:
  assumes "copy_import_rows now j ps d2 = (x, d3)"
  shows "statement\<^sup>*\<^sup>* d2 d3"
    and "stage_rows ctx m i ps (recordAudit ctx k a d3) = (y, d5) \<Longrightarrow> statement\<^sup>*\<^sup>* d2 d5"
proof -
  show c: "statement\<^sup>*\<^sup>* d2 d3" using copy_import_rows_run [of d2 now j ps] assms by simp
  assume "stage_rows ctx m i ps (recordAudit ctx k a d3) = (y, d5)"
  then have "statement\<^sup>*\<^sup>* (recordAudit ctx k a d3) d5"
    using stage_rows_run [of "recordAudit ctx k a d3" ctx m i ps] by simp
  with c audit_run [of d3 ctx k a] show "statement\<^sup>*\<^sup>* d2 d5" by (meson rtranclp_trans)
qed

lemma ImportRows_run: "statement\<^sup>*\<^sup>* d (snd (requests_ImportRows ctx k i data name d))"
proof -
  note run = staging_run stmt_run statement.create_import statement.link_import
  show ?thesis
    unfolding requests_ImportRows_def Let_def
    by (auto split: sum.split prod.split) (blast intro: run)+
qed

lemma CreateRequest_run: "statement\<^sup>*\<^sup>* d (snd (requests_CreateRequest ctx inp d))"
proof -
  have imp: "statement\<^sup>*\<^sup>* d1 d3"
    if "requests_ImportRows ctx k i data name (recordAudit ctx 0 a d1) = (x, d3)"
    for k i data name a d1 d3 x
  proof -
    have "statement\<^sup>*\<^sup>* (recordAudit ctx 0 a d1) d3"
      using ImportRows_run [of "recordAudit ctx 0 a d1" ctx k i data name] that by simp
    with audit_run [of d1 ctx 0 a] show ?thesis by (meson rtranclp_trans)
  qed
  note run = stmt_run statement.create_request audit_run imp
  show ?thesis
    unfolding requests_CreateRequest_def Let_def
    by (auto split: sum.split prod.split db_error.split) (blast intro: run)+
qed

text \<open>The three ways one item is processed.\<close>

lemma apply_items_cases:
  assumes "apply_items ctx k a c (item # items) acc d = Inr (acc', d')"
  obtains (skip) "ri_program_id item = 0" "apply_items ctx (k + 1) a c items acc d = Inr (acc', d')"
  | (dup) t x d1 b where "ri_program_id item \<noteq> 0"
      "q_FindActiveTrainingRecord d (we_id a) (ri_program_id item) = Inr t"
      "q_UpdateRequestTrainingItemStatus d ItemStatusDuplicate (Some ''training_record already active'')
         None (Some (tr_id t)) (e_clock ctx k) (ri_id item) = Inr (x, d1)"
      "apply_items ctx (k + 1) a c items b d1 = Inr (acc', d')"
  | (new) p t x d1 d2 b where "ri_program_id item \<noteq> 0"
      "q_FindActiveTrainingRecord d (we_id a) (ri_program_id item) = Inl ErrNoRows"
      "q_GetProgram d (ri_program_id item) = Inr p"
      "q_CreateTrainingRecord d (we_id a) (ri_program_id item) (Some (cr_id c))
         (we_current_position a) (pg_default_hours p) 0 ''not_required'' ''active''
         (e_clock ctx k) (e_clock ctx k) = Inr (t, d1)"
      "q_UpdateRequestTrainingItemStatus d1 ItemStatusApplied None None (Some (tr_id t))
         (e_clock ctx k) (ri_id item) = Inr (x, d2)"
      "apply_items ctx (k + 1) a c items b d2 = Inr (acc', d')"
  using assms that
  by (auto split: prod.splits if_splits sum.splits db_error.splits)

lemma apply_items_run:
  "apply_items ctx k a c items acc d = Inr (acc', d') \<Longrightarrow> statement\<^sup>*\<^sup>* d d'"
proof (induction items arbitrary: k acc d)
  case (Cons item items)
  from Cons.prems show ?case
  proof (cases rule: apply_items_cases)
    case (dup t x d1 b)
    then show ?thesis using Cons.IH stmt_run statement.set_item_status by blast
  next
    case (new p t x d1 d2 b)
    then show ?thesis
      using Cons.IH stmt_run statement.set_item_status statement.create_training by meson
  qed (use Cons.IH in blast)
qed simp

lemma find_or_create_run:
  "find_or_create_worker ctx row d = Inr (w, b, d') \<Longrightarrow> statement\<^sup>*\<^sup>* d d'"
  "find_or_create_assignment ctx row i j d = Inr (a, b, d') \<Longrightarrow> statement\<^sup>*\<^sup>* d d'"
  by (auto simp: find_or_create_worker_def find_or_create_assignment_def Let_def
      split: sum.splits db_error.splits
      intro: stmt_run statement.create_worker statement.create_assignment)

lemma apply_tx_cases:
  assumes "apply_tx ctx row c items d = Inr (res, d')"
  obtains w bw d1 a ba d2 bc bd lt d3 r where
    "find_or_create_worker ctx row d = Inr (w, bw, d1)"
    "find_or_create_assignment ctx row (wk_id w) (cr_employer_id c) d1 = Inr (a, ba, d2)"
    "apply_items ctx 2 a c items (False, False, None) d2 = Inr ((bc, bd, lt), d3)"
    "q_UpdateRequestRowStatus d3 RowStatusApplied None (e_clock ctx (2 + length items)) (rr_id row)
       = Inr (r, d')"
    "res = \<lparr>ap_RequestRow = r, ap_Worker = Some w, ap_WorkerEmployer = Some a,
       ap_TrainingRecord = lt, ap_Created = (bw \<or> ba \<or> bc), ap_Duplicate = bd, ap_Invalid = False\<rparr>"
  using assms that by (auto simp: apply_tx_def split: sum.splits prod.splits)

lemma apply_tx_run:
  assumes "apply_tx ctx row c items d = Inr (res, d')"
  shows "statement\<^sup>*\<^sup>* d d'"
  using assms
proof (cases rule: apply_tx_cases)
  case (1 w bw d1 a ba d2 bc bd lt d3 r)
  note run = find_or_create_run(1) [OF 1(1)] find_or_create_run(2) [OF 1(2)]
    apply_items_run [OF 1(3)] statement.set_row_status [OF 1(4)]
  have "statement\<^sup>*\<^sup>* d d3" by (rule rtranclp_trans [OF rtranclp_trans [OF run(1,2)] run(3)])
  with run(4) show ?thesis by simp
qed

lemma apply_audit_run: "statement\<^sup>*\<^sup>* d (apply_audit ctx r w a t b c d)"
proof -
  have two: "statement\<^sup>*\<^sup>* d x \<Longrightarrow> statement\<^sup>*\<^sup>* d (recordAudit ctx k e x)" for x k e
    using audit_run [of x ctx k e] by (meson rtranclp_trans)
  show ?thesis
    by (auto simp: apply_audit_def Let_def intro!: two split: option.split)
qed

lemma ApplyRow_run: "statement\<^sup>*\<^sup>* d (snd (requests_ApplyRow ctx i d))"
proof -
  have inv: "statement\<^sup>*\<^sup>* d d2"
    if "q_UpdateRequestRowStatus (recordAudit ctx k e d) st s u j = Inr (x, d2)" for k e st s u j x d2
    using audit_run [of d ctx k e] statement.set_row_status [OF that] by simp
  have app: "statement\<^sup>*\<^sup>* d (apply_audit ctx r w a t b c d1)"
    if "apply_tx ctx row cq items d = Inr (res, d1)" for r w a t b c row cq items res d1
    using apply_tx_run [OF that] apply_audit_run by (meson rtranclp_trans)
  show ?thesis
    unfolding requests_ApplyRow_def Let_def
    by (auto split: sum.split prod.split option.split intro: audit_run app apply_tx_run inv)
qed

lemma SkipRow_run: "statement\<^sup>*\<^sup>* d (snd (requests_SkipRow ctx i d))"
  unfolding requests_SkipRow_def
  by (auto split: sum.split intro: stmt_audit_run statement.set_row_status)

end
