(* ===== verification/ApplyLaws.thy ===== *)
theory ApplyLaws
  imports RequestLaws
begin

text \<open>
  What \<open>ApplyRow\<close> does: it succeeds on every staged row it accepts, every item of the row ends
  up linked to an active training record, and no assignment ever gets a second active training
  record for the same program.
\<close>

subsection \<open>The statements of the walk over the items\<close>

lemma item_update_rows:
  assumes "q_UpdateRequestTrainingItemStatus d st s res t u i = Inr (x, d')"
  obtains r where "r \<in> set (request_training_items d)" "ri_id r = i"
    "x = r\<lparr>ri_status := st, ri_error_summary := s, ri_resolution := res,
           ri_training_record_id := t, ri_updated_at := u\<rparr>"
    "d' = d\<lparr>request_training_items :=
       map (\<lambda>y. if ri_id y = i then x else y) (request_training_items d)\<rparr>"
  using assms unfolding q_UpdateRequestTrainingItemStatus_def upd_request_item_def
  by (rule stored_update_rows) (use that in blast)

lemma item_update_succeeds:
  assumes ok: "db_ok d" and r: "i \<in> row_ids ri_id (request_training_items d)"
    and st: "st = ''applied'' \<or> st = ''duplicate''" and t: "t \<in> row_ids tr_id (training_records d)"
  shows "\<exists>x d'. q_UpdateRequestTrainingItemStatus d st s None (Some t) u i = Inr (x, d')"
proof -
  from r obtain r where r: "r \<in> set (request_training_items d)" "ri_id r = i"
    by (auto simp: row_ids_def)
  have tab: "table_ok ri_id request_item_check no_clash (request_training_items d)"
    and fk: "request_item_fk d r"
    using ok r by (simp_all add: db_ok_defs)
  let ?f = "\<lambda>r. r\<lparr>ri_status := st, ri_error_summary := s, ri_resolution := None,
           ri_training_record_id := Some t, ri_updated_at := u\<rparr>"
  have "sql_update ri_id request_item_check no_clash (request_item_fk d) (ri_id r) (\<lambda>_. True) ?f
      (request_training_items d) = Inr (?f r, map (\<lambda>x. if ri_id x = ri_id r then ?f r else x)
      (request_training_items d))"
    by (rule sql_update_succeeds [OF tab r(1)])
      (use st t fk in \<open>auto simp: request_item_check_def request_item_fk_def opt_ref_def no_clash_def\<close>)
  then show ?thesis
    using r(2) by (simp add: q_UpdateRequestTrainingItemStatus_def upd_request_item_def stored_def)
qed

lemma training_insert_rows:
  assumes "q_CreateTrainingRecord d we p c pos h m mo st u v = Inr (t, d')"
  shows "d' = d\<lparr>training_records := training_records d @ [t]\<rparr>" "tr_worker_employer_id t = we"
    "tr_program_id t = p" "tr_status t = st" "tr_client_request_id t = c"
    "tr_id t \<notin> tr_id ` set (training_records d)"
proof -
  from stored_insert_rows [OF assms [unfolded q_CreateTrainingRecord_def ins_training_record_def]]
  show "d' = d\<lparr>training_records := training_records d @ [t]\<rparr>" "tr_worker_employer_id t = we"
    "tr_program_id t = p" "tr_status t = st" "tr_client_request_id t = c"
    "tr_id t \<notin> tr_id ` set (training_records d)"
    using next_rowid_new [of tr_id "training_records d"] by simp_all
qed

lemma training_insert_succeeds:
  assumes ok: "db_ok d" and "a \<in> set (worker_employers d)" "c \<in> set (client_requests d)"
    and p: "p \<in> set (programs d)"
  shows "\<exists>t d'. q_CreateTrainingRecord d (we_id a) (pg_id p) (Some (cr_id c)) pos
      (pg_default_hours p) 0 ''not_required'' ''active'' u v = Inr (t, d')"
proof -
  have "program_check p" using ok p by (simp add: db_ok_defs table_ok_def)
  then show ?thesis
    using assms by (simp add: q_CreateTrainingRecord_def ins_training_record_def stored_def
        sql_insert_def training_record_check_def training_record_fk_def opt_ref_def row_ids_def
        program_check_def no_clash_def list_ex_iff Let_def)
qed

subsection \<open>The walk always ends well\<close>

definition appliable :: "RequestTrainingItem list \<Rightarrow> db \<Rightarrow> bool" where
  "appliable items d \<longleftrightarrow> (\<forall>it \<in> set items. ri_id it \<in> row_ids ri_id (request_training_items d)
     \<and> ri_program_id it \<in> row_ids pg_id (programs d))"

lemma apply_items_total:
  assumes "db_ok d" "a \<in> set (worker_employers d)" "c \<in> set (client_requests d)" "appliable items d"
  shows "\<exists>acc' d'. apply_items ctx k a c items acc d = Inr (acc', d')"
  using assms
proof (induction items arbitrary: k acc d)
  case Nil
  then show ?case by (cases acc) simp
next
  case (Cons item items)
  obtain x y z where acc: "acc = (x, y, z)" by (cases acc)
  from Cons.prems(4) have item: "ri_id item \<in> row_ids ri_id (request_training_items d)"
    and "ri_program_id item \<in> row_ids pg_id (programs d)" and rest: "appliable items d"
    by (auto simp: appliable_def)
  then obtain p where p: "p \<in> set (programs d)" "pg_id p = ri_program_id item"
    by (auto simp: row_ids_def)
  have np: "ri_program_id item \<noteq> 0"
    using p Cons.prems(1) by (auto simp: db_ok_defs table_ok_def)
  have rest': "appliable items d'"
    if "map ri_id (request_training_items d') = map ri_id (request_training_items d)"
      "programs d' = programs d" for d'
    using rest that by (metis appliable_def list.set_map row_ids_def)
  show ?case
  proof (cases "q_FindActiveTrainingRecord d (we_id a) (ri_program_id item)")
    case (Inr t)
    then have "tr_id t \<in> row_ids tr_id (training_records d)"
      by (auto simp: read_defs row_ids_def dest: sql_get_Inr)
    from item_update_succeeds [OF Cons.prems(1) item _ this, of "''duplicate''"]
    obtain r d1 where u: "q_UpdateRequestTrainingItemStatus d ''duplicate''
        (Some ''training_record already active'') None (Some (tr_id t)) (e_clock ctx k) (ri_id item)
        = Inr (r, d1)" by blast
    then have "db_ok d1" using Cons.prems(1) statement_ok statement.set_item_status by blast
    moreover have "worker_employers d1 = worker_employers d" "client_requests d1 = client_requests d"
      "appliable items d1"
      using u by (auto elim!: item_update_rows intro!: rest')
    ultimately have "\<exists>acc' d'. apply_items ctx (k + 1) a c items b d1 = Inr (acc', d')" for b
      using Cons by simp
    then show ?thesis using Inr u acc np by simp
  next
    case (Inl e)
    then have e: "e = ErrNoRows" by (auto simp: read_defs dest: sql_get_Inl)
    have g: "q_GetProgram d (ri_program_id item) = Inr p"
      using p Cons.prems(1) table_ok_get [of pg_id program_check program_clash "programs d" p]
      by (simp add: read_defs db_ok_defs)
    from training_insert_succeeds [OF Cons.prems(1-3) p(1)]
    obtain t d1 where t: "q_CreateTrainingRecord d (we_id a) (ri_program_id item) (Some (cr_id c))
        (we_current_position a) (pg_default_hours p) 0 ''not_required'' ''active''
        (e_clock ctx k) (e_clock ctx k) = Inr (t, d1)"
      unfolding p(2) by blast
    note d1 = training_insert_rows(1) [OF t]
    have ok1: "db_ok d1" using t Cons.prems(1) statement_ok statement.create_training by blast
    have "tr_id t \<in> row_ids tr_id (training_records d1)" "ri_id item \<in> row_ids ri_id (request_training_items d1)"
      using item by (simp_all add: d1 row_ids_def)
    from item_update_succeeds [OF ok1 this(2) _ this(1), of "''applied''"]
    obtain r d2 where u: "q_UpdateRequestTrainingItemStatus d1 ''applied'' None None
        (Some (tr_id t)) (e_clock ctx k) (ri_id item) = Inr (r, d2)" by blast
    then have "db_ok d2" using ok1 statement_ok statement.set_item_status by blast
    moreover have "worker_employers d2 = worker_employers d" "client_requests d2 = client_requests d"
      "appliable items d2"
      using u by (auto simp: d1 elim!: item_update_rows intro!: rest')
    ultimately have "\<exists>acc' d'. apply_items ctx (k + 1) a c items b d2 = Inr (acc', d')" for b
      using Cons by simp
    then show ?thesis using Inl e g t u acc np by simp
  qed
qed

subsection \<open>What the walk changes\<close>

text \<open>An item is settled when it is linked to an active training record of its program.\<close>

definition settled :: "db \<Rightarrow> WorkerEmployer \<Rightarrow> RequestTrainingItem \<Rightarrow> bool" where
  "settled d a it \<longleftrightarrow>
     (\<exists>r \<in> set (request_training_items d). \<exists>t \<in> set (training_records d).
        ri_id r = ri_id it \<and> ri_status r \<in> {ItemStatusApplied, ItemStatusDuplicate}
        \<and> ri_training_record_id r = Some (tr_id t) \<and> tr_status t = ''active''
        \<and> tr_worker_employer_id t = we_id a \<and> tr_program_id t = ri_program_id it)"

definition training_unique :: "db \<Rightarrow> bool" where
  "training_unique d \<longleftrightarrow>
     distinct (map (\<lambda>t. (tr_worker_employer_id t, tr_program_id t))
       (filter (\<lambda>t. tr_status t = ''active'') (training_records d)))"

text \<open>The database without the two tables the walk writes.\<close>

definition other_tables :: "db \<Rightarrow> db" where
  "other_tables d = d\<lparr>training_records := [], request_training_items := []\<rparr>"

text \<open>What stays from the state before to the state after the items \<open>ids\<close> were processed.\<close>

definition walked :: "int set \<Rightarrow> db \<Rightarrow> db \<Rightarrow> bool" where
  "walked ids d d' \<longleftrightarrow>
     other_tables d' = other_tables d
     \<and> set (training_records d) \<subseteq> set (training_records d')
     \<and> (\<forall>r \<in> set (request_training_items d). ri_id r \<notin> ids \<longrightarrow> r \<in> set (request_training_items d'))
     \<and> map ri_id (request_training_items d') = map ri_id (request_training_items d)
     \<and> (training_unique d \<longrightarrow> training_unique d')"

lemma walked_refl: "walked ids d d"
  by (simp add: walked_def)

lemma walked_trans: "walked A d d1 \<Longrightarrow> walked B d1 d2 \<Longrightarrow> walked (A \<union> B) d d2"
  unfolding walked_def by (intro conjI) auto

lemma walked_sub: "walked A d d' \<Longrightarrow> A \<subseteq> B \<Longrightarrow> walked B d d'"
  unfolding walked_def by blast

lemma item_update_walked:
  assumes "q_UpdateRequestTrainingItemStatus d st s res t u i = Inr (x, d')"
  shows "walked {i} d d'"
  using assms by (auto simp: walked_def other_tables_def training_unique_def elim!: item_update_rows)

lemma item_update_settles:
  assumes u: "q_UpdateRequestTrainingItemStatus d st s res (Some (tr_id t)) w (ri_id it) = Inr (x, d')"
    and st: "st \<in> {ItemStatusApplied, ItemStatusDuplicate}"
    and t: "t \<in> set (training_records d)" "tr_status t = ''active''"
      "tr_worker_employer_id t = we_id a" "tr_program_id t = ri_program_id it"
  shows "settled d' a it"
proof -
  from u have "x \<in> set (request_training_items d')" "ri_id x = ri_id it" "ri_status x = st"
    "ri_training_record_id x = Some (tr_id t)" "training_records d' = training_records d"
    by (auto elim!: item_update_rows)
  with st t show ?thesis unfolding settled_def by (intro bexI [of _ x] bexI [of _ t]) simp_all
qed

lemma training_insert_walked:
  assumes "q_CreateTrainingRecord d we p c pos h m mo ''active'' u v = Inr (t, d')"
    and "q_FindActiveTrainingRecord d we p = Inl ErrNoRows"
  shows "walked {} d d'"
proof -
  note t = training_insert_rows [OF assms(1)]
  from assms(2) have "\<forall>r \<in> set (training_records d). \<not> (tr_worker_employer_id r = we
      \<and> tr_program_id r = p \<and> tr_status r = ''active'')"
    by (auto simp: read_defs dest: sql_get_Inl)
  then show ?thesis by (auto simp: walked_def other_tables_def t training_unique_def)
qed

lemma apply_items_effect:
  assumes "apply_items ctx k a c items acc d = Inr (acc', d')" "distinct (map ri_id items)"
  shows "walked (ri_id ` set items) d d'
     \<and> (\<forall>it \<in> set items. ri_program_id it \<noteq> 0 \<longrightarrow> settled d' a it)"
  using assms
proof (induction items arbitrary: k acc d)
  case Nil
  then show ?case by (simp add: walked_refl)
next
  case (Cons item items)
  let ?ids = "ri_id ` set items"
  have new: "ri_id item \<notin> ?ids" using Cons.prems(2) by simp
  have keep: "settled d' a item" if w: "walked ?ids d1 d'" and "settled d1 a item" for d1
  proof -
    from that(2) obtain r t where "r \<in> set (request_training_items d1)" "t \<in> set (training_records d1)"
      and rt: "ri_id r = ri_id item" "ri_status r \<in> {ItemStatusApplied, ItemStatusDuplicate}"
        "ri_training_record_id r = Some (tr_id t)" "tr_status t = ''active''"
        "tr_worker_employer_id t = we_id a" "tr_program_id t = ri_program_id item"
      by (auto simp: settled_def)
    then have "r \<in> set (request_training_items d')" "t \<in> set (training_records d')"
      using w new by (auto simp: walked_def)
    with rt show ?thesis unfolding settled_def by blast
  qed
  have mono: "walked (ri_id ` set (item # items)) d d'" if "walked {ri_id item} d d1" "walked ?ids d1 d'" for d1
    using walked_trans [OF that] by simp
  from Cons.prems(1) show ?case
  proof (cases rule: apply_items_cases)
    case skip
    with Cons.IH [OF skip(2)] Cons.prems(2) show ?thesis by (auto intro: walked_sub)
  next
    case (dup t x d1 b)
    note IH = Cons.IH [OF dup(4)]
    have t: "t \<in> set (training_records d)" "tr_status t = ''active''"
      "tr_worker_employer_id t = we_id a" "tr_program_id t = ri_program_id item"
      using dup(2) by (auto simp: read_defs dest: sql_get_Inr)
    then have "settled d1 a item" using item_update_settles [OF dup(3)] by simp
    with IH keep mono item_update_walked [OF dup(3)] Cons.prems(2) show ?thesis by auto
  next
    case (new p t x d1 d2 b)
    note IH = Cons.IH [OF new(6)]
    note t = training_insert_rows [OF new(4)]
    have "settled d2 a item" using item_update_settles [OF new(5)] t by simp
    moreover have "walked {ri_id item} d d2"
      using walked_trans [OF training_insert_walked [OF new(4,2)] item_update_walked [OF new(5)]] by simp
    ultimately show ?thesis using IH keep mono Cons.prems(2) by auto
  qed
qed

subsection \<open>Finding or creating the worker and the assignment\<close>

lemma find_or_create_worker_total:
  "\<exists>w b t. find_or_create_worker ctx row d = Inr (w, b, d\<lparr>workers := t\<rparr>) \<and> w \<in> set t
     \<and> set (workers d) \<subseteq> set t \<and> wk_snils_normalized w = str_of (rr_parsed_snils row)"
proof (cases "q_GetWorkerByNormalizedSNILS d (str_of (rr_parsed_snils row))")
  case (Inr w)
  then have "w \<in> set (workers d)" "wk_snils_normalized w = str_of (rr_parsed_snils row)"
    by (auto simp: read_defs dest: sql_get_Inr)
  moreover have "d\<lparr>workers := workers d\<rparr> = d" by simp
  ultimately show ?thesis
    using Inr by (intro exI [of _ w] exI [of _ False] exI [of _ "workers d"])
      (simp add: find_or_create_worker_def)
next
  case (Inl e)
  then have e: "e = ErrNoRows"
    and "\<forall>x \<in> set (workers d). wk_snils_normalized x \<noteq> str_of (rr_parsed_snils row)"
    by (auto simp: read_defs dest: sql_get_Inl)
  then have "\<not> list_ex (worker_clash w) (workers d)"
    if "wk_snils_normalized w = str_of (rr_parsed_snils row)" for w
    using that by (auto simp: worker_clash_def list_ex_iff)
  then show ?thesis
    using Inl e
    by (simp add: find_or_create_worker_def Let_def q_CreateWorker_def ins_worker_def
        stored_def sql_insert_def worker_check_def no_fk_def) auto
qed

lemma find_or_create_assignment_total:
  assumes "i \<in> row_ids wk_id (workers d)" "j \<in> row_ids em_id (employers d)"
  shows "\<exists>a b t. find_or_create_assignment ctx row i j d = Inr (a, b, d\<lparr>worker_employers := t\<rparr>)
     \<and> a \<in> set t \<and> set (worker_employers d) \<subseteq> set t
     \<and> we_worker_id a = i \<and> we_employer_id a = j \<and> we_status a = ''active''"
proof (cases "q_FindActiveWorkerEmployer d i j")
  case (Inr a)
  then have "a \<in> set (worker_employers d)" "we_worker_id a = i" "we_employer_id a = j"
    "we_status a = ''active''"
    by (auto simp: read_defs dest: sql_get_Inr)
  moreover have "d\<lparr>worker_employers := worker_employers d\<rparr> = d" by simp
  ultimately show ?thesis
    using Inr by (intro exI [of _ a] exI [of _ False] exI [of _ "worker_employers d"])
      (simp add: find_or_create_assignment_def)
next
  case (Inl e)
  then have e: "e = ErrNoRows" and "\<forall>x \<in> set (worker_employers d).
      \<not> (we_worker_id x = i \<and> we_employer_id x = j \<and> we_status x = ''active'')"
    by (auto simp: read_defs dest: sql_get_Inl)
  then have "\<not> list_ex (worker_employer_clash a) (worker_employers d)"
    if "we_worker_id a = i" "we_employer_id a = j" for a
    using that by (auto simp: worker_employer_clash_def list_ex_iff)
  then show ?thesis
    using Inl e assms
    by (simp add: find_or_create_assignment_def Let_def q_CreateWorkerEmployer_def
        ins_worker_employer_def stored_def sql_insert_def worker_employer_check_def
        worker_employer_fk_def) auto
qed

lemma row_status_succeeds:
  assumes ok: "db_ok d" and r: "r \<in> set (request_rows d)"
    and st: "st \<in> set [''pending'', ''parsed'', ''invalid'', ''applied'', ''skipped'']"
  shows "q_UpdateRequestRowStatus d st s u (rr_id r) =
     (let x = r\<lparr>rr_status := st, rr_error_summary := s, rr_updated_at := u\<rparr> in
      Inr (x, d\<lparr>request_rows := map (\<lambda>y. if rr_id y = rr_id r then x else y) (request_rows d)\<rparr>))"
proof -
  have tab: "table_ok rr_id request_row_check request_row_clash (request_rows d)"
    and fk: "request_row_fk d r"
    using ok r by (simp_all add: db_ok_defs)
  then have "request_row_check r" "\<And>x. x \<in> set (request_rows d) \<Longrightarrow> rr_id x \<noteq> rr_id r \<Longrightarrow>
      \<not> request_row_clash r x"
    using r by (auto simp: table_ok_def)
  then show ?thesis
    using st fk by (simp add: q_UpdateRequestRowStatus_def upd_request_row_def stored_def Let_def
        sql_update_succeeds [OF tab r] request_row_check_def request_row_clash_def request_row_fk_def)
qed

subsection \<open>The transaction and the operation\<close>

lemma listed_items:
  assumes "db_ok d"
  shows "set (q_ListRequestTrainingItems d i) = {r \<in> set (request_training_items d). ri_request_row_id r = i}"
    "distinct (map ri_id (q_ListRequestTrainingItems d i))"
    "appliable (q_ListRequestTrainingItems d i) d"
proof -
  show s: "set (q_ListRequestTrainingItems d i) = {r \<in> set (request_training_items d). ri_request_row_id r = i}"
    by (auto simp: q_ListRequestTrainingItems_def)
  have "distinct (map ri_id (request_training_items d))"
    using assms by (simp add: db_ok_defs table_ok_def)
  then have "distinct (request_training_items d)" "inj_on ri_id (set (request_training_items d))"
    by (simp_all add: distinct_map)
  then show "distinct (map ri_id (q_ListRequestTrainingItems d i))"
    unfolding q_ListRequestTrainingItems_def distinct_map
    by (auto intro: inj_on_subset)
  show "appliable (q_ListRequestTrainingItems d i) d"
    using assms by (auto simp: appliable_def s row_ids_def db_ok_defs request_item_fk_def)
qed

lemma walked_frame:
  assumes "walked ids d d'"
  shows "workers d' = workers d" "worker_employers d' = worker_employers d"
    "request_rows d' = request_rows d" "client_requests d' = client_requests d"
proof -
  have e: "other_tables d' = other_tables d" using assms by (simp add: walked_def)
  show "workers d' = workers d" "worker_employers d' = worker_employers d"
    "request_rows d' = request_rows d" "client_requests d' = client_requests d"
    using arg_cong [OF e, of workers] arg_cong [OF e, of worker_employers]
      arg_cong [OF e, of request_rows] arg_cong [OF e, of client_requests]
    by (simp_all add: other_tables_def)
qed

text \<open>The state after a committed transaction.\<close>

definition applied_row :: "RequestRow \<Rightarrow> ClientRequest \<Rightarrow> db \<Rightarrow> ApplyResult \<Rightarrow> db \<Rightarrow> bool" where
  "applied_row row c d res d' \<longleftrightarrow>
     (\<exists>w \<in> set (workers d'). \<exists>a \<in> set (worker_employers d').
        ap_Worker res = Some w \<and> wk_snils_normalized w = str_of (rr_parsed_snils row)
        \<and> ap_WorkerEmployer res = Some a \<and> we_worker_id a = wk_id w
        \<and> we_employer_id a = cr_employer_id c \<and> we_status a = ''active''
        \<and> (\<forall>it \<in> set (request_training_items d). ri_request_row_id it = rr_id row \<longrightarrow> settled d' a it))
     \<and> ap_RequestRow res \<in> set (request_rows d') \<and> rr_id (ap_RequestRow res) = rr_id row
     \<and> rr_status (ap_RequestRow res) = RowStatusApplied
     \<and> set (workers d) \<subseteq> set (workers d') \<and> set (worker_employers d) \<subseteq> set (worker_employers d')
     \<and> set (training_records d) \<subseteq> set (training_records d')
     \<and> (training_unique d \<longrightarrow> training_unique d')"

lemma apply_tx_spec:
  assumes ok: "db_ok d" and row: "row \<in> set (request_rows d)" and c: "c \<in> set (client_requests d)"
  shows "\<exists>res d'. apply_tx ctx row c (q_ListRequestTrainingItems d (rr_id row)) d = Inr (res, d')
     \<and> applied_row row c d res d'"
proof -
  let ?items = "q_ListRequestTrainingItems d (rr_id row)"
  from find_or_create_worker_total [of ctx row d] obtain w b t where
    w: "find_or_create_worker ctx row d = Inr (w, b, d\<lparr>workers := t\<rparr>)" "w \<in> set t"
      "set (workers d) \<subseteq> set t" "wk_snils_normalized w = str_of (rr_parsed_snils row)" by blast
  let ?d1 = "d\<lparr>workers := t\<rparr>"
  have "cr_employer_id c \<in> row_ids em_id (employers ?d1)" "wk_id w \<in> row_ids wk_id (workers ?d1)"
    using ok c w(2) by (auto simp: db_ok_defs client_request_fk_def row_ids_def)
  from find_or_create_assignment_total [OF this(2,1), of ctx row] obtain a b' t' where
    a: "find_or_create_assignment ctx row (wk_id w) (cr_employer_id c) ?d1
          = Inr (a, b', ?d1\<lparr>worker_employers := t'\<rparr>)" "a \<in> set t'"
      "set (worker_employers d) \<subseteq> set t'" "we_worker_id a = wk_id w"
      "we_employer_id a = cr_employer_id c" "we_status a = ''active''" by auto
  let ?d2 = "?d1\<lparr>worker_employers := t'\<rparr>"
  have ok2: "db_ok ?d2"
    using ok find_or_create_run(1) [OF w(1)] find_or_create_run(2) [OF a(1)] statements_ok by blast
  have app: "appliable ?items ?d2" using listed_items(3) [OF ok] by (simp add: appliable_def)
  have "a \<in> set (worker_employers ?d2)" "c \<in> set (client_requests ?d2)" using a(2) c by simp_all
  from apply_items_total [OF ok2 this app, of ctx 2 "(False, False, None)"] obtain bc bd lt d3 where
    i: "apply_items ctx 2 a c ?items (False, False, None) ?d2 = Inr ((bc, bd, lt), d3)"
    by (metis prod_cases3)
  note eff = apply_items_effect [OF i listed_items(2) [OF ok]]
  have ok3: "db_ok d3" using ok2 statements_ok [OF apply_items_run [OF i]] by blast
  note fr = walked_frame [OF eff [THEN conjunct1]]
  have "row \<in> set (request_rows d3)" using row fr(3) by simp
  note u = row_status_succeeds [OF ok3 this, of RowStatusApplied None "e_clock ctx (2 + length ?items)"]
  let ?r = "row\<lparr>rr_status := RowStatusApplied, rr_error_summary := None,
      rr_updated_at := e_clock ctx (2 + length ?items)\<rparr>"
  let ?d4 = "d3\<lparr>request_rows := map (\<lambda>y. if rr_id y = rr_id row then ?r else y) (request_rows d3)\<rparr>"
  let ?res = "\<lparr>ap_RequestRow = ?r, ap_Worker = Some w, ap_WorkerEmployer = Some a,
     ap_TrainingRecord = lt, ap_Created = (b \<or> b' \<or> bc), ap_Duplicate = bd, ap_Invalid = False\<rparr>"
  have tx: "apply_tx ctx row c ?items d = Inr (?res, ?d4)"
    using w(1) a(1) i u by (simp add: apply_tx_def Let_def)
  have "ri_program_id it \<noteq> 0" if "it \<in> set ?items" for it
  proof -
    have "ri_program_id it \<in> row_ids pg_id (programs d)"
      using that listed_items(3) [OF ok] by (simp add: appliable_def)
    then show ?thesis using ok by (auto simp: row_ids_def db_ok_defs table_ok_def)
  qed
  then have "\<forall>it \<in> set (request_training_items d). ri_request_row_id it = rr_id row \<longrightarrow> settled d3 a it"
    using eff listed_items(1) [OF ok] by blast
  then have set4: "\<forall>it \<in> set (request_training_items d). ri_request_row_id it = rr_id row \<longrightarrow> settled ?d4 a it"
    by (simp add: settled_def)
  have grow: "set (training_records d) \<subseteq> set (training_records ?d4)"
    "training_unique d \<longrightarrow> training_unique ?d4"
    using eff by (auto simp: walked_def training_unique_def)
  have "?r \<in> set (request_rows ?d4)" using \<open>row \<in> set (request_rows d3)\<close> by auto
  then have "applied_row row c d ?res ?d4"
    unfolding applied_row_def using w a fr set4 grow by simp
  with tx show ?thesis by blast
qed

lemma apply_audit_other [simp]:
  "workers (apply_audit ctx r w a t b c d) = workers d"
  "worker_employers (apply_audit ctx r w a t b c d) = worker_employers d"
  "training_records (apply_audit ctx r w a t b c d) = training_records d"
  "request_rows (apply_audit ctx r w a t b c d) = request_rows d"
  "request_training_items (apply_audit ctx r w a t b c d) = request_training_items d"
  by (simp_all add: apply_audit_def Let_def split: option.split)

lemma applied_row_audit:
  "applied_row row c d res (apply_audit ctx r w a t b c' d') = applied_row row c d res d'"
  by (simp add: applied_row_def settled_def training_unique_def)

lemma row_request:
  assumes "db_ok d" "row \<in> set (request_rows d)"
  obtains c where "c \<in> set (client_requests d)" "cr_id c = rr_client_request_id row"
    "q_GetClientRequest d (rr_client_request_id row) = Inr c"
proof -
  have "rr_client_request_id row \<in> row_ids cr_id (client_requests d)"
    using assms by (simp add: db_ok_defs request_row_fk_def)
  then obtain c where c: "c \<in> set (client_requests d)" "cr_id c = rr_client_request_id row"
    by (auto simp: row_ids_def)
  moreover have "table_ok cr_id client_request_check no_clash (client_requests d)"
    using assms(1) by (simp add: db_ok_defs)
  ultimately show ?thesis using that table_ok_get by (metis q_GetClientRequest_def)
qed

lemma get_row: "q_GetRequestRow d i = Inr row \<Longrightarrow> row \<in> set (request_rows d) \<and> rr_id row = i"
  by (auto simp: read_defs dest: sql_get_Inr)

lemma ApplyRow_valid:
  assumes ok: "db_ok d" and hd: "e_has_db ctx" and g: "q_GetRequestRow d i = Inr row"
    and t: "CanTransitionRow (rr_status row) RowStatusApplied" and n: "normalizeFromRow ctx row = Inr nr"
  shows "\<exists>res d' c. requests_ApplyRow ctx i d = (Inr res, d') \<and> cr_id c = rr_client_request_id row
     \<and> applied_row row c d res d'"
proof -
  have row: "row \<in> set (request_rows d)" using get_row [OF g] by blast
  obtain c where c: "c \<in> set (client_requests d)" "cr_id c = rr_client_request_id row"
    "q_GetClientRequest d (rr_client_request_id row) = Inr c"
    using row_request [OF ok row] by blast
  from apply_tx_spec [OF ok row c(1), of ctx] obtain res d' where
    r: "apply_tx ctx row c (q_ListRequestTrainingItems d (rr_id row)) d = Inr (res, d')"
      "applied_row row c d res d'" by blast
  from r(2) obtain w a where "ap_Worker res = Some w" "ap_WorkerEmployer res = Some a"
    by (auto simp: applied_row_def)
  then have "requests_ApplyRow ctx i d = (Inr res, apply_audit ctx (ap_RequestRow res) w a
      (ap_TrainingRecord res) (ap_Duplicate res) c d')"
    using hd g t n c(3) r(1) by (simp add: requests_ApplyRow_def)
  with r(2) c(2) show ?thesis using applied_row_audit by blast
qed

lemma ApplyRow_invalid:
  assumes ok: "db_ok d" and hd: "e_has_db ctx" and g: "q_GetRequestRow d i = Inr row"
    and t: "CanTransitionRow (rr_status row) RowStatusApplied" and n: "normalizeFromRow ctx row = Inl e"
  shows "\<exists>res d'. requests_ApplyRow ctx i d = (Inr res, d') \<and> ap_Invalid res
     \<and> rr_status (ap_RequestRow res) = RowStatusInvalid \<and> ap_RequestRow res \<in> set (request_rows d')
     \<and> training_records d' = training_records d"
proof -
  have row: "row \<in> set (request_rows d)" using get_row [OF g] by blast
  let ?d1 = "recordAudit ctx 0 (entry ''reject'' ''request_row'' (rr_id row)
    [(''reason'', JStr (normalize_error_text (e_map_order ctx 0) e))]) d"
  have "db_ok ?d1" "row \<in> set (request_rows ?d1)" using recordAudit_ok [OF ok] row by simp_all
  note u = row_status_succeeds [OF this, of RowStatusInvalid]
  show ?thesis using hd g t n u row by (auto simp: requests_ApplyRow_def Let_def)
qed

end
