(* ===== verification/StageLaws.thy ===== *)
theory StageLaws
  imports ApplyLaws
begin

text \<open>
  Staging: when a parsed row can be stored, what it leaves alone, and that a stored row that
  normalized once normalizes again when it is applied. The last section is the string syntax
  of the raw row copies.
\<close>

subsection \<open>Which rows can be staged\<close>

lemma GetProgramByCode_cases:
  obtains (found) p where "q_GetProgramByCode d code = Inr p" "p \<in> set (programs d)" "pg_code p = code"
  | (missing) "q_GetProgramByCode d code = Inl ErrNoRows" "code \<notin> pg_code ` set (programs d)"
  by (cases "q_GetProgramByCode d code") (auto simp: read_defs dest: sql_get_Inr sql_get_Inl)

lemma item_insert_cases:
  "q_CreateRequestTrainingItem d i p st s None None u v =
     (if st \<notin> set [''pending'', ''valid'', ''invalid'', ''duplicate'', ''conflict'', ''applied'', ''skipped'']
      then Inl (ConstraintFailed CheckViolation)
      else if i \<in> row_ids rr_id (request_rows d) \<and> p \<in> row_ids pg_id (programs d)
      then let r = \<lparr>ri_id = next_rowid ri_id (request_training_items d), ri_request_row_id = i,
                    ri_program_id = p, ri_status = st, ri_error_summary = s, ri_resolution = None,
                    ri_training_record_id = None, ri_created_at = u, ri_updated_at = v\<rparr>
           in Inr (r, d\<lparr>request_training_items := request_training_items d @ [r]\<rparr>)
      else Inl (ConstraintFailed ForeignKeyViolation))"
  by (simp add: q_CreateRequestTrainingItem_def ins_request_item_def stored_def sql_insert_def
      Let_def request_item_check_def request_item_fk_def no_clash_def opt_ref_def list_ex_iff)

text \<open>An item for an unknown code refers to program 0, which the foreign key refuses.\<close>

lemma stage_items_iff:
  assumes "db_ok d" "i \<in> row_ids rr_id (request_rows d)"
  shows "is_ok (fst (stage_items now i codes d)) \<longleftrightarrow> set codes \<subseteq> pg_code ` set (programs d)"
  using assms
proof (induction codes arbitrary: d)
  case (Cons code codes)
  show ?case
  proof (cases rule: GetProgramByCode_cases [of d code])
    case (found p)
    then have "pg_id p \<in> row_ids pg_id (programs d)" by (simp add: row_ids_def)
    then obtain r where
      q: "q_CreateRequestTrainingItem d i (pg_id p) ItemStatusValid None None None now now
        = Inr (r, d\<lparr>request_training_items := request_training_items d @ [r]\<rparr>)"
      using Cons.prems(2) by (auto simp: item_insert_cases Let_def)
    then have "db_ok (d\<lparr>request_training_items := request_training_items d @ [r]\<rparr>)"
      using Cons.prems(1) statement_ok statement.create_item by blast
    from Cons.IH [OF this] Cons.prems(2) found q show ?thesis
      by (auto simp: programOrZero_def is_ok_iff)
  next
    case missing
    have "0 \<notin> row_ids pg_id (programs d)"
      using Cons.prems(1) by (auto simp: row_ids_def db_ok_defs table_ok_def)
    with missing show ?thesis
      by (auto simp: programOrZero_def is_ok_iff item_insert_cases)
  qed
qed (simp add: is_ok_iff)

lemma item_insert_frame:
  assumes "q_CreateRequestTrainingItem d i p st s None None u v = Inr (r, d')"
  shows "request_rows d' = request_rows d" "training_records d' = training_records d"
    "programs d' = programs d"
  using stored_insert_rows [OF assms [unfolded q_CreateRequestTrainingItem_def ins_request_item_def]]
  by simp_all

lemma stage_items_frame:
  "stage_items now i codes d = (x, d') \<Longrightarrow> request_rows d' = request_rows d
     \<and> training_records d' = training_records d"
proof (induction codes arbitrary: d x)
  case (Cons code codes)
  then show ?case
    by (auto simp: Let_def item_insert_frame split: sum.splits db_error.splits
        dest!: Cons.IH)
qed simp

lemma request_row_insert:
  assumes "q_CreateRequestRow d i n raw a1 a2 a3 a4 a5 a6 a7 st s u v = Inr (r, d')"
  shows "request_rows d' = request_rows d @ [r] \<and> programs d' = programs d
     \<and> training_records d' = training_records d \<and> rr_status r = st
     \<and> rr_client_request_id r = i \<and> rr_row_number r = n \<and> rr_raw_data r = raw
     \<and> rr_parsed_last_name r = a2 \<and> rr_parsed_first_name r = a3 \<and> rr_parsed_middle_name r = a4
     \<and> rr_parsed_snils r = a5 \<and> rr_parsed_email r = a6 \<and> rr_parsed_position r = a7"
  using stored_insert_rows [OF assms [unfolded q_CreateRequestRow_def ins_request_row_def]] by simp

text \<open>A row is stored unless the number is taken or the request is missing.\<close>

lemma request_row_insert_iff:
  "is_ok (q_CreateRequestRow d i n raw a1 a2 a3 a4 a5 a6 a7 st s u v) \<longleftrightarrow>
     0 < n \<and> st \<in> set [''pending'', ''parsed'', ''invalid'', ''applied'', ''skipped'']
     \<and> i \<in> row_ids cr_id (client_requests d)
     \<and> (i, n) \<notin> (\<lambda>r. (rr_client_request_id r, rr_row_number r)) ` set (request_rows d)"
  by (auto simp: q_CreateRequestRow_def ins_request_row_def stored_def sql_insert_def Let_def
      request_row_check_def request_row_clash_def request_row_fk_def list_ex_iff is_ok_iff)

lemma stageRow_iff:
  assumes ok: "db_ok d"
  shows "is_ok (fst (stageRow ctx k i p d)) \<longleftrightarrow>
     0 < p_RowNumber p \<and> i \<in> row_ids cr_id (client_requests d)
     \<and> (i, p_RowNumber p) \<notin> (\<lambda>r. (rr_client_request_id r, rr_row_number r)) ` set (request_rows d)
     \<and> (is_ok (NormalizeRow ctx p) \<longrightarrow> set (p_RawPrograms p) \<subseteq> pg_code ` set (programs d))"
proof (cases "NormalizeRow ctx p")
  case (Inl e)
  let ?q = "q_CreateRequestRow d i (p_RowNumber p) (rawRowJSON p) (nullableString (p_RawFullName p))
     None None None None None None RowStatusInvalid
     (Some (normalize_error_text (e_map_order ctx k) e)) (e_clock ctx k) (e_clock ctx k)"
  have "is_ok (fst (stageRow ctx k i p d)) \<longleftrightarrow> is_ok ?q"
    using Inl by (auto simp: stageRow_def Let_def is_ok_iff split: sum.splits)
  then show ?thesis unfolding request_row_insert_iff using Inl by (simp add: is_ok_iff)
next
  case (Inr n)
  let ?q = "q_CreateRequestRow d i (p_RowNumber p) (rawRowJSON p) (nullableString (p_RawFullName p))
     (nullableString (n_LastName n)) (nullableString (n_FirstName n)) (nullableString (n_MiddleName n))
     (nullableString (n_SNILSDigits n)) (nullableString (n_Email n)) (nullableString (n_Position n))
     RowStatusParsed None (e_clock ctx k) (e_clock ctx k)"
  show ?thesis
  proof (cases ?q)
    case (Inl e)
    then have "\<not> is_ok ?q" by (simp add: is_ok_iff)
    with Inl Inr show ?thesis
      unfolding request_row_insert_iff by (auto simp: stageRow_def Let_def is_ok_iff)
  next
    case (Inr rd)
    then obtain r d' where q: "?q = Inr (r, d')" by (cases rd) auto
    then have "is_ok ?q" by (simp add: is_ok_iff)
    moreover have "db_ok d'" using q ok statement_ok statement.create_row by blast
    moreover have "rr_id r \<in> row_ids rr_id (request_rows d')" "programs d' = programs d"
      using request_row_insert [OF q] by (auto simp: row_ids_def)
    ultimately show ?thesis
      using stage_items_iff [of d' "rr_id r" "e_clock ctx k" "p_RawPrograms p"] q
        \<open>NormalizeRow ctx p = Inr n\<close>
      unfolding request_row_insert_iff
      by (auto simp: stageRow_def Let_def is_ok_iff split: prod.splits sum.splits)
  qed
qed

subsection \<open>A staged row normalizes again\<close>

lemma joinFIO_words:
  assumes "words (l # f # rest)"
  shows "joinFIO l f (Join rest '' '') = Join (l # f # rest) '' ''"
proof (cases rest)
  case (Cons m ms)
  then have "Join rest '' '' \<noteq> []" using assms Join_Nil_iff [of rest] by simp
  then show ?thesis using assms Cons by (simp add: joinFIO_def)
qed (use assms in \<open>simp add: joinFIO_def\<close>)

lemma normalize_again:
  assumes n: "NormalizeRow ctx p = Inr n"
    and ascii: "is_ascii (p_RawSNILS p)" "is_ascii (p_RawEmail p)"
    and row: "rr_parsed_last_name row = nullableString (n_LastName n)"
      "rr_parsed_first_name row = nullableString (n_FirstName n)"
      "rr_parsed_middle_name row = nullableString (n_MiddleName n)"
      "rr_parsed_snils row = nullableString (n_SNILSDigits n)"
      "rr_parsed_email row = nullableString (n_Email n)"
  shows "is_ok (normalizeFromRow ctx row)"
proof -
  note f = NormalizeRow_Inr [OF n]
  obtain rest where r: "n_MiddleName n = Join rest '' ''"
    "words (n_LastName n # n_FirstName n # rest)"
    using NormalizeFullName_Inr [OF f(1)] by metis
  have "is_ok (NormalizeFullName (joinFIO (n_LastName n) (n_FirstName n) (n_MiddleName n)))"
    using NormalizeFullName_words [OF r(2)] joinFIO_words [OF r(2)] r(1) by (simp add: is_ok_iff)
  moreover have "is_ok (NormalizeSNILS (e_unicode ctx) (n_SNILSDigits n))"
    using NormalizeSNILS_ascii(4) [OF ascii(1) f(2)] by (simp add: is_ok_iff)
  moreover have "is_ok (NormalizeEmail ctx (n_Email n))"
    using NormalizeEmail_ascii [OF ascii(2) f(3)] by (simp add: is_ok_iff)
  ultimately show ?thesis by (simp add: normalizeFromRow_def NormalizeRow_ok row)
qed

lemma stageRow_parsed:
  assumes "stageRow ctx k i p d = (Inr row, d')" "rr_status row = RowStatusParsed"
  obtains n where "NormalizeRow ctx p = Inr n"
    "rr_parsed_last_name row = nullableString (n_LastName n)"
    "rr_parsed_first_name row = nullableString (n_FirstName n)"
    "rr_parsed_middle_name row = nullableString (n_MiddleName n)"
    "rr_parsed_snils row = nullableString (n_SNILSDigits n)"
    "rr_parsed_email row = nullableString (n_Email n)"
  using assms that request_row_insert
  by (auto simp: stageRow_def Let_def split: sum.splits prod.splits)

subsection \<open>What staging leaves alone\<close>

text \<open>Request rows are only added, training records are not touched.\<close>

definition stages :: "db \<Rightarrow> db \<Rightarrow> bool" where
  "stages d d' \<longleftrightarrow> set (request_rows d) \<subseteq> set (request_rows d')
     \<and> training_records d' = training_records d"

lemma stages_refl [simp]: "stages d d"
  by (simp add: stages_def)

lemma stages_trans: "stages d d1 \<Longrightarrow> stages d1 d2 \<Longrightarrow> stages d d2"
  by (auto simp: stages_def)

lemma stages_audit [simp]: "stages d (recordAudit ctx k e d') = stages d d'"
  by (simp add: stages_def)

lemma stageRow_stages: "stages d (snd (stageRow ctx k i p d))"
  by (auto simp: stageRow_def stages_def Let_def split: sum.splits prod.splits
      dest!: request_row_insert stage_items_frame)

lemma stage_rows_stages: "stages d (snd (stage_rows ctx k i ps d))"
proof (induction ps arbitrary: k d)
  case (Cons p ps)
  obtain x d1 where s: "stageRow ctx k i p d = (x, d1)" by fastforce
  then have "stages d d1" using stageRow_stages [of d ctx k i p] by simp
  with s Cons [of d1 "k + 1"] show ?case
    by (auto intro: stages_trans split: sum.splits prod.splits)
qed simp

lemma copy_import_rows_stages: "stages d (snd (copy_import_rows now i ps d))"
proof (induction ps arbitrary: d)
  case (Cons p ps)
  have "stages d d1" if "q_CreateImportRow d a b c e f = Inr (r, d1)" for a b c e f r d1
    using stored_insert_rows [OF that [unfolded q_CreateImportRow_def ins_import_row_def]]
    by (simp add: stages_def)
  with Cons show ?case by (auto split: sum.splits) (blast intro: stages_trans)
qed simp

lemma import_stages:
  "q_CreateImport d a b c e f g h j k l m n p = Inr (r, d1) \<Longrightarrow> stages d d1"
  "q_SetClientRequestSourceImport d i' u i = Inr (r', d1) \<Longrightarrow> stages d d1"
  "q_CreateClientRequest d a' b' c' e' f' g' h' j' = Inr (r'', d1) \<Longrightarrow> stages d d1"
  by (auto simp: stages_def q_CreateImport_def ins_import_def q_SetClientRequestSourceImport_def
      upd_client_request_def q_CreateClientRequest_def ins_client_request_def stored_Inr)

lemma ImportRows_stages: "stages d (snd (requests_ImportRows ctx k i data name d))"
proof -
  have st: "stages d2 d5"
    if "copy_import_rows now j ps d2 = (x, d3)" "stage_rows ctx m i ps (recordAudit ctx k a d3) = (y, d5)"
    for now j ps d2 x d3 m a y d5
    using copy_import_rows_stages [of d2 now j ps] stage_rows_stages [of "recordAudit ctx k a d3" ctx m i ps] that
    by (auto simp: stages_def)
  have cp: "stages d2 d3" if "copy_import_rows now j ps d2 = (x, d3)" for now j ps d2 x d3
    using copy_import_rows_stages [of d2 now j ps] that by simp
  show ?thesis
    unfolding requests_ImportRows_def Let_def
    by (auto split: sum.split prod.split) (blast intro: stages_trans import_stages st cp)+
qed

lemma CreateRequest_stages: "stages d (snd (requests_CreateRequest ctx inp d))"
proof -
  have im: "stages d1 d3"
    if "requests_ImportRows ctx k i data name (recordAudit ctx 0 a d1) = (x, d3)" for k i data name a d1 x d3
    using ImportRows_stages [of "recordAudit ctx 0 a d1" ctx k i data name] that by (simp add: stages_def)
  show ?thesis
    unfolding requests_CreateRequest_def Let_def
    by (auto split: sum.split prod.split db_error.split) (blast intro: stages_trans import_stages im)+
qed

end
