(* ===== verification/RequestSamples.thy ===== *)
theory RequestSamples
  imports StageLaws Samples
begin

text \<open>
  A client request with one staged row on the sample database, and a parsed spreadsheet row,
  for the witnesses of the requests properties.
\<close>

definition sample_request :: ClientRequest where
  "sample_request = \<lparr>cr_id = 1, cr_employer_id = 1, cr_received_date = ''2026-03-01'',
     cr_source_type = ''xlsx'', cr_source_import_id = None, cr_status = ''review'', cr_notes = None,
     cr_created_at = sample_time, cr_updated_at = sample_time\<rparr>"

definition sample_row :: RequestRow where
  "sample_row = \<lparr>rr_id = 1, rr_client_request_id = 1, rr_row_number = 2, rr_raw_data = ''{}'',
     rr_raw_full_name = Some ''Petrov Petr'', rr_parsed_last_name = Some ''Petrov'',
     rr_parsed_first_name = Some ''Petr'', rr_parsed_middle_name = None,
     rr_parsed_snils = Some ''12345678900'', rr_parsed_email = Some ''petr@example.org'',
     rr_parsed_position = None, rr_status = ''parsed'', rr_error_summary = None,
     rr_created_at = sample_time, rr_updated_at = sample_time\<rparr>"

definition sample_item :: RequestTrainingItem where
  "sample_item = \<lparr>ri_id = 1, ri_request_row_id = 1, ri_program_id = 1, ri_status = ''valid'',
     ri_error_summary = None, ri_resolution = None, ri_training_record_id = None,
     ri_created_at = sample_time, ri_updated_at = sample_time\<rparr>"

definition sample_request_db :: db where
  "sample_request_db = sample_db\<lparr>client_requests := [sample_request], request_rows := [sample_row],
     request_training_items := [sample_item]\<rparr>"

definition sample_parsed :: ParsedRow where
  "sample_parsed = \<lparr>p_RowNumber = 3, p_RawFullName = ''Petrov Petr'', p_RawSNILS = ''123-456-789 00'',
     p_RawEmail = ''Petr@example.org'', p_RawPosition = '''', p_RawPrograms = [''A-1'']\<rparr>"

lemmas request_sample_defs = sample_request_def sample_row_def sample_item_def sample_request_db_def

lemma sample_request_ok: "db_ok sample_request_db"
  by (simp add: db_ok_defs sample_defs request_sample_defs table_ok_def check_all_defs clash_defs
      ref_defs row_ids_def)

lemma sample_training_unique: "training_unique sample_request_db"
  by (simp add: training_unique_def sample_defs request_sample_defs)

lemma sample_get_row: "q_GetRequestRow sample_request_db 1 = Inr sample_row"
  by (simp add: read_defs sql_get_def request_sample_defs)

lemma ascii_word: "list_all (\<lambda>c. byte c < 128 \<and> \<not> ascii_space c) s \<Longrightarrow> space_free s"
  by (induction s) (simp_all add: space_free_Cons ascii_starts_space)

lemma sample_words: "words [''Petrov'', ''Petr'']"
  by (simp add: ascii_word ascii_space_def byte_def)

lemma sample_name: "NormalizeFullName ''Petrov Petr'' = Inr (''Petrov'', ''Petr'', '''')"
  using NormalizeFullName_words [OF sample_words] by simp

lemma sample_snils:
  "NormalizeSNILS u ''12345678900'' = Inr (''123-456-789 00'', ''12345678900'')"
  "NormalizeSNILS u ''123-456-789 00'' = Inr (''123-456-789 00'', ''12345678900'')"
proof -
  have d: "list_all is_ascii_digit ''12345678900''" by (simp add: is_ascii_digit_def byte_def)
  show s: "NormalizeSNILS u ''12345678900'' = Inr (''123-456-789 00'', ''12345678900'')"
    using digits_TrimSpace [OF d] by (simp add: NormalizeSNILS_Inr digits_def)
  show "NormalizeSNILS u ''123-456-789 00'' = Inr (''123-456-789 00'', ''12345678900'')"
    by (rule NormalizeSNILS_ascii(5) [OF digits_TrimSpace(1) [OF d] s])
qed

lemma sample_email:
  "NormalizeEmail sample_env ''petr@example.org'' = Inr ''petr@example.org''"
  "NormalizeEmail sample_env ''Petr@example.org'' = Inr ''petr@example.org''"
proof -
  have t: "TrimSpace ''petr@example.org'' = ''petr@example.org''"
    "TrimSpace ''Petr@example.org'' = ''Petr@example.org''"
    by (rule TrimSpace_solid; simp add: solid_def byte_def)+
  have p: "char_of (112::nat) = CHR ''p''"
    unfolding byte_inject [symmetric] by (simp add: byte_def)
  have "is_ascii ''petr@example.org''" "is_ascii ''Petr@example.org''" by (simp_all add: byte_def)
  then show "NormalizeEmail sample_env ''petr@example.org'' = Inr ''petr@example.org''"
    "NormalizeEmail sample_env ''Petr@example.org'' = Inr ''petr@example.org''"
    by (simp_all add: NormalizeEmail_def t ToLower_def ascii_lower_def byte_def sample_env_def p)
qed

lemma sample_row_normalizes: "is_ok (normalizeFromRow sample_env sample_row)"
  unfolding normalizeFromRow_def NormalizeRow_ok
  using sample_name sample_snils(1) sample_email(1)
  by (simp add: sample_row_def str_of_def joinFIO_def is_ok_iff)

lemma sample_parsed_normalizes: "is_ok (NormalizeRow sample_env sample_parsed)"
  unfolding NormalizeRow_ok using sample_name sample_snils(2) sample_email(2)
  by (simp add: sample_parsed_def is_ok_iff)

end
