(* ===== verification/RequestProps.thy ===== *)
theory RequestProps
  imports RequestSamples
begin

text \<open>
  The properties of the requests slice: parsing, normalizing, staging and applying.
\<close>

subsection \<open>Steps of the service\<close>

inductive request_step :: "db \<Rightarrow> db \<Rightarrow> bool" where
  create: "requests_CreateRequest ctx inp d = (r1, d') \<Longrightarrow> request_step d d'"
| import_rows: "requests_ImportRows ctx k i data name d = (r2, d') \<Longrightarrow> request_step d d'"
| apply_row: "requests_ApplyRow ctx i d = (r3, d') \<Longrightarrow> request_step d d'"
| skip_row: "requests_SkipRow ctx i d = (r4, d') \<Longrightarrow> request_step d d'"

lemma request_step_run: "request_step d d' \<Longrightarrow> statement\<^sup>*\<^sup>* d d'"
proof (induction rule: request_step.induct)
  case (create ctx inp d r1 d')
  then show ?case using CreateRequest_run [of d ctx inp] by simp
next
  case (import_rows ctx k i data name d r2 d')
  then show ?case using ImportRows_run [of d ctx k i data name] by simp
next
  case (apply_row ctx i d r3 d')
  then show ?case using ApplyRow_run [of d ctx i] by simp
next
  case (skip_row ctx i d r4 d')
  then show ?case using SkipRow_run [of d ctx i] by simp
qed

lemma CanTransitionRow_applied:
  assumes "db_ok d" "row \<in> set (request_rows d)"
  shows "CanTransitionRow (rr_status row) RowStatusApplied \<longleftrightarrow> rr_status row \<noteq> RowStatusSkipped"
proof -
  have "request_row_check row" using assms by (simp add: db_ok_defs table_ok_def)
  then show ?thesis by (auto simp: request_row_check_def CanTransitionRow_iff)
qed

lemma ApplyRow_refused:
  assumes "\<not> (e_has_db ctx \<and> (\<exists>row. q_GetRequestRow d i = Inr row
      \<and> CanTransitionRow (rr_status row) RowStatusApplied))"
  shows "snd (requests_ApplyRow ctx i d) = d \<and> \<not> is_ok (fst (requests_ApplyRow ctx i d))"
  using assms by (auto simp: requests_ApplyRow_def is_ok_iff split: sum.splits)

lemma ApplyRow_accepted:
  assumes "db_ok d" "e_has_db ctx" "q_GetRequestRow d i = Inr row"
    "CanTransitionRow (rr_status row) RowStatusApplied"
  shows "is_ok (fst (requests_ApplyRow ctx i d))"
  using ApplyRow_valid [OF assms] ApplyRow_invalid [OF assms]
  by (cases "normalizeFromRow ctx row") (auto simp: is_ok_iff)

text \<open>
  C6. Applying a staged row succeeds exactly when the service has its database handle, the row
  exists and it was not skipped; when it does not succeed, nothing at all has been written.
\<close>

theorem ApplyRow_all_or_nothing:
  assumes "db_ok d"
  shows "(is_ok (fst (requests_ApplyRow ctx i d)) \<longleftrightarrow>
       e_has_db ctx \<and> (\<exists>row. q_GetRequestRow d i = Inr row \<and> rr_status row \<noteq> RowStatusSkipped))
     \<and> (is_ok (fst (requests_ApplyRow ctx i d)) \<or> snd (requests_ApplyRow ctx i d) = d)"
proof -
  have tr: "q_GetRequestRow d i = Inr row \<Longrightarrow>
      CanTransitionRow (rr_status row) RowStatusApplied \<longleftrightarrow> rr_status row \<noteq> RowStatusSkipped" for row
    using CanTransitionRow_applied [OF assms] get_row by blast
  show ?thesis
  proof (cases "e_has_db ctx \<and> (\<exists>row. q_GetRequestRow d i = Inr row
      \<and> CanTransitionRow (rr_status row) RowStatusApplied)")
    case True
    then show ?thesis using ApplyRow_accepted [OF assms] tr by blast
  next
    case False
    then show ?thesis using ApplyRow_refused [OF False] tr by blast
  qed
qed

theorem ApplyRow_all_or_nothing_witness:
  "is_ok (fst (requests_ApplyRow sample_env 1 sample_request_db))
   \<and> snd (requests_ApplyRow sample_env 9 sample_request_db) = sample_request_db"
proof -
  have "q_GetRequestRow sample_request_db 9 = Inl ErrNoRows"
    by (simp add: read_defs sql_get_def request_sample_defs)
  then show ?thesis
    using ApplyRow_all_or_nothing [OF sample_request_ok, of sample_env 1]
      ApplyRow_all_or_nothing [OF sample_request_ok, of sample_env 9] sample_get_row
    by (auto simp: sample_env_def sample_row_def)
qed



lemma SkipRow_training: "training_records (snd (requests_SkipRow ctx i d)) = training_records d"
  by (auto simp: requests_SkipRow_def q_UpdateRequestRowStatus_def upd_request_row_def stored_Inr
      split: sum.splits)

lemma ApplyRow_training:
  assumes "db_ok d" "training_unique d"
  shows "training_unique (snd (requests_ApplyRow ctx i d))"
proof (cases "e_has_db ctx \<and> (\<exists>row. q_GetRequestRow d i = Inr row
      \<and> CanTransitionRow (rr_status row) RowStatusApplied)")
  case True
  then obtain row where r: "e_has_db ctx" "q_GetRequestRow d i = Inr row"
    "CanTransitionRow (rr_status row) RowStatusApplied" by blast
  show ?thesis
  proof (cases "normalizeFromRow ctx row")
    case (Inl e)
    then show ?thesis using ApplyRow_invalid [OF assms(1) r Inl] assms(2)
      by (auto simp: training_unique_def)
  next
    case (Inr n)
    then show ?thesis using ApplyRow_valid [OF assms(1) r Inr] assms(2) by (auto simp: applied_row_def)
  qed
next
  case False
  then show ?thesis using ApplyRow_refused [OF False] assms(2) by simp
qed

lemma request_step_training:
  assumes "request_step d d'" "db_ok d" "training_unique d"
  shows "training_unique d'"
  using assms
proof (induction rule: request_step.induct)
  case (create ctx inp d r1 d')
  then show ?case using CreateRequest_stages [of d ctx inp] by (simp add: stages_def training_unique_def)
next
  case (import_rows ctx k i data name d r2 d')
  then show ?case using ImportRows_stages [of d ctx k i data name]
    by (simp add: stages_def training_unique_def)
next
  case (apply_row ctx i d r3 d')
  then show ?case using ApplyRow_training [of d ctx i] by simp
next
  case (skip_row ctx i d r4 d')
  then show ?case using SkipRow_training [of ctx i d] by (simp add: training_unique_def)
qed

text \<open>
  C8. Whatever requests are created, imported, applied (again) and skipped, an assignment never
  has two active training records for the same program.
\<close>

theorem one_active_training_record:
  assumes "request_step\<^sup>*\<^sup>* d d'" "db_ok d" "training_unique d"
  shows "distinct (map (\<lambda>t. (tr_worker_employer_id t, tr_program_id t))
       (filter (\<lambda>t. tr_status t = ''active'') (training_records d')))"
proof -
  have "db_ok d' \<and> training_unique d'"
    using assms
    by (induction rule: rtranclp_induct)
      (auto intro: request_step_training statements_ok [OF request_step_run])
  then show ?thesis by (simp add: training_unique_def)
qed

theorem one_active_training_record_witness:
  "distinct (map (\<lambda>t. (tr_worker_employer_id t, tr_program_id t))
     (filter (\<lambda>t. tr_status t = ''active'')
       (training_records (snd (requests_ApplyRow sample_env 1 sample_request_db)))))"
proof -
  have "request_step sample_request_db (snd (requests_ApplyRow sample_env 1 sample_request_db))"
    by (rule request_step.apply_row) (rule surjective_pairing)
  then have "request_step\<^sup>*\<^sup>* sample_request_db (snd (requests_ApplyRow sample_env 1 sample_request_db))"
    by (rule r_into_rtranclp)
  from one_active_training_record [OF this sample_request_ok sample_training_unique] show ?thesis .
qed

text \<open>
  C9. A row that was staged as parsed from an ASCII SNILS and email passes the validation that
  \<open>ApplyRow\<close> repeats on the stored columns: it is never rejected as invalid later.
\<close>

theorem staged_row_revalidates:
  assumes "stageRow ctx k i p d = (Inr row, d')" "rr_status row = RowStatusParsed"
    and "is_ascii (p_RawSNILS p)" "is_ascii (p_RawEmail p)"
  shows "is_ok (normalizeFromRow ctx row)"
  using assms(1,2)
proof (rule stageRow_parsed)
  fix n
  assume "NormalizeRow ctx p = Inr n"
    "rr_parsed_last_name row = nullableString (n_LastName n)"
    "rr_parsed_first_name row = nullableString (n_FirstName n)"
    "rr_parsed_middle_name row = nullableString (n_MiddleName n)"
    "rr_parsed_snils row = nullableString (n_SNILSDigits n)"
    "rr_parsed_email row = nullableString (n_Email n)"
  then show ?thesis using normalize_again assms(3,4) by blast
qed

text \<open>
  C10. A parsed row can be staged exactly when its number is positive and not yet used in the
  request, the request exists, and either the row does not normalize (it is then stored as
  invalid) or every program code it names is known. A valid row with an unknown code makes the
  import fail: the item it would store refers to program 0.
\<close>

theorem stageRow_succeeds_iff:
  assumes "db_ok d"
  shows "is_ok (fst (stageRow ctx k i p d)) \<longleftrightarrow>
     0 < p_RowNumber p \<and> i \<in> cr_id ` set (client_requests d)
     \<and> (i, p_RowNumber p) \<notin> (\<lambda>r. (rr_client_request_id r, rr_row_number r)) ` set (request_rows d)
     \<and> (is_ok (NormalizeRow ctx p) \<longrightarrow> set (p_RawPrograms p) \<subseteq> pg_code ` set (programs d))"
  using stageRow_iff [OF assms, of ctx k i p] unfolding row_ids_def .

theorem stageRow_succeeds_iff_witness:
  "is_ok (fst (stageRow sample_env 0 1 sample_parsed sample_request_db))
   \<and> \<not> is_ok (fst (stageRow sample_env 0 1 (sample_parsed\<lparr>p_RawPrograms := [''Z-9'']\<rparr>) sample_request_db))"
proof -
  have "is_ok (NormalizeRow sample_env (sample_parsed\<lparr>p_RawPrograms := [''Z-9'']\<rparr>))"
    using sample_parsed_normalizes unfolding NormalizeRow_ok by simp
  with sample_parsed_normalizes show ?thesis
    unfolding stageRow_succeeds_iff [OF sample_request_ok]
    by (simp add: sample_parsed_def sample_defs request_sample_defs)
qed

theorem staged_row_revalidates_witness:
  "\<exists>row d'. stageRow sample_env 0 1 sample_parsed sample_request_db = (Inr row, d')
     \<and> is_ok (normalizeFromRow sample_env row)"
proof -
  have "is_ok (fst (stageRow sample_env 0 1 sample_parsed sample_request_db))"
    unfolding stageRow_iff [OF sample_request_ok]
    by (simp add: sample_parsed_def sample_defs request_sample_defs row_ids_def)
  then obtain row d' where s: "stageRow sample_env 0 1 sample_parsed sample_request_db = (Inr row, d')"
    by (metis is_ok_iff prod.collapse)
  moreover have "rr_status row = RowStatusParsed"
    using s sample_parsed_normalizes request_row_insert
    by (auto simp: stageRow_def Let_def is_ok_iff split: sum.splits prod.splits)
  moreover have "is_ascii (p_RawSNILS sample_parsed)" "is_ascii (p_RawEmail sample_parsed)"
    by (simp_all add: sample_parsed_def byte_def)
  ultimately show ?thesis using staged_row_revalidates by blast
qed

end
