(* ===== verification/RequestTextProps.thy ===== *)
theory RequestTextProps
  imports RequestSamples
begin

text \<open>
  The properties of the text handling of the requests slice: which spreadsheet rows come out of
  the parser, the normal form of a SNILS, and the quoting of the raw row copies.
\<close>

text \<open>
  C11. The rows the parser returns are the rows below the header that have a non-blank cell,
  each with its spreadsheet row number, in increasing order; a blank row in the middle is left
  out and does not end the parse.
\<close>

theorem ParseXLSX_rows:
  assumes "ParseXLSX ctx data = Inr out"
  shows "\<exists>wb header body h. e_open_xlsx ctx data = Inr wb
     \<and> wb_rows wb (pickSheet (e_unicode ctx) (wb_sheets wb)) = Inr (header # body)
     \<and> buildHeaderIndex (e_unicode ctx) header = Some h
     \<and> set out = {parse_row (e_unicode ctx) h (int i + 2) (body ! i) | i.
                   i < length body \<and> \<not> isRowEmpty (body ! i)}
     \<and> sorted_wrt (<) (map p_RowNumber out)"
proof -
  obtain wb header body h where
    w: "e_open_xlsx ctx data = Inr wb"
      "wb_rows wb (pickSheet (e_unicode ctx) (wb_sheets wb)) = Inr (header # body)"
      "buildHeaderIndex (e_unicode ctx) header = Some h"
    and out: "out = parse_rows (e_unicode ctx) h 2 body"
    using assms unfolding ParseXLSX_Inr by blast
  have "set out = {parse_row (e_unicode ctx) h (int i + 2) (body ! i) | i.
                   i < length body \<and> \<not> isRowEmpty (body ! i)}"
    using parse_rows_set [of _ "e_unicode ctx" h 2 body] by (auto simp: out algebra_simps)
  with w parse_rows_sorted [of "e_unicode ctx" h 2 body] out show ?thesis by blast
qed

definition sample_sheet :: "string list list" where
  "sample_sheet = [[''email'', bytes [209, 132, 208, 184, 208, 190],
       bytes [209, 129, 208, 189, 208, 184, 208, 187, 209, 129], ''programs''],
     [''a@b.c'', ''X'', ''1'', ''A-1''], [], [''d@e.f'', ''Y'', ''2'', ''A-1'']]"

definition sample_xlsx_env :: env where
  "sample_xlsx_env = sample_env\<lparr>e_open_xlsx :=
     (\<lambda>_. Inr \<lparr>wb_sheets = [request_sheet], wb_rows = (\<lambda>_. Inr sample_sheet)\<rparr>)\<rparr>"

lemma take_bit_8: "n < 256 \<Longrightarrow> take_bit 8 n = (n::nat)"
  by (simp add: take_bit_eq_mod)

lemmas space_eval = starts_space_def ends_space_def space_encodings_def bytes_def HasPrefix_def
  char_of_eq_iff take_bit_8

lemma sample_header_trim:
  "TrimSpace (bytes [209, 132, 208, 184, 208, 190]) = bytes [209, 132, 208, 184, 208, 190]"
  "TrimSpace (bytes [209, 129, 208, 189, 208, 184, 208, 187, 209, 129])
     = bytes [209, 129, 208, 189, 208, 184, 208, 187, 209, 129]"
  by (rule TrimSpace_id; simp add: space_eval)+

lemma sample_header_kinds:
  "parserColumns (ToLower sample_unicode (TrimSpace (bytes [209, 132, 208, 184, 208, 190])))
     = Some fieldFullName"
  "parserColumns (ToLower sample_unicode
     (TrimSpace (bytes [209, 129, 208, 189, 208, 184, 208, 187, 209, 129]))) = Some fieldSNILS"
  "parserColumns (ToLower sample_unicode (TrimSpace ''email'')) = Some fieldEmail"
  "parserColumns (ToLower sample_unicode (TrimSpace ''programs'')) = Some fieldPrograms"
proof -
  have t: "TrimSpace ''email'' = ''email''" "TrimSpace ''programs'' = ''programs''"
    by (rule TrimSpace_solid; simp add: solid_def byte_def)+
  have l: "ToLower sample_unicode ''email'' = ''email''"
    "ToLower sample_unicode ''programs'' = ''programs''"
    by (simp_all add: ToLower_def ascii_lower_def byte_def)
  have n: "\<not> is_ascii (bytes (209 # ns))" for ns by (simp add: bytes_def)
  have len: "length (bytes ns) = length ns" for ns by (simp add: bytes_def)
  have other: "length x \<noteq> length y \<Longrightarrow> map_of ((y, v) # al) x = map_of al x"
    for x y :: string and v :: fieldKind and al by auto
  show "parserColumns (ToLower sample_unicode (TrimSpace (bytes [209, 132, 208, 184, 208, 190])))
      = Some fieldFullName"
    by (simp add: sample_header_trim ToLower_def n sample_unicode_def parserColumns_def)
  show "parserColumns (ToLower sample_unicode
     (TrimSpace (bytes [209, 129, 208, 189, 208, 184, 208, 187, 209, 129]))) = Some fieldSNILS"
    unfolding sample_header_trim parserColumns_def
    by (simp add: ToLower_def n sample_unicode_def other len del: map_of.simps) simp
  show "parserColumns (ToLower sample_unicode (TrimSpace ''email'')) = Some fieldEmail"
    unfolding t l parserColumns_def by (simp add: other len del: map_of.simps) simp
  show "parserColumns (ToLower sample_unicode (TrimSpace ''programs'')) = Some fieldPrograms"
    unfolding t l parserColumns_def by (simp add: other len del: map_of.simps)
qed

lemma sample_parse: "\<exists>out. ParseXLSX sample_xlsx_env data = Inr out"
proof -
  let ?h = "\<lparr>h_fullName = 1, h_snils = 2, h_email = 0, h_position = -1, h_programs = 3\<rparr>"
  have hd: "buildHeaderIndex sample_unicode (hd sample_sheet) = Some ?h"
    by (simp add: buildHeaderIndex_def sample_sheet_def set_column_def sample_header_kinds)
  have "TrimSpace ''a@b.c'' = ''a@b.c''" by (rule TrimSpace_solid) (simp_all add: solid_def byte_def)
  then have out: "parse_rows sample_unicode ?h 2 (tl sample_sheet) \<noteq> []" by (simp add: sample_sheet_def)
  have "EqualFold sample_unicode request_sheet request_sheet" by (simp add: EqualFold_def)
  then have pick: "pickSheet sample_unicode [request_sheet] = request_sheet" by (simp add: pickSheet_def)
  have sheet: "Inr sample_sheet = Inr (hd sample_sheet # tl sample_sheet)" by (simp add: sample_sheet_def)
  have u: "e_unicode sample_env = sample_unicode" by (simp add: sample_env_def)
  have "request_sheet \<noteq> ''''" by (simp add: request_sheet_def bytes_def)
  then show ?thesis
    unfolding ParseXLSX_Inr using hd out pick sheet
    by (intro exI [of _ "parse_rows sample_unicode ?h 2 (tl sample_sheet)"] exI [of _ ?h]
        exI [of _ "hd sample_sheet"] exI [of _ "tl sample_sheet"]
        exI [of _ "\<lparr>wb_sheets = [request_sheet], wb_rows = (\<lambda>_. Inr sample_sheet)\<rparr>"])
      (simp add: u sample_xlsx_env_def)
qed

theorem ParseXLSX_rows_witness:
  "\<exists>out. ParseXLSX sample_xlsx_env '''' = Inr out \<and> sorted_wrt (<) (map p_RowNumber out)
     \<and> 4 \<in> p_RowNumber ` set out \<and> 3 \<notin> p_RowNumber ` set out"
proof -
  obtain out where o: "ParseXLSX sample_xlsx_env '''' = Inr out" using sample_parse by blast
  from ParseXLSX_rows [OF o] obtain h where
    s: "set out = {parse_row sample_unicode h (int i + 2) (tl sample_sheet ! i) | i.
                   i < length (tl sample_sheet) \<and> \<not> isRowEmpty (tl sample_sheet ! i)}"
    and st: "sorted_wrt (<) (map p_RowNumber out)"
    by (auto simp: sample_xlsx_env_def sample_env_def sample_sheet_def)
  have "TrimSpace ''d@e.f'' = ''d@e.f''" by (rule TrimSpace_solid) (simp_all add: solid_def byte_def)
  then have ne: "\<not> isRowEmpty (tl sample_sheet ! 2)" "isRowEmpty (tl sample_sheet ! 1)"
    by (simp_all add: sample_sheet_def)
  have "parse_row sample_unicode h (int 2 + 2) (tl sample_sheet ! 2) \<in> set out"
    unfolding s using ne(1) by (intro CollectI exI [of _ 2]) (simp add: sample_sheet_def)
  then have "4 \<in> p_RowNumber ` set out" by (force simp: parse_row_def)
  moreover have "3 \<notin> p_RowNumber ` set out"
    unfolding s using ne(2) by (auto simp: parse_row_def)
  ultimately show ?thesis using o st by blast
qed

text \<open>
  A SNILS in ASCII that is accepted comes out as its eleven digits and as the form
  \<open>ddd-ddd-ddd dd\<close>; both are in normal form: normalizing either of them gives the same pair.
\<close>

theorem NormalizeSNILS_normal_form:
  assumes "is_ascii raw" "NormalizeSNILS u raw = Inr (formatted, ds)"
  shows "length ds = 11 \<and> list_all is_ascii_digit ds \<and> ds = filter is_ascii_digit formatted
     \<and> NormalizeSNILS u formatted = Inr (formatted, ds) \<and> NormalizeSNILS u ds = Inr (formatted, ds)"
  using NormalizeSNILS_ascii [OF assms] by blast

theorem NormalizeSNILS_normal_form_witness:
  "NormalizeSNILS sample_unicode ''123-456-789 00'' = Inr (''123-456-789 00'', ''12345678900'')
   \<and> list_all is_ascii_digit ''12345678900''"
proof -
  have "is_ascii ''123-456-789 00''" by (simp add: byte_def)
  from NormalizeSNILS_normal_form [OF this sample_snils(2), of sample_unicode] show ?thesis by blast
qed

subsection \<open>Quoting\<close>

text \<open>
  The reader of a quoted string: up to the next quote that no backslash precedes, resolving the
  escapes, and the rest of the text.
\<close>

fun unescape :: "char \<Rightarrow> char" where
  "unescape c = (if c = CHR ''n'' then char_of (10::nat) else if c = CHR ''r'' then char_of (13::nat)
     else if c = CHR ''t'' then char_of (9::nat) else c)"

fun lex_string :: "string \<Rightarrow> (string \<times> string) option" where
  "lex_string [] = None"
| "lex_string [c] = (if byte c = 34 then Some ([], []) else None)"
| "lex_string (c # e # cs) =
     (if byte c = 34 then Some ([], e # cs)
      else if byte c = 92 then map_option (\<lambda>(s, r). (unescape e # s, r)) (lex_string cs)
      else map_option (\<lambda>(s, r). (c # s, r)) (lex_string (e # cs)))"

lemma byte_char: "byte c = n \<longleftrightarrow> n < 256 \<and> c = char_of n"
  by (metis byte_char_of byte_less char_of_byte)

lemma lex_escaped: "lex_string (escapeJSON s @ char_of (34::nat) # rest) = Some (s, rest)"
proof (induction s)
  case Nil
  then show ?case by (cases rest) (simp_all add: escapeJSON_def)
next
  case (Cons c s)
  let ?t = "escapeJSON s @ char_of (34::nat) # rest"
  have plain: "lex_string (c # t) = map_option (\<lambda>(s, r). (c # s, r)) (lex_string t)"
    if "byte c \<noteq> 34" "byte c \<noteq> 92" "t \<noteq> []" for t
    using that by (cases t) auto
  have esc: "escapeJSON (x # s) = escape_char x @ escapeJSON s" for x by (simp add: escapeJSON_def)
  have letters: "char_of (34::nat) \<noteq> CHR ''n''" "char_of (34::nat) \<noteq> CHR ''r''" "char_of (34::nat) \<noteq> CHR ''t''"
    "char_of (92::nat) \<noteq> CHR ''n''" "char_of (92::nat) \<noteq> CHR ''r''" "char_of (92::nat) \<noteq> CHR ''t''"
    unfolding byte_inject [symmetric] by (simp_all add: byte_def)
  consider "byte c = 92" | "byte c = 34" | "byte c = 10" | "byte c = 13" | "byte c = 9"
    | "byte c \<notin> {92, 34, 10, 13, 9}" by blast
  then show ?case
  proof cases
    case 1
    then have "c = char_of (92::nat)" by (simp add: byte_char)
    then show ?thesis by (simp add: esc escape_char_def Cons.IH letters)
  next
    case 2
    then have "c = char_of (34::nat)" by (simp add: byte_char)
    then show ?thesis by (simp add: esc escape_char_def Cons.IH letters)
  next
    case 3
    then have "c = char_of (10::nat)" by (simp add: byte_char)
    then show ?thesis by (simp add: esc escape_char_def Cons.IH)
  next
    case 4
    then have "c = char_of (13::nat)" by (simp add: byte_char)
    then show ?thesis by (simp add: esc escape_char_def Cons.IH)
  next
    case 5
    then have "c = char_of (9::nat)" by (simp add: byte_char)
    then show ?thesis by (simp add: esc escape_char_def Cons.IH)
  next
    case 6
    then show ?thesis using plain [of ?t] by (simp add: esc escape_char_def Cons.IH)
  qed
qed

text \<open>
  The escaping of the raw row copies loses nothing and cannot be broken out of: reading a
  quoted, escaped string gives back the string, whatever text follows the closing quote.
\<close>

theorem escapeJSON_round_trip:
  "lex_string (escapeJSON s @ [char_of (34::nat)] @ rest) = Some (s, rest)"
  using lex_escaped by simp

end
