(* ===== verification/GoNet.thy ===== *)
theory GoNet
  imports GoConv
begin

text \<open>
  The parts of \<open>net\<close> and \<open>encoding/hex\<close> the admin slice calls: splitting a network address
  into host and port, and reading a string of hexadecimal digits.
\<close>

definition index_byte :: "string \<Rightarrow> char \<Rightarrow> nat option" where
  "index_byte s c = (if c \<in> set s then Some (length (takeWhile (\<lambda>x. x \<noteq> c) s)) else None)"

definition last_index_byte :: "string \<Rightarrow> char \<Rightarrow> nat option" where
  "last_index_byte s c =
     (if c \<in> set s then Some (length s - 1 - length (takeWhile (\<lambda>x. x \<noteq> c) (rev s))) else None)"

text \<open>
  \<open>net.SplitHostPort\<close>: the port starts after the last colon; a host in square brackets may
  hold colons, any other host may not. \<open>None\<close> stands for the \<open>AddrError\<close>.
\<close>

definition split_check :: "string \<Rightarrow> nat \<Rightarrow> nat \<Rightarrow> string \<times> string \<Rightarrow> (string \<times> string) option" where
  "split_check hostport j k r =
     (if CHR ''['' \<in> set (drop j hostport) \<or> CHR '']'' \<in> set (drop k hostport) then None else Some r)"

definition SplitHostPort :: "string \<Rightarrow> (string \<times> string) option" where
  "SplitHostPort hostport =
     (case last_index_byte hostport (CHR '':'') of
        None \<Rightarrow> None
      | Some i \<Rightarrow>
          (let port = drop (i + 1) hostport in
           if hd hostport = CHR ''[''
           then (case index_byte hostport (CHR '']'') of
                   None \<Rightarrow> None
                 | Some e \<Rightarrow>
                     if e + 1 = i then split_check hostport 1 (e + 1) (take (e - 1) (drop 1 hostport), port)
                     else None)
           else if CHR '':'' \<in> set (take i hostport) then None
           else split_check hostport 0 0 (take i hostport, port)))"

text \<open>An address that was joined from a host without colons and brackets splits back.\<close>

lemma last_index_byte_append:
  "c \<notin> set p \<Longrightarrow> last_index_byte (h @ c # p) c = Some (length h)"
proof -
  assume "c \<notin> set p"
  then have "takeWhile (\<lambda>x. x \<noteq> c) (rev (h @ c # p)) = rev p"
    using takeWhile_append_stop [of "rev p" "\<lambda>x. x \<noteq> c" "c # rev h"] by auto
  then show ?thesis by (simp add: last_index_byte_def)
qed

lemma SplitHostPort_join:
  assumes "set h \<inter> {CHR '':'', CHR ''['', CHR '']''} = {}" "set p \<inter> {CHR '':'', CHR ''['', CHR '']''} = {}"
  shows "SplitHostPort (h @ '':'' @ p) = Some (h, p)"
proof -
  have "last_index_byte (h @ '':'' @ p) (CHR '':'') = Some (length h)"
    using last_index_byte_append [of "CHR '':''" p h] assms(2) by auto
  moreover have "hd (h @ '':'' @ p) \<noteq> CHR ''[''" using assms(1) by (cases h) auto
  ultimately show ?thesis using assms by (auto simp: SplitHostPort_def split_check_def Let_def)
qed

subsection \<open>Hexadecimal strings\<close>

definition hex_val :: "char \<Rightarrow> nat option" where
  "hex_val c =
     (let x = byte c in
      if 48 \<le> x \<and> x \<le> 57 then Some (x - 48)
      else if 97 \<le> x \<and> x \<le> 102 then Some (x - 87)
      else if 65 \<le> x \<and> x \<le> 70 then Some (x - 55)
      else None)"

text \<open>\<open>hex.DecodeString\<close>: \<open>None\<close> for a byte that is no digit and for an odd length.\<close>

fun DecodeString :: "string \<Rightarrow> string option" where
  "DecodeString [] = Some []"
| "DecodeString [c] = None"
| "DecodeString (a # b # s) =
     (case (hex_val a, hex_val b, DecodeString s) of
        (Some x, Some y, Some r) \<Rightarrow> Some (char_of (16 * x + y) # r)
      | _ \<Rightarrow> None)"

definition hex_digit :: "nat \<Rightarrow> char" where
  "hex_digit n = char_of (if n < 10 then n + 48 else n + 87)"

text \<open>\<open>hex.EncodeToString\<close>.\<close>

definition EncodeToString :: "string \<Rightarrow> string" where
  "EncodeToString s = concat (map (\<lambda>c. [hex_digit (byte c div 16), hex_digit (byte c mod 16)]) s)"

lemma hex_val_digit: "n < 16 \<Longrightarrow> hex_val (hex_digit n) = Some n"
  by (auto simp: hex_val_def hex_digit_def Let_def)

lemma DecodeString_Encode: "DecodeString (EncodeToString s) = Some s"
proof (induction s)
  case Nil
  then show ?case by (simp add: EncodeToString_def)
next
  case (Cons c s)
  have "byte c div 16 < 16" using byte_less [of c] by linarith
  then have "hex_val (hex_digit (byte c div 16)) = Some (byte c div 16)"
    "hex_val (hex_digit (byte c mod 16)) = Some (byte c mod 16)"
    by (simp_all add: hex_val_digit)
  with Cons show ?case by (simp add: EncodeToString_def)
qed

lemma DecodeString_length: "DecodeString s = Some r \<Longrightarrow> length s = 2 * length r"
  by (induction s arbitrary: r rule: DecodeString.induct) (auto split: option.splits)

lemma EncodeToString_length: "length (EncodeToString s) = 2 * length s"
  using DecodeString_length [OF DecodeString_Encode] .

subsection \<open>Base64\<close>

text \<open>
  \<open>base64.RawURLEncoding\<close>: the URL alphabet without padding. The decoder passes over line breaks,
  refuses any other byte outside the alphabet and a rest of one character, and ignores the bits a
  short last group leaves over.
\<close>

definition b64_char :: "nat \<Rightarrow> char" where
  "b64_char n = (if n < 26 then char_of (n + 65) else if n < 52 then char_of (n + 71)
     else if n < 62 then char_of (n - 4) else if n = 62 then CHR ''-'' else CHR ''_'')"

definition b64_val :: "char \<Rightarrow> nat option" where
  "b64_val c =
     (if 65 \<le> byte c \<and> byte c \<le> 90 then Some (byte c - 65)
      else if 97 \<le> byte c \<and> byte c \<le> 122 then Some (byte c - 71)
      else if 48 \<le> byte c \<and> byte c \<le> 57 then Some (byte c + 4)
      else if c = CHR ''-'' then Some 62
      else if c = CHR ''_'' then Some 63
      else None)"

fun b64_groups :: "nat list \<Rightarrow> nat list" where
  "b64_groups [] = []"
| "b64_groups [a] = [a div 4, (a mod 4) * 16]"
| "b64_groups [a, b] = [a div 4, (a mod 4) * 16 + b div 16, (b mod 16) * 4]"
| "b64_groups (a # b # c # rest) =
     a div 4 # ((a mod 4) * 16 + b div 16) # ((b mod 16) * 4 + c div 64) # (c mod 64) # b64_groups rest"

fun b64_bytes :: "nat list \<Rightarrow> nat list option" where
  "b64_bytes [] = Some []"
| "b64_bytes [x] = None"
| "b64_bytes [x, y] = Some [x * 4 + y div 16]"
| "b64_bytes [x, y, z] = Some [x * 4 + y div 16, (y mod 16) * 16 + z div 4]"
| "b64_bytes (x # y # z # w # rest) =
     map_option (\<lambda>bs. (x * 4 + y div 16) # ((y mod 16) * 16 + z div 4) # ((z mod 4) * 64 + w) # bs) (b64_bytes rest)"

definition b64_EncodeToString :: "string \<Rightarrow> string" where
  "b64_EncodeToString s = map b64_char (b64_groups (map byte s))"

definition b64_DecodeString :: "string \<Rightarrow> string option" where
  "b64_DecodeString s =
     (let s = filter (\<lambda>c. byte c \<noteq> 10 \<and> byte c \<noteq> 13) s in
      if list_ex (\<lambda>c. b64_val c = None) s then None
      else map_option bytes (b64_bytes (map (\<lambda>c. the (b64_val c)) s)))"

lemma b64_char_val:
  assumes "n < 64"
  shows "b64_val (b64_char n) = Some n" "byte (b64_char n) \<noteq> 10" "byte (b64_char n) \<noteq> 13"
  using assms by (auto simp: b64_val_def b64_char_def byte_def)

lemma b64_groups_bound: "\<forall>b \<in> set bs. b < 256 \<Longrightarrow> \<forall>v \<in> set (b64_groups bs). v < 64"
  by (induction bs rule: b64_groups.induct) auto

lemma b64_bytes_groups: "\<forall>b \<in> set bs. b < 256 \<Longrightarrow> b64_bytes (b64_groups bs) = Some bs"
proof (induction bs rule: b64_groups.induct)
  case (2 a)
  then show ?case by simp
next
  case (3 a b)
  then have "b div 16 < 16" by auto
  then show ?case using div_mult_mod_eq [of b 16] by simp
next
  case (4 a b c rest)
  have "((b mod 16) * 4 + c div 64) mod 4 = c div 64" "((b mod 16) * 4 + c div 64) div 4 = b mod 16" using 4(2) by auto
  moreover have "((a mod 4) * 16 + b div 16) mod 16 = b div 16" "((a mod 4) * 16 + b div 16) div 16 = a mod 4" using 4(2) by auto
  ultimately show ?case using 4 by simp
qed simp

lemma b64_round_trip: "b64_DecodeString (b64_EncodeToString s) = Some s"
proof -
  let ?g = "b64_groups (map byte s)"
  have small: "\<forall>v \<in> set ?g. v < 64" by (rule b64_groups_bound) simp
  have keep: "filter (\<lambda>c. byte c \<noteq> 10 \<and> byte c \<noteq> 13) (map b64_char ?g) = map b64_char ?g"
    using small by (auto simp: filter_id_conv b64_char_val)
  have vals: "map (\<lambda>c. the (b64_val c)) (map b64_char ?g) = ?g" using small by (auto simp: b64_char_val map_idI)
  have "\<not> list_ex (\<lambda>c. b64_val c = None) (map b64_char ?g)" using small by (auto simp: list_ex_iff b64_char_val)
  then show ?thesis unfolding b64_DecodeString_def b64_EncodeToString_def Let_def keep vals
    by (simp add: b64_bytes_groups bytes_def comp_def)
qed

lemma b64_nonempty: "b64_EncodeToString s = [] \<longleftrightarrow> s = []"
  by (cases "map byte s" rule: b64_groups.cases) (auto simp: b64_EncodeToString_def)

end
