(* ===== verification/GoURL.thy ===== *)
theory GoURL
  imports GoNet
begin

text \<open>
  \<open>net/url.Parse\<close>, \<open>path.Clean\<close> and \<open>net/http.Redirect\<close>, as far as the login redirect uses
  them. The validation of a non-empty host (ports, bracketed IPv6 literals, zones) is the
  parameter \<open>parse_host\<close>: the redirect only asks whether the host is empty.
\<close>

record URL =
  u_Scheme :: string
  u_Opaque :: string
  u_Host :: string
  u_Path :: string

text \<open>\<open>strings.Cut(s, c)\<close> for a one-byte separator: before and after its first occurrence.\<close>

definition cut :: "char \<Rightarrow> string \<Rightarrow> string \<times> string" where
  "cut c s = (takeWhile (\<lambda>x. x \<noteq> c) s, drop 1 (dropWhile (\<lambda>x. x \<noteq> c) s))"

definition is_letter :: "char \<Rightarrow> bool" where
  "is_letter c = (97 \<le> byte c \<and> byte c \<le> 122 \<or> 65 \<le> byte c \<and> byte c \<le> 90)"

text \<open>\<open>getScheme\<close>; the first argument holds the bytes already passed.\<close>

fun get_scheme :: "string \<Rightarrow> string \<Rightarrow> (string \<times> string) option" where
  "get_scheme seen [] = Some ([], seen)"
| "get_scheme seen (c # s) =
     (if is_letter c then get_scheme (seen @ [c]) s
      else if is_ascii_digit c \<or> c \<in> set ''+-.''
      then (if seen = [] then Some ([], c # s) else get_scheme (seen @ [c]) s)
      else if c = CHR '':'' then (if seen = [] then None else Some (seen, s))
      else Some ([], seen @ c # s))"

text \<open>\<open>unescape\<close> in the modes path, fragment and userinfo: \<open>None\<close> for an incomplete escape.\<close>

fun unescape :: "string \<Rightarrow> string option" where
  "unescape [] = Some []"
| "unescape (c # s) =
     (if c = CHR ''%''
      then (case s of
              a # b # s' \<Rightarrow>
                (case (hex_val a, hex_val b, unescape s') of
                   (Some x, Some y, Some r) \<Rightarrow> Some (char_of (16 * x + y) # r)
                 | _ \<Rightarrow> None)
            | _ \<Rightarrow> None)
      else map_option ((#) c) (unescape s))"

definition valid_userinfo :: "string \<Rightarrow> bool" where
  "valid_userinfo s =
     list_all (\<lambda>c. is_letter c \<or> is_ascii_digit c \<or> c \<in> set ''-._:~!$&()*+,;=%@'' \<or> byte c = 39) s"

definition unescape_userinfo :: "string \<Rightarrow> bool" where
  "unescape_userinfo s =
     (if CHR '':'' \<in> set s
      then unescape (fst (cut (CHR '':'') s)) \<noteq> None \<and> unescape (snd (cut (CHR '':'') s)) \<noteq> None
      else unescape s \<noteq> None)"

text \<open>\<open>parseAuthority\<close>: the host, after an optional user part.\<close>

definition parse_authority :: "(string \<Rightarrow> string option) \<Rightarrow> string \<Rightarrow> string option" where
  "parse_authority parse_host a =
     (let host = (\<lambda>h. if h = '''' then Some '''' else parse_host h) in
      case last_index_byte a (CHR ''@'') of
        None \<Rightarrow> host a
      | Some i \<Rightarrow>
          (case host (drop (i + 1) a) of
             None \<Rightarrow> None
           | Some h \<Rightarrow>
               if valid_userinfo (take i a) \<and> unescape_userinfo (take i a) then Some h else None))"

definition contains_ctl :: "string \<Rightarrow> bool" where
  "contains_ctl s = list_ex (\<lambda>c. byte c < 32 \<or> byte c = 127) s"

definition set_path :: "string \<Rightarrow> string \<Rightarrow> string \<Rightarrow> URL option" where
  "set_path scheme host rest =
     map_option (\<lambda>p. \<lparr>u_Scheme = scheme, u_Opaque = '''', u_Host = host, u_Path = p\<rparr>) (unescape rest)"

text \<open>The part of \<open>parse\<close> behind the scheme and in front of the query.\<close>

definition parse_rest :: "(string \<Rightarrow> string option) \<Rightarrow> string \<Rightarrow> string \<Rightarrow> URL option" where
  "parse_rest parse_host scheme rest =
     (if \<not> HasPrefix rest ''/'' \<and> scheme \<noteq> ''''
      then Some \<lparr>u_Scheme = scheme, u_Opaque = rest, u_Host = '''', u_Path = ''''\<rparr>
      else if \<not> HasPrefix rest ''/'' \<and> CHR '':'' \<in> set (fst (cut (CHR ''/'') rest)) then None
      else if (scheme \<noteq> '''' \<or> \<not> HasPrefix rest ''///'') \<and> HasPrefix rest ''//''
      then (let authority = takeWhile (\<lambda>x. x \<noteq> CHR ''/'') (drop 2 rest);
                rest' = dropWhile (\<lambda>x. x \<noteq> CHR ''/'') (drop 2 rest)
            in case parse_authority parse_host authority of
                 None \<Rightarrow> None
               | Some host \<Rightarrow> set_path scheme host rest')
      else set_path scheme '''' rest)"

definition parse_url :: "(string \<Rightarrow> string option) \<Rightarrow> string \<Rightarrow> URL option" where
  "parse_url parse_host raw =
     (if contains_ctl raw then None
      else if raw = ''*'' then Some \<lparr>u_Scheme = '''', u_Opaque = '''', u_Host = '''', u_Path = ''*''\<rparr>
      else case get_scheme [] raw of
        None \<Rightarrow> None
      | Some (scheme, rest) \<Rightarrow>
          parse_rest parse_host (map ascii_lower scheme) (fst (cut (CHR ''?'') rest)))"

definition url_Parse :: "(string \<Rightarrow> string option) \<Rightarrow> string \<Rightarrow> URL option" where
  "url_Parse parse_host raw =
     (let (u, frag) = cut (CHR ''#'') raw in
      case parse_url parse_host u of
        None \<Rightarrow> None
      | Some url \<Rightarrow> if frag \<noteq> '''' \<and> unescape frag = None then None else Some url)"

subsection \<open>path.Clean\<close>

text \<open>The elements of a path, split at the slashes.\<close>

fun split_on :: "char \<Rightarrow> string \<Rightarrow> string list" where
  "split_on c [] = [[]]"
| "split_on c (x # s) =
     (if x = c then [] # split_on c s
      else case split_on c s of [] \<Rightarrow> [[x]] | w # ws \<Rightarrow> (x # w) # ws)"

text \<open>
  \<open>path.Clean\<close>: empty and dot elements are dropped, and a double dot takes the element before it
  away; at the root it is dropped, at the front of a relative path it stays.
\<close>

fun clean_elems :: "bool \<Rightarrow> string list \<Rightarrow> string list \<Rightarrow> string list" where
  "clean_elems rooted acc [] = rev acc"
| "clean_elems rooted acc (e # es) =
     (if e = [] \<or> e = ''.'' then clean_elems rooted acc es
      else if e = ''..''
      then (if acc \<noteq> [] \<and> hd acc \<noteq> ''..'' then clean_elems rooted (tl acc) es
            else if rooted then clean_elems rooted acc es
            else clean_elems rooted (e # acc) es)
      else clean_elems rooted (e # acc) es)"

definition path_Clean :: "string \<Rightarrow> string" where
  "path_Clean p =
     (if p = [] then ''.''
      else let rooted = (hd p = CHR ''/'');
               out = (if rooted then ''/'' else []) @ Join (clean_elems rooted [] (split_on (CHR ''/'') p)) ''/''
      in if out = [] then ''.'' else out)"

text \<open>\<open>filepath.Base\<close>.\<close>

definition filepath_Base :: "string \<Rightarrow> string" where
  "filepath_Base path =
     (if path = '''' then ''.''
      else let t = rev (takeWhile (\<lambda>c. c \<noteq> CHR ''/'') (dropWhile (\<lambda>c. c = CHR ''/'') (rev path)))
           in if t = '''' then ''/'' else t)"

subsection \<open>http.Redirect\<close>

definition hex_escape_non_ascii :: "string \<Rightarrow> string" where
  "hex_escape_non_ascii s =
     concat (map (\<lambda>c. if byte c < 128 then [c] else CHR ''%'' # EncodeToString [c]) s)"

text \<open>\<open>path.Split\<close>'s directory: everything up to and including the last slash.\<close>

definition dir_of :: "string \<Rightarrow> string" where
  "dir_of p = rev (dropWhile (\<lambda>x. x \<noteq> CHR ''/'') (rev p))"

definition has_suffix :: "string \<Rightarrow> char \<Rightarrow> bool" where
  "has_suffix s c = (s \<noteq> [] \<and> last s = c)"

text \<open>The path of a redirect on the same host, made absolute and cleaned.\<close>

definition local_redirect :: "string \<Rightarrow> string \<Rightarrow> string" where
  "local_redirect oldpath url =
     (let oldpath = (if oldpath = '''' then ''/'' else oldpath);
          url = (if url = '''' \<or> hd url \<noteq> CHR ''/'' then dir_of oldpath @ url else url);
          p = takeWhile (\<lambda>x. x \<noteq> CHR ''?'') url;
          query = dropWhile (\<lambda>x. x \<noteq> CHR ''?'') url;
          cleaned = path_Clean p
      in (if has_suffix p (CHR ''/'') \<and> \<not> has_suffix cleaned (CHR ''/'') then cleaned @ ''/'' else cleaned)
         @ query)"

text \<open>The \<open>Location\<close> header \<open>http.Redirect\<close> sets for a request with the given path.\<close>

definition redirect_location :: "(string \<Rightarrow> string option) \<Rightarrow> string \<Rightarrow> string \<Rightarrow> string" where
  "redirect_location parse_host oldpath url =
     hex_escape_non_ascii
       (case url_Parse parse_host url of
          None \<Rightarrow> url
        | Some u \<Rightarrow> if u_Scheme u = '''' \<and> u_Host u = '''' then local_redirect oldpath url else url)"

subsection \<open>A cleaned path stays on the host\<close>

lemma split_on_elems: "e \<in> set (split_on c s) \<Longrightarrow> c \<notin> set e"
  by (induction s arbitrary: e rule: split_on.induct) (auto split: if_splits list.splits)

lemma split_on_subset: "e \<in> set (split_on c s) \<Longrightarrow> set e \<subseteq> set s"
proof (induction s arbitrary: e)
  case Nil
  then show ?case by simp
next
  case (Cons x s)
  show ?case
  proof (cases "x = c \<or> split_on c s = []")
    case True
    with Cons.prems Cons.IH [of e] show ?thesis by (auto split: if_splits)
  next
    case False
    then obtain w ws where w: "split_on c s = w # ws" by (cases "split_on c s") auto
    with False Cons.prems have "e = x # w \<or> e \<in> set ws" by auto
    then show ?thesis using Cons.IH [of w] Cons.IH [of e] w by auto
  qed
qed

lemma clean_elems_ok:
  assumes "\<forall>e \<in> set acc. e \<noteq> [] \<and> e \<in> E" "set es \<subseteq> E"
  shows "\<forall>e \<in> set (clean_elems rooted acc es). e \<noteq> [] \<and> e \<in> E"
  using assms
proof (induction es arbitrary: acc)
  case Nil
  then show ?case by simp
next
  case (Cons x es)
  have es: "set es \<subseteq> E" "x \<in> E" using Cons.prems(2) by simp_all
  have tl: "\<forall>e \<in> set (tl acc). e \<noteq> [] \<and> e \<in> E" using Cons.prems(1) by (cases acc) simp_all
  consider "clean_elems rooted acc (x # es) = clean_elems rooted acc es"
    | "clean_elems rooted acc (x # es) = clean_elems rooted (tl acc) es"
    | "x \<noteq> []" "clean_elems rooted acc (x # es) = clean_elems rooted (x # acc) es"
    unfolding clean_elems.simps
    by (cases "x = []"; cases "x = ''.''"; cases "x = ''..''"; cases "acc \<noteq> [] \<and> hd acc \<noteq> ''..''"; cases rooted; simp)
  then show ?case
  proof cases
    case 1
    then show ?thesis using Cons.IH [OF Cons.prems(1) es(1)] by presburger
  next
    case 2
    then show ?thesis using Cons.IH [OF tl es(1)] by presburger
  next
    case 3
    then have "\<forall>e \<in> set (x # acc). e \<noteq> [] \<and> e \<in> E" using Cons.prems(1) es(2) by simp
    from Cons.IH [OF this es(1)] 3(2) show ?thesis by presburger
  qed
qed

text \<open>A host-local reference: one slash, then neither a slash nor a backslash.\<close>

definition stays_on_host :: "string \<Rightarrow> bool" where
  "stays_on_host s =
     (s \<noteq> [] \<and> hd s = CHR ''/'' \<and> (tl s \<noteq> [] \<longrightarrow> hd (tl s) \<noteq> CHR ''/'' \<and> byte (hd (tl s)) \<noteq> 92))"

lemma path_Clean_rooted:
  "p \<noteq> [] \<Longrightarrow> hd p = CHR ''/'' \<Longrightarrow>
     path_Clean p = CHR ''/'' # Join (clean_elems True [] (split_on (CHR ''/'') p)) ''/''"
  by (simp add: path_Clean_def)

lemma path_Clean_local:
  assumes "char_of (92::nat) \<notin> set p" "p \<noteq> []" "hd p = CHR ''/''"
  shows "stays_on_host (path_Clean p)"
proof -
  define es where "es = clean_elems True [] (split_on (CHR ''/'') p)"
  have p: "path_Clean p = CHR ''/'' # Join es ''/''" by (simp add: path_Clean_rooted assms(2,3) es_def)
  have es: "\<forall>e \<in> set es. e \<noteq> [] \<and> e \<in> set (split_on (CHR ''/'') p)"
    unfolding es_def by (rule clean_elems_ok) auto
  have good: "e \<noteq> [] \<and> hd e \<noteq> CHR ''/'' \<and> byte (hd e) \<noteq> 92" if "e \<in> set es" for e
  proof -
    from es that have e: "e \<noteq> []" "e \<in> set (split_on (CHR ''/'') p)" by auto
    then have "hd e \<in> set e" by simp
    with e split_on_elems split_on_subset assms(1) have "hd e \<noteq> CHR ''/''" "hd e \<noteq> char_of (92::nat)"
      by (metis, metis subsetD)
    with e(1) show ?thesis by (metis char_of_byte)
  qed
  show ?thesis
  proof (cases es)
    case Nil
    then show ?thesis by (simp add: p stays_on_host_def)
  next
    case (Cons e es')
    then have e: "e \<noteq> []" "hd e \<noteq> CHR ''/''" "byte (hd e) \<noteq> 92" using good by auto
    have "\<exists>r. Join es ''/'' = e @ r" using Cons by (cases es') auto
    then obtain r where "Join es ''/'' = e @ r" by blast
    with e show ?thesis by (simp add: p stays_on_host_def)
  qed
qed

lemma stays_on_host_escape: "stays_on_host s \<Longrightarrow> stays_on_host (hex_escape_non_ascii s)"
  by (cases s; cases "tl s") (auto simp: stays_on_host_def hex_escape_non_ascii_def byte_def)

end
