(* ===== verification/Http.thy ===== *)
theory Http
  imports Services GoURL
begin

text \<open>
  Requests, responses and the request context of the HTTP layer, the session manager as a
  parameter, and the helpers of \<^verbatim>\<open>api/response.go\<close> and \<^verbatim>\<open>api/trace.go\<close>.

  A request is what \<open>net/http\<close> and its decoders hand to the handlers: the parsed form, the
  media type and the decoded JSON body are fields of it, with \<open>None\<close> where decoding failed. A
  handler maps the context, the request and the world (database and session of the request)
  to the response and the world it leaves.
\<close>

record loginRequest =
  lr_Login :: string
  lr_Password :: string

record http_request =
  rq_Method :: string
  rq_Path :: string
  rq_RequestURI :: string
  rq_RemoteAddr :: string
  rq_form :: "(string \<times> string) list option"
  rq_media_type :: "string option"
  rq_login_json :: "loginRequest option"

definition FormValue :: "http_request \<Rightarrow> string \<Rightarrow> string" where
  "FormValue rq key =
     (case rq_form rq of
        None \<Rightarrow> ''''
      | Some kvs \<Rightarrow> (case map_of kvs key of None \<Rightarrow> '''' | Some v \<Rightarrow> v))"

text \<open>The texts of problem documents that are shown to the operator.\<close>

datatype detail = AuthenticationRequired | ServiceUnavailable | InsufficientRights | CSRFFailed
  | CSRFTokenUnavailable | UploadTooLarge | MalformedMultipart | UnknownImport | MalformedRequest | UploadNotXLSX
  | WorkbookNotSupported | UploadedBefore | KeyOfAnotherImport | ImportQueueFull | InternalFailure
  | UnknownRoute | UnsupportedMethod

record Problem =
  pb_Status :: int
  pb_Code :: string
  pb_Detail :: detail
  pb_TraceID :: string
  pb_ExistingImportID :: int

datatype body = Text string | Json "(string \<times> json) list" | ProblemDocument Problem

record response =
  rs_Status :: int
  rs_Headers :: "(string \<times> string) list"
  rs_Body :: body

record APIIdentity =
  ai_ID :: int
  ai_Login :: string
  ai_Role :: string

text \<open>
  The values published on a request context: the actor of the audit package is the \<open>e_actor\<close>
  of the environment; the others have their own keys.
\<close>

record http_ctx =
  cx_env :: env
  cx_user_login :: string
  cx_identity :: "APIIdentity option"
  cx_trace :: string

text \<open>
  \<open>http.Error\<close>, \<open>http.Redirect\<close>, \<open>WriteJSON\<close> and \<open>WriteProblem\<close>.
\<close>

definition http_error :: "string \<Rightarrow> int \<Rightarrow> response" where
  "http_error msg code =
     \<lparr>rs_Status = code, rs_Headers = [(''Content-Type'', ''text/plain; charset=utf-8'')],
      rs_Body = Text (msg @ [char_of (10::nat)])\<rparr>"

definition http_redirect :: "(string \<Rightarrow> string option) \<Rightarrow> http_request \<Rightarrow> string \<Rightarrow> int \<Rightarrow> response" where
  "http_redirect parse_host rq url code =
     \<lparr>rs_Status = code,
      rs_Headers = [(''Location'', redirect_location parse_host (rq_Path rq) url)],
      rs_Body = Text ''''\<rparr>"

definition WriteJSON :: "int \<Rightarrow> (string \<times> json) list \<Rightarrow> response" where
  "WriteJSON status value =
     \<lparr>rs_Status = status, rs_Headers = [(''Content-Type'', ''application/json; charset=utf-8'')],
      rs_Body = Json value\<rparr>"

definition TraceID :: "http_ctx \<Rightarrow> string" where
  "TraceID cx = cx_trace cx"

definition WriteProblem :: "http_ctx \<Rightarrow> int \<Rightarrow> string \<Rightarrow> detail \<Rightarrow> int \<Rightarrow> response" where
  "WriteProblem cx status code det existing =
     \<lparr>rs_Status = status,
      rs_Headers = [(''Content-Type'', ''application/problem+json; charset=utf-8'')],
      rs_Body = ProblemDocument \<lparr>pb_Status = status, pb_Code = code, pb_Detail = det,
        pb_TraceID = TraceID cx, pb_ExistingImportID = existing\<rparr>\<rparr>"

subsection \<open>Sessions\<close>

text \<open>
  The session manager (\<open>scs\<close>) works on the session of the request. \<open>Put\<close> takes any value;
  \<open>GetInt64\<close> and \<open>GetString\<close> give the zero value when there is none of that type.
\<close>

datatype sval = SInt int | SStr string

record 's SessionManager =
  sm_RenewToken :: "'s \<Rightarrow> string option \<times> 's"
  sm_Put :: "string \<Rightarrow> sval \<Rightarrow> 's \<Rightarrow> 's"
  sm_GetInt64 :: "string \<Rightarrow> 's \<Rightarrow> int"
  sm_GetString :: "string \<Rightarrow> 's \<Rightarrow> string"
  sm_Destroy :: "'s \<Rightarrow> string option \<times> 's"

record 's world =
  w_db :: db
  w_session :: 's

type_synonym 's handler = "http_ctx \<Rightarrow> http_request \<Rightarrow> 's world \<Rightarrow> response \<times> 's world"

text \<open>
  What the sources rely on: a stored value is read back under its key and leaves the other
  keys alone, and a destroyed session has no values.
\<close>

definition session_laws :: "'s SessionManager \<Rightarrow> bool" where
  "session_laws sm \<longleftrightarrow>
     (\<forall>k v s. sm_GetInt64 sm k (sm_Put sm k (SInt v) s) = v)
     \<and> (\<forall>k v s. sm_GetString sm k (sm_Put sm k (SStr v) s) = v)
     \<and> (\<forall>k k' v s. k' \<noteq> k \<longrightarrow> sm_GetInt64 sm k' (sm_Put sm k v s) = sm_GetInt64 sm k' s
          \<and> sm_GetString sm k' (sm_Put sm k v s) = sm_GetString sm k' s)
     \<and> (\<forall>k s s'. sm_Destroy sm s = (None, s') \<longrightarrow> sm_GetInt64 sm k s' = 0 \<and> sm_GetString sm k s' = '''')"

text \<open>\<open>TraceMiddleware\<close>: sixteen random bytes, in hexadecimal, on the context and in a header.\<close>

definition TraceMiddleware :: "string option \<Rightarrow> 's handler \<Rightarrow> 's handler" where
  "TraceMiddleware raw next cx rq w =
     (case raw of
        None \<Rightarrow> (http_error ''Internal Server Error'' 500, w)
      | Some r \<Rightarrow>
          (let traceID = EncodeToString r; (rs, w') = next (cx\<lparr>cx_trace := traceID\<rparr>) rq w
           in (rs\<lparr>rs_Headers := (''X-Trace-ID'', traceID) # rs_Headers rs\<rparr>, w')))"

end
