(* ===== verification/RateLimit.thy ===== *)
theory RateLimit
  imports Complex_Main GoNet
begin

text \<open>
  The login rate limiter (\<^verbatim>\<open>admin/ratelimit.go\<close>): a token bucket per client address. The
  \<open>float64\<close> token counts and the rate are rational numbers here, so rounding errors of floating
  point are not modelled; times and durations are nanoseconds. The clock reading of a call is
  an argument.

  The lemmas bound the tokens of a bucket, bound the number of requests a client gets through
  in any span of time, and relate the \<open>retryAfter\<close> of a refusal to the time from which a retry
  is admitted.
\<close>

record tokenBucket =
  tokens :: rat
  lastRefill :: int

record RateLimiter =
  maxTokens :: int
  refillPerNs :: rat
  buckets :: "string \<rightharpoonup> tokenBucket"

definition time_Minute :: int where
  "time_Minute = 60000000000"

definition NewRateLimiter :: "int \<Rightarrow> int \<Rightarrow> RateLimiter" where
  "NewRateLimiter max_tokens window =
     (let max_tokens = (if max_tokens < 1 then 1 else max_tokens);
          window = (if window \<le> 0 then time_Minute else window)
      in \<lparr>maxTokens = max_tokens, refillPerNs = of_int max_tokens / of_int window,
          buckets = Map.empty\<rparr>)"

text \<open>\<open>time.Time.Sub\<close> saturates at the ends of \<open>int64\<close>.\<close>

definition time_Sub :: "int \<Rightarrow> int \<Rightarrow> int" where
  "time_Sub t u = max int64_min (min int64_max (t - u))"

text \<open>The refill of one bucket.\<close>

definition refill :: "RateLimiter \<Rightarrow> int \<Rightarrow> tokenBucket \<Rightarrow> tokenBucket" where
  "refill r now bucket =
     (let elapsed = time_Sub now (lastRefill bucket) in
      if elapsed > 0
      then (let t = tokens bucket + of_int elapsed * refillPerNs r
            in \<lparr>tokens = (if t > of_int (maxTokens r) then of_int (maxTokens r) else t), lastRefill = now\<rparr>)
      else bucket)"

definition Allow :: "int \<Rightarrow> string \<Rightarrow> RateLimiter \<Rightarrow> (bool \<times> int) \<times> RateLimiter" where
  "Allow now key r =
     (let bucket = (case buckets r key of
                      Some b \<Rightarrow> b
                    | None \<Rightarrow> \<lparr>tokens = of_int (maxTokens r), lastRefill = now\<rparr>);
          bucket = refill r now bucket
      in if tokens bucket \<ge> 1
         then ((True, 0),
               r\<lparr>buckets := (buckets r)(key \<mapsto> bucket\<lparr>tokens := tokens bucket - 1\<rparr>)\<rparr>)
         else (let missing = 1 - tokens bucket;
                   nsNeeded = \<lfloor>missing / refillPerNs r\<rfloor>;
                   nsNeeded = (if nsNeeded < 1 then 1 else nsNeeded)
               in ((False, nsNeeded), r\<lparr>buckets := (buckets r)(key \<mapsto> bucket)\<rparr>)))"

definition Reset :: "RateLimiter \<Rightarrow> RateLimiter" where
  "Reset r = r\<lparr>buckets := Map.empty\<rparr>"

text \<open>A limiter in order: a positive rate, and between 0 and \<open>maxTokens\<close> tokens per bucket.\<close>

definition limiter_ok :: "RateLimiter \<Rightarrow> bool" where
  "limiter_ok r \<longleftrightarrow> 1 \<le> maxTokens r \<and> 0 < refillPerNs r
     \<and> (\<forall>b \<in> ran (buckets r). 0 \<le> tokens b \<and> tokens b \<le> of_int (maxTokens r))"

lemma NewRateLimiter_ok: "limiter_ok (NewRateLimiter m w)"
  by (auto simp: limiter_ok_def NewRateLimiter_def Let_def time_Minute_def)

lemma refill_bounds:
  assumes "0 < refillPerNs r" "0 \<le> tokens b" "tokens b \<le> of_int (maxTokens r)" "1 \<le> maxTokens r"
  shows "0 \<le> tokens (refill r now b)" "tokens (refill r now b) \<le> of_int (maxTokens r)"
proof -
  have "0 \<le> of_int (time_Sub now (lastRefill b)) * refillPerNs r" if "time_Sub now (lastRefill b) > 0"
    using that assms(1) by simp
  then show "0 \<le> tokens (refill r now b)" "tokens (refill r now b) \<le> of_int (maxTokens r)"
    using assms by (auto simp: refill_def Let_def)
qed

text \<open>The bucket a call works on, before and after the call.\<close>

definition bucket_of :: "RateLimiter \<Rightarrow> int \<Rightarrow> string \<Rightarrow> tokenBucket" where
  "bucket_of r now key = (case buckets r key of
     Some b \<Rightarrow> b | None \<Rightarrow> \<lparr>tokens = of_int (maxTokens r), lastRefill = now\<rparr>)"

lemma Allow_unfold:
  "Allow now key r =
     (let b = refill r now (bucket_of r now key) in
      if tokens b \<ge> 1
      then ((True, 0), r\<lparr>buckets := (buckets r)(key \<mapsto> b\<lparr>tokens := tokens b - 1\<rparr>)\<rparr>)
      else ((False, max 1 \<lfloor>(1 - tokens b) / refillPerNs r\<rfloor>), r\<lparr>buckets := (buckets r)(key \<mapsto> b)\<rparr>))"
  by (auto simp: Allow_def bucket_of_def Let_def max_def)

lemma bucket_of_bounds:
  assumes "limiter_ok r"
  shows "0 \<le> tokens (bucket_of r now key)" "tokens (bucket_of r now key) \<le> of_int (maxTokens r)"
  using assms by (auto simp: bucket_of_def limiter_ok_def ran_def split: option.splits)

lemma refilled_bounds:
  assumes "limiter_ok r"
  shows "0 \<le> tokens (refill r now (bucket_of r now key))"
    "tokens (refill r now (bucket_of r now key)) \<le> of_int (maxTokens r)"
  using refill_bounds [OF _ bucket_of_bounds [OF assms]] assms by (simp_all add: limiter_ok_def)

lemma Allow_other [simp]:
  "maxTokens (snd (Allow now key r)) = maxTokens r"
  "refillPerNs (snd (Allow now key r)) = refillPerNs r"
  "key' \<noteq> key \<Longrightarrow> buckets (snd (Allow now key r)) key' = buckets r key'"
  by (simp_all add: Allow_unfold Let_def)

lemma Allow_ok: "limiter_ok r \<Longrightarrow> limiter_ok (snd (Allow now key r))"
  using refilled_bounds [of r now key]
  by (auto simp: Allow_unfold Let_def limiter_ok_def ran_def split: if_splits)

lemma Allow_retry_pos: "fst (Allow now key r) = (False, w) \<Longrightarrow> 1 \<le> w"
  by (auto simp: Allow_unfold Let_def split: if_splits)

subsection \<open>Runs of calls\<close>

text \<open>A sequence of calls, each with its clock reading and its key, and what they returned.\<close>

fun calls :: "(int \<times> string) list \<Rightarrow> RateLimiter \<Rightarrow> bool list \<times> RateLimiter" where
  "calls [] r = ([], r)"
| "calls ((now, key) # cs) r =
     (let ((ok, w), r') = Allow now key r; (oks, r'') = calls cs r' in (ok # oks, r''))"

text \<open>The calls of one client that were admitted.\<close>

definition admitted :: "string \<Rightarrow> (int \<times> string) list \<Rightarrow> RateLimiter \<Rightarrow> nat" where
  "admitted key cs r =
     length (filter (\<lambda>((now, k), ok). k = key \<and> ok) (zip cs (fst (calls cs r))))"

lemma admitted_simps [simp]:
  "admitted key [] r = 0"
  "admitted key ((now, k) # cs) r =
     (if k = key \<and> fst (fst (Allow now k r)) then 1 else 0) + admitted key cs (snd (Allow now k r))"
  by (simp_all add: admitted_def Let_def split: prod.splits)

lemma calls_ok: "limiter_ok r \<Longrightarrow> limiter_ok (snd (calls cs r))"
proof (induction cs arbitrary: r)
  case Nil
  then show ?case by simp
next
  case (Cons c cs)
  obtain now key where c: "c = (now, key)" by fastforce
  show ?case using Cons.IH [OF Allow_ok [OF Cons.prems, of now key]]
    by (auto simp: c Let_def split: prod.splits)
qed

text \<open>
  The potential of a bucket that was last refilled at or after \<open>t0\<close>: its tokens, less what the
  refills since \<open>t0\<close> may have added.
\<close>

lemma refill_potential:
  assumes "limiter_ok r" "lastRefill b \<le> now"
  shows "tokens (refill r now b) \<le> tokens b + of_int (now - lastRefill b) * refillPerNs r"
    and "lastRefill (refill r now b) = now"
proof -
  have pos: "0 < refillPerNs r" using assms(1) by (simp add: limiter_ok_def)
  have "of_int (time_Sub now (lastRefill b)) \<le> (of_int (now - lastRefill b) :: rat)"
    using assms(2) by (simp add: time_Sub_def int64_min_def)
  then have le: "of_int (time_Sub now (lastRefill b)) * refillPerNs r
      \<le> of_int (now - lastRefill b) * refillPerNs r"
    using pos by (simp add: mult_right_mono)
  have zero: "now = lastRefill b" if "\<not> time_Sub now (lastRefill b) > 0"
    using that assms(2) by (auto simp: time_Sub_def int64_max_def)
  show "tokens (refill r now b) \<le> tokens b + of_int (now - lastRefill b) * refillPerNs r"
    using le zero by (auto simp: refill_def Let_def)
  show "lastRefill (refill r now b) = now" using zero by (auto simp: refill_def Let_def)
qed

text \<open>
  Calls in clock order, all of them in \<open>{t..t1}\<close>: a client whose bucket was refilled at \<open>t\<close> gets
  through at most its tokens plus what the bucket gains until \<open>t1\<close>.
\<close>

lemma admitted_bound:
  assumes "limiter_ok r" "buckets r key = Some b" "lastRefill b \<le> t" "t \<le> t1"
    and "sorted (map fst cs)" "\<forall>c \<in> set cs. t \<le> fst c \<and> fst c \<le> t1"
  shows "of_nat (admitted key cs r) \<le> tokens b + of_int (t1 - lastRefill b) * refillPerNs r"
  using assms
proof (induction cs arbitrary: r b t)
  case Nil
  then have "0 \<le> tokens b" "0 \<le> of_int (t1 - lastRefill b) * refillPerNs r"
    by (auto simp: limiter_ok_def ran_def)
  then show ?case by simp
next
  case (Cons c cs)
  obtain now k where c: "c = (now, k)" by fastforce
  let ?r = "snd (Allow now k r)"
  have now: "t \<le> now" "now \<le> t1" "sorted (map fst cs)" "\<forall>x \<in> set cs. now \<le> fst x \<and> fst x \<le> t1"
    using Cons.prems(5,6) c by auto
  have ok: "limiter_ok ?r" by (rule Allow_ok) fact
  show ?case
  proof (cases "k = key")
    case False
    then have "buckets ?r key = Some b" using Cons.prems(2) by simp
    then have "of_nat (admitted key cs ?r) \<le> tokens b + of_int (t1 - lastRefill b) * refillPerNs ?r"
      using Cons.prems(3) now by (intro Cons.IH [OF ok, of b now]) auto
    with False c show ?thesis by simp
  next
    case True
    define b' where "b' = refill r now b"
    define ok1 where "ok1 = (tokens b' \<ge> 1)"
    have bof: "bucket_of r now key = b" using Cons.prems(2) by (simp add: bucket_of_def)
    have b': "tokens b' \<le> tokens b + of_int (now - lastRefill b) * refillPerNs r" "lastRefill b' = now"
      using refill_potential [OF Cons.prems(1), of b now] Cons.prems(3) now by (auto simp: b'_def)
    have al: "fst (fst (Allow now key r)) = ok1"
      "buckets (snd (Allow now key r)) key = Some (b'\<lparr>tokens := tokens b' - (if ok1 then 1 else 0)\<rparr>)"
      by (auto simp: Allow_unfold Let_def bof b'_def ok1_def)
    have "of_nat (admitted key cs ?r) \<le> tokens b' - (if ok1 then 1 else 0) + of_int (t1 - now) * refillPerNs ?r"
      using Cons.IH [OF ok, of _ now] al b'(2) now True by fastforce
    moreover have "of_int (now - lastRefill b) * refillPerNs r + of_int (t1 - now) * refillPerNs r
        = of_int (t1 - lastRefill b) * refillPerNs r" by (simp add: algebra_simps)
    ultimately show ?thesis using c True al b'(1) by auto
  qed
qed

text \<open>The first call of a client fills its bucket at most to \<open>maxTokens\<close>.\<close>

lemma admitted_in_span:
  assumes "limiter_ok r" "\<forall>b. buckets r key = Some b \<longrightarrow> lastRefill b \<le> t" "t \<le> t1"
    and "sorted (map fst cs)" "\<forall>c \<in> set cs. t \<le> fst c \<and> fst c \<le> t1"
  shows "of_nat (admitted key cs r) \<le> of_int (maxTokens r) + of_int (t1 - t) * refillPerNs r"
  using assms
proof (induction cs arbitrary: r)
  case Nil
  then show ?case by (auto simp: limiter_ok_def)
next
  case (Cons c cs)
  obtain now k where c: "c = (now, k)" by fastforce
  let ?r = "snd (Allow now k r)"
  have now: "t \<le> now" "now \<le> t1" "sorted (map fst cs)" "\<forall>x \<in> set cs. now \<le> fst x \<and> fst x \<le> t1"
    using Cons.prems(4,5) c by auto
  have ok: "limiter_ok ?r" by (rule Allow_ok) fact
  show ?case
  proof (cases "k = key")
    case True
    define b' where "b' = refill r now (bucket_of r now k)"
    have "lastRefill (bucket_of r now k) \<le> now"
      using Cons.prems(2) now(1) True by (auto simp: bucket_of_def split: option.splits)
    then have b': "lastRefill b' = now" "tokens b' \<le> of_int (maxTokens r)"
      using refill_potential(2) [OF Cons.prems(1)] refilled_bounds(2) [OF Cons.prems(1)]
      by (auto simp: b'_def)
    have al: "fst (fst (Allow now k r)) = (tokens b' \<ge> 1)"
      "buckets ?r k = Some (b'\<lparr>tokens := tokens b' - (if tokens b' \<ge> 1 then 1 else 0)\<rparr>)"
      by (auto simp: Allow_unfold Let_def b'_def)
    have "of_nat (admitted key cs ?r)
        \<le> tokens b' - (if tokens b' \<ge> 1 then 1 else 0) + of_int (t1 - now) * refillPerNs ?r"
      using admitted_bound [OF ok, of key _ now t1 cs] al(2) b'(1) now True by fastforce
    moreover have "of_int (t1 - now) * refillPerNs r \<le> of_int (t1 - t) * refillPerNs r"
      using Cons.prems(1) now(1) by (intro mult_right_mono) (auto simp: limiter_ok_def)
    ultimately show ?thesis using c True al(1) b'(2) by auto
  next
    case False
    then have "of_nat (admitted key cs ?r) \<le> of_int (maxTokens ?r) + of_int (t1 - t) * refillPerNs ?r"
      using Cons.prems c by (intro Cons.IH [OF ok]) auto
    with False c show ?thesis by simp
  qed
qed

subsection \<open>Retrying after a refusal\<close>

text \<open>
  After a refusal with \<open>retryAfter = w\<close>, a retry less than \<open>w\<close> later is refused, and one at least
  \<open>w + 1\<close> nanoseconds later is admitted, when nothing else used the bucket.
\<close>

lemma Allow_refused:
  assumes "limiter_ok r" "Allow now key r = ((False, w), r')"
  obtains b where "buckets r' key = Some b" "tokens b < 1" "0 \<le> tokens b"
    "w = max 1 \<lfloor>(1 - tokens b) / refillPerNs r\<rfloor>" "refillPerNs r' = refillPerNs r"
    "maxTokens r' = maxTokens r" "b = refill r now (bucket_of r now key)"
  using assms(2) refilled_bounds [OF assms(1), of now key]
  by (auto simp: Allow_unfold Let_def split: if_splits)

lemma retry_refused:
  assumes "limiter_ok r" "Allow now key r = ((False, w), r')"
    and "\<forall>b. buckets r key = Some b \<longrightarrow> lastRefill b \<le> now" "now \<le> t" "t < now + w" "1 < w"
  shows "\<not> fst (fst (Allow t key r'))"
proof -
  obtain b where b: "buckets r' key = Some b" "tokens b < 1" "0 \<le> tokens b"
    "w = max 1 \<lfloor>(1 - tokens b) / refillPerNs r\<rfloor>" "refillPerNs r' = refillPerNs r"
    "b = refill r now (bucket_of r now key)"
    using Allow_refused [OF assms(1,2)] by metis
  have ok: "limiter_ok r'" using Allow_ok [OF assms(1), of now key] assms(2) by simp
  have pos: "0 < refillPerNs r" using assms(1) by (simp add: limiter_ok_def)
  have "lastRefill (bucket_of r now key) \<le> now"
    using assms(3) by (auto simp: bucket_of_def split: option.splits)
  then have last: "lastRefill b = now" using refill_potential(2) [OF assms(1)] b(6) by simp
  have "of_int w \<le> (1 - tokens b) / refillPerNs r" using b(4) assms(6) by (auto simp: max_def split: if_splits)
  moreover have "of_int (t - now) < (of_int w :: rat)" using assms(5) by simp
  ultimately have "of_int (t - now) * refillPerNs r < 1 - tokens b"
    using pos by (simp add: pos_le_divide_eq less_le_trans mult_strict_right_mono) 
      (metis less_le_trans mult_strict_right_mono)
  moreover have "tokens (refill r' t b) \<le> tokens b + of_int (t - now) * refillPerNs r"
    using refill_potential(1) [OF ok, of b t] last assms(4) b(5) by simp
  ultimately show ?thesis using b(1) by (simp add: Allow_unfold Let_def bucket_of_def)
qed

lemma retry_admitted:
  assumes "limiter_ok r" "Allow now key r = ((False, w), r')"
    and "\<forall>b. buckets r key = Some b \<longrightarrow> lastRefill b \<le> now" "now + w < t" "t - now \<le> int64_max"
  shows "fst (Allow t key r') = (True, 0)"
proof -
  obtain b where b: "buckets r' key = Some b" "tokens b < 1" "0 \<le> tokens b"
    "w = max 1 \<lfloor>(1 - tokens b) / refillPerNs r\<rfloor>" "refillPerNs r' = refillPerNs r"
    "maxTokens r' = maxTokens r" "b = refill r now (bucket_of r now key)"
    using Allow_refused [OF assms(1,2)] by metis
  have pos: "0 < refillPerNs r" "1 \<le> maxTokens r" using assms(1) by (simp_all add: limiter_ok_def)
  have "lastRefill (bucket_of r now key) \<le> now"
    using assms(3) by (auto simp: bucket_of_def split: option.splits)
  then have last: "lastRefill b = now" using refill_potential(2) [OF assms(1)] b(7) by simp
  have "1 \<le> w" using b(4) by simp
  then have el: "time_Sub t now = t - now" "t - now > 0"
    using assms(4,5) by (auto simp: time_Sub_def int64_min_def)
  have "\<lfloor>(1 - tokens b) / refillPerNs r\<rfloor> + 1 \<le> t - now" using b(4) assms(4) by simp
  then have "(1 - tokens b) / refillPerNs r \<le> of_int (t - now)" by linarith
  then have "1 \<le> tokens b + of_int (t - now) * refillPerNs r"
    using pos(1) by (simp add: pos_divide_le_eq)
  moreover have "(1::rat) \<le> of_int (maxTokens r)" using pos(2) by simp
  ultimately have "1 \<le> tokens (refill r' t b)" using el last b(5,6) by (auto simp: refill_def Let_def)
  then show ?thesis using b(1) by (simp add: Allow_unfold Let_def bucket_of_def)
qed

end
