(* ===== verification/Admin.thy ===== *)
theory Admin
  imports Http RateLimit
begin

text \<open>
  Authentication (\<^verbatim>\<open>admin/\<close>): the user store, the check of the credentials, the bootstrap
  account, the CSRF key, the session settings, the login and logout handlers and the
  middlewares that guard the routes.

  \<open>bcrypt\<close> is a parameter: generating a hash may fail, comparing answers whether the password
  matches. \<open>Authenticate\<close> also returns the comparisons it ran, because the source runs one on
  every path so that the response time does not tell whether a login exists.
\<close>

record bcrypt =
  bc_Generate :: "string \<Rightarrow> (string, string) result"
  bc_Compare :: "string \<Rightarrow> string \<Rightarrow> bool"
  bc_dummyHash :: string

subsection \<open>Store and service\<close>

datatype store_error = ErrUserNotFound | StoreFailed db_error

definition store_lookup :: "(db_error, User) result \<Rightarrow> (store_error, User) result" where
  "store_lookup res =
     (case res of
        Inl ErrNoRows \<Rightarrow> Inl ErrUserNotFound
      | Inl e \<Rightarrow> Inl (StoreFailed e)
      | Inr user \<Rightarrow> Inr user)"

definition GetByLogin :: "db \<Rightarrow> string \<Rightarrow> (store_error, User) result" where
  "GetByLogin d login = store_lookup (q_GetUserByLogin d login)"

definition GetByID :: "db \<Rightarrow> int \<Rightarrow> (store_error, User) result" where
  "GetByID d i = store_lookup (q_GetUser d i)"

datatype auth_error = ErrInvalidCredentials | LookupFailed store_error

definition ErrUserDisabled :: auth_error where
  "ErrUserDisabled = ErrInvalidCredentials"

definition Authenticate ::
  "bcrypt \<Rightarrow> db \<Rightarrow> string \<Rightarrow> string \<Rightarrow> (auth_error, User) result \<times> (string \<times> string) list" where
  "Authenticate bc d login password =
     (if login = '''' \<or> password = ''''
      then (Inl ErrInvalidCredentials, [(bc_dummyHash bc, password)])
      else case GetByLogin d login of
        Inl ErrUserNotFound \<Rightarrow> (Inl ErrInvalidCredentials, [(bc_dummyHash bc, password)])
      | Inl e \<Rightarrow> (Inl (LookupFailed e), [])
      | Inr user \<Rightarrow>
          if us_status user \<noteq> ''active''
          then (Inl ErrUserDisabled, [(us_password_hash user, password)])
          else if \<not> bc_Compare bc (us_password_hash user) password
          then (Inl ErrInvalidCredentials, [(us_password_hash user, password)])
          else (Inr user, [(us_password_hash user, password)]))"

definition errReason :: "auth_error \<Rightarrow> string" where
  "errReason e =
     (if e = ErrInvalidCredentials then ''invalid_credentials''
      else if e = ErrUserDisabled then ''user_disabled''
      else ''internal'')"

subsection \<open>The bootstrap account\<close>

definition BootstrapAdminLogin :: string where
  "BootstrapAdminLogin = ''admin''"

definition BootstrapAdminRole :: string where
  "BootstrapAdminRole = ''admin''"

datatype bootstrap_error = CheckFailed store_error | ErrBootstrapPasswordMissing
  | HashFailed string | InsertFailed db_error

definition EnsureBootstrapAdmin ::
  "bcrypt \<Rightarrow> string \<Rightarrow> string \<Rightarrow> db \<Rightarrow> (bootstrap_error, unit) result \<times> db" where
  "EnsureBootstrapAdmin bc now bootstrapPassword d =
     (if bootstrapPassword = ''''
      then (case GetByLogin d BootstrapAdminLogin of
              Inr _ \<Rightarrow> (Inr (), d)
            | Inl ErrUserNotFound \<Rightarrow> (Inl ErrBootstrapPasswordMissing, d)
            | Inl e \<Rightarrow> (Inl (CheckFailed e), d))
      else case GetByLogin d BootstrapAdminLogin of
        Inr _ \<Rightarrow> (Inr (), d)
      | Inl (StoreFailed e) \<Rightarrow> (Inl (CheckFailed (StoreFailed e)), d)
      | Inl ErrUserNotFound \<Rightarrow>
          (case bc_Generate bc bootstrapPassword of
             Inl e \<Rightarrow> (Inl (HashFailed e), d)
           | Inr hash \<Rightarrow>
               (case q_CreateUser d BootstrapAdminLogin hash BootstrapAdminRole ''active'' now now of
                  Inl e \<Rightarrow> (Inl (InsertFailed e), d)
                | Inr (_, d') \<Rightarrow> (Inr (), d'))))"

subsection \<open>CSRF key and session settings\<close>

definition csrfKeyLength :: nat where
  "csrfKeyLength = 32"

definition padOrTruncate :: "string \<Rightarrow> nat \<Rightarrow> string" where
  "padOrTruncate inp n =
     (if length inp = n then inp
      else take n inp @ replicate (n - length inp) (char_of (0::nat)))"

datatype csrf_error = BadHexLength nat | RandomFailed string

text \<open>The second argument is what \<open>rand.Read\<close> fills the buffer with, or its error.\<close>

definition resolveCSRFKey :: "string \<Rightarrow> (string, string) result \<Rightarrow> (csrf_error, string) result" where
  "resolveCSRFKey raw random =
     (if raw \<noteq> ''''
      then (case DecodeString raw of
              Some decoded \<Rightarrow>
                if length decoded \<noteq> csrfKeyLength then Inl (BadHexLength (length decoded))
                else Inr decoded
            | None \<Rightarrow> Inr (padOrTruncate raw csrfKeyLength))
      else case random of
        Inl e \<Rightarrow> Inl (RandomFailed e)
      | Inr buf \<Rightarrow> Inr buf)"

datatype SameSite = SameSiteLaxMode | SameSiteStrictMode | SameSiteNoneMode

record SessionConfig =
  sc_TTL :: int
  sc_SameSite :: SameSite
  sc_Secure :: bool

datatype session_config_error = BadTTL int | BadSameSite string

definition parseSameSite :: "string \<Rightarrow> (session_config_error, SameSite) result" where
  "parseSameSite raw =
     (if raw = ''lax'' then Inr SameSiteLaxMode
      else if raw = ''strict'' then Inr SameSiteStrictMode
      else if raw = ''none'' then Inr SameSiteNoneMode
      else Inl (BadSameSite raw))"

definition NewSessionConfig ::
  "unicode \<Rightarrow> int \<Rightarrow> string \<Rightarrow> bool \<Rightarrow> (session_config_error, SessionConfig) result" where
  "NewSessionConfig u ttl sameSite secure =
     (if ttl \<le> 0 then Inl (BadTTL ttl)
      else case parseSameSite (ToLower u (TrimSpace sameSite)) of
        Inl e \<Rightarrow> Inl e
      | Inr s \<Rightarrow> Inr \<lparr>sc_TTL = ttl, sc_SameSite = s, sc_Secure = secure\<rparr>)"

subsection \<open>Login and logout\<close>

definition SessionKeyUserID :: string where
  "SessionKeyUserID = ''user_id''"

definition SessionKeyUserLogin :: string where
  "SessionKeyUserLogin = ''user_login''"

definition loginErrorMsg :: string where
  "loginErrorMsg = ''Invalid login or password''"

definition isSafeRedirect :: "unicode \<Rightarrow> (string \<Rightarrow> string option) \<Rightarrow> string \<Rightarrow> bool" where
  "isSafeRedirect u parse_host target =
     (if target = '''' \<or> char_of (92::nat) \<in> set target then False
      else let lower = ToLower u target in
      if contains lower ''%2f'' \<or> contains lower ''%5c'' then False
      else case url_Parse parse_host target of
        None \<Rightarrow> False
      | Some url \<Rightarrow>
          if u_Scheme url \<noteq> '''' \<or> u_Host url \<noteq> '''' then False else HasPrefix (u_Path url) ''/'')"

text \<open>An entry about the session, written through the audit service; an error is only logged.\<close>

definition session_entry ::
  "string \<Rightarrow> string \<Rightarrow> int option \<Rightarrow> (string \<times> json) list \<Rightarrow> RecordInput" where
  "session_entry actor act eid details =
     \<lparr>ri_Action = act, ri_EntityType = ''session'', ri_EntityID = eid, ri_Actor = actor,
      ri_Details = details\<rparr>"

definition audit_session :: "http_ctx \<Rightarrow> RecordInput \<Rightarrow> 's world \<Rightarrow> 's world" where
  "audit_session cx inp w =
     w\<lparr>w_db := (case Record (WithActor (cx_env cx) (ri_Actor inp)) 0 inp (w_db w) of
                  Inl _ \<Rightarrow> w_db w | Inr d' \<Rightarrow> d')\<rparr>"

text \<open>The entry of a failed login.\<close>

definition login_failure :: "http_ctx \<Rightarrow> string \<Rightarrow> auth_error \<Rightarrow> 's world \<Rightarrow> 's world" where
  "login_failure cx login err w =
     (let auditLogin = (if login = '''' then ''empty'' else login)
      in audit_session cx (session_entry auditLogin ''login.failure'' None
           [(''reason'', JStr (errReason err))]) w)"

text \<open>
  What both login handlers do after the credentials were accepted: renew the token, and only
  then store the user in the session. \<open>Inl\<close> when the token could not be renewed.
\<close>

definition start_session ::
  "'s SessionManager \<Rightarrow> http_ctx \<Rightarrow> User \<Rightarrow> 's world \<Rightarrow> ('s world, 's world) result" where
  "start_session sm cx user w =
     (case sm_RenewToken sm (w_session w) of
        (Some _, s) \<Rightarrow> Inl (w\<lparr>w_session := s\<rparr>)
      | (None, s) \<Rightarrow>
          (let s = sm_Put sm SessionKeyUserID (SInt (us_id user)) s;
               s = sm_Put sm SessionKeyUserLogin (SStr (us_login user)) s
           in Inr (audit_session cx (session_entry (us_login user) ''login.success''
                (Some (us_id user)) []) (w\<lparr>w_session := s\<rparr>))))"

definition PostLogin ::
  "bcrypt \<Rightarrow> 's SessionManager \<Rightarrow> (string \<Rightarrow> string option) \<Rightarrow> 's handler" where
  "PostLogin bc sm parse_host cx rq w =
     (if rq_form rq = None then (http_error ''parse form'' 400, w)
      else let login = FormValue rq ''login''; password = FormValue rq ''password'';
               next = FormValue rq ''next''
      in case fst (Authenticate bc (w_db w) login password) of
        Inl err \<Rightarrow> (http_error loginErrorMsg 401, login_failure cx login err w)
      | Inr user \<Rightarrow>
          (case start_session sm cx user w of
             Inl w' \<Rightarrow> (http_error ''session error'' 500, w')
           | Inr w' \<Rightarrow>
               (let redirect = (if next = '''' \<or> \<not> isSafeRedirect (e_unicode (cx_env cx)) parse_host next
                                then ''/programs'' else next)
                in (http_redirect parse_host rq redirect 303, w'))))"

definition session_response :: "bool \<Rightarrow> string \<Rightarrow> (string \<times> json) list" where
  "session_response authenticated login =
     (''authenticated'', JBool authenticated) # (if login = '''' then [] else [(''login'', JStr login)])"

definition PostLoginJSON :: "bcrypt \<Rightarrow> 's SessionManager \<Rightarrow> 's handler" where
  "PostLoginJSON bc sm cx rq w =
     (if rq_media_type rq \<noteq> Some ''application/json''
      then (WriteJSON 415 [(''error'', JStr ''unsupported_media_type'')], w)
      else case rq_login_json rq of
        None \<Rightarrow> (WriteJSON 400 [(''error'', JStr ''invalid_json'')], w)
      | Some inp \<Rightarrow>
          (case fst (Authenticate bc (w_db w) (lr_Login inp) (lr_Password inp)) of
             Inl err \<Rightarrow>
               (WriteJSON 401 [(''error'', JStr ''invalid_credentials'')],
                login_failure cx (lr_Login inp) err w)
           | Inr user \<Rightarrow>
               (case start_session sm cx user w of
                  Inl w' \<Rightarrow> (WriteJSON 500 [(''error'', JStr ''session_error'')], w')
                | Inr w' \<Rightarrow> (WriteJSON 200 (session_response True (us_login user)), w'))))"

definition PostLogout :: "'s SessionManager \<Rightarrow> (string \<Rightarrow> string option) \<Rightarrow> 's handler" where
  "PostLogout sm parse_host cx rq w =
     (let login = sm_GetString sm SessionKeyUserLogin (w_session w);
          w' = w\<lparr>w_session := snd (sm_Destroy sm (w_session w))\<rparr>;
          w'' = (if login \<noteq> '''' then audit_session cx (session_entry login ''logout'' None []) w' else w')
      in (http_redirect parse_host rq ''/login'' 303, w''))"

definition PostLogoutJSON :: "'s SessionManager \<Rightarrow> 's handler" where
  "PostLogoutJSON sm cx rq w =
     (WriteJSON 200 (session_response False ''''),
      w\<lparr>w_session := snd (sm_Destroy sm (w_session w))\<rparr>)"

definition GetSessionJSON :: "'s SessionManager \<Rightarrow> 's handler" where
  "GetSessionJSON sm cx rq w =
     (let login = sm_GetString sm SessionKeyUserLogin (w_session w)
      in (WriteJSON 200 (session_response (login \<noteq> '''') login), w))"

text \<open>The argument is the masked token of the CSRF library for this request.\<close>

definition GetCSRFJSON :: "string \<Rightarrow> 's handler" where
  "GetCSRFJSON token cx rq w =
     (if token = '''' then (WriteProblem cx 500 ''internal_error'' CSRFTokenUnavailable 0, w)
      else (WriteJSON 200 [(''csrf_token'', JStr token)], w))"

subsection \<open>Middlewares\<close>

definition redirectToLogin :: "(string \<Rightarrow> string option) \<Rightarrow> http_request \<Rightarrow> response" where
  "redirectToLogin parse_host rq =
     (let target = (if rq_Path rq \<noteq> '''' \<and> rq_Path rq \<noteq> ''/login''
                    then ''/login?next='' @ rq_RequestURI rq else ''/login'')
      in http_redirect parse_host rq target 303)"

definition RequireAuth ::
  "'s SessionManager \<Rightarrow> (string \<Rightarrow> string option) \<Rightarrow> 's handler \<Rightarrow> 's handler" where
  "RequireAuth sm parse_host next cx rq w =
     (let rawID = sm_GetInt64 sm SessionKeyUserID (w_session w) in
      if rawID = 0 then (redirectToLogin parse_host rq, w)
      else let login = sm_GetString sm SessionKeyUserLogin (w_session w) in
      if login = ''''
      then (redirectToLogin parse_host rq, w\<lparr>w_session := snd (sm_Destroy sm (w_session w))\<rparr>)
      else next (cx\<lparr>cx_user_login := login\<rparr>) rq w)"

text \<open>\<open>withActor\<close> of \<^verbatim>\<open>app/middleware.go\<close>: the login becomes the actor of the audit entries.\<close>

definition withActor :: "'s handler \<Rightarrow> 's handler" where
  "withActor next cx rq w =
     (let login = cx_user_login cx in
      if login \<noteq> '''' then next (cx\<lparr>cx_env := WithActor (cx_env cx) login\<rparr>) rq w else next cx rq w)"

definition writeAPIAuthProblem :: "http_ctx \<Rightarrow> int \<Rightarrow> string \<Rightarrow> detail \<Rightarrow> response" where
  "writeAPIAuthProblem cx status code det = WriteProblem cx status code det 0"

text \<open>The first argument is \<open>None\<close> when the sessions or the store are missing.\<close>

definition RequireAPIAuth :: "'s SessionManager option \<Rightarrow> 's handler \<Rightarrow> 's handler" where
  "RequireAPIAuth sessions next cx rq w =
     (case sessions of
        None \<Rightarrow> (writeAPIAuthProblem cx 503 ''storage_unavailable'' ServiceUnavailable, w)
      | Some sm \<Rightarrow>
          (let userID = sm_GetInt64 sm SessionKeyUserID (w_session w);
               destroyed = w\<lparr>w_session := snd (sm_Destroy sm (w_session w))\<rparr>
           in if userID \<le> 0 then (writeAPIAuthProblem cx 401 ''unauthorized'' AuthenticationRequired, w)
           else case GetByID (w_db w) userID of
             Inl ErrUserNotFound \<Rightarrow>
               (writeAPIAuthProblem cx 401 ''unauthorized'' AuthenticationRequired, destroyed)
           | Inl (StoreFailed _) \<Rightarrow>
               (writeAPIAuthProblem cx 503 ''storage_unavailable'' ServiceUnavailable, w)
           | Inr user \<Rightarrow>
               if us_status user \<noteq> ''active''
               then (writeAPIAuthProblem cx 401 ''unauthorized'' AuthenticationRequired, destroyed)
               else next (cx\<lparr>cx_identity := Some \<lparr>ai_ID = us_id user, ai_Login = us_login user,
                                                ai_Role = us_role user\<rparr>,
                            cx_env := WithActor (cx_env cx) (us_login user)\<rparr>) rq w))"

definition RequireAPIRoles :: "string list \<Rightarrow> 's handler \<Rightarrow> 's handler" where
  "RequireAPIRoles roles next cx rq w =
     (case cx_identity cx of
        None \<Rightarrow> (writeAPIAuthProblem cx 401 ''unauthorized'' AuthenticationRequired, w)
      | Some identity \<Rightarrow>
          if ai_Role identity \<notin> set roles
          then (writeAPIAuthProblem cx 403 ''forbidden'' InsufficientRights, w)
          else next cx rq w)"

subsection \<open>The rate limit of the login routes\<close>

definition isLoginRateLimitedRequest :: "http_request \<Rightarrow> bool" where
  "isLoginRateLimitedRequest rq =
     (if rq_Method rq \<noteq> ''POST'' then False
      else rq_Path rq = ''/login'' \<or> rq_Path rq = ''/api/login'')"

definition clientIP :: "http_request \<Rightarrow> string" where
  "clientIP rq =
     (case SplitHostPort (rq_RemoteAddr rq) of
        None \<Rightarrow> if rq_RemoteAddr rq \<noteq> '''' then rq_RemoteAddr rq else ''unknown''
      | Some (host, _) \<Rightarrow> host)"

text \<open>\<open>int(retryAfter.Seconds() + 0.5)\<close>.\<close>

definition retry_seconds :: "int \<Rightarrow> int" where
  "retry_seconds retryAfter = (retryAfter + 500000000) div 1000000000"

definition too_many_requests :: "http_request \<Rightarrow> int \<Rightarrow> response" where
  "too_many_requests rq retryAfter =
     (let seconds = (if retry_seconds retryAfter < 1 then 1 else retry_seconds retryAfter)
      in if rq_Path rq = ''/api/login''
         then \<lparr>rs_Status = 429,
               rs_Headers = [(''Retry-After'', show_int seconds),
                             (''Content-Type'', ''application/json; charset=utf-8'')],
               rs_Body = Json [(''error'', JStr ''rate_limited'')]\<rparr>
         else \<lparr>rs_Status = 429,
               rs_Headers = [(''Retry-After'', show_int seconds),
                             (''Content-Type'', ''text/html; charset=utf-8'')],
               rs_Body = Text (''<html><body><h1>429 Too Many Requests</h1>'' @
                 ''<p>Too many login attempts. Please wait '' @ show_int seconds @
                 '' seconds and try again.</p>'' @ ''</body></html>'')\<rparr>)"

definition LoginRateLimitMiddleware ::
  "int \<Rightarrow> 's handler \<Rightarrow> http_ctx \<Rightarrow> http_request \<Rightarrow> RateLimiter \<times> 's world
   \<Rightarrow> response \<times> RateLimiter \<times> 's world" where
  "LoginRateLimitMiddleware now next cx rq s =
     (case s of (rl, w) \<Rightarrow>
      if \<not> isLoginRateLimitedRequest rq then (let (rs, w') = next cx rq w in (rs, rl, w'))
      else let ip = clientIP rq; ((allowed, retryAfter), rl') = Allow now ip rl in
      if allowed then (let (rs, w') = next cx rq w in (rs, rl', w'))
      else (too_many_requests rq retryAfter, rl',
            if e_audit (cx_env cx)
            then audit_session cx (session_entry (''rate_limit:'' @ ip) ''login.rate_limited'' None
                   [(''retry_after_seconds'', JInt (retry_seconds retryAfter))]) w
            else w))"

end
