(* ===== verification/AdminLaws.thy ===== *)
theory AdminLaws
  imports Admin
begin

text \<open>
  Lemmas on the admin slice: what the store finds, what the entries about sessions change,
  and what the handlers and middlewares leave alone.
\<close>

subsection \<open>Users\<close>

lemma GetByLogin_Inr_iff:
  assumes "db_ok d"
  shows "GetByLogin d login = Inr u \<longleftrightarrow> u \<in> set (users d) \<and> us_login u = login"
proof
  show "GetByLogin d login = Inr u \<Longrightarrow> u \<in> set (users d) \<and> us_login u = login"
    by (auto simp: GetByLogin_def store_lookup_def q_GetUserByLogin_def split: sum.splits db_error.splits
        dest: sql_get_Inr)
  assume u: "u \<in> set (users d) \<and> us_login u = login"
  have "table_ok us_id user_check user_clash (users d)" using assms by (simp add: db_ok_def tables_ok_def)
  from table_ok_unique [OF this] u have "find (\<lambda>r. us_login r = login) (users d) = Some u"
    by (intro find_unique) (auto simp: user_clash_def)
  then show "GetByLogin d login = Inr u"
    by (simp add: GetByLogin_def store_lookup_def q_GetUserByLogin_def sql_get_def)
qed

lemma GetByID_Inr_iff:
  assumes "db_ok d"
  shows "GetByID d i = Inr u \<longleftrightarrow> u \<in> set (users d) \<and> us_id u = i"
proof
  show "GetByID d i = Inr u \<Longrightarrow> u \<in> set (users d) \<and> us_id u = i"
    by (auto simp: GetByID_def store_lookup_def q_GetUser_def split: sum.splits db_error.splits
        dest: sql_get_Inr)
  assume u: "u \<in> set (users d) \<and> us_id u = i"
  have "table_ok us_id user_check user_clash (users d)" using assms by (simp add: db_ok_def tables_ok_def)
  from table_ok_get [OF this] u show "GetByID d i = Inr u"
    by (auto simp: GetByID_def store_lookup_def q_GetUser_def)
qed

lemma store_lookup_error:
  "GetByLogin d login = Inl e \<Longrightarrow> e = ErrUserNotFound" "GetByID d i = Inl e \<Longrightarrow> e = ErrUserNotFound"
  by (auto simp: GetByLogin_def GetByID_def store_lookup_def q_GetUserByLogin_def q_GetUser_def
      split: sum.splits db_error.splits dest: sql_get_Inl)

lemma GetByLogin_cases:
  assumes "db_ok d"
  obtains (missing) "GetByLogin d login = Inl ErrUserNotFound" "login \<notin> us_login ` set (users d)"
    | (found) u where "GetByLogin d login = Inr u" "u \<in> set (users d)" "us_login u = login"
proof (cases "GetByLogin d login")
  case (Inl e)
  have "login \<notin> us_login ` set (users d)"
  proof
    assume "login \<in> us_login ` set (users d)"
    then obtain u where "u \<in> set (users d)" "us_login u = login" by blast
    with GetByLogin_Inr_iff [OF assms, of login u] Inl show False by simp
  qed
  with Inl store_lookup_error(1) [OF Inl] show ?thesis by (intro missing) auto
next
  case (Inr u)
  then show ?thesis using GetByLogin_Inr_iff [OF assms] found by blast
qed

subsection \<open>Credentials\<close>

lemma Authenticate_cases:
  assumes "db_ok d"
  shows "Authenticate bc d login password =
     ((if login \<noteq> '''' \<and> password \<noteq> ''''
       then (case find (\<lambda>u. us_login u = login) (users d) of
               Some u \<Rightarrow> if us_status u = ''active'' \<and> bc_Compare bc (us_password_hash u) password
                        then Inr u else Inl ErrInvalidCredentials
             | None \<Rightarrow> Inl ErrInvalidCredentials)
       else Inl ErrInvalidCredentials),
      [(if login \<noteq> '''' \<and> password \<noteq> ''''
        then (case find (\<lambda>u. us_login u = login) (users d) of
                Some u \<Rightarrow> us_password_hash u | None \<Rightarrow> bc_dummyHash bc)
        else bc_dummyHash bc, password)])"
  by (auto simp: Authenticate_def GetByLogin_def store_lookup_def q_GetUserByLogin_def sql_get_def
      ErrUserDisabled_def split: option.splits)

lemma find_user_iff:
  assumes "db_ok d"
  shows "find (\<lambda>u. us_login u = login) (users d) = Some u \<longleftrightarrow> u \<in> set (users d) \<and> us_login u = login"
  using GetByLogin_Inr_iff [OF assms, of login u]
  by (auto simp: GetByLogin_def store_lookup_def q_GetUserByLogin_def sql_get_def split: option.splits)

lemma Authenticate_Inr_iff:
  assumes "db_ok d"
  shows "fst (Authenticate bc d login password) = Inr u \<longleftrightarrow>
     login \<noteq> '''' \<and> password \<noteq> '''' \<and> u \<in> set (users d) \<and> us_login u = login
     \<and> us_status u = ''active'' \<and> bc_Compare bc (us_password_hash u) password"
  using find_user_iff [OF assms, of login u]
  by (auto simp: Authenticate_cases [OF assms] split: option.splits)

subsection \<open>Sessions and their entries\<close>

lemma audit_session_session [simp]: "w_session (audit_session cx inp w) = w_session w"
  by (simp add: audit_session_def)

lemma audit_session_run: "statement\<^sup>*\<^sup>* (w_db w) (w_db (audit_session cx inp w))"
  by (auto simp: audit_session_def Record_def split: sum.splits
      intro: r_into_rtranclp statement.action_log)

lemma audit_session_users [simp]: "users (w_db (audit_session cx inp w)) = users (w_db w)"
  by (auto simp: audit_session_def Record_def q_CreateActionLog_def ins_action_log_def stored_Inr
      split: sum.splits)

lemma start_session_Inr:
  assumes "session_laws sm" "start_session sm cx user w = Inr w'"
  shows "sm_GetInt64 sm SessionKeyUserID (w_session w') = us_id user"
    "sm_GetString sm SessionKeyUserLogin (w_session w') = us_login user"
    "users (w_db w') = users (w_db w)"
    "fst (sm_RenewToken sm (w_session w)) = None"
    "w_session w' = sm_Put sm SessionKeyUserLogin (SStr (us_login user))
       (sm_Put sm SessionKeyUserID (SInt (us_id user)) (snd (sm_RenewToken sm (w_session w))))"
proof -
  have "SessionKeyUserID \<noteq> SessionKeyUserLogin" by (simp add: SessionKeyUserID_def SessionKeyUserLogin_def)
  with assms show "sm_GetInt64 sm SessionKeyUserID (w_session w') = us_id user"
    "sm_GetString sm SessionKeyUserLogin (w_session w') = us_login user"
    "users (w_db w') = users (w_db w)"
    "fst (sm_RenewToken sm (w_session w)) = None"
    "w_session w' = sm_Put sm SessionKeyUserLogin (SStr (us_login user))
       (sm_Put sm SessionKeyUserID (SInt (us_id user)) (snd (sm_RenewToken sm (w_session w))))"
    by (auto simp: start_session_def session_laws_def Let_def split: prod.splits option.splits)
qed

lemma start_session_run:
  assumes "start_session sm cx user w = Inr w' \<or> start_session sm cx user w = Inl w'"
  shows "statement\<^sup>*\<^sup>* (w_db w) (w_db w')"
proof -
  have "w_db w' = w_db w \<or> (\<exists>s. w' = audit_session cx (session_entry (us_login user) ''login.success''
      (Some (us_id user)) []) (w\<lparr>w_session := s\<rparr>))"
    using assms by (auto simp: start_session_def Let_def split: prod.splits option.splits)
  then show ?thesis using audit_session_run [of "w\<lparr>w_session := _\<rparr>"] by fastforce
qed

subsection \<open>Redirects\<close>

lemma stays_on_host_append:
  "stays_on_host s \<Longrightarrow> 2 \<le> length s \<or> r = [] \<or> hd r = CHR ''?'' \<Longrightarrow> stays_on_host (s @ r)"
  by (cases s; cases "tl s"; cases r) (auto simp: stays_on_host_def byte_def)

lemma local_redirect_local:
  assumes "dir_of oldpath = ''/''" "char_of (92::nat) \<notin> set url"
  shows "stays_on_host (local_redirect oldpath url)"
proof -
  define full where "full = (let oldpath = (if oldpath = '''' then ''/'' else oldpath) in
     if url = '''' \<or> hd url \<noteq> CHR ''/'' then dir_of oldpath @ url else url)"
  define p where "p = takeWhile (\<lambda>x. x \<noteq> CHR ''?'') full"
  define q where "q = dropWhile (\<lambda>x. x \<noteq> CHR ''?'') full"
  define c where "c = (if has_suffix p (CHR ''/'') \<and> \<not> has_suffix (path_Clean p) (CHR ''/'')
     then path_Clean p @ ''/'' else path_Clean p)"
  have "char_of (92::nat) \<notin> set full" using assms by (auto simp: full_def Let_def dir_of_def char_of_eq_iff)
  moreover have "\<exists>r. full = CHR ''/'' # r" using assms(1) by (cases url) (auto simp: full_def Let_def dir_of_def)
  ultimately have p: "char_of (92::nat) \<notin> set p" "p \<noteq> []" "hd p = CHR ''/''"
    unfolding p_def by (blast dest: set_takeWhileD, auto)
  then have cl: "stays_on_host (path_Clean p)" by (rule path_Clean_local)
  have "2 \<le> length (path_Clean p)" if "\<not> has_suffix (path_Clean p) (CHR ''/'')"
    using that path_Clean_rooted [OF p(2,3)] by (cases "tl (path_Clean p)") (auto simp: has_suffix_def)
  then have "stays_on_host c" using cl by (auto simp: c_def intro: stays_on_host_append)
  moreover have "q = [] \<or> hd q = CHR ''?''"
    unfolding q_def using hd_dropWhile [of "\<lambda>x. x \<noteq> CHR ''?''" full] by blast
  ultimately have "stays_on_host (c @ q)" by (intro stays_on_host_append) auto
  moreover have "local_redirect oldpath url = c @ q"
    unfolding local_redirect_def c_def p_def q_def full_def Let_def by (rule refl)
  ultimately show ?thesis by simp
qed

lemma redirect_location_local:
  assumes "url_Parse parse_host url = Some u" "u_Scheme u = ''''" "u_Host u = ''''"
    and "dir_of oldpath = ''/''" "char_of (92::nat) \<notin> set url"
  shows "stays_on_host (redirect_location parse_host oldpath url)"
  using local_redirect_local [OF assms(4,5)] assms(1-3)
  by (simp add: redirect_location_def stays_on_host_escape)

lemma isSafeRedirect_local:
  assumes "isSafeRedirect uc parse_host url" "dir_of oldpath = ''/''"
  shows "stays_on_host (redirect_location parse_host oldpath url)"
proof -
  from assms(1) have bs: "char_of (92::nat) \<notin> set url" unfolding isSafeRedirect_def by meson
  from assms(1) obtain u where "url_Parse parse_host url = Some u" "u_Scheme u = ''''" "u_Host u = ''''"
    unfolding isSafeRedirect_def by (auto simp: Let_def split: if_splits option.splits)
  from redirect_location_local [OF this assms(2) bs] show ?thesis .
qed

end
