(* ===== verification/AdminProps.thy ===== *)
theory AdminProps
  imports AdminLaws Samples
begin

text \<open>
  The properties of the admin slice: credentials, the bootstrap account, sessions, the guards
  of the routes, the redirect after a login, the rate limit and the CSRF key.
\<close>

subsection \<open>A session manager and a hash for the witnesses\<close>

text \<open>A session is its token number and its values.\<close>

definition sample_sessions :: "(nat \<times> (string \<rightharpoonup> sval)) SessionManager" where
  "sample_sessions =
     \<lparr>sm_RenewToken = (\<lambda>(n, m). (None, (n + 1, m))),
      sm_Put = (\<lambda>k v (n, m). (n, m(k \<mapsto> v))),
      sm_GetInt64 = (\<lambda>k (n, m). case m k of Some (SInt i) \<Rightarrow> i | _ \<Rightarrow> 0),
      sm_GetString = (\<lambda>k (n, m). case m k of Some (SStr s) \<Rightarrow> s | _ \<Rightarrow> ''''),
      sm_Destroy = (\<lambda>(n, m). (None, (n + 1, Map.empty)))\<rparr>"

lemma sample_session_laws: "session_laws sample_sessions"
  by (auto simp: session_laws_def sample_sessions_def)

definition sample_bcrypt :: bcrypt where
  "sample_bcrypt = \<lparr>bc_Generate = (\<lambda>p. if length p > 72 then Inl ''too long'' else Inr (''$2a$'' @ p)),
     bc_Compare = (\<lambda>h p. h = ''$2a$'' @ p), bc_dummyHash = ''$2a$dummy''\<rparr>"

definition sample_user :: User where
  "sample_user = \<lparr>us_id = 1, us_login = ''admin'', us_password_hash = ''$2a$secret'', us_role = ''admin'',
     us_status = ''active'', us_created_at = sample_time, us_updated_at = sample_time\<rparr>"

definition sample_users_db :: db where
  "sample_users_db = empty_db\<lparr>users := [sample_user]\<rparr>"

lemma sample_users_ok: "db_ok sample_users_db"
  by (simp add: db_ok_def tables_ok_def refs_ok_def sample_users_db_def empty_db_def table_ok_def
      sample_user_def user_check_def)

definition sample_ctx :: http_ctx where
  "sample_ctx = \<lparr>cx_env = sample_env, cx_user_login = '''', cx_identity = None, cx_trace = ''''\<rparr>"

definition sample_login :: http_request where
  "sample_login = \<lparr>rq_Method = ''POST'', rq_Path = ''/login'', rq_RequestURI = ''/login'',
     rq_RemoteAddr = ''10.0.0.7:51000'',
     rq_form = Some [(''login'', ''admin''), (''password'', ''secret''), (''next'', ''//evil'')],
     rq_media_type = Some ''application/json'',
     rq_login_json = Some \<lparr>lr_Login = ''admin'', lr_Password = ''secret''\<rparr>\<rparr>"

definition sample_world :: "(nat \<times> (string \<rightharpoonup> sval)) world" where
  "sample_world = \<lparr>w_db = sample_users_db, w_session = (0, Map.empty)\<rparr>"

lemmas admin_sample_defs = sample_bcrypt_def sample_user_def sample_users_db_def sample_login_def
  sample_world_def

lemma sample_auth: "fst (Authenticate sample_bcrypt sample_users_db ''admin'' ''secret'') = Inr sample_user"
  using Authenticate_Inr_iff [OF sample_users_ok] by (simp add: admin_sample_defs)

subsection \<open>Credentials\<close>



lemma q_CreateUser_admin:
  assumes "db_ok d" "BootstrapAdminLogin \<notin> us_login ` set (users d)"
  shows "\<exists>u. q_CreateUser d BootstrapAdminLogin hash BootstrapAdminRole ''active'' now now
      = Inr (u, d\<lparr>users := users d @ [u]\<rparr>) \<and> us_login u = BootstrapAdminLogin
      \<and> us_role u = ''admin'' \<and> us_status u = ''active'' \<and> us_password_hash u = hash"
  using assms(2)
  by (auto simp: q_CreateUser_def ins_user_def stored_def sql_insert_def Let_def user_check_def
      user_clash_def no_fk_def list_ex_iff BootstrapAdminRole_def split: sum.splits)

text \<open>
  At start-up the bootstrap step succeeds exactly when the admin account exists or a password
  is given that bcrypt can hash. An existing account is left untouched whatever password is
  configured; otherwise the new account can log in with that password and has the admin role.
\<close>

theorem EnsureBootstrapAdmin_outcome:
  assumes "db_ok d" "\<And>h. bc_Generate bc pw = Inr h \<Longrightarrow> bc_Compare bc h pw"
    and "EnsureBootstrapAdmin bc now pw d = (res, d')"
  shows "(res = Inr () \<longleftrightarrow> BootstrapAdminLogin \<in> us_login ` set (users d)
            \<or> pw \<noteq> '''' \<and> is_ok (bc_Generate bc pw))
     \<and> (BootstrapAdminLogin \<in> us_login ` set (users d) \<or> res \<noteq> Inr () \<longrightarrow> d' = d)
     \<and> (BootstrapAdminLogin \<notin> us_login ` set (users d) \<and> res = Inr () \<longrightarrow>
          (\<exists>u. fst (Authenticate bc d' BootstrapAdminLogin pw) = Inr u \<and> us_role u = ''admin''))"
proof -
  consider (missing) "GetByLogin d BootstrapAdminLogin = Inl ErrUserNotFound"
      "BootstrapAdminLogin \<notin> us_login ` set (users d)"
    | (found) u where "GetByLogin d BootstrapAdminLogin = Inr u" "u \<in> set (users d)"
      "us_login u = BootstrapAdminLogin"
    using GetByLogin_cases [OF assms(1)] by metis
  then show ?thesis
  proof cases
    case (found u)
    then have "BootstrapAdminLogin \<in> us_login ` set (users d)" by force
    with found assms(3) show ?thesis by (auto simp: EnsureBootstrapAdmin_def split: if_splits)
  next
    case missing
    note no_admin = missing(2)
    show ?thesis
    proof (cases "pw \<noteq> '''' \<and> is_ok (bc_Generate bc pw)")
      case False
      with missing assms(3) show ?thesis
        by (auto simp: EnsureBootstrapAdmin_def is_ok_def split: if_splits sum.splits)
    next
      case True
      then obtain h where h: "bc_Generate bc pw = Inr h" "pw \<noteq> ''''" by (auto simp: is_ok_iff)
      obtain u where u: "q_CreateUser d BootstrapAdminLogin h BootstrapAdminRole ''active'' now now
          = Inr (u, d\<lparr>users := users d @ [u]\<rparr>)" "us_login u = BootstrapAdminLogin"
          "us_role u = ''admin''" "us_status u = ''active''" "us_password_hash u = h"
        using q_CreateUser_admin [OF assms(1) no_admin] by blast
      have d': "res = Inr ()" "d' = d\<lparr>users := users d @ [u]\<rparr>"
        using assms(3) missing(1) h u(1) by (auto simp: EnsureBootstrapAdmin_def)
      have "db_ok d'" using statement_ok [OF statement.create_user [OF u(1)] assms(1)] d' by simp
      then have "fst (Authenticate bc d' BootstrapAdminLogin pw) = Inr u"
        using assms(2) [OF h(1)] h(2) u d' by (simp add: Authenticate_Inr_iff BootstrapAdminLogin_def)
      with True no_admin d' u(3) show ?thesis by blast
    qed
  qed
qed

theorem EnsureBootstrapAdmin_outcome_witness:
  "\<exists>u. fst (Authenticate sample_bcrypt (snd (EnsureBootstrapAdmin sample_bcrypt sample_time ''pw'' empty_db))
        BootstrapAdminLogin ''pw'') = Inr u \<and> us_role u = ''admin''"
proof -
  obtain res d' where e: "EnsureBootstrapAdmin sample_bcrypt sample_time ''pw'' empty_db = (res, d')"
    by fastforce
  have "bc_Generate sample_bcrypt ''pw'' = Inr h \<Longrightarrow> bc_Compare sample_bcrypt h ''pw''" for h
    by (auto simp: sample_bcrypt_def)
  from EnsureBootstrapAdmin_outcome [OF empty_db_ok this e] e show ?thesis
    by (simp add: empty_db_def sample_bcrypt_def)
qed

subsection \<open>Guards and sessions\<close>

text \<open>
  The user a guarded API handler runs for: the active user of the session, when its role is one
  of the permitted ones.
\<close>

definition api_user :: "'s SessionManager \<Rightarrow> string list \<Rightarrow> 's world \<Rightarrow> User \<Rightarrow> bool" where
  "api_user sm roles w u \<longleftrightarrow>
     u \<in> set (users (w_db w)) \<and> us_id u = sm_GetInt64 sm SessionKeyUserID (w_session w)
     \<and> us_status u = ''active'' \<and> us_role u \<in> set roles"

definition api_ctx :: "http_ctx \<Rightarrow> User \<Rightarrow> http_ctx" where
  "api_ctx cx u = cx\<lparr>cx_identity := Some \<lparr>ai_ID = us_id u, ai_Login = us_login u, ai_Role = us_role u\<rparr>,
     cx_env := WithActor (cx_env cx) (us_login u)\<rparr>"

lemma api_guard_runs:
  assumes "db_ok (w_db w)" "api_user sm roles w u"
  shows "RequireAPIAuth (Some sm) (RequireAPIRoles roles h) cx rq w = h (api_ctx cx u) rq w"
proof -
  have "0 < us_id u" using assms by (auto simp: api_user_def db_ok_def tables_ok_def table_ok_def)
  moreover have "GetByID (w_db w) (us_id u) = Inr u"
    using assms by (simp add: GetByID_Inr_iff api_user_def)
  ultimately show ?thesis using assms(2)
    by (auto simp: api_user_def RequireAPIAuth_def RequireAPIRoles_def api_ctx_def Let_def)
qed




lemma PostLoginJSON_200:
  assumes "PostLoginJSON bc sm cx rq w = (rs, w')" "rs_Status rs = 200"
  obtains inp u where "rq_login_json rq = Some inp"
    "fst (Authenticate bc (w_db w) (lr_Login inp) (lr_Password inp)) = Inr u"
    "start_session sm cx u w = Inr w'"
  using assms
  by (auto simp: PostLoginJSON_def WriteJSON_def split: if_splits option.splits sum.splits)

text \<open>
  C16. A JSON login that answers 200 was made with the credentials of an active user, renewed the
  session token before it stored the user, and from then on the guarded API handlers run for
  that user in that session, until it logs out, after which they refuse.
\<close>

theorem login_opens_session:
  assumes "db_ok (w_db w)" "session_laws sm"
    and "PostLoginJSON bc sm cx rq w = (rs, w')" "rs_Status rs = 200"
  shows "\<exists>inp u s. rq_login_json rq = Some inp
     \<and> fst (Authenticate bc (w_db w) (lr_Login inp) (lr_Password inp)) = Inr u
     \<and> sm_RenewToken sm (w_session w) = (None, s)
     \<and> w_session w' = sm_Put sm SessionKeyUserLogin (SStr (us_login u)) (sm_Put sm SessionKeyUserID (SInt (us_id u)) s)
     \<and> (us_role u \<in> set roles \<longrightarrow>
          RequireAPIAuth (Some sm) (RequireAPIRoles roles h) cx' rq' w' = h (api_ctx cx' u) rq' w')
     \<and> (fst (sm_Destroy sm (w_session w')) = None \<longrightarrow>
          rs_Status (fst (RequireAPIAuth (Some sm) (RequireAPIRoles roles h) cx' rq'
            (snd (PostLogoutJSON sm cx'' rq'' w')))) = 401)"
proof -
  obtain inp u where u: "rq_login_json rq = Some inp"
    "fst (Authenticate bc (w_db w) (lr_Login inp) (lr_Password inp)) = Inr u"
    and st: "start_session sm cx u w = Inr w'"
    using PostLoginJSON_200 [OF assms(3,4)] by blast
  note s = start_session_Inr [OF assms(2) st]
  have ok: "db_ok (w_db w')" using statements_ok [OF start_session_run assms(1)] st by blast
  have "api_user sm roles w' u" if "us_role u \<in> set roles"
    using that u(2) s(1,3) by (simp add: api_user_def Authenticate_Inr_iff [OF assms(1)])
  moreover have "rs_Status (fst (RequireAPIAuth (Some sm) (RequireAPIRoles roles h) cx' rq'
      (snd (PostLogoutJSON sm cx'' rq'' w')))) = 401" if "fst (sm_Destroy sm (w_session w')) = None"
  proof -
    have "sm_Destroy sm (w_session w') = (None, snd (sm_Destroy sm (w_session w')))"
      using that by (metis prod.collapse)
    then have "sm_GetInt64 sm SessionKeyUserID (snd (sm_Destroy sm (w_session w'))) = 0"
      using assms(2) unfolding session_laws_def by blast
    then show ?thesis by (simp add: PostLogoutJSON_def RequireAPIAuth_def Let_def writeAPIAuthProblem_def WriteProblem_def)
  qed
  moreover have "sm_RenewToken sm (w_session w) = (None, snd (sm_RenewToken sm (w_session w)))"
    using s(4) by (metis prod.collapse)
  ultimately show ?thesis using u s(5) api_guard_runs [OF ok]
    by (intro exI [of _ inp] exI [of _ u] exI [of _ "snd (sm_RenewToken sm (w_session w))"]) simp
qed

theorem login_opens_session_witness:
  "\<exists>(u::User) s. sm_RenewToken sample_sessions (0, Map.empty) = (None, s)
     \<and> w_session (snd (PostLoginJSON sample_bcrypt sample_sessions sample_ctx sample_login sample_world))
       = sm_Put sample_sessions SessionKeyUserLogin (SStr (us_login u))
           (sm_Put sample_sessions SessionKeyUserID (SInt (us_id u)) s)"
proof -
  have ok: "db_ok (w_db sample_world)" by (simp add: sample_world_def sample_users_ok)
  obtain rs w' where e: "PostLoginJSON sample_bcrypt sample_sessions sample_ctx sample_login sample_world = (rs, w')"
    by fastforce
  then have st: "rs_Status rs = 200"
    using sample_auth by (auto simp: PostLoginJSON_def sample_login_def sample_world_def start_session_def
        sample_sessions_def WriteJSON_def Let_def)
  obtain u :: User and s where "sm_RenewToken sample_sessions (w_session sample_world) = (None, s)"
      "w_session w' = sm_Put sample_sessions SessionKeyUserLogin (SStr (us_login u))
         (sm_Put sample_sessions SessionKeyUserID (SInt (us_id u)) s)"
    using login_opens_session [OF ok sample_session_laws e st, where roles = "[]"
        and h = "\<lambda>cx rq w. (http_error '''' 200, w)" and cx' = sample_ctx and cx'' = sample_ctx
        and rq' = sample_login and rq'' = sample_login] by blast
  then show ?thesis using e by (intro exI [of _ u] exI [of _ s]) (simp add: sample_world_def)
qed

subsection \<open>The redirect after a login\<close>

lemma dir_of_login [simp]: "dir_of ''/login'' = ''/''"
  by (simp add: dir_of_def)

text \<open>
  C17. Whatever \<open>next\<close> the form carries, the redirect after a successful login stays on the host:
  its location is a single slash that is followed neither by another slash nor by a backslash.
\<close>

theorem login_redirect_stays_on_host:
  assumes "rq_Path rq = ''/login''" "PostLogin bc sm parse_host cx rq w = (rs, w')" "rs_Status rs = 303"
  shows "\<exists>loc. rs_Headers rs = [(''Location'', loc)] \<and> stays_on_host loc"
proof -
  have bs: "dir_of (rq_Path rq) = ''/''" using assms(1) by simp
  have "url_Parse parse_host ''/programs''
      = Some \<lparr>u_Scheme = '''', u_Opaque = '''', u_Host = '''', u_Path = ''/programs''\<rparr>"
    by (simp add: url_Parse_def cut_def parse_url_def contains_ctl_def byte_def is_letter_def
        is_ascii_digit_def parse_rest_def HasPrefix_def set_path_def)
  from redirect_location_local [OF this _ _ bs]
  have pr: "stays_on_host (redirect_location parse_host (rq_Path rq) ''/programs'')"
    by (simp add: char_of_eq_iff)
  obtain url where "rs = http_redirect parse_host rq url 303"
    "url = ''/programs'' \<or> isSafeRedirect (e_unicode (cx_env cx)) parse_host url"
    using assms(2,3) that
    by (auto simp: PostLogin_def Let_def http_error_def split: if_splits sum.splits)
  then show ?thesis using pr isSafeRedirect_local [OF _ bs] by (auto simp: http_redirect_def)
qed

theorem login_redirect_stays_on_host_witness:
  "\<exists>loc. rs_Headers (fst (PostLogin sample_bcrypt sample_sessions Some sample_ctx sample_login sample_world))
     = [(''Location'', loc)] \<and> stays_on_host loc"
proof -
  obtain rs w' where e: "PostLogin sample_bcrypt sample_sessions Some sample_ctx sample_login sample_world = (rs, w')"
    by fastforce
  then have "rs_Status rs = 303"
    using sample_auth by (auto simp: PostLogin_def FormValue_def sample_login_def sample_world_def
        start_session_def sample_sessions_def http_redirect_def Let_def)
  moreover have "rq_Path sample_login = ''/login''" by (simp add: sample_login_def)
  ultimately show ?thesis using login_redirect_stays_on_host [OF _ e] e by simp
qed

subsection \<open>The rate limit\<close>




text \<open>
  After a refusal with \<open>retryAfter = w\<close> a retry of the same client before \<open>w\<close> has passed is
  refused again, and one that comes more than \<open>w\<close> later is admitted, if no other request used the
  bucket in between. (At exactly \<open>w\<close> it may still be refused: \<open>w\<close> is rounded down.)
\<close>

theorem retry_after:
  assumes "limiter_ok r" "\<forall>b. buckets r key = Some b \<longrightarrow> lastRefill b \<le> now"
    and "Allow now key r = ((False, w), r')"
  shows "1 \<le> w
     \<and> (\<forall>t. now \<le> t \<and> t < now + w \<and> 1 < w \<longrightarrow> \<not> fst (fst (Allow t key r')))
     \<and> (\<forall>t. now + w < t \<and> t - now \<le> int64_max \<longrightarrow> fst (Allow t key r') = (True, 0))"
  using retry_refused [OF assms(1,3,2)] retry_admitted [OF assms(1,3,2)] Allow_retry_pos [of now key r w] assms(3)
  by auto

definition drained_limiter :: RateLimiter where
  "drained_limiter = \<lparr>maxTokens = 2, refillPerNs = 2 / 5, buckets = [''a'' \<mapsto> \<lparr>tokens = 0, lastRefill = 0\<rparr>]\<rparr>"

lemma drained_ok: "limiter_ok drained_limiter"
  by (simp add: limiter_ok_def drained_limiter_def)

theorem retry_after_witness:
  "fst (Allow 0 ''a'' drained_limiter) = (False, 2)
   \<and> \<not> fst (fst (Allow 1 ''a'' (snd (Allow 0 ''a'' drained_limiter))))
   \<and> fst (Allow 3 ''a'' (snd (Allow 0 ''a'' drained_limiter))) = (True, 0)"
proof -
  have f: "fst (Allow 0 ''a'' drained_limiter) = (False, 2)"
    using floor_unique [of 2 "5 / 2 :: rat"]
    by (simp add: drained_limiter_def Allow_def refill_def time_Sub_def int64_max_def int64_min_def Let_def)
  then have e: "Allow 0 ''a'' drained_limiter = ((False, 2), snd (Allow 0 ''a'' drained_limiter))"
    by (metis prod.collapse)
  have "\<forall>b. buckets drained_limiter ''a'' = Some b \<longrightarrow> lastRefill b \<le> 0"
    by (simp add: drained_limiter_def)
  from retry_after [OF drained_ok this e] f show ?thesis by (simp add: int64_max_def)
qed

text \<open>
  A POST to a login route reaches the login handler exactly when the bucket of the client's
  address admits it. A refused one is answered with 429 and a positive \<open>Retry-After\<close>, whatever
  the handler would do, and writes at most an audit row naming the address; every other
  request passes untouched and does not count.
\<close>

theorem LoginRateLimitMiddleware_gate:
  assumes "Allow now (clientIP rq) rl = ((ok, retryAfter), rl')"
  shows "(\<not> isLoginRateLimitedRequest rq \<longrightarrow>
        LoginRateLimitMiddleware now h cx rq (rl, w) = (fst (h cx rq w), rl, snd (h cx rq w)))
     \<and> (isLoginRateLimitedRequest rq \<and> ok \<longrightarrow>
        LoginRateLimitMiddleware now h cx rq (rl, w) = (fst (h cx rq w), rl', snd (h cx rq w)))
     \<and> (isLoginRateLimitedRequest rq \<and> \<not> ok \<longrightarrow>
        (\<exists>rs w' n. (\<forall>h. LoginRateLimitMiddleware now h cx rq (rl, w) = (rs, rl', w'))
           \<and> rs_Status rs = 429 \<and> 1 \<le> n \<and> (''Retry-After'', show_int n) \<in> set (rs_Headers rs)
           \<and> w_session w' = w_session w
           \<and> (w_db w' = w_db w \<or> (\<exists>row. w_db w' = (w_db w)\<lparr>action_log := action_log (w_db w) @ [row]\<rparr>
                \<and> al_action row = ''login.rate_limited'' \<and> al_actor row = ''rate_limit:'' @ clientIP rq))))"
proof (intro conjI impI)
  assume lim: "isLoginRateLimitedRequest rq \<and> \<not> ok"
  define w' where "w' = (if e_audit (cx_env cx)
     then audit_session cx (session_entry (''rate_limit:'' @ clientIP rq) ''login.rate_limited'' None
            [(''retry_after_seconds'', JInt (retry_seconds retryAfter))]) w else w)"
  define n where "n = (if retry_seconds retryAfter < 1 then 1 else retry_seconds retryAfter)"
  have "\<forall>h. LoginRateLimitMiddleware now h cx rq (rl, w) = (too_many_requests rq retryAfter, rl', w')"
    using assms lim by (simp add: LoginRateLimitMiddleware_def Let_def w'_def)
  moreover have "rs_Status (too_many_requests rq retryAfter) = 429"
    "(''Retry-After'', show_int n) \<in> set (rs_Headers (too_many_requests rq retryAfter))" "1 \<le> n"
    by (simp_all add: too_many_requests_def Let_def n_def)
  moreover have "w_db w' = w_db w \<or> (\<exists>row. w_db w' = (w_db w)\<lparr>action_log := action_log (w_db w) @ [row]\<rparr>
                \<and> al_action row = ''login.rate_limited'' \<and> al_actor row = ''rate_limit:'' @ clientIP rq)"
    by (auto simp: w'_def audit_session_def Record_def q_CreateActionLog_def ins_action_log_def stored_def
        sql_insert_def Let_def session_entry_def resolve_actor_def split: sum.splits if_splits)
  moreover have "w_session w' = w_session w" by (simp add: w'_def)
  ultimately show "\<exists>rs w' n. (\<forall>h. LoginRateLimitMiddleware now h cx rq (rl, w) = (rs, rl', w'))
     \<and> rs_Status rs = 429 \<and> 1 \<le> n \<and> (''Retry-After'', show_int n) \<in> set (rs_Headers rs)
     \<and> w_session w' = w_session w
     \<and> (w_db w' = w_db w \<or> (\<exists>row. w_db w' = (w_db w)\<lparr>action_log := action_log (w_db w) @ [row]\<rparr>
          \<and> al_action row = ''login.rate_limited'' \<and> al_actor row = ''rate_limit:'' @ clientIP rq))"
    by blast
qed (use assms in \<open>simp_all add: LoginRateLimitMiddleware_def Let_def split: prod.splits\<close>)

theorem LoginRateLimitMiddleware_gate_witness:
  "\<exists>rs w' n. (\<forall>h. LoginRateLimitMiddleware 0 h sample_ctx (sample_login\<lparr>rq_RemoteAddr := ''a:1''\<rparr>)
        (drained_limiter, sample_world) = (rs, snd (Allow 0 ''a'' drained_limiter), w'))
     \<and> rs_Status rs = 429 \<and> 1 \<le> n \<and> (''Retry-After'', show_int n) \<in> set (rs_Headers rs)"
proof -
  let ?rq = "sample_login\<lparr>rq_RemoteAddr := ''a:1''\<rparr>"
  have ip: "clientIP ?rq = ''a''" using SplitHostPort_join [of "''a''" "''1''"] by (simp add: clientIP_def)
  have "Allow 0 (clientIP ?rq) drained_limiter
      = ((fst (fst (Allow 0 ''a'' drained_limiter)), snd (fst (Allow 0 ''a'' drained_limiter))),
         snd (Allow 0 ''a'' drained_limiter))" by (simp add: ip)
  moreover have "isLoginRateLimitedRequest ?rq" by (simp add: isLoginRateLimitedRequest_def sample_login_def)
  moreover have "\<not> fst (fst (Allow 0 ''a'' drained_limiter))"
    by (simp add: drained_limiter_def Allow_def refill_def time_Sub_def int64_max_def int64_min_def Let_def)
  ultimately show ?thesis
    using LoginRateLimitMiddleware_gate [of 0 ?rq drained_limiter _ _ _ _ sample_ctx sample_world] by blast
qed

subsection \<open>The CSRF key\<close>

lemma padOrTruncate_length: "length (padOrTruncate s n) = n"
  by (auto simp: padOrTruncate_def min_def)

text \<open>
  The CSRF key has 32 bytes whenever one is resolved; a configured value that is hexadecimal
  must encode exactly 32 bytes and then is those bytes, any other text is padded with zeros or
  cut, and only a missing value falls back to the random bytes.
\<close>

theorem resolveCSRFKey_outcome:
  assumes "\<And>buf. random = Inr buf \<Longrightarrow> length buf = csrfKeyLength"
  shows "(resolveCSRFKey raw random = Inr key \<longrightarrow> length key = csrfKeyLength)
     \<and> (length key = csrfKeyLength \<longrightarrow> resolveCSRFKey (EncodeToString key) random = Inr key)
     \<and> (resolveCSRFKey raw random = Inl e \<longleftrightarrow>
          (\<exists>s. raw = '''' \<and> random = Inl s \<and> e = RandomFailed s)
          \<or> (\<exists>s. raw \<noteq> '''' \<and> DecodeString raw = Some s \<and> length s \<noteq> csrfKeyLength
                \<and> e = BadHexLength (length s)))"
proof -
  have "EncodeToString key \<noteq> ''''" if "length key = csrfKeyLength"
    using that EncodeToString_length [of key] by (auto simp: csrfKeyLength_def)
  then show ?thesis using assms
    by (auto simp: resolveCSRFKey_def DecodeString_Encode padOrTruncate_length split: option.splits sum.splits)
qed

theorem resolveCSRFKey_outcome_witness:
  "resolveCSRFKey (EncodeToString (replicate 32 (CHR ''k''))) (Inl ''eof'') = Inr (replicate 32 (CHR ''k''))
   \<and> length (replicate 32 (CHR ''k'')) = csrfKeyLength"
  using resolveCSRFKey_outcome [of "Inl ''eof''" _ "replicate 32 (CHR ''k'')"]
  by (simp add: csrfKeyLength_def)

end
