(* ===== verification/Router.thy ===== *)
theory Router
  imports AdminProps
begin

text \<open>
  The routes of the server with their middlewares (\<^verbatim>\<open>app/router.go\<close>, \<^verbatim>\<open>app/api_routes.go\<close>, \<^verbatim>\<open>app/routes.go\<close>,
  \<^verbatim>\<open>admin/csrf.go\<close>): which handler a method and a path reach, and through which checks.

  The handlers themselves are parameters here; those of the admin slice, of the imports and of the documents
  are modelled in their own theories. Whether a request carries a valid CSRF token is decided by the library
  (\<open>gorilla/csrf\<close>), which lets the safe methods pass; its cookie is left out, like the request log. The
  answers of the router library to a path or a method it does not know are parameters.
\<close>

record 's app_handlers =
  ah_GetSessionJSON :: "'s handler"
  ah_PostLoginJSON :: "'s handler"
  ah_PostLogoutJSON :: "'s handler"
  ah_GetCSRFJSON :: "'s handler"
  ah_List :: "'s handler"
  ah_Get :: "string \<Rightarrow> 's handler"
  ah_UploadLegacy :: "'s handler"
  ah_PostLogin :: "'s handler"
  ah_PostLogout :: "'s handler"
  ah_Generate :: "string \<Rightarrow> 's handler"
  ah_Download :: "string \<Rightarrow> 's handler"
  ah_Assets :: "'s handler"
  ah_Frontend :: "'s handler"

record 's Deps =
  dp_Sessions :: "'s SessionManager"
  dp_CSRF :: "http_request \<Rightarrow> bool"
  dp_LoginRate :: bool
  dp_Now :: int
  dp_ImportService :: bool
  dp_Frontend :: bool
  dp_traceBytes :: "string option"
  dp_parse_host :: "string \<Rightarrow> string option"
  dp_NotFound :: "'s handler"
  dp_MethodNotAllowed :: "'s handler"

type_synonym 's served = "http_ctx \<Rightarrow> http_request \<Rightarrow> RateLimiter \<times> 's world \<Rightarrow> response \<times> RateLimiter \<times> 's world"

definition unlimited :: "'s handler \<Rightarrow> 's served" where
  "unlimited h cx rq s = (case s of (rl, w) \<Rightarrow> let (rs, w') = h cx rq w in (rs, rl, w'))"

text \<open>The middleware of \<open>NewCSRFMiddleware\<close>, with its error handler.\<close>

definition csrf_failed :: "http_ctx \<Rightarrow> http_request \<Rightarrow> response" where
  "csrf_failed cx rq =
     (if HasPrefix (rq_Path rq) ''/api/'' then WriteProblem cx 403 ''csrf_failed'' CSRFFailed 0
      else http_error ''Forbidden'' 403)"

definition csrf_protect ::
  "(http_request \<Rightarrow> bool) \<Rightarrow> (http_ctx \<Rightarrow> http_request \<Rightarrow> 'st \<Rightarrow> response \<times> 'st) \<Rightarrow> http_ctx \<Rightarrow> http_request \<Rightarrow> 'st \<Rightarrow> response \<times> 'st" where
  "csrf_protect valid next cx rq s = (if valid rq then next cx rq s else (csrf_failed cx rq, s))"

definition limited_login :: "'s Deps \<Rightarrow> 's handler \<Rightarrow> 's served" where
  "limited_login deps h = (if dp_LoginRate deps then LoginRateLimitMiddleware (dp_Now deps) h else unlimited h)"

subsection \<open>The API\<close>

definition not_found_problem :: "'s handler" where
  "not_found_problem cx rq w = (WriteProblem cx 404 ''not_found'' UnknownRoute 0, w)"

definition method_problem :: "'s handler" where
  "method_problem cx rq w = (WriteProblem cx 405 ''method_not_allowed'' UnsupportedMethod 0, w)"

definition api_readers :: "string list" where
  "api_readers = [''admin'', ''operator'']"

text \<open>The routes under \<^verbatim>\<open>/api/imports\<close>, by the path elements that follow it.\<close>

definition import_route :: "'s Deps \<Rightarrow> 's app_handlers \<Rightarrow> string \<Rightarrow> string list \<Rightarrow> 's handler" where
  "import_route deps h method elems =
     (if elems = [] \<or> elems = ['''']
      then if method = ''GET'' then RequireAPIRoles api_readers (ah_List h) else method_problem
      else if length elems = 1
      then if method = ''GET'' then RequireAPIRoles api_readers (ah_Get h (hd elems))
           else if method = ''POST'' \<and> hd elems = ''legacy''
           then RequireAPIRoles [''admin''] (csrf_protect (dp_CSRF deps) (ah_UploadLegacy h))
           else method_problem
      else not_found_problem)"

definition api_guarded :: "'s Deps \<Rightarrow> 's handler \<Rightarrow> 's handler" where
  "api_guarded deps next = TraceMiddleware (dp_traceBytes deps) (RequireAPIAuth (Some (dp_Sessions deps)) next)"

definition only :: "'s Deps \<Rightarrow> string \<Rightarrow> string \<Rightarrow> 's served \<Rightarrow> 's served" where
  "only deps wanted method next = (if method = wanted then next else unlimited (dp_MethodNotAllowed deps))"

definition registerAPIRoutes :: "'s Deps \<Rightarrow> 's app_handlers \<Rightarrow> string \<Rightarrow> string list \<Rightarrow> 's served" where
  "registerAPIRoutes deps h method elems =
     (if elems = [''session''] then only deps ''GET'' method (unlimited (ah_GetSessionJSON h))
      else if elems = [''login''] then only deps ''POST'' method (limited_login deps (ah_PostLoginJSON h))
      else if elems = [''logout''] then only deps ''POST'' method (unlimited (ah_PostLogoutJSON h))
      else if dp_ImportService deps \<and> elems = [''csrf'']
      then only deps ''GET'' method
             (unlimited (api_guarded deps (RequireAPIRoles api_readers (csrf_protect (dp_CSRF deps) (ah_GetCSRFJSON h)))))
      else if dp_ImportService deps \<and> elems \<noteq> [] \<and> hd elems = ''imports''
      then unlimited (api_guarded deps (import_route deps h method (tl elems)))
      else unlimited (dp_NotFound deps))"

subsection \<open>The other routes\<close>

text \<open>The frontend takes every path that is left, for the methods that read.\<close>

definition frontend_route :: "'s Deps \<Rightarrow> 's app_handlers \<Rightarrow> string \<Rightarrow> string list \<Rightarrow> 's served" where
  "frontend_route deps h method elems =
     (if \<not> dp_Frontend deps then unlimited (dp_NotFound deps)
      else if length elems > 1 \<and> hd elems = ''assets'' then unlimited (ah_Assets h)
      else if method = ''GET'' \<or> method = ''HEAD'' then unlimited (ah_Frontend h)
      else unlimited (dp_MethodNotAllowed deps))"

definition form_guarded :: "'s Deps \<Rightarrow> 's handler \<Rightarrow> 's served" where
  "form_guarded deps next =
     csrf_protect (dp_CSRF deps) (unlimited (RequireAuth (dp_Sessions deps) (dp_parse_host deps) (withActor next)))"

text \<open>The handler of a form route; with another method the path goes on to the frontend.\<close>

definition registerRoutes :: "'s Deps \<Rightarrow> 's app_handlers \<Rightarrow> string \<Rightarrow> string list \<Rightarrow> 's served option" where
  "registerRoutes deps h method elems =
     (if method = ''POST'' \<and> elems = [''login'']
      then Some (csrf_protect (dp_CSRF deps) (limited_login deps (ah_PostLogin h)))
      else if method = ''POST'' \<and> elems = [''logout''] then Some (form_guarded deps (ah_PostLogout h))
      else if length elems = 3 \<and> elems ! 0 = ''protocols'' \<and> elems ! 1 \<noteq> ''''
      then if method = ''POST'' \<and> elems ! 2 = ''generate'' then Some (form_guarded deps (ah_Generate h (elems ! 1)))
           else if method = ''GET'' \<and> elems ! 2 = ''download'' then Some (form_guarded deps (ah_Download h (elems ! 1)))
           else None
      else None)"

definition form_path :: "string list \<Rightarrow> bool" where
  "form_path elems \<longleftrightarrow>
     elems = [''login''] \<or> elems = [''logout'']
     \<or> (length elems = 3 \<and> elems ! 0 = ''protocols'' \<and> elems ! 1 \<noteq> '''' \<and> (elems ! 2 = ''generate'' \<or> elems ! 2 = ''download''))"

definition NewRouter :: "'s Deps \<Rightarrow> 's app_handlers \<Rightarrow> 's served" where
  "NewRouter deps h cx rq s =
     (let elems = tl (split_on (CHR ''/'') (rq_Path rq)); method = rq_Method rq in
      if elems \<noteq> [] \<and> hd elems = ''api'' then registerAPIRoutes deps h method (tl elems) cx rq s
      else case registerRoutes deps h method elems of
        Some next \<Rightarrow> next cx rq s
      | None \<Rightarrow>
          if form_path elems \<and> \<not> dp_Frontend deps then unlimited (dp_MethodNotAllowed deps) cx rq s
          else frontend_route deps h method elems cx rq s)"

subsection \<open>What the guards keep out\<close>

text \<open>The same handlers on the routes that ask for no session.\<close>

definition same_public :: "'s app_handlers \<Rightarrow> 's app_handlers \<Rightarrow> bool" where
  "same_public h h' \<longleftrightarrow>
     ah_GetSessionJSON h = ah_GetSessionJSON h' \<and> ah_PostLoginJSON h = ah_PostLoginJSON h'
     \<and> ah_PostLogoutJSON h = ah_PostLogoutJSON h' \<and> ah_PostLogin h = ah_PostLogin h'
     \<and> ah_Assets h = ah_Assets h' \<and> ah_Frontend h = ah_Frontend h'"

text \<open>The same handlers on the routes that take no token: those that read, and login and logout of the API.\<close>

definition same_tokenless :: "'s app_handlers \<Rightarrow> 's app_handlers \<Rightarrow> bool" where
  "same_tokenless h h' \<longleftrightarrow>
     ah_PostLoginJSON h = ah_PostLoginJSON h' \<and> ah_PostLogoutJSON h = ah_PostLogoutJSON h'
     \<and> ah_Assets h = ah_Assets h'"

lemma anonymous_api: "sm_GetInt64 (dp_Sessions deps) SessionKeyUserID (w_session w) \<le> 0
    \<Longrightarrow> api_guarded deps next cx rq w = api_guarded deps next' cx rq w"
  by (simp add: api_guarded_def TraceMiddleware_def RequireAPIAuth_def Let_def split: option.split)

lemma api_guarded_cong:
  assumes "\<And>cx. f cx rq w = f' cx rq w"
  shows "api_guarded deps f cx rq w = api_guarded deps f' cx rq w"
proof -
  have "RequireAPIAuth (Some sm) f cx rq w = RequireAPIAuth (Some sm) f' cx rq w" for sm cx
    by (simp add: RequireAPIAuth_def Let_def assms split: sum.split store_error.split)
  then show ?thesis by (simp add: api_guarded_def TraceMiddleware_def split: option.split)
qed

lemma anonymous_form: "sm_GetInt64 (dp_Sessions deps) SessionKeyUserID (w_session w) = 0
    \<Longrightarrow> form_guarded deps next cx rq (rl, w) = form_guarded deps next' cx rq (rl, w)"
  by (simp add: form_guarded_def csrf_protect_def unlimited_def RequireAuth_def)

text \<open>
  C40. A request without a session reaches no guarded handler, and a request without a token changes nothing
  through the forms or the upload. When the session holds no user, the answer and the effect are the same
  whatever the handlers of the imports, of the documents, of the logout form and of the token do: only the
  session query, the two logins, the logout of the API and the frontend run. When the method is POST and the
  CSRF token is not valid, they are the same whatever every handler does but login and logout of the API and
  the static files: neither a login form, nor a logout form, nor a generation, nor an upload runs.
\<close>

theorem routes_are_guarded:
  "(sm_GetInt64 (dp_Sessions deps) SessionKeyUserID (w_session w) = 0 \<and> same_public h h'
     \<longrightarrow> NewRouter deps h cx rq (rl, w) = NewRouter deps h' cx rq (rl, w))
   \<and> (rq_Method rq = ''POST'' \<and> \<not> dp_CSRF deps rq \<and> same_tokenless h h'
     \<longrightarrow> NewRouter deps h cx rq (rl, w) = NewRouter deps h' cx rq (rl, w))"
proof (intro conjI impI; elim conjE)
  assume anon: "sm_GetInt64 (dp_Sessions deps) SessionKeyUserID (w_session w) = 0" and same: "same_public h h'"
  have api: "unlimited (api_guarded deps f) cx rq (rl, w) = unlimited (api_guarded deps f') cx rq (rl, w)" for f f'
    using anonymous_api [of deps w f cx rq f'] anon by (simp add: unlimited_def)
  have form: "form_guarded deps f cx rq (rl, w) = form_guarded deps f' cx rq (rl, w)" for f f'
    by (rule anonymous_form [OF anon])
  show "NewRouter deps h cx rq (rl, w) = NewRouter deps h' cx rq (rl, w)"
    using same api form [of "ah_PostLogout h" "ah_PostLogout h'"]
      form [of "ah_Generate h _" "ah_Generate h' _"] form [of "ah_Download h _" "ah_Download h' _"]
    unfolding NewRouter_def registerAPIRoutes_def registerRoutes_def frontend_route_def only_def same_public_def Let_def
    by auto
next
  assume post: "rq_Method rq = ''POST''" and bad: "\<not> dp_CSRF deps rq" and same: "same_tokenless h h'"
  have form: "form_guarded deps f cx rq s = form_guarded deps f' cx rq s" for f f' s
    using bad by (simp add: form_guarded_def csrf_protect_def)
  have login: "csrf_protect (dp_CSRF deps) f cx rq s = csrf_protect (dp_CSRF deps) f' cx rq s" for f f' and s :: "RateLimiter \<times> 'a world"
    using bad by (simp add: csrf_protect_def)
  have "import_route deps h ''POST'' es cx' rq w' = import_route deps h' ''POST'' es cx' rq w'" for es cx' w'
    using bad by (auto simp: import_route_def RequireAPIRoles_def csrf_protect_def split: option.split)
  then have imp: "api_guarded deps (import_route deps h ''POST'' es) cx rq w' = api_guarded deps (import_route deps h' ''POST'' es) cx rq w'" for es w'
    by (rule api_guarded_cong)
  show "NewRouter deps h cx rq (rl, w) = NewRouter deps h' cx rq (rl, w)"
    using same form login imp
    unfolding NewRouter_def registerAPIRoutes_def registerRoutes_def frontend_route_def only_def same_tokenless_def Let_def post
    by (auto simp: unlimited_def)
qed

definition sample_deps :: "(nat \<times> (string \<rightharpoonup> sval)) Deps" where
  "sample_deps = \<lparr>dp_Sessions = sample_sessions, dp_CSRF = (\<lambda>_. False), dp_LoginRate = True, dp_Now = 0, dp_ImportService = True,
     dp_Frontend = True, dp_traceBytes = Some ''0123456789abcdef'', dp_parse_host = (\<lambda>_. None),
     dp_NotFound = (\<lambda>cx rq w. (http_error ''404 page not found'' 404, w)),
     dp_MethodNotAllowed = (\<lambda>cx rq w. (http_error '''' 405, w))\<rparr>"

definition answers :: "string \<Rightarrow> 's handler" where
  "answers t = (\<lambda>cx rq w. (http_error t 200, w))"

definition sample_handlers :: "'s app_handlers" where
  "sample_handlers = \<lparr>ah_GetSessionJSON = answers ''session'', ah_PostLoginJSON = answers ''login'', ah_PostLogoutJSON = answers ''logout'',
     ah_GetCSRFJSON = answers ''token'', ah_List = answers ''list'', ah_Get = answers, ah_UploadLegacy = answers ''upload'',
     ah_PostLogin = answers ''form'', ah_PostLogout = answers ''bye'', ah_Generate = answers, ah_Download = answers,
     ah_Assets = answers ''asset'', ah_Frontend = answers ''index''\<rparr>"

lemma routes_are_guarded_witness:
  "NewRouter sample_deps sample_handlers sample_ctx (sample_login\<lparr>rq_Path := ''/protocols/7/generate''\<rparr>) (NewRateLimiter 10 60, sample_world)
   = NewRouter sample_deps (sample_handlers\<lparr>ah_Generate := (\<lambda>_ _ _ w. (http_error ''changed'' 200, w\<lparr>w_db := empty_db\<rparr>))\<rparr>) sample_ctx
       (sample_login\<lparr>rq_Path := ''/protocols/7/generate''\<rparr>) (NewRateLimiter 10 60, sample_world)"
proof -
  let ?h' = "sample_handlers\<lparr>ah_Generate := (\<lambda>_ _ _ w. (http_error ''changed'' 200, w\<lparr>w_db := empty_db\<rparr>))\<rparr>"
  have "same_public sample_handlers ?h'" by (simp add: same_public_def)
  moreover have "sm_GetInt64 (dp_Sessions sample_deps) SessionKeyUserID (w_session sample_world) = 0"
    by (simp add: sample_deps_def sample_sessions_def sample_world_def)
  ultimately show ?thesis using routes_are_guarded [of sample_deps sample_world sample_handlers ?h'] by blast
qed

text \<open>With a session, the same request with a valid token reaches the handler.\<close>

lemma generate_is_reached:
  "fst (NewRouter (sample_deps\<lparr>dp_CSRF := (\<lambda>_. True)\<rparr>) sample_handlers sample_ctx (sample_login\<lparr>rq_Path := ''/protocols/7/generate''\<rparr>)
     (NewRateLimiter 10 60, sample_world\<lparr>w_session := (1, [SessionKeyUserID \<mapsto> SInt 1, SessionKeyUserLogin \<mapsto> SStr ''admin''])\<rparr>))
   = http_error ''7'' 200"
  by (simp add: NewRouter_def registerRoutes_def form_guarded_def csrf_protect_def unlimited_def RequireAuth_def withActor_def
      sample_deps_def sample_sessions_def sample_login_def sample_handlers_def answers_def SessionKeyUserID_def SessionKeyUserLogin_def
      Let_def split: prod.split)

end
