(* ===== verification/ServerLifecycle.thy ===== *)
theory ServerLifecycle
  imports Http
begin

text \<open>
  The HTTP server of \<^verbatim>\<open>app/server.go\<close>: \<open>handlerLifecycle\<close> counts the application handlers that
  are running, refuses new ones once the server is closing, and closes the channel \<open>drained\<close> when
  the last one has returned. Each method's body runs under the mutex, so a step of the system is
  one critical section. Closing a closed channel panics, which is \<open>None\<close> here.

  Also the \<open>statusRecorder\<close> of \<^verbatim>\<open>app/middleware.go\<close>, which remembers the first status written.
\<close>

record handlerLifecycle =
  lc_closing :: bool
  lc_active :: int
  lc_drained :: bool

definition newHandlerLifecycle :: handlerLifecycle where
  "newHandlerLifecycle = \<lparr>lc_closing = False, lc_active = 0, lc_drained = False\<rparr>"

definition close_drained :: "handlerLifecycle \<Rightarrow> handlerLifecycle option" where
  "close_drained l = (if lc_drained l then None else Some (l\<lparr>lc_drained := True\<rparr>))"

text \<open>The admission in \<open>ServeHTTP\<close>: \<open>False\<close> answers 503 without calling the handler.\<close>

definition lifecycle_ServeHTTP :: "handlerLifecycle \<Rightarrow> bool \<times> handlerLifecycle" where
  "lifecycle_ServeHTTP l =
     (if lc_closing l then (False, l) else (True, l\<lparr>lc_active := lc_active l + 1\<rparr>))"

definition lifecycle_done :: "handlerLifecycle \<Rightarrow> handlerLifecycle option" where
  "lifecycle_done l =
     (let l' = l\<lparr>lc_active := lc_active l - 1\<rparr> in
      if lc_closing l' \<and> lc_active l' = 0 then close_drained l' else Some l')"

definition lifecycle_stop :: "handlerLifecycle \<Rightarrow> handlerLifecycle option" where
  "lifecycle_stop l =
     (if \<not> lc_closing l
      then (let l' = l\<lparr>lc_closing := True\<rparr> in
            if lc_active l' = 0 then close_drained l' else Some l')
      else Some l)"

text \<open>
  The server under any interleaving: requests arrive, handlers return, and \<open>Shutdown\<close> and \<open>Close\<close>
  call \<open>stop\<close>. The state carries the number of handlers that are running.
\<close>

inductive server_step :: "handlerLifecycle \<times> nat \<Rightarrow> handlerLifecycle \<times> nat \<Rightarrow> bool" where
  request: "lifecycle_ServeHTTP l = (admitted, l') \<Longrightarrow>
     server_step (l, n) (l', if admitted then n + 1 else n)"
| return: "lifecycle_done l = Some l' \<Longrightarrow> server_step (l, Suc n) (l', n)"
| stop: "lifecycle_stop l = Some l' \<Longrightarrow> server_step (l, n) (l', n)"

inductive_cases server_stepE: "server_step s s'"

definition lifecycle_inv :: "handlerLifecycle \<times> nat \<Rightarrow> bool" where
  "lifecycle_inv s = (case s of (l, n) \<Rightarrow>
     lc_active l = int n \<and> (lc_drained l \<longleftrightarrow> lc_closing l \<and> n = 0))"

lemmas lifecycle_defs = lifecycle_ServeHTTP_def lifecycle_done_def lifecycle_stop_def close_drained_def
  Let_def

lemma server_step_inv: "server_step s s' \<Longrightarrow> lifecycle_inv s \<Longrightarrow> lifecycle_inv s'"
  by (erule server_stepE) (auto simp: lifecycle_inv_def lifecycle_defs split: if_splits)

lemma server_run_inv: "server_step\<^sup>*\<^sup>* s s' \<Longrightarrow> lifecycle_inv s \<Longrightarrow> lifecycle_inv s'"
  by (induction rule: rtranclp_induct) (auto intro: server_step_inv)

lemma new_inv: "lifecycle_inv (newHandlerLifecycle, 0)"
  by (simp add: lifecycle_inv_def newHandlerLifecycle_def)

lemma server_step_closing: "server_step s s' \<Longrightarrow> lc_closing (fst s) \<Longrightarrow> lc_closing (fst s') \<and> snd s' \<le> snd s"
  by (erule server_stepE) (auto simp: lifecycle_defs split: if_splits)

lemma server_run_closing:
  "server_step\<^sup>*\<^sup>* s s' \<Longrightarrow> lc_closing (fst s) \<Longrightarrow> lc_closing (fst s') \<and> snd s' \<le> snd s"
proof (induction rule: rtranclp_induct)
  case base
  then show ?case by simp
next
  case (step y z)
  then show ?case using server_step_closing [of y z] by auto
qed

lemma server_never_panics:
  assumes "lifecycle_inv (l, n)"
  shows "lifecycle_stop l \<noteq> None" "0 < n \<Longrightarrow> lifecycle_done l \<noteq> None"
  using assms by (auto simp: lifecycle_inv_def lifecycle_defs)

text \<open>Once the server is closing, its running handlers can return one by one until it is drained.\<close>

lemma drains:
  "lifecycle_inv (l, n) \<Longrightarrow> lc_closing l \<Longrightarrow> \<exists>l'. server_step\<^sup>*\<^sup>* (l, n) (l', 0) \<and> lc_drained l'"
proof (induction n arbitrary: l)
  case 0
  then show ?case by (auto simp: lifecycle_inv_def)
next
  case (Suc n)
  obtain l1 where l1: "lifecycle_done l = Some l1" using server_never_panics(2) [OF Suc.prems(1)] by auto
  then have st: "server_step (l, Suc n) (l1, n)" by (rule server_step.return)
  have "lc_closing l1" using server_step_closing [OF st] Suc.prems(2) by simp
  with Suc.IH [OF server_step_inv [OF st Suc.prems(1)]] st show ?case
    by (meson converse_rtranclp_into_rtranclp)
qed

subsection \<open>The recorded status\<close>

record statusRecorder =
  sr_status :: int
  sr_sent :: "int list"

text \<open>\<open>sr_sent\<close> holds the codes passed on to the underlying writer; 0 means none yet.\<close>

definition recorder_WriteHeader :: "int \<Rightarrow> statusRecorder \<Rightarrow> statusRecorder" where
  "recorder_WriteHeader code r =
     (if sr_status r \<noteq> 0 then r else r\<lparr>sr_status := code, sr_sent := sr_sent r @ [code]\<rparr>)"

definition recorder_Write :: "statusRecorder \<Rightarrow> statusRecorder" where
  "recorder_Write r = (if sr_status r = 0 then r\<lparr>sr_status := 200\<rparr> else r)"

definition statusCode :: "statusRecorder \<Rightarrow> int" where
  "statusCode r = (if sr_status r = 0 then 200 else sr_status r)"

text \<open>A handler's calls on its writer: \<open>Some code\<close> for \<open>WriteHeader\<close>, \<open>None\<close> for \<open>Write\<close>.\<close>

definition recorder_call :: "int option \<Rightarrow> statusRecorder \<Rightarrow> statusRecorder" where
  "recorder_call c = (case c of None \<Rightarrow> recorder_Write | Some code \<Rightarrow> recorder_WriteHeader code)"

lemma recorder_settled:
  "sr_status r \<noteq> 0 \<Longrightarrow> fold recorder_call cs r = r"
  by (induction cs arbitrary: r)
    (auto simp: recorder_call_def recorder_Write_def recorder_WriteHeader_def split: option.splits)

text \<open>The properties of the server's lifecycle.\<close>

text \<open>
  C19. Under any interleaving of requests, returning handlers and calls of \<open>Shutdown\<close> and \<open>Close\<close>:
  the channel \<open>drained\<close> is closed exactly when the server is closing and no application handler
  runs, it is never closed twice (neither a returning handler nor a stop panics), and once it
  is closed no handler ever runs again, so the database can be released.
\<close>

theorem drained_means_idle:
  assumes "server_step\<^sup>*\<^sup>* (newHandlerLifecycle, 0) (l, n)"
  shows "(lc_drained l \<longleftrightarrow> lc_closing l \<and> n = 0)
     \<and> lifecycle_stop l \<noteq> None \<and> (0 < n \<longrightarrow> lifecycle_done l \<noteq> None)
     \<and> (lc_drained l \<longrightarrow> (\<forall>l' n'. server_step\<^sup>*\<^sup>* (l, n) (l', n') \<longrightarrow> n' = 0 \<and> lc_drained l'))"
proof -
  have inv: "lifecycle_inv (l, n)" by (rule server_run_inv [OF assms new_inv])
  have "n' = 0 \<and> lc_drained l'" if "lc_drained l" "server_step\<^sup>*\<^sup>* (l, n) (l', n')" for l' n'
    using server_run_closing [OF that(2)] server_run_inv [OF that(2) inv] inv that(1)
    by (auto simp: lifecycle_inv_def)
  with server_never_panics [OF inv] inv show ?thesis by (auto simp: lifecycle_inv_def)
qed

theorem drained_means_idle_witness:
  "\<exists>l. server_step\<^sup>*\<^sup>* (newHandlerLifecycle, 0) (l, 0) \<and> lc_drained l"
proof -
  let ?l = "newHandlerLifecycle\<lparr>lc_closing := True, lc_drained := True\<rparr>"
  have "server_step (newHandlerLifecycle, 0) (?l, 0)"
    by (rule server_step.stop) (simp add: lifecycle_defs newHandlerLifecycle_def)
  then have run: "server_step\<^sup>*\<^sup>* (newHandlerLifecycle, 0) (?l, 0)" by (rule r_into_rtranclp)
  from drained_means_idle [OF this] run show ?thesis by (intro exI [of _ ?l]) simp
qed

text \<open>
  C20. After \<open>stop\<close> the server always can drain: from every reachable state, calling \<open>stop\<close> and letting
  the handlers that are still running return leads to a state in which \<open>drained\<close> is closed.
\<close>

theorem stop_leads_to_drained:
  assumes "server_step\<^sup>*\<^sup>* (newHandlerLifecycle, 0) (l, n)"
  shows "\<exists>l1 l2. lifecycle_stop l = Some l1 \<and> server_step\<^sup>*\<^sup>* (l1, n) (l2, 0) \<and> lc_drained l2"
proof -
  have inv: "lifecycle_inv (l, n)" by (rule server_run_inv [OF assms new_inv])
  then obtain l1 where l1: "lifecycle_stop l = Some l1" using server_never_panics(1) by fastforce
  then have "server_step (l, n) (l1, n)" by (rule server_step.stop)
  then have "lifecycle_inv (l1, n)" by (rule server_step_inv [OF _ inv])
  moreover have "lc_closing l1" using l1 by (auto simp: lifecycle_defs split: if_splits)
  ultimately show ?thesis using drains l1 by blast
qed

theorem stop_leads_to_drained_witness:
  "\<exists>l1 l2. lifecycle_stop (newHandlerLifecycle\<lparr>lc_active := 1\<rparr>) = Some l1
     \<and> server_step\<^sup>*\<^sup>* (l1, 1) (l2, 0) \<and> lc_drained l2"
proof -
  have "server_step (newHandlerLifecycle, 0) (newHandlerLifecycle\<lparr>lc_active := 1\<rparr>, if True then 0 + 1 else 0)"
    by (rule server_step.request) (simp add: lifecycle_ServeHTTP_def newHandlerLifecycle_def)
  then have "server_step\<^sup>*\<^sup>* (newHandlerLifecycle, 0) (newHandlerLifecycle\<lparr>lc_active := 1\<rparr>, 1)" by simp
  from stop_leads_to_drained [OF this] show ?thesis .
qed

text \<open>
  The status a request is logged with is the one the client gets: the first code the handler
  wrote, or 200 when it wrote the body first or nothing at all; later codes are dropped.
\<close>

theorem recorded_status:
  assumes "\<forall>c \<in> set cs. c \<noteq> Some 0"
  shows "statusCode (fold recorder_call cs \<lparr>sr_status = 0, sr_sent = []\<rparr>)
       = (case cs of Some code # _ \<Rightarrow> code | _ \<Rightarrow> 200)
     \<and> length (sr_sent (fold recorder_call cs \<lparr>sr_status = 0, sr_sent = []\<rparr>)) \<le> 1"
proof (cases cs)
  case Nil
  then show ?thesis by (simp add: statusCode_def)
next
  case (Cons c cs')
  then have "sr_status (recorder_call c \<lparr>sr_status = 0, sr_sent = []\<rparr>) \<noteq> 0"
    using assms by (auto simp: recorder_call_def recorder_Write_def recorder_WriteHeader_def split: option.splits)
  from recorder_settled [OF this] Cons assms show ?thesis
    by (auto simp: statusCode_def recorder_call_def recorder_Write_def recorder_WriteHeader_def
        split: option.splits)
qed

theorem recorded_status_witness:
  "statusCode (fold recorder_call [Some 404, None, Some 500] \<lparr>sr_status = 0, sr_sent = []\<rparr>) = 404"
  using recorded_status [of "[Some 404, None, Some 500]"] by simp

end
