(* ===== verification/LegacyHeaders.thy ===== *)
theory LegacyHeaders
  imports GoText
begin

text \<open>
  The headers of the legacy registry workbook (\<^verbatim>\<open>imports/legacy/types.go\<close>, \<^verbatim>\<open>errors.go\<close> and
  \<^verbatim>\<open>headers.go\<close>): normalizing a label, recognizing a sheet by its name, recognizing columns
  that hold secrets, and building the plan of a sheet from its header row.

  A Go map from column indexes is its association list in the order of the columns, and a set
  of columns is the list of them; a nil map is the empty one.
\<close>

record Limits =
  MaxFileBytes :: int
  MaxUncompressedBytes :: nat
  MaxZIPEntries :: int
  MaxSheets :: int
  MaxRows :: int
  MaxCells :: int
  MaxCellBytes :: int
  MaxHeaderRows :: int

definition DefaultLimits :: Limits where
  "DefaultLimits = \<lparr>MaxFileBytes = 50 * 2 ^ 20, MaxUncompressedBytes = 256 * 2 ^ 20,
     MaxZIPEntries = 4096, MaxSheets = 32, MaxRows = 200000, MaxCells = 5000000,
     MaxCellBytes = 32 * 2 ^ 10, MaxHeaderRows = 20\<rparr>"

type_synonym SheetProfile = string

text \<open>The five sheets are named by one Cyrillic letter each.\<close>

definition SheetA :: SheetProfile where
  "SheetA = bytes [208, 144]"

definition SheetB :: SheetProfile where
  "SheetB = bytes [208, 145]"

definition SheetV :: SheetProfile where
  "SheetV = bytes [208, 146]"

definition SheetP :: SheetProfile where
  "SheetP = bytes [208, 159]"

definition SheetS :: SheetProfile where
  "SheetS = bytes [208, 161]"

lemmas Sheet_defs = SheetA_def SheetB_def SheetV_def SheetP_def SheetS_def

type_synonym Field = string

definition FieldEmployer :: Field where
  "FieldEmployer = ''employer''"

definition FieldINN :: Field where
  "FieldINN = ''inn''"

definition FieldFullName :: Field where
  "FieldFullName = ''full_name''"

definition FieldPosition :: Field where
  "FieldPosition = ''position''"

definition FieldDepartment :: Field where
  "FieldDepartment = ''department''"

definition FieldSNILS :: Field where
  "FieldSNILS = ''snils''"

definition FieldProgram :: Field where
  "FieldProgram = ''program''"

definition FieldTrainingPeriod :: Field where
  "FieldTrainingPeriod = ''training_period''"

definition FieldProtocolNumber :: Field where
  "FieldProtocolNumber = ''protocol_number''"

definition FieldProtocolDate :: Field where
  "FieldProtocolDate = ''protocol_date''"

definition FieldAssessment :: Field where
  "FieldAssessment = ''assessment_result''"

definition FieldRegistryNumber :: Field where
  "FieldRegistryNumber = ''mintrud_registry_number''"

definition FieldSourceRef :: Field where
  "FieldSourceRef = ''source_reference''"

definition FieldMoodleEmail :: Field where
  "FieldMoodleEmail = ''moodle_email''"

definition FieldMoodleUsername :: Field where
  "FieldMoodleUsername = ''moodle_username''"

lemmas Field_defs = FieldEmployer_def FieldINN_def FieldFullName_def FieldPosition_def FieldDepartment_def
  FieldSNILS_def FieldProgram_def FieldTrainingPeriod_def FieldProtocolNumber_def FieldProtocolDate_def
  FieldAssessment_def FieldRegistryNumber_def FieldSourceRef_def FieldMoodleEmail_def FieldMoodleUsername_def

record SheetPlan =
  sp_Name :: string
  sp_Order :: int
  sp_Profile :: SheetProfile
  sp_HeaderRow :: int
  sp_HeaderMap :: "(int \<times> Field) list"
  sp_ExtraNames :: "(int \<times> string) list"
  sp_secretColumns :: "int list"

type_synonym WorkbookPlan = "SheetPlan list"

record SourceRow =
  sr_SheetName :: string
  sr_SheetProfile :: SheetProfile
  sr_RowNumber :: int
  sr_EmployerName :: string
  sr_INN :: string
  sr_FullName :: string
  sr_Position :: string
  sr_Department :: string
  sr_SNILS :: string
  sr_ProgramText :: string
  sr_TrainingPeriod :: string
  sr_ProtocolNumber :: string
  sr_ProtocolDate :: string
  sr_AssessmentResult :: string
  sr_MintrudRegistryNumber :: string
  sr_SourceReference :: string
  sr_MoodleEmail :: string
  sr_MoodleUsername :: string
  sr_ExtraFields :: "(string \<times> string) list"
  sr_SourceFingerprintSHA256 :: string

datatype legacy_code = CodeNotXLSX | CodeWorkbookTooLarge | CodeUnsupportedWorkbook | CodeMissingSheet
  | CodeUnknownSheet | CodeMissingColumns | CodeLimitExceeded | CodeReadFailed

text \<open>A \<open>ParseError\<close>; the wrapped cause is left out, as it is from its text.\<close>

record ParseError =
  pe_Code :: legacy_code
  pe_Sheet :: string
  pe_Row :: int
  pe_Detail :: string

definition coded :: "legacy_code \<Rightarrow> string \<Rightarrow> ParseError" where
  "coded code det = \<lparr>pe_Code = code, pe_Sheet = '''', pe_Row = 0, pe_Detail = det\<rparr>"

subsection \<open>Labels\<close>

text \<open>\<open>strings.ReplaceAll\<close> for a non-empty text.\<close>

function replace_all :: "string \<Rightarrow> string \<Rightarrow> string \<Rightarrow> string" where
  "replace_all old new s =
     (if s = [] then []
      else if old \<noteq> [] \<and> HasPrefix s old then new @ replace_all old new (drop (length old) s)
      else hd s # replace_all old new (tl s))"
  by pat_completeness auto
termination
  by (relation "measure (\<lambda>(old, new, s). length s)") (auto simp: HasPrefix_iff)

declare replace_all.simps [simp del]

definition IsLetter :: "unicode \<Rightarrow> nat \<Rightarrow> bool" where
  "IsLetter u r =
     (if r < 128 then 65 \<le> r \<and> r \<le> 90 \<or> 97 \<le> r \<and> r \<le> 122 else r \<noteq> rune_error \<and> u_is_letter u r)"

text \<open>
  The loop of \<open>normalizeLabel\<close>: letters and digits are kept, every other run of characters
  becomes one space between them. U+0451 is written as U+0435.
\<close>

fun label_loop :: "unicode \<Rightarrow> (nat \<times> string) list \<Rightarrow> string \<Rightarrow> bool \<Rightarrow> string" where
  "label_loop u [] out needSpace = out"
| "label_loop u ((r, b) # rs) out needSpace =
     (let (r, b) = (if r = 1105 then (1077, bytes [208, 181]) else (r, b))
      in if IsLetter u r \<or> IsDigit u r
         then label_loop u rs ((if needSpace \<and> out \<noteq> [] then out @ '' '' else out) @ b) False
         else label_loop u rs out True)"

text \<open>The number sign U+2116 stands for the Russian word "nomer".\<close>

definition normalizeLabel :: "unicode \<Rightarrow> string \<Rightarrow> string" where
  "normalizeLabel u value =
     label_loop u (rune_slices (ToLower u
       (replace_all (bytes [226, 132, 150]) (bytes [32, 208, 189, 208, 190, 208, 188, 208, 181, 209, 128, 32])
          value))) [] False"

text \<open>The aliases of the columns, each label by its UTF-8 bytes.\<close>

definition headerAliasLabels :: "(nat list \<times> Field) list" where
  "headerAliasLabels =
     [
      ([208, 190, 209, 128, 208, 179, 208, 176, 208, 189, 208, 184, 208, 183, 208, 176,
              209, 134, 208, 184, 209, 143], FieldEmployer),
      ([208, 189, 208, 176, 208, 184, 208, 188, 208, 181, 208, 189, 208, 190, 208, 178,
              208, 176, 208, 189, 208, 184, 208, 181, 32, 208, 190, 209, 128, 208, 179, 208, 176,
              208, 189, 208, 184, 208, 183, 208, 176, 209, 134, 208, 184, 208, 184],
              FieldEmployer),
      ([209, 128, 208, 176, 208, 177, 208, 190, 209, 130, 208, 190, 208, 180, 208, 176,
              209, 130, 208, 181, 208, 187, 209, 140], FieldEmployer),
      ([208, 184, 208, 189, 208, 189], FieldINN),
      ([209, 132, 32, 208, 184, 32, 208, 190], FieldFullName),
      ([209, 132, 208, 184, 208, 190], FieldFullName),
      ([209, 132, 208, 176, 208, 188, 208, 184, 208, 187, 208, 184, 209, 143, 32, 208, 184,
              208, 188, 209, 143, 32, 208, 190, 209, 130, 209, 135, 208, 181, 209, 129, 209, 130,
              208, 178, 208, 190], FieldFullName),
      ([208, 191, 209, 128, 208, 190, 209, 132, 208, 181, 209, 129, 209, 129, 208, 184,
              209, 143], FieldPosition),
      ([208, 180, 208, 190, 208, 187, 208, 182, 208, 189, 208, 190, 209, 129, 209, 130,
              209, 140], FieldPosition),
      ([208, 191, 209, 128, 208, 190, 209, 132, 208, 181, 209, 129, 209, 129, 208, 184,
              209, 143, 32, 208, 180, 208, 190, 208, 187, 208, 182, 208, 189, 208, 190, 209, 129,
              209, 130, 209, 140], FieldPosition),
      ([208, 191, 208, 190, 208, 180, 209, 128, 208, 176, 208, 183, 208, 180, 208, 181,
              208, 187, 208, 181, 208, 189, 208, 184, 208, 181], FieldDepartment),
      ([209, 129, 208, 189, 208, 184, 208, 187, 209, 129], FieldSNILS),
      ([208, 191, 209, 128, 208, 190, 208, 179, 209, 128, 208, 176, 208, 188, 208, 188,
              208, 176], FieldProgram),
      ([208, 191, 209, 128, 208, 190, 208, 179, 209, 128, 208, 176, 208, 188, 208, 188,
              208, 176, 32, 208, 190, 208, 177, 209, 131, 209, 135, 208, 181, 208, 189, 208, 184,
              209, 143], FieldProgram),
      ([208, 189, 208, 176, 208, 184, 208, 188, 208, 181, 208, 189, 208, 190, 208, 178,
              208, 176, 208, 189, 208, 184, 208, 181, 32, 208, 191, 209, 128, 208, 190, 208, 179,
              209, 128, 208, 176, 208, 188, 208, 188, 209, 139], FieldProgram),
      ([208, 190, 208, 177, 209, 131, 209, 135, 208, 181, 208, 189, 208, 184, 208, 181, 32,
              208, 191, 208, 190, 32, 208, 190, 208, 186, 208, 176, 208, 183, 208, 176, 208, 189,
              208, 184, 209, 142, 32, 208, 191, 208, 181, 209, 128, 208, 178, 208, 190, 208, 185,
              32, 208, 191, 208, 190, 208, 188, 208, 190, 209, 137, 208, 184, 32, 208, 191, 208,
              190, 209, 129, 209, 130, 209, 128, 208, 176, 208, 180, 208, 176, 208, 178, 209,
              136, 208, 184, 208, 188], FieldProgram),
      ([208, 190, 208, 186, 208, 176, 208, 183, 208, 176, 208, 189, 208, 184, 208, 181, 32,
              208, 191, 208, 181, 209, 128, 208, 178, 208, 190, 208, 185, 32, 208, 191, 208, 190,
              208, 188, 208, 190, 209, 137, 208, 184, 32, 208, 191, 208, 190, 209, 129, 209, 130,
              209, 128, 208, 176, 208, 180, 208, 176, 208, 178, 209, 136, 208, 184, 208, 188],
              FieldProgram),
      ([208, 191, 208, 181, 209, 128, 208, 178, 208, 176, 209, 143, 32, 208, 191, 208, 190,
              208, 188, 208, 190, 209, 137, 209, 140], FieldProgram),
      ([208, 184, 209, 129, 208, 191, 208, 190, 208, 187, 209, 140, 208, 183, 208, 190,
              208, 178, 208, 176, 208, 189, 208, 184, 208, 181, 32, 208, 191, 209, 128, 208, 184,
              208, 188, 208, 181, 208, 189, 208, 181, 208, 189, 208, 184, 208, 181, 32, 209, 129,
              209, 128, 208, 181, 208, 180, 209, 129, 209, 130, 208, 178, 32, 208, 184, 208, 189,
              208, 180, 208, 184, 208, 178, 208, 184, 208, 180, 209, 131, 208, 176, 208, 187,
              209, 140, 208, 189, 208, 190, 208, 185, 32, 208, 183, 208, 176, 209, 137, 208, 184,
              209, 130, 209, 139], FieldProgram),
      ([209, 129, 209, 128, 208, 181, 208, 180, 209, 129, 209, 130, 208, 178, 208, 176, 32,
              208, 184, 208, 189, 208, 180, 208, 184, 208, 178, 208, 184, 208, 180, 209, 131,
              208, 176, 208, 187, 209, 140, 208, 189, 208, 190, 208, 185, 32, 208, 183, 208, 176,
              209, 137, 208, 184, 209, 130, 209, 139], FieldProgram),
      ([209, 129, 208, 184, 208, 183], FieldProgram),
      ([208, 189, 208, 190, 208, 188, 208, 181, 209, 128, 32, 208, 191, 209, 128, 208, 190,
              209, 130, 208, 190, 208, 186, 208, 190, 208, 187, 208, 176], FieldProtocolNumber),
      ([208, 189, 208, 190, 208, 188, 208, 181, 209, 128, 32, 208, 191, 209, 128, 208, 190,
              209, 130, 208, 190, 208, 186, 208, 190, 208, 187, 208, 176, 32, 208, 191, 209, 128,
              208, 190, 208, 178, 208, 181, 209, 128, 208, 186, 208, 184, 32, 208, 183, 208, 189,
              208, 176, 208, 189, 208, 184, 208, 185], FieldProtocolNumber),
      ([208, 191, 209, 128, 208, 190, 209, 130, 208, 190, 208, 186, 208, 190, 208, 187],
              FieldProtocolNumber),
      ([208, 180, 208, 176, 209, 130, 208, 176, 32, 208, 191, 209, 128, 208, 190, 209, 130,
              208, 190, 208, 186, 208, 190, 208, 187, 208, 176], FieldProtocolDate),
      ([208, 190, 209, 134, 208, 181, 208, 189, 208, 186, 208, 176], FieldAssessment),
      ([208, 190, 209, 134, 208, 181, 208, 189, 208, 186, 208, 176, 32, 208, 178, 32, 208,
              191, 209, 128, 208, 190, 209, 130, 208, 190, 208, 186, 208, 190, 208, 187, 208,
              181], FieldAssessment),
      ([209, 128, 208, 181, 208, 183, 209, 131, 208, 187, 209, 140, 209, 130, 208, 176,
              209, 130], FieldAssessment),
      ([209, 128, 208, 181, 208, 183, 209, 131, 208, 187, 209, 140, 209, 130, 208, 176,
              209, 130, 32, 208, 191, 209, 128, 208, 190, 208, 178, 208, 181, 209, 128, 208, 186,
              208, 184, 32, 208, 183, 208, 189, 208, 176, 208, 189, 208, 184, 208, 185],
              FieldAssessment),
      ([208, 191, 208, 181, 209, 128, 208, 184, 208, 190, 208, 180, 32, 208, 190, 208, 177,
              209, 131, 209, 135, 208, 181, 208, 189, 208, 184, 209, 143], FieldTrainingPeriod),
      ([209, 129, 209, 128, 208, 190, 208, 186, 208, 184, 32, 208, 190, 208, 177, 209, 131,
              209, 135, 208, 181, 208, 189, 208, 184, 209, 143], FieldTrainingPeriod),
      ([208, 189, 208, 190, 208, 188, 208, 181, 209, 128, 32, 208, 178, 32, 209, 128, 208,
              181, 208, 181, 209, 129, 209, 130, 209, 128, 208, 181], FieldRegistryNumber),
      ([208, 189, 208, 190, 208, 188, 208, 181, 209, 128, 32, 208, 178, 32, 209, 128, 208,
              181, 208, 181, 209, 129, 209, 130, 209, 128, 208, 181, 32, 208, 188, 208, 184, 208,
              189, 209, 130, 209, 128, 209, 131, 208, 180, 208, 176], FieldRegistryNumber),
      ([208, 189, 208, 190, 208, 188, 208, 181, 209, 128, 32, 208, 178, 32, 209, 128, 208,
              181, 208, 181, 209, 129, 209, 130, 209, 128, 208, 181, 32, 208, 190, 208, 177, 209,
              131, 209, 135, 208, 181, 208, 189, 208, 189, 209, 139, 209, 133, 32, 208, 187, 208,
              184, 209, 134], FieldRegistryNumber),
      ([208, 189, 208, 190, 208, 188, 208, 181, 209, 128, 32, 208, 183, 208, 176, 208, 191,
              208, 184, 209, 129, 208, 184, 32, 208, 178, 32, 209, 128, 208, 181, 208, 181, 209,
              129, 209, 130, 209, 128, 208, 181], FieldRegistryNumber),
      ([208, 190, 209, 128, 208, 179, 208, 176, 208, 189, 208, 184, 208, 183, 208, 176,
              209, 134, 208, 184, 209, 143, 32, 209, 132, 208, 184, 208, 187, 208, 184, 208, 176,
              208, 187, 32, 208, 189, 208, 190, 208, 188, 208, 181, 209, 128, 32, 208, 183, 208,
              176, 209, 143, 208, 178, 208, 186, 208, 184], FieldSourceRef),
      ([208, 190, 209, 128, 208, 179, 208, 176, 208, 189, 208, 184, 208, 183, 208, 176,
              209, 134, 208, 184, 209, 143, 32, 209, 132, 208, 184, 208, 187, 208, 184, 208, 187,
              208, 176, 208, 187, 32, 208, 189, 208, 190, 208, 188, 208, 181, 209, 128, 32, 208,
              183, 208, 176, 209, 143, 208, 178, 208, 186, 208, 184], FieldSourceRef),
      ([208, 190, 209, 128, 208, 179, 208, 176, 208, 189, 208, 184, 208, 183, 208, 176,
              209, 134, 208, 184, 209, 143, 32, 209, 132, 208, 184, 208, 187, 208, 184, 208, 176,
              208, 187, 32, 208, 183, 208, 176, 209, 143, 208, 178, 208, 186, 208, 176],
              FieldSourceRef),
      ([209, 132, 208, 184, 208, 187, 208, 184, 208, 176, 208, 187, 32, 208, 183, 208, 176,
              209, 143, 208, 178, 208, 186, 208, 176], FieldSourceRef),
      ([208, 189, 208, 190, 208, 188, 208, 181, 209, 128, 32, 208, 183, 208, 176, 209, 143,
              208, 178, 208, 186, 208, 184], FieldSourceRef),
      ([101, 109, 97, 105, 108], FieldMoodleEmail),
      ([101, 32, 109, 97, 105, 108], FieldMoodleEmail),
      ([209, 141, 208, 187, 208, 181, 208, 186, 209, 130, 209, 128, 208, 190, 208, 189,
              208, 189, 208, 176, 209, 143, 32, 208, 191, 208, 190, 209, 135, 209, 130, 208,
              176], FieldMoodleEmail),
      ([209, 141, 208, 187, 208, 181, 208, 186, 209, 130, 209, 128, 208, 190, 208, 189,
              208, 189, 208, 176, 209, 143, 32, 208, 191, 208, 190, 209, 135, 209, 130, 208, 176,
              32, 109, 111, 111, 100, 108, 101], FieldMoodleEmail),
      ([101, 32, 109, 97, 105, 108, 32, 208, 180, 208, 187, 209, 143, 32, 208, 190, 209,
              130, 208, 186, 209, 128, 209, 139, 209, 130, 208, 184, 209, 143, 32, 208, 180, 208,
              190, 209, 129, 209, 130, 209, 131, 208, 191, 208, 176, 32, 208, 189, 208, 176, 32,
              209, 131, 209, 135, 32, 208, 191, 208, 190, 209, 128, 209, 130, 208, 176, 208,
              187], FieldMoodleEmail),
      ([208, 187, 208, 190, 208, 179, 208, 184, 208, 189], FieldMoodleUsername),
      ([117, 115, 101, 114, 110, 97, 109, 101], FieldMoodleUsername)]"

definition headerAliases :: "(string \<times> Field) list" where
  "headerAliases = map (\<lambda>(label, field). (bytes label, field)) headerAliasLabels"

definition profileHeaderAliases :: "SheetProfile \<Rightarrow> (string \<times> Field) list" where
  "profileHeaderAliases profile =
     (if profile = SheetP then [(''01 00 00'', FieldProtocolDate), (''0'', FieldAssessment)] else [])"

definition commonRequiredFields :: "Field list" where
  "commonRequiredFields = [FieldEmployer, FieldINN, FieldFullName, FieldPosition, FieldSNILS,
     FieldProtocolNumber, FieldProtocolDate, FieldAssessment, FieldTrainingPeriod,
     FieldRegistryNumber, FieldSourceRef]"

definition profileForSheet :: "unicode \<Rightarrow> string \<Rightarrow> SheetProfile option" where
  "profileForSheet u name =
     (let n = ToUpper u (TrimSpace name)
      in if n \<in> set [SheetA, SheetB, SheetV, SheetP, SheetS] then Some n else None)"

text \<open>The words "klyuch dostupa" and "parol'" are in Cyrillic.\<close>

definition isSecretHeader :: "unicode \<Rightarrow> string \<Rightarrow> bool" where
  "isSecretHeader u header =
     (let normalized = normalizeLabel u header in
      if normalized = '''' then False
      else if normalized = ''api key''
         \<or> normalized = bytes [208, 186, 208, 187, 209, 142, 209, 135, 32, 208, 180, 208, 190, 209, 129,
             209, 130, 209, 131, 208, 191, 208, 176]
      then True
      else list_ex (\<lambda>word. word \<in> set [bytes [208, 191, 208, 176, 209, 128, 208, 190, 208, 187, 209, 140],
             ''password'', ''passwd'', ''secret'', ''token'']) (Fields normalized))"

definition fieldForHeader :: "SheetProfile \<Rightarrow> string \<Rightarrow> Field option" where
  "fieldForHeader profile normalized =
     (case map_of headerAliases normalized of
        Some field \<Rightarrow> Some field
      | None \<Rightarrow> map_of (profileHeaderAliases profile) normalized)"

subsection \<open>The plan of a sheet\<close>

text \<open>
  The loop over the header cells. \<open>None\<close> is the duplicate logical column; the fields seen so far
  are those of the header map.
\<close>

fun scan_headers :: "unicode \<Rightarrow> int \<Rightarrow> string list \<Rightarrow> SheetPlan \<Rightarrow> SheetPlan option" where
  "scan_headers u index [] plan = Some plan"
| "scan_headers u index (rawHeader # headers) plan =
     (let normalized = normalizeLabel u rawHeader in
      if normalized = '''' then scan_headers u (index + 1) headers plan
      else if isSecretHeader u normalized
      then scan_headers u (index + 1) headers
             (plan\<lparr>sp_secretColumns := sp_secretColumns plan @ [index]\<rparr>)
      else case fieldForHeader (sp_Profile plan) normalized of
        None \<Rightarrow> scan_headers u (index + 1) headers
                  (plan\<lparr>sp_ExtraNames := sp_ExtraNames plan @ [(index, normalized)]\<rparr>)
      | Some field \<Rightarrow>
          if field \<in> set (map snd (sp_HeaderMap plan)) then None
          else scan_headers u (index + 1) headers
                 (plan\<lparr>sp_HeaderMap := sp_HeaderMap plan @ [(index, field)]\<rparr>))"

definition required_fields :: "SheetProfile \<Rightarrow> Field list" where
  "required_fields profile =
     commonRequiredFields @ (if profile = SheetV then [FieldProgram] else [])"

definition buildSheetPlan ::
  "unicode \<Rightarrow> SheetProfile \<Rightarrow> string \<Rightarrow> int \<Rightarrow> int \<Rightarrow> string list \<Rightarrow> (ParseError, SheetPlan) result" where
  "buildSheetPlan u profile name order headerRow headers =
     (case scan_headers u 0 headers
             \<lparr>sp_Name = name, sp_Order = order, sp_Profile = profile, sp_HeaderRow = headerRow,
              sp_HeaderMap = [], sp_ExtraNames = [], sp_secretColumns = []\<rparr> of
        None \<Rightarrow> Inl \<lparr>pe_Code = CodeUnsupportedWorkbook, pe_Sheet = name, pe_Row = headerRow,
                     pe_Detail = ''duplicate logical column''\<rparr>
      | Some plan \<Rightarrow>
          if list_all (\<lambda>field. field \<in> set (map snd (sp_HeaderMap plan))) (required_fields profile)
          then Inr plan
          else Inl \<lparr>pe_Code = CodeMissingColumns, pe_Sheet = name, pe_Row = headerRow,
                    pe_Detail = ''required columns were not recognized''\<rparr>)"

subsection \<open>What a plan says of its columns\<close>

text \<open>
  A plan in order: every column has at most one role, the columns of each role ascend, no field is
  assigned twice, and no extra column has the header of a secret.
\<close>

definition plan_ok :: "unicode \<Rightarrow> SheetPlan \<Rightarrow> bool" where
  "plan_ok u plan \<longleftrightarrow>
     distinct (map fst (sp_HeaderMap plan) @ map fst (sp_ExtraNames plan) @ sp_secretColumns plan)
     \<and> sorted_wrt (<) (map fst (sp_HeaderMap plan)) \<and> sorted_wrt (<) (map fst (sp_ExtraNames plan))
     \<and> sorted_wrt (<) (sp_secretColumns plan) \<and> distinct (map snd (sp_HeaderMap plan))
     \<and> (\<forall>(c, n) \<in> set (sp_ExtraNames plan). n \<noteq> '''' \<and> \<not> isSecretHeader u n)"

definition columns :: "SheetPlan \<Rightarrow> int set" where
  "columns plan = fst ` set (sp_HeaderMap plan) \<union> fst ` set (sp_ExtraNames plan) \<union> set (sp_secretColumns plan)"

lemma scan_headers_ok:
  assumes "scan_headers u i hs plan = Some plan'" "plan_ok u plan" "\<forall>c \<in> columns plan. 0 \<le> c \<and> c < i" "0 \<le> i"
  shows "plan_ok u plan' \<and> (\<forall>c \<in> columns plan'. 0 \<le> c \<and> c < i + int (length hs))
     \<and> sp_Name plan' = sp_Name plan \<and> sp_Order plan' = sp_Order plan \<and> sp_Profile plan' = sp_Profile plan
     \<and> sp_HeaderRow plan' = sp_HeaderRow plan"
  using assms
proof (induction u i hs plan rule: scan_headers.induct)
  case (1 u i plan)
  then show ?case by simp
next
  case (2 u i h hs plan)
  let ?n = "normalizeLabel u h"
  have new: "i \<notin> columns plan" and le: "\<forall>c \<in> columns plan. 0 \<le> c \<and> c < i + 1" using 2(7) by force+
  have lt: "\<forall>c \<in> columns plan. c < i" using 2(7) by blast
  consider "?n = ''''" | "?n \<noteq> ''''" "isSecretHeader u ?n"
    | "?n \<noteq> ''''" "\<not> isSecretHeader u ?n" "fieldForHeader (sp_Profile plan) ?n = None"
    | f where "?n \<noteq> ''''" "\<not> isSecretHeader u ?n" "fieldForHeader (sp_Profile plan) ?n = Some f"
    by (cases "fieldForHeader (sp_Profile plan) ?n") auto
  then show ?case
  proof cases
    case 1
    with 2(1) [OF refl 1] 2(5,6,8) le show ?thesis by (simp add: Let_def add.assoc)
  next
    case c: 2
    have "plan_ok u (plan\<lparr>sp_secretColumns := sp_secretColumns plan @ [i]\<rparr>)"
      "\<forall>c \<in> columns (plan\<lparr>sp_secretColumns := sp_secretColumns plan @ [i]\<rparr>). 0 \<le> c \<and> c < i + 1"
      using lt 2(6,8) new le by (auto simp: plan_ok_def columns_def sorted_wrt_append)
    with 2(2) [OF refl c] 2(5,8) c show ?thesis by (simp add: Let_def add.assoc)
  next
    case 3
    have "plan_ok u (plan\<lparr>sp_ExtraNames := sp_ExtraNames plan @ [(i, ?n)]\<rparr>)"
      "\<forall>c \<in> columns (plan\<lparr>sp_ExtraNames := sp_ExtraNames plan @ [(i, ?n)]\<rparr>). 0 \<le> c \<and> c < i + 1"
      using lt 2(6,8) new le 3(1,2) by (auto simp: plan_ok_def columns_def sorted_wrt_append)
    with 2(3) [OF refl 3(1,2,3)] 2(5,8) 3 show ?thesis by (simp add: Let_def add.assoc)
  next
    case (4 f)
    then have nf: "f \<notin> set (map snd (sp_HeaderMap plan))" using 2(5)
      by (simp add: Let_def split: if_splits)
    have "plan_ok u (plan\<lparr>sp_HeaderMap := sp_HeaderMap plan @ [(i, f)]\<rparr>)"
      "\<forall>c \<in> columns (plan\<lparr>sp_HeaderMap := sp_HeaderMap plan @ [(i, f)]\<rparr>). 0 \<le> c \<and> c < i + 1"
      using lt 2(6,8) new le nf by (auto simp: plan_ok_def columns_def sorted_wrt_append)
    with 2(4) [OF refl 4(1,2,3) nf] 2(5,8) 4 nf show ?thesis by (simp add: Let_def add.assoc)
  qed
qed

lemma buildSheetPlan_Inr:
  assumes "buildSheetPlan u profile name order headerRow headers = Inr plan"
  shows "plan_ok u plan" "\<forall>c \<in> columns plan. 0 \<le> c \<and> c < int (length headers)"
    "set (required_fields profile) \<subseteq> snd ` set (sp_HeaderMap plan)"
    "sp_Name plan = name" "sp_Order plan = order" "sp_Profile plan = profile" "sp_HeaderRow plan = headerRow"
proof -
  let ?p0 = "\<lparr>sp_Name = name, sp_Order = order, sp_Profile = profile, sp_HeaderRow = headerRow,
              sp_HeaderMap = [], sp_ExtraNames = [], sp_secretColumns = []\<rparr>"
  from assms have sc: "scan_headers u 0 headers ?p0 = Some plan"
    and req: "set (required_fields profile) \<subseteq> snd ` set (sp_HeaderMap plan)"
    by (auto simp: buildSheetPlan_def list_all_iff split: option.splits if_splits)
  have "plan_ok u ?p0" "\<forall>c \<in> columns ?p0. 0 \<le> c \<and> c < 0" by (auto simp: plan_ok_def columns_def sorted_wrt_append)
  from scan_headers_ok [OF sc this] req
  show "plan_ok u plan" "\<forall>c \<in> columns plan. 0 \<le> c \<and> c < int (length headers)"
    "set (required_fields profile) \<subseteq> snd ` set (sp_HeaderMap plan)"
    "sp_Name plan = name" "sp_Order plan = order" "sp_Profile plan = profile" "sp_HeaderRow plan = headerRow"
    by simp_all
qed

end
