(* ===== verification/LegacyPreflight.thy ===== *)
theory LegacyPreflight
  imports LegacyHeaders GoURL
begin

text \<open>
  The inspection of an uploaded legacy workbook (\<^verbatim>\<open>imports/legacy/preflight.go\<close>): the checks on
  the ZIP container and the discovery of the five sheets and their header rows. The file as
  \<open>os.Stat\<close>, \<open>archive/zip\<close> and excelize present it is a parameter; a row iterator gives for each
  row its cells or the error of \<open>Columns\<close>, and at the end the error of \<open>Error\<close> or \<open>Close\<close>.

  The context is asked before each sheet and each row whether it was cancelled: it is the function
  from these points to the error \<open>ctx.Err\<close> gives there, the row 0 of a sheet being the point before
  it and the row 0 of the empty name the start.
\<close>

record zip_entry =
  ze_Name :: string
  ze_encrypted :: bool
  ze_symlink :: bool
  ze_size :: nat

record row_iter =
  it_rows :: "(string, string list) result list"
  it_error :: "string option"

text \<open>A file: its size, its ZIP directory, and the workbook excelize opens.\<close>

record xlsx_file =
  xf_size :: "(string, int) result"
  xf_zip :: "(string, zip_entry list) result"
  xf_workbook :: "(string, string list) result"
  xf_rows :: "string \<Rightarrow> (string, row_iter) result"

type_synonym ctx = "string \<Rightarrow> int \<Rightarrow> string option"

datatype legacy_error = ContextError string | Coded ParseError

subsection \<open>The container\<close>

definition trim_suffix_slash :: "string \<Rightarrow> string" where
  "trim_suffix_slash s = (if s \<noteq> [] \<and> last s = CHR ''/'' then butlast s else s)"

definition unsafe_path :: "string \<Rightarrow> bool" where
  "unsafe_path name =
     (let normalized = map (\<lambda>c. if byte c = 92 then CHR ''/'' else c) name;
          trimmed = trim_suffix_slash normalized;
          cleaned = path_Clean trimmed
      in normalized \<noteq> name \<or> cleaned = ''.'' \<or> cleaned \<noteq> trimmed \<or> HasPrefix cleaned ''../''
         \<or> HasPrefix cleaned ''/'' \<or> CHR '':'' \<in> set cleaned)"

text \<open>The loop over the entries: the total size so far, and which required parts were seen.\<close>

fun check_entries :: "Limits \<Rightarrow> zip_entry list \<Rightarrow> nat \<Rightarrow> bool \<Rightarrow> bool \<Rightarrow> (ParseError, bool \<times> bool) result" where
  "check_entries limits [] sz types book = Inr (types, book)"
| "check_entries limits (entry # entries) sz types book =
     (if unsafe_path (ze_Name entry) then Inl (coded CodeNotXLSX ''ZIP contains an unsafe path'')
      else if ze_encrypted entry then Inl (coded CodeNotXLSX ''encrypted XLSX is not supported'')
      else if ze_symlink entry then Inl (coded CodeNotXLSX ''ZIP symbolic links are not supported'')
      else if ze_Name entry = ''xl/vbaProject.bin''
      then Inl (coded CodeNotXLSX ''macro-enabled workbooks are not supported'')
      else if ze_size entry > 2 ^ 64 - 1 - sz
      then Inl (coded CodeLimitExceeded ''uncompressed ZIP size overflow'')
      else if sz + ze_size entry > MaxUncompressedBytes limits
      then Inl (coded CodeLimitExceeded ''uncompressed workbook exceeds limit'')
      else check_entries limits entries (sz + ze_size entry)
             (types \<or> ze_Name entry = ''[Content_Types].xml'') (book \<or> ze_Name entry = ''xl/workbook.xml''))"

definition validateArchive :: "Limits \<Rightarrow> xlsx_file \<Rightarrow> (ParseError, unit) result" where
  "validateArchive limits file =
     (case xf_size file of
        Inl _ \<Rightarrow> Inl (coded CodeReadFailed ''source file cannot be read'')
      | Inr sz \<Rightarrow>
          if sz > MaxFileBytes limits then Inl (coded CodeWorkbookTooLarge ''file size exceeds limit'')
          else case xf_zip file of
            Inl _ \<Rightarrow> Inl (coded CodeNotXLSX ''file is not a readable ZIP/XLSX'')
          | Inr entries \<Rightarrow>
              if int (length entries) > MaxZIPEntries limits
              then Inl (coded CodeLimitExceeded ''ZIP entry count exceeds limit'')
              else case check_entries limits entries 0 False False of
                Inl e \<Rightarrow> Inl e
              | Inr (types, book) \<Rightarrow>
                  if \<not> types \<or> \<not> book
                  then Inl (coded CodeNotXLSX ''ZIP does not contain XLSX workbook parts'')
                  else Inr ())"

subsection \<open>The sheets\<close>

definition option_list :: "'a option \<Rightarrow> 'a list" where
  "option_list x = (case x of None \<Rightarrow> [] | Some a \<Rightarrow> [a])"

definition emptyCells :: "string list \<Rightarrow> bool" where
  "emptyCells cells = list_all (\<lambda>cell. TrimSpace cell = '''') cells"

definition anyCellTooLong :: "string list \<Rightarrow> int \<Rightarrow> bool" where
  "anyCellTooLong cells maxBytes = list_ex (\<lambda>cell. int (length cell) > maxBytes) cells"

fun first_unclassified :: "SheetPlan \<Rightarrow> int \<Rightarrow> string list \<Rightarrow> int" where
  "first_unclassified sheet column [] = -1"
| "first_unclassified sheet column (cell # cells) =
     (if TrimSpace cell = '''' \<or> map_of (sp_HeaderMap sheet) column \<noteq> None
         \<or> map_of (sp_ExtraNames sheet) column \<noteq> None \<or> column \<in> set (sp_secretColumns sheet)
      then first_unclassified sheet (column + 1) cells
      else column)"

definition firstUnclassifiedNonEmpty :: "SheetPlan \<Rightarrow> string list \<Rightarrow> int" where
  "firstUnclassifiedNonEmpty sheet cells = first_unclassified sheet 0 cells"

definition sheetReadError :: "string \<Rightarrow> ParseError" where
  "sheetReadError sheet =
     \<lparr>pe_Code = CodeReadFailed, pe_Sheet = sheet, pe_Row = 0, pe_Detail = ''sheet cannot be read''\<rparr>"

definition rowReadError :: "string \<Rightarrow> int \<Rightarrow> ParseError" where
  "rowReadError sheet row =
     \<lparr>pe_Code = CodeReadFailed, pe_Sheet = sheet, pe_Row = row, pe_Detail = ''row cannot be read''\<rparr>"

definition limitError :: "string \<Rightarrow> int \<Rightarrow> string \<Rightarrow> ParseError" where
  "limitError sheet row det =
     \<lparr>pe_Code = CodeLimitExceeded, pe_Sheet = sheet, pe_Row = row, pe_Detail = det\<rparr>"

definition sheet_error :: "legacy_code \<Rightarrow> string \<Rightarrow> int \<Rightarrow> string \<Rightarrow> ParseError" where
  "sheet_error code sheet row det = \<lparr>pe_Code = code, pe_Sheet = sheet, pe_Row = row, pe_Detail = det\<rparr>"

text \<open>The counters of the workbook and what is known of the current sheet.\<close>

record scan =
  sc_rowsSeen :: int
  sc_cellsSeen :: int
  sc_discovered :: "SheetPlan option"
  sc_hasData :: bool
  sc_hasAnyValue :: bool

text \<open>One row of a sheet. \<open>profile\<close> is \<open>None\<close> for a sheet that is not supported.\<close>

definition scan_row ::
  "unicode \<Rightarrow> Limits \<Rightarrow> SheetProfile option \<Rightarrow> string \<Rightarrow> int \<Rightarrow> int \<Rightarrow> string list \<Rightarrow> scan
   \<Rightarrow> (ParseError, scan) result" where
  "scan_row u limits profile name order rowNumber cols st =
     (let st = st\<lparr>sc_cellsSeen := sc_cellsSeen st + int (length cols)\<rparr> in
      if sc_cellsSeen st > MaxCells limits
      then Inl (limitError name rowNumber ''cell count exceeds limit'')
      else if anyCellTooLong cols (MaxCellBytes limits)
      then Inl (limitError name rowNumber ''cell length exceeds limit'')
      else if emptyCells cols then Inr st
      else let st = st\<lparr>sc_hasAnyValue := True\<rparr> in
      case profile of
        None \<Rightarrow> Inr st
      | Some p \<Rightarrow>
          (case sc_discovered st of
             None \<Rightarrow>
               if rowNumber \<le> MaxHeaderRows limits
               then (case buildSheetPlan u p name order rowNumber cols of
                       Inr candidate \<Rightarrow> Inr (st\<lparr>sc_discovered := Some candidate\<rparr>)
                     | Inl e \<Rightarrow> if pe_Code e \<noteq> CodeMissingColumns then Inl e else Inr st)
               else Inr st
           | Some sheet \<Rightarrow>
               if rowNumber > sp_HeaderRow sheet
               then (if firstUnclassifiedNonEmpty sheet cols \<ge> 0
                     then Inl (sheet_error CodeUnsupportedWorkbook name rowNumber
                            ''non-empty column has no recognized header'')
                     else Inr (st\<lparr>sc_hasData := True\<rparr>))
               else Inr st))"

fun scan_rows ::
  "unicode \<Rightarrow> ctx \<Rightarrow> Limits \<Rightarrow> SheetProfile option \<Rightarrow> string \<Rightarrow> int \<Rightarrow> int
   \<Rightarrow> (string, string list) result list \<Rightarrow> scan \<Rightarrow> (legacy_error, scan) result" where
  "scan_rows u ctx limits profile name order rowNumber [] st = Inr st"
| "scan_rows u ctx limits profile name order rowNumber (row # rows) st =
     (let rowNumber = rowNumber + 1; st = st\<lparr>sc_rowsSeen := sc_rowsSeen st + 1\<rparr> in
      case ctx name rowNumber of
        Some e \<Rightarrow> Inl (ContextError e)
      | None \<Rightarrow>
          if sc_rowsSeen st > MaxRows limits
          then Inl (Coded (limitError name rowNumber ''row count exceeds limit''))
          else case row of
            Inl _ \<Rightarrow> Inl (Coded (rowReadError name rowNumber))
          | Inr cols \<Rightarrow>
              (case scan_row u limits profile name order rowNumber cols st of
                 Inl e \<Rightarrow> Inl (Coded e)
               | Inr st' \<Rightarrow> scan_rows u ctx limits profile name order rowNumber rows st'))"

text \<open>What is required of a sheet after its rows were read.\<close>

definition sheet_result ::
  "SheetProfile option \<Rightarrow> string \<Rightarrow> scan \<Rightarrow> (ParseError, SheetPlan option) result" where
  "sheet_result profile name st =
     (if profile = None
      then (if sc_hasAnyValue st then Inl (sheet_error CodeUnknownSheet name 0 ''unknown non-empty sheet'')
            else Inr None)
      else case sc_discovered st of
        None \<Rightarrow> Inl (sheet_error CodeMissingColumns name 0 ''required columns were not recognized'')
      | Some sheet \<Rightarrow>
          if \<not> sc_hasData st
          then Inl (sheet_error CodeUnsupportedWorkbook name 0 ''required sheet contains no data rows'')
          else Inr (Some sheet))"

definition scan_sheet ::
  "unicode \<Rightarrow> ctx \<Rightarrow> Limits \<Rightarrow> xlsx_file \<Rightarrow> int \<Rightarrow> string \<Rightarrow> int \<Rightarrow> int
   \<Rightarrow> (legacy_error, scan \<times> SheetPlan option) result" where
  "scan_sheet u ctx limits file index name rowsSeen cellsSeen =
     (let profile = profileForSheet u name in
      case xf_rows file name of
        Inl _ \<Rightarrow> Inl (Coded (sheetReadError name))
      | Inr it \<Rightarrow>
          (case scan_rows u ctx limits profile name (index + 1) 0 (it_rows it)
                  \<lparr>sc_rowsSeen = rowsSeen, sc_cellsSeen = cellsSeen, sc_discovered = None,
                   sc_hasData = False, sc_hasAnyValue = False\<rparr> of
             Inl e \<Rightarrow> Inl e
           | Inr st \<Rightarrow>
               if it_error it \<noteq> None then Inl (Coded (sheetReadError name))
               else case sheet_result profile name st of
                 Inl e \<Rightarrow> Inl (Coded e)
               | Inr sheet \<Rightarrow> Inr (st, sheet)))"

fun scan_sheets ::
  "unicode \<Rightarrow> ctx \<Rightarrow> Limits \<Rightarrow> xlsx_file \<Rightarrow> int \<Rightarrow> string list \<Rightarrow> SheetProfile list \<Rightarrow> int \<Rightarrow> int \<Rightarrow> WorkbookPlan
   \<Rightarrow> (legacy_error, SheetProfile list \<times> WorkbookPlan) result" where
  "scan_sheets u ctx limits file index [] seen rowsSeen cellsSeen plan = Inr (seen, plan)"
| "scan_sheets u ctx limits file index (name # names) seen rowsSeen cellsSeen plan =
     (case ctx name 0 of
        Some e \<Rightarrow> Inl (ContextError e)
      | None \<Rightarrow>
          let profile = profileForSheet u name in
          if profile \<in> Some ` set seen
          then Inl (Coded (sheet_error CodeUnsupportedWorkbook name 0 ''duplicate normalized sheet name''))
          else case scan_sheet u ctx limits file index name rowsSeen cellsSeen of
            Inl e \<Rightarrow> Inl e
          | Inr (st, sheet) \<Rightarrow>
              scan_sheets u ctx limits file (index + 1) names (seen @ option_list profile)
                (sc_rowsSeen st) (sc_cellsSeen st) (plan @ option_list sheet))"

definition Preflight :: "unicode \<Rightarrow> ctx \<Rightarrow> Limits \<Rightarrow> xlsx_file \<Rightarrow> (legacy_error, WorkbookPlan) result" where
  "Preflight u ctx limits file =
     (case ctx '''' 0 of
        Some e \<Rightarrow> Inl (ContextError e)
      | None \<Rightarrow>
          (case validateArchive limits file of
             Inl e \<Rightarrow> Inl (Coded e)
           | Inr _ \<Rightarrow>
               (case xf_workbook file of
                  Inl _ \<Rightarrow> Inl (Coded (coded CodeNotXLSX ''XLSX workbook cannot be opened''))
                | Inr sheetNames \<Rightarrow>
                    if int (length sheetNames) > MaxSheets limits
                    then Inl (Coded (coded CodeLimitExceeded ''sheet count exceeds limit''))
                    else case scan_sheets u ctx limits file 0 sheetNames [] 0 0 [] of
                      Inl e \<Rightarrow> Inl e
                    | Inr (seen, plan) \<Rightarrow>
                        (case find (\<lambda>required. required \<notin> set seen)
                                [SheetA, SheetB, SheetV, SheetP, SheetS] of
                           Some required \<Rightarrow>
                             Inl (Coded (sheet_error CodeMissingSheet required 0 ''required sheet is missing''))
                         | None \<Rightarrow> Inr plan))))"

end
