(* ===== verification/LegacyParser.thy ===== *)
theory LegacyParser
  imports LegacyPreflight GoNet "HOL-Library.AList" "HOL-Library.Sublist"
begin

text \<open>
  The streaming parser of the legacy workbook (\<^verbatim>\<open>imports/legacy/parser.go\<close>): the source row a row of
  cells gives, its fingerprint, and the walk over the sheets of a plan that hands every row to a
  sink. The sink is a function on a state of its own, so the same definition serves the stager
  and the specification of what is emitted.

  The JSON text of a source row and the SHA-256 digest are parameters; a Go map is an association
  list, updated in place.
\<close>

record legacy_env =
  lv_unicode :: unicode
  lv_marshal_row :: "SourceRow \<Rightarrow> (string, string) result"
  lv_sha256 :: "string \<Rightarrow> string"

subsection \<open>One row\<close>

definition empty_row :: "string \<Rightarrow> SheetProfile \<Rightarrow> int \<Rightarrow> SourceRow" where
  "empty_row name profile num =
     \<lparr>sr_SheetName = name, sr_SheetProfile = profile, sr_RowNumber = num, sr_EmployerName = '''',
      sr_INN = '''', sr_FullName = '''', sr_Position = '''', sr_Department = '''', sr_SNILS = '''',
      sr_ProgramText = '''', sr_TrainingPeriod = '''', sr_ProtocolNumber = '''', sr_ProtocolDate = '''',
      sr_AssessmentResult = '''', sr_MintrudRegistryNumber = '''', sr_SourceReference = '''',
      sr_MoodleEmail = '''', sr_MoodleUsername = '''', sr_ExtraFields = [],
      sr_SourceFingerprintSHA256 = ''''\<rparr>"

definition setSourceField :: "SourceRow \<Rightarrow> Field \<Rightarrow> string \<Rightarrow> SourceRow" where
  "setSourceField row field value =
     (if field = FieldEmployer then row\<lparr>sr_EmployerName := value\<rparr>
      else if field = FieldINN then row\<lparr>sr_INN := value\<rparr>
      else if field = FieldFullName then row\<lparr>sr_FullName := value\<rparr>
      else if field = FieldPosition then row\<lparr>sr_Position := value\<rparr>
      else if field = FieldDepartment then row\<lparr>sr_Department := value\<rparr>
      else if field = FieldSNILS then row\<lparr>sr_SNILS := value\<rparr>
      else if field = FieldProgram then row\<lparr>sr_ProgramText := value\<rparr>
      else if field = FieldTrainingPeriod then row\<lparr>sr_TrainingPeriod := value\<rparr>
      else if field = FieldProtocolNumber then row\<lparr>sr_ProtocolNumber := value\<rparr>
      else if field = FieldProtocolDate then row\<lparr>sr_ProtocolDate := value\<rparr>
      else if field = FieldAssessment then row\<lparr>sr_AssessmentResult := value\<rparr>
      else if field = FieldRegistryNumber then row\<lparr>sr_MintrudRegistryNumber := value\<rparr>
      else if field = FieldSourceRef then row\<lparr>sr_SourceReference := value\<rparr>
      else if field = FieldMoodleEmail then row\<lparr>sr_MoodleEmail := value\<rparr>
      else if field = FieldMoodleUsername then row\<lparr>sr_MoodleUsername := value\<rparr>
      else row)"

definition sourceRowEmpty :: "SourceRow \<Rightarrow> bool" where
  "sourceRowEmpty row =
     (sr_EmployerName row = '''' \<and> sr_INN row = '''' \<and> sr_FullName row = '''' \<and> sr_Position row = ''''
      \<and> sr_Department row = '''' \<and> sr_SNILS row = '''' \<and> sr_ProgramText row = ''''
      \<and> sr_TrainingPeriod row = '''' \<and> sr_ProtocolNumber row = '''' \<and> sr_ProtocolDate row = ''''
      \<and> sr_AssessmentResult row = '''' \<and> sr_MintrudRegistryNumber row = ''''
      \<and> sr_SourceReference row = '''' \<and> sr_MoodleEmail row = '''' \<and> sr_MoodleUsername row = ''''
      \<and> sr_ExtraFields row = [])"

definition fingerprintSourceRow :: "legacy_env \<Rightarrow> SourceRow \<Rightarrow> (string, string) result" where
  "fingerprintSourceRow env row =
     (case lv_marshal_row env (row\<lparr>sr_SheetName := '''', sr_RowNumber := 0, sr_SourceFingerprintSHA256 := ''''\<rparr>) of
        Inl e \<Rightarrow> Inl e
      | Inr text \<Rightarrow> Inr (EncodeToString (lv_sha256 env text)))"

text \<open>The loop of \<open>extractSourceRow\<close> over the cells.\<close>

fun extract_cells :: "unicode \<Rightarrow> SheetPlan \<Rightarrow> int \<Rightarrow> string list \<Rightarrow> SourceRow \<Rightarrow> SourceRow" where
  "extract_cells u sheet column [] row = row"
| "extract_cells u sheet column (rawValue # cells) row =
     (let value = TrimSpace rawValue in
      extract_cells u sheet (column + 1) cells
        (case map_of (sp_HeaderMap sheet) column of
           Some field \<Rightarrow> setSourceField row field value
         | None \<Rightarrow>
             (case map_of (sp_ExtraNames sheet) column of
                None \<Rightarrow> row
              | Some extraName \<Rightarrow>
                  if value = '''' \<or> isSecretHeader u extraName then row
                  else row\<lparr>sr_ExtraFields :=
                         AList.update (normalizeLabel u extraName) value (sr_ExtraFields row)\<rparr>)))"

definition extractSourceRow ::
  "legacy_env \<Rightarrow> SheetPlan \<Rightarrow> int \<Rightarrow> string list \<Rightarrow> (ParseError, SourceRow) result" where
  "extractSourceRow env sheet rowNumber cols =
     (let row = extract_cells (lv_unicode env) sheet 0 cols (empty_row (sp_Name sheet) (sp_Profile sheet) rowNumber)
      in case fingerprintSourceRow env row of
           Inl _ \<Rightarrow> Inl (sheet_error CodeReadFailed (sp_Name sheet) rowNumber
                       ''cleaned row fingerprint cannot be calculated'')
         | Inr fingerprint \<Rightarrow> Inr (row\<lparr>sr_SourceFingerprintSHA256 := fingerprint\<rparr>))"

subsection \<open>The walk over the workbook\<close>

record ParseStats =
  ps_Rows :: int
  ps_Cells :: int

text \<open>Why a walk stopped before its end.\<close>

datatype 'e stop = StopContext string | StopParse ParseError | StopSink 'e

type_synonym ('s, 'e) sink = "SourceRow \<Rightarrow> 's \<Rightarrow> 'e option \<times> 's"

text \<open>What a row gives before the sink sees it: nothing, a source row, or an error.\<close>

definition row_action ::
  "legacy_env \<Rightarrow> Limits \<Rightarrow> SheetPlan \<Rightarrow> int \<Rightarrow> string list \<Rightarrow> ParseStats
   \<Rightarrow> ParseStats \<times> (ParseError, SourceRow option) result" where
  "row_action env limits sheet rowNumber cols stats =
     (let stats = stats\<lparr>ps_Cells := ps_Cells stats + int (length cols)\<rparr> in
      if ps_Cells stats > MaxCells limits
      then (stats, Inl (limitError (sp_Name sheet) rowNumber ''cell count exceeds limit''))
      else if anyCellTooLong cols (MaxCellBytes limits)
      then (stats, Inl (limitError (sp_Name sheet) rowNumber ''cell length exceeds limit''))
      else if rowNumber \<le> sp_HeaderRow sheet \<or> emptyCells cols then (stats, Inr None)
      else if firstUnclassifiedNonEmpty sheet cols \<ge> 0
      then (stats, Inl (sheet_error CodeUnsupportedWorkbook (sp_Name sheet) rowNumber
              ''non-empty column is missing from parser plan''))
      else case extractSourceRow env sheet rowNumber cols of
        Inl e \<Rightarrow> (stats, Inl e)
      | Inr source \<Rightarrow>
          if sourceRowEmpty source then (stats, Inr None)
          else let stats = stats\<lparr>ps_Rows := ps_Rows stats + 1\<rparr> in
            if ps_Rows stats > MaxRows limits
            then (stats, Inl (limitError (sp_Name sheet) rowNumber ''row count exceeds limit''))
            else (stats, Inr (Some source)))"

fun stream_rows ::
  "legacy_env \<Rightarrow> ctx \<Rightarrow> Limits \<Rightarrow> SheetPlan \<Rightarrow> ('s, 'e) sink \<Rightarrow> int \<Rightarrow> (string, string list) result list
   \<Rightarrow> ParseStats \<Rightarrow> 's \<Rightarrow> 'e stop option \<times> ParseStats \<times> 's" where
  "stream_rows env ctx limits sheet sink rowNumber [] stats s = (None, stats, s)"
| "stream_rows env ctx limits sheet sink rowNumber (row # rows) stats s =
     (let rowNumber = rowNumber + 1 in
      case ctx (sp_Name sheet) rowNumber of
        Some e \<Rightarrow> (Some (StopContext e), stats, s)
      | None \<Rightarrow>
          (case row of
             Inl _ \<Rightarrow> (Some (StopParse (rowReadError (sp_Name sheet) rowNumber)), stats, s)
           | Inr cols \<Rightarrow>
               (case row_action env limits sheet rowNumber cols stats of
                  (stats, Inl e) \<Rightarrow> (Some (StopParse e), stats, s)
                | (stats, Inr None) \<Rightarrow> stream_rows env ctx limits sheet sink rowNumber rows stats s
                | (stats, Inr (Some source)) \<Rightarrow>
                    (case sink source s of
                       (Some e, s) \<Rightarrow> (Some (StopSink e), stats, s)
                     | (None, s) \<Rightarrow> stream_rows env ctx limits sheet sink rowNumber rows stats s))))"

fun stream_sheets ::
  "legacy_env \<Rightarrow> ctx \<Rightarrow> Limits \<Rightarrow> xlsx_file \<Rightarrow> ('s, 'e) sink \<Rightarrow> WorkbookPlan \<Rightarrow> ParseStats \<Rightarrow> 's
   \<Rightarrow> 'e stop option \<times> ParseStats \<times> 's" where
  "stream_sheets env ctx limits file sink [] stats s = (None, stats, s)"
| "stream_sheets env ctx limits file sink (sheet # sheets) stats s =
     (case ctx (sp_Name sheet) 0 of
        Some e \<Rightarrow> (Some (StopContext e), stats, s)
      | None \<Rightarrow>
          (case xf_rows file (sp_Name sheet) of
             Inl _ \<Rightarrow> (Some (StopParse (sheetReadError (sp_Name sheet))), stats, s)
           | Inr it \<Rightarrow>
               (case stream_rows env ctx limits sheet sink 0 (it_rows it) stats s of
                  (Some e, stats, s) \<Rightarrow> (Some e, stats, s)
                | (None, stats, s) \<Rightarrow>
                    if it_error it \<noteq> None
                    then (Some (StopParse (sheetReadError (sp_Name sheet))), stats, s)
                    else stream_sheets env ctx limits file sink sheets stats s)))"

definition Parse ::
  "legacy_env \<Rightarrow> ctx \<Rightarrow> xlsx_file \<Rightarrow> WorkbookPlan \<Rightarrow> Limits \<Rightarrow> ('s, 'e) sink \<Rightarrow> 's
   \<Rightarrow> 'e stop option \<times> ParseStats \<times> 's" where
  "Parse env ctx file plan limits sink s =
     (let zero = \<lparr>ps_Rows = 0, ps_Cells = 0\<rparr> in
      case ctx '''' 0 of
        Some e \<Rightarrow> (Some (StopContext e), zero, s)
      | None \<Rightarrow>
          (case xf_workbook file of
             Inl _ \<Rightarrow> (Some (StopParse (coded CodeReadFailed ''workbook cannot be opened'')), zero, s)
           | Inr _ \<Rightarrow> stream_sheets env ctx limits file sink plan zero s))"

end
