(* ===== verification/LegacyLaws.thy ===== *)
theory LegacyLaws
  imports LegacyParser
begin

text \<open>
  What the streaming parser emits: the rows of a walk as a list, the walk with any sink as feeding
  that list to it, the effect of a cancelled context, and the coordinates of the rows.
\<close>

subsection \<open>Feeding a sink\<close>

primrec feed :: "('s, 'e) sink \<Rightarrow> SourceRow list \<Rightarrow> 's \<Rightarrow> 'e option \<times> 's" where
  "feed sink [] s = (None, s)"
| "feed sink (r # rs) s = (case sink r s of (Some e, s') \<Rightarrow> (Some e, s') | (None, s') \<Rightarrow> feed sink rs s')"

lemma feed_append:
  "feed sink (rs @ rs') s = (case feed sink rs s of (Some e, s') \<Rightarrow> (Some e, s') | (None, s') \<Rightarrow> feed sink rs' s')"
  by (induction rs arbitrary: s) (simp_all split: prod.splits option.splits)

definition collect :: "(SourceRow list, 'e) sink" where
  "collect r acc = (None, acc @ [r])"

text \<open>
  A walk agrees with its list of rows: it feeds them to the sink and ends as the collecting walk
  does, or with the first error of the sink.
\<close>

definition streams ::
  "('s \<Rightarrow> 'e stop option \<times> ParseStats \<times> 's) \<Rightarrow> ('s, 'e) sink
   \<Rightarrow> SourceRow list \<Rightarrow> 'e stop option \<Rightarrow> ParseStats \<Rightarrow> bool" where
  "streams walk sink new stop stats \<longleftrightarrow>
     (\<forall>s. case feed sink new s of
            (Some e, s') \<Rightarrow> \<exists>stats'. walk s = (Some (StopSink e), stats', s')
          | (None, s') \<Rightarrow> walk s = (stop, stats, s'))"

lemma streams_Nil [simp]:
  "streams walk sink [] stop stats \<longleftrightarrow> (\<forall>s. walk s = (stop, stats, s))"
  by (simp add: streams_def)

lemma streams_None:
  "streams walk sink new stop stats \<Longrightarrow> feed sink new s = (None, s') \<Longrightarrow> walk s = (stop, stats, s')"
  unfolding streams_def by (drule spec [of _ s]) simp

lemma streams_Some:
  "streams walk sink new stop stats \<Longrightarrow> feed sink new s = (Some e, s')
   \<Longrightarrow> \<exists>stats'. walk s = (Some (StopSink e), stats', s')"
  unfolding streams_def by (drule spec [of _ s]) simp

lemma streamsI:
  assumes "\<And>s s'. feed sink new s = (None, s') \<Longrightarrow> walk s = (stop, stats, s')"
    and "\<And>s e s'. feed sink new s = (Some e, s') \<Longrightarrow> \<exists>stats'. walk s = (Some (StopSink e), stats', s')"
  shows "streams walk sink new stop stats"
  using assms by (auto simp: streams_def split: prod.splits option.splits)

lemma streams_Cons:
  assumes "\<And>s. walk s = (case sink r s of (Some e, s') \<Rightarrow> (Some (StopSink e), stats0, s')
                         | (None, s') \<Rightarrow> walk' s')"
    and "streams walk' sink new stop stats"
  shows "streams walk sink (r # new) stop stats"
  by (rule streamsI) (auto simp: assms(1) split: prod.splits option.splits
      intro: streams_None [OF assms(2)] streams_Some [OF assms(2)])

lemma streams_append:
  assumes "streams walk sink new None stats" "streams (walk' stats) sink new' stop stats'"
    and "\<And>s. walk'' s = (case walk s of (Some e, st, s') \<Rightarrow> (Some e, st, s')
                         | (None, st, s') \<Rightarrow> walk' st s')"
  shows "streams walk'' sink (new @ new') stop stats'"
proof (rule streamsI)
  fix s s' assume "feed sink (new @ new') s = (None, s')"
  then obtain t where "feed sink new s = (None, t)" "feed sink new' t = (None, s')"
    by (auto simp: feed_append split: prod.splits option.splits)
  then show "walk'' s = (stop, stats', s')"
    by (simp add: assms(3) streams_None [OF assms(1)] streams_None [OF assms(2)])
next
  fix s e s' assume "feed sink (new @ new') s = (Some e, s')"
  then consider "feed sink new s = (Some e, s')"
    | t where "feed sink new s = (None, t)" "feed sink new' t = (Some e, s')"
    by (auto simp: feed_append split: prod.splits option.splits)
  then show "\<exists>stats'. walk'' s = (Some (StopSink e), stats', s')"
  proof cases
    case 1
    from streams_Some [OF assms(1) 1] show ?thesis by (auto simp: assms(3))
  next
    case 2
    from streams_Some [OF assms(2) 2(2)] show ?thesis by (auto simp: assms(3) streams_None [OF assms(1) 2(1)])
  qed
qed

subsection \<open>The rows of a sheet\<close>

text \<open>What the rows of one walk over a sheet have in common.\<close>

definition rows_from :: "SheetPlan \<Rightarrow> int \<Rightarrow> SourceRow list \<Rightarrow> bool" where
  "rows_from sheet n rs \<longleftrightarrow>
     sorted_wrt (<) (map sr_RowNumber rs)
     \<and> (\<forall>r \<in> set rs. sr_SheetName r = sp_Name sheet \<and> n < sr_RowNumber r)"

lemma setSourceField_coordinates [simp]:
  "sr_SheetName (setSourceField row f v) = sr_SheetName row"
  "sr_RowNumber (setSourceField row f v) = sr_RowNumber row"
  by (simp_all add: setSourceField_def)

lemma extract_cells_coordinates [simp]:
  "sr_SheetName (extract_cells u sheet c cells row) = sr_SheetName row"
  "sr_RowNumber (extract_cells u sheet c cells row) = sr_RowNumber row"
  by (induction cells arbitrary: c row) (simp_all add: Let_def split: option.splits)

lemma extractSourceRow_coordinates:
  "extractSourceRow env sheet n cols = Inr r \<Longrightarrow> sr_SheetName r = sp_Name sheet \<and> sr_RowNumber r = n"
  by (auto simp: extractSourceRow_def Let_def empty_row_def split: sum.splits)

lemma row_action_coordinates:
  "row_action env limits sheet n cols stats = (stats', Inr (Some r))
   \<Longrightarrow> sr_SheetName r = sp_Name sheet \<and> sr_RowNumber r = n"
  by (auto simp: row_action_def Let_def split: if_splits sum.splits dest: extractSourceRow_coordinates)

lemma stream_rows_collect:
  fixes sink :: "('s, 'e) sink"
  assumes "stream_rows env ctx limits sheet (collect :: (_, 'e) sink) n rows stats acc = (stop, stats', out)"
  shows "\<exists>new. out = acc @ new \<and> rows_from sheet n new
    \<and> streams (stream_rows env ctx limits sheet sink n rows stats) sink new stop stats'"
  using assms
proof (induction rows arbitrary: n stats acc)
  case Nil
  then show ?case by (simp add: rows_from_def)
next
  case (Cons row rows)
  have later: "rows_from sheet n new" if "rows_from sheet (n + 1) new" for new
    using that by (auto simp: rows_from_def)
  show ?case
  proof (cases "ctx (sp_Name sheet) (n + 1)")
    case (Some e)
    with Cons.prems show ?thesis by (simp add: rows_from_def Let_def)
  next
    case None
    note ctx = None
    show ?thesis
    proof (cases row)
      case (Inl a)
      with Cons.prems ctx show ?thesis by (simp add: rows_from_def Let_def)
    next
      case (Inr cols)
      obtain st act where act: "row_action env limits sheet (n + 1) cols stats = (st, act)" by fastforce
      show ?thesis
      proof (cases act)
        case (Inl e)
        with Cons.prems ctx Inr act show ?thesis by (simp add: rows_from_def Let_def)
      next
        case (Inr src)
        note row = \<open>row = Inr cols\<close>
        show ?thesis
        proof (cases src)
          case None
          then obtain new where "out = acc @ new" "rows_from sheet (n + 1) new"
            "streams (stream_rows env ctx limits sheet sink (n + 1) rows st) sink new stop stats'"
            using Cons.IH [of "n + 1" st acc] Cons.prems ctx row act Inr by (auto simp: Let_def)
          then show ?thesis using ctx row act Inr None later
            by (intro exI [of _ new]) (simp add: Let_def)
        next
          case (Some r)
          then obtain new where new: "out = (acc @ [r]) @ new" "rows_from sheet (n + 1) new"
            "streams (stream_rows env ctx limits sheet sink (n + 1) rows st) sink new stop stats'"
            using Cons.IH [of "n + 1" st "acc @ [r]"] Cons.prems ctx row act Inr
            by (auto simp: Let_def collect_def)
          have "sr_SheetName r = sp_Name sheet \<and> sr_RowNumber r = n + 1"
            using act Inr Some by (simp add: row_action_coordinates)
          then have "rows_from sheet n (r # new)" using new(2) by (auto simp: rows_from_def)
          moreover have "streams (stream_rows env ctx limits sheet sink n (row # rows) stats) sink
                           (r # new) stop stats'"
            by (rule streams_Cons [OF _ new(3)]) (simp add: Let_def ctx row act Inr Some)
          ultimately show ?thesis using new(1) by (intro exI [of _ "r # new"]) (simp only: append.simps append_assoc simp_thms)
        qed
      qed
    qed
  qed
qed

text \<open>The rows of a walk over several sheets: block by block, each block of one sheet.\<close>

inductive blocks :: "WorkbookPlan \<Rightarrow> SourceRow list \<Rightarrow> bool" where
  blocks_Nil: "blocks plan []"
| blocks_Cons: "rows_from sheet 0 rs \<Longrightarrow> blocks plan rs' \<Longrightarrow> blocks (sheet # plan) (rs @ rs')"

lemma blocks_names: "blocks plan rs \<Longrightarrow> r \<in> set rs \<Longrightarrow> sr_SheetName r \<in> sp_Name ` set plan"
  by (induction rule: blocks.induct) (auto simp: rows_from_def)

lemma blocks_prefix: "blocks plan rs \<Longrightarrow> prefix qs rs \<Longrightarrow> blocks plan qs"
proof (induction arbitrary: qs rule: blocks.induct)
  case (blocks_Nil plan)
  then show ?case by (simp add: blocks.blocks_Nil)
next
  case (blocks_Cons sheet rs plan rs')
  show ?case
  proof (cases "prefix qs rs")
    case True
    then have "rows_from sheet 0 qs" using blocks_Cons(1)
      by (auto simp: rows_from_def prefix_def sorted_wrt_append)
    then show ?thesis using blocks.blocks_Cons [OF _ blocks.blocks_Nil, of sheet qs plan] by simp
  next
    case False
    with blocks_Cons.prems obtain qs' where "qs = rs @ qs'" "prefix qs' rs'"
      by (auto simp: prefix_append)
    then show ?thesis using blocks_Cons by (auto intro: blocks.blocks_Cons)
  qed
qed

lemma stream_sheets_collect:
  fixes sink :: "('s, 'e) sink"
  assumes "stream_sheets env ctx limits file (collect :: (_, 'e) sink) plan stats acc = (stop, stats', out)"
  shows "\<exists>new. out = acc @ new \<and> blocks plan new
    \<and> streams (stream_sheets env ctx limits file sink plan stats) sink new stop stats'"
  using assms
proof (induction plan arbitrary: stats acc)
  case Nil
  then show ?case by (simp add: blocks.blocks_Nil)
next
  case (Cons sheet plan)
  show ?case
  proof (cases "ctx (sp_Name sheet) 0 = None \<and> (\<exists>it. xf_rows file (sp_Name sheet) = Inr it)")
    case False
    then show ?thesis using Cons.prems
      by (cases "xf_rows file (sp_Name sheet)")
        (auto simp: blocks.blocks_Nil split: option.splits intro!: exI [of _ "[]"])
  next
    case True
    then obtain it where it: "ctx (sp_Name sheet) 0 = None" "xf_rows file (sp_Name sheet) = Inr it" by blast
    obtain stop1 stats1 out1
      where one: "stream_rows env ctx limits sheet (collect :: (_, 'e) sink) 0 (it_rows it) stats acc
                    = (stop1, stats1, out1)"
      by (metis prod_cases3)
    then obtain new1 where new1: "out1 = acc @ new1" "rows_from sheet 0 new1"
      "streams (stream_rows env ctx limits sheet sink 0 (it_rows it) stats) sink new1 stop1 stats1"
      using stream_rows_collect by blast
    have blk: "blocks (sheet # plan) new1"
      using blocks.blocks_Cons [OF new1(2) blocks.blocks_Nil, of plan] by simp
    consider e where "stop1 = Some e" | "stop1 = None" "it_error it \<noteq> None"
      | "stop1 = None" "it_error it = None" by (cases stop1) auto
    then show ?thesis
    proof cases
      case 1
      then have "streams (stream_sheets env ctx limits file sink (sheet # plan) stats) sink new1 stop stats'"
        using Cons.prems it one streams_None [OF new1(3)] streams_Some [OF new1(3)]
        by (intro streamsI) (auto, fastforce)
      moreover have "out = acc @ new1" using 1 Cons.prems it one new1(1) by auto
      ultimately show ?thesis using blk by blast
    next
      case 2
      then have "streams (stream_sheets env ctx limits file sink (sheet # plan) stats) sink new1 stop stats'"
        using Cons.prems it one streams_None [OF new1(3)] streams_Some [OF new1(3)]
        by (intro streamsI) (auto, fastforce)
      moreover have "out = acc @ new1" using 2 Cons.prems it one new1(1) by auto
      ultimately show ?thesis using blk by blast
    next
      case 3
      then obtain new2 where new2: "out = (acc @ new1) @ new2" "blocks plan new2"
        "streams (stream_sheets env ctx limits file sink plan stats1) sink new2 stop stats'"
        using Cons.IH [of stats1 "acc @ new1"] Cons.prems it one new1(1) by auto
      have "streams (stream_rows env ctx limits sheet sink 0 (it_rows it) stats) sink new1 None stats1"
        using new1(3) 3 by simp
      then have "streams (stream_sheets env ctx limits file sink (sheet # plan) stats) sink
                   (new1 @ new2) stop stats'"
        by (rule streams_append [where walk' = "stream_sheets env ctx limits file sink plan", OF _ new2(3)])
          (simp add: it 3 split: prod.split option.split)
      moreover have "blocks (sheet # plan) (new1 @ new2)" by (rule blocks.blocks_Cons [OF new1(2) new2(2)])
      moreover have "out = acc @ new1 @ new2" using new2(1) by simp
      ultimately show ?thesis by blast
    qed
  qed
qed

subsection \<open>Everything a workbook emits\<close>

definition emitted ::
  "legacy_env \<Rightarrow> ctx \<Rightarrow> xlsx_file \<Rightarrow> WorkbookPlan \<Rightarrow> Limits \<Rightarrow> 'e stop option \<times> ParseStats \<times> SourceRow list" where
  "emitted env ctx file plan limits = Parse env ctx file plan limits collect []"

definition no_cancel :: ctx where
  "no_cancel = (\<lambda>_ _. None)"

lemma Parse_open:
  "ctx '''' 0 = None \<Longrightarrow> xf_workbook file = Inr names
   \<Longrightarrow> Parse env ctx file plan limits sink = stream_sheets env ctx limits file sink plan \<lparr>ps_Rows = 0, ps_Cells = 0\<rparr>"
  by (auto simp: Parse_def fun_eq_iff)

lemma Parse_closed:
  assumes "\<not> (ctx '''' 0 = None \<and> (\<exists>names. xf_workbook file = Inr names))"
  shows "\<exists>stop. (\<forall>s. Parse env ctx file plan limits sink s = (Some stop, \<lparr>ps_Rows = 0, ps_Cells = 0\<rparr>, s))
    \<and> (\<forall>s. Parse env ctx file plan limits collect s = (Some stop, \<lparr>ps_Rows = 0, ps_Cells = 0\<rparr>, s))"
  using assms by (cases "xf_workbook file"; cases "ctx '''' 0") (auto simp: Parse_def)

lemma Parse_emitted:
  fixes sink :: "('s, 'e) sink"
  assumes "(emitted env ctx file plan limits :: 'e stop option \<times> _) = (stop, stats, rows)"
  shows "blocks plan rows \<and> streams (Parse env ctx file plan limits sink) sink rows stop stats"
proof (cases "ctx '''' 0 = None \<and> (\<exists>names. xf_workbook file = Inr names)")
  case False
  from Parse_closed [of ctx "file" env plan limits sink, OF this] assms show ?thesis
    by (auto simp: emitted_def blocks.blocks_Nil)
next
  case True
  then obtain names where open_wb: "ctx '''' 0 = None" "xf_workbook file = Inr names" by blast
  have "stream_sheets env ctx limits file (collect :: (_, 'e) sink) plan \<lparr>ps_Rows = 0, ps_Cells = 0\<rparr> []
          = (stop, stats, rows)"
    using assms by (simp add: emitted_def Parse_open [of ctx "file" names, OF open_wb])
  from stream_sheets_collect [OF this, of sink] show ?thesis by (simp add: Parse_open [of ctx "file" names, OF open_wb])
qed

text \<open>
  Cancelling the context cuts the walk short: it ends like the walk without cancellation, or with
  the error of the context after a prefix of its rows.
\<close>

definition cut_short :: "'e stop option \<times> ParseStats \<times> SourceRow list \<Rightarrow> 'e stop option \<times> ParseStats \<times> SourceRow list \<Rightarrow> bool" where
  "cut_short x y \<longleftrightarrow> x = y \<or> (\<exists>e. fst x = Some (StopContext e)) \<and> prefix (snd (snd x)) (snd (snd y))"

lemma stream_rows_grows:
  "prefix acc (snd (snd (stream_rows env ctx limits sheet (collect :: (_, 'e) sink) n rows stats acc)))"
proof (cases "stream_rows env ctx limits sheet (collect :: (_, 'e) sink) n rows stats acc")
  case (fields stop stats' out)
  from stream_rows_collect [OF this, of collect] fields show ?thesis by auto
qed

lemma stream_sheets_grows:
  "prefix acc (snd (snd (stream_sheets env ctx limits file (collect :: (_, 'e) sink) plan stats acc)))"
proof (cases "stream_sheets env ctx limits file (collect :: (_, 'e) sink) plan stats acc")
  case (fields stop stats' out)
  from stream_sheets_collect [OF this, of collect] fields show ?thesis by auto
qed

lemma cut_shortI: "x = (Some (StopContext e), st, acc) \<Longrightarrow> prefix acc (snd (snd y)) \<Longrightarrow> cut_short x y"
  by (simp add: cut_short_def)

lemma stream_rows_cut:
  "cut_short (stream_rows env ctx limits sheet (collect :: (_, 'e) sink) n rows stats acc)
     (stream_rows env no_cancel limits sheet collect n rows stats acc)"
proof (induction rows arbitrary: n stats acc)
  case Nil
  then show ?case by (simp add: cut_short_def)
next
  case (Cons row rows)
  show ?case
  proof (cases "ctx (sp_Name sheet) (n + 1)")
    case (Some e)
    then show ?thesis by (intro cut_shortI [OF _ stream_rows_grows]) (simp add: Let_def)
  next
    case None
    then show ?thesis using Cons.IH
      by (auto simp: Let_def no_cancel_def collect_def cut_short_def split: sum.splits prod.splits option.splits)
  qed
qed

lemma stream_sheets_cut:
  "cut_short (stream_sheets env ctx limits file (collect :: (_, 'e) sink) plan stats acc)
     (stream_sheets env no_cancel limits file collect plan stats acc)"
proof (induction plan arbitrary: stats acc)
  case Nil
  then show ?case by (simp add: cut_short_def)
next
  case (Cons sheet plan)
  show ?case
  proof (cases "ctx (sp_Name sheet) 0 = None \<and> (\<exists>it. xf_rows file (sp_Name sheet) = Inr it)")
    case False
    show ?thesis
    proof (cases "ctx (sp_Name sheet) 0")
      case None
      then show ?thesis using False
        by (cases "xf_rows file (sp_Name sheet)") (auto simp: cut_short_def no_cancel_def)
    next
      case (Some e)
      then show ?thesis by (intro cut_shortI [OF _ stream_sheets_grows]) simp
    qed
  next
    case True
    then obtain it where it: "ctx (sp_Name sheet) 0 = None" "xf_rows file (sp_Name sheet) = Inr it" by blast
    obtain stop1 stats1 out1
      where one: "stream_rows env ctx limits sheet (collect :: (_, 'e) sink) 0 (it_rows it) stats acc
                    = (stop1, stats1, out1)"
      by (metis prod_cases3)
    obtain stop2 stats2 out2
      where two: "stream_rows env no_cancel limits sheet (collect :: (_, 'e) sink) 0 (it_rows it) stats acc
                    = (stop2, stats2, out2)"
      by (metis prod_cases3)
    have cut: "cut_short (stop1, stats1, out1) (stop2, stats2, out2)"
      unfolding one [symmetric] two [symmetric] by (rule stream_rows_cut)
    show ?thesis
    proof (cases "(stop1, stats1, out1) = (stop2, stats2, out2)")
      case True
      then show ?thesis using it one two Cons.IH
        by (cases stop2) (auto simp: cut_short_def no_cancel_def)
    next
      case False
      then obtain e where e: "stop1 = Some (StopContext e)" "prefix out1 out2"
        using cut by (auto simp: cut_short_def)
      have "prefix out2 (snd (snd (stream_sheets env no_cancel limits file (collect :: (_, 'e) sink) (sheet # plan) stats acc)))"
        using it two by (cases stop2) (auto simp: no_cancel_def intro: stream_sheets_grows)
      then show ?thesis using e it one prefix_order.trans by (fastforce simp: cut_short_def)
    qed
  qed
qed

lemma emitted_cut:
  "cut_short (emitted env ctx file plan limits :: 'e stop option \<times> _) (emitted env no_cancel file plan limits)"
proof (cases "ctx '''' 0")
  case (Some e)
  then show ?thesis by (simp add: emitted_def Parse_def cut_short_def)
next
  case None
  then show ?thesis
    by (cases "xf_workbook file")
      (simp_all add: emitted_def Parse_def no_cancel_def cut_short_def [of "(_, _, _)" "(_, _, _)"]
        stream_sheets_cut [unfolded no_cancel_def])
qed

end
