(* ===== verification/PreflightLaws.thy ===== *)
theory PreflightLaws
  imports LegacyLaws
begin

text \<open>
  What an accepted workbook guarantees: the plan \<open>Preflight\<close> returns has the five sheets, each with
  its required columns, and streaming the same file with that plan meets no error.
\<close>

subsection \<open>The plan of one sheet\<close>

text \<open>Once a header row is found it stays; one found later lies below the rows already read.\<close>

lemma scan_row_cases:
  assumes "scan_row u limits (Some p) name order n cols st = Inr st'"
  obtains "sc_discovered st' = sc_discovered st"
  | sheet where "sc_discovered st = None" "sc_discovered st' = Some sheet"
      "buildSheetPlan u p name order n cols = Inr sheet" "n \<le> MaxHeaderRows limits"
  using assms by (auto simp: scan_row_def Let_def split: if_splits option.splits sum.splits)

text \<open>A header row found after \<open>n\<close> rows were read.\<close>

definition found_after ::
  "unicode \<Rightarrow> SheetProfile \<Rightarrow> string \<Rightarrow> int \<Rightarrow> Limits \<Rightarrow> int \<Rightarrow> SheetPlan \<Rightarrow> bool" where
  "found_after u p name order limits n sheet \<longleftrightarrow>
     n < sp_HeaderRow sheet \<and> sp_HeaderRow sheet \<le> MaxHeaderRows limits \<and> plan_ok u sheet
     \<and> set (required_fields p) \<subseteq> snd ` set (sp_HeaderMap sheet)
     \<and> sp_Name sheet = name \<and> sp_Order sheet = order \<and> sp_Profile sheet = p"

lemma scan_rows_discovered:
  assumes "scan_rows u ctx limits (Some p) name order n rows st = Inr st'" "sc_discovered st = Some sheet"
  shows "sc_discovered st' = Some sheet"
  using assms
proof (induction rows arbitrary: n st)
  case Nil
  then show ?case by simp
next
  case (Cons row rows)
  from Cons.prems obtain cols st1 where
    step: "scan_row u limits (Some p) name order (n + 1) cols (st\<lparr>sc_rowsSeen := sc_rowsSeen st + 1\<rparr>) = Inr st1"
      "scan_rows u ctx limits (Some p) name order (n + 1) rows st1 = Inr st'"
    by (auto simp: Let_def split: if_splits sum.splits option.splits)
  from step(1) Cons.prems(2) have "sc_discovered st1 = Some sheet"
    by (auto elim: scan_row_cases)
  with Cons.IH step(2) show ?case by blast
qed

lemma scan_rows_found:
  assumes "scan_rows u ctx limits (Some p) name order n rows st = Inr st'" "sc_discovered st = None"
    "sc_discovered st' = Some sheet"
  shows "found_after u p name order limits n sheet"
  using assms
proof (induction rows arbitrary: n st)
  case Nil
  then show ?case by simp
next
  case (Cons row rows)
  from Cons.prems obtain cols st1 where
    step: "scan_row u limits (Some p) name order (n + 1) cols (st\<lparr>sc_rowsSeen := sc_rowsSeen st + 1\<rparr>) = Inr st1"
      "scan_rows u ctx limits (Some p) name order (n + 1) rows st1 = Inr st'"
    by (auto simp: Let_def split: if_splits sum.splits option.splits)
  from step(1) show ?case
  proof (cases rule: scan_row_cases)
    case 1
    with Cons.IH [OF step(2)] Cons.prems(2,3) show ?thesis by (auto simp: found_after_def)
  next
    case (2 s)
    with scan_rows_discovered [OF step(2)] Cons.prems(3) have "s = sheet" by auto
    with 2 buildSheetPlan_Inr [OF 2(3)] show ?thesis by (simp add: found_after_def)
  qed
qed

subsection \<open>Streaming what was scanned\<close>

text \<open>The counters of the parser stay below those of the inspection.\<close>

definition counted :: "ParseStats \<Rightarrow> scan \<Rightarrow> bool" where
  "counted stats st \<longleftrightarrow> ps_Rows stats \<le> sc_rowsSeen st \<and> ps_Cells stats \<le> sc_cellsSeen st"

definition marshals :: "legacy_env \<Rightarrow> bool" where
  "marshals env \<longleftrightarrow> (\<forall>row. \<exists>text. lv_marshal_row env row = Inr text)"

lemma extractSourceRow_total: "marshals env \<Longrightarrow> \<exists>r. extractSourceRow env sheet n cols = Inr r"
  unfolding marshals_def extractSourceRow_def fingerprintSourceRow_def Let_def
  by (metis (no_types, lifting) old.sum.simps(6))

lemma scan_row_stream:
  assumes scan: "scan_row u limits (Some p) (sp_Name sheet) order n cols (st\<lparr>sc_rowsSeen := sc_rowsSeen st + 1\<rparr>) = Inr st'"
    and rows: "sc_rowsSeen st + 1 \<le> MaxRows limits"
    and below: "n \<le> sp_HeaderRow sheet \<or> sc_discovered st = Some sheet"
    and le: "counted stats st" and m: "marshals env"
  shows "\<exists>stats' r. row_action env limits sheet n cols stats = (stats', Inr r) \<and> counted stats' st'"
proof -
  from extractSourceRow_total [OF m] obtain r where r: "extractSourceRow env sheet n cols = Inr r" by blast
  have seen: "sc_rowsSeen st' = sc_rowsSeen st + 1" "sc_cellsSeen st' = sc_cellsSeen st + int (length cols)"
    "sc_cellsSeen st' \<le> MaxCells limits" "\<not> anyCellTooLong cols (MaxCellBytes limits)"
    using scan by (auto simp: scan_row_def Let_def split: if_splits option.splits sum.splits)
  have "\<not> firstUnclassifiedNonEmpty sheet cols \<ge> 0" if "n > sp_HeaderRow sheet" "\<not> emptyCells cols"
    using scan below that by (auto simp: scan_row_def Let_def split: if_splits)
  then show ?thesis using seen rows le r by (auto simp: row_action_def Let_def counted_def)
qed

lemma scan_rows_stream:
  assumes "scan_rows u ctx limits (Some p) (sp_Name sheet) order n rows st = Inr st'"
    "sc_discovered st' = Some sheet" "n < sp_HeaderRow sheet \<or> sc_discovered st = Some sheet"
    "counted stats st" "marshals env"
  shows "\<exists>stats' out. stream_rows env no_cancel limits sheet collect n rows stats acc = (None, stats', out)
    \<and> counted stats' st'"
  using assms
proof (induction rows arbitrary: n st stats acc)
  case Nil
  then show ?case by simp
next
  case (Cons row rows)
  from Cons.prems(1) obtain cols st1 where row: "row = Inr cols" "sc_rowsSeen st + 1 \<le> MaxRows limits" and
    step: "scan_row u limits (Some p) (sp_Name sheet) order (n + 1) cols (st\<lparr>sc_rowsSeen := sc_rowsSeen st + 1\<rparr>) = Inr st1"
      "scan_rows u ctx limits (Some p) (sp_Name sheet) order (n + 1) rows st1 = Inr st'"
    by (auto simp: Let_def split: if_splits sum.splits option.splits)
  obtain stats1 r where act: "row_action env limits sheet (n + 1) cols stats = (stats1, Inr r)" "counted stats1 st1"
    using scan_row_stream [OF step(1) row(2) _ Cons.prems(4,5)] Cons.prems(3) by auto
  have "n + 1 < sp_HeaderRow sheet \<or> sc_discovered st1 = Some sheet"
    using step(1)
  proof (cases rule: scan_row_cases)
    case 1
    show ?thesis
    proof (cases "sc_discovered st1")
      case None
      then show ?thesis using scan_rows_found [OF step(2) _ Cons.prems(2)] by (simp add: found_after_def)
    next
      case (Some s)
      then show ?thesis using scan_rows_discovered [OF step(2)] Cons.prems(2) by simp
    qed
  next
    case (2 s)
    then show ?thesis using scan_rows_discovered [OF step(2)] Cons.prems(2) by simp
  qed
  from Cons.IH [OF step(2) Cons.prems(2) this act(2) Cons.prems(5)] show ?case
    using row act by (cases r) (auto simp: Let_def no_cancel_def collect_def)
qed

subsection \<open>The whole workbook\<close>

lemma scan_rows_mono:
  assumes "scan_rows u ctx limits profile name order n rows st = Inr st'" "counted stats st"
  shows "counted stats st'"
  using assms
proof (induction rows arbitrary: n st)
  case Nil
  then show ?case by simp
next
  case (Cons row rows)
  from Cons.prems(1) obtain cols st1 where
    step: "scan_row u limits profile name order (n + 1) cols (st\<lparr>sc_rowsSeen := sc_rowsSeen st + 1\<rparr>) = Inr st1"
      "scan_rows u ctx limits profile name order (n + 1) rows st1 = Inr st'"
    by (auto simp: Let_def split: if_splits sum.splits option.splits)
  have "counted stats st1" using step(1) Cons.prems(2)
    by (auto simp: scan_row_def counted_def Let_def split: if_splits option.splits sum.splits)
  with Cons.IH step(2) show ?case by blast
qed

text \<open>A sheet of an accepted plan, at position \<open>i\<close> of the workbook.\<close>

definition accepted_sheet :: "unicode \<Rightarrow> Limits \<Rightarrow> string list \<Rightarrow> SheetPlan \<Rightarrow> bool" where
  "accepted_sheet u limits names sheet \<longleftrightarrow>
     0 < sp_Order sheet \<and> sp_Order sheet \<le> int (length names) \<and> names ! nat (sp_Order sheet - 1) = sp_Name sheet
     \<and> profileForSheet u (sp_Name sheet) = Some (sp_Profile sheet)
     \<and> found_after u (sp_Profile sheet) (sp_Name sheet) (sp_Order sheet) limits 0 sheet"

lemma scan_sheet_Inr:
  assumes "scan_sheet u ctx limits file i name rows cells = Inr (st, sheet)"
  obtains it where "xf_rows file name = Inr it" "it_error it = None"
    "scan_rows u ctx limits (profileForSheet u name) name (i + 1) 0 (it_rows it)
       \<lparr>sc_rowsSeen = rows, sc_cellsSeen = cells, sc_discovered = None, sc_hasData = False,
        sc_hasAnyValue = False\<rparr> = Inr st"
    "sheet_result (profileForSheet u name) name st = Inr sheet"
  using assms by (auto simp: scan_sheet_def Let_def split: sum.splits if_splits)

lemma scan_sheet_cases:
  assumes "scan_sheet u ctx limits file i name rows cells = Inr (st, sheet)"
  obtains "profileForSheet u name = None" "sheet = None"
  | s where "profileForSheet u name = Some (sp_Profile s)" "sheet = Some s" "sp_Name s = name"
      "sc_discovered st = Some s" "found_after u (sp_Profile s) name (i + 1) limits 0 s"
proof (rule scan_sheet_Inr [OF assms])
  fix it
  assume scan: "scan_rows u ctx limits (profileForSheet u name) name (i + 1) 0 (it_rows it)
       \<lparr>sc_rowsSeen = rows, sc_cellsSeen = cells, sc_discovered = None, sc_hasData = False,
        sc_hasAnyValue = False\<rparr> = Inr st"
    and res: "sheet_result (profileForSheet u name) name st = Inr sheet"
  show thesis
  proof (cases "profileForSheet u name")
    case None
    with res have "sheet = None" by (auto simp: sheet_result_def split: if_splits)
    then show ?thesis using that(1) None by blast
  next
    case (Some p)
    with res have "\<exists>s. sheet = Some s \<and> sc_discovered st = Some s"
      by (cases "sc_discovered st") (simp_all add: sheet_result_def split: if_splits)
    then obtain s where s: "sheet = Some s" "sc_discovered st = Some s" by blast
    from scan_rows_found [OF scan [unfolded Some] _ s(2)]
    have "found_after u p name (i + 1) limits 0 s" by simp
    then show ?thesis using that(2) Some s by (auto simp: found_after_def)
  qed
qed

lemma scan_sheet_stream:
  assumes "scan_sheet u ctx limits file i name rows cells = Inr (st, Some s)"
    "ps_Rows stats \<le> rows" "ps_Cells stats \<le> cells" "marshals env"
  shows "\<exists>it stats' out. xf_rows file (sp_Name s) = Inr it \<and> it_error it = None
    \<and> stream_rows env no_cancel limits s collect 0 (it_rows it) stats acc = (None, stats', out)
    \<and> counted stats' st"
  using assms(1)
proof (cases rule: scan_sheet_cases)
  case (2 s')
  then have s: "s' = s" "sp_Name s = name" "0 < sp_HeaderRow s" by (auto simp: found_after_def)
  show ?thesis
  proof (rule scan_sheet_Inr [OF assms(1)])
    fix it
    assume it: "xf_rows file name = Inr it" "it_error it = None"
      and scan: "scan_rows u ctx limits (profileForSheet u name) name (i + 1) 0 (it_rows it)
       \<lparr>sc_rowsSeen = rows, sc_cellsSeen = cells, sc_discovered = None, sc_hasData = False,
        sc_hasAnyValue = False\<rparr> = Inr st"
    from scan_rows_stream [OF scan [unfolded 2(1), folded s(2)] _ _ _ assms(4), of stats acc] 2(4) s assms(2,3) it
    show ?thesis by (auto simp: counted_def)
  qed
qed simp

lemma scan_sheet_mono:
  assumes "scan_sheet u ctx limits file i name rows cells = Inr (st, sheet)"
    "ps_Rows stats \<le> rows" "ps_Cells stats \<le> cells"
  shows "counted stats st"
  by (rule scan_sheet_Inr [OF assms(1)], erule scan_rows_mono) (simp add: counted_def assms)

lemma scan_sheets_plan:
  assumes "scan_sheets u ctx limits file i names seen rows cells plan0 = Inr (seen', plan)" "distinct seen"
    "names = drop (nat i) all" "0 \<le> i"
  shows "\<exists>new. plan = plan0 @ new \<and> seen' = seen @ map sp_Profile new \<and> distinct seen'
    \<and> sorted_wrt (<) (map sp_Order new) \<and> (\<forall>s \<in> set new. i < sp_Order s \<and> accepted_sheet u limits all s)"
  using assms
proof (induction names arbitrary: i seen rows cells plan0)
  case Nil
  then show ?case by simp
next
  case (Cons name names)
  let ?prof = "profileForSheet u name"
  from Cons.prems(1) obtain st sheet where fresh: "?prof \<notin> Some ` set seen"
    and one: "scan_sheet u ctx limits file i name rows cells = Inr (st, sheet)"
    and rest: "scan_sheets u ctx limits file (i + 1) names (seen @ option_list ?prof) (sc_rowsSeen st)
           (sc_cellsSeen st) (plan0 @ option_list sheet) = Inr (seen', plan)"
    by (auto simp: Let_def split: option.splits if_splits sum.splits)
  have dist: "distinct (seen @ option_list ?prof)" using Cons.prems(2) fresh
    by (auto simp: option_list_def split: option.splits)
  have drop: "names = drop (nat (i + 1)) all" "nat i < length all" "all ! nat i = name"
    using Cons.prems(3,4)
    by (auto simp: nat_add_distrib drop_Suc tl_drop [symmetric] dest!: sym [of "_ # _"])
      (metis drop_all leI list.distinct(1), metis hd_drop_conv_nth leI drop_all list.distinct(1) list.sel(1))
  from Cons.IH [OF rest dist drop(1)] Cons.prems(4) obtain new where
    new: "plan = (plan0 @ option_list sheet) @ new" "seen' = (seen @ option_list ?prof) @ map sp_Profile new"
      "distinct seen'" "sorted_wrt (<) (map sp_Order new)"
      "\<forall>s \<in> set new. i + 1 < sp_Order s \<and> accepted_sheet u limits all s" by auto
  from one show ?case
  proof (cases rule: scan_sheet_cases)
    case 1
    then show ?thesis using new by (intro exI [of _ new]) (auto simp: option_list_def)
  next
    case (2 s)
    have "sp_Order s = i + 1" "sp_Name s = name" using 2(5) by (auto simp: found_after_def)
    then have "accepted_sheet u limits all s"
      using 2(1,5) drop Cons.prems(4) by (auto simp: accepted_sheet_def)
    then show ?thesis using new 2 \<open>sp_Order s = i + 1\<close>
      by (intro exI [of _ "s # new"]) (auto simp: option_list_def)
  qed
qed

lemma scan_sheets_appends:
  "scan_sheets u ctx limits file i names seen rows cells plan0 = Inr (seen', plan) \<Longrightarrow> prefix plan0 plan"
  by (induction names arbitrary: i seen rows cells plan0)
    (force simp: Let_def dest: append_prefixD split: option.splits if_splits sum.splits)+

lemma scan_sheets_stream:
  assumes "scan_sheets u ctx limits file i names seen rows cells plan0 = Inr (seen', plan0 @ new)"
    "ps_Rows stats \<le> rows" "ps_Cells stats \<le> cells" "marshals env"
  shows "\<exists>stats' out. stream_sheets env no_cancel limits file (collect :: (_, 'e) sink) new stats acc = (None, stats', out)"
  using assms
proof (induction names arbitrary: i seen rows cells plan0 new stats acc)
  case Nil
  then show ?case by simp
next
  case (Cons name names)
  let ?prof = "profileForSheet u name"
  from Cons.prems(1) obtain st sheet where
    one: "scan_sheet u ctx limits file i name rows cells = Inr (st, sheet)"
    and rest: "scan_sheets u ctx limits file (i + 1) names (seen @ option_list ?prof) (sc_rowsSeen st)
           (sc_cellsSeen st) (plan0 @ option_list sheet) = Inr (seen', plan0 @ new)"
    by (auto simp: Let_def split: option.splits if_splits sum.splits)
  show ?case
  proof (cases sheet)
    case None
    then have "scan_sheets u ctx limits file (i + 1) names (seen @ option_list ?prof) (sc_rowsSeen st)
           (sc_cellsSeen st) plan0 = Inr (seen', plan0 @ new)" using rest by (simp add: option_list_def)
    from Cons.IH [OF this] scan_sheet_mono [OF one Cons.prems(2,3)] Cons.prems(4)
    show ?thesis by (auto simp: counted_def)
  next
    case (Some s)
    then have rest': "scan_sheets u ctx limits file (i + 1) names (seen @ option_list ?prof) (sc_rowsSeen st)
           (sc_cellsSeen st) (plan0 @ [s]) = Inr (seen', plan0 @ new)"
      using rest by (simp add: option_list_def)
    from scan_sheets_appends [OF rest'] obtain new' where new: "new = s # new'"
      by (cases new) auto
    from scan_sheet_stream [OF one [unfolded Some] Cons.prems(2-4), of acc] obtain it stats1 out where
      it: "xf_rows file (sp_Name s) = Inr it" "it_error it = None"
        "stream_rows env no_cancel limits s (collect :: (_, 'e) sink) 0 (it_rows it) stats acc = (None, stats1, out)"
        "counted stats1 st" by blast
    from Cons.IH [of "i + 1" "seen @ option_list ?prof" "sc_rowsSeen st" "sc_cellsSeen st" "plan0 @ [s]" new' stats1 out]
      rest' new it(4) Cons.prems(4)
    show ?thesis using it by (auto simp: counted_def no_cancel_def)
  qed
qed

lemma Preflight_Inr:
  assumes "Preflight u ctx limits file = Inr plan"
  obtains names where "xf_workbook file = Inr names" "int (length names) \<le> MaxSheets limits"
    "distinct (map sp_Profile plan)" "set (map sp_Profile plan) \<supseteq> {SheetA, SheetB, SheetV, SheetP, SheetS}"
    "sorted_wrt (<) (map sp_Order plan)" "\<forall>s \<in> set plan. accepted_sheet u limits names s"
proof -
  from assms obtain names seen where n: "xf_workbook file = Inr names" "int (length names) \<le> MaxSheets limits"
    and sc: "scan_sheets u ctx limits file 0 names [] 0 0 [] = Inr (seen, plan)"
    and req: "find (\<lambda>r. r \<notin> set seen) [SheetA, SheetB, SheetV, SheetP, SheetS] = None"
    by (auto simp: Preflight_def split: option.splits sum.splits if_splits unit.splits)
  from req have "{SheetA, SheetB, SheetV, SheetP, SheetS} \<subseteq> set seen"
    unfolding find_None_iff by auto
  with scan_sheets_plan [OF sc, of names] n that show ?thesis by auto
qed

lemma Preflight_emitted:
  assumes "Preflight u ctx limits file = Inr plan" "marshals env"
  shows "\<exists>stats rows. emitted env no_cancel file plan limits = (None, stats, rows)"
proof -
  from assms(1) obtain names seen where n: "xf_workbook file = Inr names"
    and sc: "scan_sheets u ctx limits file 0 names [] 0 0 [] = Inr (seen, [] @ plan)"
    by (auto simp: Preflight_def split: option.splits sum.splits if_splits unit.splits)
  from scan_sheets_stream [OF sc _ _ assms(2), of "\<lparr>ps_Rows = 0, ps_Cells = 0\<rparr>" "[]"] n
  show ?thesis by (simp add: emitted_def Parse_open [where names = names] no_cancel_def [THEN fun_cong, THEN fun_cong])
qed

end
