(* ===== verification/PlanCodec.thy ===== *)
theory PlanCodec
  imports LegacyPreflight
begin

text \<open>
  The stored form of a sheet plan (\<^verbatim>\<open>imports/legacy/plan_codec.go\<close>), kept in \<open>import_sheets.header_map\<close>
  between the upload and the staging of a workbook. The JSON encoder and decoder are parameters:
  the decoder gives the value and whether other data follow it. A map is walked in the order of its
  columns, one of the orders Go may take; every error of the validation has the same code.
\<close>

definition storedSheetPlanVersion :: int where
  "storedSheetPlanVersion = 1"

record storedSheetPlan =
  ss_Version :: int
  ss_HeaderRow :: int
  ss_Fields :: "(int \<times> Field) list"
  ss_ExtraFields :: "(int \<times> string) list"
  ss_SecretColumns :: "int list"

record plan_json =
  pj_Marshal :: "storedSheetPlan \<Rightarrow> (string, string) result"
  pj_Decode :: "string \<Rightarrow> (string, storedSheetPlan \<times> bool) result"

definition invalidStoredPlan :: "string \<Rightarrow> ParseError" where
  "invalidStoredPlan det = coded CodeUnsupportedWorkbook det"

definition validStoredField :: "Field \<Rightarrow> bool" where
  "validStoredField field =
     (field \<in> set [FieldEmployer, FieldINN, FieldFullName, FieldPosition, FieldDepartment, FieldSNILS,
        FieldProgram, FieldTrainingPeriod, FieldProtocolNumber, FieldProtocolDate, FieldAssessment,
        FieldRegistryNumber, FieldSourceRef, FieldMoodleEmail, FieldMoodleUsername])"

text \<open>The three loops of the validation, each giving the columns occupied after it.\<close>

fun check_stored_fields :: "(int \<times> Field) list \<Rightarrow> int list \<Rightarrow> Field list \<Rightarrow> (ParseError, int list) result" where
  "check_stored_fields [] occupied assigned = Inr occupied"
| "check_stored_fields ((column, field) # rest) occupied assigned =
     (if column < 0 \<or> \<not> validStoredField field
      then Inl (invalidStoredPlan ''sheet plan field mapping is invalid'')
      else if column \<in> set occupied
      then Inl (invalidStoredPlan ''sheet plan column is assigned more than once'')
      else if field \<in> set assigned
      then Inl (invalidStoredPlan ''sheet plan field is assigned more than once'')
      else check_stored_fields rest (column # occupied) (field # assigned))"

fun check_stored_extra :: "unicode \<Rightarrow> (int \<times> string) list \<Rightarrow> int list \<Rightarrow> (ParseError, int list) result" where
  "check_stored_extra u [] occupied = Inr occupied"
| "check_stored_extra u ((column, name) # rest) occupied =
     (if column < 0 \<or> TrimSpace name = '''' \<or> normalizeLabel u name \<noteq> name \<or> isSecretHeader u name
      then Inl (invalidStoredPlan ''sheet plan extra mapping is invalid'')
      else if column \<in> set occupied
      then Inl (invalidStoredPlan ''sheet plan column is assigned more than once'')
      else check_stored_extra u rest (column # occupied))"

fun check_stored_secrets :: "int list \<Rightarrow> int list \<Rightarrow> (ParseError, unit) result" where
  "check_stored_secrets [] occupied = Inr ()"
| "check_stored_secrets (column # rest) occupied =
     (if column < 0 then Inl (invalidStoredPlan ''sheet plan secret mapping is invalid'')
      else if column \<in> set occupied
      then Inl (invalidStoredPlan ''sheet plan column is assigned more than once'')
      else check_stored_secrets rest (column # occupied))"

definition validateStoredSheetPlan ::
  "unicode \<Rightarrow> string \<Rightarrow> int \<Rightarrow> SheetProfile \<Rightarrow> storedSheetPlan \<Rightarrow> (ParseError, unit) result" where
  "validateStoredSheetPlan u name order profile stored =
     (if TrimSpace name = '''' \<or> order \<le> 0 \<or> profileForSheet u name \<noteq> Some profile
      then Inl (invalidStoredPlan ''sheet plan identity is invalid'')
      else if ss_Version stored \<noteq> storedSheetPlanVersion
      then Inl (invalidStoredPlan ''sheet plan version is unsupported'')
      else if ss_HeaderRow stored \<le> 0 \<or> ss_Fields stored = []
      then Inl (invalidStoredPlan ''sheet plan structure is invalid'')
      else case check_stored_fields (ss_Fields stored) [] [] of
        Inl e \<Rightarrow> Inl e
      | Inr occupied \<Rightarrow>
          (case check_stored_extra u (ss_ExtraFields stored) occupied of
             Inl e \<Rightarrow> Inl e
           | Inr occupied \<Rightarrow> check_stored_secrets (ss_SecretColumns stored) occupied))"

definition EncodeSheetPlan :: "unicode \<Rightarrow> plan_json \<Rightarrow> SheetPlan \<Rightarrow> (ParseError, string) result" where
  "EncodeSheetPlan u pj plan =
     (let stored = \<lparr>ss_Version = storedSheetPlanVersion, ss_HeaderRow = sp_HeaderRow plan,
                    ss_Fields = sp_HeaderMap plan, ss_ExtraFields = sp_ExtraNames plan,
                    ss_SecretColumns = sort (sp_secretColumns plan)\<rparr>
      in case validateStoredSheetPlan u (sp_Name plan) (sp_Order plan) (sp_Profile plan) stored of
           Inl e \<Rightarrow> Inl e
         | Inr _ \<Rightarrow>
             (case pj_Marshal pj stored of
                Inl _ \<Rightarrow> Inl (invalidStoredPlan ''sheet plan cannot be encoded'')
              | Inr encoded \<Rightarrow> Inr encoded))"

definition DecodeSheetPlan ::
  "unicode \<Rightarrow> plan_json \<Rightarrow> string \<Rightarrow> int \<Rightarrow> SheetProfile \<Rightarrow> string \<Rightarrow> (ParseError, SheetPlan) result" where
  "DecodeSheetPlan u pj name order profile payload =
     (case pj_Decode pj payload of
        Inl _ \<Rightarrow> Inl (invalidStoredPlan ''sheet plan cannot be decoded'')
      | Inr (stored, trailing) \<Rightarrow>
          if trailing then Inl (invalidStoredPlan ''sheet plan has trailing data'')
          else case validateStoredSheetPlan u name order profile stored of
            Inl e \<Rightarrow> Inl e
          | Inr _ \<Rightarrow>
              Inr \<lparr>sp_Name = name, sp_Order = order, sp_Profile = profile,
                   sp_HeaderRow = ss_HeaderRow stored, sp_HeaderMap = ss_Fields stored,
                   sp_ExtraNames = ss_ExtraFields stored,
                   sp_secretColumns = remdups (ss_SecretColumns stored)\<rparr>)"

subsection \<open>What a stored plan keeps\<close>

text \<open>
  The JSON round trip of a value whose maps are written as their ordered lists.
\<close>

definition canonical :: "storedSheetPlan \<Rightarrow> bool" where
  "canonical stored \<longleftrightarrow> sorted_wrt (<) (map fst (ss_Fields stored)) \<and> sorted_wrt (<) (map fst (ss_ExtraFields stored))"

definition plan_json_laws :: "plan_json \<Rightarrow> bool" where
  "plan_json_laws pj \<longleftrightarrow>
     (\<forall>stored text. canonical stored \<longrightarrow> pj_Marshal pj stored = Inr text \<longrightarrow> pj_Decode pj text = Inr (stored, False))"

lemma case_Inr_iff: "(case x of Inl e \<Rightarrow> Inl e | Inr a \<Rightarrow> f a) = Inr b \<longleftrightarrow> (\<exists>a. x = Inr a \<and> f a = Inr b)"
  by (cases x) auto

lemma check_stored_fields_Inr:
  "check_stored_fields fs occ asg = Inr occ' \<longleftrightarrow>
     (\<forall>(c, f) \<in> set fs. 0 \<le> c \<and> validStoredField f) \<and> distinct (map fst fs) \<and> set (map fst fs) \<inter> set occ = {}
     \<and> distinct (map snd fs) \<and> set (map snd fs) \<inter> set asg = {} \<and> occ' = rev (map fst fs) @ occ"
  by (induction fs occ asg rule: check_stored_fields.induct) (auto simp: not_less)

lemma check_stored_extra_Inr:
  "check_stored_extra u es occ = Inr occ' \<longleftrightarrow>
     (\<forall>(c, n) \<in> set es. 0 \<le> c \<and> TrimSpace n \<noteq> '''' \<and> normalizeLabel u n = n \<and> \<not> isSecretHeader u n)
     \<and> distinct (map fst es) \<and> set (map fst es) \<inter> set occ = {} \<and> occ' = rev (map fst es) @ occ"
  by (induction u es occ rule: check_stored_extra.induct) (auto simp: not_less)

lemma check_stored_secrets_Inr:
  "check_stored_secrets cs occ = Inr () \<longleftrightarrow>
     (\<forall>c \<in> set cs. 0 \<le> c) \<and> distinct cs \<and> set cs \<inter> set occ = {}"
  by (induction cs occ rule: check_stored_secrets.induct) (auto simp: not_less)

lemma validateStoredSheetPlan_Inr:
  "validateStoredSheetPlan u name order profile stored = Inr () \<longleftrightarrow>
     TrimSpace name \<noteq> '''' \<and> 0 < order \<and> profileForSheet u name = Some profile
     \<and> ss_Version stored = storedSheetPlanVersion \<and> 0 < ss_HeaderRow stored \<and> ss_Fields stored \<noteq> []
     \<and> distinct (map fst (ss_Fields stored) @ map fst (ss_ExtraFields stored) @ ss_SecretColumns stored)
     \<and> distinct (map snd (ss_Fields stored))
     \<and> (\<forall>c \<in> set (map fst (ss_Fields stored) @ map fst (ss_ExtraFields stored) @ ss_SecretColumns stored). 0 \<le> c)
     \<and> (\<forall>(c, f) \<in> set (ss_Fields stored). validStoredField f)
     \<and> (\<forall>(c, n) \<in> set (ss_ExtraFields stored).
          TrimSpace n \<noteq> '''' \<and> normalizeLabel u n = n \<and> \<not> isSecretHeader u n)"
  by (cases "TrimSpace name = '''' \<or> order \<le> 0 \<or> profileForSheet u name \<noteq> Some profile
        \<or> ss_Version stored \<noteq> storedSheetPlanVersion \<or> ss_HeaderRow stored \<le> 0 \<or> ss_Fields stored = []")
    (auto simp: validateStoredSheetPlan_def check_stored_fields_Inr check_stored_extra_Inr
      check_stored_secrets_Inr case_Inr_iff ball_Un)

end
