(* ===== verification/SecretLaws.thy ===== *)
theory SecretLaws
  imports PreflightLaws PlanCodec Samples
begin

text \<open>
  A plan restored from its stored form, and the secrecy of the secret columns: the walk over two
  workbooks that agree outside these columns is the same.
\<close>

subsection \<open>Restored plans\<close>

lemma plan_restored:
  assumes "plan_json_laws pj" "plan_ok u plan" "EncodeSheetPlan u pj plan = Inr text"
  shows "DecodeSheetPlan u pj (sp_Name plan) (sp_Order plan) (sp_Profile plan) text = Inr plan"
proof -
  let ?stored = "\<lparr>ss_Version = storedSheetPlanVersion, ss_HeaderRow = sp_HeaderRow plan,
                  ss_Fields = sp_HeaderMap plan, ss_ExtraFields = sp_ExtraNames plan,
                  ss_SecretColumns = sort (sp_secretColumns plan)\<rparr>"
  from assms(3) have v: "validateStoredSheetPlan u (sp_Name plan) (sp_Order plan) (sp_Profile plan) ?stored = Inr ()"
    and t: "pj_Marshal pj ?stored = Inr text"
    by (auto simp: EncodeSheetPlan_def Let_def split: sum.splits)
  have sorted: "sorted (sp_secretColumns plan)" and dist: "distinct (sp_secretColumns plan)"
    using assms(2) by (simp_all add: plan_ok_def strict_sorted_iff)
  have "canonical ?stored" using assms(2) by (simp add: canonical_def plan_ok_def)
  then have "pj_Decode pj text = Inr (?stored, False)" using assms(1) t unfolding plan_json_laws_def by blast
  then show ?thesis using v by (simp add: DecodeSheetPlan_def sorted_sort_id [OF sorted] distinct_remdups_id [OF dist])
qed

lemma DecodeSheetPlan_Inr:
  assumes "DecodeSheetPlan u pj name order profile text = Inr plan"
  shows "sp_Name plan = name" "sp_Order plan = order" "sp_Profile plan = profile"
    "distinct (map fst (sp_HeaderMap plan) @ map fst (sp_ExtraNames plan) @ sp_secretColumns plan)"
    "\<forall>(c, n) \<in> set (sp_ExtraNames plan). \<not> isSecretHeader u n"
proof -
  from assms obtain st where v: "validateStoredSheetPlan u name order profile st = Inr ()"
    and plan: "plan = \<lparr>sp_Name = name, sp_Order = order, sp_Profile = profile, sp_HeaderRow = ss_HeaderRow st,
      sp_HeaderMap = ss_Fields st, sp_ExtraNames = ss_ExtraFields st, sp_secretColumns = remdups (ss_SecretColumns st)\<rparr>"
    by (auto simp: DecodeSheetPlan_def split: sum.splits if_splits)
  from v [unfolded validateStoredSheetPlan_Inr]
  show "sp_Name plan = name" "sp_Order plan = order" "sp_Profile plan = profile"
    "distinct (map fst (sp_HeaderMap plan) @ map fst (sp_ExtraNames plan) @ sp_secretColumns plan)"
    "\<forall>(c, n) \<in> set (sp_ExtraNames plan). \<not> isSecretHeader u n"
    unfolding plan by (simp_all add: distinct_remdups_id) blast
qed

subsection \<open>Secret columns\<close>

text \<open>Rows and files that agree outside the secret columns.\<close>

definition public_rows :: "Limits \<Rightarrow> SheetPlan \<Rightarrow> (string, string list) result \<Rightarrow> (string, string list) result \<Rightarrow> bool" where
  "public_rows limits sheet r r' =
     (case (r, r') of
        (Inl _, Inl _) \<Rightarrow> True
      | (Inr cols, Inr cols') \<Rightarrow>
          length cols = length cols' \<and> anyCellTooLong cols (MaxCellBytes limits) = anyCellTooLong cols' (MaxCellBytes limits)
          \<and> (\<forall>c < length cols. int c \<notin> set (sp_secretColumns sheet) \<longrightarrow> cols ! c = cols' ! c)
      | _ \<Rightarrow> False)"

definition public_file :: "Limits \<Rightarrow> WorkbookPlan \<Rightarrow> xlsx_file \<Rightarrow> xlsx_file \<Rightarrow> bool" where
  "public_file limits plan f f' =
     (xf_workbook f = xf_workbook f'
      \<and> list_all (\<lambda>sheet.
          case (xf_rows f (sp_Name sheet), xf_rows f' (sp_Name sheet)) of
            (Inl _, Inl _) \<Rightarrow> True
          | (Inr it, Inr it') \<Rightarrow>
              list_all2 (public_rows limits sheet) (it_rows it) (it_rows it') \<and> (it_error it = None) = (it_error it' = None)
          | _ \<Rightarrow> False) plan)"

definition secrets_apart :: "SheetPlan \<Rightarrow> bool" where
  "secrets_apart sheet \<longleftrightarrow>
     (\<forall>c \<in> set (sp_secretColumns sheet). map_of (sp_HeaderMap sheet) c = None \<and> map_of (sp_ExtraNames sheet) c = None)"

lemma distinct_secrets_apart:
  "distinct (map fst (sp_HeaderMap s) @ map fst (sp_ExtraNames s) @ sp_secretColumns s) \<Longrightarrow> secrets_apart s"
  by (auto simp: secrets_apart_def map_of_eq_None_iff)

lemma extract_public:
  assumes "length cols = length cols'" "\<forall>i < length cols. k + int i \<notin> set (sp_secretColumns sheet) \<longrightarrow> cols ! i = cols' ! i"
    "secrets_apart sheet"
  shows "extract_cells u sheet k cols row = extract_cells u sheet k cols' row
    \<and> first_unclassified sheet k cols = first_unclassified sheet k cols'"
  using assms
proof (induction cols cols' arbitrary: k row rule: list_induct2)
  case Nil
  then show ?case by simp
next
  case (Cons a as b bs)
  have tl: "\<forall>i < length as. (k + 1) + int i \<notin> set (sp_secretColumns sheet) \<longrightarrow> as ! i = bs ! i"
    using Cons.prems(1) by (auto simp: algebra_simps dest: spec [of _ "Suc _"])
  show ?case
  proof (cases "k \<in> set (sp_secretColumns sheet)")
    case True
    then show ?thesis using Cons.IH [OF tl assms(3)] Cons.prems(2) by (simp add: secrets_apart_def Let_def)
  next
    case False
    then have "a = b" using Cons.prems(1) by (auto dest: spec [of _ 0])
    then show ?thesis using Cons.IH [OF tl assms(3)] by (simp add: Let_def)
  qed
qed

lemma extract_empty:
  assumes "emptyCells cols" "sourceRowEmpty row"
  shows "sourceRowEmpty (extract_cells u sheet k cols row)"
  using assms
proof (induction cols arbitrary: k row)
  case Nil
  then show ?case by simp
next
  case (Cons a as)
  have "sourceRowEmpty (setSourceField row f '''')" for f
    using Cons.prems(2) by (simp add: sourceRowEmpty_def setSourceField_def)
  then show ?case using Cons by (auto simp: emptyCells_def Let_def split: option.splits)
qed

lemma sourceRowEmpty_fingerprint [simp]:
  "sourceRowEmpty (row\<lparr>sr_SourceFingerprintSHA256 := h\<rparr>) = sourceRowEmpty row"
  by (simp add: sourceRowEmpty_def)

lemma empty_cells_skipped:
  assumes "emptyCells cols" "extractSourceRow env sheet n cols = Inr r"
  shows "sourceRowEmpty r"
proof -
  have "sourceRowEmpty (empty_row a b n)" for a b by (simp add: sourceRowEmpty_def empty_row_def)
  from extract_empty [OF assms(1) this] assms(2) show ?thesis
    by (auto simp: extractSourceRow_def Let_def split: sum.splits)
qed

lemma empty_first_unclassified: "emptyCells cols \<Longrightarrow> first_unclassified sheet k cols = -1"
  by (induction cols arbitrary: k) (auto simp: emptyCells_def)

lemma row_action_empty:
  assumes "marshals env" "emptyCells cols"
  shows "row_action env limits sheet n cols stats =
    (let stats = stats\<lparr>ps_Cells := ps_Cells stats + int (length cols)\<rparr> in
     if ps_Cells stats > MaxCells limits
     then (stats, Inl (limitError (sp_Name sheet) n ''cell count exceeds limit''))
     else if anyCellTooLong cols (MaxCellBytes limits)
     then (stats, Inl (limitError (sp_Name sheet) n ''cell length exceeds limit''))
     else (stats, Inr None))"
  using assms(2) by (simp add: row_action_def Let_def)

lemma row_action_public:
  assumes m: "marshals env" and "secrets_apart sheet" and pub: "public_rows limits sheet (Inr cols) (Inr cols')"
  shows "row_action env limits sheet n cols stats = row_action env limits sheet n cols' stats"
proof -
  have *: "length cols = length cols'" "\<forall>i < length cols. 0 + int i \<notin> set (sp_secretColumns sheet) \<longrightarrow> cols ! i = cols' ! i"
    "anyCellTooLong cols (MaxCellBytes limits) = anyCellTooLong cols' (MaxCellBytes limits)"
    using pub by (auto simp: public_rows_def)
  note same = extract_public [OF *(1,2) assms(2)]
  obtain r where r: "extractSourceRow env sheet n cols = Inr r" using extractSourceRow_total [OF m] by blast
  then have r': "extractSourceRow env sheet n cols' = Inr r" using same by (simp add: extractSourceRow_def)
  have "sourceRowEmpty r \<and> first_unclassified sheet 0 cols = -1" if "emptyCells cols \<or> emptyCells cols'"
    using that empty_cells_skipped [OF _ r] empty_cells_skipped [OF _ r'] empty_first_unclassified same by metis
  then show ?thesis using * same r r'
    by (cases "emptyCells cols"; cases "emptyCells cols'")
      (auto simp: row_action_def Let_def firstUnclassifiedNonEmpty_def)
qed

lemma stream_rows_public:
  assumes "marshals env" "secrets_apart sheet" "list_all2 (public_rows limits sheet) rows rows'"
  shows "stream_rows env ctx limits sheet sink n rows stats s = stream_rows env ctx limits sheet sink n rows' stats s"
  using assms(3)
proof (induction arbitrary: n stats s rule: list_all2_induct)
  case Nil
  then show ?case by simp
next
  case (Cons r rs r' rs')
  from Cons(1) consider a b where "r = Inl a" "r' = Inl b"
    | cols cols' where "r = Inr cols" "r' = Inr cols'"
    by (auto simp: public_rows_def split: sum.splits)
  then show ?case
  proof cases
    case 1
    then show ?thesis by (cases "ctx (sp_Name sheet) (n + 1)") (simp_all add: Let_def)
  next
    case 2
    then have "row_action env limits sheet (n + 1) cols stats = row_action env limits sheet (n + 1) cols' stats"
      using row_action_public [OF assms(1,2)] Cons(1) by blast
    then show ?thesis using 2 Cons.IH
      by (cases "ctx (sp_Name sheet) (n + 1)") (simp_all add: Let_def split: prod.split sum.split option.split)
  qed
qed

lemma stream_sheets_public:
  assumes "marshals env" "\<forall>sheet \<in> set plan. secrets_apart sheet" "public_file limits plan f f'"
  shows "stream_sheets env ctx limits f sink plan stats s = stream_sheets env ctx limits f' sink plan stats s"
  using assms(2,3)
proof (induction plan arbitrary: stats s)
  case Nil
  then show ?case by simp
next
  case (Cons sheet plan)
  then have IH: "stream_sheets env ctx limits f sink plan st t = stream_sheets env ctx limits f' sink plan st t" for st t
    by (simp add: public_file_def)
  from Cons.prems(2) consider a b where "xf_rows f (sp_Name sheet) = Inl a" "xf_rows f' (sp_Name sheet) = Inl b"
    | it it' where "xf_rows f (sp_Name sheet) = Inr it" "xf_rows f' (sp_Name sheet) = Inr it'"
        "list_all2 (public_rows limits sheet) (it_rows it) (it_rows it')" "(it_error it = None) = (it_error it' = None)"
    by (auto simp: public_file_def split: sum.splits)
  then show ?case
  proof cases
    case 1
    then show ?thesis by (simp split: option.split)
  next
    case 2
    then have "stream_rows env ctx limits sheet sink 0 (it_rows it) stats s
                 = stream_rows env ctx limits sheet sink 0 (it_rows it') stats s"
      using stream_rows_public [OF assms(1) _ 2(3)] Cons.prems(1) by simp
    then show ?thesis using 2(1,2,4) IH
      by (cases "ctx (sp_Name sheet) 0"; cases "stream_rows env ctx limits sheet sink 0 (it_rows it') stats s"; cases "it_error it'")
        (simp_all split: option.split)
  qed
qed

end
