(* ===== verification/LegacySamples.thy ===== *)
theory LegacySamples
  imports SecretLaws "HOL-Library.Code_Target_Nat"
begin

text \<open>
  A small workbook the inspection accepts, on which the witnesses of the import properties
  evaluate: the five sheets, each with one header row and one row of data.
\<close>

lemma bytes_inject:
  assumes "list_all (\<lambda>b. b < 256) xs" "list_all (\<lambda>b. b < 256) ys"
  shows "bytes xs = bytes ys \<longleftrightarrow> xs = ys"
proof -
  have "xs = map byte (bytes xs)" if "list_all (\<lambda>b. b < 256) xs" for xs
    using that by (induction xs) (simp_all add: bytes_def)
  with assms show ?thesis by metis
qed

lemma map_of_bytes:
  assumes "list_all (\<lambda>b. b < 256) k" "list_all (\<lambda>(l, f). list_all (\<lambda>b. b < 256) l) ls"
  shows "map_of (map (\<lambda>(l, f). (bytes l, f)) ls) (bytes k) = map_of ls k"
  using assms(2) by (induction ls) (auto simp: bytes_inject [OF assms(1)] bytes_inject [OF _ assms(1)])

lemma labels_bytes: "list_all (\<lambda>(l, f). list_all (\<lambda>b. b < 256) l) headerAliasLabels"
  by (simp add: headerAliasLabels_def)

text \<open>A label that lacks some letters of every secret word.\<close>

lemma not_secret:
  assumes plain: "list_all (\<lambda>c. byte c \<noteq> 115 \<and> byte c \<noteq> 107 \<and> byte c \<noteq> 140 \<and> byte c \<noteq> 142) h"
    and label: "normalizeLabel u h = h"
  shows "\<not> isSecretHeader u h"
proof -
  have assms: "CHR ''s'' \<notin> set h" "CHR ''k'' \<notin> set h" "char_of (140 :: nat) \<notin> set h" "char_of (142 :: nat) \<notin> set h"
    using plain by (auto simp: list_all_iff byte_def)
  have "h \<noteq> ''api key''" using assms(2) by auto
  moreover have "h \<noteq> bytes [208, 186, 208, 187, 209, 142, 209, 135, 32, 208, 180, 208, 190, 209, 129,
             209, 130, 209, 131, 208, 191, 208, 176]" using assms(4) by (auto simp: bytes_def)
  moreover have "w \<notin> set [bytes [208, 191, 208, 176, 209, 128, 208, 190, 208, 187, 209, 140],
             ''password'', ''passwd'', ''secret'', ''token'']" if "w \<in> set (Fields h)" for w
    using Fields_set [OF that] assms(1-3) by (auto simp: bytes_def)
  ultimately show ?thesis using label by (auto simp: isSecretHeader_def Let_def list_ex_iff)
qed

definition sample_headers :: "string list" where
  "sample_headers = map bytes [
      [120],
      [208, 184, 208, 189, 208, 189],
      [209, 132, 208, 184, 208, 190],
      [208, 191, 209, 128, 208, 190, 209, 132, 208, 181, 209, 129, 209, 129, 208, 184, 209, 143],
      [209, 129, 208, 189, 208, 184, 208, 187, 209, 129],
      [208, 191, 209, 128, 208, 190, 209, 130, 208, 190, 208, 186, 208, 190, 208, 187],
      [208, 180, 208, 176, 209, 130, 208, 176, 32, 208, 191, 209, 128, 208, 190, 209, 130, 208,
       190, 208, 186, 208, 190, 208, 187, 208, 176],
      [208, 190, 209, 134, 208, 181, 208, 189, 208, 186, 208, 176],
      [208, 191, 208, 181, 209, 128, 208, 184, 208, 190, 208, 180, 32, 208, 190, 208, 177, 209,
       131, 209, 135, 208, 181, 208, 189, 208, 184, 209, 143],
      [208, 189, 208, 190, 208, 188, 208, 181, 209, 128, 32, 208, 178, 32, 209, 128, 208, 181,
       208, 181, 209, 129, 209, 130, 209, 128, 208, 181],
      [208, 190, 209, 128, 208, 179, 208, 176, 208, 189, 208, 184, 208, 183, 208, 176, 209, 134,
       208, 184, 209, 143],
      [209, 129, 208, 184, 208, 183],
      [208, 190, 209, 128, 208, 179, 208, 176, 208, 189, 208, 184, 208, 183, 208, 176, 209, 134,
       208, 184, 209, 143, 32, 209, 132, 208, 184, 208, 187, 208, 184, 208, 176, 208, 187,
       32, 208, 189, 208, 190, 208, 188, 208, 181, 209, 128, 32, 208, 183, 208, 176, 209,
       143, 208, 178, 208, 186, 208, 184]]"

lemma sample_header_fields:
  "map (fieldForHeader p) sample_headers =
     [None, Some FieldINN, Some FieldFullName, Some FieldPosition, Some FieldSNILS, Some FieldProtocolNumber,
      Some FieldProtocolDate, Some FieldAssessment, Some FieldTrainingPeriod, Some FieldRegistryNumber,
      Some FieldEmployer, Some FieldProgram, Some FieldSourceRef]"
  unfolding sample_headers_def fieldForHeader_def headerAliases_def
  by (simp add: map_of_bytes [OF _ labels_bytes])
    (simp add: headerAliasLabels_def profileHeaderAliases_def bytes_def char_of_eq_iff)

lemma sample_header_labels: "map (normalizeLabel sample_unicode) sample_headers = sample_headers"
  by code_simp

lemma sample_headers_nonempty: "[] \<notin> set sample_headers"
  by (auto simp: sample_headers_def bytes_def)

lemma sample_headers_plain:
  "list_all (list_all (\<lambda>c. byte c \<noteq> 115 \<and> byte c \<noteq> 107 \<and> byte c \<noteq> 140 \<and> byte c \<noteq> 142)) sample_headers"
  by code_simp

lemma sample_header_roles:
  "h \<in> set sample_headers \<Longrightarrow> normalizeLabel sample_unicode h = h \<and> h \<noteq> [] \<and> \<not> isSecretHeader sample_unicode h"
  using sample_header_labels sample_headers_nonempty sample_headers_plain not_secret
  by (metis (no_types, lifting) list_all_iff map_eq_conv map_ident)

text \<open>The plan of a sheet with this header row.\<close>

definition sample_plan :: "SheetProfile \<Rightarrow> int \<Rightarrow> SheetPlan" where
  "sample_plan profile order =
     \<lparr>sp_Name = profile, sp_Order = order, sp_Profile = profile, sp_HeaderRow = 1,
      sp_HeaderMap = [(1, FieldINN), (2, FieldFullName), (3, FieldPosition), (4, FieldSNILS),
        (5, FieldProtocolNumber), (6, FieldProtocolDate), (7, FieldAssessment), (8, FieldTrainingPeriod),
        (9, FieldRegistryNumber), (10, FieldEmployer), (11, FieldProgram), (12, FieldSourceRef)],
      sp_ExtraNames = [(0, ''x'')], sp_secretColumns = []\<rparr>"

lemma sample_build:
  "buildSheetPlan sample_unicode profile profile order 1 sample_headers = Inr (sample_plan profile order)"
proof -
  obtain h0 h1 h2 h3 h4 h5 h6 h7 h8 h9 h10 h11 h12
    where hs: "sample_headers = [h0, h1, h2, h3, h4, h5, h6, h7, h8, h9, h10, h11, h12]" "h0 = ''x''"
    by (simp add: sample_headers_def bytes_def char_of_eq_iff)
  note roles = sample_header_roles [unfolded hs(1)]
  note fields = sample_header_fields [of profile, unfolded hs(1)]
  show ?thesis unfolding buildSheetPlan_def hs(1)
    using fields roles
    by (simp add: Let_def required_fields_def commonRequiredFields_def Field_defs sample_plan_def hs(2))
qed

definition sample_cells :: "string list" where
  "sample_cells = [''note'', ''7700000001'']"

definition sample_workbook :: xlsx_file where
  "sample_workbook =
     \<lparr>xf_size = Inr 1000,
      xf_zip = Inr [\<lparr>ze_Name = ''[Content_Types].xml'', ze_encrypted = False, ze_symlink = False, ze_size = 100\<rparr>,
                    \<lparr>ze_Name = ''xl/workbook.xml'', ze_encrypted = False, ze_symlink = False, ze_size = 100\<rparr>],
      xf_workbook = Inr [SheetA, SheetB, SheetV, SheetP, SheetS],
      xf_rows = (\<lambda>_. Inr \<lparr>it_rows = [Inr sample_headers, Inr sample_cells], it_error = None\<rparr>)\<rparr>"

definition sample_workbook_plan :: WorkbookPlan where
  "sample_workbook_plan =
     [sample_plan SheetA 1, sample_plan SheetB 2, sample_plan SheetV 3, sample_plan SheetP 4, sample_plan SheetS 5]"

lemma sample_archive: "validateArchive DefaultLimits sample_workbook = Inr ()"
  by code_simp

lemma sample_profiles:
  "map (profileForSheet sample_unicode) [SheetA, SheetB, SheetV, SheetP, SheetS]
     = map Some [SheetA, SheetB, SheetV, SheetP, SheetS]"
  by code_simp

lemma sample_cell_limits:
  "\<not> anyCellTooLong sample_headers (MaxCellBytes DefaultLimits)" "\<not> anyCellTooLong sample_cells (MaxCellBytes DefaultLimits)"
  by code_simp+

lemma sample_cells_trim: "TrimSpace ''note'' = ''note''" "TrimSpace ''7700000001'' = ''7700000001''" "TrimSpace ''x'' = ''x''"
  by (rule TrimSpace_solid; simp add: solid_def byte_def)+

lemma sample_headers_hd: "sample_headers = ''x'' # tl sample_headers" "length sample_headers = 13"
  by (simp_all add: sample_headers_def bytes_def char_of_eq_iff)

lemma sample_not_empty: "\<not> emptyCells sample_headers" "\<not> emptyCells sample_cells"
  by (subst sample_headers_hd) (simp_all add: emptyCells_def sample_cells_def sample_cells_trim)

lemma sample_classified: "firstUnclassifiedNonEmpty (sample_plan p i) sample_cells = -1"
  by (simp add: firstUnclassifiedNonEmpty_def sample_plan_def sample_cells_def)

lemma sample_scan:
  assumes "profileForSheet sample_unicode name = Some name" "rows \<le> 100" "cells \<le> 1000"
  shows "scan_sheet sample_unicode no_cancel DefaultLimits sample_workbook i name rows cells
    = Inr (\<lparr>sc_rowsSeen = rows + 2, sc_cellsSeen = cells + 15, sc_discovered = Some (sample_plan name (i + 1)),
            sc_hasData = True, sc_hasAnyValue = True\<rparr>, Some (sample_plan name (i + 1)))"
proof -
  have lim: "MaxCells DefaultLimits = 5000000" "MaxRows DefaultLimits = 200000" "MaxHeaderRows DefaultLimits = 20"
    by (simp_all add: DefaultLimits_def)
  have hr: "sp_HeaderRow (sample_plan name (i + 1)) = 1" by (simp add: sample_plan_def)
  have len: "length sample_cells = 2" by (simp add: sample_cells_def)
  show ?thesis using assms(2,3)
    by (simp add: scan_sheet_def assms(1) sample_workbook_def no_cancel_def scan_row_def sample_headers_hd(2)
        sample_not_empty sample_cell_limits sample_classified sample_build sheet_result_def lim hr len Let_def)
qed

lemma sample_preflight: "Preflight sample_unicode no_cancel DefaultLimits sample_workbook = Inr sample_workbook_plan"
proof -
  have prof: "profileForSheet sample_unicode s = Some s" if "s \<in> set [SheetA, SheetB, SheetV, SheetP, SheetS]" for s
    using sample_profiles that by auto
  have dist: "distinct [SheetA, SheetB, SheetV, SheetP, SheetS]" by code_simp
  then have ne: "SheetB \<noteq> SheetA" "SheetV \<noteq> SheetA" "SheetP \<noteq> SheetA" "SheetS \<noteq> SheetA" "SheetV \<noteq> SheetB"
    "SheetP \<noteq> SheetB" "SheetS \<noteq> SheetB" "SheetP \<noteq> SheetV" "SheetS \<noteq> SheetV" "SheetS \<noteq> SheetP" by auto
  have wb: "xf_workbook sample_workbook = Inr [SheetA, SheetB, SheetV, SheetP, SheetS]" by (simp add: sample_workbook_def)
  have nc: "no_cancel a b = None" for a b by (simp add: no_cancel_def)
  show ?thesis
    by (simp add: Preflight_def ne sample_archive wb nc DefaultLimits_def [THEN arg_cong [of _ _ MaxSheets], simplified]
        prof sample_scan option_list_def sample_workbook_plan_def Let_def)
qed

definition sample_stored :: storedSheetPlan where
  "sample_stored =
     \<lparr>ss_Version = 1, ss_HeaderRow = 1, ss_Fields = sp_HeaderMap (sample_plan SheetA 1),
      ss_ExtraFields = [(0, ''x'')], ss_SecretColumns = []\<rparr>"

text \<open>An encoder that knows this one value, by its JSON text.\<close>

definition sample_stored_text :: string where
  "sample_stored_text =
     ''{\"version\":1,\"header_row\":1,\"fields\":{\"1\":\"inn\",\"10\":\"employer\",\"11\":\"program\",\"12\":\"source_reference\",\"2\":\"full_name\",\"3\":\"position\",\"4\":\"snils\",\"5\":\"protocol_number\",\"6\":\"protocol_date\",\"7\":\"assessment_result\",\"8\":\"training_period\",\"9\":\"mintrud_registry_number\"},\"extra_fields\":{\"0\":\"x\"}}''"

definition sample_plan_json :: plan_json where
  "sample_plan_json =
     \<lparr>pj_Marshal = (\<lambda>stored. if stored = sample_stored then Inr sample_stored_text else Inl ''unsupported value''),
      pj_Decode = (\<lambda>text. if text = sample_stored_text then Inr (sample_stored, False) else Inl ''unexpected end of JSON input'')\<rparr>"

lemma sample_plan_json_laws: "plan_json_laws sample_plan_json"
  by (simp add: plan_json_laws_def sample_plan_json_def)

lemma sample_plan_ok: "plan_ok sample_unicode (sample_plan p i)"
proof -
  have "\<not> isSecretHeader sample_unicode ''x''"
    using sample_header_roles [of "''x''"] sample_headers_hd(1) by (metis list.set_intros(1))
  then show ?thesis by (simp add: plan_ok_def sample_plan_def Field_defs)
qed

lemma sample_encode:
  assumes "p \<in> {SheetA, SheetB, SheetV, SheetP, SheetS}" "0 < i"
  shows "EncodeSheetPlan sample_unicode sample_plan_json (sample_plan p i) = Inr sample_stored_text"
proof -
  have x: "normalizeLabel sample_unicode ''x'' = ''x''" "\<not> isSecretHeader sample_unicode ''x''"
    using sample_header_roles [of "''x''"] sample_headers_hd(1) by (metis list.set_intros(1))+
  have "list_all (\<lambda>s. TrimSpace s \<noteq> '''') [SheetA, SheetB, SheetV, SheetP, SheetS]" by code_simp
  then have trim: "TrimSpace p \<noteq> ''''" using assms(1) by auto
  have prof: "profileForSheet sample_unicode p = Some p" using sample_profiles assms(1) by auto
  have "validateStoredSheetPlan sample_unicode p i p sample_stored = Inr ()"
    unfolding validateStoredSheetPlan_Inr using assms(2) trim prof x
    by (simp add: sample_stored_def storedSheetPlanVersion_def sample_plan_def validStoredField_def Field_defs
        sample_cells_trim)
  then show ?thesis
    by (simp add: EncodeSheetPlan_def sample_plan_json_def sample_stored_def sample_plan_def storedSheetPlanVersion_def)
qed

subsection \<open>A sheet with a secret column\<close>

definition sample_legacy_env :: legacy_env where
  "sample_legacy_env =
     \<lparr>lv_unicode = sample_unicode, lv_marshal_row = (\<lambda>_. Inr ''{}''), lv_sha256 = (\<lambda>_. replicate 32 CHR ''a'')\<rparr>"

lemma sample_marshals: "marshals sample_legacy_env"
  by (simp add: marshals_def sample_legacy_env_def)

definition secret_sheet :: SheetPlan where
  "secret_sheet =
     \<lparr>sp_Name = SheetA, sp_Order = 1, sp_Profile = SheetA, sp_HeaderRow = 1, sp_HeaderMap = [(0, FieldINN)],
      sp_ExtraNames = [], sp_secretColumns = [1]\<rparr>"

definition secret_file :: "string \<Rightarrow> xlsx_file" where
  "secret_file password = sample_workbook\<lparr>xf_rows := (\<lambda>_. Inr \<lparr>it_rows = [Inr [''INN'', ''password''],
     Inr [''7700000001'', password]], it_error = None\<rparr>)\<rparr>"

definition secret_row :: SourceRow where
  "secret_row = (empty_row SheetA SheetA 2)
     \<lparr>sr_INN := ''7700000001'', sr_SourceFingerprintSHA256 := EncodeToString (replicate 32 CHR ''a'')\<rparr>"

lemma secret_parse:
  assumes "length password \<le> 100" "TrimSpace password = password"
  shows "Parse sample_legacy_env no_cancel (secret_file password) [secret_sheet] DefaultLimits collect []
    = (None, \<lparr>ps_Rows = 1, ps_Cells = 4\<rparr>, [secret_row])"
proof -
  have lim: "MaxCells DefaultLimits = 5000000" "MaxRows DefaultLimits = 200000" "MaxCellBytes DefaultLimits = 32768"
    by (simp_all add: DefaultLimits_def)
  have inn: "setSourceField row FieldINN v = row\<lparr>sr_INN := v\<rparr>" for row v by (simp add: setSourceField_def Field_defs)
  show ?thesis using assms
    by (simp add: Parse_def secret_file_def sample_workbook_def no_cancel_def secret_sheet_def row_action_def lim
        anyCellTooLong_def emptyCells_def firstUnclassifiedNonEmpty_def extractSourceRow_def fingerprintSourceRow_def
        sample_legacy_env_def sourceRowEmpty_def secret_row_def collect_def sample_cells_trim inn Let_def)
qed

end
