(* ===== verification/LegacyProps.thy ===== *)
theory LegacyProps
  imports LegacySamples
begin




text \<open>
  Storing the plan of a sheet and reading it back gives the same plan, secret columns included;
  and whatever text is stored, a plan that is read back has the identity asked for, gives every
  column at most one role and has no secret header among its extra columns.
\<close>

theorem sheet_plan_round_trip:
  assumes "plan_json_laws pj"
  shows "(plan_ok u plan \<and> EncodeSheetPlan u pj plan = Inr text
      \<longrightarrow> DecodeSheetPlan u pj (sp_Name plan) (sp_Order plan) (sp_Profile plan) text = Inr plan)
    \<and> (DecodeSheetPlan u pj name order profile stored_text = Inr restored
      \<longrightarrow> sp_Name restored = name \<and> sp_Order restored = order \<and> sp_Profile restored = profile
        \<and> distinct (map fst (sp_HeaderMap restored) @ map fst (sp_ExtraNames restored) @ sp_secretColumns restored)
        \<and> (\<forall>(c, n) \<in> set (sp_ExtraNames restored). \<not> isSecretHeader u n))"
  using plan_restored [OF assms] DecodeSheetPlan_Inr [of u pj name order profile stored_text restored] by simp

theorem sheet_plan_round_trip_witness:
  "DecodeSheetPlan sample_unicode sample_plan_json SheetV 3 SheetV sample_stored_text = Inr (sample_plan SheetV 3)"
  using sheet_plan_round_trip [OF sample_plan_json_laws, of sample_unicode "sample_plan SheetV 3" sample_stored_text
      SheetV 3 SheetV sample_stored_text "sample_plan SheetV 3"]
    sample_plan_ok [of SheetV 3] sample_encode [of SheetV 3]
  by (simp add: sample_plan_def)

text \<open>
  C22. Streaming a workbook into any sink is feeding it the list of rows the workbook emits: the
  parser stops with the first error of the sink, or ends as it does without one. The rows come sheet
  by sheet in the order of the plan, with ascending row numbers, and a cancelled context cuts the
  list to a prefix.
\<close>

theorem Parse_feeds_rows:
  fixes sink :: "('s, 'e) sink"
  assumes "Parse env ctx file plan limits (collect :: (_, 'e) sink) [] = (stop, stats, rows)"
  shows "(\<forall>s s'. feed sink rows s = (None, s') \<longrightarrow> Parse env ctx file plan limits sink s = (stop, stats, s'))
    \<and> (\<forall>s e s'. feed sink rows s = (Some e, s')
         \<longrightarrow> (\<exists>st. Parse env ctx file plan limits sink s = (Some (StopSink e), st, s')))
    \<and> blocks plan rows
    \<and> cut_short (stop, stats, rows) (Parse env no_cancel file plan limits (collect :: (_, 'e) sink) [])"
proof -
  have em: "(emitted env ctx file plan limits :: 'e stop option \<times> _) = (stop, stats, rows)"
    using assms by (simp add: emitted_def)
  from Parse_emitted [OF em, of sink]
  have "blocks plan rows" and str: "streams (Parse env ctx file plan limits sink) sink rows stop stats" by blast+
  moreover have "cut_short (stop, stats, rows) (Parse env no_cancel file plan limits (collect :: (_, 'e) sink) [])"
    using emitted_cut [of env ctx "file" plan limits, where 'e = 'e] em by (simp add: emitted_def)
  ultimately show ?thesis using streams_None [OF str] streams_Some [OF str] by blast
qed

theorem Parse_feeds_rows_witness:
  "\<exists>stats. Parse sample_legacy_env no_cancel (secret_file ''first'') [secret_sheet] DefaultLimits
     (\<lambda>r n. if n < (1 :: nat) then (None, n + 1) else (Some ''full'', n)) 1 = (Some (StopSink ''full''), stats, 1)"
proof -
  have "Parse sample_legacy_env no_cancel (secret_file ''first'') [secret_sheet] DefaultLimits (collect :: (_, string) sink) []
    = (None, \<lparr>ps_Rows = 1, ps_Cells = 4\<rparr>, [secret_row])"
    by (rule secret_parse) (auto intro: TrimSpace_solid simp: solid_def byte_def)
  from Parse_feeds_rows [OF this, of "\<lambda>r n. if n < (1 :: nat) then (None, n + 1) else (Some ''full'', n)"]
  show ?thesis by simp
qed



end
