(* ===== verification/FileStore.thy ===== *)
theory FileStore
  imports GoURL GoNet Schema
begin

text \<open>
  The private upload store (\<^verbatim>\<open>imports/file_store.go\<close>, \<^verbatim>\<open>imports/errors.go\<close>): saving an upload under an
  opaque random token while hashing it and enforcing its limit, resolving a token, and deleting.

  The directory is a map from paths to nodes. What the operating system may refuse, the reader of
  the upload and the context are parameters: a reader is a step function on a state of its own, a
  write gives the number of bytes it wrote and its error.
\<close>

datatype ErrorCode = InvalidInput | FileTooLarge | NotXLSX | UnsupportedWorkbook | DuplicateFile | QueueFull
  | IdempotencyConflict | StorageUnavailable | InternalError

text \<open>A wrapped cause, as far as \<open>errors.Is\<close> and \<open>errors.As\<close> of the package tell causes apart.\<close>

datatype go_cause = MaxBytesError | ExtraMultipartPart | IoEOF | UnexpectedEOF | OtherCause string

record ServiceError =
  se_Code :: ErrorCode
  se_Detail :: string
  se_ExistingImportID :: int
  se_Err :: "go_cause option"

definition service_error :: "ErrorCode \<Rightarrow> string \<Rightarrow> ServiceError" where
  "service_error code det = \<lparr>se_Code = code, se_Detail = det, se_ExistingImportID = 0, se_Err = None\<rparr>"

definition caused_error :: "ErrorCode \<Rightarrow> string \<Rightarrow> go_cause \<Rightarrow> ServiceError" where
  "caused_error code det cause = (service_error code det)\<lparr>se_Err := Some cause\<rparr>"

text \<open>An error value of the package: the error of the context, or a \<open>ServiceError\<close>.\<close>

datatype import_error = CtxErr string | Svc ServiceError

definition storageFailure :: "string \<Rightarrow> go_cause option \<Rightarrow> import_error" where
  "storageFailure det cause = Svc ((service_error StorageUnavailable det)\<lparr>se_Err := cause\<rparr>)"

record StoredFile =
  sf_Token :: string
  sf_Path :: string
  sf_SHA256 :: string
  sf_Size :: int

datatype fnode = Regular string | OtherNode

type_synonym disk = "string \<rightharpoonup> fnode"

record os =
  os_random :: "(go_cause, string) result"
  os_open_err :: "string \<Rightarrow> string option"
  os_sync_err :: "string \<Rightarrow> string option"
  os_close_err :: "string \<Rightarrow> string option"
  os_remove_err :: "string \<Rightarrow> string option"
  os_lstat_err :: "string \<Rightarrow> string option"
  os_sha256 :: "string \<Rightarrow> string"

datatype read_err = EOF | ReadFailed go_cause

text \<open>The source and the destination of a copy; \<open>cp_ctx\<close> is asked twice in each round.\<close>

record 'r copy_env =
  cp_ctx :: "nat \<Rightarrow> bool \<Rightarrow> string option"
  cp_read :: "'r \<Rightarrow> int \<Rightarrow> (string \<times> read_err option) \<times> 'r"
  cp_write :: "nat \<Rightarrow> string \<Rightarrow> nat \<times> string option"

subsection \<open>Tokens\<close>

definition uploadSuffix :: string where
  "uploadSuffix = ''.upload''"

definition validFileToken :: "string \<Rightarrow> bool" where
  "validFileToken token =
     (length token = 64
      \<and> list_all (\<lambda>(r, b). 48 \<le> r \<and> r \<le> 57 \<or> 97 \<le> r \<and> r \<le> 102) (rune_slices token))"

definition pathForToken :: "string \<Rightarrow> string \<Rightarrow> (import_error, string) result" where
  "pathForToken root token =
     (if \<not> validFileToken token then Inl (Svc (service_error InvalidInput ''temporary file token is invalid''))
      else Inr (path_Clean (root @ ''/'' @ token @ uploadSuffix)))"

text \<open>\<open>os_random\<close> are the bytes \<open>io.ReadFull\<close> reads from the random source.\<close>

definition randomHexToken :: "os \<Rightarrow> (go_cause, string) result" where
  "randomHexToken sys = (case os_random sys of Inl e \<Rightarrow> Inl e | Inr buffer \<Rightarrow> Inr (EncodeToString buffer))"

subsection \<open>The copy loop\<close>

text \<open>
  The round \<open>k\<close> of \<open>copyWithContextAndLimit\<close>: \<open>content\<close> is what the destination holds. A round that
  goes on wrote at least one byte, or is one of at most a hundred empty reads in a row.
\<close>

function copy_loop ::
  "'r copy_env \<Rightarrow> int \<Rightarrow> nat \<Rightarrow> int \<Rightarrow> nat \<Rightarrow> 'r \<Rightarrow> string \<Rightarrow> (import_error, int) result \<times> string \<times> 'r" where
  "copy_loop env maxBytes k written emptyReads r content =
     (case cp_ctx env k False of
        Some e \<Rightarrow> (Inl (CtxErr e), content, r)
      | None \<Rightarrow>
          let remainingWithSentinel = maxBytes - written + 1;
              readSize = (if remainingWithSentinel < 32768 then remainingWithSentinel else 32768);
              ((chunk, readErr), r) = cp_read env r readSize
          in if chunk \<noteq> []
             then if written + int (length chunk) > maxBytes
               then (Inl (Svc (service_error FileTooLarge ''upload exceeds maximum size'')), content, r)
               else case cp_ctx env k True of
                 Some e \<Rightarrow> (Inl (CtxErr e), content, r)
               | None \<Rightarrow>
                   let (count, writeErr) = cp_write env k chunk;
                       content = content @ take count chunk
                   in if writeErr \<noteq> None
                      then (Inl (storageFailure ''temporary file cannot be written'' (map_option OtherCause writeErr)), content, r)
                      else if count \<noteq> length chunk
                      then (Inl (storageFailure ''temporary file write was incomplete'' (Some (OtherCause ''short write''))), content, r)
                      else (case readErr of
                              None \<Rightarrow> copy_loop env maxBytes (k + 1) (written + int count) 0 r content
                            | Some EOF \<Rightarrow> (Inr (written + int count), content, r)
                            | Some (ReadFailed e) \<Rightarrow>
                                (Inl (Svc (caused_error InvalidInput ''upload stream cannot be read'' e)), content, r))
             else (case readErr of
                     None \<Rightarrow>
                       if emptyReads + 1 \<ge> 100
                       then (Inl (Svc (caused_error InvalidInput ''upload stream made no progress''
                               (OtherCause ''multiple Read calls return no data or error''))), content, r)
                       else copy_loop env maxBytes (k + 1) written (emptyReads + 1) r content
                   | Some EOF \<Rightarrow> (Inr written, content, r)
                   | Some (ReadFailed e) \<Rightarrow>
                       (Inl (Svc (caused_error InvalidInput ''upload stream cannot be read'' e)), content, r)))"
  by pat_completeness auto
termination
  by (relation "measures [\<lambda>(env, maxBytes, k, written, emptyReads, r, content). nat (maxBytes - written),
                          \<lambda>(env, maxBytes, k, written, emptyReads, r, content). 100 - emptyReads]")
    (auto simp: neq_Nil_conv)

declare copy_loop.simps [simp del]

definition copyWithContextAndLimit ::
  "'r copy_env \<Rightarrow> int \<Rightarrow> 'r \<Rightarrow> (import_error, int) result \<times> string \<times> 'r" where
  "copyWithContextAndLimit env maxBytes r = copy_loop env maxBytes 0 0 0 r []"

subsection \<open>The operations\<close>

definition remove :: "os \<Rightarrow> string \<Rightarrow> disk \<Rightarrow> string option \<times> disk" where
  "remove sys path d =
     (case os_remove_err sys path of
        Some e \<Rightarrow> (Some e, d)
      | None \<Rightarrow> (None, d(path := None)))"

text \<open>
  \<open>Save\<close>; \<open>source\<close> is \<open>None\<close> for a nil reader. On every failure after the file was created the
  deferred function removes it, ignoring the error of that.
\<close>

definition Save ::
  "os \<Rightarrow> string \<Rightarrow> string option \<Rightarrow> 'r copy_env \<Rightarrow> 'r option \<Rightarrow> int \<Rightarrow> disk \<Rightarrow> (import_error, StoredFile) result \<times> disk" where
  "Save sys root ctx env source maxBytes d =
     (case ctx of
        Some e \<Rightarrow> (Inl (CtxErr e), d)
      | None \<Rightarrow>
          (case source of
             None \<Rightarrow> (Inl (Svc (service_error InvalidInput ''upload stream and positive limit are required'')), d)
           | Some r \<Rightarrow>
               if maxBytes \<le> 0
               then (Inl (Svc (service_error InvalidInput ''upload stream and positive limit are required'')), d)
               else case randomHexToken sys of
                 Inl e \<Rightarrow> (Inl (storageFailure ''temporary file token cannot be generated'' (Some e)), d)
               | Inr token \<Rightarrow>
                   (case pathForToken root token of
                      Inl e \<Rightarrow> (Inl e, d)
                    | Inr path \<Rightarrow>
                        if os_open_err sys path \<noteq> None \<or> d path \<noteq> None
                        then (Inl (storageFailure ''temporary file cannot be created''
                                (Some (OtherCause (case os_open_err sys path of None \<Rightarrow> ''file exists'' | Some e \<Rightarrow> e)))), d)
                        else
                          (let (res, content, r) = copyWithContextAndLimit env maxBytes r;
                               d' = d(path \<mapsto> Regular content);
                               undone = snd (remove sys path d')
                           in case res of
                                Inl e \<Rightarrow> (Inl e, undone)
                              | Inr written \<Rightarrow>
                                  if os_sync_err sys path \<noteq> None
                                  then (Inl (storageFailure ''temporary file cannot be synchronized''
                                               (map_option OtherCause (os_sync_err sys path))), undone)
                                  else if os_close_err sys path \<noteq> None
                                  then (Inl (storageFailure ''temporary file cannot be closed''
                                               (map_option OtherCause (os_close_err sys path))), undone)
                                  else (Inr \<lparr>sf_Token = token, sf_Path = path,
                                             sf_SHA256 = EncodeToString (os_sha256 sys content), sf_Size = written\<rparr>,
                                        d')))))"

definition Path :: "os \<Rightarrow> string \<Rightarrow> string \<Rightarrow> disk \<Rightarrow> (import_error, string) result" where
  "Path sys root token d =
     (case pathForToken root token of
        Inl e \<Rightarrow> Inl e
      | Inr path \<Rightarrow>
          (case (os_lstat_err sys path, d path) of
             (None, Some (Regular _)) \<Rightarrow> Inr path
           | (None, Some OtherNode) \<Rightarrow> Inl (storageFailure ''temporary file must be a regular file'' None)
           | (None, None) \<Rightarrow>
               Inl (storageFailure ''temporary file is unavailable'' (Some (OtherCause ''no such file or directory'')))
           | (Some e, _) \<Rightarrow> Inl (storageFailure ''temporary file is unavailable'' (Some (OtherCause e)))))"

definition Delete :: "os \<Rightarrow> string \<Rightarrow> string \<Rightarrow> disk \<Rightarrow> import_error option \<times> disk" where
  "Delete sys root token d =
     (case pathForToken root token of
        Inl e \<Rightarrow> (Some e, d)
      | Inr path \<Rightarrow>
          (case remove sys path d of
             (Some e, d') \<Rightarrow> (Some (storageFailure ''temporary file cannot be deleted'' (Some (OtherCause e))), d')
           | (None, d') \<Rightarrow> (None, d')))"

subsection \<open>What the copy keeps\<close>

text \<open>
  Whatever the reader and the writer do, the destination never holds more than the limit, and a
  copy that succeeds reports the number of bytes it holds.
\<close>

lemma copy_loop_bound:
  assumes "copy_loop env maxBytes k written er r content = (res, content', r')"
    "written = int (length content)" "written \<le> maxBytes"
  shows "int (length content') \<le> maxBytes \<and> (\<forall>n. res = Inr n \<longrightarrow> n = int (length content'))"
  using assms
proof (induction env maxBytes k written er r content rule: copy_loop.induct)
  case (1 env maxBytes k written er r content)
  obtain chunk readErr r1 where rd: "cp_read env r (if maxBytes - written + 1 < 32768 then maxBytes - written + 1 else 32768)
      = ((chunk, readErr), r1)" by (metis prod.exhaust)
  obtain count writeErr where wr: "cp_write env k chunk = (count, writeErr)" by fastforce
  show ?case
  proof (cases "cp_ctx env k False")
    case (Some e)
    with 1(3-5) show ?thesis by (subst (asm) copy_loop.simps) auto
  next
    case None
    note IH = 1(1) [OF None refl refl rd [symmetric] refl refl] 1(2) [OF None refl refl rd [symmetric] refl refl]
    show ?thesis
    proof (cases "chunk = []")
      case True
      then show ?thesis using 1(3-5) None rd IH(2)
        by (subst (asm) copy_loop.simps) (auto simp: Let_def split: option.splits read_err.splits if_splits)
    next
      case False
      note IH1 = IH(1) [OF False]
      show ?thesis
      proof (cases "written + int (length chunk) > maxBytes \<or> cp_ctx env k True \<noteq> None")
        case True
        with 1(3-5) None rd False show ?thesis
          by (subst (asm) copy_loop.simps) (auto simp: Let_def split: if_splits option.splits)
      next
        case fits: False
        have len: "int (length (content @ take count chunk)) \<le> maxBytes" using 1(4) fits by auto
        show ?thesis
        proof (cases "writeErr = None \<and> count = length chunk \<and> readErr = None")
          case True
          have "copy_loop env maxBytes (k + 1) (written + int count) 0 r1 (content @ take count chunk) = (res, content', r')"
            using 1(3) None rd wr False fits True by (subst (asm) copy_loop.simps) (auto simp: Let_def)
          with IH1 [OF _ _ refl wr [symmetric] refl] True fits 1(4) show ?thesis by auto
        next
          case bad: False
          with 1(3,4) None rd wr False fits len show ?thesis
            by (subst (asm) copy_loop.simps) (auto simp: Let_def split: option.splits read_err.splits if_splits)
        qed
      qed
    qed
  qed
qed

text \<open>An upload held in memory, read in chunks of the size asked for, and a writer that writes all.\<close>

definition plain_copy :: "string copy_env" where
  "plain_copy =
     \<lparr>cp_ctx = (\<lambda>_ _. None),
      cp_read = (\<lambda>s n. ((take (nat n) s, if s = [] then Some EOF else None), drop (nat n) s)),
      cp_write = (\<lambda>_ chunk. (length chunk, None))\<rparr>"

lemma copy_loop_continue:
  assumes "cp_ctx env k False = None" "cp_ctx env k True = None"
    "cp_read env r (if maxBytes - written + 1 < 32768 then maxBytes - written + 1 else 32768) = ((chunk, None), r1)"
    "chunk \<noteq> []" "\<not> written + int (length chunk) > maxBytes" "cp_write env k chunk = (length chunk, None)"
  shows "copy_loop env maxBytes k written er r content
    = copy_loop env maxBytes (k + 1) (written + int (length chunk)) 0 r1 (content @ chunk)"
  using assms by (subst copy_loop.simps) (simp add: Let_def)

lemma copy_loop_too_large:
  assumes "cp_ctx env k False = None"
    "cp_read env r (if maxBytes - written + 1 < 32768 then maxBytes - written + 1 else 32768) = ((chunk, e), r1)"
    "chunk \<noteq> []" "written + int (length chunk) > maxBytes"
  shows "copy_loop env maxBytes k written er r content
    = (Inl (Svc (service_error FileTooLarge ''upload exceeds maximum size'')), content, r1)"
  using assms by (subst copy_loop.simps) (simp add: Let_def)

lemma plain_copy_simps [simp]:
  "cp_ctx plain_copy k b = None" "cp_write plain_copy k c = (length c, None)"
  "cp_read plain_copy s n = ((take (nat n) s, if s = [] then Some EOF else None), drop (nat n) s)"
  by (simp_all add: plain_copy_def)

lemma copy_plain:
  assumes "int (length content) \<le> maxBytes"
  shows "if int (length content) + int (length r) \<le> maxBytes
    then copy_loop plain_copy maxBytes k (int (length content)) er r content
      = (Inr (int (length content) + int (length r)), content @ r, [])
    else \<exists>content' r'. copy_loop plain_copy maxBytes k (int (length content)) er r content
      = (Inl (Svc (service_error FileTooLarge ''upload exceeds maximum size'')), content', r')"
  using assms
proof (induction "length r" arbitrary: r content k er rule: less_induct)
  case less
  define n where "n = (if maxBytes - int (length content) + 1 < 32768 then maxBytes - int (length content) + 1 else 32768)"
  have pos: "0 < n" using less.prems by (auto simp: n_def)
  define chunk rest where "chunk = take (nat n) r" and "rest = drop (nat n) r"
  have r: "r = chunk @ rest" by (simp add: chunk_def rest_def)
  show ?case
  proof (cases "r = []")
    case True
    then show ?thesis using less.prems by (subst copy_loop.simps) (simp add: Let_def)
  next
    case False
    then have ne: "chunk \<noteq> []" and shorter: "length rest < length r" using pos by (auto simp: chunk_def rest_def)
    have rd: "cp_read plain_copy r (if maxBytes - int (length content) + 1 < 32768 then maxBytes - int (length content) + 1 else 32768)
        = ((chunk, None), rest)" unfolding n_def [symmetric] using False by (simp add: chunk_def rest_def)
    show ?thesis
    proof (cases "int (length content) + int (length chunk) > maxBytes")
      case True
      then have "\<not> int (length content) + int (length r) \<le> maxBytes" by (simp add: r)
      moreover have "copy_loop plain_copy maxBytes k (int (length content)) er r content
        = (Inl (Svc (service_error FileTooLarge ''upload exceeds maximum size'')), content, rest)"
        by (rule copy_loop_too_large [OF _ rd ne True]) simp
      ultimately show ?thesis by simp
    next
      case fits: False
      have step: "copy_loop plain_copy maxBytes k (int (length content)) er r content
        = copy_loop plain_copy maxBytes (k + 1) (int (length (content @ chunk))) 0 rest (content @ chunk)"
        using copy_loop_continue [OF _ _ rd ne fits] by simp
      have le: "int (length (content @ chunk)) \<le> maxBytes" using fits by simp
      show ?thesis unfolding step
        using less.hyps [OF shorter le, of "k + 1" 0]
        by (cases "int (length content) + int (length r) \<le> maxBytes") (simp_all add: r add.assoc)
    qed
  qed
qed

subsection \<open>The interface the services rely on\<close>

record ('b, 'd) FileStore =
  fs_Save :: "'b option \<Rightarrow> int \<Rightarrow> 'd \<Rightarrow> (import_error, StoredFile) result \<times> 'd"
  fs_Path :: "string \<Rightarrow> 'd \<Rightarrow> (import_error, string) result"
  fs_Delete :: "string \<Rightarrow> 'd \<Rightarrow> import_error option \<times> 'd"

text \<open>
  The promises of a store: \<open>files\<close> is its contents by path, \<open>path_of\<close> the path of a token, \<open>digest\<close> the
  hexadecimal digest, and \<open>cleans\<close> says that removing a file never fails.
\<close>

locale file_store =
  fixes fs :: "('b, 'd) FileStore" and files :: "'d \<Rightarrow> string \<Rightarrow> string option"
    and path_of :: "string \<Rightarrow> string" and digest :: "string \<Rightarrow> string" and cleans :: bool
  assumes save_Inr: "fs_Save fs b m d = (Inr f, d') \<Longrightarrow>
      validFileToken (sf_Token f) \<and> sf_Path f = path_of (sf_Token f) \<and> files d (sf_Path f) = None
      \<and> (\<exists>c. files d' = (files d)(sf_Path f \<mapsto> c) \<and> sf_SHA256 f = digest c
             \<and> sf_Size f = int (length c) \<and> int (length c) \<le> m)"
    and save_Inl: "fs_Save fs b m d = (Inl e, d') \<Longrightarrow> cleans \<Longrightarrow> files d' = files d"
    and path_Inr: "fs_Path fs t d = Inr p \<Longrightarrow> p = path_of t \<and> files d p \<noteq> None"
    and delete_None: "fs_Delete fs t d = (None, d') \<Longrightarrow> files d' = (files d)(path_of t := None)"
    and delete_Some: "fs_Delete fs t d = (Some e, d') \<Longrightarrow> files d' = files d"
    and delete_cleans: "validFileToken t \<Longrightarrow> cleans \<Longrightarrow> fst (fs_Delete fs t d) = None"
begin

lemma save_then_delete:
  assumes "fs_Save fs b m d = (Inr f, d')" "cleans"
  shows "files (snd (fs_Delete fs (sf_Token f) d')) = files d"
proof -
  from save_Inr [OF assms(1)] obtain c where f: "validFileToken (sf_Token f)" "sf_Path f = path_of (sf_Token f)"
    "files d (sf_Path f) = None" "files d' = (files d)(sf_Path f \<mapsto> c)" by blast
  obtain d'' where "fs_Delete fs (sf_Token f) d' = (None, d'')"
    using delete_cleans [OF f(1) assms(2), of d'] by (cases "fs_Delete fs (sf_Token f) d'") auto
  with delete_None [OF this] f show ?thesis by (auto simp: fun_eq_iff)
qed

end

definition local_store ::
  "os \<Rightarrow> string \<Rightarrow> string option \<Rightarrow> 'r copy_env \<Rightarrow> ('r, disk) FileStore" where
  "local_store sys root ctx env =
     \<lparr>fs_Save = Save sys root ctx env, fs_Path = Path sys root, fs_Delete = Delete sys root\<rparr>"

definition local_files :: "disk \<Rightarrow> string \<Rightarrow> string option" where
  "local_files d p = (case d p of Some (Regular c) \<Rightarrow> Some c | _ \<Rightarrow> None)"

definition local_path :: "string \<Rightarrow> string \<Rightarrow> string" where
  "local_path root token = path_Clean (root @ ''/'' @ token @ uploadSuffix)"

lemma local_files_upd: "local_files (d(p \<mapsto> Regular c)) = (local_files d)(p \<mapsto> c)" "local_files (d(p := None)) = (local_files d)(p := None)"
  by (auto simp: local_files_def fun_eq_iff)

lemma pathForToken_Inr: "pathForToken root t = Inr p \<longleftrightarrow> validFileToken t \<and> p = local_path root t"
  by (auto simp: pathForToken_def local_path_def)

lemma Save_Inr:
  assumes "Save sys root ctx env source m d = (Inr f, d')"
  shows "validFileToken (sf_Token f) \<and> sf_Path f = local_path root (sf_Token f) \<and> local_files d (sf_Path f) = None
    \<and> (\<exists>c. local_files d' = (local_files d)(sf_Path f \<mapsto> c) \<and> sf_SHA256 f = EncodeToString (os_sha256 sys c)
           \<and> sf_Size f = int (length c) \<and> int (length c) \<le> m)"
proof -
  from assms obtain r token path content r' written
    where s: "source = Some r" "0 < m" "pathForToken root token = Inr path" "d path = None"
      "copyWithContextAndLimit env m r = (Inr written, content, r')" "d' = d(path \<mapsto> Regular content)"
      "f = \<lparr>sf_Token = token, sf_Path = path, sf_SHA256 = EncodeToString (os_sha256 sys content), sf_Size = written\<rparr>"
    by (auto simp: Save_def Let_def split: option.splits if_splits sum.splits prod.splits)
  from copy_loop_bound [OF s(5) [unfolded copyWithContextAndLimit_def]] s(2)
  have "int (length content) \<le> m" "written = int (length content)" by auto
  then show ?thesis using s(3,4,6,7) pathForToken_Inr [of root token path]
    by (auto simp: local_files_upd local_files_def [of d])
qed

lemma Save_Inl:
  assumes "Save sys root ctx env source m d = (Inl e, d')" "\<forall>p. os_remove_err sys p = None"
  shows "d' = d"
  using assms
  by (auto simp: Save_def Let_def remove_def fun_upd_idem split: option.splits if_splits sum.splits prod.splits)

interpretation local: file_store "local_store sys root ctx env" local_files "local_path root"
  "\<lambda>c. EncodeToString (os_sha256 sys c)" "\<forall>p. os_remove_err sys p = None" for sys root ctx env
proof unfold_locales
  fix b m d f d'
  assume "fs_Save (local_store sys root ctx env) b m d = (Inr f, d')"
  then have "Save sys root ctx env b m d = (Inr f, d')" by (simp add: local_store_def)
  from Save_Inr [OF this]
  show "validFileToken (sf_Token f) \<and> sf_Path f = local_path root (sf_Token f) \<and> local_files d (sf_Path f) = None
      \<and> (\<exists>c. local_files d' = (local_files d)(sf_Path f \<mapsto> c) \<and> sf_SHA256 f = EncodeToString (os_sha256 sys c)
             \<and> sf_Size f = int (length c) \<and> int (length c) \<le> m)" .
next
  fix b m d e d'
  assume "fs_Save (local_store sys root ctx env) b m d = (Inl e, d')" "\<forall>p. os_remove_err sys p = None"
  then have "d' = d" by (auto simp: local_store_def dest: Save_Inl)
  then show "local_files d' = local_files d" by simp
next
  fix t d p
  assume "fs_Path (local_store sys root ctx env) t d = Inr p"
  then show "p = local_path root t \<and> local_files d p \<noteq> None"
    by (auto simp: local_store_def Path_def pathForToken_Inr local_files_def split: sum.splits option.splits fnode.splits)
next
  fix t d d'
  assume "fs_Delete (local_store sys root ctx env) t d = (None, d')"
  then show "local_files d' = (local_files d)(local_path root t := None)"
    by (auto simp: local_store_def Delete_def pathForToken_Inr remove_def local_files_upd split: sum.splits prod.splits option.splits)
next
  fix t d e d'
  assume "fs_Delete (local_store sys root ctx env) t d = (Some e, d')"
  then show "local_files d' = local_files d"
    by (auto simp: local_store_def Delete_def remove_def split: sum.splits prod.splits option.splits)
next
  fix t d
  assume "validFileToken t" "\<forall>p. os_remove_err sys p = None"
  then show "fst (fs_Delete (local_store sys root ctx env) t d) = None"
    by (simp add: local_store_def Delete_def pathForToken_def remove_def)
qed

end
