(* ===== verification/ImportService.thy ===== *)
theory ImportService
  imports FileStore PlanCodec Services
begin

text \<open>
  Queueing an uploaded legacy workbook (\<^verbatim>\<open>imports/service.go\<close>, the types of \<^verbatim>\<open>imports/types.go\<close>): the
  validation of the metadata, the idempotency key, storing and inspecting the file, and the
  transaction that inserts the import and the plans of its sheets.

  The clock gives the time of the \<open>k\<close>-th reading in nanoseconds, with the RFC 3339 text of a time and
  its parser. A failing \<open>BeginTx\<close>, \<open>Rollback\<close> or \<open>Commit\<close> is a parameter, and so is the workbook the
  spreadsheet library sees at a path. The mutex of the queue is the sequence of the calls.
\<close>

record clock =
  tm_now :: "nat \<Rightarrow> int"
  tm_format :: "int \<Rightarrow> string"
  tm_parse :: "string \<Rightarrow> int option"

record Config =
  cf_ActiveQueueLimit :: int
  cf_FileTTL :: int
  cf_LegacyLimits :: Limits

definition DefaultConfig :: Config where
  "DefaultConfig = \<lparr>cf_ActiveQueueLimit = 5, cf_FileTTL = 24 * 3600 * 10 ^ 9, cf_LegacyLimits = DefaultLimits\<rparr>"

record 'b EnqueueInput =
  ei_OriginalFileName :: string
  ei_IdempotencyKey :: string
  ei_Actor :: string
  ei_Body :: "'b option"

record EnqueueResult =
  er_Import :: Import
  er_QueuePosition :: int
  er_Reused :: bool

record 'd import_env =
  iv_ctx :: env
  iv_cancel :: ctx
  iv_unicode :: unicode
  iv_json :: plan_json
  iv_clock :: clock
  iv_config :: Config
  iv_begin_err :: "string option"
  iv_rollback_err :: "string option"
  iv_commit_err :: "string option"
  iv_xlsx :: "'d \<Rightarrow> string \<Rightarrow> xlsx_file"

definition legacyProfile :: string where
  "legacyProfile = ''legacy_registry''"

definition inputServiceError :: "string \<Rightarrow> ServiceError" where
  "inputServiceError det = service_error InvalidInput det"

definition storageServiceError :: "string \<Rightarrow> go_cause \<Rightarrow> ServiceError" where
  "storageServiceError det cause = caused_error StorageUnavailable det cause"

definition db_failure :: "string \<Rightarrow> db_error \<Rightarrow> ServiceError" where
  "db_failure det e = storageServiceError det (OtherCause (error_text e))"

subsection \<open>The metadata\<close>

definition IsControl :: "nat \<Rightarrow> bool" where
  "IsControl r = (r < 32 \<or> 127 \<le> r \<and> r < 160)"

definition containsControl :: "string \<Rightarrow> bool" where
  "containsControl value = list_ex (\<lambda>(r, b). IsControl r) (rune_slices value)"

text \<open>\<open>strings.Map\<close> dropping control characters: a byte that is no UTF-8 becomes U+FFFD.\<close>

definition drop_controls :: "string \<Rightarrow> string" where
  "drop_controls value =
     concat (map (\<lambda>(r, b). if r = rune_error \<and> length b = 1 then bytes [239, 191, 189] else b)
       (filter (\<lambda>(r, b). \<not> IsControl r) (rune_slices value)))"

definition maxFileNameBytes :: nat where
  "maxFileNameBytes = 255"

text \<open>The loop that truncates: whole characters as long as they fit.\<close>

fun truncate_runes :: "(nat \<times> string) list \<Rightarrow> string \<Rightarrow> string" where
  "truncate_runes [] out = out"
| "truncate_runes ((r, b) # rs) out =
     (if length out + length b > maxFileNameBytes then out else truncate_runes rs (out @ b))"

definition sanitizeFileName :: "string \<Rightarrow> string" where
  "sanitizeFileName value =
     (let value = map (\<lambda>c. if byte c = 92 then CHR ''/'' else c) value;
          value = filepath_Base value;
          value = drop_controls value;
          value = TrimSpace value
      in if value = '''' \<or> value = ''.'' then ''upload.xlsx''
         else if length value \<le> maxFileNameBytes then value
         else let truncated = truncate_runes (rune_slices value) []
              in if truncated = '''' then ''upload.xlsx'' else truncated)"

record validatedEnqueueInput =
  vi_fileName :: string
  vi_idempotencyKey :: string
  vi_actor :: string

definition validateEnqueueInput :: "'b EnqueueInput \<Rightarrow> (ServiceError, validatedEnqueueInput) result" where
  "validateEnqueueInput inp =
     (if ei_Body inp = None then Inl (inputServiceError ''file body is required'')
      else let actor = TrimSpace (ei_Actor inp) in
      if actor = '''' \<or> length actor > 200 \<or> containsControl actor
      then Inl (inputServiceError ''valid actor is required'')
      else let key = TrimSpace (ei_IdempotencyKey inp) in
      if length key > 200 \<or> containsControl key
      then Inl (inputServiceError ''invalid idempotency key'')
      else Inr \<lparr>vi_fileName = sanitizeFileName (ei_OriginalFileName inp), vi_idempotencyKey = key, vi_actor = actor\<rparr>)"

text \<open>The settings \<open>NewService\<close> accepts.\<close>

definition validLegacyLimits :: "Limits \<Rightarrow> bool" where
  "validLegacyLimits limits =
     (MaxFileBytes limits > 0 \<and> MaxUncompressedBytes limits > 0 \<and> MaxZIPEntries limits > 0 \<and> MaxSheets limits > 0
      \<and> MaxRows limits > 0 \<and> MaxCells limits > 0 \<and> MaxCellBytes limits > 0 \<and> MaxHeaderRows limits > 0)"

definition validateConfig :: "Config \<Rightarrow> (string, unit) result" where
  "validateConfig config =
     (let limits = cf_LegacyLimits config in
      if cf_ActiveQueueLimit config \<le> 0 then Inl ''active import queue limit must be positive''
      else if cf_FileTTL config \<le> 0 then Inl ''import file TTL must be positive''
      else if MaxFileBytes limits \<le> 0 \<or> MaxUncompressedBytes limits = 0 \<or> MaxZIPEntries limits \<le> 0
         \<or> MaxSheets limits \<le> 0 \<or> MaxRows limits \<le> 0 \<or> MaxCells limits \<le> 0 \<or> MaxCellBytes limits \<le> 0
         \<or> MaxHeaderRows limits \<le> 0
      then Inl ''legacy workbook limits must be positive''
      else Inr ())"

subsection \<open>Errors of the stages\<close>

definition mapPreflightError :: "legacy_error \<Rightarrow> ServiceError" where
  "mapPreflightError err =
     (case err of
        ContextError e \<Rightarrow> caused_error InternalError ''inspect workbook'' (OtherCause e)
      | Coded e \<Rightarrow>
          (let cause = OtherCause (pe_Detail e) in
           case pe_Code e of
             CodeNotXLSX \<Rightarrow> caused_error NotXLSX ''file is not a valid XLSX workbook'' cause
           | CodeWorkbookTooLarge \<Rightarrow> caused_error FileTooLarge ''workbook exceeds configured limits'' cause
           | CodeReadFailed \<Rightarrow> caused_error StorageUnavailable ''cannot inspect stored workbook'' cause
           | _ \<Rightarrow> caused_error UnsupportedWorkbook ''unsupported workbook structure'' cause))"

definition normalizeServiceError :: "import_error \<Rightarrow> ServiceError" where
  "normalizeServiceError err =
     (case err of
        Svc e \<Rightarrow> e
      | CtxErr e \<Rightarrow> storageServiceError ''store upload'' (OtherCause e))"

definition import_error_cause :: "import_error \<Rightarrow> go_cause" where
  "import_error_cause err =
     (case err of
        CtxErr e \<Rightarrow> OtherCause e
      | Svc e \<Rightarrow> (case se_Err e of Some c \<Rightarrow> c | None \<Rightarrow> OtherCause (se_Detail e)))"

subsection \<open>The queue\<close>

definition queuePosition :: "db \<Rightarrow> Import \<Rightarrow> int" where
  "queuePosition d existing =
     (if im_status existing \<noteq> ''queued'' then 0 else q_CountImportsAhead d (im_id existing) + 1)"

definition reuseResult :: "db \<Rightarrow> Import \<Rightarrow> (ServiceError, EnqueueResult) result" where
  "reuseResult d existing =
     (if im_profile existing \<noteq> legacyProfile
      then Inl ((service_error IdempotencyConflict ''idempotency key belongs to another import profile'')
                  \<lparr>se_ExistingImportID := im_id existing\<rparr>)
      else Inr \<lparr>er_Import = existing, er_QueuePosition = queuePosition d existing, er_Reused = True\<rparr>)"

fun insert_sheets ::
  "unicode \<Rightarrow> plan_json \<Rightarrow> int \<Rightarrow> string \<Rightarrow> WorkbookPlan \<Rightarrow> db \<Rightarrow> (ServiceError, db) result" where
  "insert_sheets u pj importID nowText [] d = Inr d"
| "insert_sheets u pj importID nowText (sheet # sheets) d =
     (case EncodeSheetPlan u pj sheet of
        Inl e \<Rightarrow> Inl (caused_error InternalError ''encode workbook structure'' (OtherCause (pe_Detail e)))
      | Inr headerMap \<Rightarrow>
          (case q_CreateImportSheet d importID (sp_Name sheet) (sp_Order sheet) (sp_Profile sheet) headerMap
                  nowText nowText of
             Inl e \<Rightarrow> Inl (db_failure ''create import sheet'' e)
           | Inr (_, d') \<Rightarrow> insert_sheets u pj importID nowText sheets d'))"

text \<open>The inserts of the transaction; every failure rolls it back.\<close>

definition create_queued ::
  "'d import_env \<Rightarrow> nat \<Rightarrow> validatedEnqueueInput \<Rightarrow> StoredFile \<Rightarrow> WorkbookPlan \<Rightarrow> int \<Rightarrow> db
   \<Rightarrow> (ServiceError, EnqueueResult) result \<times> db" where
  "create_queued iv k inp sfile plan active d =
     (let now = tm_now (iv_clock iv) k; nowText = tm_format (iv_clock iv) now in
      case q_CreateImport d legacyProfile (nullableString (vi_fileName inp))
             (nullableString (sf_SHA256 sfile)) (Some (sf_Size sfile))
             (nullableString (vi_idempotencyKey inp)) (vi_actor inp) nowText ''queued'' None
             (nullableString (sf_Token sfile))
             (nullableString (tm_format (iv_clock iv) (now + cf_FileTTL (iv_config iv)))) nowText nowText of
        Inl e \<Rightarrow> (Inl (db_failure ''create queued import'' e), d)
      | Inr (created, d1) \<Rightarrow>
          (case insert_sheets (iv_unicode iv) (iv_json iv) (im_id created) nowText plan d1 of
             Inl e \<Rightarrow> (Inl e, d)
           | Inr d2 \<Rightarrow>
               (case iv_commit_err iv of
                  Some e \<Rightarrow> (Inl (storageServiceError ''commit queued import'' (OtherCause e)), d)
                | None \<Rightarrow> (Inr \<lparr>er_Import = created, er_QueuePosition = active + 1, er_Reused = False\<rparr>, d2))))"

definition insertQueuedImport ::
  "'d import_env \<Rightarrow> nat \<Rightarrow> validatedEnqueueInput \<Rightarrow> StoredFile \<Rightarrow> WorkbookPlan \<Rightarrow> db
   \<Rightarrow> (ServiceError, EnqueueResult) result \<times> db" where
  "insertQueuedImport iv k inp sfile plan d =
     (case iv_begin_err iv of
        Some e \<Rightarrow> (Inl (storageServiceError ''begin import transaction'' (OtherCause e)), d)
      | None \<Rightarrow>
          (case (if vi_idempotencyKey inp = '''' then Inl ErrNoRows
                 else q_GetImportByIdempotencyKey d (nullableString (vi_idempotencyKey inp))) of
             Inr existing \<Rightarrow>
               (case iv_rollback_err iv of
                  Some e \<Rightarrow> (Inl (storageServiceError ''rollback reused import'' (OtherCause e)), d)
                | None \<Rightarrow> (reuseResult d existing, d))
           | Inl (ConstraintFailed v) \<Rightarrow> (Inl (db_failure ''recheck idempotency key'' (ConstraintFailed v)), d)
           | Inl ErrNoRows \<Rightarrow>
               (case q_FindExistingLegacyImportBySHA256 d (nullableString (sf_SHA256 sfile)) of
                  Inr existing \<Rightarrow>
                    (Inl ((service_error DuplicateFile ''workbook was already imported'')
                            \<lparr>se_ExistingImportID := im_id existing\<rparr>), d)
                | Inl (ConstraintFailed v) \<Rightarrow> (Inl (db_failure ''check workbook digest'' (ConstraintFailed v)), d)
                | Inl ErrNoRows \<Rightarrow>
                    (let active = q_CountActiveImports d in
                     if active \<ge> cf_ActiveQueueLimit (iv_config iv)
                     then (Inl (service_error QueueFull ''import queue is full''), d)
                     else create_queued iv k inp sfile plan active d))))"

definition recordEnqueueAudit :: "'d import_env \<Rightarrow> nat \<Rightarrow> EnqueueResult \<Rightarrow> int \<Rightarrow> int \<Rightarrow> string \<Rightarrow> db \<Rightarrow> db" where
  "recordEnqueueAudit iv k res sheetCount sz actor d =
     recordAudit (iv_ctx iv) k
       (entry_by actor ''enqueue'' ''import'' (im_id (er_Import res))
          [(''profile'', JStr legacyProfile), (''size_bytes'', JInt sz), (''sheet_count'', JInt sheetCount),
           (''queue_position'', JInt (er_QueuePosition res))]) d"

text \<open>The deferred deletion, whose error is dropped.\<close>

definition discard :: "('b, 'd) FileStore \<Rightarrow> string \<Rightarrow> 'd \<Rightarrow> 'd" where
  "discard fs token s = snd (fs_Delete fs token s)"

text \<open>What follows once the upload is stored.\<close>

definition enqueue_stored ::
  "'d import_env \<Rightarrow> ('b, 'd) FileStore \<Rightarrow> nat \<Rightarrow> validatedEnqueueInput \<Rightarrow> StoredFile \<Rightarrow> db \<Rightarrow> 'd
   \<Rightarrow> (ServiceError, EnqueueResult) result \<times> db \<times> 'd" where
  "enqueue_stored iv fs k valid sfile d s =
     (case fs_Path fs (sf_Token sfile) s of
        Inl e \<Rightarrow> (Inl (storageServiceError ''open stored upload'' (import_error_cause e)), d,
                  discard fs (sf_Token sfile) s)
      | Inr storedPath \<Rightarrow>
          (case Preflight (iv_unicode iv) (iv_cancel iv) (cf_LegacyLimits (iv_config iv)) (iv_xlsx iv s storedPath) of
             Inl e \<Rightarrow> (Inl (mapPreflightError e), d, discard fs (sf_Token sfile) s)
           | Inr plan \<Rightarrow>
               (case insertQueuedImport iv k valid sfile plan d of
                  (Inl e, d') \<Rightarrow> (Inl e, d', discard fs (sf_Token sfile) s)
                | (Inr res, d') \<Rightarrow>
                    if er_Reused res then (Inr res, d', discard fs (sf_Token sfile) s)
                    else (Inr res,
                          recordEnqueueAudit iv k res (int (length plan)) (sf_Size sfile) (vi_actor valid) d', s))))"

definition EnqueueLegacy ::
  "'d import_env \<Rightarrow> ('b, 'd) FileStore \<Rightarrow> nat \<Rightarrow> 'b EnqueueInput \<Rightarrow> db \<Rightarrow> 'd
   \<Rightarrow> (ServiceError, EnqueueResult) result \<times> db \<times> 'd" where
  "EnqueueLegacy iv fs k inp d s =
     (case validateEnqueueInput inp of
        Inl e \<Rightarrow> (Inl e, d, s)
      | Inr valid \<Rightarrow>
          (case (if vi_idempotencyKey valid = '''' then Inl ErrNoRows
                 else q_GetImportByIdempotencyKey d (nullableString (vi_idempotencyKey valid))) of
             Inr existing \<Rightarrow> (reuseResult d existing, d, s)
           | Inl (ConstraintFailed v) \<Rightarrow> (Inl (db_failure ''check idempotency key'' (ConstraintFailed v)), d, s)
           | Inl ErrNoRows \<Rightarrow>
               (case fs_Save fs (ei_Body inp) (MaxFileBytes (cf_LegacyLimits (iv_config iv))) s of
                  (Inl e, s') \<Rightarrow> (Inl (normalizeServiceError e), d, s')
                | (Inr sfile, s') \<Rightarrow> enqueue_stored iv fs k valid sfile d s')))"

end
