(* ===== verification/ImportStager.thy ===== *)
theory ImportStager
  imports ImportService LegacyParser
begin

text \<open>
  Staging a claimed workbook (\<^verbatim>\<open>imports/stager.go\<close>, the staging types of \<^verbatim>\<open>imports/types.go\<close>): the
  validation of the claimed import, the verification of its file, loading the checkpoints of its
  sheets, and the walk over the workbook that copies the rows after the checkpoints in batches,
  one transaction each.

  A run has a state of its own: the database, the staged sheets, the sheet the walk is at, the
  pending batch, the total and the number of clock readings so far. Pointers to a sheet are its name,
  the key of the map of sheets. Failing transactions, the cancelled context, the clock, the JSON
  encoders and the reads of the file are parameters.
\<close>

subsection \<open>Types\<close>

record StagingConfig =
  sc_BatchSize :: int
  sc_LeaseDuration :: int
  sc_LegacyLimits :: Limits

definition DefaultStagingConfig :: StagingConfig where
  "DefaultStagingConfig = \<lparr>sc_BatchSize = 250, sc_LeaseDuration = 120 * 10 ^ 9, sc_LegacyLimits = DefaultLimits\<rparr>"

text \<open>The settings \<open>NewStager\<close> accepts.\<close>

definition staging_config_ok :: "StagingConfig \<Rightarrow> (string, unit) result" where
  "staging_config_ok config =
     (if sc_BatchSize config \<le> 0 then Inl ''imports staging batch size must be positive''
      else if sc_LeaseDuration config \<le> 0 then Inl ''imports staging lease duration must be positive''
      else if \<not> validLegacyLimits (sc_LegacyLimits config)
      then Inl ''imports staging workbook limits must be positive''
      else Inr ())"

record StageOutcome =
  so_ImportID :: int
  so_RowsStaged :: int
  so_SheetsStaged :: int

datatype StageErrorCode = CodeStageInvalidInput | CodeStageLeaseLost | CodeSourceFileUnavailable
  | CodeSourceFileMismatch | CodeStagingPlanIncompatible | CodeStagingCheckpointCorrupt
  | CodeStagingFailed | CodeSourceCleanupFailed | CodeStagingStorage

record StageError =
  sge_Code :: StageErrorCode
  sge_Retryable :: bool
  sge_Sheet :: string
  sge_Row :: int

text \<open>An error of a run: of the context, a \<open>StageError\<close>, or the panic of a nil sheet.\<close>

datatype stage_failure = StageCtx string | StageErr StageError | StagePanic

definition stage_error :: "StageErrorCode \<Rightarrow> bool \<Rightarrow> string \<Rightarrow> int \<Rightarrow> stage_failure" where
  "stage_error code retryable sheet row =
     StageErr \<lparr>sge_Code = code, sge_Retryable = retryable, sge_Sheet = sheet, sge_Row = row\<rparr>"

record stagedSheet =
  st_row :: ImportSheet
  st_seen :: int
  st_committed :: int

record pendingStageRow =
  pd_source :: SourceRow
  pd_rawJSON :: string

text \<open>The reads of a file: its chunks until the end or an error.\<close>

record file_reads =
  fr_chunks :: "string list"
  fr_error :: "string option"

record 'd stage_env =
  sg_cancelled :: "string option"
  sg_verify_ctx :: "nat \<Rightarrow> string option"
  sg_cancel :: ctx
  sg_legacy :: legacy_env
  sg_marshal_extra :: "(string \<times> string) list \<Rightarrow> (string, string) result"
  sg_json :: plan_json
  sg_clock :: clock
  sg_config :: StagingConfig
  sg_begin_err :: "nat \<Rightarrow> string option"
  sg_commit_err :: "nat \<Rightarrow> string option"
  sg_open :: "'d \<Rightarrow> string \<Rightarrow> (string, file_reads) result"
  sg_xlsx :: "'d \<Rightarrow> string \<Rightarrow> xlsx_file"

abbreviation sg_unicode :: "'d stage_env \<Rightarrow> unicode" where
  "sg_unicode sg \<equiv> lv_unicode (sg_legacy sg)"

definition now_text :: "'d stage_env \<Rightarrow> nat \<Rightarrow> string" where
  "now_text sg k = tm_format (sg_clock sg) (tm_now (sg_clock sg) k)"

definition lease_text :: "'d stage_env \<Rightarrow> nat \<Rightarrow> string option" where
  "lease_text sg k =
     Some (tm_format (sg_clock sg) (tm_now (sg_clock sg) k + sc_LeaseDuration (sg_config sg)))"

subsection \<open>Errors\<close>

definition classifyStagingMutation :: "db_error \<Rightarrow> stage_failure" where
  "classifyStagingMutation err =
     (if err = ErrNoRows then stage_error CodeStageLeaseLost True '''' 0
      else stage_error CodeStagingStorage True '''' 0)"

definition classifyParseFailure :: "stage_failure stop \<Rightarrow> stage_failure" where
  "classifyParseFailure err =
     (case err of
        StopSink e \<Rightarrow> e
      | StopContext e \<Rightarrow> StageCtx e
      | StopParse e \<Rightarrow> stage_error CodeStagingFailed False (pe_Sheet e) (pe_Row e))"

subsection \<open>The claimed import and its file\<close>

definition validateStagingImport :: "'d stage_env \<Rightarrow> Import \<Rightarrow> (stage_failure, unit) result" where
  "validateStagingImport sg claimed =
     (let invalid = Inl (stage_error CodeStageInvalidInput False '''' 0);
          parses = (\<lambda>t. tm_parse (sg_clock sg) t \<noteq> None);
          blank = (\<lambda>v. case v of None \<Rightarrow> True | Some t \<Rightarrow> TrimSpace t = '''')
      in
      if im_id claimed \<le> 0 \<or> im_status claimed \<noteq> ''processing'' \<or> im_profile claimed \<noteq> legacyProfile then invalid
      else if blank (im_lease_owner claimed) \<or> im_lease_expires_at claimed = None then invalid
      else if blank (im_source_sha256 claimed)
         \<or> (case im_source_size_bytes claimed of None \<Rightarrow> True | Some n \<Rightarrow> n \<le> 0) then invalid
      else if length (the (im_source_sha256 claimed)) \<noteq> 64 then invalid
      else if DecodeString (the (im_source_sha256 claimed)) = None then invalid
      else if \<not> parses (the (im_lease_expires_at claimed)) then invalid
      else if im_staged_at claimed \<noteq> None then
        (if im_phase claimed \<noteq> Some ''validating''
            \<or> (im_temp_file_token claimed = None) \<noteq> (im_temp_file_expires_at claimed = None) then invalid
         else if im_temp_file_token claimed \<noteq> None then
           (if blank (im_temp_file_token claimed) \<or> \<not> validFileToken (the (im_temp_file_token claimed)) then invalid
            else if \<not> parses (the (im_temp_file_expires_at claimed)) then invalid
            else Inr ())
         else Inr ())
      else if im_phase claimed \<noteq> Some ''parsing'' \<and> im_phase claimed \<noteq> Some ''staging'' then invalid
      else if blank (im_temp_file_token claimed) \<or> \<not> validFileToken (the (im_temp_file_token claimed))
         \<or> im_temp_file_expires_at claimed = None then invalid
      else if \<not> parses (the (im_temp_file_expires_at claimed)) then invalid
      else Inr ())"

datatype verify_error = VerifyCtx string | VerifyMismatch | VerifyIO string

text \<open>The read loop: the context is asked before every read, also before the one that ends it.\<close>

fun verify_reads :: "(nat \<Rightarrow> string option) \<Rightarrow> nat \<Rightarrow> string list \<Rightarrow> string option \<Rightarrow> string \<Rightarrow> (verify_error, string) result" where
  "verify_reads vctx k [] err content =
     (case vctx k of
        Some e \<Rightarrow> Inl (VerifyCtx e)
      | None \<Rightarrow> (case err of None \<Rightarrow> Inr content | Some e \<Rightarrow> Inl (VerifyIO e)))"
| "verify_reads vctx k (chunk # chunks) err content =
     (case vctx k of
        Some e \<Rightarrow> Inl (VerifyCtx e)
      | None \<Rightarrow> verify_reads vctx (k + 1) chunks err (content @ chunk))"

definition verifyStagingSource ::
  "'d stage_env \<Rightarrow> 'd \<Rightarrow> string \<Rightarrow> int \<Rightarrow> string \<Rightarrow> (verify_error, unit) result" where
  "verifyStagingSource sg s path wantSize wantSHA =
     (case sg_verify_ctx sg 0 of
        Some e \<Rightarrow> Inl (VerifyCtx e)
      | None \<Rightarrow>
          (case sg_open sg s path of
             Inl e \<Rightarrow> Inl (VerifyIO e)
           | Inr reads \<Rightarrow>
               (case verify_reads (sg_verify_ctx sg) 1 (fr_chunks reads) (fr_error reads) [] of
                  Inl e \<Rightarrow> Inl e
                | Inr content \<Rightarrow>
                    if int (length content) \<noteq> wantSize
                       \<or> \<not> u_equal_fold (sg_unicode sg) (EncodeToString (lv_sha256 (sg_legacy sg) content)) wantSHA
                    then Inl VerifyMismatch
                    else Inr ())))"

subsection \<open>The checkpoints\<close>

definition find_sheet :: "string \<Rightarrow> stagedSheet list \<Rightarrow> stagedSheet option" where
  "find_sheet name sheets = find (\<lambda>s. is_sheet_name (st_row s) = name) sheets"

fun load_rows ::
  "'d stage_env \<Rightarrow> int \<Rightarrow> ImportSheet list \<Rightarrow> stagedSheet list \<Rightarrow> WorkbookPlan \<Rightarrow> int
   \<Rightarrow> (stage_failure, stagedSheet list \<times> WorkbookPlan \<times> int) result" where
  "load_rows sg index [] sheets plan stagedTotal = Inr (sheets, plan, stagedTotal)"
| "load_rows sg index (row # rows) sheets plan stagedTotal =
     (let corrupt = Inl (stage_error CodeStagingCheckpointCorrupt False (is_sheet_name row) 0) in
      if is_sheet_order row \<noteq> index + 1 \<or> is_rows_found row < is_rows_staged row \<or> is_rows_staged row < 0 then corrupt
      else if is_status row = ''pending'' \<and> (is_rows_found row \<noteq> 0 \<or> is_rows_staged row \<noteq> 0) then corrupt
      else if is_status row = ''staged'' \<and> is_rows_found row \<noteq> is_rows_staged row then corrupt
      else if is_status row \<notin> set [''pending'', ''parsing'', ''staged''] then corrupt
      else if find_sheet (is_sheet_name row) sheets \<noteq> None
      then Inl (stage_error CodeStagingPlanIncompatible False '''' 0)
      else case DecodeSheetPlan (sg_unicode sg) (sg_json sg) (is_sheet_name row) (is_sheet_order row)
                  (is_sheet_profile row) (is_header_map row) of
        Inl _ \<Rightarrow> Inl (stage_error CodeStagingPlanIncompatible False (is_sheet_name row) 0)
      | Inr decoded \<Rightarrow>
          load_rows sg (index + 1) rows
            (sheets @ [\<lparr>st_row = row, st_seen = 0, st_committed = is_rows_staged row\<rparr>])
            (plan @ [decoded]) (stagedTotal + is_rows_staged row))"

definition loadStagingSheets ::
  "'d stage_env \<Rightarrow> Import \<Rightarrow> db \<Rightarrow> (stage_failure, stagedSheet list \<times> WorkbookPlan) result" where
  "loadStagingSheets sg claimed d =
     (case q_ListImportSheets d (im_id claimed) of
        [] \<Rightarrow> Inl (stage_error CodeStagingPlanIncompatible False '''' 0)
      | row # rows \<Rightarrow>
          (case load_rows sg 0 (row # rows) [] [] 0 of
             Inl e \<Rightarrow> Inl e
           | Inr (sheets, plan, stagedTotal) \<Rightarrow>
               if stagedTotal \<noteq> im_rows_total claimed
               then Inl (stage_error CodeStagingCheckpointCorrupt False '''' 0)
               else Inr (sheets, plan)))"

text \<open>A slice of nil pointers, filled in by the order of the sheets.\<close>

definition orderedStagingSheets :: "stagedSheet list \<Rightarrow> stagedSheet option list" where
  "orderedStagingSheets sheets =
     fold (\<lambda>sheet ordered. ordered[nat (is_sheet_order (st_row sheet) - 1) := Some sheet]) sheets
       (replicate (length sheets) None)"

subsection \<open>A batch\<close>

definition extra_text :: "'d stage_env \<Rightarrow> SourceRow \<Rightarrow> (string, string) result" where
  "extra_text sg source =
     (if sr_ExtraFields source = [] then Inr ''{}'' else sg_marshal_extra sg (sr_ExtraFields source))"

fun flush_rows ::
  "'d stage_env \<Rightarrow> int \<Rightarrow> string \<Rightarrow> pendingStageRow list \<Rightarrow> db \<Rightarrow> (stage_failure, db) result" where
  "flush_rows sg importID nowText [] d = Inr d"
| "flush_rows sg importID nowText (p # ps) d =
     (let source = pd_source p; name = sr_SheetName source; num = sr_RowNumber source in
      case q_CreateImportRow d importID name num (pd_rawJSON p) nowText of
        Inl _ \<Rightarrow>
          (case q_GetImportRowByCoordinate d importID name num of
             Inr _ \<Rightarrow> Inl (stage_error CodeStagingCheckpointCorrupt False name num)
           | Inl _ \<Rightarrow> Inl (stage_error CodeStagingStorage True name num))
      | Inr (created, d1) \<Rightarrow>
          (case extra_text sg source of
             Inl _ \<Rightarrow> Inl (stage_error CodeStagingFailed False name num)
           | Inr extraFields \<Rightarrow>
               (case q_CreateLegacyImportRow d1 (ir_id created) (sr_SourceFingerprintSHA256 source) extraFields
                       nowText nowText of
                  Inl _ \<Rightarrow> Inl (stage_error CodeStagingStorage True name num)
                | Inr (_, d2) \<Rightarrow> flush_rows sg importID nowText ps d2)))"

text \<open>
  The transaction of a batch at the clock reading \<open>k\<close>: the new total, the sheet with its checkpoint
  moved and the database, or the error with the database rolled back.
\<close>

definition flushBatch ::
  "'d stage_env \<Rightarrow> nat \<Rightarrow> Import \<Rightarrow> stagedSheet \<Rightarrow> pendingStageRow list \<Rightarrow> int \<Rightarrow> db
   \<Rightarrow> (stage_failure, int \<times> stagedSheet \<times> db) result" where
  "flushBatch sg k claimed sheet pending tot d =
     (case sg_begin_err sg k of
        Some _ \<Rightarrow> Inl (stage_error CodeStagingStorage True '''' 0)
      | None \<Rightarrow>
          (let updatedTotal = tot + int (length pending) in
           case q_UpdateImportStagingProgress d updatedTotal (now_text sg k) (lease_text sg k) (im_id claimed)
                  (im_lease_owner claimed) of
             Inl e \<Rightarrow> Inl (classifyStagingMutation e)
           | Inr (_, d1) \<Rightarrow>
               (case flush_rows sg (im_id claimed) (now_text sg k) pending d1 of
                  Inl e \<Rightarrow> Inl e
                | Inr d2 \<Rightarrow>
                    (let newSheetTotal = st_committed sheet + int (length pending) in
                     case q_UpdateImportSheetStagingProgress d2 (st_seen sheet) newSheetTotal (now_text sg k)
                            (is_id (st_row sheet)) (im_id claimed) (im_lease_owner claimed) (Some (now_text sg k)) of
                       Inl e \<Rightarrow> Inl (classifyStagingMutation e)
                     | Inr (_, d3) \<Rightarrow>
                         (case sg_commit_err sg k of
                            Some _ \<Rightarrow> Inl (stage_error CodeStagingStorage True '''' 0)
                          | None \<Rightarrow> Inr (updatedTotal, sheet\<lparr>st_committed := newSheetTotal\<rparr>, d3))))))"

subsection \<open>The walk\<close>

record run =
  rn_db :: db
  rn_sheets :: "stagedSheet list"
  rn_current :: "string option"
  rn_pending :: "pendingStageRow list"
  rn_total :: int
  rn_tick :: nat

definition put_sheet :: "stagedSheet \<Rightarrow> stagedSheet list \<Rightarrow> stagedSheet list" where
  "put_sheet sheet sheets =
     map (\<lambda>s. if is_sheet_name (st_row s) = is_sheet_name (st_row sheet) then sheet else s) sheets"

definition current_sheet :: "run \<Rightarrow> stagedSheet option" where
  "current_sheet r = (case rn_current r of None \<Rightarrow> None | Some name \<Rightarrow> find_sheet name (rn_sheets r))"

text \<open>The closure \<open>flush\<close> with the batch it flushes; without a current sheet a batch is dropped.\<close>

definition flush :: "'d stage_env \<Rightarrow> Import \<Rightarrow> run \<Rightarrow> stage_failure option \<times> run" where
  "flush sg claimed r =
     (if rn_pending r = [] then (None, r)
      else case current_sheet r of
        None \<Rightarrow> (None, r\<lparr>rn_pending := []\<rparr>)
      | Some sheet \<Rightarrow>
          (case flushBatch sg (rn_tick r) claimed sheet (rn_pending r) (rn_total r) (rn_db r) of
             Inl e \<Rightarrow> (Some e, r\<lparr>rn_tick := rn_tick r + 1\<rparr>)
           | Inr (updatedTotal, sheet', d') \<Rightarrow>
               (None, r\<lparr>rn_db := d', rn_sheets := put_sheet sheet' (rn_sheets r), rn_pending := [],
                        rn_total := updatedTotal, rn_tick := rn_tick r + 1\<rparr>)))"

text \<open>What the row callback does once the batch of another sheet is out.\<close>

definition stage_row :: "'d stage_env \<Rightarrow> Import \<Rightarrow> (run, stage_failure) sink" where
  "stage_row sg claimed source r =
     (case find_sheet (sr_SheetName source) (rn_sheets r) of
        None \<Rightarrow> (Some (stage_error CodeStagingPlanIncompatible False (sr_SheetName source) (sr_RowNumber source)), r)
      | Some sheet \<Rightarrow>
          (let sheet' = sheet\<lparr>st_seen := st_seen sheet + 1\<rparr>;
               r = r\<lparr>rn_current := Some (sr_SheetName source), rn_sheets := put_sheet sheet' (rn_sheets r)\<rparr>
           in if st_seen sheet' \<le> is_rows_staged (st_row sheet') then (None, r)
              else case lv_marshal_row (sg_legacy sg) source of
                Inl _ \<Rightarrow> (Some (stage_error CodeStagingFailed False (sr_SheetName source) (sr_RowNumber source)), r)
              | Inr rawJSON \<Rightarrow>
                  (let r = r\<lparr>rn_pending := rn_pending r @ [\<lparr>pd_source = source, pd_rawJSON = rawJSON\<rparr>]\<rparr> in
                   if int (length (rn_pending r)) \<ge> sc_BatchSize (sg_config sg) then flush sg claimed r else (None, r))))"

definition stage_sink :: "'d stage_env \<Rightarrow> Import \<Rightarrow> (run, stage_failure) sink" where
  "stage_sink sg claimed source r =
     (case find_sheet (sr_SheetName source) (rn_sheets r) of
        None \<Rightarrow> (Some (stage_error CodeStagingPlanIncompatible False (sr_SheetName source) (sr_RowNumber source)), r)
      | Some _ \<Rightarrow>
          if rn_current r \<noteq> None \<and> rn_current r \<noteq> Some (sr_SheetName source)
          then (case flush sg claimed r of
                  (Some e, r') \<Rightarrow> (Some e, r')
                | (None, r') \<Rightarrow> stage_row sg claimed source r')
          else stage_row sg claimed source r)"

subsection \<open>The end of a run\<close>

definition cleanupStagedSource ::
  "'d stage_env \<Rightarrow> ('b, 'd) FileStore \<Rightarrow> nat \<Rightarrow> Import \<Rightarrow> db \<Rightarrow> 'd
   \<Rightarrow> (stage_failure, StageOutcome) result \<times> db \<times> 'd" where
  "cleanupStagedSource sg fs k claimed d s =
     (let outcome = \<lparr>so_ImportID = im_id claimed, so_RowsStaged = im_rows_total claimed, so_SheetsStaged = 0\<rparr> in
      case im_temp_file_token claimed of
        None \<Rightarrow> (Inr outcome, d, s)
      | Some token \<Rightarrow>
          (case fs_Delete fs token s of
             (Some _, s') \<Rightarrow> (Inl (stage_error CodeSourceCleanupFailed True '''' 0), d, s')
           | (None, s') \<Rightarrow>
               (case q_ClearImportTempFile d (now_text sg k) (im_id claimed) (im_lease_owner claimed) of
                  Inl e \<Rightarrow> (Inl (classifyStagingMutation e), d, s')
                | Inr (_, d') \<Rightarrow> (Inr outcome, d', s'))))"

fun complete_sheets ::
  "'d stage_env \<Rightarrow> Import \<Rightarrow> nat \<Rightarrow> stagedSheet option list \<Rightarrow> db \<Rightarrow> stage_failure option \<times> nat \<times> db" where
  "complete_sheets sg claimed k [] d = (None, k, d)"
| "complete_sheets sg claimed k (None # sheets) d = (Some StagePanic, k, d)"
| "complete_sheets sg claimed k (Some sheet # sheets) d =
     (if st_seen sheet < is_rows_staged (st_row sheet) \<or> st_committed sheet \<noteq> st_seen sheet
      then (Some (stage_error CodeStagingCheckpointCorrupt False (is_sheet_name (st_row sheet)) 0), k, d)
      else case q_CompleteImportSheetStaging d (st_seen sheet) (st_committed sheet) (now_text sg k)
                  (is_id (st_row sheet)) (im_id claimed) (im_lease_owner claimed) (Some (now_text sg k)) of
        Inl e \<Rightarrow> (Some (classifyStagingMutation e), k + 1, d)
      | Inr (_, d') \<Rightarrow> complete_sheets sg claimed (k + 1) sheets d')"

definition finish ::
  "'d stage_env \<Rightarrow> ('b, 'd) FileStore \<Rightarrow> Import \<Rightarrow> run \<Rightarrow> 'd
   \<Rightarrow> (stage_failure, StageOutcome) result \<times> db \<times> 'd" where
  "finish sg fs claimed r s =
     (let ordered = orderedStagingSheets (rn_sheets r) in
      case complete_sheets sg claimed (rn_tick r) ordered (rn_db r) of
        (Some e, _, d) \<Rightarrow> (Inl e, d, s)
      | (None, k, d) \<Rightarrow>
          (case q_CompleteImportStaging d (rn_total r) (now_text sg k) (lease_text sg k) (im_id claimed)
                  (im_lease_owner claimed) of
             Inl e \<Rightarrow> (Inl (classifyStagingMutation e), d, s)
           | Inr (completed, d') \<Rightarrow>
               (case cleanupStagedSource sg fs (k + 1) completed d' s of
                  (Inl e, d'', s') \<Rightarrow> (Inl e, d'', s')
                | (Inr outcome, d'', s') \<Rightarrow>
                    (Inr (outcome\<lparr>so_SheetsStaged := int (length ordered)\<rparr>), d'', s'))))"

text \<open>The walk over the verified file, from the start of the staging phase.\<close>

definition start_run :: "db \<Rightarrow> stagedSheet list \<Rightarrow> int \<Rightarrow> run" where
  "start_run d sheets tot =
     \<lparr>rn_db = d, rn_sheets = sheets, rn_current = None, rn_pending = [], rn_total = tot, rn_tick = 2\<rparr>"

definition stage_workbook ::
  "'d stage_env \<Rightarrow> ('b, 'd) FileStore \<Rightarrow> Import \<Rightarrow> xlsx_file \<Rightarrow> WorkbookPlan \<Rightarrow> run \<Rightarrow> 'd
   \<Rightarrow> (stage_failure, StageOutcome) result \<times> db \<times> 'd" where
  "stage_workbook sg fs claimed file plan r s =
     (case Parse (sg_legacy sg) (sg_cancel sg) file plan (sc_LegacyLimits (sg_config sg)) (stage_sink sg claimed) r of
        (Some e, _, r') \<Rightarrow> (Inl (classifyParseFailure e), rn_db r', s)
      | (None, _, r') \<Rightarrow>
          (case flush sg claimed r' of
             (Some e, r'') \<Rightarrow> (Inl e, rn_db r'', s)
           | (None, r'') \<Rightarrow> finish sg fs claimed r'' s))"

definition stage_source ::
  "'d stage_env \<Rightarrow> ('b, 'd) FileStore \<Rightarrow> Import \<Rightarrow> string \<Rightarrow> db \<Rightarrow> 'd
   \<Rightarrow> (stage_failure, StageOutcome) result \<times> db \<times> 'd" where
  "stage_source sg fs claimed path d s =
     (case loadStagingSheets sg claimed d of
        Inl e \<Rightarrow> (Inl e, d, s)
      | Inr (sheets, plan) \<Rightarrow>
          (case q_StartImportStaging d (now_text sg 1) (lease_text sg 1) (im_id claimed) (im_lease_owner claimed) of
             Inl e \<Rightarrow> (Inl (classifyStagingMutation e), d, s)
           | Inr (claimed', d') \<Rightarrow>
               stage_workbook sg fs claimed' (sg_xlsx sg s path) plan (start_run d' sheets (im_rows_total claimed')) s))"

definition Stage ::
  "'d stage_env \<Rightarrow> ('b, 'd) FileStore \<Rightarrow> Import \<Rightarrow> db \<Rightarrow> 'd
   \<Rightarrow> (stage_failure, StageOutcome) result \<times> db \<times> 'd" where
  "Stage sg fs claimed d s =
     (case sg_cancelled sg of
        Some e \<Rightarrow> (Inl (StageCtx e), d, s)
      | None \<Rightarrow>
          (case validateStagingImport sg claimed of
             Inl e \<Rightarrow> (Inl e, d, s)
           | Inr _ \<Rightarrow>
               if im_staged_at claimed \<noteq> None then cleanupStagedSource sg fs 0 claimed d s
               else if \<not> the (tm_parse (sg_clock sg) (the (im_temp_file_expires_at claimed))) > tm_now (sg_clock sg) 0
               then (Inl (stage_error CodeSourceFileUnavailable False '''' 0), d, s)
               else case fs_Path fs (the (im_temp_file_token claimed)) s of
                 Inl _ \<Rightarrow> (Inl (stage_error CodeSourceFileUnavailable True '''' 0), d, s)
               | Inr path \<Rightarrow>
                   (case verifyStagingSource sg s path (the (im_source_size_bytes claimed))
                           (the (im_source_sha256 claimed)) of
                      Inl (VerifyCtx e) \<Rightarrow> (Inl (StageCtx e), d, s)
                    | Inl VerifyMismatch \<Rightarrow> (Inl (stage_error CodeSourceFileMismatch False '''' 0), d, s)
                    | Inl (VerifyIO _) \<Rightarrow> (Inl (stage_error CodeSourceFileUnavailable True '''' 0), d, s)
                    | Inr _ \<Rightarrow> stage_source sg fs claimed path d s)))"

end
