(* ===== verification/StagingLaws.thy ===== *)
theory StagingLaws
  imports ImportStager LegacyLaws
begin

text \<open>
  What the statements of the stager do to the tables, and the checkpoint invariant: of every sheet
  exactly the first rows are staged, as many as its checkpoint says.
\<close>

subsection \<open>Updates of one row\<close>

lemma insort_key_map:
  "k (f x) = k x \<Longrightarrow> \<forall>y \<in> set xs. k (f y) = k y \<Longrightarrow> insort_key k (f x) (map f xs) = map f (insort_key k x xs)"
  by (induction xs) auto

lemma sort_key_map: "\<forall>y \<in> set xs. k (f y) = k y \<Longrightarrow> sort_key k (map f xs) = map f (sort_key k xs)"
  by (induction xs) (simp_all add: insort_key_map)

lemma filter_map_keep: "\<forall>y \<in> set xs. P (f y) = P y \<Longrightarrow> filter P (map f xs) = map f (filter P xs)"
  by (induction xs) auto

lemma sheets_ok:
  assumes "db_ok d"
  shows "distinct (map is_id (import_sheets d))" "distinct (map im_id (imports_tbl d))"
    "table_ok is_id import_sheet_check import_sheet_clash (import_sheets d)"
  using assms by (auto simp: db_ok_def tables_ok_def table_ok_def)

lemma unique_replaced:
  assumes "distinct (map rid t)" "r \<in> set t" "rid r = i"
  shows "map (\<lambda>x. if rid x = i then f r else x) t = map (\<lambda>x. if rid x = i then f x else x) t"
  using assms by (auto simp: distinct_map inj_on_def)

lemma upd_import_sheet_list:
  assumes "upd_import_sheet d sid cond f = Inr (r', d')" "db_ok d"
    and "\<And>x. is_id (f x) = is_id x \<and> is_import_id (f x) = is_import_id x \<and> is_sheet_order (f x) = is_sheet_order x"
  shows "q_ListImportSheets d' i = map (\<lambda>sh. if is_id sh = sid then f sh else sh) (q_ListImportSheets d i)"
    and "\<exists>t. d' = d\<lparr>import_sheets := t\<rparr>"
    and "\<exists>r \<in> set (import_sheets d). is_id r = sid \<and> cond r"
proof -
  from assms(1) [unfolded upd_import_sheet_def] obtain r where r: "r \<in> set (import_sheets d)" "is_id r = sid" "cond r"
    "d' = d\<lparr>import_sheets := map (\<lambda>x. if is_id x = sid then f r else x) (import_sheets d)\<rparr>"
    by (rule stored_update_rows) blast
  have d': "d' = d\<lparr>import_sheets := map (\<lambda>x. if is_id x = sid then f x else x) (import_sheets d)\<rparr>"
    unfolding r(4) by (subst unique_replaced [where f = f, OF sheets_ok(1) [OF assms(2)] r(1,2)]) simp
  show "\<exists>t. d' = d\<lparr>import_sheets := t\<rparr>" "\<exists>r \<in> set (import_sheets d). is_id r = sid \<and> cond r" using r by blast+
  show "q_ListImportSheets d' i = map (\<lambda>sh. if is_id sh = sid then f sh else sh) (q_ListImportSheets d i)"
    unfolding d' q_ListImportSheets_def by (simp add: filter_map_keep sort_key_map assms(3))
qed

lemma upd_import_rows:
  assumes "upd_import d i cond f = Inr (r', d')" "db_ok d" "\<And>x. im_id (f x) = im_id x"
  obtains r t where "r \<in> set (imports_tbl d)" "im_id r = i" "cond r" "r' = f r" "d' = d\<lparr>imports_tbl := t\<rparr>"
    "\<forall>x \<in> set t. im_id x = i \<longrightarrow> x = r'" "r' \<in> set t"
proof -
  from assms(1) [unfolded upd_import_def] obtain r where r: "r \<in> set (imports_tbl d)" "im_id r = i" "cond r" "r' = f r"
    "d' = d\<lparr>imports_tbl := map (\<lambda>x. if im_id x = i then r' else x) (imports_tbl d)\<rparr>"
    by (rule stored_update_rows) blast
  show thesis by (rule that [OF r]) (use r(1,2) in auto)
qed

lemma listed_sheets_distinct:
  assumes "db_ok d"
  shows "distinct (map is_id (q_ListImportSheets d i))" "distinct (map is_sheet_name (q_ListImportSheets d i))"
proof -
  let ?q = "filter (\<lambda>r. is_import_id r = i) (import_sheets d)"
  have id: "distinct (map is_id ?q)" using sheets_ok(1) [OF assms] by (simp add: distinct_map_filter)
  have "inj_on is_sheet_name (set ?q)"
  proof (rule inj_onI)
    fix x y assume "x \<in> set ?q" "y \<in> set ?q" "is_sheet_name x = is_sheet_name y"
    then show "x = y" using table_ok_unique [OF sheets_ok(3) [OF assms], of x y] by (auto simp: import_sheet_clash_def)
  qed
  then show "distinct (map is_id (q_ListImportSheets d i))" "distinct (map is_sheet_name (q_ListImportSheets d i))"
    using id by (simp_all add: q_ListImportSheets_def distinct_map)
qed

subsection \<open>The rows of a batch\<close>

text \<open>How a source row is encoded: its JSON text and the JSON text of its extra fields.\<close>

type_synonym codec = "(SourceRow \<Rightarrow> (string, string) result) \<times> (SourceRow \<Rightarrow> (string, string) result)"

definition codec :: "'d stage_env \<Rightarrow> codec" where
  "codec sg = (lv_marshal_row (sg_legacy sg), extra_text sg)"

text \<open>A source row staged as a row of \<open>import_rows\<close> with its row of \<open>legacy_import_rows\<close>.\<close>

definition staged_as :: "codec \<Rightarrow> LegacyImportRow list \<Rightarrow> SourceRow \<Rightarrow> ImportRow \<Rightarrow> bool" where
  "staged_as cd lys src r \<longleftrightarrow>
     ir_sheet_name r = sr_SheetName src \<and> ir_row_number r = sr_RowNumber src \<and> fst cd src = Inr (ir_raw_data r)
     \<and> (\<exists>ly \<in> set lys. ly_import_row_id ly = ir_id r \<and> ly_source_fingerprint ly = sr_SourceFingerprintSHA256 src
          \<and> snd cd src = Inr (ly_extra_fields ly) \<and> ly_status ly = ''staged'')"

lemma staged_as_mono: "staged_as cd lys src r \<Longrightarrow> set lys \<subseteq> set lys' \<Longrightarrow> staged_as cd lys' src r"
  by (auto simp: staged_as_def)

lemma flush_rows_Inr:
  assumes "flush_rows sg i now pending d = Inr d'" "\<forall>p \<in> set pending. fst (codec sg) (pd_source p) = Inr (pd_rawJSON p)"
  shows "\<exists>new lys. d' = d\<lparr>import_rows := import_rows d @ new, legacy_import_rows := legacy_import_rows d @ lys\<rparr>
    \<and> list_all2 (staged_as (codec sg) lys) (map pd_source pending) new \<and> (\<forall>r \<in> set new. ir_import_id r = i)
    \<and> statement\<^sup>*\<^sup>* d d'"
  using assms
proof (induction pending arbitrary: d)
  case Nil
  then show ?case by (intro exI [of _ "[]"]) simp
next
  case (Cons p ps)
  let ?src = "pd_source p"
  from Cons.prems(1) obtain r d1 extra ly d2 where
    c: "q_CreateImportRow d i (sr_SheetName ?src) (sr_RowNumber ?src) (pd_rawJSON p) now = Inr (r, d1)"
      "extra_text sg ?src = Inr extra"
      "q_CreateLegacyImportRow d1 (ir_id r) (sr_SourceFingerprintSHA256 ?src) extra now now = Inr (ly, d2)"
      "flush_rows sg i now ps d2 = Inr d'"
    by (auto simp: Let_def split: sum.splits)
  from stored_insert_rows [OF c(1) [unfolded q_CreateImportRow_def ins_import_row_def]]
  have r: "d1 = d\<lparr>import_rows := import_rows d @ [r]\<rparr>" "ir_import_id r = i" "ir_sheet_name r = sr_SheetName ?src"
    "ir_row_number r = sr_RowNumber ?src" "ir_raw_data r = pd_rawJSON p" by auto
  from c(3) have ly: "d2 = d1\<lparr>legacy_import_rows := legacy_import_rows d1 @ [ly]\<rparr>" "ly_import_row_id ly = ir_id r"
    "ly_source_fingerprint ly = sr_SourceFingerprintSHA256 ?src" "ly_extra_fields ly = extra" "ly_status ly = ''staged''"
    by (auto simp: q_CreateLegacyImportRow_def ins_legacy_row_def stored_Inr sql_insert_at_Inr)
  from Cons.IH [OF c(4)] Cons.prems(2) obtain new lys where
    rest: "d' = d2\<lparr>import_rows := import_rows d2 @ new, legacy_import_rows := legacy_import_rows d2 @ lys\<rparr>"
      "list_all2 (staged_as (codec sg) lys) (map pd_source ps) new" "\<forall>r \<in> set new. ir_import_id r = i"
      "statement\<^sup>*\<^sup>* d2 d'" by auto
  have "staged_as (codec sg) (ly # lys) ?src r"
    using r ly c(2) Cons.prems(2) by (auto simp: staged_as_def codec_def)
  moreover have "list_all2 (staged_as (codec sg) (ly # lys)) (map pd_source ps) new"
    using rest(2) by (rule list_all2_mono) (auto intro: staged_as_mono)
  moreover have "statement\<^sup>*\<^sup>* d d'"
    using statement.create_import_row [OF c(1)] statement.create_legacy_row [OF c(3)] rest(4)
    by (meson converse_rtranclp_into_rtranclp)
  ultimately show ?case using r(1,2) ly(1) rest(1,3)
    by (intro exI [of _ "r # new"] exI [of _ "ly # lys"]) simp
qed

subsection \<open>The checkpoint\<close>

definition sheet_rows :: "string \<Rightarrow> SourceRow list \<Rightarrow> SourceRow list" where
  "sheet_rows name rows = filter (\<lambda>r. sr_SheetName r = name) rows"

definition staged_rows :: "db \<Rightarrow> int \<Rightarrow> string \<Rightarrow> ImportRow list" where
  "staged_rows d i name = filter (\<lambda>r. ir_import_id r = i \<and> ir_sheet_name r = name) (import_rows d)"

text \<open>The id, the name and the checkpoint of every sheet, in the order of the workbook.\<close>

definition sheet_marks :: "db \<Rightarrow> int \<Rightarrow> (int \<times> string \<times> int) list" where
  "sheet_marks d i = map (\<lambda>sh. (is_id sh, is_sheet_name sh, is_rows_staged sh)) (q_ListImportSheets d i)"

definition mark_ok :: "codec \<Rightarrow> int \<Rightarrow> SourceRow list \<Rightarrow> db \<Rightarrow> string \<Rightarrow> int \<Rightarrow> bool" where
  "mark_ok cd i rows d name n \<longleftrightarrow>
     0 \<le> n \<and> n \<le> int (length (sheet_rows name rows))
     \<and> list_all2 (staged_as cd (legacy_import_rows d)) (take (nat n) (sheet_rows name rows)) (staged_rows d i name)"

definition checkpoint :: "codec \<Rightarrow> int \<Rightarrow> SourceRow list \<Rightarrow> db \<Rightarrow> bool" where
  "checkpoint cd i rows d \<longleftrightarrow>
     (\<forall>(sid, name, n) \<in> set (sheet_marks d i). mark_ok cd i rows d name n)
     \<and> (\<forall>r \<in> set (import_rows d). ir_import_id r = i \<longrightarrow> ir_sheet_name r \<in> (fst \<circ> snd) ` set (sheet_marks d i))
     \<and> (\<forall>im \<in> set (imports_tbl d). im_id im = i \<longrightarrow> im_rows_total im = sum_list (map (snd \<circ> snd) (sheet_marks d i)))"

text \<open>A state of the database in which rows were only added.\<close>

definition grown :: "db \<Rightarrow> db \<Rightarrow> bool" where
  "grown d d' \<longleftrightarrow> statement\<^sup>*\<^sup>* d d' \<and> prefix (import_rows d) (import_rows d')
     \<and> prefix (legacy_import_rows d) (legacy_import_rows d')"

lemma grown_refl [simp]: "grown d d"
  by (simp add: grown_def)

lemma grown_trans: "grown d e \<Longrightarrow> grown e f \<Longrightarrow> grown d f"
  unfolding grown_def by (meson prefix_order.trans rtranclp_trans)

lemma grown_step: "statement d d' \<Longrightarrow> import_rows d' = import_rows d \<Longrightarrow> legacy_import_rows d' = legacy_import_rows d \<Longrightarrow> grown d d'"
  by (simp add: grown_def)

lemma marks_distinct:
  assumes "db_ok d"
  shows "distinct (map fst (sheet_marks d i))" "distinct (map (fst \<circ> snd) (sheet_marks d i))"
  using listed_sheets_distinct [OF assms, of i] by (simp_all add: sheet_marks_def comp_def)

lemma flushBatch_Inr:
  assumes "flushBatch sg k claimed sheet pending tot d = Inr (tot', sheet', d')" "db_ok d"
    and "\<forall>p \<in> set pending. fst (codec sg) (pd_source p) = Inr (pd_rawJSON p)"
  obtains new lys where "tot' = tot + int (length pending)"
    "sheet' = sheet\<lparr>st_committed := st_committed sheet + int (length pending)\<rparr>"
    "import_rows d' = import_rows d @ new" "legacy_import_rows d' = legacy_import_rows d @ lys"
    "list_all2 (staged_as (codec sg) lys) (map pd_source pending) new" "\<forall>r \<in> set new. ir_import_id r = im_id claimed"
    "sheet_marks d' (im_id claimed) = map (\<lambda>(sid, name, n). if sid = is_id (st_row sheet)
       then (sid, name, st_committed sheet') else (sid, name, n)) (sheet_marks d (im_id claimed))"
    "\<forall>im \<in> set (imports_tbl d'). im_id im = im_id claimed \<longrightarrow> im_rows_total im = tot'" "statement\<^sup>*\<^sup>* d d'" "db_ok d'"
proof -
  let ?i = "im_id claimed" let ?n = "st_committed sheet + int (length pending)"
  from assms(1) obtain im d1 d2 sh where
    u1: "q_UpdateImportStagingProgress d tot' (now_text sg k) (lease_text sg k) ?i (im_lease_owner claimed) = Inr (im, d1)"
    and fl: "flush_rows sg ?i (now_text sg k) pending d1 = Inr d2"
    and u2: "q_UpdateImportSheetStagingProgress d2 (st_seen sheet) ?n (now_text sg k) (is_id (st_row sheet)) ?i
        (im_lease_owner claimed) (Some (now_text sg k)) = Inr (sh, d')"
    and eq: "tot' = tot + int (length pending)" "sheet' = sheet\<lparr>st_committed := ?n\<rparr>"
    by (auto simp: flushBatch_def Let_def split: option.splits sum.splits)
  from u1 [unfolded q_UpdateImportStagingProgress_def] assms(2) obtain r t where
    t: "d1 = d\<lparr>imports_tbl := t\<rparr>" "\<forall>x \<in> set t. im_id x = ?i \<longrightarrow> x = im"
    and im: "im = r\<lparr>im_rows_total := tot', im_heartbeat_at := Some (now_text sg k),
      im_lease_expires_at := lease_text sg k, im_updated_at := now_text sg k\<rparr>"
    by (rule upd_import_rows) (simp, rule that)
  have tot: "\<forall>x \<in> set t. im_id x = ?i \<longrightarrow> im_rows_total x = tot'"
  proof (intro ballI impI)
    fix x assume "x \<in> set t" "im_id x = ?i"
    with t(2) have "x = im" by blast
    then show "im_rows_total x = tot'" using im by simp
  qed
  have run1: "statement\<^sup>*\<^sup>* d d1" using statement.staging_progress [OF u1] by blast
  from flush_rows_Inr [OF fl assms(3)] obtain new lys where
    d2: "d2 = d1\<lparr>import_rows := import_rows d1 @ new, legacy_import_rows := legacy_import_rows d1 @ lys\<rparr>"
      "list_all2 (staged_as (codec sg) lys) (map pd_source pending) new" "\<forall>r \<in> set new. ir_import_id r = ?i"
      "statement\<^sup>*\<^sup>* d1 d2" by blast
  have ok2: "db_ok d2" using statements_ok [OF rtranclp_trans [OF run1 d2(4)] assms(2)] .
  note u2' = u2 [unfolded q_UpdateImportSheetStagingProgress_def]
  have list: "q_ListImportSheets d' ?i = map (\<lambda>sh. if is_id sh = is_id (st_row sheet)
      then sh\<lparr>is_rows_found := st_seen sheet, is_rows_staged := ?n, is_status := ''parsing'', is_updated_at := now_text sg k\<rparr> else sh)
      (q_ListImportSheets d2 ?i)"
    by (rule upd_import_sheet_list(1) [OF u2' ok2]) simp
  obtain t' where d': "d' = d2\<lparr>import_sheets := t'\<rparr>" using upd_import_sheet_list(2) [OF u2' ok2] by auto
  have run: "statement\<^sup>*\<^sup>* d d'" using run1 d2(4) statement.sheet_progress [OF u2] by (meson rtranclp.rtrancl_into_rtrancl rtranclp_trans)
  have "q_ListImportSheets d2 ?i = q_ListImportSheets d ?i" by (simp add: d2 t q_ListImportSheets_def)
  then have "sheet_marks d' ?i = map (\<lambda>(sid, name, n). if sid = is_id (st_row sheet)
       then (sid, name, st_committed sheet') else (sid, name, n)) (sheet_marks d ?i)"
    using list by (auto simp: sheet_marks_def eq(2))
  moreover have "import_rows d' = import_rows d @ new" "legacy_import_rows d' = legacy_import_rows d @ lys" "imports_tbl d' = t"
    by (simp_all add: d' d2(1) t(1))
  ultimately show thesis using that [OF eq _ _ d2(2,3)] tot run statements_ok [OF run assms(2)] by simp
qed

end
