(* ===== verification/StagingRun.thy ===== *)
theory StagingRun
  imports StagingLaws
begin

text \<open>
  A run of the stager keeps the checkpoint: the state of a run that has seen the first rows of the
  workbook, every flush and every row keep it, and a complete run has staged every row.
\<close>

definition marks :: "stagedSheet list \<Rightarrow> (int \<times> string \<times> int) list" where
  "marks sheets = map (\<lambda>s. (is_id (st_row s), is_sheet_name (st_row s), st_committed s)) sheets"

text \<open>A sheet of a run: what was seen of it, and that what it has pending is what is not staged.\<close>

definition sheet_ok :: "string option \<Rightarrow> pendingStageRow list \<Rightarrow> SourceRow list \<Rightarrow> stagedSheet \<Rightarrow> bool" where
  "sheet_ok current pending seen s \<longleftrightarrow>
     (let mine = sheet_rows (is_sheet_name (st_row s)) seen in
      st_seen s = int (length mine) \<and> 0 \<le> is_rows_staged (st_row s) \<and> is_rows_staged (st_row s) \<le> st_committed s
      \<and> st_committed s \<le> max (is_rows_staged (st_row s)) (st_seen s)
      \<and> (if current = Some (is_sheet_name (st_row s)) then map pd_source pending else []) = drop (nat (st_committed s)) mine)"

definition run_ok :: "'d stage_env \<Rightarrow> int \<Rightarrow> SourceRow list \<Rightarrow> SourceRow list \<Rightarrow> run \<Rightarrow> bool" where
  "run_ok sg i rows seen r \<longleftrightarrow>
     db_ok (rn_db r) \<and> checkpoint (codec sg) i rows (rn_db r) \<and> prefix seen rows
     \<and> marks (rn_sheets r) = sheet_marks (rn_db r) i \<and> rn_total r = sum_list (map st_committed (rn_sheets r))
     \<and> (rn_pending r \<noteq> [] \<longrightarrow> current_sheet r \<noteq> None)
     \<and> (\<forall>p \<in> set (rn_pending r). fst (codec sg) (pd_source p) = Inr (pd_rawJSON p))
     \<and> (\<forall>s \<in> set (rn_sheets r). sheet_ok (rn_current r) (rn_pending r) seen s)"

lemma run_names_distinct:
  assumes "run_ok sg i rows seen r"
  shows "distinct (map (is_sheet_name \<circ> st_row) (rn_sheets r))" "distinct (map (is_id \<circ> st_row) (rn_sheets r))"
proof -
  have "map (fst \<circ> snd) (marks (rn_sheets r)) = map (fst \<circ> snd) (sheet_marks (rn_db r) i)"
    "map fst (marks (rn_sheets r)) = map fst (sheet_marks (rn_db r) i)" "db_ok (rn_db r)"
    using assms by (simp_all add: run_ok_def)
  then show "distinct (map (is_sheet_name \<circ> st_row) (rn_sheets r))" "distinct (map (is_id \<circ> st_row) (rn_sheets r))"
    using marks_distinct [of "rn_db r" i] by (simp_all add: marks_def comp_def)
qed

lemma find_sheet_Some: "find_sheet n sheets = Some s \<Longrightarrow> s \<in> set sheets \<and> is_sheet_name (st_row s) = n"
  unfolding find_sheet_def by (auto dest: find_Some_iff_first)

lemma same_sheet:
  assumes "distinct (map (is_sheet_name \<circ> st_row) sheets)" "s \<in> set sheets" "x \<in> set sheets"
    "is_sheet_name (st_row x) = is_sheet_name (st_row s)"
  shows "x = s"
  using assms by (auto simp: distinct_map inj_on_def)

lemma set_put_sheet:
  assumes "distinct (map (is_sheet_name \<circ> st_row) sheets)" "s \<in> set sheets"
    "is_sheet_name (st_row s') = is_sheet_name (st_row s)"
  shows "set (put_sheet s' sheets) = insert s' (set sheets - {s})"
  using assms same_sheet [OF assms(1,2)] by (auto simp: put_sheet_def)

lemma sum_put_sheet:
  assumes "distinct (map (is_sheet_name \<circ> st_row) sheets)" "s \<in> set sheets"
    "is_sheet_name (st_row s') = is_sheet_name (st_row s)" "st_committed s' = st_committed s + n"
  shows "sum_list (map st_committed (put_sheet s' sheets)) = sum_list (map st_committed sheets) + (n :: int)"
  using assms
proof (induction sheets)
  case (Cons x sheets)
  show ?case
  proof (cases "x = s")
    case True
    then have "\<forall>y \<in> set sheets. is_sheet_name (st_row y) \<noteq> is_sheet_name (st_row s)" using Cons.prems(1) by (auto simp: image_iff)
    then have "put_sheet s' sheets = sheets" using Cons.prems(3) by (auto simp: put_sheet_def map_idI)
    then show ?thesis using True Cons.prems(3,4) by (simp add: put_sheet_def)
  next
    case False
    then show ?thesis using Cons by (auto simp: put_sheet_def)
  qed
qed simp

lemma sheet_rows_prefix: "prefix seen rows \<Longrightarrow> prefix (sheet_rows n seen) (sheet_rows n rows)"
  by (auto simp: prefix_def sheet_rows_def)

lemma staged_rows_append:
  "import_rows d' = import_rows d @ new \<Longrightarrow>
   staged_rows d' i n = staged_rows d i n @ filter (\<lambda>r. ir_import_id r = i \<and> ir_sheet_name r = n) new"
  by (simp add: staged_rows_def)

text \<open>The rows of the workbook that a flush adds to those staged before.\<close>

lemma take_flushed:
  assumes "prefix mine all" "pend = drop (nat c) mine" "pend \<noteq> []" "0 \<le> c"
  shows "c + int (length pend) = int (length mine)" "take (nat (c + int (length pend))) all = take (nat c) all @ pend"
proof -
  have le: "nat c < length mine" using assms(2,3) by simp
  then show l: "c + int (length pend) = int (length mine)" using assms(2,4) by (simp add: nat_less_iff)
  from assms(1) obtain zs where all: "all = mine @ zs" by (auto simp: prefix_def)
  show "take (nat (c + int (length pend))) all = take (nat c) all @ pend"
    unfolding l using le assms(2) by (simp add: all)
qed

lemma list_all2_right:
  "list_all2 P xs ys \<Longrightarrow> (\<And>x y. x \<in> set xs \<Longrightarrow> P x y \<Longrightarrow> Q y) \<Longrightarrow> \<forall>y \<in> set ys. Q y"
  by (induction rule: list_all2_induct) auto

lemma flushed_names:
  assumes "list_all2 (staged_as cd lys) pend new" "\<forall>r \<in> set new. ir_import_id r = i" "\<forall>p \<in> set pend. sr_SheetName p = n"
  shows "filter (\<lambda>r. ir_import_id r = i \<and> ir_sheet_name r = m) new = (if m = n then new else [])"
proof -
  have "\<forall>r \<in> set new. ir_sheet_name r = n"
    by (rule list_all2_right [OF assms(1)]) (use assms(3) in \<open>auto simp: staged_as_def\<close>)
  then show ?thesis using assms(2) by (auto simp: filter_id_conv filter_empty_conv)
qed

lemma flush_checkpoint:
  assumes cp: "checkpoint cd i rows d" and d': "import_rows d' = import_rows d @ new" "legacy_import_rows d' = legacy_import_rows d @ lys"
    and new: "list_all2 (staged_as cd lys) pend new" "\<forall>r \<in> set new. ir_import_id r = i" "\<forall>p \<in> set pend. sr_SheetName p = name"
    and mk: "(sid, name, c) \<in> set (sheet_marks d i)" "db_ok d"
      "sheet_marks d' i = map (\<lambda>(k, m, n). if k = sid then (k, m, c') else (k, m, n)) (sheet_marks d i)"
    and c': "0 \<le> c'" "c' \<le> int (length (sheet_rows name rows))"
      "take (nat c') (sheet_rows name rows) = take (nat c) (sheet_rows name rows) @ pend"
    and tot: "\<forall>im \<in> set (imports_tbl d'). im_id im = i \<longrightarrow> im_rows_total im = sum_list (map (snd \<circ> snd) (sheet_marks d' i))"
  shows "checkpoint cd i rows d'"
  unfolding checkpoint_def
proof (intro conjI ballI)
  fix x assume x: "x \<in> set (sheet_marks d' i)"
  obtain k m n where kmn: "x = (k, m, n)" using prod_cases3 by blast
  note rows' = staged_rows_append [OF d'(1), of i m] flushed_names [OF new, of m]
  have old: "staged_as cd (legacy_import_rows d') p r" if "staged_as cd (legacy_import_rows d) p r" for p r
    using that by (rule staged_as_mono) (simp add: d'(2))
  have fresh: "list_all2 (staged_as cd (legacy_import_rows d')) pend new"
    using new(1) by (rule list_all2_mono) (rule staged_as_mono, auto simp: d'(2))
  have mark: "mark_ok cd i rows d m' n'" if "(k', m', n') \<in> set (sheet_marks d i)" for k' m' n'
    using cp that by (auto simp: checkpoint_def)
  show "case x of (sid, name, n) \<Rightarrow> mark_ok cd i rows d' name n"
  proof (cases "k = sid")
    case True
    then obtain n0 where "(sid, m, n0) \<in> set (sheet_marks d i)" "n = c'"
      using x mk(3) kmn by (auto split: if_splits)
    then have "m = name" "n = c'" using eq_key_imp_eq_value [OF marks_distinct(1) [OF mk(2)] mk(1)] by auto
    then show ?thesis using mark [OF mk(1)] rows' fresh old c' \<open>n = c'\<close> kmn
      by (auto simp: mark_ok_def intro!: list_all2_appendI elim: list_all2_mono)
  next
    case False
    then have k: "(k, m, n) \<in> set (sheet_marks d i)" using x mk(3) kmn by (auto split: if_splits)
    then have "m \<noteq> name" using mk(1) False marks_distinct(2) [OF mk(2), of i] by (force simp: distinct_map inj_on_def)
    then show ?thesis using mark [OF k] rows' old kmn by (auto simp: mark_ok_def elim: list_all2_mono)
  qed
next
  fix r assume r: "r \<in> set (import_rows d')"
  have names: "(fst \<circ> snd) ` set (sheet_marks d' i) = (fst \<circ> snd) ` set (sheet_marks d i)"
    unfolding mk(3) set_map image_image by (rule image_cong) (auto simp: split_beta)
  show "ir_import_id r = i \<longrightarrow> ir_sheet_name r \<in> (fst \<circ> snd) ` set (sheet_marks d' i)"
  proof (cases "r \<in> set new")
    case True
    moreover have "\<forall>r \<in> set new. ir_sheet_name r = name"
      by (rule list_all2_right [OF new(1)]) (use new(3) in \<open>auto simp: staged_as_def\<close>)
    ultimately have "ir_sheet_name r = name" by blast
    then show ?thesis unfolding names using mk(1) by force
  next
    case False
    then show ?thesis unfolding names using r d'(1) cp by (auto simp: checkpoint_def)
  qed
qed (use tot in blast)

subsection \<open>Flushing\<close>

lemma run_marks: "s \<in> set (rn_sheets r) \<Longrightarrow> run_ok sg i rows seen r
    \<Longrightarrow> (is_id (st_row s), is_sheet_name (st_row s), st_committed s) \<in> set (sheet_marks (rn_db r) i)"
  unfolding run_ok_def by (metis (mono_tags, lifting) image_eqI marks_def set_map)

lemma marks_put_sheet:
  assumes "distinct (map (is_sheet_name \<circ> st_row) sheets)" "distinct (map (is_id \<circ> st_row) sheets)" "s \<in> set sheets"
    and "st_row s' = st_row s"
  shows "marks (put_sheet s' sheets) = map (\<lambda>(k, m, n). if k = is_id (st_row s) then (k, m, st_committed s') else (k, m, n)) (marks sheets)"
proof -
  have "is_sheet_name (st_row x) = is_sheet_name (st_row s) \<longleftrightarrow> is_id (st_row x) = is_id (st_row s)" if "x \<in> set sheets" for x
    using assms(1-3) that by (auto simp: distinct_map inj_on_def)
  moreover have "x = s" if "x \<in> set sheets" "is_id (st_row x) = is_id (st_row s)" for x
    using assms(2,3) that by (auto simp: distinct_map inj_on_def)
  ultimately show ?thesis using assms(4) by (auto simp: marks_def put_sheet_def)
qed

lemma flush_ok:
  assumes ok: "run_ok sg i rows seen r" and fl: "flush sg claimed r = (res, r')" and i: "im_id claimed = i"
  shows "grown (rn_db r) (rn_db r') \<and> (case res of Some e \<Rightarrow> rn_db r' = rn_db r
    | None \<Rightarrow> run_ok sg i rows seen r' \<and> rn_pending r' = [] \<and> rn_current r' = rn_current r
        \<and> map st_row (rn_sheets r') = map st_row (rn_sheets r))"
proof (cases "rn_pending r = []")
  case True
  with fl ok show ?thesis by (auto simp: flush_def)
next
  case False
  with ok obtain s where cur: "current_sheet r = Some s" by (auto simp: run_ok_def)
  let ?n = "is_sheet_name (st_row s)" and ?pend = "map pd_source (rn_pending r)"
  have s: "s \<in> set (rn_sheets r)" and n: "rn_current r = Some ?n"
    using cur find_sheet_Some by (fastforce simp: current_sheet_def split: option.splits)+
  have sok: "sheet_ok (rn_current r) (rn_pending r) seen s" using ok s by (simp add: run_ok_def)
  have pend: "?pend = drop (nat (st_committed s)) (sheet_rows ?n seen)" "?pend \<noteq> []" "0 \<le> st_committed s"
    using sok n False by (auto simp: sheet_ok_def Let_def)
  have pre: "prefix (sheet_rows ?n seen) (sheet_rows ?n rows)" using ok by (auto simp: run_ok_def intro: sheet_rows_prefix)
  note took = take_flushed [OF pre pend]
  have names: "\<forall>p \<in> set ?pend. sr_SheetName p = ?n" unfolding pend(1) by (auto simp: sheet_rows_def dest: in_set_dropD)
  have enc: "\<forall>p \<in> set (rn_pending r). fst (codec sg) (pd_source p) = Inr (pd_rawJSON p)" using ok by (simp add: run_ok_def)
  show ?thesis
  proof (cases "flushBatch sg (rn_tick r) claimed s (rn_pending r) (rn_total r) (rn_db r)")
    case (Inl e)
    with fl False cur show ?thesis by (auto simp: flush_def)
  next
    case (Inr out)
    obtain tot' s' d' where out: "out = (tot', s', d')" using prod_cases3 by blast
    have r': "res = None" "r' = r\<lparr>rn_db := d', rn_sheets := put_sheet s' (rn_sheets r), rn_pending := [],
        rn_total := tot', rn_tick := rn_tick r + 1\<rparr>"
      using fl False cur Inr out by (auto simp: flush_def)
    have dbok: "db_ok (rn_db r)" using ok by (simp add: run_ok_def)
    obtain new lys where
      eq: "tot' = rn_total r + int (length (rn_pending r))" "s' = s\<lparr>st_committed := st_committed s + int (length (rn_pending r))\<rparr>"
      and d': "import_rows d' = import_rows (rn_db r) @ new" "legacy_import_rows d' = legacy_import_rows (rn_db r) @ lys"
      and new: "list_all2 (staged_as (codec sg) lys) ?pend new" "\<forall>r \<in> set new. ir_import_id r = im_id claimed"
      and mk: "sheet_marks d' (im_id claimed) = map (\<lambda>(sid, name, n). if sid = is_id (st_row s)
         then (sid, name, st_committed s') else (sid, name, n)) (sheet_marks (rn_db r) (im_id claimed))"
      and tot: "\<forall>im \<in> set (imports_tbl d'). im_id im = im_id claimed \<longrightarrow> im_rows_total im = tot'"
      and run: "statement\<^sup>*\<^sup>* (rn_db r) d'" "db_ok d'"
      by (rule flushBatch_Inr [OF Inr [unfolded out] dbok enc])
    note new = new [unfolded i] and mk = mk [unfolded i] and tot = tot [unfolded i]
    note dist = run_names_distinct [OF ok]
    have mks: "marks (put_sheet s' (rn_sheets r)) = sheet_marks d' i"
      using marks_put_sheet [OF dist s, of s'] ok mk by (simp add: run_ok_def eq(2))
    have sum: "tot' = sum_list (map st_committed (put_sheet s' (rn_sheets r)))"
      using sum_put_sheet [OF dist(1) s, of s' "int (length (rn_pending r))"] ok by (simp add: eq run_ok_def)
    have "sum_list (map (snd \<circ> snd) (sheet_marks d' i)) = tot'"
      unfolding mks [symmetric] sum by (simp add: marks_def comp_def)
    moreover have c': "st_committed s' = int (length (sheet_rows ?n seen))" using took(1) eq(2) by simp
    moreover have "length (sheet_rows ?n seen) \<le> length (sheet_rows ?n rows)" using pre by (rule prefix_length_le)
    ultimately have cp: "checkpoint (codec sg) i rows d'"
      using ok took(2) tot eq(2)
      by (intro flush_checkpoint [OF _ d' new names run_marks [OF s ok] dbok mk]) (auto simp: run_ok_def)
    have "sheet_ok (rn_current r) [] seen x" if "x \<in> set (put_sheet s' (rn_sheets r))" for x
    proof (cases "x = s'")
      case True
      then show ?thesis using sok c' eq(2) by (auto simp: sheet_ok_def Let_def)
    next
      case False
      then have "x \<in> set (rn_sheets r)" "x \<noteq> s" using that set_put_sheet [OF dist(1) s, of s'] eq(2) by auto
      moreover from this have "is_sheet_name (st_row x) \<noteq> ?n" using same_sheet [OF dist(1) s] by blast
      ultimately show ?thesis using ok n by (auto simp: run_ok_def sheet_ok_def Let_def)
    qed
    then have "run_ok sg i rows seen r'" using ok cp mks sum run(2) by (simp add: run_ok_def r'(2))
    moreover have "map st_row (put_sheet s' (rn_sheets r)) = map st_row (rn_sheets r)"
      using same_sheet [OF dist(1) s] eq(2) by (auto simp: put_sheet_def)
    moreover have "grown (rn_db r) d'" using run(1) d' by (simp add: grown_def)
    ultimately show ?thesis using r' by simp
  qed
qed

subsection \<open>One row\<close>

lemma sheet_rows_snoc: "sheet_rows n (seen @ [src]) = sheet_rows n seen @ (if sr_SheetName src = n then [src] else [])"
  by (simp add: sheet_rows_def)

lemma marks_put_seen:
  assumes "distinct (map (is_sheet_name \<circ> st_row) sheets)" "s \<in> set sheets" "s' = s\<lparr>st_seen := n\<rparr>"
  shows "marks (put_sheet s' sheets) = marks sheets" "map st_committed (put_sheet s' sheets) = map st_committed sheets"
    "map st_row (put_sheet s' sheets) = map st_row sheets"
  using same_sheet [OF assms(1,2)] assms(3) by (auto simp: marks_def put_sheet_def)

text \<open>The sheet the row is of, with the row counted and, after the checkpoint, pending.\<close>

lemma sheet_counted:
  assumes "sheet_ok current pending seen s" "is_sheet_name (st_row s) = sr_SheetName src"
    and pend: "map pd_source pending = (if current = Some (sr_SheetName src) then map pd_source pending else [])"
    and p: "p = (if st_seen s + 1 \<le> is_rows_staged (st_row s) then [] else [\<lparr>pd_source = src, pd_rawJSON = raw\<rparr>])"
  shows "sheet_ok (Some (sr_SheetName src)) (pending @ p) (seen @ [src]) (s\<lparr>st_seen := st_seen s + 1\<rparr>)"
proof -
  let ?mine = "sheet_rows (sr_SheetName src) seen"
  have len: "st_seen s = int (length ?mine)" and c: "is_rows_staged (st_row s) \<le> st_committed s"
    "st_committed s \<le> max (is_rows_staged (st_row s)) (st_seen s)" "0 \<le> is_rows_staged (st_row s)"
    and old: "map pd_source pending = drop (nat (st_committed s)) ?mine"
    using assms(1,2) pend by (auto simp: sheet_ok_def Let_def)
  have "map pd_source (pending @ p) = drop (nat (st_committed s)) (?mine @ [src])"
  proof (cases "st_seen s + 1 \<le> is_rows_staged (st_row s)")
    case True
    then have "length (?mine @ [src]) \<le> nat (st_committed s)" using len c by simp
    then show ?thesis using old p True by simp
  next
    case False
    then have "nat (st_committed s) \<le> length ?mine" using len c by simp
    then show ?thesis using old p False by simp
  qed
  then show ?thesis using assms(2) len c by (auto simp: sheet_ok_def Let_def sheet_rows_snoc)
qed

lemma find_sheet_put: "find_sheet n sheets = Some s \<Longrightarrow> is_sheet_name (st_row s') = n \<Longrightarrow> find_sheet n (put_sheet s' sheets) = Some s'"
  unfolding find_sheet_def put_sheet_def by (induction sheets) (auto split: if_splits)

text \<open>Everything of a run after a row was counted.\<close>

lemma row_counted:
  assumes ok: "run_ok sg i rows seen r" and pre: "prefix (seen @ [src]) rows"
    and s: "find_sheet (sr_SheetName src) (rn_sheets r) = Some s"
    and here: "rn_current r = None \<or> rn_current r = Some (sr_SheetName src) \<or> rn_pending r = []"
    and p: "p = (if st_seen s + 1 \<le> is_rows_staged (st_row s) then [] else [\<lparr>pd_source = src, pd_rawJSON = raw\<rparr>])"
    and raw: "fst (codec sg) src = Inr raw \<or> st_seen s + 1 \<le> is_rows_staged (st_row s)"
    and r': "r' = r\<lparr>rn_current := Some (sr_SheetName src),
        rn_sheets := put_sheet (s\<lparr>st_seen := st_seen s + 1\<rparr>) (rn_sheets r), rn_pending := rn_pending r @ p\<rparr>"
  shows "run_ok sg i rows (seen @ [src]) r' \<and> map st_row (rn_sheets r') = map st_row (rn_sheets r)"
proof -
  let ?n = "sr_SheetName src" and ?s = "s\<lparr>st_seen := st_seen s + 1\<rparr>"
  note dist = run_names_distinct(1) [OF ok]
  have sm: "s \<in> set (rn_sheets r)" "is_sheet_name (st_row s) = ?n" using find_sheet_Some [OF s] by auto
  note same = marks_put_seen [OF dist sm(1) refl]
  have none: "rn_current r = None \<Longrightarrow> rn_pending r = []" using ok by (auto simp: run_ok_def current_sheet_def)
  have "sheet_ok (Some ?n) (rn_pending r @ p) (seen @ [src]) x" if "x \<in> set (put_sheet ?s (rn_sheets r))" for x
  proof (cases "x = ?s")
    case True
    have "sheet_ok (rn_current r) (rn_pending r) seen s" using ok sm(1) by (simp add: run_ok_def)
    from sheet_counted [OF this sm(2) _ p] show ?thesis unfolding True using here none by auto
  next
    case False
    then have x: "x \<in> set (rn_sheets r)" "x \<noteq> s" using that set_put_sheet [OF dist sm(1), of ?s] by auto
    then have "is_sheet_name (st_row x) \<noteq> ?n" using same_sheet [OF dist sm(1)] sm(2) by auto
    moreover have "sheet_ok (rn_current r) (rn_pending r) seen x" using ok x(1) by (simp add: run_ok_def)
    ultimately show ?thesis using here none by (auto simp: sheet_ok_def Let_def sheet_rows_snoc split: if_splits)
  qed
  moreover have "current_sheet r' = Some ?s"
    using find_sheet_put [OF s, of ?s] sm(2) by (simp add: current_sheet_def r')
  moreover have "\<forall>q \<in> set (rn_pending r @ p). fst (codec sg) (pd_source q) = Inr (pd_rawJSON q)"
    using ok raw p by (auto simp: run_ok_def split: if_splits)
  ultimately show ?thesis using ok pre same by (simp add: run_ok_def r')
qed

text \<open>What holds of the database whatever a step of a run returned.\<close>

definition kept :: "'d stage_env \<Rightarrow> int \<Rightarrow> SourceRow list \<Rightarrow> db \<Rightarrow> db \<Rightarrow> bool" where
  "kept sg i rows d d' \<longleftrightarrow> grown d d' \<and> db_ok d' \<and> checkpoint (codec sg) i rows d'
     \<and> map (fst \<circ> snd) (sheet_marks d' i) = map (fst \<circ> snd) (sheet_marks d i)"

lemma kept_refl: "run_ok sg i rows seen r \<Longrightarrow> kept sg i rows (rn_db r) (rn_db r)"
  by (simp add: kept_def run_ok_def)

lemma run_sheet_names:
  assumes "run_ok sg i rows seen r"
  shows "map (fst \<circ> snd) (sheet_marks (rn_db r) i) = map is_sheet_name (map st_row (rn_sheets r))"
proof -
  have "sheet_marks (rn_db r) i = marks (rn_sheets r)" using assms by (simp add: run_ok_def)
  then show ?thesis by (simp add: marks_def comp_def)
qed

lemma kept_trans: "kept sg i rows d e \<Longrightarrow> kept sg i rows e f \<Longrightarrow> kept sg i rows d f"
  unfolding kept_def using grown_trans by auto

lemma flush_kept:
  assumes "run_ok sg i rows seen r" "flush sg claimed r = (res, r')" "im_id claimed = i"
  shows "kept sg i rows (rn_db r) (rn_db r')
    \<and> (res = None \<longrightarrow> run_ok sg i rows seen r' \<and> rn_pending r' = [] \<and> map st_row (rn_sheets r') = map st_row (rn_sheets r))"
proof (cases res)
  case None
  with flush_ok [OF assms] have "grown (rn_db r) (rn_db r')" "run_ok sg i rows seen r'" "rn_pending r' = []"
    "map st_row (rn_sheets r') = map st_row (rn_sheets r)" by auto
  with run_sheet_names [OF assms(1)] run_sheet_names [OF this(2)] show ?thesis by (simp add: kept_def run_ok_def)
next
  case (Some e)
  with flush_ok [OF assms] kept_refl [OF assms(1)] show ?thesis by simp
qed

lemma stage_row_ok:
  assumes ok: "run_ok sg i rows seen r" and pre: "prefix (seen @ [src]) rows" and i: "im_id claimed = i"
    and here: "rn_current r = None \<or> rn_current r = Some (sr_SheetName src) \<or> rn_pending r = []"
    and st: "stage_row sg claimed src r = (res, r')"
  shows "kept sg i rows (rn_db r) (rn_db r')
    \<and> (res = None \<longrightarrow> run_ok sg i rows (seen @ [src]) r' \<and> map st_row (rn_sheets r') = map st_row (rn_sheets r))"
proof (cases "find_sheet (sr_SheetName src) (rn_sheets r)")
  case None
  with st kept_refl [OF ok] show ?thesis by (auto simp: stage_row_def)
next
  case (Some s)
  let ?r = "r\<lparr>rn_current := Some (sr_SheetName src), rn_sheets := put_sheet (s\<lparr>st_seen := st_seen s + 1\<rparr>) (rn_sheets r)\<rparr>"
  show ?thesis
  proof (cases "st_seen s + 1 \<le> is_rows_staged (st_row s)")
    case True
    with st Some have "res = None" "r' = ?r" by (auto simp: stage_row_def Let_def)
    with row_counted [OF ok pre Some here refl, of _ r'] True kept_refl [OF ok] show ?thesis by simp
  next
    case late: False
    show ?thesis
    proof (cases "lv_marshal_row (sg_legacy sg) src")
      case (Inl e)
      with st Some late have "res \<noteq> None" "rn_db r' = rn_db r" by (auto simp: stage_row_def Let_def)
      with kept_refl [OF ok] show ?thesis by auto
    next
      case (Inr raw)
      let ?r2 = "?r\<lparr>rn_pending := rn_pending r @ [\<lparr>pd_source = src, pd_rawJSON = raw\<rparr>]\<rparr>"
      have r2: "run_ok sg i rows (seen @ [src]) ?r2 \<and> map st_row (rn_sheets ?r2) = map st_row (rn_sheets r)"
        by (rule row_counted [OF ok pre Some here refl]) (use late Inr in \<open>auto simp: codec_def\<close>)
      have "stage_row sg claimed src r = (if int (length (rn_pending ?r2)) \<ge> sc_BatchSize (sg_config sg) then flush sg claimed ?r2 else (None, ?r2))"
        using Some late Inr by (simp add: stage_row_def Let_def)
      with st consider "flush sg claimed ?r2 = (res, r')" | "res = None" "r' = ?r2" by (metis prod.inject)
      then show ?thesis
      proof cases
        case 1
        from flush_kept [OF conjunct1 [OF r2] 1 i] r2 show ?thesis by simp
      next
        case 2
        with r2 kept_refl [OF ok] show ?thesis by simp
      qed
    qed
  qed
qed

lemma stage_sink_ok:
  assumes ok: "run_ok sg i rows seen r" and pre: "prefix (seen @ [src]) rows" and i: "im_id claimed = i"
    and st: "stage_sink sg claimed src r = (res, r')"
  shows "kept sg i rows (rn_db r) (rn_db r')
    \<and> (res = None \<longrightarrow> run_ok sg i rows (seen @ [src]) r' \<and> map st_row (rn_sheets r') = map st_row (rn_sheets r))"
proof (cases "find_sheet (sr_SheetName src) (rn_sheets r)")
  case None
  with st kept_refl [OF ok] show ?thesis by (auto simp: stage_sink_def)
next
  case (Some s)
  show ?thesis
  proof (cases "rn_current r \<noteq> None \<and> rn_current r \<noteq> Some (sr_SheetName src)")
    case False
    with st Some have "stage_row sg claimed src r = (res, r')" by (auto simp: stage_sink_def)
    from stage_row_ok [OF ok pre i _ this] False show ?thesis by blast
  next
    case True
    obtain res1 r1 where fl: "flush sg claimed r = (res1, r1)" by fastforce
    note fk = flush_kept [OF ok fl i]
    show ?thesis
    proof (cases res1)
      case (Some e)
      with st True fl \<open>find_sheet _ _ = Some s\<close> fk show ?thesis by (auto simp: stage_sink_def)
    next
      case None
      with st True fl Some have "stage_row sg claimed src r1 = (res, r')" by (auto simp: stage_sink_def)
      from stage_row_ok [OF _ pre i _ this] fk None show ?thesis by (auto intro: kept_trans)
    qed
  qed
qed

lemma feed_ok:
  assumes "run_ok sg i rows seen r" "prefix (seen @ later) rows" "im_id claimed = i"
    "feed (stage_sink sg claimed) later r = (res, r')"
  shows "kept sg i rows (rn_db r) (rn_db r')
    \<and> (res = None \<longrightarrow> run_ok sg i rows (seen @ later) r' \<and> map st_row (rn_sheets r') = map st_row (rn_sheets r))"
  using assms
proof (induction later arbitrary: seen r)
  case Nil
  then show ?case using kept_refl by auto
next
  case (Cons src later)
  obtain res1 r1 where st: "stage_sink sg claimed src r = (res1, r1)" by fastforce
  have pre: "prefix (seen @ [src]) rows" using Cons.prems(2) by (auto simp: prefix_def)
  note step = stage_sink_ok [OF Cons.prems(1) pre Cons.prems(3) st]
  show ?case
  proof (cases res1)
    case (Some e)
    with Cons.prems(4) st step show ?thesis by auto
  next
    case None
    with Cons.prems(4) st have "feed (stage_sink sg claimed) later r1 = (res, r')" by simp
    with Cons.IH [of "seen @ [src]" r1] Cons.prems(2,3) step None show ?thesis by (auto intro: kept_trans)
  qed
qed

end
