(* ===== verification/StagingOutcome.thy ===== *)
theory StagingOutcome
  imports StagingRun SecretLaws
begin

text \<open>
  The outcome of a whole run: completing the sheets and the import, and that every call of \<open>Stage\<close>,
  whatever it returns, keeps the checkpoint.
\<close>

subsection \<open>The order of the sheets\<close>

lemma ordered_fold:
  assumes "\<forall>k < length sheets. is_sheet_order (st_row (sheets ! k)) = int (length pre + k) + 1"
  shows "fold (\<lambda>sheet ordered. ordered[nat (is_sheet_order (st_row sheet) - 1) := Some sheet]) sheets
    (pre @ replicate (length sheets) None) = pre @ map Some sheets"
  using assms
proof (induction sheets arbitrary: pre)
  case (Cons x sheets)
  have x: "is_sheet_order (st_row x) = int (length pre) + 1" using Cons.prems [rule_format, of 0] by simp
  have "is_sheet_order (st_row (sheets ! k)) = int (length (pre @ [Some x]) + k) + 1" if "k < length sheets" for k
    using Cons.prems [rule_format, of "Suc k"] that by simp
  then show ?case using Cons.IH [of "pre @ [Some x]"] x by (simp add: list_update_append)
qed simp

lemma orderedStagingSheets_id:
  assumes "\<forall>k < length sheets. is_sheet_order (st_row (sheets ! k)) = int k + 1"
  shows "orderedStagingSheets sheets = map Some sheets"
  using ordered_fold [of sheets "[]"] assms by (simp add: orderedStagingSheets_def)

subsection \<open>Loading\<close>

text \<open>What the loaded sheets and the plan are, row by row.\<close>

definition loaded :: "'d stage_env \<Rightarrow> ImportSheet \<Rightarrow> stagedSheet \<Rightarrow> SheetPlan \<Rightarrow> bool" where
  "loaded sg row s sheet \<longleftrightarrow>
     s = \<lparr>st_row = row, st_seen = 0, st_committed = is_rows_staged row\<rparr> \<and> 0 \<le> is_rows_staged row
     \<and> DecodeSheetPlan (sg_unicode sg) (sg_json sg) (is_sheet_name row) (is_sheet_order row)
         (is_sheet_profile row) (is_header_map row) = Inr sheet"

lemma load_rows_Inr:
  assumes "load_rows sg index rows sheets plan tot = Inr (sheets', plan', tot')"
  shows "\<exists>new newp. sheets' = sheets @ new \<and> plan' = plan @ newp \<and> length new = length rows \<and> length newp = length rows
    \<and> (\<forall>k < length rows. loaded sg (rows ! k) (new ! k) (newp ! k) \<and> is_sheet_order (rows ! k) = index + int k + 1)
    \<and> tot' = tot + sum_list (map is_rows_staged rows)"
  using assms
proof (induction rows arbitrary: index sheets plan tot)
  case Nil
  then show ?case by simp
next
  case (Cons row rows)
  let ?s = "\<lparr>st_row = row, st_seen = 0, st_committed = is_rows_staged row\<rparr>"
  from Cons.prems obtain decoded where dec: "DecodeSheetPlan (sg_unicode sg) (sg_json sg) (is_sheet_name row) (is_sheet_order row)
      (is_sheet_profile row) (is_header_map row) = Inr decoded"
    and rest: "load_rows sg (index + 1) rows (sheets @ [?s]) (plan @ [decoded]) (tot + is_rows_staged row) = Inr (sheets', plan', tot')"
    and row: "is_sheet_order row = index + 1" "0 \<le> is_rows_staged row"
    by (auto simp: Let_def split: if_splits sum.splits)
  from Cons.IH [OF rest] obtain new newp where
    new: "sheets' = sheets @ ?s # new" "plan' = plan @ decoded # newp" "length new = length rows" "length newp = length rows"
      "\<forall>k < length rows. loaded sg (rows ! k) (new ! k) (newp ! k) \<and> is_sheet_order (rows ! k) = index + 1 + int k + 1"
      "tot' = tot + is_rows_staged row + sum_list (map is_rows_staged rows)" by auto
  have "\<forall>k < Suc (length rows). loaded sg ((row # rows) ! k) ((?s # new) ! k) ((decoded # newp) ! k)
      \<and> is_sheet_order ((row # rows) ! k) = index + int k + 1"
    using new(5) dec row by (auto simp: loaded_def less_Suc_eq_0_disj)
  then show ?case using new by (intro exI [of _ "?s # new"] exI [of _ "decoded # newp"]) simp
qed

lemma loadStagingSheets_Inr:
  assumes "loadStagingSheets sg claimed d = Inr (sheets, plan)"
  shows "map st_row sheets = q_ListImportSheets d (im_id claimed)" "marks sheets = sheet_marks d (im_id claimed)"
    "map sp_Name plan = map (is_sheet_name \<circ> st_row) sheets"
    "\<forall>k < length sheets. is_sheet_order (st_row (sheets ! k)) = int k + 1"
    "\<forall>s \<in> set sheets. sheet_ok None [] [] s" "im_rows_total claimed = sum_list (map st_committed sheets)"
proof -
  let ?q = "q_ListImportSheets d (im_id claimed)"
  from assms have "load_rows sg 0 ?q [] [] 0 = Inr (sheets, plan, im_rows_total claimed)"
    by (auto simp: loadStagingSheets_def split: list.splits sum.splits if_splits)
  from load_rows_Inr [OF this] have l: "length sheets = length ?q" "length plan = length ?q"
    "\<forall>k < length ?q. loaded sg (?q ! k) (sheets ! k) (plan ! k) \<and> is_sheet_order (?q ! k) = int k + 1"
    "im_rows_total claimed = sum_list (map is_rows_staged ?q)" by auto
  show rows: "map st_row sheets = ?q" using l(1,3) by (intro nth_equalityI) (auto simp: loaded_def)
  have com: "map st_committed sheets = map is_rows_staged ?q" using l(1,3) by (intro nth_equalityI) (auto simp: loaded_def)
  show "marks sheets = sheet_marks d (im_id claimed)"
    unfolding marks_def sheet_marks_def using l(1,3) by (intro nth_equalityI) (auto simp: loaded_def)
  have "sp_Name (plan ! k) = is_sheet_name (?q ! k)" if "k < length ?q" for k
    using l(3) that DecodeSheetPlan_Inr [of "sg_unicode sg" "sg_json sg"] by (auto simp: loaded_def)
  then show "map sp_Name plan = map (is_sheet_name \<circ> st_row) sheets"
    using l by (intro nth_equalityI) (auto simp: loaded_def)
  show "\<forall>k < length sheets. is_sheet_order (st_row (sheets ! k)) = int k + 1" using l(1,3) by (auto simp: loaded_def)
  show "\<forall>s \<in> set sheets. sheet_ok None [] [] s"
    using l(1,3) by (auto simp: loaded_def sheet_ok_def sheet_rows_def in_set_conv_nth)
  show "im_rows_total claimed = sum_list (map st_committed sheets)" using l(4) com by simp
qed

subsection \<open>Statements that leave the staged rows alone\<close>

lemma checkpoint_cong:
  assumes "checkpoint cd i rows d" "import_rows d' = import_rows d" "legacy_import_rows d' = legacy_import_rows d"
    "sheet_marks d' i = sheet_marks d i"
    "\<forall>im \<in> set (imports_tbl d'). im_id im = i \<longrightarrow> im_rows_total im = sum_list (map (snd \<circ> snd) (sheet_marks d i))"
  shows "checkpoint cd i rows d'"
  using assms by (simp add: checkpoint_def mark_ok_def staged_rows_def)

lemma upd_import_kept:
  assumes "upd_import d i cond f = Inr (r', d')" "statement d d'" "db_ok d" "checkpoint (codec sg) i rows d"
    and f: "\<And>x. im_id (f x) = im_id x"
    and tot: "\<And>r. r \<in> set (imports_tbl d) \<Longrightarrow> im_id r = i \<Longrightarrow> im_rows_total (f r) = sum_list (map (snd \<circ> snd) (sheet_marks d i))"
  shows "kept sg i rows d d' \<and> q_ListImportSheets d' i = q_ListImportSheets d i \<and> im_id r' = i
    \<and> im_rows_total r' = sum_list (map (snd \<circ> snd) (sheet_marks d i))"
proof -
  from assms(1,3) f obtain r t where r: "r \<in> set (imports_tbl d)" "im_id r = i" "r' = f r" "d' = d\<lparr>imports_tbl := t\<rparr>"
    "\<forall>x \<in> set t. im_id x = i \<longrightarrow> x = r'" by (rule upd_import_rows) (rule that)
  have r': "im_rows_total r' = sum_list (map (snd \<circ> snd) (sheet_marks d i))" using tot [OF r(1,2)] r(3) by simp
  have list: "q_ListImportSheets d' j = q_ListImportSheets d j" for j by (simp add: r(4) q_ListImportSheets_def)
  have tots: "\<forall>x \<in> set t. im_id x = i \<longrightarrow> im_rows_total x = sum_list (map (snd \<circ> snd) (sheet_marks d i))"
    using r(5) r' by metis
  have "checkpoint (codec sg) i rows d'"
    using tots by (intro checkpoint_cong [OF assms(4)]) (simp_all add: r(4) sheet_marks_def q_ListImportSheets_def)
  moreover have "db_ok d'" using statements_ok [of d d'] assms(2,3) by blast
  moreover have "grown d d'" using grown_step [OF assms(2)] by (simp add: r(4))
  ultimately show ?thesis using list f r(2,3) r' by (simp add: kept_def sheet_marks_def)
qed

lemma total_of: "checkpoint cd i rows d \<Longrightarrow> r \<in> set (imports_tbl d) \<Longrightarrow> im_id r = i
    \<Longrightarrow> im_rows_total r = sum_list (map (snd \<circ> snd) (sheet_marks d i))"
  by (simp add: checkpoint_def)

subsection \<open>Completing the sheets\<close>

lemma complete_sheet_kept:
  assumes q: "q_CompleteImportSheetStaging d found n upd sid i owner now = Inr (r', d')"
    and d: "db_ok d" "checkpoint (codec sg) i rows d" and m: "(sid, name, n) \<in> set (sheet_marks d i)"
  shows "kept sg i rows d d' \<and> sheet_marks d' i = sheet_marks d i
    \<and> (\<forall>sh \<in> set (q_ListImportSheets d' i). is_id sh = sid \<and> is_rows_found sh = found \<and> is_status sh = ''staged''
         \<or> is_id sh \<noteq> sid \<and> sh \<in> set (q_ListImportSheets d i))"
proof -
  note q' = q [unfolded q_CompleteImportSheetStaging_def]
  have list: "q_ListImportSheets d' i = map (\<lambda>sh. if is_id sh = sid then sh\<lparr>is_rows_found := found, is_rows_staged := n,
      is_status := ''staged'', is_updated_at := upd\<rparr> else sh) (q_ListImportSheets d i)"
    by (rule upd_import_sheet_list(1) [OF q' d(1)]) simp
  obtain t where t: "d' = d\<lparr>import_sheets := t\<rparr>" using upd_import_sheet_list(2) [OF q' d(1)] by auto
  have "is_rows_staged sh = n" if "sh \<in> set (q_ListImportSheets d i)" "is_id sh = sid" for sh
  proof -
    have "(sid, is_sheet_name sh, is_rows_staged sh) \<in> set (sheet_marks d i)" using that by (auto simp: sheet_marks_def)
    from eq_key_imp_eq_value [OF marks_distinct(1) [OF d(1)] m this] show ?thesis by simp
  qed
  then have mk: "sheet_marks d' i = sheet_marks d i" by (auto simp: sheet_marks_def list)
  have st: "statement d d'" by (rule statement.complete_sheet [OF q])
  have "checkpoint (codec sg) i rows d'"
    using d(2) mk by (intro checkpoint_cong [OF d(2)]) (auto simp: t checkpoint_def)
  moreover have "grown d d'" using grown_step [OF st] by (simp add: t)
  moreover have "db_ok d'" using statements_ok [of d d'] st d(1) by blast
  ultimately show ?thesis using mk by (auto simp: kept_def list)
qed

lemma complete_sheets_kept:
  assumes "complete_sheets sg claimed k (map Some sheets) d = (res, k', d')" "im_id claimed = i"
    and "db_ok d" "checkpoint (codec sg) i rows d"
    and "\<forall>s \<in> set sheets. (is_id (st_row s), is_sheet_name (st_row s), st_committed s) \<in> set (sheet_marks d i)"
    and "\<forall>sh \<in> set (q_ListImportSheets d i). is_id sh \<in> done \<longrightarrow> is_status sh = ''staged'' \<and> is_rows_found sh = is_rows_staged sh"
  shows "kept sg i rows d d' \<and> sheet_marks d' i = sheet_marks d i
    \<and> (res = None \<longrightarrow> (\<forall>sh \<in> set (q_ListImportSheets d' i). is_id sh \<in> done \<union> (is_id \<circ> st_row) ` set sheets
         \<longrightarrow> is_status sh = ''staged'' \<and> is_rows_found sh = is_rows_staged sh))"
  using assms
proof (induction sheets arbitrary: k d "done")
  case Nil
  then show ?case by (auto simp: kept_def)
next
  case (Cons s sheets)
  show ?case
  proof (cases "st_seen s < is_rows_staged (st_row s) \<or> st_committed s \<noteq> st_seen s")
    case True
    with Cons.prems show ?thesis by (auto simp: kept_def)
  next
    case fine: False
    show ?thesis
    proof (cases "q_CompleteImportSheetStaging d (st_seen s) (st_committed s) (now_text sg k) (is_id (st_row s)) i
        (im_lease_owner claimed) (Some (now_text sg k))")
      case (Inl e)
      with Cons.prems fine show ?thesis by (auto simp: kept_def)
    next
      case (Inr out)
      obtain x d1 where q: "q_CompleteImportSheetStaging d (st_seen s) (st_committed s) (now_text sg k) (is_id (st_row s)) i
        (im_lease_owner claimed) (Some (now_text sg k)) = Inr (x, d1)" using Inr by (cases out) auto
      have m: "(is_id (st_row s), is_sheet_name (st_row s), st_committed s) \<in> set (sheet_marks d i)" using Cons.prems(5) by simp
      note one = complete_sheet_kept [OF q Cons.prems(3,4) m]
      have rest: "complete_sheets sg claimed (k + 1) (map Some sheets) d1 = (res, k', d')"
        using Cons.prems(1,2) fine q by auto
      have done1: "\<forall>sh \<in> set (q_ListImportSheets d1 i). is_id sh \<in> insert (is_id (st_row s)) done
          \<longrightarrow> is_status sh = ''staged'' \<and> is_rows_found sh = is_rows_staged sh"
      proof (intro ballI impI)
        fix sh assume sh: "sh \<in> set (q_ListImportSheets d1 i)" "is_id sh \<in> insert (is_id (st_row s)) done"
        show "is_status sh = ''staged'' \<and> is_rows_found sh = is_rows_staged sh"
        proof (cases "is_id sh = is_id (st_row s)")
          case True
          have "(is_id sh, is_sheet_name sh, is_rows_staged sh) \<in> set (sheet_marks d1 i)" using sh(1) by (auto simp: sheet_marks_def)
          then have "is_rows_staged sh = st_committed s"
            using one m True eq_key_imp_eq_value [OF marks_distinct(1) [OF Cons.prems(3)] m] by auto
          then show ?thesis using one sh(1) True fine by auto
        next
          case False
          then show ?thesis using one sh Cons.prems(6) by auto
        qed
      qed
      from one have "db_ok d1" "checkpoint (codec sg) i rows d1" by (simp_all add: kept_def)
      from Cons.IH [OF rest Cons.prems(2) this _ done1] one Cons.prems(5)
      show ?thesis by (auto intro: kept_trans)
    qed
  qed
qed

subsection \<open>The end of a run\<close>

lemma cleanup_kept:
  assumes cl: "cleanupStagedSource sg fs k claimed d s = (res, d', s')" and i: "im_id claimed = i"
    and d: "db_ok d" "checkpoint (codec sg) i rows d"
  shows "kept sg i rows d d' \<and> q_ListImportSheets d' i = q_ListImportSheets d i
    \<and> (\<forall>out. res = Inr out \<longrightarrow> so_ImportID out = i \<and> so_RowsStaged out = im_rows_total claimed)"
proof (cases "im_temp_file_token claimed")
  case None
  with cl i d show ?thesis by (auto simp: cleanupStagedSource_def kept_def)
next
  case (Some token)
  obtain de s1 where del: "fs_Delete fs token s = (de, s1)" by fastforce
  show ?thesis
  proof (cases "q_ClearImportTempFile d (now_text sg k) i (im_lease_owner claimed)")
    case (Inl e)
    with cl i d Some del show ?thesis by (cases de) (auto simp: cleanupStagedSource_def kept_def)
  next
    case (Inr x)
    then obtain r' d1 where q: "q_ClearImportTempFile d (now_text sg k) i (im_lease_owner claimed) = Inr (r', d1)" by (cases x) auto
    have "kept sg i rows d d1 \<and> q_ListImportSheets d1 i = q_ListImportSheets d i"
      using upd_import_kept [OF q [unfolded q_ClearImportTempFile_def] statement.clear_temp_file [OF q] d] total_of [OF d(2)] by simp
    with cl i d Some del q show ?thesis by (cases de) (auto simp: cleanupStagedSource_def kept_def)
  qed
qed

text \<open>An import whose sheets are staged to the last row.\<close>

definition all_staged :: "codec \<Rightarrow> int \<Rightarrow> SourceRow list \<Rightarrow> db \<Rightarrow> bool" where
  "all_staged cd i rows d \<longleftrightarrow>
     (\<forall>sh \<in> set (q_ListImportSheets d i). is_status sh = ''staged'' \<and> is_rows_found sh = is_rows_staged sh
        \<and> is_rows_staged sh = int (length (sheet_rows (is_sheet_name sh) rows))
        \<and> list_all2 (staged_as cd (legacy_import_rows d)) (sheet_rows (is_sheet_name sh) rows) (staged_rows d i (is_sheet_name sh)))"

lemma sheet_finished:
  assumes ok: "run_ok sg i rows rows r" "rn_pending r = []" and s: "s \<in> set (rn_sheets r)"
  shows "st_committed s = int (length (sheet_rows (is_sheet_name (st_row s)) rows))"
proof -
  have "sheet_ok (rn_current r) (rn_pending r) rows s" using ok(1) s by (simp add: run_ok_def)
  then have "drop (nat (st_committed s)) (sheet_rows (is_sheet_name (st_row s)) rows) = []"
    using ok(2) by (auto simp: sheet_ok_def Let_def split: if_splits)
  moreover have "mark_ok (codec sg) i rows (rn_db r) (is_sheet_name (st_row s)) (st_committed s)"
    using run_marks [OF s ok(1)] ok(1) by (auto simp: run_ok_def checkpoint_def)
  ultimately show ?thesis by (auto simp: mark_ok_def)
qed

lemma finished_all_staged:
  assumes "checkpoint cd i rows d" "\<forall>(sid, name, n) \<in> set (sheet_marks d i). n = int (length (sheet_rows name rows))"
    "\<forall>sh \<in> set (q_ListImportSheets d i). is_status sh = ''staged'' \<and> is_rows_found sh = is_rows_staged sh"
  shows "all_staged cd i rows d"
proof -
  have "is_rows_staged sh = int (length (sheet_rows (is_sheet_name sh) rows))
      \<and> list_all2 (staged_as cd (legacy_import_rows d)) (sheet_rows (is_sheet_name sh) rows) (staged_rows d i (is_sheet_name sh))"
    if "sh \<in> set (q_ListImportSheets d i)" for sh
  proof -
    have m: "(is_id sh, is_sheet_name sh, is_rows_staged sh) \<in> set (sheet_marks d i)" using that by (auto simp: sheet_marks_def)
    then have n: "is_rows_staged sh = int (length (sheet_rows (is_sheet_name sh) rows))" using assms(2) by auto
    have "mark_ok cd i rows d (is_sheet_name sh) (is_rows_staged sh)" using m assms(1) by (auto simp: checkpoint_def)
    then show ?thesis unfolding mark_ok_def n by simp
  qed
  then show ?thesis using assms(3) by (simp add: all_staged_def)
qed

lemma all_staged_cong:
  "all_staged cd i rows d \<Longrightarrow> q_ListImportSheets d' i = q_ListImportSheets d i \<Longrightarrow> import_rows d' = import_rows d
    \<Longrightarrow> legacy_import_rows d' = legacy_import_rows d \<Longrightarrow> all_staged cd i rows d'"
  by (simp add: all_staged_def staged_rows_def)

text \<open>What a run that returns an outcome has done.\<close>

definition completed :: "codec \<Rightarrow> int \<Rightarrow> SourceRow list \<Rightarrow> db \<Rightarrow> StageOutcome \<Rightarrow> bool" where
  "completed cd i rows d out \<longleftrightarrow>
     all_staged cd i rows d \<and> so_ImportID out = i \<and> so_RowsStaged out = sum_list (map is_rows_staged (q_ListImportSheets d i))
     \<and> so_SheetsStaged out = int (length (q_ListImportSheets d i))"

lemma marks_total:
  assumes "marks sheets = sheet_marks d i"
  shows "sum_list (map st_committed sheets) = sum_list (map is_rows_staged (q_ListImportSheets d i))"
    "length sheets = length (q_ListImportSheets d i)"
proof -
  have "map (snd \<circ> snd) (marks sheets) = map (snd \<circ> snd) (sheet_marks d i)" "length (marks sheets) = length (sheet_marks d i)"
    using assms by simp_all
  then show "sum_list (map st_committed sheets) = sum_list (map is_rows_staged (q_ListImportSheets d i))"
    "length sheets = length (q_ListImportSheets d i)" by (simp_all add: marks_def sheet_marks_def comp_def)
qed

lemma finish_kept:
  assumes fin: "finish sg fs claimed r s = (res, d', s')" and i: "im_id claimed = i"
    and ok: "run_ok sg i rows rows r" "rn_pending r = []"
    and order: "\<forall>k < length (rn_sheets r). is_sheet_order (st_row (rn_sheets r ! k)) = int k + 1"
  shows "kept sg i rows (rn_db r) d' \<and> (\<forall>out. res = Inr out \<longrightarrow> completed (codec sg) i rows d' out)"
proof -
  let ?d = "rn_db r"
  have d: "db_ok ?d" "checkpoint (codec sg) i rows ?d" "marks (rn_sheets r) = sheet_marks ?d i"
    "rn_total r = sum_list (map st_committed (rn_sheets r))" using ok(1) by (simp_all add: run_ok_def)
  have sum: "sum_list (map (snd \<circ> snd) (sheet_marks ?d i)) = rn_total r"
    unfolding d(3) [symmetric] d(4) by (simp add: marks_def comp_def)
  have ids: "is_id ` set (q_ListImportSheets e i) = (is_id \<circ> st_row) ` set (rn_sheets r)" if "sheet_marks e i = sheet_marks ?d i" for e
  proof -
    have "set (map fst (sheet_marks e i)) = set (map fst (marks (rn_sheets r)))" using that d(3) by simp
    then show ?thesis by (simp add: sheet_marks_def marks_def comp_def)
  qed
  obtain e k d1 where com: "complete_sheets sg claimed (rn_tick r) (map Some (rn_sheets r)) ?d = (e, k, d1)" using prod_cases3 by blast
  have "kept sg i rows ?d d1 \<and> sheet_marks d1 i = sheet_marks ?d i
    \<and> (e = None \<longrightarrow> (\<forall>sh \<in> set (q_ListImportSheets d1 i). is_id sh \<in> {} \<union> (is_id \<circ> st_row) ` set (rn_sheets r)
         \<longrightarrow> is_status sh = ''staged'' \<and> is_rows_found sh = is_rows_staged sh))"
    by (rule complete_sheets_kept [OF com i d(1,2)]) (use run_marks [OF _ ok(1)] in auto)
  then have d1: "kept sg i rows ?d d1" "sheet_marks d1 i = sheet_marks ?d i"
    "e = None \<Longrightarrow> \<forall>sh \<in> set (q_ListImportSheets d1 i). is_status sh = ''staged'' \<and> is_rows_found sh = is_rows_staged sh"
    using ids by fastforce+
  note fin = fin [unfolded finish_def orderedStagingSheets_id [OF order] com Let_def]
  show ?thesis
  proof (cases "e = None \<and> is_ok (q_CompleteImportStaging d1 (rn_total r) (now_text sg k) (lease_text sg k) i (im_lease_owner claimed))")
    case False
    with fin i d1(1) show ?thesis by (cases e) (auto simp: is_ok_iff split: sum.splits)
  next
    case True
    then obtain im d2 where q: "q_CompleteImportStaging d1 (rn_total r) (now_text sg k) (lease_text sg k) i (im_lease_owner claimed)
        = Inr (im, d2)" by (auto simp: is_ok_iff)
    have d1ok: "db_ok d1" "checkpoint (codec sg) i rows d1" using d1(1) by (simp_all add: kept_def)
    have two: "kept sg i rows d1 d2 \<and> q_ListImportSheets d2 i = q_ListImportSheets d1 i \<and> im_id im = i \<and> im_rows_total im = rn_total r"
      using upd_import_kept [OF q [unfolded q_CompleteImportStaging_def] statement.complete_staging [OF q] d1ok] sum d1(2) by simp
    obtain cres d3 s3 where cl: "cleanupStagedSource sg fs (k + 1) im d2 s = (cres, d3, s3)" using prod_cases3 by blast
    have "kept sg i rows d2 d3 \<and> q_ListImportSheets d3 i = q_ListImportSheets d2 i
      \<and> (\<forall>out. cres = Inr out \<longrightarrow> so_ImportID out = i \<and> so_RowsStaged out = rn_total r)"
      using cleanup_kept [OF cl, of i rows] two by (simp add: kept_def [of _ _ _ d1])
    note three = this
    have "kept sg i rows ?d d3" using d1(1) two three kept_trans by blast
    moreover have mk: "marks (rn_sheets r) = sheet_marks d3 i" using two three d1(2) d(3) by (simp add: sheet_marks_def)
    moreover have "all_staged (codec sg) i rows d3"
    proof (rule finished_all_staged)
      show "checkpoint (codec sg) i rows d3" using three by (simp add: kept_def)
      from mk [symmetric] show "\<forall>(sid, name, n) \<in> set (sheet_marks d3 i). n = int (length (sheet_rows name rows))"
        using sheet_finished [OF ok] by (auto simp: marks_def)
      show "\<forall>sh \<in> set (q_ListImportSheets d3 i). is_status sh = ''staged'' \<and> is_rows_found sh = is_rows_staged sh"
        using d1(3) True two three by simp
    qed
    ultimately show ?thesis using fin i True q cl three d(4) marks_total [OF mk] by (cases cres) (auto simp: completed_def)
  qed
qed

subsection \<open>The whole call\<close>

definition emitted_rows :: "'d stage_env \<Rightarrow> xlsx_file \<Rightarrow> WorkbookPlan \<Rightarrow> SourceRow list" where
  "emitted_rows sg file plan =
     snd (snd (emitted (sg_legacy sg) no_cancel file plan (sc_LegacyLimits (sg_config sg)) :: stage_failure stop option \<times> _))"

text \<open>A walk feeds the sink a prefix of the rows, and all of them when it ends without an error.\<close>

lemma Parse_feeds_prefix:
  assumes "Parse (sg_legacy sg) ctx file plan (sc_LegacyLimits (sg_config sg)) (sink :: ('s, stage_failure) sink) r = (stop, stats, r')"
  obtains fed res where "prefix fed (emitted_rows sg file plan)" "feed sink fed r = (res, r')"
    "stop = None \<Longrightarrow> fed = emitted_rows sg file plan \<and> res = None"
proof -
  let ?lim = "sc_LegacyLimits (sg_config sg)"
  obtain st sts em where em: "(emitted (sg_legacy sg) ctx file plan ?lim :: stage_failure stop option \<times> _) = (st, sts, em)"
    using prod_cases3 by blast
  from Parse_emitted [OF em, of sink]
  have str: "streams (Parse (sg_legacy sg) ctx file plan ?lim sink) sink em st sts" by blast
  have cut: "cut_short (st, sts, em) (emitted (sg_legacy sg) no_cancel file plan ?lim :: stage_failure stop option \<times> _)"
    using emitted_cut [of "sg_legacy sg" ctx "file" plan ?lim] em by metis
  have pre: "prefix em (emitted_rows sg file plan)" using cut by (auto simp: cut_short_def emitted_rows_def dest!: sym [of "(st, sts, em)"])
  have full: "st = None \<Longrightarrow> em = emitted_rows sg file plan" using cut by (auto simp: cut_short_def emitted_rows_def dest!: sym [of "(None, sts, em)"])
  obtain res t where fd: "feed sink em r = (res, t)" by fastforce
  show thesis
  proof (cases res)
    case None
    with streams_None [OF str, of r t] fd assms have "stop = st" "t = r'" by auto
    then show ?thesis using that [OF pre, of res] fd full None by auto
  next
    case (Some e)
    with streams_Some [OF str, of r e t] fd assms have "stop \<noteq> None" "t = r'" by auto
    then show ?thesis using that [OF pre, of res] fd by auto
  qed
qed

lemma stage_workbook_kept:
  assumes wb: "stage_workbook sg fs claimed file plan r s = (res, d', s')" and i: "im_id claimed = i"
    and ok: "run_ok sg i rows [] r" and rows: "rows = emitted_rows sg file plan"
    and order: "\<forall>k < length (rn_sheets r). is_sheet_order (st_row (rn_sheets r ! k)) = int k + 1"
  shows "kept sg i rows (rn_db r) d' \<and> (\<forall>out. res = Inr out \<longrightarrow> completed (codec sg) i rows d' out)"
proof -
  obtain stop stats r1 where pa: "Parse (sg_legacy sg) (sg_cancel sg) file plan (sc_LegacyLimits (sg_config sg)) (stage_sink sg claimed) r
      = (stop, stats, r1)" using prod_cases3 by blast
  obtain fed fres where fed: "prefix fed rows" "feed (stage_sink sg claimed) fed r = (fres, r1)"
    "stop = None \<Longrightarrow> fed = rows \<and> fres = None"
    using Parse_feeds_prefix [OF pa] unfolding rows by blast
  note run = feed_ok [OF ok _ i fed(2), simplified, OF fed(1)]
  show ?thesis
  proof (cases stop)
    case (Some e)
    with wb pa run show ?thesis by (auto simp: stage_workbook_def)
  next
    case None
    with fed(3) run have r1: "run_ok sg i rows rows r1" "map st_row (rn_sheets r1) = map st_row (rn_sheets r)" by auto
    obtain e r2 where fl: "flush sg claimed r1 = (e, r2)" by fastforce
    note fk = flush_kept [OF r1(1) fl i]
    show ?thesis
    proof (cases e)
      case (Some x)
      with wb pa None fl run fk show ?thesis by (auto simp: stage_workbook_def intro: kept_trans)
    next
      case e: None
      then have r2: "run_ok sg i rows rows r2" "rn_pending r2 = []" "map st_row (rn_sheets r2) = map st_row (rn_sheets r)"
        using fk r1(2) by auto
      have fin: "finish sg fs claimed r2 s = (res, d', s')" using wb pa None fl e by (simp add: stage_workbook_def)
      have "length (rn_sheets r2) = length (rn_sheets r)" using r2(3) by (metis length_map)
      moreover have "st_row (rn_sheets r2 ! k) = st_row (rn_sheets r ! k)" if "k < length (rn_sheets r)" for k
        using r2(3) that by (metis \<open>length (rn_sheets r2) = length (rn_sheets r)\<close> nth_map)
      ultimately have "\<forall>k < length (rn_sheets r2). is_sheet_order (st_row (rn_sheets r2 ! k)) = int k + 1" using order by simp
      note fin = finish_kept [OF fin i r2(1,2) this]
      then show ?thesis using run fk e kept_trans by blast
    qed
  qed
qed

text \<open>The rows of the sheets are all the rows when every row is of one of the sheets.\<close>

lemma sum_sheet_rows:
  assumes "distinct names" "\<forall>r \<in> set rows. sr_SheetName r \<in> set names"
  shows "sum_list (map (\<lambda>n. int (length (sheet_rows n rows))) names) = int (length rows)"
  using assms(2)
proof (induction rows)
  case Nil
  then show ?case by (simp add: sheet_rows_def sum_list_0)
next
  case (Cons r rows)
  have one: "sum_list (map (\<lambda>n. if x = n then 1 else 0 :: int) ns) = (if x \<in> set ns then 1 else 0)" if "distinct ns" for x and ns :: "string list"
    using that by (induction ns) auto
  have "int (length (sheet_rows n (r # rows))) = int (length (sheet_rows n rows)) + (if sr_SheetName r = n then 1 else 0)" for n
    by (simp add: sheet_rows_def)
  then have "sum_list (map (\<lambda>n. int (length (sheet_rows n (r # rows)))) names)
      = sum_list (map (\<lambda>n. int (length (sheet_rows n rows))) names) + sum_list (map (\<lambda>n. if sr_SheetName r = n then 1 else 0) names)"
    by (simp add: sum_list_addf)
  then show ?case using Cons one [OF assms(1), of "sr_SheetName r"] by simp
qed

lemma emitted_rows_names: "r \<in> set (emitted_rows sg file plan) \<Longrightarrow> sr_SheetName r \<in> sp_Name ` set plan"
proof -
  assume r: "r \<in> set (emitted_rows sg file plan)"
  obtain st sts em where em: "(emitted (sg_legacy sg) no_cancel file plan (sc_LegacyLimits (sg_config sg)) :: stage_failure stop option \<times> _)
      = (st, sts, em)" using prod_cases3 by blast
  then have "blocks plan em" using Parse_emitted [OF em, of "collect"] by blast
  then show ?thesis using blocks_names r em by (simp add: emitted_rows_def)
qed

definition rows_at :: "'d stage_env \<Rightarrow> Import \<Rightarrow> db \<Rightarrow> xlsx_file \<Rightarrow> SourceRow list \<Rightarrow> bool" where
  "rows_at sg claimed d file rows \<longleftrightarrow>
     (\<forall>sheets plan. loadStagingSheets sg claimed d = Inr (sheets, plan) \<longrightarrow> emitted_rows sg file plan = rows)"

lemma stage_source_kept:
  assumes st: "stage_source sg fs claimed path d s = (res, d', s')" and i: "im_id claimed = i"
    and d: "db_ok d" "checkpoint (codec sg) i rows d" and rows: "rows_at sg claimed d (sg_xlsx sg s path) rows"
  shows "kept sg i rows d d'
    \<and> (\<forall>out. res = Inr out \<longrightarrow> completed (codec sg) i rows d' out \<and> so_RowsStaged out = int (length rows))"
proof (cases "loadStagingSheets sg claimed d")
  case (Inl e)
  with st d show ?thesis by (auto simp: stage_source_def kept_def)
next
  case (Inr x)
  then obtain sheets plan where load: "loadStagingSheets sg claimed d = Inr (sheets, plan)" by (cases x) auto
  note l = loadStagingSheets_Inr [OF load, unfolded i]
  show ?thesis
  proof (cases "q_StartImportStaging d (now_text sg 1) (lease_text sg 1) i (im_lease_owner claimed)")
    case (Inl e)
    with st d i load show ?thesis by (auto simp: stage_source_def kept_def)
  next
    case (Inr x)
    then obtain im d1 where q: "q_StartImportStaging d (now_text sg 1) (lease_text sg 1) i (im_lease_owner claimed) = Inr (im, d1)"
      by (cases x) auto
    have one: "kept sg i rows d d1 \<and> q_ListImportSheets d1 i = q_ListImportSheets d i \<and> im_id im = i
        \<and> im_rows_total im = sum_list (map (snd \<circ> snd) (sheet_marks d i))"
      using upd_import_kept [OF q [unfolded q_StartImportStaging_def] statement.start_staging [OF q] d] total_of [OF d(2)] by simp
    have mk: "marks sheets = sheet_marks d1 i" using l(2) one by (simp add: sheet_marks_def)
    let ?r = "start_run d1 sheets (im_rows_total im)"
    have "im_rows_total im = sum_list (map st_committed sheets)"
      using one unfolding l(2) [symmetric] by (simp add: marks_def comp_def)
    then have ok: "run_ok sg i rows [] ?r" using one mk l(5) by (simp add: run_ok_def start_run_def kept_def)
    have emit: "rows = emitted_rows sg (sg_xlsx sg s path) plan" using rows load by (simp add: rows_at_def)
    have wb: "stage_workbook sg fs im (sg_xlsx sg s path) plan ?r s = (res, d', s')"
      using st i load q by (simp add: stage_source_def)
    have "kept sg i rows (rn_db ?r) d' \<and> (\<forall>out. res = Inr out \<longrightarrow> completed (codec sg) i rows d' out)"
      by (rule stage_workbook_kept [OF wb _ ok emit]) (use one l(4) in \<open>simp_all add: start_run_def\<close>)
    then have k: "kept sg i rows d d'" "\<And>out. res = Inr out \<Longrightarrow> completed (codec sg) i rows d' out"
      using one kept_trans by (auto simp: start_run_def)
    have names: "map is_sheet_name (q_ListImportSheets d' i) = map sp_Name plan"
    proof -
      have "map is_sheet_name (q_ListImportSheets d' i) = map is_sheet_name (q_ListImportSheets d i)"
        using k(1) by (simp add: kept_def sheet_marks_def comp_def)
      then show ?thesis unfolding l(1) [symmetric] l(3) by simp
    qed
    have "so_RowsStaged out = int (length rows)" if "res = Inr out" for out
    proof -
      have c: "completed (codec sg) i rows d' out" by (rule k(2) [OF that])
      have "map is_rows_staged (q_ListImportSheets d' i) = map (\<lambda>n. int (length (sheet_rows n rows))) (map sp_Name plan)"
        unfolding names [symmetric] using c by (auto simp: completed_def all_staged_def)
      moreover have "distinct (map sp_Name plan)" unfolding names [symmetric] using k(1) listed_sheets_distinct by (simp add: kept_def)
      moreover have "\<forall>r \<in> set rows. sr_SheetName r \<in> set (map sp_Name plan)"
        unfolding emit using emitted_rows_names by (metis set_map)
      ultimately show ?thesis using c sum_sheet_rows [of "map sp_Name plan" rows] unfolding completed_def by metis
    qed
    with k show ?thesis by blast
  qed
qed

text \<open>The workbook of the import holds these rows, whenever it can be reached and its plan is readable.\<close>

definition holds_rows :: "'d stage_env \<Rightarrow> ('b, 'd) FileStore \<Rightarrow> Import \<Rightarrow> db \<Rightarrow> 'd \<Rightarrow> SourceRow list \<Rightarrow> bool" where
  "holds_rows sg fs claimed d s rows \<longleftrightarrow>
     (\<forall>path. fs_Path fs (the (im_temp_file_token claimed)) s = Inr path \<longrightarrow> rows_at sg claimed d (sg_xlsx sg s path) rows)"

lemma Stage_kept:
  assumes "Stage sg fs claimed d s = (res, d', s')" "im_id claimed = i" "db_ok d" "checkpoint (codec sg) i rows d"
    "holds_rows sg fs claimed d s rows"
  shows "kept sg i rows d d' \<and> (im_staged_at claimed = None \<longrightarrow>
    (\<forall>out. res = Inr out \<longrightarrow> completed (codec sg) i rows d' out \<and> so_RowsStaged out = int (length rows)))"
proof -
  have same: "kept sg i rows d d" using assms(3,4) by (simp add: kept_def)
  consider "d' = d" "\<exists>e. res = Inl e" | "im_staged_at claimed \<noteq> None" "cleanupStagedSource sg fs 0 claimed d s = (res, d', s')"
    | path where "fs_Path fs (the (im_temp_file_token claimed)) s = Inr path" "stage_source sg fs claimed path d s = (res, d', s')"
    using assms(1) by (auto simp: Stage_def split: option.splits sum.splits if_splits verify_error.splits)
  then show ?thesis
  proof cases
    case 1
    with same show ?thesis by auto
  next
    case 2
    with cleanup_kept [OF 2(2) assms(2-4)] show ?thesis by auto
  next
    case 3
    have "rows_at sg claimed d (sg_xlsx sg s path) rows" using assms(5) 3(1) by (simp add: holds_rows_def)
    from stage_source_kept [OF 3(2) assms(2-4) this] show ?thesis by blast
  qed
qed

end
