(* ===== verification/ImportLaws.thy ===== *)
theory ImportLaws
  imports ImportService
begin

text \<open>
  The outcomes of queueing a workbook, on any store that keeps its promises: nothing changes, an
  earlier import is reused, or exactly one import with its sheets is added and its file kept.
\<close>

subsection \<open>The transaction\<close>

definition sheet_row_of :: "unicode \<Rightarrow> plan_json \<Rightarrow> int \<Rightarrow> SheetPlan \<Rightarrow> ImportSheet \<Rightarrow> bool" where
  "sheet_row_of u pj i sheet r \<longleftrightarrow>
     is_import_id r = i \<and> is_sheet_name r = sp_Name sheet \<and> is_sheet_order r = sp_Order sheet
     \<and> is_sheet_profile r = sp_Profile sheet \<and> EncodeSheetPlan u pj sheet = Inr (is_header_map r)
     \<and> is_rows_found r = 0 \<and> is_rows_staged r = 0 \<and> is_status r = ''pending''"

lemma insert_sheets_Inr:
  assumes "insert_sheets u pj i now plan d = Inr d'"
  shows "\<exists>rows. d' = d\<lparr>import_sheets := import_sheets d @ rows\<rparr> \<and> list_all2 (sheet_row_of u pj i) plan rows
    \<and> statement\<^sup>*\<^sup>* d d'"
  using assms
proof (induction plan arbitrary: d)
  case Nil
  then show ?case by (auto intro!: exI [of _ "[]"])
next
  case (Cons sheet plan)
  from Cons.prems obtain h r d1 where enc: "EncodeSheetPlan u pj sheet = Inr h"
    and ins: "q_CreateImportSheet d i (sp_Name sheet) (sp_Order sheet) (sp_Profile sheet) h now now = Inr (r, d1)"
    and rest: "insert_sheets u pj i now plan d1 = Inr d'" by (auto split: sum.splits)
  from stored_insert_rows [OF ins [unfolded q_CreateImportSheet_def ins_import_sheet_def]]
  have r: "d1 = d\<lparr>import_sheets := import_sheets d @ [r]\<rparr>" "sheet_row_of u pj i sheet r"
    using enc by (auto simp: sheet_row_of_def)
  from Cons.IH [OF rest] obtain rows where
    "d' = d1\<lparr>import_sheets := import_sheets d1 @ rows\<rparr>" "list_all2 (sheet_row_of u pj i) plan rows" "statement\<^sup>*\<^sup>* d1 d'"
    by blast
  with r statement.create_sheet [OF ins] show ?case
    by (intro exI [of _ "r # rows"]) (auto intro: converse_rtranclp_into_rtranclp)
qed

text \<open>The sheets of an import without sheets go in when their names and orders differ.\<close>

lemma insert_sheets_succeeds:
  assumes "i \<in> row_ids im_id (imports_tbl d)" "\<forall>s \<in> set plan. 0 < sp_Order s \<and> (\<exists>h. EncodeSheetPlan u pj s = Inr h)"
    "distinct (map sp_Name plan)" "distinct (map sp_Order plan)"
    "\<forall>r \<in> set (import_sheets d). is_import_id r = i \<longrightarrow>
       is_sheet_name r \<notin> sp_Name ` set plan \<and> is_sheet_order r \<notin> sp_Order ` set plan"
  shows "\<exists>d'. insert_sheets u pj i now plan d = Inr d'"
  using assms
proof (induction plan arbitrary: d)
  case (Cons s plan)
  from Cons.prems obtain h where h: "EncodeSheetPlan u pj s = Inr h" by auto
  define r where "r = \<lparr>is_id = next_rowid is_id (import_sheets d), is_import_id = i, is_sheet_name = sp_Name s,
       is_sheet_order = sp_Order s, is_sheet_profile = sp_Profile s, is_header_map = h,
       is_rows_found = 0, is_rows_staged = 0, is_status = ''pending'', is_created_at = now, is_updated_at = now\<rparr>"
  let ?d = "d\<lparr>import_sheets := import_sheets d @ [r]\<rparr>"
  have "\<not> list_ex (import_sheet_clash r) (import_sheets d)"
    using Cons.prems(5) by (auto simp: list_ex_iff import_sheet_clash_def r_def)
  then have "q_CreateImportSheet d i (sp_Name s) (sp_Order s) (sp_Profile s) h now now = Inr (r, ?d)"
    using Cons.prems(1,2)
    by (simp add: q_CreateImportSheet_def ins_import_sheet_def stored_def sql_insert_def Let_def r_def
        import_sheet_check_def import_sheet_fk_def)
  moreover have "\<exists>d'. insert_sheets u pj i now plan ?d = Inr d'"
    using Cons.prems by (intro Cons.IH) (auto simp: r_def)
  ultimately show ?case using h by simp
qed simp

text \<open>What the row of a newly queued import holds.\<close>

definition queued_row :: "db \<Rightarrow> validatedEnqueueInput \<Rightarrow> StoredFile \<Rightarrow> Import \<Rightarrow> bool" where
  "queued_row d inp sfile r \<longleftrightarrow>
     im_id r = next_rowid im_id (imports_tbl d) \<and> im_profile r = legacyProfile \<and> im_status r = ''queued''
     \<and> im_source_sha256 r = nullableString (sf_SHA256 sfile) \<and> im_source_size_bytes r = Some (sf_Size sfile)
     \<and> im_idempotency_key r = nullableString (vi_idempotencyKey inp)
     \<and> im_temp_file_token r = nullableString (sf_Token sfile) \<and> im_uploaded_by_actor r = vi_actor inp
     \<and> im_rows_total r = 0 \<and> im_staged_at r = None"

definition queued_db :: "db \<Rightarrow> Import \<Rightarrow> ImportSheet list \<Rightarrow> db" where
  "queued_db d r sheets = d\<lparr>imports_tbl := imports_tbl d @ [r], import_sheets := import_sheets d @ sheets\<rparr>"

lemma q_CreateImport_Inr:
  assumes "q_CreateImport d profile fname sha sz key actor received status phase token expires created updated = Inr (r, d')"
  shows "d' = d\<lparr>imports_tbl := imports_tbl d @ [r]\<rparr> \<and> im_id r = next_rowid im_id (imports_tbl d)
    \<and> im_profile r = profile \<and> im_status r = status \<and> im_source_sha256 r = sha \<and> im_source_size_bytes r = sz
    \<and> im_idempotency_key r = key \<and> im_temp_file_token r = token \<and> im_temp_file_expires_at r = expires
    \<and> im_uploaded_by_actor r = actor \<and> im_rows_total r = 0 \<and> im_staged_at r = None
    \<and> (\<forall>x \<in> set (imports_tbl d). \<not> import_clash r x)"
proof -
  note ins = assms [unfolded q_CreateImport_def ins_import_def]
  from stored_insert_rows [OF ins] have "d' = d\<lparr>imports_tbl := imports_tbl d @ [r]\<rparr>"
    and r: "r = \<lparr>im_id = next_rowid im_id (imports_tbl d), im_profile = profile, im_source_file_name = fname,
       im_source_sha256 = sha, im_source_size_bytes = sz, im_idempotency_key = key,
       im_uploaded_by_actor = actor, im_received_at = received, im_status = status,
       im_phase = phase, im_temp_file_token = token, im_temp_file_expires_at = expires,
       im_lease_owner = None, im_lease_expires_at = None, im_heartbeat_at = None,
       im_attempt = 0, im_rows_total = 0, im_rows_processed = 0, im_rows_applied = 0,
       im_rows_duplicate = 0, im_rows_needs_review = 0, im_error_code = None,
       im_error_detail = None, im_started_at = None, im_staged_at = None,
       im_completed_at = None, im_created_at = created, im_updated_at = updated\<rparr>" by simp_all
  moreover have "\<forall>x \<in> set (imports_tbl d). \<not> import_clash r x"
    using ins unfolding stored_Inr sql_insert_Inr by blast
  ultimately show ?thesis by simp
qed

lemma create_queued_cases:
  assumes "create_queued iv k inp sfile plan active d = (res, d')"
  obtains e where "res = Inl e" "d' = d"
  | r sheets where "res = Inr \<lparr>er_Import = r, er_QueuePosition = active + 1, er_Reused = False\<rparr>"
      "d' = queued_db d r sheets" "queued_row d inp sfile r"
      "list_all2 (sheet_row_of (iv_unicode iv) (iv_json iv) (im_id r)) plan sheets" "statement\<^sup>*\<^sup>* d d'"
      "\<forall>x \<in> set (imports_tbl d). \<not> import_clash r x"
proof (cases res)
  case (Inl e)
  with assms have "d' = d" by (auto simp: create_queued_def Let_def split: sum.splits option.splits)
  with Inl that(1) show ?thesis by blast
next
  case (Inr er)
  let ?now = "tm_format (iv_clock iv) (tm_now (iv_clock iv) k)"
  from assms Inr obtain r d1 where
    ins: "q_CreateImport d legacyProfile (nullableString (vi_fileName inp)) (nullableString (sf_SHA256 sfile))
           (Some (sf_Size sfile)) (nullableString (vi_idempotencyKey inp)) (vi_actor inp) ?now ''queued'' None
           (nullableString (sf_Token sfile))
           (nullableString (tm_format (iv_clock iv) (tm_now (iv_clock iv) k + cf_FileTTL (iv_config iv)))) ?now ?now = Inr (r, d1)"
    and sh: "insert_sheets (iv_unicode iv) (iv_json iv) (im_id r) ?now plan d1 = Inr d'"
    and er: "er = \<lparr>er_Import = r, er_QueuePosition = active + 1, er_Reused = False\<rparr>"
    by (auto simp: create_queued_def Let_def split: sum.splits option.splits)
  from q_CreateImport_Inr [OF ins] have row: "queued_row d inp sfile r" "d1 = d\<lparr>imports_tbl := imports_tbl d @ [r]\<rparr>"
    "\<forall>x \<in> set (imports_tbl d). \<not> import_clash r x" by (auto simp: queued_row_def)
  from insert_sheets_Inr [OF sh] obtain rows where
    rows: "d' = d1\<lparr>import_sheets := import_sheets d1 @ rows\<rparr>"
      "list_all2 (sheet_row_of (iv_unicode iv) (iv_json iv) (im_id r)) plan rows" "statement\<^sup>*\<^sup>* d1 d'" by blast
  have "d' = queued_db d r rows" using rows(1) row(2) by (simp add: queued_db_def)
  moreover have "statement\<^sup>*\<^sup>* d d'" using rows(3) statement.create_import [OF ins]
    by (rule converse_rtranclp_into_rtranclp [rotated])
  ultimately show ?thesis using that(2) Inr er row rows(2) by blast
qed

lemma insertQueuedImport_cases:
  assumes "insertQueuedImport iv k inp sfile plan d = (res, d')"
  obtains e where "res = Inl e" "d' = d"
  | existing where "res = reuseResult d existing" "d' = d"
      "vi_idempotencyKey inp \<noteq> ''''" "q_GetImportByIdempotencyKey d (nullableString (vi_idempotencyKey inp)) = Inr existing"
  | "create_queued iv k inp sfile plan (q_CountActiveImports d) d = (res, d')"
      "q_CountActiveImports d < cf_ActiveQueueLimit (iv_config iv)"
proof -
  let ?look = "if vi_idempotencyKey inp = '''' then Inl ErrNoRows
     else q_GetImportByIdempotencyKey d (nullableString (vi_idempotencyKey inp))"
  let ?dup = "q_FindExistingLegacyImportBySHA256 d (nullableString (sf_SHA256 sfile))"
  note eq = assms [unfolded insertQueuedImport_def Let_def]
  consider (start) e where "iv_begin_err iv = Some e"
    | (look) v where "iv_begin_err iv = None" "?look = Inl (ConstraintFailed v)"
    | (found) existing where "iv_begin_err iv = None" "?look = Inr existing"
    | (dup) x where "iv_begin_err iv = None" "?look = Inl ErrNoRows" "?dup = Inr x"
    | (bad) v where "iv_begin_err iv = None" "?look = Inl ErrNoRows" "?dup = Inl (ConstraintFailed v)"
    | (full) "iv_begin_err iv = None" "?look = Inl ErrNoRows" "?dup = Inl ErrNoRows"
        "q_CountActiveImports d \<ge> cf_ActiveQueueLimit (iv_config iv)"
    | (new) "iv_begin_err iv = None" "?look = Inl ErrNoRows" "?dup = Inl ErrNoRows"
        "q_CountActiveImports d < cf_ActiveQueueLimit (iv_config iv)"
    by (metis db_error.exhaust linorder_not_le option.exhaust sum.exhaust)
  then show thesis
  proof cases
    case start
    show ?thesis using that(1) eq by (auto simp: start)
  next
    case look
    show ?thesis using that(1) eq unfolding look by auto
  next
    case found
    have key: "vi_idempotencyKey inp \<noteq> ''''"
      "q_GetImportByIdempotencyKey d (nullableString (vi_idempotencyKey inp)) = Inr existing"
      using found(2) by (auto split: if_splits)
    show ?thesis
    proof (cases "iv_rollback_err iv")
      case None
      with eq have "res = reuseResult d existing" "d' = d" unfolding found by auto
      then show ?thesis using that(2) key by blast
    next
      case (Some e)
      with eq have "d' = d" "\<exists>e. res = Inl e" unfolding found by auto
      then show ?thesis using that(1) by blast
    qed
  next
    case dup
    show ?thesis using that(1) eq unfolding dup by auto
  next
    case bad
    show ?thesis using that(1) eq unfolding bad by auto
  next
    case full
    show ?thesis using that(1) eq full(4) unfolding full(1-3) by auto
  next
    case new
    show ?thesis using that(3) eq new(4) unfolding new(1-3) by simp
  qed
qed

subsection \<open>The whole call\<close>

lemma get_by_key:
  assumes "q_GetImportByIdempotencyKey d (nullableString key) = Inr r" "key \<noteq> ''''"
  shows "r \<in> set (imports_tbl d) \<and> im_idempotency_key r = Some key"
  using sql_get_Inr [OF assms(1) [unfolded q_GetImportByIdempotencyKey_def]] assms(2)
  by (auto simp: sql_eq_def nullableString_def split: option.splits)

text \<open>What an import that was queued anew looks like.\<close>

definition queued_new ::
  "'d import_env \<Rightarrow> validatedEnqueueInput \<Rightarrow> StoredFile \<Rightarrow> WorkbookPlan \<Rightarrow> db \<Rightarrow> EnqueueResult \<Rightarrow> db \<Rightarrow> bool" where
  "queued_new iv valid sfile plan d res d' \<longleftrightarrow>
     (\<exists>r sheets k.
        res = \<lparr>er_Import = r, er_QueuePosition = q_CountActiveImports d + 1, er_Reused = False\<rparr>
        \<and> queued_row d valid sfile r \<and> (\<forall>x \<in> set (imports_tbl d). \<not> import_clash r x)
        \<and> list_all2 (sheet_row_of (iv_unicode iv) (iv_json iv) (im_id r)) plan sheets
        \<and> q_CountActiveImports d < cf_ActiveQueueLimit (iv_config iv)
        \<and> statement\<^sup>*\<^sup>* d (queued_db d r sheets)
        \<and> d' = recordEnqueueAudit iv k res (int (length plan)) (sf_Size sfile) (vi_actor valid) (queued_db d r sheets))"

text \<open>An earlier import found by its key.\<close>

definition reused :: "db \<Rightarrow> validatedEnqueueInput \<Rightarrow> EnqueueResult \<Rightarrow> bool" where
  "reused d valid res \<longleftrightarrow>
     (\<exists>existing. res = \<lparr>er_Import = existing, er_QueuePosition = queuePosition d existing, er_Reused = True\<rparr>
        \<and> q_GetImportByIdempotencyKey d (nullableString (vi_idempotencyKey valid)) = Inr existing
        \<and> existing \<in> set (imports_tbl d) \<and> vi_idempotencyKey valid \<noteq> ''''
        \<and> im_idempotency_key existing = Some (vi_idempotencyKey valid) \<and> im_profile existing = legacyProfile)"

lemma reuseResult_cases:
  assumes "q_GetImportByIdempotencyKey d (nullableString (vi_idempotencyKey valid)) = Inr existing"
    "vi_idempotencyKey valid \<noteq> ''''"
  shows "(\<exists>e. reuseResult d existing = Inl e) \<or> (\<exists>res. reuseResult d existing = Inr res \<and> er_Reused res \<and> reused d valid res)"
  using get_by_key [OF assms] assms by (auto simp: reuseResult_def reused_def)

lemma insertQueuedImport_outcome:
  assumes "insertQueuedImport iv k valid sfile plan d = (res, d')"
  shows "(\<exists>e. res = Inl e) \<and> d' = d \<or> (\<exists>r. res = Inr r \<and> er_Reused r \<and> reused d valid r) \<and> d' = d
    \<or> (\<exists>r. res = Inr r \<and> \<not> er_Reused r
         \<and> queued_new iv valid sfile plan d r (recordEnqueueAudit iv k r (int (length plan)) (sf_Size sfile) (vi_actor valid) d'))"
  using assms
proof (cases rule: insertQueuedImport_cases)
  case (1 e)
  then show ?thesis by blast
next
  case (2 existing)
  with reuseResult_cases [OF 2(4,3)] show ?thesis by blast
next
  case 3
  from 3(1) show ?thesis
  proof (cases rule: create_queued_cases)
    case (1 e)
    then show ?thesis by blast
  next
    case (2 r sheets)
    then show ?thesis using 3(2) by (auto simp: queued_new_def)
  qed
qed

lemma enqueue_stored_outcome:
  assumes "enqueue_stored iv fs k valid sfile d s = (res, d', s')"
  shows "s' = discard fs (sf_Token sfile) s \<and> d' = d
      \<and> ((\<exists>e. res = Inl e) \<or> (\<exists>r. res = Inr r \<and> reused d valid r))
    \<or> s' = s \<and> (\<exists>r plan path. res = Inr r \<and> \<not> er_Reused r \<and> fs_Path fs (sf_Token sfile) s = Inr path
         \<and> Preflight (iv_unicode iv) (iv_cancel iv) (cf_LegacyLimits (iv_config iv)) (iv_xlsx iv s path) = Inr plan
         \<and> queued_new iv valid sfile plan d r d')"
proof (cases "fs_Path fs (sf_Token sfile) s")
  case (Inl e)
  with assms show ?thesis by (auto simp: enqueue_stored_def)
next
  case p: (Inr path)
  show ?thesis
  proof (cases "Preflight (iv_unicode iv) (iv_cancel iv) (cf_LegacyLimits (iv_config iv)) (iv_xlsx iv s path)")
    case (Inl e)
    with assms p show ?thesis by (auto simp: enqueue_stored_def)
  next
    case (Inr plan)
    obtain qr d1 where q: "insertQueuedImport iv k valid sfile plan d = (qr, d1)" by fastforce
    from insertQueuedImport_outcome [OF q] show ?thesis
      using assms p Inr q by (auto simp: enqueue_stored_def)
  qed
qed

text \<open>The store when the upload was not kept.\<close>

definition enqueued_back :: "('b, 'd) FileStore \<Rightarrow> 'b EnqueueInput \<Rightarrow> int \<Rightarrow> 'd \<Rightarrow> 'd \<Rightarrow> bool" where
  "enqueued_back fs inp limit s s' \<longleftrightarrow>
     s' = s \<or> (\<exists>e. fs_Save fs (ei_Body inp) limit s = (Inl e, s'))
     \<or> (\<exists>f t. fs_Save fs (ei_Body inp) limit s = (Inr f, t) \<and> s' = discard fs (sf_Token f) t)"

definition upload_limit :: "'d import_env \<Rightarrow> int" where
  "upload_limit iv = MaxFileBytes (cf_LegacyLimits (iv_config iv))"

lemma EnqueueLegacy_outcome:
  assumes "EnqueueLegacy iv fs k inp d s = (res, d', s')"
  shows "d' = d \<and> enqueued_back fs inp (upload_limit iv) s s'
      \<and> ((\<exists>e. res = Inl e) \<or> (\<exists>r valid. res = Inr r \<and> validateEnqueueInput inp = Inr valid \<and> reused d valid r))
    \<or> (\<exists>r valid sfile plan path. res = Inr r \<and> validateEnqueueInput inp = Inr valid
         \<and> fs_Save fs (ei_Body inp) (upload_limit iv) s = (Inr sfile, s') \<and> fs_Path fs (sf_Token sfile) s' = Inr path
         \<and> Preflight (iv_unicode iv) (iv_cancel iv) (cf_LegacyLimits (iv_config iv)) (iv_xlsx iv s' path) = Inr plan
         \<and> queued_new iv valid sfile plan d r d')"
proof (cases "validateEnqueueInput inp")
  case (Inl e)
  with assms show ?thesis by (auto simp: EnqueueLegacy_def enqueued_back_def)
next
  case v: (Inr valid)
  let ?look = "if vi_idempotencyKey valid = '''' then Inl ErrNoRows
     else q_GetImportByIdempotencyKey d (nullableString (vi_idempotencyKey valid))"
  note eq = assms [unfolded EnqueueLegacy_def v sum.case]
  consider existing where "?look = Inr existing" | w where "?look = Inl (ConstraintFailed w)"
    | e t where "?look = Inl ErrNoRows" "fs_Save fs (ei_Body inp) (upload_limit iv) s = (Inl e, t)"
    | f t where "?look = Inl ErrNoRows" "fs_Save fs (ei_Body inp) (upload_limit iv) s = (Inr f, t)"
    by (metis db_error.exhaust prod.exhaust sum.exhaust)
  then show ?thesis
  proof cases
    case 1
    then have key: "q_GetImportByIdempotencyKey d (nullableString (vi_idempotencyKey valid)) = Inr existing"
      "vi_idempotencyKey valid \<noteq> ''''" by (auto split: if_splits)
    from eq have "res = reuseResult d existing" "d' = d" "s' = s" unfolding 1 by auto
    with reuseResult_cases [OF key] v show ?thesis by (auto simp: enqueued_back_def)
  next
    case 2
    from eq show ?thesis unfolding 2 by (auto simp: enqueued_back_def)
  next
    case 3
    from eq show ?thesis using 3(2) unfolding 3(1) by (auto simp: enqueued_back_def upload_limit_def)
  next
    case 4
    from eq have "enqueue_stored iv fs k valid f d t = (res, d', s')"
      using 4(2) unfolding 4(1) by (simp add: upload_limit_def)
    from enqueue_stored_outcome [OF this] show ?thesis using v 4(2) by (auto simp: enqueued_back_def)
  qed
qed

subsection \<open>On a store that keeps its promises\<close>

context file_store
begin

lemma enqueued_back_files:
  assumes "enqueued_back fs inp limit s s'" cleans
  shows "files s' = files s"
  using assms save_Inl save_then_delete unfolding enqueued_back_def discard_def by blast

lemma enqueue_kept:
  assumes "fs_Save fs b m s = (Inr f, s')"
  shows "\<exists>c. files s (path_of (sf_Token f)) = None \<and> files s' = (files s)(path_of (sf_Token f) \<mapsto> c)
    \<and> sf_SHA256 f = digest c \<and> sf_Size f = int (length c) \<and> int (length c) \<le> m"
  using save_Inr [OF assms] by auto

end

end
