(* ===== verification/ImportSamples.thy ===== *)
theory ImportSamples
  imports ImportLaws LegacySamples
begin

text \<open>
  The upload of the sample workbook into an empty store and database, on which the witnesses of
  the import properties evaluate.
\<close>

definition sample_bytes :: string where
  "sample_bytes = replicate 32 CHR ''a''"

definition sample_os :: os where
  "sample_os =
     \<lparr>os_random = Inr sample_bytes, os_open_err = (\<lambda>_. None), os_sync_err = (\<lambda>_. None), os_close_err = (\<lambda>_. None),
      os_remove_err = (\<lambda>_. None), os_lstat_err = (\<lambda>_. None), os_sha256 = (\<lambda>_. sample_bytes)\<rparr>"

definition sample_clock :: clock where
  "sample_clock = \<lparr>tm_now = int, tm_format = (\<lambda>_. sample_time), tm_parse = (\<lambda>_. Some 0)\<rparr>"

definition sample_imports :: "disk import_env" where
  "sample_imports =
     \<lparr>iv_ctx = sample_env, iv_cancel = no_cancel, iv_unicode = sample_unicode, iv_json = sample_plan_json,
      iv_clock = sample_clock, iv_config = DefaultConfig, iv_begin_err = None, iv_rollback_err = None,
      iv_commit_err = None, iv_xlsx = (\<lambda>_ _. sample_workbook)\<rparr>"

definition sample_upload :: "string EnqueueInput" where
  "sample_upload =
     \<lparr>ei_OriginalFileName = ''registry.xlsx'', ei_IdempotencyKey = ''k1'', ei_Actor = ''admin'', ei_Body = Some ''PK''\<rparr>"

definition sample_valid :: validatedEnqueueInput where
  "sample_valid = \<lparr>vi_fileName = ''registry.xlsx'', vi_idempotencyKey = ''k1'', vi_actor = ''admin''\<rparr>"

definition sample_store :: "(string, disk) FileStore" where
  "sample_store = local_store sample_os ''/srv'' None plain_copy"

definition sample_token :: string where
  "sample_token = EncodeToString sample_bytes"

definition sample_file :: StoredFile where
  "sample_file =
     \<lparr>sf_Token = sample_token, sf_Path = local_path ''/srv'' sample_token, sf_SHA256 = sample_token, sf_Size = 2\<rparr>"

definition sample_disk :: disk where
  "sample_disk = [local_path ''/srv'' sample_token \<mapsto> Regular ''PK'']"

lemma sample_validated: "validateEnqueueInput sample_upload = Inr sample_valid"
  by code_simp

lemma sample_token_ok: "validFileToken sample_token" "sha256_hex sample_token" "sample_token \<noteq> ''''"
  by code_simp+

lemma sample_saved:
  "fs_Save sample_store (Some ''PK'') (MaxFileBytes DefaultLimits) Map.empty = (Inr sample_file, sample_disk)"
proof -
  have "copyWithContextAndLimit plain_copy (MaxFileBytes DefaultLimits) ''PK'' = (Inr 2, ''PK'', [])"
    using copy_plain [of "[]" "MaxFileBytes DefaultLimits" "''PK''" 0 0]
    by (simp add: copyWithContextAndLimit_def DefaultLimits_def)
  then show ?thesis
    using sample_token_ok(1)
    by (simp add: sample_store_def local_store_def Save_def randomHexToken_def sample_os_def sample_token_def
        pathForToken_def local_path_def sample_file_def sample_disk_def DefaultLimits_def)
qed

lemma sample_path: "fs_Path sample_store sample_token sample_disk = Inr (local_path ''/srv'' sample_token)"
  using sample_token_ok(1)
  by (simp add: sample_store_def local_store_def Path_def pathForToken_def local_path_def sample_disk_def sample_os_def)

lemma sample_sheets_distinct: "distinct [SheetA, SheetB, SheetV, SheetP, SheetS]"
  by code_simp

lemma sample_plan_names [simp]: "sp_Name (sample_plan p i) = p" "sp_Order (sample_plan p i) = i" "sp_Profile (sample_plan p i) = p"
  by (simp_all add: sample_plan_def)

definition sample_import :: Import where
  "sample_import = \<lparr>im_id = 1, im_profile = legacyProfile, im_source_file_name = Some ''registry.xlsx'',
       im_source_sha256 = Some sample_token, im_source_size_bytes = Some 2, im_idempotency_key = Some ''k1'',
       im_uploaded_by_actor = ''admin'', im_received_at = sample_time, im_status = ''queued'',
       im_phase = None, im_temp_file_token = Some sample_token, im_temp_file_expires_at = Some sample_time,
       im_lease_owner = None, im_lease_expires_at = None, im_heartbeat_at = None,
       im_attempt = 0, im_rows_total = 0, im_rows_processed = 0, im_rows_applied = 0,
       im_rows_duplicate = 0, im_rows_needs_review = 0, im_error_code = None,
       im_error_detail = None, im_started_at = None, im_staged_at = None,
       im_completed_at = None, im_created_at = sample_time, im_updated_at = sample_time\<rparr>"

definition sample_sheet_row :: "SheetProfile \<Rightarrow> int \<Rightarrow> ImportSheet" where
  "sample_sheet_row p i = \<lparr>is_id = i, is_import_id = 1, is_sheet_name = p, is_sheet_order = i, is_sheet_profile = p,
       is_header_map = sample_stored_text, is_rows_found = 0, is_rows_staged = 0, is_status = ''pending'',
       is_created_at = sample_time, is_updated_at = sample_time\<rparr>"

definition sample_queue :: db where
  "sample_queue = empty_db\<lparr>imports_tbl := [sample_import],
     import_sheets := [sample_sheet_row SheetA 1, sample_sheet_row SheetB 2, sample_sheet_row SheetV 3,
       sample_sheet_row SheetP 4, sample_sheet_row SheetS 5]\<rparr>"

definition sample_result :: EnqueueResult where
  "sample_result = \<lparr>er_Import = sample_import, er_QueuePosition = 1, er_Reused = False\<rparr>"

lemma insert_sample_sheet:
  assumes "map is_id t = [1..int (length t)]" "map is_sheet_order t = [1..int (length t)]" "p \<notin> is_sheet_name ` set t"
    "p \<in> {SheetA, SheetB, SheetV, SheetP, SheetS}" "i = int (length t) + 1"
  shows "insert_sheets sample_unicode sample_plan_json 1 sample_time (sample_plan p i # plan) (empty_db\<lparr>imports_tbl := [sample_import], import_sheets := t\<rparr>)
    = insert_sheets sample_unicode sample_plan_json 1 sample_time plan (empty_db\<lparr>imports_tbl := [sample_import], import_sheets := t @ [sample_sheet_row p i]\<rparr>)"
proof -
  have ids: "is_id ` set t = {1..int (length t)}" "is_sheet_order ` set t = {1..int (length t)}"
    using assms(1,2) by (metis set_map set_upto)+
  have nid: "next_rowid is_id t = i"
  proof (cases "t = []")
    case False
    then have "Max {1..int (length t)} = int (length t)" by (intro Max_eqI) (auto simp: Suc_le_eq)
    then show ?thesis using False ids(1) assms(5) by (simp add: next_rowid_def)
  qed (simp add: next_rowid_def assms(5))
  have enc: "EncodeSheetPlan sample_unicode sample_plan_json (sample_plan p i) = Inr sample_stored_text"
    using sample_encode [OF assms(4), of i] assms(5) by simp
  have "i \<notin> is_sheet_order ` set t" unfolding ids(2) assms(5) by simp
  then have "\<not> list_ex (import_sheet_clash (sample_sheet_row p i)) t"
    using assms(3) by (auto simp: list_ex_iff import_sheet_clash_def sample_sheet_row_def)
  moreover have "0 < i" using assms(5) by simp
  ultimately show ?thesis
    by (simp add: enc nid q_CreateImportSheet_def ins_import_sheet_def stored_def sql_insert_def Let_def
        import_sheet_check_def import_sheet_fk_def row_ids_def sample_import_def sample_sheet_row_def empty_db_def)
qed

lemma sample_queued:
  "create_queued sample_imports 0 sample_valid sample_file sample_workbook_plan 0 empty_db = (Inr sample_result, sample_queue)"
proof -
  have "q_CreateImport empty_db legacyProfile (Some ''registry.xlsx'') (Some sample_token) (Some 2) (Some ''k1'') ''admin''
      sample_time ''queued'' None (Some sample_token) (Some sample_time) sample_time sample_time
    = Inr (sample_import, empty_db\<lparr>imports_tbl := [sample_import], import_sheets := []\<rparr>)"
    using sample_token_ok
    by (simp add: q_CreateImport_def ins_import_def stored_def sql_insert_def Let_def empty_db_def sample_import_def import_check_def
        legacyProfile_def next_rowid_def no_fk_def)
  moreover have "insert_sheets sample_unicode sample_plan_json 1 sample_time sample_workbook_plan
      (empty_db\<lparr>imports_tbl := [sample_import], import_sheets := []\<rparr>) = Inr sample_queue"
  proof -
    have [simp]: "[1..2::int] = [1, 2]" "[1..3::int] = [1, 2, 3]" "[1..4::int] = [1, 2, 3, 4]"
      by (simp_all add: upto.simps)
    have [simp]: "is_id (sample_sheet_row p i) = i" "is_sheet_order (sample_sheet_row p i) = i" "is_sheet_name (sample_sheet_row p i) = p" for p i
      by (simp_all add: sample_sheet_row_def)
    have ne: "SheetB \<noteq> SheetA" "SheetV \<noteq> SheetA" "SheetP \<noteq> SheetA" "SheetS \<noteq> SheetA" "SheetV \<noteq> SheetB"
      "SheetP \<noteq> SheetB" "SheetS \<noteq> SheetB" "SheetP \<noteq> SheetV" "SheetS \<noteq> SheetV" "SheetS \<noteq> SheetP"
      using sample_sheets_distinct by auto
    show ?thesis unfolding sample_workbook_plan_def sample_queue_def
      by (subst insert_sample_sheet, (simp add: ne; fail)+)+
  qed
  ultimately show ?thesis
    by (auto simp: create_queued_def sample_imports_def sample_valid_def sample_file_def sample_clock_def sample_result_def
        sample_token_ok nullableString_def Let_def sample_import_def sample_time_def)
qed

definition sample_queued_db :: db where
  "sample_queued_db = recordEnqueueAudit sample_imports 0 sample_result 5 2 ''admin'' sample_queue"

lemma sample_enqueued:
  "EnqueueLegacy sample_imports sample_store 0 sample_upload empty_db Map.empty = (Inr sample_result, sample_queued_db, sample_disk)"
proof -
  have "insertQueuedImport sample_imports 0 sample_valid sample_file sample_workbook_plan empty_db = (Inr sample_result, sample_queue)"
    using sample_queued by (simp add: insertQueuedImport_def sample_imports_def empty_db_def q_GetImportByIdempotencyKey_def
        q_FindExistingLegacyImportBySHA256_def sql_get_def q_CountActiveImports_def DefaultConfig_def)
  moreover have "Preflight (iv_unicode sample_imports) (iv_cancel sample_imports) (cf_LegacyLimits (iv_config sample_imports))
      (iv_xlsx sample_imports s p) = Inr sample_workbook_plan" for s p
    using sample_preflight by (simp add: sample_imports_def DefaultConfig_def)
  moreover have "fs_Save sample_store (ei_Body sample_upload) (MaxFileBytes (cf_LegacyLimits (iv_config sample_imports))) Map.empty
      = (Inr sample_file, sample_disk)"
    using sample_saved by (simp add: sample_upload_def sample_imports_def DefaultConfig_def)
  moreover have "q_GetImportByIdempotencyKey empty_db key = Inl ErrNoRows" for key
    by (simp add: empty_db_def q_GetImportByIdempotencyKey_def sql_get_def)
  ultimately show ?thesis
    by (simp add: EnqueueLegacy_def sample_validated enqueue_stored_def sample_file_def sample_path sample_result_def
        sample_queued_db_def sample_workbook_plan_def sample_valid_def)
qed

lemma sample_queued_imports: "imports_tbl sample_queued_db = [sample_import]"
  by (simp add: sample_queued_db_def recordEnqueueAudit_def sample_queue_def)

end
