(* ===== verification/ImportProps.thy ===== *)
theory ImportProps
  imports ImportSamples
begin

text \<open>
  The properties of queueing a legacy workbook, with the local file store.
\<close>

subsection \<open>The queue\<close>

lemma active_append: "q_CountActiveImports (d\<lparr>imports_tbl := imports_tbl d @ [r]\<rparr>)
    = q_CountActiveImports d + (if active_import r then 1 else 0)"
  by (simp add: q_CountActiveImports_def)

lemma queued_new_tables:
  assumes "queued_new iv valid sfile plan d res d'"
  obtains r sheets where "er_Import res = r" "\<not> er_Reused res" "er_QueuePosition res = q_CountActiveImports d + 1"
    "imports_tbl d' = imports_tbl d @ [r]" "import_sheets d' = import_sheets d @ sheets" "queued_row d valid sfile r"
    "\<forall>x \<in> set (imports_tbl d). \<not> import_clash r x"
    "list_all2 (sheet_row_of (iv_unicode iv) (iv_json iv) (im_id r)) plan sheets"
    "q_CountActiveImports d < cf_ActiveQueueLimit (iv_config iv)" "statement\<^sup>*\<^sup>* d d'"
    "import_rows d' = import_rows d" "legacy_import_rows d' = legacy_import_rows d"
proof -
  from assms obtain r sheets k where *: "res = \<lparr>er_Import = r, er_QueuePosition = q_CountActiveImports d + 1, er_Reused = False\<rparr>"
    "queued_row d valid sfile r" "\<forall>x \<in> set (imports_tbl d). \<not> import_clash r x"
    "list_all2 (sheet_row_of (iv_unicode iv) (iv_json iv) (im_id r)) plan sheets"
    "q_CountActiveImports d < cf_ActiveQueueLimit (iv_config iv)" "statement\<^sup>*\<^sup>* d (queued_db d r sheets)"
    "d' = recordEnqueueAudit iv k res (int (length plan)) (sf_Size sfile) (vi_actor valid) (queued_db d r sheets)"
    unfolding queued_new_def by blast
  have "statement\<^sup>*\<^sup>* d d'" using *(6) audit_run unfolding *(7) recordEnqueueAudit_def by (rule rtranclp_trans)
  moreover have "imports_tbl d' = imports_tbl d @ [r]" "import_sheets d' = import_sheets d @ sheets"
    "import_rows d' = import_rows d" "legacy_import_rows d' = legacy_import_rows d"
    by (simp_all add: *(7) recordEnqueueAudit_def queued_db_def)
  ultimately show ?thesis using that * by simp
qed

lemma ahead_of_new:
  assumes "imports_tbl d' = imports_tbl d @ [r]" "im_id r = next_rowid im_id (imports_tbl d)"
  shows "q_CountImportsAhead d' (im_id r) = q_CountActiveImports d"
proof -
  have "filter (\<lambda>x. im_id x < im_id r \<and> active_import x) (imports_tbl d) = filter active_import (imports_tbl d)"
    by (rule filter_cong) (use next_rowid_fresh [of _ "imports_tbl d" im_id] assms(2) in auto)
  then show ?thesis using assms by (simp add: q_CountImportsAhead_def q_CountActiveImports_def)
qed

text \<open>
  An upload that is refused, for whatever reason, changes nothing: the database is as before,
  and when the file system deletes what it is asked to, so are the stored files.
\<close>

theorem refused_upload_changes_nothing:
  assumes "EnqueueLegacy iv (local_store sys root ctx env) k inp d s = (Inl e, d', s')"
  shows "d' = d \<and> ((\<forall>p. os_remove_err sys p = None) \<longrightarrow> local_files s' = local_files s)"
  using EnqueueLegacy_outcome [OF assms] local.enqueued_back_files [of sys root ctx env inp "upload_limit iv" s s'] by auto

definition no_body :: "string EnqueueInput" where
  "no_body = \<lparr>ei_OriginalFileName = ''a.xlsx'', ei_IdempotencyKey = '''', ei_Actor = ''admin'', ei_Body = None\<rparr>"

theorem refused_upload_witness:
  "EnqueueLegacy sample_imports (local_store sample_os ''/srv'' None plain_copy) 0 no_body empty_db Map.empty
     = (Inl (inputServiceError ''file body is required''), empty_db, Map.empty)
   \<and> local_files Map.empty = local_files (Map.empty :: disk)"
proof -
  have *: "EnqueueLegacy sample_imports (local_store sample_os ''/srv'' None plain_copy) 0 no_body empty_db Map.empty
     = (Inl (inputServiceError ''file body is required''), empty_db, Map.empty)"
    by (simp add: EnqueueLegacy_def validateEnqueueInput_def no_body_def)
  show ?thesis using refused_upload_changes_nothing [OF *] * by (simp add: sample_os_def)
qed

text \<open>
  C24. An upload that is queued adds exactly one import with its sheets and keeps exactly one file.
  The import is queued under the digest, size and token of that file, which is no larger than the
  limit; no other import has its idempotency key, and no queued, running or completed legacy import
  has its digest; the sheets are those of the accepted workbook and their stored plans read back as
  the plan of the inspection. The queue position is the number of active imports, which stays within
  the limit of the queue.
\<close>

theorem queued_upload:
  assumes "EnqueueLegacy iv (local_store sys root ctx env) k inp d s = (Inr r, d', s')" "\<not> er_Reused r"
    and "plan_json_laws (iv_json iv)"
  shows "\<exists>valid token c plan sheets path.
    validateEnqueueInput inp = Inr valid \<and> imports_tbl d' = imports_tbl d @ [er_Import r]
    \<and> im_status (er_Import r) = ''queued'' \<and> im_profile (er_Import r) = legacyProfile
    \<and> im_temp_file_token (er_Import r) = nullableString token \<and> local_files s (local_path root token) = None
    \<and> local_files s' = (local_files s)(local_path root token \<mapsto> c)
    \<and> im_source_sha256 (er_Import r) = nullableString (EncodeToString (os_sha256 sys c))
    \<and> im_source_size_bytes (er_Import r) = Some (int (length c)) \<and> int (length c) \<le> upload_limit iv
    \<and> (\<forall>x \<in> set (imports_tbl d). \<not> import_clash (er_Import r) x)
    \<and> Preflight (iv_unicode iv) (iv_cancel iv) (cf_LegacyLimits (iv_config iv)) (iv_xlsx iv s' path) = Inr plan
    \<and> import_sheets d' = import_sheets d @ sheets
    \<and> list_all2 (\<lambda>sheet row. is_import_id row = im_id (er_Import r) \<and> is_sheet_name row = sp_Name sheet
         \<and> DecodeSheetPlan (iv_unicode iv) (iv_json iv) (is_sheet_name row) (is_sheet_order row) (is_sheet_profile row)
             (is_header_map row) = Inr sheet) plan sheets
    \<and> er_QueuePosition r = q_CountActiveImports d' \<and> q_CountActiveImports d' \<le> cf_ActiveQueueLimit (iv_config iv)"
proof -
  from EnqueueLegacy_outcome [OF assms(1)] assms(2) obtain valid sfile plan path where
    v: "validateEnqueueInput inp = Inr valid"
    and save: "fs_Save (local_store sys root ctx env) (ei_Body inp) (upload_limit iv) s = (Inr sfile, s')"
    and pre: "Preflight (iv_unicode iv) (iv_cancel iv) (cf_LegacyLimits (iv_config iv)) (iv_xlsx iv s' path) = Inr plan"
    and new: "queued_new iv valid sfile plan d r d'" by (auto simp: reused_def)
  from queued_new_tables [OF new] obtain im sheets where
    t: "er_Import r = im" "er_QueuePosition r = q_CountActiveImports d + 1"
      "imports_tbl d' = imports_tbl d @ [im]" "import_sheets d' = import_sheets d @ sheets" "queued_row d valid sfile im"
      "\<forall>x \<in> set (imports_tbl d). \<not> import_clash im x"
      "list_all2 (sheet_row_of (iv_unicode iv) (iv_json iv) (im_id im)) plan sheets"
      "q_CountActiveImports d < cf_ActiveQueueLimit (iv_config iv)" by metis
  from local.enqueue_kept [OF save] obtain c where c: "local_files s (local_path root (sf_Token sfile)) = None"
    "local_files s' = (local_files s)(local_path root (sf_Token sfile) \<mapsto> c)"
    "sf_SHA256 sfile = EncodeToString (os_sha256 sys c)" "sf_Size sfile = int (length c)" "int (length c) \<le> upload_limit iv"
    by blast
  have "active_import im" using t(5) by (simp add: queued_row_def active_import_def)
  then have act: "q_CountActiveImports d' = q_CountActiveImports d + 1" using t(3) by (simp add: q_CountActiveImports_def)
  have ok: "plan_ok (iv_unicode iv) sheet" if "sheet \<in> set plan" for sheet
    using Preflight_Inr [OF pre] that by (metis accepted_sheet_def found_after_def)
  have "list_all2 (\<lambda>sheet row. is_import_id row = im_id im \<and> is_sheet_name row = sp_Name sheet
         \<and> DecodeSheetPlan (iv_unicode iv) (iv_json iv) (is_sheet_name row) (is_sheet_order row) (is_sheet_profile row)
             (is_header_map row) = Inr sheet) plan sheets"
    using t(7) by (rule list.rel_mono_strong) (auto simp: sheet_row_of_def intro: plan_restored [OF assms(3) ok])
  then show ?thesis using v t c act pre by (auto simp: queued_row_def)
qed

theorem queued_upload_witness:
  "\<exists>r d' s' (c :: string). EnqueueLegacy sample_imports (local_store sample_os ''/srv'' None plain_copy) 0 sample_upload empty_db Map.empty
       = (Inr r, d', s')
     \<and> im_source_size_bytes (er_Import r) = Some (int (length c)) \<and> int (length c) \<le> upload_limit sample_imports
     \<and> imports_tbl d' = [er_Import r] \<and> er_QueuePosition r = q_CountActiveImports d'"
proof -
  obtain r d' where
    r: "EnqueueLegacy sample_imports (local_store sample_os ''/srv'' None plain_copy) 0 sample_upload empty_db Map.empty
      = (Inr r, d', sample_disk)" "\<not> er_Reused r"
    using sample_enqueued [unfolded sample_store_def] by (simp add: sample_result_def)
  have "plan_json_laws (iv_json sample_imports)" using sample_plan_json_laws by (simp add: sample_imports_def)
  from queued_upload [OF r this] obtain c :: string where
    "im_source_size_bytes (er_Import r) = Some (int (length c))" "int (length c) \<le> upload_limit sample_imports"
    "imports_tbl d' = imports_tbl empty_db @ [er_Import r]" "er_QueuePosition r = q_CountActiveImports d'"
    by (elim exE conjE) (rule that)
  moreover have "imports_tbl empty_db = []" by (simp add: empty_db_def)
  ultimately show ?thesis using r(1) by auto
qed

text \<open>
  C25. Repeating an upload with the same idempotency key, whatever else it holds and whatever
  became of the store, returns the import of the first one with its queue position and changes nothing.
\<close>

theorem repeated_upload_reuses:
  assumes "EnqueueLegacy iv fs k inp d s = (Inr r, d', s')"
    and "validateEnqueueInput inp = Inr v" "vi_idempotencyKey v \<noteq> ''''"
    and "validateEnqueueInput inp' = Inr v'" "vi_idempotencyKey v' = vi_idempotencyKey v"
  shows "EnqueueLegacy iv' fs' k' inp' d' t = (Inr (r\<lparr>er_Reused := True\<rparr>), d', t)"
proof -
  have "\<exists>im. q_GetImportByIdempotencyKey d' (nullableString (vi_idempotencyKey v)) = Inr im
      \<and> im_profile im = legacyProfile \<and> r = \<lparr>er_Import = im, er_QueuePosition = queuePosition d' im, er_Reused = er_Reused r\<rparr>"
    using EnqueueLegacy_outcome [OF assms(1)]
  proof (elim disjE conjE exE)
    fix r0 valid sfile plan path
    assume a: "Inr r = (Inr r0 :: (ServiceError, EnqueueResult) result)" "validateEnqueueInput inp = Inr valid" "queued_new iv valid sfile plan d r0 d'"
    from queued_new_tables [OF a(3)] obtain im where t: "er_Import r = im" "\<not> er_Reused r"
      "er_QueuePosition r = q_CountActiveImports d + 1" "imports_tbl d' = imports_tbl d @ [im]" "queued_row d valid sfile im"
      "\<forall>x \<in> set (imports_tbl d). \<not> import_clash im x" using a(1) by (metis sum.inject(2))
    have "valid = v" using a(2) assms(2) by simp
    then have key: "im_idempotency_key im = Some (vi_idempotencyKey v)" "im_profile im = legacyProfile" "im_status im = ''queued''"
      "im_id im = next_rowid im_id (imports_tbl d)" using t(5) assms(3) by (auto simp: queued_row_def nullableString_def)
    have "find (\<lambda>x. sql_eq (im_idempotency_key x) (Some (vi_idempotencyKey v))) (imports_tbl d) = None"
      using t(6) key(1) by (auto simp: find_None_set sql_eq_def import_clash_def split: option.splits)
    then have "q_GetImportByIdempotencyKey d' (nullableString (vi_idempotencyKey v)) = Inr im"
      using key(1) assms(3) by (simp add: q_GetImportByIdempotencyKey_def sql_get_def t(4) find_append sql_eq_def nullableString_def)
    moreover have "queuePosition d' im = er_QueuePosition r"
      using ahead_of_new [OF t(4) key(4)] key(3) t(3) by (simp add: queuePosition_def)
    ultimately show ?thesis using key(2) t(1) by (intro exI [of _ im]) simp
  next
    fix r0 valid
    assume "d' = d" "Inr r = (Inr r0 :: (ServiceError, EnqueueResult) result)" "validateEnqueueInput inp = Inr valid" "reused d valid r0"
    then show ?thesis using assms(2) by (auto simp: reused_def)
  qed auto
  then obtain im where "q_GetImportByIdempotencyKey d' (nullableString (vi_idempotencyKey v)) = Inr im"
    "im_profile im = legacyProfile" "r = \<lparr>er_Import = im, er_QueuePosition = queuePosition d' im, er_Reused = er_Reused r\<rparr>" by blast
  moreover from this(3) have "r\<lparr>er_Reused := True\<rparr> = \<lparr>er_Import = im, er_QueuePosition = queuePosition d' im, er_Reused = True\<rparr>"
    by (metis EnqueueResult.update_convs(3))
  ultimately show ?thesis using assms(3-5) by (simp add: EnqueueLegacy_def reuseResult_def)
qed

theorem repeated_upload_witness:
  "\<exists>r d'. EnqueueLegacy sample_imports sample_store 0 sample_upload empty_db Map.empty = (Inr r, d', sample_disk)
     \<and> EnqueueLegacy sample_imports sample_store 1 sample_upload d' sample_disk = (Inr (r\<lparr>er_Reused := True\<rparr>), d', sample_disk)"
proof -
  from sample_enqueued obtain r d' where
    r: "EnqueueLegacy sample_imports sample_store 0 sample_upload empty_db Map.empty = (Inr r, d', sample_disk)" by blast
  have "vi_idempotencyKey sample_valid \<noteq> ''''" by (simp add: sample_valid_def)
  from repeated_upload_reuses [OF r sample_validated this sample_validated refl, of sample_imports sample_store 1 sample_disk] r
  show ?thesis by blast
qed

end
