(* ===== verification/StagingSamples.thy ===== *)
theory StagingSamples
  imports ImportSamples ImportStager LegacyLaws
begin

text \<open>
  A run of the stager on the uploaded sample import, with one row of data in its first sheet.
\<close>

definition one_row_workbook :: xlsx_file where
  "one_row_workbook = sample_workbook\<lparr>xf_rows := (\<lambda>n. Inr \<lparr>it_rows = (if n = SheetA then [Inr sample_headers, Inr sample_cells] else []),
     it_error = None\<rparr>)\<rparr>"

definition sample_stager :: "disk stage_env" where
  "sample_stager =
     \<lparr>sg_cancelled = None, sg_verify_ctx = (\<lambda>_. None), sg_cancel = (\<lambda>_ _. None), sg_legacy = sample_legacy_env,
      sg_marshal_extra = (\<lambda>_. Inr ''{}''), sg_json = sample_plan_json,
      sg_clock = \<lparr>tm_now = (\<lambda>_. 0), tm_format = (\<lambda>_. sample_time), tm_parse = (\<lambda>_. Some 1)\<rparr>,
      sg_config = DefaultStagingConfig\<lparr>sc_BatchSize := 2\<rparr>, sg_begin_err = (\<lambda>_. None), sg_commit_err = (\<lambda>_. None),
      sg_open = (\<lambda>s p. case s p of Some (Regular c) \<Rightarrow> Inr \<lparr>fr_chunks = [c], fr_error = None\<rparr> | _ \<Rightarrow> Inl ''no such file''),
      sg_xlsx = (\<lambda>_ _. one_row_workbook)\<rparr>"

definition sample_claimed :: Import where
  "sample_claimed = sample_import\<lparr>im_status := ''processing'', im_phase := Some ''parsing'', im_lease_owner := Some ''w1'',
     im_lease_expires_at := Some sample_time, im_heartbeat_at := Some sample_time, im_attempt := 1,
     im_started_at := Some sample_time, im_updated_at := sample_time\<rparr>"

definition sample_started :: Import where
  "sample_started = sample_claimed\<lparr>im_phase := Some ''staging''\<rparr>"

definition sample_claimed_db :: db where
  "sample_claimed_db = sample_queued_db\<lparr>imports_tbl := [sample_claimed]\<rparr>"

definition sample_started_db :: db where
  "sample_started_db = sample_queued_db\<lparr>imports_tbl := [sample_started]\<rparr>"

lemma sample_import_checks: "import_check sample_claimed" "import_check sample_started"
  using sample_token_ok(2)
  by (simp_all add: import_check_def sample_started_def sample_claimed_def sample_import_def legacyProfile_def)

lemma upd_only_import:
  assumes "imports_tbl d = [r]" "im_id r = i" "cond r" "f r = r'" "im_id r' = i" "import_check r'"
  shows "upd_import d i cond f = Inr (r', d\<lparr>imports_tbl := [r']\<rparr>)"
  using assms by (simp add: upd_import_def stored_def sql_update_def no_fk_def Let_def)

lemma sample_claim: "q_ClaimNextImport sample_queued_db (Some ''w1'') (Some sample_time) sample_time = Inr (sample_claimed, sample_claimed_db)"
proof -
  have "\<not> holds_lease sample_time sample_import" "claimable sample_time sample_import"
    by (simp_all add: holds_lease_def claimable_def sample_import_def)
  then show ?thesis unfolding q_ClaimNextImport_def sample_claimed_db_def
    by (simp add: sample_queued_imports)
      (rule upd_only_import, simp_all add: sample_queued_imports sample_import_checks, simp_all add: sample_claimed_def sample_import_def)
qed

lemma sample_start: "q_StartImportStaging sample_claimed_db sample_time (Some sample_time) 1 (Some ''w1'') = Inr (sample_started, sample_started_db)"
proof -
  have "owned (Some ''w1'') (Some sample_time) [''parsing'', ''staging''] sample_claimed"
    by (simp add: owned_def sample_claimed_def sql_eq_def sql_ge_def)
  then have "upd_import sample_claimed_db 1 (owned (Some ''w1'') (Some sample_time) [''parsing'', ''staging''])
      (\<lambda>r. r\<lparr>im_phase := Some ''staging'', im_heartbeat_at := Some sample_time, im_lease_expires_at := Some sample_time,
        im_updated_at := sample_time\<rparr>) = Inr (sample_started, sample_claimed_db\<lparr>imports_tbl := [sample_started]\<rparr>)"
    by (intro upd_only_import) (simp_all add: sample_import_checks sample_claimed_db_def,
      simp_all add: sample_started_def sample_claimed_def sample_import_def)
  then show ?thesis by (simp add: q_StartImportStaging_def sample_started_db_def sample_claimed_db_def)
qed

lemma sample_claimed_fields:
  "im_id sample_claimed = 1" "im_temp_file_token sample_claimed = Some sample_token" "im_source_size_bytes sample_claimed = Some 2"
  "im_source_sha256 sample_claimed = Some sample_token" "im_staged_at sample_claimed = None" "im_lease_owner sample_claimed = Some ''w1''"
  "im_rows_total sample_started = 0" "im_temp_file_expires_at sample_claimed = Some sample_time"
  by (simp_all add: sample_started_def sample_claimed_def sample_import_def)

lemma sample_valid_claim: "validateStagingImport sample_stager sample_claimed = Inr ()"
  by code_simp

lemma sample_verified: "verifyStagingSource sample_stager sample_disk (local_path ''/srv'' sample_token) 2 sample_token = Inr ()"
  by code_simp

subsection \<open>The rows of the workbook\<close>

definition sample_source :: "SheetProfile \<Rightarrow> SourceRow" where
  "sample_source p = (empty_row p p 2)\<lparr>sr_INN := ''7700000001'', sr_ExtraFields := [(''x'', ''note'')],
     sr_SourceFingerprintSHA256 := sample_token\<rparr>"

lemma sample_limits: "MaxCells DefaultLimits = 5000000" "MaxRows DefaultLimits = 200000"
  by (simp_all add: DefaultLimits_def)

lemma sample_header_action:
  assumes "ps_Cells st \<le> 1000"
  shows "row_action sample_legacy_env DefaultLimits (sample_plan p i) 1 sample_headers st
    = (st\<lparr>ps_Cells := ps_Cells st + 13\<rparr>, Inr None)"
  using assms by (simp add: row_action_def sample_limits sample_headers_hd(2) sample_cell_limits sample_plan_def Let_def)

lemma sample_data_action:
  assumes "ps_Cells st \<le> 1000" "ps_Rows st \<le> 1000"
  shows "row_action sample_legacy_env DefaultLimits (sample_plan p i) 2 sample_cells st
    = (\<lparr>ps_Rows = ps_Rows st + 1, ps_Cells = ps_Cells st + 2\<rparr>, Inr (Some (sample_source p)))"
proof -
  have x: "normalizeLabel sample_unicode ''x'' = ''x''" "\<not> isSecretHeader sample_unicode ''x''"
    using sample_header_roles [of "''x''"] sample_headers_hd(1) by (metis list.set_intros(1))+
  have row: "extractSourceRow sample_legacy_env (sample_plan p i) 2 sample_cells = Inr (sample_source p)"
    unfolding extractSourceRow_def fingerprintSourceRow_def using x
    by (simp add: sample_cells_def sample_cells_trim sample_plan_def sample_source_def sample_legacy_env_def
        setSourceField_def Field_defs empty_row_def sample_token_def sample_bytes_def Let_def)
  have len: "length sample_cells = 2" by (simp add: sample_cells_def)
  show ?thesis using assms sample_not_empty(2) sample_cell_limits(2)
    by (simp add: row_action_def sample_limits len row sample_classified Let_def sample_source_def sourceRowEmpty_def)
      (simp add: sample_plan_def)
qed

lemma sample_sheet_stream:
  assumes "ps_Cells st \<le> 500" "ps_Rows st \<le> 500"
  shows "stream_rows sample_legacy_env no_cancel DefaultLimits (sample_plan p i) (collect :: (_, 'e) sink) 0
      [Inr sample_headers, Inr sample_cells] st acc
    = (None, \<lparr>ps_Rows = ps_Rows st + 1, ps_Cells = ps_Cells st + 15\<rparr>, acc @ [sample_source p])"
  using assms by (simp add: no_cancel_def sample_header_action sample_data_action collect_def)

lemma sample_emitted:
  "(emitted sample_legacy_env no_cancel one_row_workbook sample_workbook_plan DefaultLimits :: 'e stop option \<times> _)
    = (None, \<lparr>ps_Rows = 1, ps_Cells = 15\<rparr>, [sample_source SheetA])"
proof -
  have nc: "no_cancel a b = None" for a b by (simp add: no_cancel_def)
  have wb: "xf_workbook one_row_workbook = Inr [SheetA, SheetB, SheetV, SheetP, SheetS]"
    "xf_rows one_row_workbook n = Inr \<lparr>it_rows = (if n = SheetA then [Inr sample_headers, Inr sample_cells] else []), it_error = None\<rparr>" for n
    by (simp_all add: sample_workbook_def one_row_workbook_def)
  have ne: "SheetB \<noteq> SheetA" "SheetV \<noteq> SheetA" "SheetP \<noteq> SheetA" "SheetS \<noteq> SheetA" using sample_sheets_distinct by auto
  have empty: "stream_rows env ctx lim sh sink 0 [] st acc = (None, st, acc)" for env ctx lim sh sink st and acc :: "SourceRow list"
    by simp
  show ?thesis unfolding emitted_def Parse_def sample_workbook_plan_def
    by (simp add: nc wb ne sample_sheet_stream empty Let_def del: stream_rows.simps)
qed

lemma sample_load: "loadStagingSheets sample_stager sample_claimed sample_claimed_db
    = Inr (map (\<lambda>r. \<lparr>st_row = r, st_seen = 0, st_committed = 0\<rparr>) (import_sheets sample_queue), sample_workbook_plan)"
  by code_simp

subsection \<open>The run\<close>

definition sample_run :: run where
  "sample_run = start_run sample_started_db (map (\<lambda>r. \<lparr>st_row = r, st_seen = 0, st_committed = 0\<rparr>) (import_sheets sample_queue)) 0"

definition sample_walked :: "stage_failure option \<times> run" where
  "sample_walked = feed (stage_sink sample_stager sample_started) [sample_source SheetA] sample_run"

definition sample_flushed :: "stage_failure option \<times> run" where
  "sample_flushed = flush sample_stager sample_started (snd sample_walked)"

lemma sample_walk: "fst sample_walked = None"
  by code_simp

lemma sample_flush: "fst sample_flushed = None"
  by code_simp

lemma sample_finish: "fst (finish sample_stager sample_store sample_started (snd sample_flushed) sample_disk)
    = Inr \<lparr>so_ImportID = 1, so_RowsStaged = 1, so_SheetsStaged = 5\<rparr>"
  by code_simp

lemma fst_None_pair: "fst x = None \<Longrightarrow> x = (None, snd x)"
  by (cases x) simp

lemma one_row_parse:
  "\<exists>stats. Parse sample_legacy_env no_cancel one_row_workbook sample_workbook_plan DefaultLimits
      (stage_sink sample_stager sample_started) sample_run = (None, stats, snd sample_walked)"
proof -
  have "streams (Parse sample_legacy_env no_cancel one_row_workbook sample_workbook_plan DefaultLimits (stage_sink sample_stager sample_started))
      (stage_sink sample_stager sample_started) [sample_source SheetA] None \<lparr>ps_Rows = 1, ps_Cells = 15\<rparr>"
    using Parse_emitted [OF sample_emitted] by blast
  moreover have "feed (stage_sink sample_stager sample_started) [sample_source SheetA] sample_run = (None, snd sample_walked)"
    using sample_walk unfolding sample_walked_def by (rule fst_None_pair)
  ultimately have "Parse sample_legacy_env no_cancel one_row_workbook sample_workbook_plan DefaultLimits
      (stage_sink sample_stager sample_started) sample_run = (None, \<lparr>ps_Rows = 1, ps_Cells = 15\<rparr>, snd sample_walked)"
    by (rule streams_None)
  then show ?thesis by (rule exI)
qed

lemma sample_staged:
  "\<exists>d' s'. Stage sample_stager sample_store sample_claimed sample_claimed_db sample_disk
     = (Inr \<lparr>so_ImportID = 1, so_RowsStaged = 1, so_SheetsStaged = 5\<rparr>, d', s')"
proof -
  have env: "sg_cancelled sample_stager = None" "sg_legacy sample_stager = sample_legacy_env" "sg_cancel sample_stager = no_cancel"
    "sg_xlsx sample_stager s p = one_row_workbook" "sc_LegacyLimits (sg_config sample_stager) = DefaultLimits"
    "now_text sample_stager k = sample_time" "lease_text sample_stager k = Some sample_time"
    "tm_parse (sg_clock sample_stager) t = Some 1" "tm_now (sg_clock sample_stager) k = 0" for s p k t
    by (simp_all add: sample_stager_def no_cancel_def DefaultStagingConfig_def now_text_def lease_text_def)
  obtain stats where pa: "Parse sample_legacy_env no_cancel one_row_workbook sample_workbook_plan DefaultLimits
      (stage_sink sample_stager sample_started) sample_run = (None, stats, snd sample_walked)" using one_row_parse by blast
  have fl: "flush sample_stager sample_started (snd sample_walked) = (None, snd sample_flushed)"
    using sample_flush unfolding sample_flushed_def by (rule fst_None_pair)
  have "stage_workbook sample_stager sample_store sample_started one_row_workbook sample_workbook_plan sample_run sample_disk
      = finish sample_stager sample_store sample_started (snd sample_flushed) sample_disk"
    by (simp add: stage_workbook_def env pa fl)
  moreover have "Stage sample_stager sample_store sample_claimed sample_claimed_db sample_disk
      = stage_source sample_stager sample_store sample_claimed (local_path ''/srv'' sample_token) sample_claimed_db sample_disk"
    by (simp add: Stage_def env sample_valid_claim sample_claimed_fields sample_path sample_verified)
  moreover have "stage_source sample_stager sample_store sample_claimed (local_path ''/srv'' sample_token) sample_claimed_db sample_disk
      = stage_workbook sample_stager sample_store sample_started one_row_workbook sample_workbook_plan sample_run sample_disk"
    by (simp add: stage_source_def sample_load env sample_claimed_fields sample_start sample_run_def)
  ultimately show ?thesis using sample_finish by (metis prod.collapse)
qed

end
