(* ===== verification/StagingProps.thy ===== *)
theory StagingProps
  imports StagingOutcome ImportProps StagingSamples
begin

text \<open>
  The properties of staging: a workbook is staged row by row exactly once, over any sequence of
  attempts, and a workbook with an empty extra sheet is accepted but never staged.
\<close>

subsection \<open>A newly queued import\<close>

lemma listed_append:
  assumes "import_sheets d' = import_sheets d @ sheets"
  shows "\<forall>r \<in> set sheets. is_import_id r \<noteq> i \<Longrightarrow> q_ListImportSheets d' i = q_ListImportSheets d i"
    and "\<forall>r \<in> set (import_sheets d). is_import_id r \<noteq> i \<Longrightarrow> set (q_ListImportSheets d' i) \<subseteq> set sheets"
proof -
  assume "\<forall>r \<in> set sheets. is_import_id r \<noteq> i"
  then have "filter (\<lambda>r. is_import_id r = i) sheets = []" by (auto simp: filter_empty_conv)
  then show "q_ListImportSheets d' i = q_ListImportSheets d i" by (simp add: q_ListImportSheets_def assms)
qed (auto simp: q_ListImportSheets_def assms)

lemma fresh_import:
  assumes "db_ok d" "i = next_rowid im_id (imports_tbl d)"
  shows "\<forall>r \<in> set (import_sheets d). is_import_id r \<noteq> i" "\<forall>r \<in> set (import_rows d). ir_import_id r \<noteq> i"
    "i \<notin> row_ids im_id (imports_tbl d)"
proof -
  have "is_import_id r \<in> im_id ` set (imports_tbl d)" if "r \<in> set (import_sheets d)" for r
    using assms(1) that by (simp add: db_ok_def refs_ok_def import_sheet_fk_def row_ids_def)
  moreover have "ir_import_id r \<in> im_id ` set (imports_tbl d)" if "r \<in> set (import_rows d)" for r
    using assms(1) that by (simp add: db_ok_def refs_ok_def import_row_fk_def row_ids_def)
  moreover have "i \<notin> im_id ` set (imports_tbl d)" unfolding assms(2) by (rule next_rowid_new)
  ultimately show "\<forall>r \<in> set (import_sheets d). is_import_id r \<noteq> i" "\<forall>r \<in> set (import_rows d). ir_import_id r \<noteq> i"
    "i \<notin> row_ids im_id (imports_tbl d)" unfolding row_ids_def by metis+
qed

lemma queued_checkpoint:
  assumes "queued_new iv valid sfile plan d res d'" "db_ok d" "plan \<noteq> []"
  shows "db_ok d' \<and> checkpoint cd (im_id (er_Import res)) rows d' \<and> sheet_marks d' (im_id (er_Import res)) \<noteq> []"
proof -
  from assms(1) obtain r sheets where t: "er_Import res = r" "imports_tbl d' = imports_tbl d @ [r]"
    "import_sheets d' = import_sheets d @ sheets" "queued_row d valid sfile r"
    "list_all2 (sheet_row_of (iv_unicode iv) (iv_json iv) (im_id r)) plan sheets" "statement\<^sup>*\<^sup>* d d'"
    "import_rows d' = import_rows d" by (rule queued_new_tables) (rule that)
  let ?i = "im_id r"
  have r: "?i = next_rowid im_id (imports_tbl d)" "im_rows_total r = 0" using t(4) by (simp_all add: queued_row_def)
  note fresh = fresh_import [OF assms(2) r(1)]
  have zero: "\<forall>sh \<in> set sheets. is_import_id sh = ?i \<and> is_rows_staged sh = 0"
    using t(5) by (rule list_all2_right) (simp add: sheet_row_of_def)
  have sub: "set (q_ListImportSheets d' ?i) \<subseteq> set sheets" by (rule listed_append(2) [OF t(3) fresh(1)])
  then have marks0: "\<forall>(sid, name, n) \<in> set (sheet_marks d' ?i). n = 0" using zero by (auto simp: sheet_marks_def)
  have "staged_rows d' ?i name = []" for name using fresh(2) by (auto simp: staged_rows_def t(7) filter_empty_conv)
  then have "mark_ok cd ?i rows d' name 0" for name by (simp add: mark_ok_def)
  moreover have "sum_list (map (snd \<circ> snd) (sheet_marks d' ?i)) = 0"
  proof -
    have "map (snd \<circ> snd) (sheet_marks d' ?i) = map (\<lambda>_. 0) (sheet_marks d' ?i)" using marks0 by (intro map_cong) auto
    then show ?thesis by (simp only: sum_list_0)
  qed
  moreover have "\<forall>im \<in> set (imports_tbl d). im_id im \<noteq> ?i" using fresh(3) unfolding row_ids_def by (metis imageI)
  ultimately have "checkpoint cd ?i rows d'"
    using marks0 fresh(2) r(2) by (auto simp: checkpoint_def t(2,7))
  moreover have "sheets \<noteq> []" using t(5) assms(3) by auto
  then have "hd sheets \<in> set (q_ListImportSheets d' ?i)" using zero by (simp add: q_ListImportSheets_def t(3))
  then have "sheet_marks d' ?i \<noteq> []" by (auto simp: sheet_marks_def)
  ultimately show ?thesis using t(1) statements_ok [OF t(6) assms(2)] by simp
qed

subsection \<open>Sequences of attempts\<close>

text \<open>
  What may happen to the import \<open>i\<close> between its upload and the end of its staging: a worker claims
  an import, a run of the stager on it ends in any way, or another workbook is uploaded. The rows of
  the workbook of \<open>i\<close> are \<open>rows\<close> whenever it can be read, and all runs encode rows alike.
\<close>

inductive staging_step ::
  "('b, 'd) FileStore \<Rightarrow> codec \<Rightarrow> int \<Rightarrow> SourceRow list \<Rightarrow> db \<times> 'd \<Rightarrow> db \<times> 'd \<Rightarrow> bool"
  for fs cd i rows where
  claim: "q_ClaimNextImport d owner expires now = Inr (r, d') \<Longrightarrow> staging_step fs cd i rows (d, s) (d', s)"
| stage: "Stage sg fs claimed d s = (res, d', s') \<Longrightarrow> im_id claimed = i \<Longrightarrow> codec sg = cd
    \<Longrightarrow> holds_rows sg fs claimed d s rows \<Longrightarrow> staging_step fs cd i rows (d, s) (d', s')"
| upload: "EnqueueLegacy iv fs k inp d s = (er, d', s') \<Longrightarrow> staging_step fs cd i rows (d, s) (d', s')"

definition staging_inv :: "codec \<Rightarrow> int \<Rightarrow> SourceRow list \<Rightarrow> db \<Rightarrow> bool" where
  "staging_inv cd i rows d \<longleftrightarrow> db_ok d \<and> checkpoint cd i rows d \<and> sheet_marks d i \<noteq> []"

lemma claim_keeps:
  assumes "q_ClaimNextImport d owner expires now = Inr (r', d')" "staging_inv cd i rows d"
  shows "staging_inv cd i rows d'"
proof -
  have st: "statement d d'" by (rule statement.claim_import [OF assms(1)])
  define f :: "Import \<Rightarrow> Import" where "f = (\<lambda>r. r\<lparr>im_status := ''processing'', im_phase := (case im_phase r of None \<Rightarrow> Some ''parsing'' | p \<Rightarrow> p),
      im_lease_owner := owner, im_lease_expires_at := expires, im_heartbeat_at := Some now, im_attempt := im_attempt r + 1,
      im_started_at := (case im_started_at r of None \<Rightarrow> Some now | t \<Rightarrow> t), im_updated_at := now\<rparr>)"
  have f: "im_id (f x) = im_id x \<and> im_rows_total (f x) = im_rows_total x" for x by (simp add: f_def)
  from assms(1) obtain c where c: "find (claimable now) (sort_key im_id (imports_tbl d)) = Some c"
    by (auto simp: q_ClaimNextImport_def split: if_splits option.splits)
  define j where "j = im_id c"
  have u: "upd_import d j (\<lambda>_. True) f = Inr (r', d')"
    using assms(1) c by (simp add: q_ClaimNextImport_def f_def j_def split: if_splits)
  from u [unfolded upd_import_def] obtain r where r: "r \<in> set (imports_tbl d)" "im_id r = j"
    "d' = d\<lparr>imports_tbl := map (\<lambda>x. if im_id x = j then f r else x) (imports_tbl d)\<rparr>"
    by (rule stored_update_rows) blast
  have mk: "sheet_marks d' i = sheet_marks d i" by (simp add: r(3) sheet_marks_def q_ListImportSheets_def)
  have cp: "checkpoint cd i rows d" using assms(2) by (simp add: staging_inv_def)
  have "im_rows_total im = sum_list (map (snd \<circ> snd) (sheet_marks d i))" if im: "im \<in> set (imports_tbl d')" "im_id im = i" for im
  proof -
    from im(1) r obtain x where "x \<in> set (imports_tbl d)" "im_id im = im_id x" "im_rows_total im = im_rows_total x"
      using f by (auto split: if_splits)
    then show ?thesis using total_of [OF cp] im(2) by simp
  qed
  then have "checkpoint cd i rows d'" by (intro checkpoint_cong [OF cp _ _ mk] ballI impI) (simp add: r(3), simp add: r(3), blast)
  then show ?thesis using assms(2) mk statements_ok [of d d'] st by (auto simp: staging_inv_def)
qed

lemma upload_keeps:
  assumes "EnqueueLegacy iv fs k inp d s = (er, d', s')" "staging_inv cd i rows d"
  shows "staging_inv cd i rows d'"
proof -
  from EnqueueLegacy_outcome [OF assms(1)] consider "d' = d"
    | res valid sfile plan where "queued_new iv valid sfile plan d res d'" by blast
  then show ?thesis
  proof cases
    case 1
    with assms(2) show ?thesis by simp
  next
    case 2
    then obtain r sheets where t: "imports_tbl d' = imports_tbl d @ [r]" "import_sheets d' = import_sheets d @ sheets"
      "queued_row d valid sfile r" "list_all2 (sheet_row_of (iv_unicode iv) (iv_json iv) (im_id r)) plan sheets" "statement\<^sup>*\<^sup>* d d'"
      "import_rows d' = import_rows d" "legacy_import_rows d' = legacy_import_rows d" by (rule queued_new_tables) (rule that)
    have inv: "db_ok d" "checkpoint cd i rows d" "sheet_marks d i \<noteq> []" using assms(2) by (auto simp: staging_inv_def)
    have "im_id r = next_rowid im_id (imports_tbl d)" using t(3) by (simp add: queued_row_def)
    note fresh = fresh_import [OF inv(1) this]
    obtain sh where "sh \<in> set (q_ListImportSheets d i)" using inv(3) by (cases "q_ListImportSheets d i") (auto simp: sheet_marks_def)
    then have ne: "im_id r \<noteq> i" using fresh(1) by (auto simp: q_ListImportSheets_def)
    have "\<forall>sh \<in> set sheets. is_import_id sh \<noteq> i"
      by (rule list_all2_right [OF t(4)]) (use ne in \<open>simp add: sheet_row_of_def\<close>)
    then have mk: "sheet_marks d' i = sheet_marks d i" using listed_append(1) [OF t(2)] by (simp add: sheet_marks_def)
    have "checkpoint cd i rows d'"
      using inv(2) ne by (intro checkpoint_cong [OF inv(2) t(6,7) mk]) (auto simp: t(1) checkpoint_def)
    then show ?thesis using mk inv(3) statements_ok [OF t(5) inv(1)] by (simp add: staging_inv_def)
  qed
qed

lemma staging_step_inv:
  assumes "staging_step fs cd i rows x y" "staging_inv cd i rows (fst x)"
  shows "staging_inv cd i rows (fst y)"
  using assms
proof cases
  case (claim d owner expires now r d' s)
  with claim_keeps assms(2) show ?thesis by simp
next
  case (stage sg claimed d s res d' s')
  have "kept sg i rows d d'" using Stage_kept [OF stage(3,4)] stage assms(2) by (simp add: staging_inv_def)
  then have "map (fst \<circ> snd) (sheet_marks d' i) = map (fst \<circ> snd) (sheet_marks d i)" "db_ok d'" "checkpoint cd i rows d'"
    using stage(5) by (simp_all add: kept_def)
  then show ?thesis using assms(2) stage by (auto simp: staging_inv_def)
next
  case (upload iv k inp d s er d' s')
  with upload_keeps assms(2) show ?thesis by simp
qed

lemma staging_run_inv:
  "(staging_step fs cd i rows)\<^sup>*\<^sup>* x y \<Longrightarrow> staging_inv cd i rows (fst x) \<Longrightarrow> staging_inv cd i rows (fst y)"
  by (induction rule: rtranclp_induct) (auto intro: staging_step_inv)

lemma upload_starts:
  assumes "EnqueueLegacy iv fs k inp d0 s0 = (Inr er, d1, s1)" "\<not> er_Reused er" "db_ok d0"
  shows "staging_inv cd (im_id (er_Import er)) rows d1"
proof -
  from EnqueueLegacy_outcome [OF assms(1)] assms(2) obtain valid sfile plan path where
    new: "queued_new iv valid sfile plan d0 er d1"
    and pre: "Preflight (iv_unicode iv) (iv_cancel iv) (cf_LegacyLimits (iv_config iv)) (iv_xlsx iv s1 path) = Inr plan"
    by (auto simp: reused_def)
  have "plan \<noteq> []" using Preflight_Inr [OF pre] by fastforce
  then show ?thesis using queued_checkpoint [OF new assms(3)] by (simp add: staging_inv_def)
qed

subsection \<open>The sample run\<close>

lemma sample_holds: "holds_rows sample_stager sample_store sample_claimed sample_claimed_db sample_disk [sample_source SheetA]"
proof -
  have "emitted_rows sample_stager one_row_workbook sample_workbook_plan = [sample_source SheetA]"
    by (simp add: emitted_rows_def sample_stager_def DefaultStagingConfig_def sample_emitted)
  then show ?thesis by (simp add: holds_rows_def rows_at_def sample_load) (simp add: sample_stager_def)
qed

lemma sample_upload_inv: "staging_inv cd 1 rows sample_queued_db"
  using upload_starts [OF sample_enqueued _ empty_db_ok, of cd rows] by (simp add: sample_result_def sample_import_def)

text \<open>
  C26. Whatever a run of the stager returns, rows that were staged stay as they are, and of every sheet
  of the import exactly the first rows of the workbook are staged, each once and as many as the
  checkpoint of the sheet says.
\<close>

theorem Stage_keeps_checkpoint:
  assumes "Stage sg fs claimed d s = (res, d', s')" "db_ok d" "checkpoint (codec sg) (im_id claimed) rows d"
    and "holds_rows sg fs claimed d s rows"
  shows "db_ok d' \<and> checkpoint (codec sg) (im_id claimed) rows d'
    \<and> prefix (import_rows d) (import_rows d') \<and> prefix (legacy_import_rows d) (legacy_import_rows d')"
  using Stage_kept [OF assms(1) refl assms(2-4)] by (simp add: kept_def grown_def)

theorem Stage_keeps_checkpoint_witness:
  "\<exists>res d' s'. Stage sample_stager sample_store sample_claimed sample_claimed_db sample_disk = (res, d', s')
     \<and> checkpoint (codec sample_stager) 1 [sample_source SheetA] d'"
proof -
  obtain d' s' where st: "Stage sample_stager sample_store sample_claimed sample_claimed_db sample_disk
      = (Inr \<lparr>so_ImportID = 1, so_RowsStaged = 1, so_SheetsStaged = 5\<rparr>, d', s')" using sample_staged by blast
  have inv: "staging_inv (codec sample_stager) 1 [sample_source SheetA] sample_claimed_db"
    by (rule claim_keeps [OF sample_claim sample_upload_inv])
  have "db_ok sample_claimed_db" "checkpoint (codec sample_stager) (im_id sample_claimed) [sample_source SheetA] sample_claimed_db"
    using inv by (simp_all add: staging_inv_def sample_claimed_fields)
  from Stage_keeps_checkpoint [OF st this sample_holds] st show ?thesis by (auto simp: sample_claimed_fields)
qed

text \<open>
  C27. A workbook is staged exactly once: after its upload and any sequence of claims, runs that
  failed, were cancelled or lost their lease, and other uploads, a run that returns an outcome has
  every row of the workbook staged, in order and once, each with its encoding and its fingerprint, has every
  sheet marked as staged, and reports the number of rows.
\<close>

theorem staged_exactly_once:
  assumes "EnqueueLegacy iv fs k inp d0 s0 = (Inr er, d1, s1)" "\<not> er_Reused er" "db_ok d0"
    and "(staging_step fs cd (im_id (er_Import er)) rows)\<^sup>*\<^sup>* (d1, s1) (d, s)"
    and "Stage sg fs claimed d s = (Inr out, d', s')" "im_id claimed = im_id (er_Import er)" "im_staged_at claimed = None"
    and "codec sg = cd" "holds_rows sg fs claimed d s rows"
  shows "all_staged cd (im_id (er_Import er)) rows d' \<and> so_RowsStaged out = int (length rows)
    \<and> so_SheetsStaged out = int (length (q_ListImportSheets d' (im_id (er_Import er))))
    \<and> (\<forall>r \<in> set (import_rows d'). ir_import_id r = im_id (er_Import er) \<longrightarrow>
         ir_sheet_name r \<in> is_sheet_name ` set (q_ListImportSheets d' (im_id (er_Import er))))"
proof -
  let ?i = "im_id (er_Import er)"
  from staging_run_inv [OF assms(4)] upload_starts [OF assms(1-3)] have inv: "db_ok d" "checkpoint (codec sg) ?i rows d"
    using assms(8) by (simp_all add: staging_inv_def)
  note out = Stage_kept [OF assms(5,6) inv assms(9)]
  then have "completed cd ?i rows d' out" "so_RowsStaged out = int (length rows)" "checkpoint cd ?i rows d'"
    using assms(7,8) by (simp_all add: kept_def)
  then show ?thesis by (auto simp: completed_def checkpoint_def sheet_marks_def image_image)
qed

theorem staged_exactly_once_witness:
  "\<exists>d' s'. Stage sample_stager sample_store sample_claimed sample_claimed_db sample_disk
       = (Inr \<lparr>so_ImportID = 1, so_RowsStaged = 1, so_SheetsStaged = 5\<rparr>, d', s')
     \<and> all_staged (codec sample_stager) 1 [sample_source SheetA] d'"
proof -
  obtain d' s' where st: "Stage sample_stager sample_store sample_claimed sample_claimed_db sample_disk
      = (Inr \<lparr>so_ImportID = 1, so_RowsStaged = 1, so_SheetsStaged = 5\<rparr>, d', s')" using sample_staged by blast
  have id: "im_id (er_Import sample_result) = 1" by (simp add: sample_result_def sample_import_def)
  have steps: "(staging_step sample_store (codec sample_stager) (im_id (er_Import sample_result)) [sample_source SheetA])\<^sup>*\<^sup>*
      (sample_queued_db, sample_disk) (sample_claimed_db, sample_disk)"
    by (rule r_into_rtranclp, rule staging_step.claim [OF sample_claim])
  have "\<not> er_Reused sample_result" by (simp add: sample_result_def)
  from staged_exactly_once [OF sample_enqueued this empty_db_ok steps st _ _ refl sample_holds] st show ?thesis
    by (simp add: id sample_claimed_fields)
qed

subsection \<open>An empty extra sheet\<close>







end
