(* ===== verification/ImportReader.thy ===== *)
theory ImportReader
  imports GoNet ImportService
begin

text \<open>
  Reading imports (\<^verbatim>\<open>imports/read_service.go\<close>): pages of the list, newest first, continued by an opaque
  cursor, and one import by its id, both in the projection the API may show.
\<close>

definition defaultImportPageSize :: int where
  "defaultImportPageSize = 50"

definition maxImportPageSize :: int where
  "maxImportPageSize = 200"

definition cursorVersion :: string where
  "cursorVersion = ''v1''"

record ImportView =
  iw_ID :: int
  iw_Profile :: string
  iw_SourceFileName :: "string option"
  iw_UploadedByActor :: string
  iw_ReceivedAt :: string
  iw_Status :: string
  iw_Phase :: "string option"
  iw_QueuePosition :: int
  iw_RowsTotal :: int
  iw_RowsProcessed :: int
  iw_RowsApplied :: int
  iw_RowsDuplicate :: int
  iw_RowsNeedsReview :: int
  iw_ErrorCode :: "string option"
  iw_ErrorDetail :: "string option"
  iw_StartedAt :: "string option"
  iw_StagedAt :: "string option"
  iw_CompletedAt :: "string option"
  iw_CreatedAt :: string
  iw_UpdatedAt :: string

record ImportPage =
  ip_Items :: "ImportView list"
  ip_NextCursor :: string

text \<open>The rows of the two queries are an import with its queue position; both views read alike.\<close>

definition importViewFromListRow :: "Import \<times> int \<Rightarrow> ImportView" where
  "importViewFromListRow row =
     (let r = fst row in
      \<lparr>iw_ID = im_id r, iw_Profile = im_profile r, iw_SourceFileName = im_source_file_name r,
       iw_UploadedByActor = im_uploaded_by_actor r, iw_ReceivedAt = im_received_at r, iw_Status = im_status r,
       iw_Phase = im_phase r, iw_QueuePosition = snd row, iw_RowsTotal = im_rows_total r,
       iw_RowsProcessed = im_rows_processed r, iw_RowsApplied = im_rows_applied r, iw_RowsDuplicate = im_rows_duplicate r,
       iw_RowsNeedsReview = im_rows_needs_review r, iw_ErrorCode = im_error_code r, iw_ErrorDetail = im_error_detail r,
       iw_StartedAt = im_started_at r, iw_StagedAt = im_staged_at r, iw_CompletedAt = im_completed_at r,
       iw_CreatedAt = im_created_at r, iw_UpdatedAt = im_updated_at r\<rparr>)"

definition importViewFromGetRow :: "Import \<times> int \<Rightarrow> ImportView" where
  "importViewFromGetRow row = importViewFromListRow row"

datatype read_error = ErrImportNotFound | ReadService ServiceError

definition encodeImportCursor :: "int \<Rightarrow> string" where
  "encodeImportCursor i = b64_EncodeToString (cursorVersion @ '':'' @ show_int i)"

text \<open>\<open>strings.Cut\<close> at the first colon.\<close>

definition cut_colon :: "string \<Rightarrow> string \<times> string \<times> bool" where
  "cut_colon s =
     (if CHR '':'' \<in> set s
      then (takeWhile (\<lambda>c. c \<noteq> CHR '':'') s, tl (dropWhile (\<lambda>c. c \<noteq> CHR '':'') s), True)
      else (s, '''', False))"

definition invalid_cursor :: "(read_error, int) result" where
  "invalid_cursor = Inl (ReadService (inputServiceError ''invalid import cursor''))"

definition decodeImportCursor :: "string \<Rightarrow> (read_error, int) result" where
  "decodeImportCursor cursor =
     (if cursor = '''' then Inr 0
      else case b64_DecodeString cursor of
        None \<Rightarrow> invalid_cursor
      | Some decoded \<Rightarrow>
          (let (prefix, rawID, ok) = cut_colon decoded in
           if \<not> ok \<or> prefix \<noteq> cursorVersion \<or> rawID = '''' then invalid_cursor
           else case Atoi rawID of
             None \<Rightarrow> invalid_cursor
           | Some i \<Rightarrow> if i \<le> 0 \<or> show_int i \<noteq> rawID then invalid_cursor else Inr i))"

definition imports_List :: "db \<Rightarrow> string \<Rightarrow> int \<Rightarrow> (read_error, ImportPage) result" where
  "imports_List d cursor limit =
     (let limit = (if limit = 0 then defaultImportPageSize else limit) in
      if limit < 1 \<or> limit > maxImportPageSize
      then Inl (ReadService (inputServiceError ''invalid import page limit''))
      else case decodeImportCursor cursor of
        Inl e \<Rightarrow> Inl e
      | Inr beforeID \<Rightarrow>
          (let rows = q_ListImportsAPI d beforeID (limit + 1);
               hasNext = int (length rows) > limit;
               rows = (if hasNext then take (nat limit) rows else rows);
               items = map importViewFromListRow rows
           in Inr \<lparr>ip_Items = items,
                   ip_NextCursor = (if hasNext \<and> items \<noteq> [] then encodeImportCursor (iw_ID (last items)) else '''')\<rparr>))"

definition imports_Get :: "db \<Rightarrow> int \<Rightarrow> (read_error, ImportView) result" where
  "imports_Get d i =
     (if i \<le> 0 then Inl (ReadService (inputServiceError ''invalid import ID''))
      else case q_GetImportAPI d i of
        Inl ErrNoRows \<Rightarrow> Inl ErrImportNotFound
      | Inl (ConstraintFailed v) \<Rightarrow> Inl (ReadService (db_failure ''get import'' (ConstraintFailed v)))
      | Inr row \<Rightarrow> Inr (importViewFromGetRow row))"

subsection \<open>Cursors\<close>

lemma show_int_pos:
  assumes "0 < i"
  shows "show_int i \<noteq> []" "list_all is_ascii_digit (show_int i)" "CHR '':'' \<notin> set (show_int i)"
proof -
  have s: "show_int i = show_nat (nat i)" using assms by (simp add: show_int_def)
  show "show_int i \<noteq> []" "list_all is_ascii_digit (show_int i)" unfolding s by (simp_all add: show_nat_digits)
  then show "CHR '':'' \<notin> set (show_int i)" by (auto simp: list_all_iff is_ascii_digit_def byte_def)
qed

lemma Atoi_show_int:
  assumes "0 < i" "i \<le> int64_max"
  shows "Atoi (show_int i) = Some i"
  using assms show_nat_digits [of "nat i"] by (simp add: show_int_def Atoi_digits digits_val_show_nat)

lemma cursor_round_trip:
  assumes "0 < i" "i \<le> int64_max"
  shows "decodeImportCursor (encodeImportCursor i) = Inr i"
proof -
  have "encodeImportCursor i \<noteq> ''''" by (simp add: encodeImportCursor_def cursorVersion_def b64_nonempty)
  moreover have "cut_colon (cursorVersion @ '':'' @ show_int i) = (cursorVersion, show_int i, True)"
    by (simp add: cut_colon_def cursorVersion_def)
  ultimately show ?thesis using assms show_int_pos [OF assms(1)] Atoi_show_int [OF assms]
    by (simp add: decodeImportCursor_def encodeImportCursor_def b64_round_trip)
qed

subsection \<open>Following the cursors\<close>

text \<open>What a client collects that asks for page after page, for at most as many pages as the fuel allows.\<close>

fun read_pages :: "nat \<Rightarrow> db \<Rightarrow> string \<Rightarrow> int \<Rightarrow> (read_error, ImportView list) result option" where
  "read_pages 0 d cursor limit = None"
| "read_pages (Suc n) d cursor limit =
     (case imports_List d cursor limit of
        Inl e \<Rightarrow> Some (Inl e)
      | Inr page \<Rightarrow>
          if ip_NextCursor page = '''' then Some (Inr (ip_Items page))
          else case read_pages n d (ip_NextCursor page) limit of
                 Some (Inr items) \<Rightarrow> Some (Inr (ip_Items page @ items))
               | other \<Rightarrow> other)"

text \<open>The imports of the database, newest first.\<close>

definition newest_first :: "db \<Rightarrow> Import list" where
  "newest_first d = rev (sort_key im_id (imports_tbl d))"

definition import_view :: "db \<Rightarrow> Import \<Rightarrow> ImportView" where
  "import_view d r = importViewFromListRow (with_queue_position d r)"

definition cursor_after :: "Import list \<Rightarrow> string" where
  "cursor_after seen = (if seen = [] then '''' else encodeImportCursor (im_id (last seen)))"

lemma newest_first_decreasing:
  assumes "distinct (map im_id (imports_tbl d))"
  shows "sorted_wrt (\<lambda>a b. im_id b < im_id a) (newest_first d)"
proof -
  have "sorted_wrt (<) (map im_id (sort_key im_id (imports_tbl d)))"
    using assms by (simp add: strict_sorted_iff distinct_map)
  then show ?thesis by (simp add: newest_first_def sorted_wrt_rev sorted_wrt_map)
qed

lemma ListImportsAPI_newest_first:
  "0 \<le> page \<Longrightarrow> q_ListImportsAPI d before page =
     map (with_queue_position d) (take (nat page) (filter (\<lambda>r. im_id r < before \<or> before = 0) (newest_first d)))"
  by (simp add: q_ListImportsAPI_def limit_offset_def newest_first_def rev_filter flip: filter_sort)

lemma newest_first_rest:
  assumes "distinct (map im_id (imports_tbl d))" "\<forall>r \<in> set (imports_tbl d). 0 < im_id r \<and> im_id r \<le> int64_max"
    "newest_first d = seen @ rest"
  shows "\<exists>before. decodeImportCursor (cursor_after seen) = Inr before
    \<and> filter (\<lambda>r. im_id r < before \<or> before = 0) (newest_first d) = rest"
proof (cases seen rule: rev_cases)
  case Nil
  then show ?thesis using assms(3) by (simp add: cursor_after_def decodeImportCursor_def)
next
  case (snoc pre r)
  have "r \<in> set (newest_first d)" using assms(3) snoc by simp
  then have r: "0 < im_id r" "im_id r \<le> int64_max" using assms(2) by (simp_all add: newest_first_def)
  from newest_first_decreasing [OF assms(1), unfolded assms(3) snoc]
  have "\<forall>a \<in> set pre. \<not> im_id a < im_id r" "\<forall>b \<in> set rest. im_id b < im_id r" by (auto simp: sorted_wrt_append)
  then have "filter (\<lambda>x. im_id x < im_id r \<or> im_id r = 0) (newest_first d) = rest"
    using r(1) unfolding assms(3) snoc by simp
  then show ?thesis using cursor_round_trip [OF r] snoc by (auto simp: cursor_after_def)
qed

lemma List_page:
  assumes "distinct (map im_id (imports_tbl d))" "\<forall>r \<in> set (imports_tbl d). 0 < im_id r \<and> im_id r \<le> int64_max"
    "newest_first d = seen @ rest" "1 \<le> limit" "limit \<le> maxImportPageSize"
  shows "imports_List d (cursor_after seen) limit =
    Inr \<lparr>ip_Items = map (import_view d) (take (nat limit) rest),
         ip_NextCursor = (if int (length rest) > limit then cursor_after (seen @ take (nat limit) rest) else '''')\<rparr>"
proof -
  from newest_first_rest [OF assms(1-3)] obtain before where b: "decodeImportCursor (cursor_after seen) = Inr before"
    "filter (\<lambda>r. im_id r < before \<or> before = 0) (newest_first d) = rest" by blast
  have rows: "q_ListImportsAPI d before (limit + 1) = map (with_queue_position d) (take (nat (limit + 1)) rest)"
    using assms(4) by (simp add: ListImportsAPI_newest_first b(2))
  have n: "nat (limit + 1) = Suc (nat limit)" "0 < nat limit" using assms(4) by simp_all
  have last: "iw_ID (import_view d r) = im_id r" for r
    by (simp add: import_view_def importViewFromListRow_def with_queue_position_def)
  show ?thesis
  proof (cases "int (length rest) > limit")
    case True
    then have "take (nat limit) rest \<noteq> []" "nat limit < length rest" using n assms(4) by auto
    then have "cursor_after (seen @ take (nat limit) rest) = encodeImportCursor (im_id (last (take (nat limit) rest)))"
      by (simp add: cursor_after_def)
    with \<open>take (nat limit) rest \<noteq> []\<close> \<open>nat limit < length rest\<close> True assms(4,5) n show ?thesis
      by (simp add: imports_List_def b(1) rows last_map last comp_def take_map min_def flip: import_view_def)
  next
    case False
    then show ?thesis using assms(4,5) n by (simp add: imports_List_def b(1) rows comp_def flip: import_view_def)
  qed
qed

lemma read_pages_rest:
  assumes "distinct (map im_id (imports_tbl d))" "\<forall>r \<in> set (imports_tbl d). 0 < im_id r \<and> im_id r \<le> int64_max"
    "newest_first d = seen @ rest" "1 \<le> limit" "limit \<le> maxImportPageSize" "length rest < n"
  shows "read_pages n d (cursor_after seen) limit =
    Some (Inr (map (import_view d) rest))"
  using assms(3,6)
proof (induction n arbitrary: seen rest)
  case (Suc n)
  note page = List_page [OF assms(1,2) Suc.prems(1) assms(4,5)]
  show ?case
  proof (cases "int (length rest) > limit")
    case True
    let ?seen = "seen @ take (nat limit) rest"
    have "newest_first d = ?seen @ drop (nat limit) rest" "length (drop (nat limit) rest) < n"
      using Suc.prems True assms(4) by auto
    note IH = Suc.IH [OF this]
    have "?seen \<noteq> []" using True assms(4) by auto
    then have "cursor_after ?seen \<noteq> ''''"
      by (simp add: cursor_after_def encodeImportCursor_def cursorVersion_def b64_nonempty)
    moreover have "map f (take k rest) @ map f (drop k rest) = map f rest" for f :: "Import \<Rightarrow> ImportView" and k
      by (simp flip: map_append)
    ultimately show ?thesis using True IH by (simp add: page)
  next
    case False
    then show ?thesis by (simp add: page)
  qed
qed simp

end
