(* ===== verification/ImportHttp.thy ===== *)
theory ImportHttp
  imports ImportReader ImportLaws Http
begin

text \<open>
  The import routes (\<^verbatim>\<open>imports/http_handler.go\<close>): a streamed upload of one multipart file, a page of
  imports and one import, with the problem documents of every error.

  The multipart reader of \<open>mime/multipart\<close> over the size-limited request body is a parameter: opening it,
  going to the next part and reading the part it is at, on a state of its own.
\<close>

definition multipartOverheadBytes :: int where
  "multipartOverheadBytes = 2 ^ 20"

record part =
  pt_FormName :: string
  pt_FileName :: string

record 'r multipart =
  mp_open :: "int \<Rightarrow> (go_cause, 'r) result"
  mp_NextPart :: "'r \<Rightarrow> (go_cause, part) result \<times> 'r"
  mp_Read :: "'r \<Rightarrow> int \<Rightarrow> (string \<times> read_err option) \<times> 'r"

record 'r upload_request =
  up_media_type :: "string option"
  up_IdempotencyKey :: string
  up_body :: "'r multipart"

record uploadResponse =
  ur_ID :: int
  ur_Status :: string
  ur_Phase :: "string option"
  ur_QueuePosition :: int
  ur_Reused :: bool
  ur_StatusURL :: string

datatype import_body = ApiBody body | UploadBody uploadResponse | PageBody ImportPage | ViewBody ImportView

record import_response =
  ir_Status :: int
  ir_Headers :: "(string \<times> string) list"
  ir_Body :: import_body

text \<open>The errors that reach \<open>writeError\<close>: a bare cause, or an error of one of the two services.\<close>

datatype http_failure = Bare go_cause | ServiceFailure ServiceError | NotFoundFailure

definition NewHTTPHandler :: "Limits \<Rightarrow> (string, int) result" where
  "NewHTTPHandler limits =
     (if MaxFileBytes limits \<le> 0 \<or> MaxFileBytes limits > int64_max - multipartOverheadBytes
      then Inl ''valid import file limit is required''
      else Inr (MaxFileBytes limits + multipartOverheadBytes))"

subsection \<open>The single file\<close>

text \<open>
  \<open>singleMultipartFile\<close>: its state is \<open>checked\<close> and the reader. At the end of the part it asks once
  for another part, and fails when there is one.
\<close>

definition single_Read :: "'r multipart \<Rightarrow> bool \<times> 'r \<Rightarrow> int \<Rightarrow> (string \<times> read_err option) \<times> (bool \<times> 'r)" where
  "single_Read mp st n =
     (let (checked, r) = st; ((chunk, err), r) = mp_Read mp r n in
      if err \<noteq> Some EOF \<or> checked then ((chunk, err), (checked, r))
      else let (nextErr, r) = mp_NextPart mp r in
        ((chunk, Some (case nextErr of
                         Inl IoEOF \<Rightarrow> EOF
                       | Inl e \<Rightarrow> ReadFailed e
                       | Inr _ \<Rightarrow> ReadFailed ExtraMultipartPart)),
         (True, r)))"

subsection \<open>Problems\<close>

definition terminalImportStatus :: "string \<Rightarrow> bool" where
  "terminalImportStatus status = (status \<in> {''completed'', ''completed_with_issues'', ''failed'', ''cancelled''})"

definition code_text :: "ErrorCode \<Rightarrow> string" where
  "code_text c = (case c of
       InvalidInput \<Rightarrow> ''invalid_input'' | FileTooLarge \<Rightarrow> ''file_too_large'' | NotXLSX \<Rightarrow> ''not_xlsx''
     | UnsupportedWorkbook \<Rightarrow> ''unsupported_workbook'' | DuplicateFile \<Rightarrow> ''duplicate_file''
     | QueueFull \<Rightarrow> ''queue_full'' | IdempotencyConflict \<Rightarrow> ''idempotency_conflict''
     | StorageUnavailable \<Rightarrow> ''storage_unavailable'' | InternalError \<Rightarrow> ''internal_error'')"

text \<open>\<open>errors.Is\<close> and \<open>errors.As\<close> look at the error and at the cause it wraps.\<close>

fun failure_cause :: "http_failure \<Rightarrow> go_cause option" where
  "failure_cause (Bare c) = Some c"
| "failure_cause (ServiceFailure e) = se_Err e"
| "failure_cause NotFoundFailure = None"

definition import_problem :: "int \<Rightarrow> ErrorCode \<Rightarrow> detail \<Rightarrow> int \<Rightarrow> Problem" where
  "import_problem status code det existing =
     \<lparr>pb_Status = status, pb_Code = code_text code, pb_Detail = det, pb_TraceID = '''', pb_ExistingImportID = existing\<rparr>"

definition problemForImportError :: "http_failure \<Rightarrow> Problem" where
  "problemForImportError err =
     (if failure_cause err = Some MaxBytesError then import_problem 413 FileTooLarge UploadTooLarge 0
      else if failure_cause err \<in> {Some ExtraMultipartPart, Some IoEOF, Some UnexpectedEOF}
      then import_problem 400 InvalidInput MalformedMultipart 0
      else case err of
        NotFoundFailure \<Rightarrow> \<lparr>pb_Status = 404, pb_Code = ''import_not_found'', pb_Detail = UnknownImport,
                            pb_TraceID = '''', pb_ExistingImportID = 0\<rparr>
      | ServiceFailure e \<Rightarrow>
          (let problem = (\<lambda>status det. import_problem status (se_Code e) det (se_ExistingImportID e)) in
           case se_Code e of
             InvalidInput \<Rightarrow> problem 400 MalformedRequest
           | FileTooLarge \<Rightarrow> problem 413 UploadTooLarge
           | NotXLSX \<Rightarrow> problem 415 UploadNotXLSX
           | UnsupportedWorkbook \<Rightarrow> problem 422 WorkbookNotSupported
           | DuplicateFile \<Rightarrow> problem 409 UploadedBefore
           | IdempotencyConflict \<Rightarrow> problem 409 KeyOfAnotherImport
           | QueueFull \<Rightarrow> problem 429 ImportQueueFull
           | StorageUnavailable \<Rightarrow> problem 503 ServiceUnavailable
           | InternalError \<Rightarrow> problem 500 InternalFailure)
      | Bare _ \<Rightarrow> import_problem 500 InternalError InternalFailure 0)"

definition writeError :: "http_ctx \<Rightarrow> http_failure \<Rightarrow> import_response" where
  "writeError cx err =
     (let problem = problemForImportError err;
          retry = (if pb_Status problem = 429 then [(''Retry-After'', ''5'')] else []);
          rs = WriteProblem cx (pb_Status problem) (pb_Code problem) (pb_Detail problem) (pb_ExistingImportID problem)
      in \<lparr>ir_Status = rs_Status rs, ir_Headers = retry @ rs_Headers rs, ir_Body = ApiBody (rs_Body rs)\<rparr>)"

definition json_ok :: "int \<Rightarrow> (string \<times> string) list \<Rightarrow> import_body \<Rightarrow> import_response" where
  "json_ok status headers value =
     \<lparr>ir_Status = status, ir_Headers = headers @ [(''Content-Type'', ''application/json; charset=utf-8'')], ir_Body = value\<rparr>"

subsection \<open>The routes\<close>

definition upload_done :: "EnqueueResult \<Rightarrow> import_response" where
  "upload_done res =
     (let r = er_Import res;
          statusURL = ''/api/imports/'' @ show_int (im_id r);
          status = (if er_Reused res \<and> terminalImportStatus (im_status r) then 200 else 202)
      in json_ok status [(''Location'', statusURL)]
           (UploadBody \<lparr>ur_ID = im_id r, ur_Status = im_status r, ur_Phase = im_phase r,
              ur_QueuePosition = er_QueuePosition res, ur_Reused = er_Reused res, ur_StatusURL = statusURL\<rparr>))"

text \<open>
  \<open>UploadLegacy\<close>, with the enqueue service on the file store \<open>fs\<close>, whose uploads are read through
  \<open>single_Read\<close>.
\<close>

definition UploadLegacy ::
  "'d import_env \<Rightarrow> (bool \<times> 'r, 'd) FileStore \<Rightarrow> int \<Rightarrow> nat \<Rightarrow> http_ctx \<Rightarrow> 'r upload_request \<Rightarrow> db \<Rightarrow> 'd
   \<Rightarrow> import_response \<times> db \<times> 'd" where
  "UploadLegacy iv fs maxBodySize k cx rq d s =
     (let mp = up_body rq in
      if up_media_type rq \<noteq> Some ''multipart/form-data''
      then (writeError cx (ServiceFailure (inputServiceError ''multipart form-data is required'')), d, s)
      else case mp_open mp maxBodySize of
        Inl e \<Rightarrow> (writeError cx (Bare e), d, s)
      | Inr r \<Rightarrow>
          (case mp_NextPart mp r of
             (Inl e, _) \<Rightarrow> (writeError cx (Bare e), d, s)
           | (Inr part, r) \<Rightarrow>
               if pt_FormName part \<noteq> ''file'' \<or> pt_FileName part = ''''
               then (writeError cx (ServiceFailure (inputServiceError ''exactly one file part is required'')), d, s)
               else case EnqueueLegacy iv fs k
                      \<lparr>ei_OriginalFileName = pt_FileName part, ei_IdempotencyKey = up_IdempotencyKey rq,
                       ei_Actor = ActorFromContext (cx_env cx), ei_Body = Some (False, r)\<rparr> d s of
                 (Inl e, d, s) \<Rightarrow> (writeError cx (ServiceFailure e), d, s)
               | (Inr res, d, s) \<Rightarrow> (upload_done res, d, s)))"

fun read_failure :: "read_error \<Rightarrow> http_failure" where
  "read_failure ErrImportNotFound = NotFoundFailure"
| "read_failure (ReadService e) = ServiceFailure e"

text \<open>The query values \<open>limit\<close> and \<open>cursor\<close> are empty when the query does not have them.\<close>

definition http_List :: "http_ctx \<Rightarrow> string \<Rightarrow> string \<Rightarrow> db \<Rightarrow> import_response" where
  "http_List cx rawLimit cursor d =
     (case (if rawLimit = '''' then Some 0 else Atoi rawLimit) of
        None \<Rightarrow> writeError cx (ServiceFailure (inputServiceError ''invalid import page limit''))
      | Some limit \<Rightarrow>
          (case imports_List d cursor limit of
             Inl e \<Rightarrow> writeError cx (read_failure e)
           | Inr page \<Rightarrow> json_ok 200 [] (PageBody page)))"

definition http_Get :: "http_ctx \<Rightarrow> string \<Rightarrow> db \<Rightarrow> import_response" where
  "http_Get cx rawID d =
     (case Atoi rawID of
        None \<Rightarrow> writeError cx (ServiceFailure (inputServiceError ''invalid import ID''))
      | Some i \<Rightarrow>
          if i \<le> 0 then writeError cx (ServiceFailure (inputServiceError ''invalid import ID''))
          else case imports_Get d i of
             Inl e \<Rightarrow> writeError cx (read_failure e)
           | Inr view \<Rightarrow> json_ok 200 [] (ViewBody view))"

end
