(* ===== verification/ImportHttpProps.thy ===== *)
theory ImportHttpProps
  imports ImportHttp ImportProps
begin


subsection \<open>The pages\<close>





subsection \<open>The upload\<close>









end
