(* ===== verification/LegacyDocs.thy ===== *)
theory LegacyDocs
  imports GoConv "HOL-Library.Sublist" "HOL-Library.Char_ord" "HOL-Library.List_Lexorder"
begin

text \<open>
  The generators of \<^verbatim>\<open>documents/legacy\<close>: the registry as an XML document (\<^verbatim>\<open>gen_xml.go\<close>) and the protocols
  as one DOCX document for each program (\<^verbatim>\<open>gen_docx.go\<close>), over the types of \<^verbatim>\<open>legacy/models\<close>.

  The XML writer, the two DOCX libraries, the archive format and the Russian date format are
  parameters. What is written into a document, in which order, and the repair of the page
  settings on the bytes of the document are definitions.
\<close>

text \<open>A \<open>time.Time\<close> at midnight, as year, month and day; the zero time is the first day of year one.\<close>

type_synonym date = "int \<times> int \<times> int"

record DocWorker =
  dw_LastName :: string
  dw_FirstName :: string
  dw_MiddleName :: string
  dw_Snils :: string
  dw_IsForeignSnils :: string
  dw_ForeignSnils :: string
  dw_Citizenship :: string
  dw_Position :: string
  dw_EmployerInn :: string
  dw_EmployerTitle :: string

record DocOrganization =
  do_Inn :: string
  do_Title :: string

record DocTest =
  dt_IsPassedAttr :: string
  dt_LearnProgramIdAttr :: string
  dt_Date :: date
  dt_ProtocolNumber :: string
  dt_LearnProgramTitle :: string
  dt_EducationStart :: date
  dt_EducationEnd :: date

record RegistryRecord =
  rr_Worker :: DocWorker
  rr_Organization :: DocOrganization
  rr_Test :: DocTest

text \<open>\<open>Format\<close> with the layouts \<^verbatim>\<open>2006-01-02\<close> and \<^verbatim>\<open>02.01.2006\<close>.\<close>

definition format_iso :: "date \<Rightarrow> string" where
  "format_iso t = (case t of (y, m, d) \<Rightarrow> show_padded 4 y @ ''-'' @ show_padded 2 m @ ''-'' @ show_padded 2 d)"

definition format_dotted :: "date \<Rightarrow> string" where
  "format_dotted t = (case t of (y, m, d) \<Rightarrow> show_padded 2 d @ ''.'' @ show_padded 2 m @ ''.'' @ show_padded 4 y)"

subsection \<open>The registry\<close>

text \<open>An element with its name, whether it always has a closing tag, its attributes and content.\<close>

datatype xml_node = Elem string bool "(string \<times> string) list" "xml_node list" | XText string

definition text_elem :: "string \<Rightarrow> string \<Rightarrow> xml_node" where
  "text_elem name v = Elem name True [] [XText v]"

definition generateRegistryElem :: "RegistryRecord \<Rightarrow> xml_node" where
  "generateRegistryElem data =
     (let w = rr_Worker data; og = rr_Organization data; t = rr_Test data in
      Elem ''RegistryRecord'' False []
        [Elem ''Worker'' True []
           [text_elem ''LastName'' (dw_LastName w), text_elem ''FirstName'' (dw_FirstName w),
            text_elem ''MiddleName'' (dw_MiddleName w), text_elem ''Snils'' (dw_Snils w),
            text_elem ''Position'' (dw_Position w), text_elem ''EmployerInn'' (dw_EmployerInn w),
            text_elem ''EmployerTitle'' (dw_EmployerTitle w)],
         Elem ''Organization'' True []
           [text_elem ''Inn'' (do_Inn og), text_elem ''Title'' (do_Title og)],
         Elem ''Test'' True [(''isPassed'', ''true''), (''learnProgramId'', dt_LearnProgramIdAttr t)]
           [text_elem ''Date'' (format_iso (dt_Date t)), text_elem ''ProtocolNumber'' (dt_ProtocolNumber t),
            text_elem ''LearnProgramTitle'' (dt_LearnProgramTitle t)]])"

text \<open>\<open>xw\<close> is the writer: it renders a document with this root element, or fails.\<close>

definition GenerateXML :: "(xml_node \<Rightarrow> (string, string) result) \<Rightarrow> RegistryRecord list \<Rightarrow> (string, string) result" where
  "GenerateXML xw data = xw (Elem ''RegistrySet'' False [] (map generateRegistryElem data))"

subsection \<open>The page settings\<close>

fun bytes_Index :: "string \<Rightarrow> string \<Rightarrow> nat option" where
  "bytes_Index [] pat = (if pat = [] then Some 0 else None)"
| "bytes_Index (c # cs) pat = (if prefix pat (c # cs) then Some 0 else map_option Suc (bytes_Index cs pat))"

datatype sect_error = SectPrMissing | SectPrUnclosed | DocumentMissing | ArchiveFailed string

definition sect_open :: string where
  "sect_open = ''<w:sectPr''"

definition sect_close :: string where
  "sect_close = ''</w:sectPr>''"

text \<open>Where the block that starts at the head of a text ends.\<close>

definition sect_end :: "string \<Rightarrow> nat option" where
  "sect_end s =
     (case bytes_Index s sect_close of
        Some e \<Rightarrow> Some (e + length sect_close)
      | None \<Rightarrow> (case bytes_Index s ''/>'' of Some e \<Rightarrow> Some (e + 2) | None \<Rightarrow> None))"

definition find_sectPr :: "string \<Rightarrow> (sect_error, string) result" where
  "find_sectPr content =
     (case bytes_Index content sect_open of
        None \<Rightarrow> Inl SectPrMissing
      | Some start \<Rightarrow>
          (case sect_end (drop start content) of
             None \<Rightarrow> Inl SectPrUnclosed
           | Some e \<Rightarrow> Inr (take e (drop start content))))"

definition injectSectPr :: "string \<Rightarrow> string \<Rightarrow> string" where
  "injectSectPr docXML sectPr =
     (case bytes_Index docXML sect_open of
        None \<Rightarrow>
          (case bytes_Index docXML ''</w:body>'' of
             None \<Rightarrow> docXML
           | Some bodyEnd \<Rightarrow> take bodyEnd docXML @ sectPr @ drop bodyEnd docXML)
      | Some start \<Rightarrow>
          (case sect_end (drop start docXML) of
             None \<Rightarrow> docXML
           | Some e \<Rightarrow> take start docXML @ sectPr @ drop (start + e) docXML))"

text \<open>
  An archive: opening gives the entries in order, each with its content or the error of reading
  it; writing gives the bytes of an archive with these entries, or fails.
\<close>

record zip =
  zp_open :: "string \<Rightarrow> (string, (string \<times> (string, string) result) list) result"
  zp_write :: "(string \<times> string) list \<Rightarrow> (string, string) result"

definition documentXML :: string where
  "documentXML = ''word/document.xml''"

definition extractSectPr :: "zip \<Rightarrow> string \<Rightarrow> (sect_error, string) result" where
  "extractSectPr z docxBytes =
     (case zp_open z docxBytes of
        Inl e \<Rightarrow> Inl (ArchiveFailed e)
      | Inr files \<Rightarrow>
          (case find (\<lambda>f. fst f = documentXML) files of
             None \<Rightarrow> Inl DocumentMissing
           | Some (_, Inl e) \<Rightarrow> Inl (ArchiveFailed e)
           | Some (_, Inr content) \<Rightarrow> find_sectPr content))"

fun patch_entries :: "string \<Rightarrow> (string \<times> (string, string) result) list \<Rightarrow> (string, (string \<times> string) list) result" where
  "patch_entries sectPr [] = Inr []"
| "patch_entries sectPr ((name, content) # files) =
     (case content of
        Inl e \<Rightarrow> Inl e
      | Inr c \<Rightarrow>
          (case patch_entries sectPr files of
             Inl e \<Rightarrow> Inl e
           | Inr done \<Rightarrow> Inr ((name, if name = documentXML then injectSectPr c sectPr else c) # done)))"

definition restoreSectPr :: "zip \<Rightarrow> string \<Rightarrow> string \<Rightarrow> (sect_error, string) result" where
  "restoreSectPr z generatedBytes templateBytes =
     (case extractSectPr z templateBytes of
        Inl e \<Rightarrow> Inl e
      | Inr originalSectPr \<Rightarrow>
          (case zp_open z generatedBytes of
             Inl e \<Rightarrow> Inl (ArchiveFailed e)
           | Inr files \<Rightarrow>
               (case patch_entries originalSectPr files of
                  Inl e \<Rightarrow> Inl (ArchiveFailed e)
                | Inr entries \<Rightarrow>
                    (case zp_write z entries of Inl e \<Rightarrow> Inl (ArchiveFailed e) | Inr out \<Rightarrow> Inr out))))"

subsection \<open>The protocols\<close>

definition docxProtocolTableIndex :: nat where
  "docxProtocolTableIndex = 2"

definition docxTableColumnCount :: nat where
  "docxTableColumnCount = 8"

text \<open>The word for a pass, in UTF-8.\<close>

definition testResultText :: string where
  "testResultText = bytes [209, 131, 208, 180, 208, 190, 208, 178, 208, 187]"

text \<open>
  The hours of a category, as their number; the source appends the word for hours. The categories
  are named by one Cyrillic letter.
\<close>

definition CategoryA :: string where "CategoryA = bytes [208, 144]"
definition CategoryB :: string where "CategoryB = bytes [208, 145]"
definition CategoryV :: string where "CategoryV = bytes [208, 146]"
definition CategoryP :: string where "CategoryP = bytes [208, 159]"
definition CategoryS :: string where "CategoryS = bytes [208, 161]"

definition hours_text :: "string \<Rightarrow> string" where
  "hours_text n = n @ bytes [32, 209, 135, 208, 176, 209, 129, 208, 190, 208, 178]"

definition TIME_TO_TYPE :: "string \<rightharpoonup> string" where
  "TIME_TO_TYPE =
     [CategoryA \<mapsto> hours_text ''40'', CategoryB \<mapsto> hours_text ''16'', CategoryV \<mapsto> hours_text ''16'',
      CategoryP \<mapsto> hours_text ''8'', CategoryS \<mapsto> hours_text ''8'']"

text \<open>
  A cell holds the paragraphs of the template and those added to it, as text in a font. The body
  of a document is its tables and other items.
\<close>

datatype 'p par = Kept 'p | Added string string

type_synonym 'p cell = "'p par list"

datatype 'p item = Table "'p cell list list" | OtherItem 'p

record ('d, 'p) docx_lib =
  dl_OpenBytes :: "string \<Rightarrow> (string, 'd) result"
  dl_ReplaceAll :: "(string \<times> string) list \<Rightarrow> 'd \<Rightarrow> (string, 'd) result"
  dl_Write :: "'d \<Rightarrow> (string, string) result"
  dl_Parse :: "string \<Rightarrow> (string, 'p item list \<times> 'd) result"
  dl_WriteTo :: "'p item list \<times> 'd \<Rightarrow> (string, string) result"
  dl_long_date :: "date \<Rightarrow> string"
  dl_zip :: zip

definition font :: string where
  "font = ''Times New Roman''"

definition participant_cells :: "nat \<Rightarrow> RegistryRecord \<Rightarrow> string list" where
  "participant_cells index r =
     (let w = rr_Worker r in
      [show_int (int index + 1), dw_EmployerTitle w,
       dw_LastName w @ '' '' @ dw_FirstName w @ '' '' @ dw_MiddleName w,
       dw_Position w, testResultText, format_dotted (dt_Date (rr_Test r)), '''', ''''])"

text \<open>
  Writing the cells of one row. \<open>None\<close> is the panic of an index outside a row or a table, as the
  template fixes the rows before the added ones.
\<close>

fun add_texts :: "string list \<Rightarrow> 'p cell list \<Rightarrow> 'p cell list option" where
  "add_texts [] cells = Some cells"
| "add_texts (t # ts) [] = None"
| "add_texts (t # ts) (c # cells) = map_option (Cons (c @ [Added t font])) (add_texts ts cells)"

fun fill_rows :: "nat \<Rightarrow> RegistryRecord list \<Rightarrow> 'p cell list list \<Rightarrow> 'p cell list list option" where
  "fill_rows index [] rows = Some rows"
| "fill_rows index (r # rs) rows =
     (if index + 1 < length rows
      then case add_texts (participant_cells index r) (rows ! (index + 1)) of
             None \<Rightarrow> None
           | Some row \<Rightarrow> fill_rows (index + 1) rs (rows[index + 1 := row])
      else None)"

definition fill_table :: "RegistryRecord list \<Rightarrow> 'p cell list list \<Rightarrow> 'p cell list list option" where
  "fill_table records rows =
     fill_rows 0 records (rows @ replicate (length records) (replicate docxTableColumnCount []))"

fun fill_items :: "nat \<Rightarrow> RegistryRecord list \<Rightarrow> 'p item list \<Rightarrow> 'p item list option" where
  "fill_items tableCount records [] = Some []"
| "fill_items tableCount records (OtherItem x # items) =
     map_option (Cons (OtherItem x)) (fill_items tableCount records items)"
| "fill_items tableCount records (Table rows # items) =
     (case (if tableCount = docxProtocolTableIndex then fill_table records rows else Some rows) of
        None \<Rightarrow> None
      | Some rows' \<Rightarrow> map_option (Cons (Table rows')) (fill_items (tableCount + 1) records items))"

datatype docx_error = LibraryFailed string | DocxPanic

definition replaceMap :: "(date \<Rightarrow> string) \<Rightarrow> string \<Rightarrow> RegistryRecord list \<Rightarrow> (string \<times> string) list" where
  "replaceMap long_date timeType records =
     (let t = rr_Test (hd records) in
      [(''people_count'', show_int (int (length records))), (''user_program'', dt_LearnProgramTitle t),
       (''program_time'', case TIME_TO_TYPE timeType of None \<Rightarrow> '''' | Some h \<Rightarrow> h),
       (''protocol_number'', dt_ProtocolNumber t), (''protocol_date'', long_date (dt_Date t)),
       (''education_start'', long_date (dt_EducationStart t)), (''education_end'', long_date (dt_EducationEnd t))])"

definition internalCreateDocx ::
  "('d, 'p) docx_lib \<Rightarrow> RegistryRecord list \<Rightarrow> string \<Rightarrow> string \<Rightarrow> (docx_error, string) result" where
  "internalCreateDocx lib data template timeType =
     (case dl_OpenBytes lib template of
        Inl e \<Rightarrow> Inl (LibraryFailed e)
      | Inr doc \<Rightarrow>
          if data = [] then Inl DocxPanic
          else case dl_ReplaceAll lib (replaceMap (dl_long_date lib) timeType data) doc of
            Inl e \<Rightarrow> Inl (LibraryFailed e)
          | Inr doc \<Rightarrow>
              (case dl_Write lib doc of
                 Inl e \<Rightarrow> Inl (LibraryFailed e)
               | Inr buf \<Rightarrow>
                   (case dl_Parse lib buf of
                      Inl e \<Rightarrow> Inl (LibraryFailed e)
                    | Inr (items, rest) \<Rightarrow>
                        (case fill_items 0 data items of
                           None \<Rightarrow> Inl DocxPanic
                         | Some items \<Rightarrow>
                             (case dl_WriteTo lib (items, rest) of
                                Inl e \<Rightarrow> Inl (LibraryFailed e)
                              | Inr newBuf \<Rightarrow>
                                  (case restoreSectPr (dl_zip lib) newBuf template of
                                     Inl _ \<Rightarrow> Inr newBuf
                                   | Inr patched \<Rightarrow> Inr patched))))))"

text \<open>The map \<open>groups\<close> as a list of its entries; a new key goes to the end.\<close>

fun add_to_group :: "RegistryRecord \<Rightarrow> (string \<times> RegistryRecord list) list \<Rightarrow> (string \<times> RegistryRecord list) list" where
  "add_to_group r [] = [(dt_LearnProgramIdAttr (rr_Test r), [r])]"
| "add_to_group r ((k, rs) # groups) =
     (if k = dt_LearnProgramIdAttr (rr_Test r) then (k, rs @ [r]) # groups else (k, rs) # add_to_group r groups)"

definition groups_of :: "RegistryRecord list \<Rightarrow> (string \<times> RegistryRecord list) list" where
  "groups_of records = fold add_to_group records []"

fun create_each ::
  "('d, 'p) docx_lib \<Rightarrow> string \<Rightarrow> string \<Rightarrow> (string \<times> RegistryRecord list) list \<Rightarrow> string list
   \<Rightarrow> (docx_error, string list) result" where
  "create_each lib template timeType groups [] = Inr []"
| "create_each lib template timeType groups (key # keys) =
     (case internalCreateDocx lib (case map_of groups key of None \<Rightarrow> [] | Some rs \<Rightarrow> rs) template timeType of
        Inl e \<Rightarrow> Inl e
      | Inr doc \<Rightarrow>
          (case create_each lib template timeType groups keys of Inl e \<Rightarrow> Inl e | Inr docs \<Rightarrow> Inr (doc # docs)))"

definition CreateDocx ::
  "('d, 'p) docx_lib \<Rightarrow> RegistryRecord list \<Rightarrow> string \<Rightarrow> string \<Rightarrow> (docx_error, string list) result" where
  "CreateDocx lib data template timeType =
     (let groups = groups_of data; keys = sort (map fst groups) in create_each lib template timeType groups keys)"

end
