(* ===== verification/Documents.thy ===== *)
theory Documents
  imports LegacyDocs Http ProtocolService GoConv
begin

text \<open>
  Documents of fixed protocols (\<^verbatim>\<open>documents/\<close>): the registry set of a protocol, the XML and DOCX runs with
  their rows in \<^verbatim>\<open>generation_runs\<close> and their audit entries, and the routes that generate and download.
\<close>

subsection \<open>Statements\<close>

definition q_GetWorker :: "db \<Rightarrow> int \<Rightarrow> (db_error, Worker) result" where
  "q_GetWorker d i = sql_get (\<lambda>r. wk_id r = i) (workers d)"

definition q_GetEmployer :: "db \<Rightarrow> int \<Rightarrow> (db_error, Employer) result" where
  "q_GetEmployer d i = sql_get (\<lambda>r. em_id r = i) (employers d)"

definition q_CreateGenerationRun ::
  "db \<Rightarrow> int \<Rightarrow> string \<Rightarrow> string \<Rightarrow> string option \<Rightarrow> string \<Rightarrow> string option \<Rightarrow> string
   \<Rightarrow> (db_error, GenerationRun \<times> db) result" where
  "q_CreateGenerationRun d protocolID ty status fname generated err created =
     ins_generation d \<lparr>gr_id = 0, gr_protocol_id = protocolID, gr_type = ty, gr_status = status,
       gr_file_name = fname, gr_generated_at = generated, gr_error_message = err, gr_created_at = created\<rparr>"

definition q_GetGenerationRun :: "db \<Rightarrow> int \<Rightarrow> (db_error, GenerationRun) result" where
  "q_GetGenerationRun d i = sql_get (\<lambda>r. gr_id r = i) (generation_runs d)"

definition q_ListGenerationRunsForProtocol :: "db \<Rightarrow> int \<Rightarrow> GenerationRun list" where
  "q_ListGenerationRunsForProtocol d p =
     rev (sort_key (\<lambda>r. (gr_generated_at r, gr_id r)) (filter (\<lambda>r. gr_protocol_id r = p) (generation_runs d)))"

subsection \<open>Dates\<close>

text \<open>\<open>time.Parse\<close> with the layout \<^verbatim>\<open>2006-01-02\<close>.\<close>

definition time_Parse :: "string \<Rightarrow> date option" where
  "time_Parse raw =
     (let y = slice 0 4 raw; m = slice 5 7 raw; d = slice 8 10 raw in
      if length raw = 10 \<and> raw ! 4 = CHR ''-'' \<and> raw ! 7 = CHR ''-'' \<and> list_all is_ascii_digit (y @ m @ d)
      then let y = int (digits_val y); m = int (digits_val m); d = int (digits_val d) in
        if 1 \<le> m \<and> m \<le> 12 \<and> 1 \<le> d \<and> d \<le> days_in y m then Some (y, m, d) else None
      else None)"

definition parseISODateOrZero :: "string \<Rightarrow> date option" where
  "parseISODateOrZero raw = (if raw = '''' then Some (1, 1, 1) else time_Parse raw)"

subsection \<open>The registry set\<close>

text \<open>An error: whether it is \<open>ErrProtocolNotFixed\<close>, and its text.\<close>

record doc_error =
  de_not_fixed :: bool
  de_text :: string

definition doc_failure :: "string \<Rightarrow> doc_error" where
  "doc_failure t = \<lparr>de_not_fixed = False, de_text = t\<rparr>"

definition ErrProtocolNotFixed :: string where
  "ErrProtocolNotFixed = ''protocol is not in a state that permits document generation''"

definition get_failed :: "string \<Rightarrow> int \<Rightarrow> db_error \<Rightarrow> doc_error" where
  "get_failed what i e = doc_failure (''get '' @ what @ '' '' @ show_int i @ '': '' @ error_text e)"

text \<open>
  What the package gets from outside: the context and clock of the services, the clock in the
  format of file names, the text of a date that cannot be parsed with its error, the XML writer,
  the DOCX libraries and the embedded template.
\<close>

record ('d, 'p) doc_env =
  dv_ctx :: env
  dv_file_clock :: "nat \<Rightarrow> string"
  dv_date_error :: "string \<Rightarrow> string"
  dv_xml :: "xml_node \<Rightarrow> (string, string) result"
  dv_lib :: "('d, 'p) docx_lib"
  dv_template :: "(string, string) result"

definition parse_date :: "(string \<Rightarrow> string) \<Rightarrow> string \<Rightarrow> string option \<Rightarrow> (doc_error, date) result" where
  "parse_date date_error what raw =
     (case parseISODateOrZero (str_of raw) of
        None \<Rightarrow> Inl (doc_failure (''parse '' @ what @ '' '' @ date_error (str_of raw)))
      | Some t \<Rightarrow> Inr t)"

definition registry_record ::
  "Protocol \<Rightarrow> TrainingRecord \<Rightarrow> Worker \<Rightarrow> Employer \<Rightarrow> Program \<Rightarrow> date \<Rightarrow> date \<Rightarrow> date \<Rightarrow> RegistryRecord" where
  "registry_record protocol tr worker employer program testDate eduStart eduEnd =
     \<lparr>rr_Worker = \<lparr>dw_LastName = wk_last_name worker, dw_FirstName = wk_first_name worker,
        dw_MiddleName = (case wk_middle_name worker of None \<Rightarrow> '''' | Some m \<Rightarrow> m),
        dw_Snils = wk_snils worker, dw_IsForeignSnils = '''', dw_ForeignSnils = '''', dw_Citizenship = '''',
        dw_Position = tr_position tr, dw_EmployerInn = em_inn employer, dw_EmployerTitle = em_canonical_name employer\<rparr>,
      rr_Organization = \<lparr>do_Inn = em_inn employer, do_Title = em_canonical_name employer\<rparr>,
      rr_Test = \<lparr>dt_IsPassedAttr = ''true'', dt_LearnProgramIdAttr = pg_code program, dt_Date = testDate,
        dt_ProtocolNumber = str_of (pr_protocol_number protocol), dt_LearnProgramTitle = pg_name program,
        dt_EducationStart = eduStart, dt_EducationEnd = eduEnd\<rparr>\<rparr>"

definition render_participant ::
  "(string \<Rightarrow> string) \<Rightarrow> db \<Rightarrow> Protocol \<Rightarrow> ProtocolParticipant \<Rightarrow> (doc_error, RegistryRecord) result" where
  "render_participant date_error d protocol part =
     (case q_GetTrainingRecord d (pp_training_record_id part) of
        Inl e \<Rightarrow> Inl (get_failed ''training record'' (pp_training_record_id part) e)
      | Inr tr \<Rightarrow>
     (case q_GetWorkerEmployer d (tr_worker_employer_id tr) of
        Inl e \<Rightarrow> Inl (get_failed ''worker_employer'' (tr_worker_employer_id tr) e)
      | Inr we \<Rightarrow>
     (case q_GetWorker d (we_worker_id we) of
        Inl e \<Rightarrow> Inl (get_failed ''worker'' (we_worker_id we) e)
      | Inr worker \<Rightarrow>
     (case q_GetEmployer d (we_employer_id we) of
        Inl e \<Rightarrow> Inl (get_failed ''employer'' (we_employer_id we) e)
      | Inr employer \<Rightarrow>
     (case q_GetProgram d (tr_program_id tr) of
        Inl e \<Rightarrow> Inl (get_failed ''program'' (tr_program_id tr) e)
      | Inr program \<Rightarrow>
     (case parse_date date_error ''protocol date'' (pr_protocol_date protocol) of
        Inl e \<Rightarrow> Inl e
      | Inr testDate \<Rightarrow>
     (case parse_date date_error ''training start date'' (pr_training_start_date protocol) of
        Inl e \<Rightarrow> Inl e
      | Inr eduStart \<Rightarrow>
     (case parse_date date_error ''training end date'' (pr_training_end_date protocol) of
        Inl e \<Rightarrow> Inl e
      | Inr eduEnd \<Rightarrow> Inr (registry_record protocol tr worker employer program testDate eduStart eduEnd)))))))))"

fun render_all ::
  "(string \<Rightarrow> string) \<Rightarrow> db \<Rightarrow> Protocol \<Rightarrow> ProtocolParticipant list \<Rightarrow> (doc_error, RegistryRecord list) result" where
  "render_all date_error d protocol [] = Inr []"
| "render_all date_error d protocol (part # parts) =
     (case render_participant date_error d protocol part of
        Inl e \<Rightarrow> Inl e
      | Inr r \<Rightarrow> (case render_all date_error d protocol parts of Inl e \<Rightarrow> Inl e | Inr rs \<Rightarrow> Inr (r # rs)))"

definition renderRegistrySet :: "(string \<Rightarrow> string) \<Rightarrow> db \<Rightarrow> int \<Rightarrow> (doc_error, RegistryRecord list) result" where
  "renderRegistrySet date_error d protocolID =
     (case q_GetProtocolByID d protocolID of
        Inl e \<Rightarrow> Inl (doc_failure (error_text e))
      | Inr protocol \<Rightarrow>
          if pr_status protocol = StatusDraft \<or> pr_status protocol = StatusCancelled
          then Inl \<lparr>de_not_fixed = True, de_text = ErrProtocolNotFixed @ '': status='' @ pr_status protocol\<rparr>
          else case q_GetProgramGroup d (pr_program_group_id protocol) of
            Inl e \<Rightarrow> Inl (doc_failure (''get program group: '' @ error_text e))
          | Inr _ \<Rightarrow> render_all date_error d protocol (q_ListProtocolParticipants d protocolID))"

definition timeTypeKey :: "int \<Rightarrow> string" where
  "timeTypeKey hours =
     (if hours \<ge> 40 then CategoryA else if hours \<ge> 16 then CategoryB else if hours \<ge> 8 then CategoryP else CategoryA)"

subsection \<open>The archive of the protocols\<close>

text \<open>\<open>sortedProgramKeys\<close>: the keys in the order of their first record, then sorted by insertion.\<close>

definition unique_keys :: "RegistryRecord list \<Rightarrow> string list" where
  "unique_keys records =
     fold (\<lambda>r keys. let key = dt_LearnProgramIdAttr (rr_Test r) in if key \<in> set keys then keys else keys @ [key]) records []"

fun sink_key :: "nat \<Rightarrow> string list \<Rightarrow> string list" where
  "sink_key 0 keys = keys"
| "sink_key (Suc j) keys =
     (if keys ! j > keys ! Suc j then sink_key j (keys[j := keys ! Suc j, Suc j := keys ! j]) else keys)"

definition sortedProgramKeys :: "RegistryRecord list \<Rightarrow> string list" where
  "sortedProgramKeys records = (let keys = unique_keys records in fold sink_key [1..<length keys] keys)"

definition entry_name :: "string list \<Rightarrow> nat \<Rightarrow> string" where
  "entry_name keys i =
     (if i < length keys \<and> keys ! i \<noteq> '''' then ''protocol_'' @ keys ! i @ ''.docx''
      else ''protocol_'' @ show_int (int i + 1) @ ''.docx'')"

definition zip_entries :: "string list \<Rightarrow> string list \<Rightarrow> (string \<times> string) list" where
  "zip_entries keys parts = map (\<lambda>i. (entry_name keys i, parts ! i)) [0..<length parts]"

definition zipDocs :: "zip \<Rightarrow> RegistryRecord list \<Rightarrow> string list \<Rightarrow> (string, string) result" where
  "zipDocs z records parts =
     (if parts = [] then Inl ''zipDocs: no DOCX parts to zip''
      else zp_write z (zip_entries (sortedProgramKeys records) parts))"

definition legacyCreateDocx ::
  "('d, 'p) docx_lib \<Rightarrow> RegistryRecord list \<Rightarrow> string \<Rightarrow> string \<Rightarrow> (docx_error, string list) result" where
  "legacyCreateDocx lib records template timeType =
     (if template = '''' then Inl (LibraryFailed ''legacyCreateDocx: empty template'')
      else CreateDocx lib records template timeType)"

subsection \<open>Runs\<close>

definition xmlFileName :: "string \<Rightarrow> int \<Rightarrow> string" where
  "xmlFileName now protocolID = ''protocol_'' @ show_int protocolID @ ''_'' @ now @ ''.xml''"

definition docxFileName :: "string \<Rightarrow> int \<Rightarrow> string" where
  "docxFileName now protocolID = ''protocol_'' @ show_int protocolID @ ''_'' @ now @ ''.zip''"

definition pathIsSafe :: "string \<Rightarrow> bool" where
  "pathIsSafe name =
     (let cleaned = path_Clean name in
      cleaned = name \<and> \<not> (cleaned = '''' \<or> hd cleaned = CHR ''.'' \<or> hd cleaned = CHR ''/''))"

definition zero_run :: GenerationRun where
  "zero_run = \<lparr>gr_id = 0, gr_protocol_id = 0, gr_type = '''', gr_status = '''', gr_file_name = None,
     gr_generated_at = '''', gr_error_message = None, gr_created_at = ''''\<rparr>"

text \<open>The inserted row, or \<open>None\<close> for the error that the callers drop or log.\<close>

definition recordGenerationRun ::
  "env \<Rightarrow> nat \<Rightarrow> int \<Rightarrow> string \<Rightarrow> string \<Rightarrow> string \<Rightarrow> string \<Rightarrow> db \<Rightarrow> GenerationRun option \<times> db" where
  "recordGenerationRun ctx k protocolID docType status fileName errMsg d =
     (case q_CreateGenerationRun d protocolID docType status (nullableString fileName) (e_clock ctx k)
             (nullableString errMsg) (e_clock ctx (k + 1)) of
        Inl _ \<Rightarrow> (None, d)
      | Inr (row, d') \<Rightarrow> (Some row, d'))"

definition doc_audit :: "env \<Rightarrow> nat \<Rightarrow> string \<Rightarrow> int \<Rightarrow> (string \<times> json) list \<Rightarrow> db \<Rightarrow> db" where
  "doc_audit ctx k act protocolID details d = recordAudit ctx k (entry act ''protocol'' protocolID details) d"

record gen_result =
  gx_raw :: "string option"
  gx_run :: "GenerationRun option"
  gx_err :: "doc_error option"

text \<open>A run that fails: its row, its audit entry, and the error under a prefix.\<close>

definition gen_fail :: "env \<Rightarrow> nat \<Rightarrow> string \<Rightarrow> int \<Rightarrow> string \<Rightarrow> doc_error \<Rightarrow> db \<Rightarrow> gen_result \<times> db" where
  "gen_fail ctx k docType protocolID pre err d =
     (let (run, d) = recordGenerationRun ctx k protocolID docType ''failed'' '''' (de_text err) d;
          d = doc_audit ctx (k + 2) ''documents.generate.failed'' protocolID
                [(''type'', JStr docType), (''err'', JStr (de_text err))] d
      in (\<lparr>gx_raw = None, gx_run = Some (case run of None \<Rightarrow> zero_run | Some r \<Rightarrow> r),
           gx_err = Some (err\<lparr>de_text := pre @ de_text err\<rparr>)\<rparr>, d))"

definition gen_done :: "env \<Rightarrow> nat \<Rightarrow> string \<Rightarrow> int \<Rightarrow> string \<Rightarrow> string \<Rightarrow> db \<Rightarrow> gen_result \<times> db" where
  "gen_done ctx k docType protocolID fileName raw d =
     (case recordGenerationRun ctx k protocolID docType ''success'' fileName '''' d of
        (None, d) \<Rightarrow> (\<lparr>gx_raw = Some raw, gx_run = None, gx_err = None\<rparr>, d)
      | (Some run, d) \<Rightarrow>
          (\<lparr>gx_raw = Some raw, gx_run = Some run, gx_err = None\<rparr>,
           doc_audit ctx (k + 2) ''documents.generate.completed'' protocolID
             [(''type'', JStr docType), (''bytes'', JInt (int (length raw))), (''run_id'', JInt (gr_id run)),
              (''file_name'', JStr fileName)] d))"

definition generateXMLImpl :: "('d, 'p) doc_env \<Rightarrow> nat \<Rightarrow> int \<Rightarrow> db \<Rightarrow> gen_result \<times> db" where
  "generateXMLImpl dv k protocolID d =
     (let ctx = dv_ctx dv;
          d = doc_audit ctx k ''documents.generate.requested'' protocolID [(''type'', JStr ''xml'')] d
      in case renderRegistrySet (dv_date_error dv) d protocolID of
           Inl e \<Rightarrow> gen_fail ctx (k + 1) ''xml'' protocolID ''render registry: '' e d
         | Inr registrySet \<Rightarrow>
             (case GenerateXML (dv_xml dv) registrySet of
                Inl t \<Rightarrow> gen_fail ctx (k + 1) ''xml'' protocolID ''legacy generate xml: '' (doc_failure t) d
              | Inr raw \<Rightarrow> gen_done ctx (k + 1) ''xml'' protocolID (xmlFileName (dv_file_clock dv k) protocolID) raw d))"

text \<open>\<open>None\<close> is the panic of the generator, which the run does not recover from.\<close>

definition generateDOCXImpl :: "('d, 'p) doc_env \<Rightarrow> nat \<Rightarrow> int \<Rightarrow> db \<Rightarrow> (gen_result \<times> db) option" where
  "generateDOCXImpl dv k protocolID d =
     (let ctx = dv_ctx dv;
          d = doc_audit ctx k ''documents.generate.requested'' protocolID [(''type'', JStr ''docx'')] d;
          fail = (\<lambda>pre e. Some (gen_fail ctx (k + 1) ''docx'' protocolID pre e d))
      in case renderRegistrySet (dv_date_error dv) d protocolID of
           Inl e \<Rightarrow> fail ''render registry: '' e
         | Inr registrySet \<Rightarrow>
             if registrySet = []
             then fail '''' (doc_failure ''protocol has no participants; add at least one before generating DOCX'')
             else case dv_template dv of
               Inl t \<Rightarrow> fail ''load protocol template: '' (doc_failure t)
             | Inr template \<Rightarrow>
                 (case legacyCreateDocx (dv_lib dv) registrySet template CategoryA of
                    Inl DocxPanic \<Rightarrow> None
                  | Inl (LibraryFailed t) \<Rightarrow> fail ''legacy create docx: '' (doc_failure t)
                  | Inr parts \<Rightarrow>
                      (case zipDocs (dl_zip (dv_lib dv)) registrySet parts of
                         Inl t \<Rightarrow> fail ''zip docx parts: '' (doc_failure t)
                       | Inr zipped \<Rightarrow>
                           Some (gen_done ctx (k + 1) ''docx'' protocolID
                             (docxFileName (dv_file_clock dv k) protocolID) zipped d))))"

subsection \<open>Routes\<close>

definition contentTypeFor :: "string \<Rightarrow> string" where
  "contentTypeFor docType =
     (if docType = ''xml'' then ''application/xml; charset=utf-8''
      else if docType = ''docx'' then ''application/vnd.openxmlformats-officedocument.wordprocessingml.document''
      else ''application/octet-stream'')"

definition parseInt64Param :: "string \<Rightarrow> int option" where
  "parseInt64Param raw = (if raw = '''' then None else Atoi raw)"

definition sanitizeFilename :: "string \<Rightarrow> string" where
  "sanitizeFilename name =
     map (\<lambda>c. if c = CHR 0x22 \<or> c = CHR 0x5C \<or> byte c < 32 \<or> byte c = 127 \<or> byte c \<ge> 128 then CHR ''_'' else c) name"

definition writeAttachment :: "string \<Rightarrow> string \<Rightarrow> string \<Rightarrow> response" where
  "writeAttachment docType raw fileName =
     (let fileName = (if fileName \<noteq> '''' then fileName
                      else if docType = ''xml'' then ''protocol.xml''
                      else if docType = ''docx'' then ''protocol.zip'' else fileName)
      in \<lparr>rs_Status = 200,
          rs_Headers = [(''Content-Type'', contentTypeFor docType),
            (''Content-Disposition'', ''attachment; filename='' @ [CHR 0x22] @ sanitizeFilename fileName @ [CHR 0x22]),
            (''Content-Length'', show_int (int (length raw)))],
          rs_Body = Text raw\<rparr>)"

text \<open>One of the two runs; \<open>None\<close> is a panic, which the server answers by closing the connection.\<close>

definition run_generation :: "('d, 'p) doc_env \<Rightarrow> nat \<Rightarrow> string \<Rightarrow> int \<Rightarrow> db \<Rightarrow> (gen_result \<times> db) option" where
  "run_generation dv k docType protocolID d =
     (if docType = ''xml'' then Some (generateXMLImpl dv k protocolID d) else generateDOCXImpl dv k protocolID d)"

definition Generate ::
  "(string \<Rightarrow> string option) \<Rightarrow> ('d, 'p) doc_env \<Rightarrow> nat \<Rightarrow> http_request \<Rightarrow> string \<Rightarrow> string \<Rightarrow> db \<Rightarrow> (response \<times> db) option" where
  "Generate parse_host dv k rq rawID docType d =
     (case parseInt64Param rawID of
        None \<Rightarrow> Some (http_error ''invalid protocol id'' 400, d)
      | Some protocolID \<Rightarrow>
          if docType \<noteq> ''xml'' \<and> docType \<noteq> ''docx'' then Some (http_error ''type must be xml or docx'' 400, d)
          else case run_generation dv k docType protocolID d of
            None \<Rightarrow> None
          | Some (res, d) \<Rightarrow>
              (case gx_err res of
                 Some e \<Rightarrow> Some (http_error (de_text e) (if de_not_fixed e then 400 else 500), d)
               | None \<Rightarrow>
                   if gx_raw res = None \<or> gx_raw res = Some ''''
                   then Some (http_error ''generate produced empty output'' 500, d)
                   else case gx_run res of
                     None \<Rightarrow> Some (http_error ''generate succeeded but no generation_runs row was written'' 500, d)
                   | Some run \<Rightarrow>
                       Some (http_redirect parse_host rq
                         (''/protocols/'' @ show_int protocolID @ ''/download?run='' @ show_int (gr_id run)) 303, d)))"

definition Download ::
  "('d, 'p) doc_env \<Rightarrow> nat \<Rightarrow> string \<Rightarrow> string \<Rightarrow> db \<Rightarrow> (response \<times> db) option" where
  "Download dv k rawID rawRun d =
     (case parseInt64Param rawID of
        None \<Rightarrow> Some (http_error ''invalid protocol id'' 400, d)
      | Some protocolID \<Rightarrow>
     (case parseInt64Param rawRun of
        None \<Rightarrow> Some (http_error ''invalid run id'' 400, d)
      | Some runID \<Rightarrow>
     (case q_GetGenerationRun d runID of
        Inl ErrNoRows \<Rightarrow> Some (http_error ''generation run not found'' 404, d)
      | Inl e \<Rightarrow> Some (http_error (''get generation run: '' @ error_text e) 500, d)
      | Inr row \<Rightarrow>
          if gr_protocol_id row \<noteq> protocolID
          then Some (http_error ''generation run does not belong to this protocol'' 400, d)
          else if gr_type row = ''xml'' \<or> gr_type row = ''docx''
          then case run_generation dv k (gr_type row) protocolID d of
            None \<Rightarrow> None
          | Some (res, d) \<Rightarrow>
              (case gx_err res of
                 Some e \<Rightarrow> Some (http_error (''regenerate '' @ gr_type row @ '': '' @ de_text e) 500, d)
               | None \<Rightarrow> Some (writeAttachment (gr_type row) (str_of (gx_raw res)) (str_of (gr_file_name row)), d))
          else Some (http_error (''unsupported run type: '' @ gr_type row) 400, d))))"

end
