(* ===== verification/DocumentLaws.thy ===== *)
theory DocumentLaws
  imports Documents "HOL-Library.Multiset"
begin

text \<open>
  Lemmas on the documents: the groups and keys of the archive, the page settings, the table of the
  participants, and what a run writes.
\<close>

subsection \<open>Groups and keys\<close>

abbreviation program_key :: "RegistryRecord \<Rightarrow> string" where
  "program_key r \<equiv> dt_LearnProgramIdAttr (rr_Test r)"

lemma map_of_add_to_group:
  "map_of (add_to_group r groups) k =
     (if k = program_key r then Some ((case map_of groups k of None \<Rightarrow> [] | Some rs \<Rightarrow> rs) @ [r]) else map_of groups k)"
  by (induction r groups rule: add_to_group.induct) auto

lemma add_to_group_keys:
  "set (map fst (add_to_group r groups)) = insert (program_key r) (set (map fst groups))"
  "distinct (map fst groups) \<Longrightarrow> distinct (map fst (add_to_group r groups))"
  by (induction r groups rule: add_to_group.induct) auto

lemma groups_of_snoc: "groups_of (rs @ [r]) = add_to_group r (groups_of rs)"
  by (simp add: groups_of_def)

lemma groups_of_keys: "distinct (map fst (groups_of rs))" "set (map fst (groups_of rs)) = program_key ` set rs"
  by (induction rs rule: rev_induct) (auto simp: groups_of_snoc add_to_group_keys simp del: set_map, simp_all add: groups_of_def)

lemma map_of_groups_of:
  "k \<in> program_key ` set rs \<Longrightarrow> map_of (groups_of rs) k = Some (filter (\<lambda>r. program_key r = k) rs)"
proof (induction rs rule: rev_induct)
  case (snoc r rs)
  show ?case
  proof (cases "k \<in> program_key ` set rs")
    case True
    with snoc.IH show ?thesis by (auto simp: groups_of_snoc map_of_add_to_group)
  next
    case False
    then have "map_of (groups_of rs) k = None" using groups_of_keys(2) [of rs] by (simp add: map_of_eq_None_iff)
    moreover have "filter (\<lambda>r. program_key r = k) rs = []" using False by (auto simp: filter_empty_conv)
    moreover have "k = program_key r" using False snoc.prems by auto
    ultimately show ?thesis by (simp add: groups_of_snoc map_of_add_to_group)
  qed
qed simp

lemma unique_keys_snoc:
  "unique_keys (rs @ [r]) = (if program_key r \<in> set (unique_keys rs) then unique_keys rs else unique_keys rs @ [program_key r])"
  by (simp add: unique_keys_def Let_def)

lemma unique_keys_set: "distinct (unique_keys rs)" "set (unique_keys rs) = program_key ` set rs"
  by (induction rs rule: rev_induct) (auto simp: unique_keys_snoc, simp_all add: unique_keys_def)

text \<open>The loop of the source is insertion sort.\<close>

lemma sorted_mset_unique:
  fixes xs :: "'a :: linorder list"
  shows "sorted xs \<Longrightarrow> sorted ys \<Longrightarrow> mset xs = mset ys \<Longrightarrow> xs = ys"
  by (metis properties_for_sort sorted_sort_id)

lemma insort_snoc:
  fixes x :: "'a :: linorder"
  assumes "sorted (xs @ [y])"
  shows "insort x (xs @ [y]) = (if y > x then insort x xs @ [y] else xs @ [y, x])"
  by (rule sorted_mset_unique) (use assms in \<open>auto simp: sorted_append sorted_insort set_insort_key dest: le_less_trans\<close>)

lemma sink_key_insort: "sorted xs \<Longrightarrow> sink_key (length xs) (xs @ x # ys) = insort x xs @ ys"
proof (induction xs arbitrary: ys rule: rev_induct)
  case (snoc y xs)
  have "(xs @ y # x # ys)[length xs := x, Suc (length xs) := y] = xs @ x # y # ys"
    by (simp add: list_update_append)
  then show ?case using snoc insort_snoc [OF snoc.prems, of x] by (simp add: nth_append sorted_append)
qed simp

lemma insertion_sort:
  "n \<le> length keys \<Longrightarrow> fold sink_key [1..<n] keys = sort (take n keys) @ drop n keys"
proof (induction n)
  case (Suc n)
  then have rest: "drop n keys = keys ! n # drop (Suc n) keys" by (simp add: Cons_nth_drop_Suc)
  show ?case
  proof (cases "n = 0")
    case True
    then show ?thesis using Suc.prems by (cases keys) simp_all
  next
    case False
    then have "fold sink_key [1..<Suc n] keys = sink_key n (sort (take n keys) @ keys ! n # drop (Suc n) keys)"
      using Suc by (simp add: rest)
    also have "\<dots> = insort (keys ! n) (sort (take n keys)) @ drop (Suc n) keys"
      using sink_key_insort [of "sort (take n keys)" "keys ! n" "drop (Suc n) keys"] Suc.prems by (simp add: min_def)
    also have "insort (keys ! n) (sort (take n keys)) = sort (take (Suc n) keys)"
      by (rule sorted_mset_unique) (use Suc.prems in \<open>simp_all add: sorted_insort take_Suc_conv_app_nth\<close>)
    finally show ?thesis .
  qed
qed simp

lemma sortedProgramKeys_sort: "sortedProgramKeys rs = sort (unique_keys rs)"
proof -
  have "fold sink_key [1..<length (unique_keys rs)] (unique_keys rs) = sort (unique_keys rs)"
    using insertion_sort [of "length (unique_keys rs)" "unique_keys rs"] by simp
  then show ?thesis by (simp add: sortedProgramKeys_def Let_def)
qed

lemma program_keys:
  "sortedProgramKeys rs = sort (remdups (map program_key rs))" "sort (map fst (groups_of rs)) = sort (remdups (map program_key rs))"
  by (rule sorted_distinct_set_unique;
      use unique_keys_set [of rs] groups_of_keys [of rs] in \<open>simp add: sortedProgramKeys_sort\<close>)+

subsection \<open>The archive\<close>

lemma create_each_Inr:
  assumes "create_each lib template tt groups keys = Inr docs"
  shows "list_all2 (\<lambda>k doc. internalCreateDocx lib (case map_of groups k of None \<Rightarrow> [] | Some rs \<Rightarrow> rs) template tt = Inr doc)
    keys docs"
  using assms
  by (induction keys arbitrary: docs) (auto split: sum.splits)

definition archive_entry :: "('d, 'p) docx_lib \<Rightarrow> string \<Rightarrow> RegistryRecord list \<Rightarrow> string \<Rightarrow> string \<times> string \<Rightarrow> bool" where
  "archive_entry lib template rs k e \<longleftrightarrow>
     (k \<noteq> '''' \<longrightarrow> fst e = ''protocol_'' @ k @ ''.docx'')
     \<and> internalCreateDocx lib (filter (\<lambda>r. program_key r = k) rs) template CategoryA = Inr (snd e)"

lemma CreateDocx_archive:
  assumes "CreateDocx lib rs template CategoryA = Inr parts"
  shows "list_all2 (archive_entry lib template rs) (sort (remdups (map program_key rs))) (zip_entries (sortedProgramKeys rs) parts)"
proof -
  let ?keys = "sort (remdups (map program_key rs))"
  have "list_all2 (\<lambda>k doc. internalCreateDocx lib (case map_of (groups_of rs) k of None \<Rightarrow> [] | Some rs \<Rightarrow> rs) template CategoryA
      = Inr doc) ?keys parts"
    using create_each_Inr [of lib template CategoryA "groups_of rs" ?keys parts] assms
    by (simp add: CreateDocx_def Let_def program_keys(2))
  then have len: "length parts = length ?keys"
    and doc: "\<And>i. i < length ?keys \<Longrightarrow> internalCreateDocx lib (case map_of (groups_of rs) (?keys ! i) of None \<Rightarrow> [] | Some rs \<Rightarrow> rs)
      template CategoryA = Inr (parts ! i)" by (auto simp: list_all2_conv_all_nth)
  show ?thesis
  proof (rule list_all2_all_nthI)
    show "length ?keys = length (zip_entries (sortedProgramKeys rs) parts)" by (simp add: zip_entries_def len)
  next
    fix i
    assume i: "i < length ?keys"
    then have "?keys ! i \<in> program_key ` set rs" using nth_mem [OF i] by auto
    from doc [OF i] map_of_groups_of [OF this] i len
    show "archive_entry lib template rs (?keys ! i) (zip_entries (sortedProgramKeys rs) parts ! i)"
      by (simp add: archive_entry_def zip_entries_def entry_name_def program_keys(1))
  qed
qed

subsection \<open>The page settings\<close>

lemma bytes_Index_prefix: "prefix pat s \<Longrightarrow> bytes_Index s pat = Some 0"
  by (cases s) auto

lemma bytes_Index_Some:
  "bytes_Index s pat = Some i \<Longrightarrow> i + length pat \<le> length s \<and> prefix pat (drop i s) \<and> (\<forall>j < i. \<not> prefix pat (drop j s))"
proof (induction s arbitrary: i)
  case (Cons c s)
  show ?case
  proof (cases "prefix pat (c # s)")
    case True
    with Cons.prems show ?thesis by (auto dest: prefix_length_le)
  next
    case False
    with Cons.prems obtain i' where i: "i = Suc i'" "bytes_Index s pat = Some i'" by (auto split: if_splits)
    with Cons.IH [OF i(2)] False show ?thesis by (auto simp: less_Suc_eq_0_disj)
  qed
qed (auto split: if_splits)

lemma bytes_Index_None: "bytes_Index s pat = None \<Longrightarrow> \<not> prefix pat (drop j s)"
proof (induction s arbitrary: j)
  case (Cons c s)
  then show ?case by (cases j) (auto split: if_splits)
qed (auto split: if_splits)

lemma bytes_Index_intro:
  "prefix pat (drop i s) \<Longrightarrow> i \<le> length s \<Longrightarrow> \<forall>j < i. \<not> prefix pat (drop j s) \<Longrightarrow> bytes_Index s pat = Some i"
proof (induction s arbitrary: i)
  case (Cons c s)
  show ?case
  proof (cases i)
    case 0
    with Cons.prems(1) show ?thesis by simp
  next
    case (Suc i')
    with Cons.prems(3) have "\<not> prefix pat (c # s)" "\<forall>j < i'. \<not> prefix pat (drop j s)" by fastforce+
    with Cons Suc show ?thesis by simp
  qed
qed auto

lemma bytes_Index_append: "bytes_Index s pat = Some i \<Longrightarrow> bytes_Index (s @ t) pat = Some i"
proof (induction s arbitrary: i)
  case Nil
  then show ?case by (auto split: if_splits intro: bytes_Index_prefix)
next
  case (Cons c s)
  show ?case
  proof (cases "prefix pat (c # s)")
    case True
    then have "prefix pat (c # s @ t)" using prefix_prefix by fastforce
    with True Cons.prems show ?thesis by simp
  next
    case False
    with Cons.prems obtain i' where i: "i = Suc i'" "bytes_Index s pat = Some i'" by (auto split: if_splits)
    have "length pat \<le> length (c # s)" using bytes_Index_Some [OF i(2)] by simp
    with False have "\<not> prefix pat ((c # s) @ t)" by (metis append_eq_append_conv_if prefix_def prefix_length_prefix prefixI)
    with i Cons.IH [OF i(2)] show ?thesis by simp
  qed
qed

text \<open>
  Before a text that starts with the first byte of the pattern, where the pattern does not repeat
  that byte, no occurrence can begin that was not there before.
\<close>

lemma bytes_Index_splice:
  assumes "\<forall>j < length pre. \<not> prefix (c # p) (drop j (pre @ old))" "c \<notin> set p" "prefix (c # p) new"
  shows "bytes_Index (pre @ new) (c # p) = Some (length pre)"
proof (rule bytes_Index_intro)
  show "\<forall>j < length pre. \<not> prefix (c # p) (drop j (pre @ new))"
  proof (intro allI impI notI)
    fix j
    assume j: "j < length pre" and "prefix (c # p) (drop j (pre @ new))"
    then obtain t where t: "drop j pre @ new = (c # p) @ t" by (auto simp: prefix_def)
    show False
    proof (cases "length (c # p) \<le> length (drop j pre)")
      case True
      with t have "prefix (c # p) (drop j pre)" by (metis append_eq_append_conv_if prefix_def append_take_drop_id)
      then have "prefix (c # p) (drop j (pre @ old))" using j by (simp add: prefix_prefix)
      with assms(1) j show False by blast
    next
      case False
      let ?n = "length pre - j"
      have n: "?n < length (c # p)" "0 < ?n" using False j by auto
      have "(drop j pre @ new) ! ?n = hd new" using assms(3) by (auto simp: nth_append prefix_def)
      moreover have "hd new = c" using assms(3) by (auto simp: prefix_def)
      moreover have "((c # p) @ t) ! ?n = (c # p) ! ?n" using n(1) by (simp only: nth_append if_True)
      moreover have "(c # p) ! ?n = p ! (?n - 1)" using n(2) by (simp add: nth_Cons')
      ultimately have "p ! (?n - 1) = c" using t by metis
      moreover have "p ! (?n - 1) \<in> set p" using n by (intro nth_mem) auto
      ultimately show False using assms(2) by simp
    qed
  qed
qed (use assms(3) in auto)

text \<open>What the extraction finds ends with its closing tag, and has no closing tag before.\<close>

lemma sect_end_append: "bytes_Index s sect_close = Some e \<Longrightarrow> sect_end (s @ t) = Some (e + length sect_close)"
  by (simp add: sect_end_def bytes_Index_append)

lemma find_sectPr_Inr:
  assumes "find_sectPr content = Inr sect" "suffix sect_close sect"
  shows "prefix sect_open sect \<and> (\<exists>e. bytes_Index sect sect_close = Some e \<and> length sect = e + length sect_close)"
proof -
  from assms(1) obtain start e where st: "bytes_Index content sect_open = Some start"
    "sect_end (drop start content) = Some e" "sect = take e (drop start content)"
    by (auto simp: find_sectPr_def split: option.splits)
  let ?s = "drop start content"
  have "prefix sect_open ?s" using bytes_Index_Some [OF st(1)] by simp
  have closing: "\<exists>e'. bytes_Index ?s sect_close = Some e' \<and> e = e' + length sect_close"
  proof (cases "bytes_Index ?s sect_close")
    case None
    with st(2) obtain e' where "e = e' + 2" by (auto simp: sect_end_def split: option.splits)
    obtain mid where "sect = mid @ sect_close" using assms(2) by (auto simp: suffix_def)
    then have "?s = mid @ sect_close @ drop e ?s" using st(3) by (metis append.assoc append_take_drop_id)
    then have "prefix sect_close (drop (length mid) ?s)" by (metis append_eq_conv_conj prefixI)
    with bytes_Index_None [OF None] show ?thesis by blast
  qed (use st(2) in \<open>auto simp: sect_end_def\<close>)
  then obtain e' where e': "bytes_Index ?s sect_close = Some e'" "e = e' + length sect_close" by blast
  note at = bytes_Index_Some [OF e'(1)]
  have len: "length sect = e" using st(3) at e'(2) by simp
  have "bytes_Index sect sect_close = Some e'"
  proof (rule bytes_Index_intro)
    show "prefix sect_close (drop e' sect)" using assms(2) len e'(2) by (auto simp: suffix_def)
    show "\<forall>j < e'. \<not> prefix sect_close (drop j sect)"
    proof (intro allI impI notI)
      fix j
      assume "j < e'" "prefix sect_close (drop j sect)"
      moreover have "drop j ?s = drop j sect @ drop e ?s" using \<open>j < e'\<close> e'(2) len unfolding st(3)
        by (metis append_take_drop_id drop_append diff_is_0_eq' drop0 le_add1 less_imp_le_nat order_trans)
      ultimately have "prefix sect_close (drop j ?s)" by (simp add: prefix_prefix)
      with at \<open>j < e'\<close> show False by blast
    qed
  qed (use len e'(2) in simp)
  moreover have "prefix sect_open sect"
  proof -
    have "length sect_open \<le> e" using e'(2) by (simp add: sect_open_def sect_close_def)
    with \<open>prefix sect_open ?s\<close> show ?thesis unfolding st(3) by (metis prefix_def take_append take_all_iff prefixI
        append_take_drop_id le_add_diff_inverse take_add append_eq_conv_conj)
  qed
  ultimately show ?thesis using len e'(2) by blast
qed

text \<open>A document into which a block can be put: it has one that ends, or the end of a body and none.\<close>

definition takes_sectPr :: "string \<Rightarrow> bool" where
  "takes_sectPr docXML \<longleftrightarrow>
     (case bytes_Index docXML sect_open of
        Some start \<Rightarrow> sect_end (drop start docXML) \<noteq> None
      | None \<Rightarrow> bytes_Index docXML ''</w:body>'' \<noteq> None)"

lemma injectSectPr_splice:
  assumes "takes_sectPr docXML"
  shows "\<exists>pre old post. injectSectPr docXML sect = pre @ sect @ post \<and> docXML = pre @ old
    \<and> (\<forall>j < length pre. \<not> prefix sect_open (drop j docXML))"
proof (cases "bytes_Index docXML sect_open")
  case None
  with assms obtain b where b: "bytes_Index docXML ''</w:body>'' = Some b" by (auto simp: takes_sectPr_def)
  have "\<forall>j < length (take b docXML). \<not> prefix sect_open (drop j docXML)" using bytes_Index_None [OF None] by blast
  moreover have "injectSectPr docXML sect = take b docXML @ sect @ drop b docXML" by (simp add: injectSectPr_def None b)
  ultimately show ?thesis by (metis append_take_drop_id)
next
  case (Some start)
  with assms obtain e where e: "sect_end (drop start docXML) = Some e" by (auto simp: takes_sectPr_def)
  have "\<forall>j < length (take start docXML). \<not> prefix sect_open (drop j docXML)" using bytes_Index_Some [OF Some] by simp
  moreover have "injectSectPr docXML sect = take start docXML @ sect @ drop (start + e) docXML"
    by (simp add: injectSectPr_def Some e)
  ultimately show ?thesis by (metis append_take_drop_id)
qed

lemma find_injected:
  assumes "find_sectPr content = Inr sect" "suffix sect_close sect" "takes_sectPr docXML"
  shows "find_sectPr (injectSectPr docXML sect) = Inr sect"
proof -
  from find_sectPr_Inr [OF assms(1,2)] obtain e where sect: "prefix sect_open sect"
    "bytes_Index sect sect_close = Some e" "length sect = e + length sect_close" by blast
  from injectSectPr_splice [OF assms(3), of sect] obtain pre old post where
    sp: "injectSectPr docXML sect = pre @ sect @ post" "docXML = pre @ old" "\<forall>j < length pre. \<not> prefix sect_open (drop j docXML)"
    by blast
  have pat: "sect_open = CHR ''<'' # ''w:sectPr''" "CHR ''<'' \<notin> set ''w:sectPr''" by (simp_all add: sect_open_def)
  have "bytes_Index (pre @ (sect @ post)) (CHR ''<'' # ''w:sectPr'') = Some (length pre)"
    by (rule bytes_Index_splice [where old = old])
      (use sp(2,3) sect(1) pat in \<open>simp_all add: prefix_prefix\<close>)
  then have "bytes_Index (pre @ sect @ post) sect_open = Some (length pre)" by (simp add: pat(1))
  then show ?thesis using sect_end_append [OF sect(2), of post] sect(3) by (simp add: sp(1) find_sectPr_def)
qed

text \<open>What the archive library promises: what was written is read back.\<close>

definition zip_laws :: "zip \<Rightarrow> bool" where
  "zip_laws z \<longleftrightarrow> (\<forall>entries out. zp_write z entries = Inr out
     \<longrightarrow> zp_open z out = Inr (map (\<lambda>(name, c). (name, Inr c)) entries))"

lemma patch_entries_find:
  assumes "patch_entries sect files = Inr entries"
  shows "find (\<lambda>f. fst f = documentXML) (map (\<lambda>(name, c). (name, Inr c)) entries)
    = (case find (\<lambda>f. fst f = documentXML) files of
         Some (name, Inr c) \<Rightarrow> Some (name, Inr (injectSectPr c sect)) | Some (name, Inl e) \<Rightarrow> Some (name, Inl e) | None \<Rightarrow> None)"
  using assms
proof (induction sect files arbitrary: entries rule: patch_entries.induct)
  case (2 sect name content files)
  then show ?case by (auto split: sum.splits if_splits)
qed simp

subsection \<open>The table of the participants\<close>

lemma add_texts_fresh: "length ts = n \<Longrightarrow> add_texts ts (replicate n []) = Some (map (\<lambda>t. [Added t font]) ts)"
  by (induction ts arbitrary: n) auto

definition participant_row :: "nat \<Rightarrow> RegistryRecord \<Rightarrow> 'p cell list" where
  "participant_row i r = map (\<lambda>t. [Added t font]) (participant_cells i r)"

lemma fill_rows_fresh:
  "length head = index + 1 \<Longrightarrow>
   fill_rows index records (head @ replicate (length records) (replicate docxTableColumnCount []))
     = Some (head @ map2 participant_row [index..<index + length records] records)"
proof (induction records arbitrary: index head)
  case (Cons r records)
  have len: "length (participant_cells index r) = docxTableColumnCount"
    by (simp add: participant_cells_def docxTableColumnCount_def Let_def)
  let ?fresh = "replicate docxTableColumnCount [] :: 'a cell list"
  let ?row = "participant_row index r :: 'a cell list"
  have row: "add_texts (participant_cells index r) ?fresh = Some ?row"
    using add_texts_fresh [OF len] by (simp add: participant_row_def)
  have "fill_rows index (r # records) (head @ replicate (length (r # records)) ?fresh)
      = fill_rows (index + 1) records ((head @ [?row]) @ replicate (length records) ?fresh)"
    using Cons.prems row by (simp add: nth_append list_update_append)
  also have "\<dots> = Some ((head @ [?row]) @ map2 participant_row [index + 1..<index + 1 + length records] records)"
    using Cons.IH [of "head @ [?row]" "index + 1"] Cons.prems by simp
  finally have step: "fill_rows index (r # records) (head @ replicate (length (r # records)) ?fresh)
      = Some ((head @ [?row]) @ map2 participant_row [index + 1..<index + 1 + length records] records)" .
  have upt: "[index..<index + length (r # records)] = index # [index + 1..<index + 1 + length records]"
    using upt_conv_Cons [of index "index + length (r # records)"] by (simp only: length_Cons add_Suc_right) simp
  show ?case unfolding step upt by simp
qed simp

subsection \<open>Runs\<close>

text \<open>A run writes its own table and the log only, and its registry depends on neither.\<close>

lemma doc_audit_tables:
  obtains l where "doc_audit ctx k act i details d = d\<lparr>action_log := l\<rparr>"
proof (cases "\<exists>d'. e_audit ctx \<and> Record ctx k (entry act ''protocol'' i details) d = Inr d'")
  case True
  then obtain d' r where "doc_audit ctx k act i details d = d'"
    "q_CreateActionLog d (resolve_actor ctx (entry act ''protocol'' i details)) act ''protocol'' (Some i)
       (marshalDetails details) (e_audit_clock ctx k) = Inr (r, d')"
    by (auto simp: doc_audit_def recordAudit_def Record_def entry_def split: sum.splits)
  then show ?thesis using that unfolding q_CreateActionLog_def ins_action_log_def
    by (auto dest: stored_insert_rows)
next
  case False
  then have "doc_audit ctx k act i details d = d\<lparr>action_log := action_log d\<rparr>"
    by (auto simp: doc_audit_def recordAudit_def split: sum.splits)
  then show ?thesis by (rule that)
qed

lemma renderRegistrySet_cong:
  "renderRegistrySet de (d\<lparr>action_log := l\<rparr>) i = renderRegistrySet de d i"
  "renderRegistrySet de (d\<lparr>generation_runs := g\<rparr>) i = renderRegistrySet de d i"
proof -
  let ?a = "d\<lparr>action_log := l\<rparr>" and ?g = "d\<lparr>generation_runs := g\<rparr>"
  note reads = q_GetTrainingRecord_def q_GetWorkerEmployer_def q_GetWorker_def q_GetEmployer_def q_GetProgram_def
    q_GetProtocolByID_def q_GetProgramGroup_def q_ListProtocolParticipants_def
  have same: "q_GetTrainingRecord ?a j = q_GetTrainingRecord d j" "q_GetWorkerEmployer ?a j = q_GetWorkerEmployer d j"
    "q_GetWorker ?a j = q_GetWorker d j" "q_GetEmployer ?a j = q_GetEmployer d j" "q_GetProgram ?a j = q_GetProgram d j"
    "q_GetTrainingRecord ?g j = q_GetTrainingRecord d j" "q_GetWorkerEmployer ?g j = q_GetWorkerEmployer d j"
    "q_GetWorker ?g j = q_GetWorker d j" "q_GetEmployer ?g j = q_GetEmployer d j" "q_GetProgram ?g j = q_GetProgram d j" for j
    by (simp_all add: reads)
  have part: "render_participant de ?a p x = render_participant de d p x"
    "render_participant de ?g p x = render_participant de d p x" for p x
    unfolding render_participant_def same by (rule refl)+
  have "render_all de (d\<lparr>action_log := l\<rparr>) p xs = render_all de d p xs"
    "render_all de (d\<lparr>generation_runs := g\<rparr>) p xs = render_all de d p xs" for p xs
    by (induction xs) (simp_all add: part cong: sum.case_cong)
  then show "renderRegistrySet de (d\<lparr>action_log := l\<rparr>) i = renderRegistrySet de d i"
    "renderRegistrySet de (d\<lparr>generation_runs := g\<rparr>) i = renderRegistrySet de d i"
    by (simp_all add: renderRegistrySet_def reads cong: sum.case_cong if_cong)
qed

lemma recordGenerationRun_row:
  assumes "recordGenerationRun ctx k i ty st fname err d = (res, d')" "ty \<in> {''xml'', ''docx''}" "st \<in> {''success'', ''failed''}"
  shows "if i \<in> row_ids pr_id (protocols d)
    then \<exists>run. res = Some run \<and> d' = d\<lparr>generation_runs := generation_runs d @ [run]\<rparr> \<and> gr_protocol_id run = i \<and> gr_type run = ty
      \<and> gr_status run = st \<and> gr_file_name run = nullableString fname \<and> gr_error_message run = nullableString err
      \<and> gr_id run = next_rowid gr_id (generation_runs d)
    else res = None \<and> d' = d"
proof -
  have "generation_check \<lparr>gr_id = n, gr_protocol_id = i, gr_type = ty, gr_status = st, gr_file_name = a,
      gr_generated_at = b, gr_error_message = c, gr_created_at = e\<rparr>" for n a b c e
    using assms(2,3) by (auto simp: generation_check_def)
  then show ?thesis using assms(1)
    by (auto simp: recordGenerationRun_def q_CreateGenerationRun_def ins_generation_def stored_def sql_insert_def Let_def
        generation_fk_def no_clash_def list_ex_iff split: if_splits)
qed

text \<open>
  What a run leaves: the other tables as they were, one row for the run when its protocol exists,
  with the status that matches the outcome, and no row otherwise.
\<close>

definition run_recorded :: "string \<Rightarrow> int \<Rightarrow> db \<Rightarrow> gen_result \<Rightarrow> db \<Rightarrow> bool" where
  "run_recorded ty i d res d' \<longleftrightarrow>
     (if i \<in> row_ids pr_id (protocols d)
      then \<exists>run l. d' = d\<lparr>generation_runs := generation_runs d @ [run], action_log := l\<rparr> \<and> gx_run res = Some run
        \<and> gr_protocol_id run = i \<and> gr_type run = ty \<and> gr_id run = next_rowid gr_id (generation_runs d)
        \<and> gr_status run = (if gx_err res = None then ''success'' else ''failed'')
      else \<exists>l. d' = d\<lparr>action_log := l\<rparr>)"

lemma run_recordedI:
  assumes "recordGenerationRun ctx k i ty st fname err (d\<lparr>action_log := l\<rparr>) = (run, d1)"
    "ty \<in> {''xml'', ''docx''}" "st = (if gx_err res = None then ''success'' else ''failed'')"
    "run = None \<Longrightarrow> \<exists>m. d' = d1\<lparr>action_log := m\<rparr>" "\<And>x. run = Some x \<Longrightarrow> gx_run res = Some x \<and> (\<exists>m. d' = d1\<lparr>action_log := m\<rparr>)"
  shows "run_recorded ty i d res d'"
proof -
  have st: "st \<in> {''success'', ''failed''}" using assms(3) by simp
  note row = recordGenerationRun_row [OF assms(1,2) st]
  show ?thesis
  proof (cases "i \<in> row_ids pr_id (protocols d)")
    case True
    with row obtain x where x: "run = Some x" "d1 = d\<lparr>action_log := l, generation_runs := generation_runs d @ [x]\<rparr>"
      "gr_protocol_id x = i" "gr_type x = ty" "gr_status x = st" "gr_id x = next_rowid gr_id (generation_runs d)" by auto
    from assms(5) [OF x(1)] obtain m where "gx_run res = Some x" "d' = d1\<lparr>action_log := m\<rparr>" by blast
    then have "d' = d\<lparr>generation_runs := generation_runs d @ [x], action_log := m\<rparr>" by (simp add: x(2))
    with True x \<open>gx_run res = Some x\<close> assms(3) show ?thesis unfolding run_recorded_def by auto
  next
    case False
    with row have "run = None" "d1 = d\<lparr>action_log := l\<rparr>" by simp_all
    with False assms(4) show ?thesis unfolding run_recorded_def by auto
  qed
qed

lemma gen_fail_recorded:
  assumes "gen_fail ctx k ty i pre e (d\<lparr>action_log := l\<rparr>) = (res, d')" "ty \<in> {''xml'', ''docx''}"
  shows "run_recorded ty i d res d'" "gx_err res = Some (e\<lparr>de_text := pre @ de_text e\<rparr>)" "gx_raw res = None"
proof -
  obtain run d1 where r: "recordGenerationRun ctx k i ty ''failed'' '''' (de_text e) (d\<lparr>action_log := l\<rparr>) = (run, d1)" by fastforce
  obtain m where m: "doc_audit ctx (k + 2) ''documents.generate.failed'' i
      [(''type'', JStr ty), (''err'', JStr (de_text e))] d1 = d1\<lparr>action_log := m\<rparr>" by (rule doc_audit_tables)
  from assms(1) have res: "res = \<lparr>gx_raw = None, gx_run = Some (case run of None \<Rightarrow> zero_run | Some r \<Rightarrow> r),
      gx_err = Some (e\<lparr>de_text := pre @ de_text e\<rparr>)\<rparr>" "d' = d1\<lparr>action_log := m\<rparr>"
    unfolding gen_fail_def Let_def r prod.case m by auto
  then show "gx_err res = Some (e\<lparr>de_text := pre @ de_text e\<rparr>)" "gx_raw res = None" by simp_all
  show "run_recorded ty i d res d'" by (rule run_recordedI [OF r assms(2)]) (use res in auto)
qed

lemma gen_done_recorded:
  assumes "gen_done ctx k ty i fname raw (d\<lparr>action_log := l\<rparr>) = (res, d')" "ty \<in> {''xml'', ''docx''}"
  shows "run_recorded ty i d res d'" "gx_err res = None" "gx_raw res = Some raw"
proof -
  obtain run d1 where r: "recordGenerationRun ctx k i ty ''success'' fname '''' (d\<lparr>action_log := l\<rparr>) = (run, d1)" by fastforce
  have res: "(\<exists>m. d' = d1\<lparr>action_log := m\<rparr>) \<and> res = \<lparr>gx_raw = Some raw, gx_run = run, gx_err = None\<rparr>"
  proof (cases run)
    case None
    with assms(1) have "d' = d1\<lparr>action_log := action_log d1\<rparr>" "res = \<lparr>gx_raw = Some raw, gx_run = run, gx_err = None\<rparr>"
      by (simp_all add: gen_done_def r)
    then show ?thesis by blast
  next
    case (Some x)
    obtain m where "doc_audit ctx (k + 2) ''documents.generate.completed'' i
      [(''type'', JStr ty), (''bytes'', JInt (int (length raw))), (''run_id'', JInt (gr_id x)), (''file_name'', JStr fname)] d1
      = d1\<lparr>action_log := m\<rparr>" by (rule doc_audit_tables)
    with Some assms(1) show ?thesis by (auto simp: gen_done_def r)
  qed
  then show "gx_err res = None" "gx_raw res = Some raw" by simp_all
  show "run_recorded ty i d res d'" by (rule run_recordedI [OF r assms(2)]) (use res in auto)
qed

text \<open>The outcome of a run as a function of the registry of the protocol.\<close>

lemma generateXMLImpl_cases:
  assumes "generateXMLImpl dv k i d = (res, d')"
  shows "\<exists>l. case renderRegistrySet (dv_date_error dv) d i of
      Inl e \<Rightarrow> gen_fail (dv_ctx dv) (k + 1) ''xml'' i ''render registry: '' e (d\<lparr>action_log := l\<rparr>) = (res, d')
    | Inr rs \<Rightarrow> (case GenerateXML (dv_xml dv) rs of
        Inl t \<Rightarrow> gen_fail (dv_ctx dv) (k + 1) ''xml'' i ''legacy generate xml: '' (doc_failure t) (d\<lparr>action_log := l\<rparr>) = (res, d')
      | Inr raw \<Rightarrow> gen_done (dv_ctx dv) (k + 1) ''xml'' i (xmlFileName (dv_file_clock dv k) i) raw (d\<lparr>action_log := l\<rparr>) = (res, d'))"
proof -
  obtain l where l: "doc_audit (dv_ctx dv) k ''documents.generate.requested'' i [(''type'', JStr ''xml'')] d = d\<lparr>action_log := l\<rparr>"
    by (rule doc_audit_tables)
  from assms show ?thesis unfolding generateXMLImpl_def Let_def l renderRegistrySet_cong
    by (intro exI [of _ l]) (auto split: sum.splits)
qed

lemma generateDOCXImpl_cases:
  assumes "generateDOCXImpl dv k i d = Some (res, d')"
  shows "\<exists>l pre e raw. (gen_fail (dv_ctx dv) (k + 1) ''docx'' i pre e (d\<lparr>action_log := l\<rparr>) = (res, d')
      \<and> (\<forall>e'. renderRegistrySet (dv_date_error dv) d i = Inl e' \<longrightarrow> e = e' \<and> pre = ''render registry: ''))
    \<or> (gen_done (dv_ctx dv) (k + 1) ''docx'' i (docxFileName (dv_file_clock dv k) i) raw (d\<lparr>action_log := l\<rparr>) = (res, d')
      \<and> (\<exists>rs template parts. renderRegistrySet (dv_date_error dv) d i = Inr rs \<and> dv_template dv = Inr template
           \<and> legacyCreateDocx (dv_lib dv) rs template CategoryA = Inr parts \<and> rs \<noteq> []
           \<and> zipDocs (dl_zip (dv_lib dv)) rs parts = Inr raw))"
proof -
  obtain l where l: "doc_audit (dv_ctx dv) k ''documents.generate.requested'' i [(''type'', JStr ''docx'')] d = d\<lparr>action_log := l\<rparr>"
    by (rule doc_audit_tables)
  from assms show ?thesis unfolding generateDOCXImpl_def Let_def l renderRegistrySet_cong
    by (intro exI [of _ l]) (fastforce split: sum.splits if_splits docx_error.splits)
qed

end
