(* ===== verification/DocumentProps.thy ===== *)
theory DocumentProps
  imports DocumentLaws ProtocolProps
begin

text \<open>
  The properties of the documents: what a run records, what the archive of the protocols holds, the
  page settings, and that what was generated can be downloaded.
\<close>

subsection \<open>A database with a participant, and libraries to run on\<close>

definition sample_participant :: ProtocolParticipant where
  "sample_participant = \<lparr>pp_id = 1, pp_protocol_id = 1, pp_training_record_id = 1, pp_status = ''active'',
     pp_requires_mintrud_test_confirmed_at = None, pp_mintrud_registry_number = None, pp_mintrud_registry_entered_at = None,
     pp_assessment_result = None, pp_created_at = sample_time, pp_updated_at = sample_time\<rparr>"

definition sample_doc_db :: db where
  "sample_doc_db = sample_db\<lparr>protocol_participants := [sample_participant]\<rparr>"

text \<open>An archive format that holds the document only, and one that joins the contents.\<close>

definition one_file_zip :: zip where
  "one_file_zip =
     \<lparr>zp_open = (\<lambda>s. Inr [(documentXML, Inr s)]),
      zp_write = (\<lambda>entries. case entries of [(name, c)] \<Rightarrow> if name = documentXML then Inr c else Inl ''name'' | _ \<Rightarrow> Inl ''entries'')\<rparr>"

definition joining_zip :: zip where
  "joining_zip = \<lparr>zp_open = (\<lambda>s. Inl ''zip: not a valid zip file''), zp_write = (\<lambda>entries. Inr (concat (map snd entries)))\<rparr>"

definition sample_lib :: "(string, unit) docx_lib" where
  "sample_lib =
     \<lparr>dl_OpenBytes = Inr, dl_ReplaceAll = (\<lambda>_. Inr), dl_Write = Inr,
      dl_Parse = (\<lambda>s. Inr ([Table [], OtherItem (), Table [], Table [replicate 8 [Kept ()]]], s)),
      dl_WriteTo = (\<lambda>(items, s). Inr s), dl_long_date = format_iso, dl_zip = joining_zip\<rparr>"

definition sample_docs :: "(string, unit) doc_env" where
  "sample_docs =
     \<lparr>dv_ctx = sample_env, dv_file_clock = (\<lambda>_. ''2026-03-07T10-00-00Z''), dv_date_error = (\<lambda>s. s),
      dv_xml = (\<lambda>_. Inr ''<RegistrySet/>''), dv_lib = sample_lib, dv_template = Inr ''template''\<rparr>"

subsection \<open>Runs\<close>

lemma rendered_status:
  assumes "renderRegistrySet de d i = Inr rs"
  shows "\<exists>p. q_GetProtocolByID d i = Inr p \<and> pr_status p \<notin> {StatusDraft, StatusCancelled}"
  using assms by (auto simp: renderRegistrySet_def split: sum.splits if_splits)

lemma refused_status:
  assumes "q_GetProtocolByID d i = Inr p" "pr_status p \<in> {StatusDraft, StatusCancelled}"
  shows "\<exists>e. renderRegistrySet de d i = Inl e \<and> de_not_fixed e"
  using assms by (auto simp: renderRegistrySet_def)

text \<open>A run fails with the error of the registry, or it is recorded as the outcome says.\<close>

lemma run_generation_recorded:
  assumes "run_generation dv k ty i d = Some (res, d')" "ty \<in> {''xml'', ''docx''}"
  shows "run_recorded ty i d res d'"
    "renderRegistrySet (dv_date_error dv) d i = Inl e \<Longrightarrow> gx_err res = Some (e\<lparr>de_text := ''render registry: '' @ de_text e\<rparr>)"
    "gx_err res = None \<Longrightarrow> \<exists>raw. gx_raw res = Some raw"
proof -
  let ?r = "renderRegistrySet (dv_date_error dv) d i"
  let ?goal = "run_recorded ty i d res d' \<and> (gx_err res = None \<longrightarrow> (\<exists>raw. gx_raw res = Some raw))
    \<and> (\<forall>e. ?r = Inl e \<longrightarrow> gx_err res = Some (e\<lparr>de_text := ''render registry: '' @ de_text e\<rparr>))"
  have failed: ?goal if "gen_fail (dv_ctx dv) (k + 1) ty i pre e (d\<lparr>action_log := l\<rparr>) = (res, d')"
    "\<And>e'. ?r = Inl e' \<Longrightarrow> e = e' \<and> pre = ''render registry: ''" for l pre e
    using gen_fail_recorded [OF that(1) assms(2)] that(2) by auto
  have ended: ?goal if "gen_done (dv_ctx dv) (k + 1) ty i fname raw (d\<lparr>action_log := l\<rparr>) = (res, d')" "?r = Inr rs" for l fname raw rs
    using gen_done_recorded [OF that(1) assms(2)] that(2) by auto
  have ?goal
  proof (cases "ty = ''xml''")
    case True
    with assms(1) have "generateXMLImpl dv k i d = (res, d')" by (simp add: run_generation_def)
    from generateXMLImpl_cases [OF this] obtain l where l: "case ?r of
      Inl e \<Rightarrow> gen_fail (dv_ctx dv) (k + 1) ty i ''render registry: '' e (d\<lparr>action_log := l\<rparr>) = (res, d')
    | Inr rs \<Rightarrow> (case GenerateXML (dv_xml dv) rs of
        Inl t \<Rightarrow> gen_fail (dv_ctx dv) (k + 1) ty i ''legacy generate xml: '' (doc_failure t) (d\<lparr>action_log := l\<rparr>) = (res, d')
      | Inr raw \<Rightarrow> gen_done (dv_ctx dv) (k + 1) ty i (xmlFileName (dv_file_clock dv k) i) raw (d\<lparr>action_log := l\<rparr>) = (res, d'))"
      unfolding True by blast
    show ?thesis
    proof (cases ?r)
      case (Inl e)
      show ?thesis by (rule failed [OF l [unfolded Inl sum.case]]) (use Inl in auto)
    next
      case (Inr rs)
      show ?thesis
      proof (cases "GenerateXML (dv_xml dv) rs")
        case (Inl t)
        show ?thesis by (rule failed [OF l [unfolded \<open>?r = Inr rs\<close> Inl sum.case]]) (use Inr in auto)
      next
        case raw: (Inr raw)
        show ?thesis by (rule ended [OF l [unfolded Inr raw sum.case] Inr])
      qed
    qed
  next
    case False
    with assms have ty: "ty = ''docx''" and run: "generateDOCXImpl dv k i d = Some (res, d')" by (auto simp: run_generation_def)
    from generateDOCXImpl_cases [OF run, folded ty] show ?thesis
      by (elim exE disjE conjE) (rule failed, assumption, blast, erule (1) ended)
  qed
  then show "run_recorded ty i d res d'"
    "?r = Inl e \<Longrightarrow> gx_err res = Some (e\<lparr>de_text := ''render registry: '' @ de_text e\<rparr>)"
    "gx_err res = None \<Longrightarrow> \<exists>raw. gx_raw res = Some raw" by auto
qed

text \<open>
  C31. A run, of either kind, touches nothing but its own table and the log. When the protocol exists
  it leaves exactly one new row, which says whether the run succeeded; when it does not exist there
  is no row. A run succeeds only for a protocol that is neither a draft nor cancelled, and for those
  two it always fails as not fixed.
\<close>

theorem generation_recorded:
  assumes "run_generation dv k ty i d = Some (res, d')" "ty \<in> {''xml'', ''docx''}"
  shows "(if i \<in> row_ids pr_id (protocols d)
      then \<exists>run l. d' = d\<lparr>generation_runs := generation_runs d @ [run], action_log := l\<rparr> \<and> gx_run res = Some run
        \<and> gr_protocol_id run = i \<and> gr_type run = ty \<and> gr_id run = next_rowid gr_id (generation_runs d)
        \<and> gr_status run = (if gx_err res = None then ''success'' else ''failed'')
      else \<exists>l. d' = d\<lparr>action_log := l\<rparr>)
    \<and> (gx_err res = None \<longrightarrow> (\<exists>p raw. q_GetProtocolByID d i = Inr p \<and> pr_status p \<notin> {StatusDraft, StatusCancelled}
         \<and> gx_raw res = Some raw))
    \<and> (\<forall>p. q_GetProtocolByID d i = Inr p \<and> pr_status p \<in> {StatusDraft, StatusCancelled}
         \<longrightarrow> (\<exists>e. gx_err res = Some e \<and> de_not_fixed e))"
proof (intro conjI)
  note rec = run_generation_recorded [OF assms]
  show "if i \<in> row_ids pr_id (protocols d)
      then \<exists>run l. d' = d\<lparr>generation_runs := generation_runs d @ [run], action_log := l\<rparr> \<and> gx_run res = Some run
        \<and> gr_protocol_id run = i \<and> gr_type run = ty \<and> gr_id run = next_rowid gr_id (generation_runs d)
        \<and> gr_status run = (if gx_err res = None then ''success'' else ''failed'')
      else \<exists>l. d' = d\<lparr>action_log := l\<rparr>" using rec(1) by (simp only: run_recorded_def)
  show "gx_err res = None \<longrightarrow> (\<exists>p raw. q_GetProtocolByID d i = Inr p \<and> pr_status p \<notin> {StatusDraft, StatusCancelled}
         \<and> gx_raw res = Some raw)"
    using rec(2,3) rendered_status [of "dv_date_error dv" d i]
    by (cases "renderRegistrySet (dv_date_error dv) d i") auto
  show "\<forall>p. q_GetProtocolByID d i = Inr p \<and> pr_status p \<in> {StatusDraft, StatusCancelled}
         \<longrightarrow> (\<exists>e. gx_err res = Some e \<and> de_not_fixed e)"
  proof (intro allI impI)
    fix p
    assume "q_GetProtocolByID d i = Inr p \<and> pr_status p \<in> {StatusDraft, StatusCancelled}"
    then obtain e where "renderRegistrySet (dv_date_error dv) d i = Inl e" "de_not_fixed e"
      using refused_status by blast
    with rec(2) show "\<exists>e. gx_err res = Some e \<and> de_not_fixed e" by auto
  qed
qed

lemma sample_render: "\<exists>r. renderRegistrySet de sample_doc_db 1 = Inr [r] \<and> program_key r = ''A-1''"
proof -
  have dates: "time_Parse ''2026-03-01'' \<noteq> None" "time_Parse ''2026-03-05'' \<noteq> None" "time_Parse ''2026-03-06'' \<noteq> None"
    by code_simp+
  show ?thesis using dates
    by (auto simp: renderRegistrySet_def render_participant_def parse_date_def parseISODateOrZero_def registry_record_def
        q_GetProtocolByID_def q_GetProgramGroup_def q_ListProtocolParticipants_def q_GetTrainingRecord_def
        q_GetWorkerEmployer_def q_GetWorker_def q_GetEmployer_def q_GetProgram_def sql_get_def sample_doc_db_def
        sample_participant_def sample_defs str_of_def)
qed

theorem generation_recorded_witness:
  "\<exists>res d' run l. run_generation sample_docs 0 ''xml'' 1 sample_doc_db = Some (res, d') \<and> gx_err res = None
     \<and> d' = sample_doc_db\<lparr>generation_runs := [run], action_log := l\<rparr> \<and> gr_status run = ''success''"
proof -
  obtain r where r: "renderRegistrySet (dv_date_error sample_docs) sample_doc_db 1 = Inr [r]" using sample_render by blast
  obtain res d' where run: "generateXMLImpl sample_docs 0 1 sample_doc_db = (res, d')" by fastforce
  then have g: "run_generation sample_docs 0 ''xml'' 1 sample_doc_db = Some (res, d')" by (simp add: run_generation_def)
  have "GenerateXML (dv_xml sample_docs) [r] = Inr ''<RegistrySet/>''" by (simp add: GenerateXML_def sample_docs_def)
  with generateXMLImpl_cases [OF run] r have "gx_err res = None" by (auto dest: gen_done_recorded)
  moreover have "1 \<in> row_ids pr_id (protocols sample_doc_db)" "generation_runs sample_doc_db = []"
    by (simp_all add: sample_doc_db_def sample_defs row_ids_def)
  ultimately show ?thesis using generation_recorded [OF g] g by auto
qed

subsection \<open>The archive of the protocols\<close>

text \<open>
  C32. The archive of a successful DOCX run has one entry for each program among the participants, in
  the order of the program codes; the entry that is named after a code holds the document generated
  from exactly the participants of that program, in their order.
\<close>

theorem docx_archive:
  assumes "generateDOCXImpl dv k i d = Some (res, d')" "gx_err res = None"
  shows "\<exists>rs template entries raw. renderRegistrySet (dv_date_error dv) d i = Inr rs \<and> rs \<noteq> []
    \<and> dv_template dv = Inr template \<and> gx_raw res = Some raw \<and> zp_write (dl_zip (dv_lib dv)) entries = Inr raw
    \<and> list_all2 (\<lambda>code e. (code \<noteq> '''' \<longrightarrow> fst e = ''protocol_'' @ code @ ''.docx'')
         \<and> internalCreateDocx (dv_lib dv) (filter (\<lambda>r. dt_LearnProgramIdAttr (rr_Test r) = code) rs) template CategoryA
             = Inr (snd e))
        (sort (remdups (map (\<lambda>r. dt_LearnProgramIdAttr (rr_Test r)) rs))) entries"
proof -
  from generateDOCXImpl_cases [OF assms(1)] assms(2) obtain l raw rs template parts where
    "gen_done (dv_ctx dv) (k + 1) ''docx'' i (docxFileName (dv_file_clock dv k) i) raw (d\<lparr>action_log := l\<rparr>) = (res, d')"
    "renderRegistrySet (dv_date_error dv) d i = Inr rs" "dv_template dv = Inr template"
    "CreateDocx (dv_lib dv) rs template CategoryA = Inr parts" "rs \<noteq> []"
    "zp_write (dl_zip (dv_lib dv)) (zip_entries (sortedProgramKeys rs) parts) = Inr raw"
    by (auto simp: legacyCreateDocx_def zipDocs_def split: if_splits dest: gen_fail_recorded(2))
  then show ?thesis using CreateDocx_archive [of "dv_lib dv" rs template parts] gen_done_recorded(3)
    by (auto simp: archive_entry_def [abs_def])
qed

lemma sample_table: "fill_items 0 [r] [Table [], OtherItem (), Table [], Table [replicate 8 [Kept ()]]]
  = Some [Table [], OtherItem (), Table [], Table [replicate 8 [Kept ()], participant_row 0 r]]"
  using fill_rows_fresh [of "[replicate 8 [Kept ()]]" 0 "[r]"]
  by (simp add: fill_table_def docxProtocolTableIndex_def numeral_2_eq_2)

lemma sample_document: "internalCreateDocx sample_lib [r] ''template'' CategoryA = Inr ''template''"
  using sample_table [of r]
  by (simp add: internalCreateDocx_def sample_lib_def restoreSectPr_def extractSectPr_def joining_zip_def)

lemma sample_docx_run:
  "\<exists>res d'. generateDOCXImpl sample_docs 0 1 sample_doc_db = Some (res, d') \<and> gx_err res = None"
proof -
  obtain l where l: "doc_audit (dv_ctx sample_docs) 0 ''documents.generate.requested'' 1 [(''type'', JStr ''docx'')] sample_doc_db
      = sample_doc_db\<lparr>action_log := l\<rparr>" by (rule doc_audit_tables)
  obtain r where r: "renderRegistrySet (dv_date_error sample_docs) sample_doc_db 1 = Inr [r]" "program_key r = ''A-1''"
    using sample_render by blast
  have "CreateDocx sample_lib [r] ''template'' CategoryA = Inr [''template'']"
    using sample_document [of r] by (simp add: CreateDocx_def groups_of_def r(2))
  moreover have "zipDocs (dl_zip sample_lib) [r] [''template''] = Inr ''template''"
    by (simp add: zipDocs_def sample_lib_def joining_zip_def zip_entries_def)
  ultimately have "generateDOCXImpl sample_docs 0 1 sample_doc_db = Some (gen_done (dv_ctx sample_docs) 1 ''docx'' 1
      (docxFileName (dv_file_clock sample_docs 0) 1) ''template'' (sample_doc_db\<lparr>action_log := l\<rparr>))"
    unfolding generateDOCXImpl_def Let_def l renderRegistrySet_cong r
    by (simp add: legacyCreateDocx_def sample_docs_def)
  then show ?thesis using gen_done_recorded(2) by (metis insertCI prod.exhaust)
qed

theorem docx_archive_witness:
  "\<exists>res d' rs entries. generateDOCXImpl sample_docs 0 1 sample_doc_db = Some (res, d')
     \<and> renderRegistrySet (dv_date_error sample_docs) sample_doc_db 1 = Inr rs \<and> length entries = 1
     \<and> fst (hd entries) = ''protocol_A-1.docx'' \<and> zp_write (dl_zip (dv_lib sample_docs)) entries = Inr (the (gx_raw res))"
proof -
  obtain res d' where run: "generateDOCXImpl sample_docs 0 1 sample_doc_db = Some (res, d')" "gx_err res = None"
    using sample_docx_run by blast
  obtain r where r: "renderRegistrySet (dv_date_error sample_docs) sample_doc_db 1 = Inr [r]" "program_key r = ''A-1''"
    using sample_render by blast
  from docx_archive [OF run] obtain rs template entries raw where
    "renderRegistrySet (dv_date_error sample_docs) sample_doc_db 1 = Inr rs" "gx_raw res = Some raw"
    and e: "zp_write (dl_zip (dv_lib sample_docs)) entries = Inr raw"
    and all: "list_all2 (\<lambda>code e. (code \<noteq> [] \<longrightarrow> fst e = ''protocol_'' @ code @ ''.docx'')
        \<and> internalCreateDocx (dv_lib sample_docs) (filter (\<lambda>r. program_key r = code) rs) template CategoryA = Inr (snd e))
      (sort (remdups (map program_key rs))) entries" by (elim exE conjE) (rule that)
  then have "rs = [r]" and e: "zp_write (dl_zip (dv_lib sample_docs)) entries = Inr (the (gx_raw res))" using r(1) by simp_all
  from all have "length entries = 1" "fst (hd entries) = ''protocol_A-1.docx''"
    unfolding \<open>rs = [r]\<close> by (auto simp: r(2) list_all2_Cons1)
  with run(1) r(1) e show ?thesis by blast
qed

subsection \<open>Generating and downloading\<close>






text \<open>A file name in a header: printable ASCII without quotes and backslashes.\<close>

definition header_safe :: "string \<Rightarrow> bool" where
  "header_safe name \<longleftrightarrow> (\<forall>c \<in> set name. 32 \<le> byte c \<and> byte c < 127 \<and> c \<noteq> CHR 0x22 \<and> c \<noteq> CHR 0x5C)"


lemma sanitizeFilename_id: "header_safe name \<Longrightarrow> sanitizeFilename name = name"
  unfolding header_safe_def sanitizeFilename_def by (rule map_idI, drule (1) bspec) (simp del: char.inject)





text \<open>A protocol that does not exist is answered with 500, and leaves no row although the run failed.\<close>

lemma Generate_missing:
  assumes "parseInt64Param rawID = Some i" "i \<notin> row_ids pr_id (protocols d)"
  shows "\<exists>rs d'. Generate parse_host dv k rq rawID ''xml'' d = Some (rs, d') \<and> rs_Status rs = 500
    \<and> generation_runs d' = generation_runs d"
proof -
  have "q_GetProtocolByID d i = Inl ErrNoRows"
    unfolding q_GetProtocolByID_def by (rule sql_get_ErrNoRows) (use assms(2) in \<open>auto simp: row_ids_def\<close>)
  then have none: "renderRegistrySet (dv_date_error dv) d i = Inl (doc_failure (error_text ErrNoRows))"
    by (simp add: renderRegistrySet_def)
  obtain res d' where run: "run_generation dv k ''xml'' i d = Some (res, d')"
    by (simp add: run_generation_def) (metis prod.exhaust)
  note rec = run_generation_recorded(1) [OF run] run_generation_recorded(2) [OF run _ none]
  with assms(2) show ?thesis by (auto simp: Generate_def assms(1) run run_recorded_def doc_failure_def http_error_def)
qed

subsection \<open>Dates that are no days\<close>






subsection \<open>The page settings\<close>

text \<open>
  C35. Restoring the page settings of the template does so: when the block of the template ends with
  its closing tag and the generated document has a place for it, reading the patched archive finds
  exactly the block of the template, and every other file of the archive is as it was.
\<close>

theorem restored_page_settings:
  assumes "zip_laws z" "restoreSectPr z generated template = Inr out" "extractSectPr z template = Inr sect"
    and "suffix sect_close sect" "zp_open z generated = Inr files"
    and "find (\<lambda>f. fst f = documentXML) files = Some (documentXML, Inr docXML)" "takes_sectPr docXML"
  shows "extractSectPr z out = Inr sect
    \<and> (\<exists>files'. zp_open z out = Inr files' \<and> map fst files' = map fst files
         \<and> filter (\<lambda>f. fst f \<noteq> documentXML) files' = filter (\<lambda>f. fst f \<noteq> documentXML) files)"
proof -
  from assms(2,3,5) obtain entries where e: "patch_entries sect files = Inr entries" "zp_write z entries = Inr out"
    by (auto simp: restoreSectPr_def split: sum.splits)
  let ?read = "map (\<lambda>(name, c). (name, Inr c)) entries"
  have out: "zp_open z out = Inr ?read" using assms(1) e(2) by (simp add: zip_laws_def)
  have tpl: "\<exists>content. find_sectPr content = Inr sect"
    using assms(3) by (auto simp: extractSectPr_def split: sum.splits option.splits)
  then have "find_sectPr (injectSectPr docXML sect) = Inr sect" using find_injected [OF _ assms(4,7)] by blast
  then have "extractSectPr z out = Inr sect"
    using patch_entries_find [OF e(1)] assms(6) by (simp add: extractSectPr_def out)
  moreover have "map fst ?read = map fst files
    \<and> filter (\<lambda>f. fst f \<noteq> documentXML) ?read = filter (\<lambda>f. fst f \<noteq> documentXML) files"
    using e(1) by (induction sect files arbitrary: entries rule: patch_entries.induct) (auto split: sum.splits if_splits)
  ultimately show ?thesis using out by blast
qed

definition sample_template :: string where
  "sample_template = ''<w:body><w:sectPr><w:pgSz w:orient=L/></w:sectPr></w:body>''"

definition sample_generated :: string where
  "sample_generated = ''<w:body><w:p/><w:sectPr><w:pgSz/></w:sectPr></w:body>''"

theorem restored_page_settings_witness:
  "\<exists>out. restoreSectPr one_file_zip sample_generated sample_template = Inr out
     \<and> extractSectPr one_file_zip out = extractSectPr one_file_zip sample_template
     \<and> out = ''<w:body><w:p/><w:sectPr><w:pgSz w:orient=L/></w:sectPr></w:body>''"
proof -
  have laws: "zip_laws one_file_zip"
    by (auto simp: zip_laws_def one_file_zip_def split: list.splits if_splits)
  have rest: "restoreSectPr one_file_zip sample_generated sample_template
      = Inr ''<w:body><w:p/><w:sectPr><w:pgSz w:orient=L/></w:sectPr></w:body>''"
    and sect: "extractSectPr one_file_zip sample_template = Inr ''<w:sectPr><w:pgSz w:orient=L/></w:sectPr>''"
    and takes: "takes_sectPr sample_generated" by code_simp+
  have "suffix sect_close ''<w:sectPr><w:pgSz w:orient=L/></w:sectPr>''" by (simp add: suffix_def sect_close_def)
  moreover have "zp_open one_file_zip sample_generated = Inr [(documentXML, Inr sample_generated)]" by (simp add: one_file_zip_def)
  ultimately show ?thesis using restored_page_settings [OF laws rest sect _ _ _ takes] rest sect by simp
qed


end
