(* ===== verification/SqliteFile.thy ===== *)
theory SqliteFile
  imports GoURL
begin

text \<open>
  A SQLite file as the storage package looks at it (\<^verbatim>\<open>storage/identity.go\<close>, \<^verbatim>\<open>storage/checks.go\<close>, the bootstrap
  inspection of \<^verbatim>\<open>storage/initializer.go\<close>): its application id, the objects of its schema, the table of
  the migration tool, and the rest as an opaque content.

  Every access to the file may fail; \<open>io op = Some e\<close> is the failure of an operation. An error is the
  list of what it wraps or joins, as far as \<open>errors.Is\<close> is asked; the empty list is no error.
\<close>

datatype st_kind = ErrUnrecognizedDatabase | ErrSchemaNotReady | ErrSchemaTooNew | ErrDatabaseInUse | Failed string

type_synonym st_error = "st_kind list"

type_synonym io = "string \<Rightarrow> string option"

record gooseColumn =
  gc_cid :: int
  gc_name :: string
  gc_typeName :: string
  gc_notNull :: int
  gc_defaultSQL :: "string option"
  gc_primaryKey :: int
  gc_hidden :: int

text \<open>A row of \<open>goose_db_version\<close>: its two numbers, \<open>None\<close> when they do not scan into an integer, and their types.\<close>

record goose_row =
  gv_version :: "int option"
  gv_applied :: "int option"
  gv_versionType :: string
  gv_appliedType :: string

record 'c sqlite =
  sq_application_id :: int
  sq_schema :: "(string \<times> string) list"
  sq_columns :: "gooseColumn list"
  sq_versions :: "goose_row list"
  sq_content :: 'c

record DatabaseIdentity =
  id_Fresh :: bool
  id_ApplicationID :: int
  id_UserObjects :: nat
  id_ApplicationTables :: nat
  id_HasMigrationHistory :: bool

record MigrationInfo =
  mi_Version :: int
  mi_Name :: string

record MigrationStatus =
  ms_Current :: int
  ms_Target :: int
  ms_Pending :: "MigrationInfo list"

subsection \<open>Identity\<close>

definition SQLiteApplicationID :: int where
  "SQLiteApplicationID = 0x494B4341"

definition goose_table :: string where
  "goose_table = ''goose_db_version''"

text \<open>The counts over \<open>sqlite_schema\<close>, which both inspections take.\<close>

definition user_object :: "string \<times> string \<Rightarrow> bool" where
  "user_object x = (take 7 (snd x) \<noteq> ''sqlite_'')"

definition application_table :: "string \<times> string \<Rightarrow> bool" where
  "application_table x = (fst x = ''table'' \<and> user_object x \<and> snd x \<noteq> goose_table)"

definition history_tables :: "'c sqlite \<Rightarrow> nat" where
  "history_tables d = length (filter (\<lambda>x. fst x = ''table'' \<and> snd x = goose_table) (sq_schema d))"

definition zero_identity :: DatabaseIdentity where
  "zero_identity = \<lparr>id_Fresh = False, id_ApplicationID = 0, id_UserObjects = 0, id_ApplicationTables = 0,
     id_HasMigrationHistory = False\<rparr>"

definition InspectDatabaseIdentity :: "io \<Rightarrow> 'c sqlite \<Rightarrow> DatabaseIdentity \<times> st_error" where
  "InspectDatabaseIdentity io d =
     (case io ''identity'' of
        Some e \<Rightarrow> (zero_identity, [Failed e])
      | None \<Rightarrow>
          let objects = length (filter user_object (sq_schema d));
              identity = \<lparr>id_Fresh = (sq_application_id d = 0 \<and> objects = 0), id_ApplicationID = sq_application_id d,
                id_UserObjects = objects, id_ApplicationTables = length (filter application_table (sq_schema d)),
                id_HasMigrationHistory = (history_tables d > 0)\<rparr>
          in if id_Fresh identity then (identity, [])
             else if id_ApplicationID identity \<noteq> SQLiteApplicationID then (identity, [ErrUnrecognizedDatabase])
             else if id_ApplicationTables identity = 0 \<or> \<not> id_HasMigrationHistory identity
             then (identity, [ErrSchemaNotReady])
             else (identity, []))"

definition RequireCurrentSchema :: "DatabaseIdentity \<Rightarrow> MigrationStatus \<Rightarrow> st_error" where
  "RequireCurrentSchema identity status =
     (if id_Fresh identity \<or> id_ApplicationID identity \<noteq> SQLiteApplicationID \<or> id_ApplicationTables identity = 0
         \<or> \<not> id_HasMigrationHistory identity
      then [ErrSchemaNotReady]
      else if ms_Current status > ms_Target status then [ErrSchemaTooNew]
      else if ms_Current status \<noteq> ms_Target status \<or> ms_Pending status \<noteq> [] then [ErrSchemaNotReady]
      else [])"

subsection \<open>The bootstrap shell\<close>

text \<open>What a first migration that failed leaves: the table of the migration tool with its row for version zero.\<close>

definition goose_column :: "int \<Rightarrow> string \<Rightarrow> string \<Rightarrow> int \<Rightarrow> string option \<Rightarrow> int \<Rightarrow> gooseColumn" where
  "goose_column cid name ty nn dflt pk =
     \<lparr>gc_cid = cid, gc_name = name, gc_typeName = ty, gc_notNull = nn, gc_defaultSQL = dflt, gc_primaryKey = pk, gc_hidden = 0\<rparr>"

definition expectedColumns :: "gooseColumn list" where
  "expectedColumns =
     [goose_column 0 ''id'' ''INTEGER'' 0 None 1, goose_column 1 ''version_id'' ''INTEGER'' 1 None 0,
      goose_column 2 ''is_applied'' ''INTEGER'' 1 None 0,
      goose_column 3 ''tstamp'' ''TIMESTAMP'' 0 (Some (''datetime('' @ [CHR 0x27] @ ''now'' @ [CHR 0x27] @ '')'')) 0]"

text \<open>The loop over the rows: \<open>Inl\<close> is an error or an early answer, \<open>Inr\<close> the number of rows.\<close>

fun bootstrap_rows :: "goose_row list \<Rightarrow> (bool \<times> st_error, nat) result" where
  "bootstrap_rows [] = Inr 0"
| "bootstrap_rows (r # rs) =
     (if gv_version r = None \<or> gv_applied r = None then Inl (False, [Failed ''scan failed Goose bootstrap row''])
      else if gv_version r \<noteq> Some 0 \<or> gv_applied r \<noteq> Some 1 \<or> gv_versionType r \<noteq> ''integer'' \<or> gv_appliedType r \<noteq> ''integer''
      then Inl (False, [])
      else case bootstrap_rows rs of Inl x \<Rightarrow> Inl x | Inr n \<Rightarrow> Inr (n + 1))"

definition inspectRetryableGooseBootstrap :: "io \<Rightarrow> 'c sqlite \<Rightarrow> bool \<times> st_error" where
  "inspectRetryableGooseBootstrap io d =
     (case io ''bootstrap counts'' of
        Some e \<Rightarrow> (False, [Failed e])
      | None \<Rightarrow>
          if sq_application_id d \<noteq> 0 \<or> length (filter user_object (sq_schema d)) \<noteq> 1
             \<or> length (filter application_table (sq_schema d)) \<noteq> 0 \<or> history_tables d \<noteq> 1
          then (False, [])
          else case io ''bootstrap columns'' of
            Some e \<Rightarrow> (False, [Failed e])
          | None \<Rightarrow>
              if sq_columns d \<noteq> expectedColumns then (False, [])
              else case io ''bootstrap rows'' of
                Some e \<Rightarrow> (False, [Failed e])
              | None \<Rightarrow>
                  (case bootstrap_rows (sq_versions d) of
                     Inl res \<Rightarrow> res
                   | Inr rowCount \<Rightarrow>
                       if rowCount \<noteq> 1 then (False, [])
                       else case io ''bootstrap commit'' of Some e \<Rightarrow> (False, [Failed e]) | None \<Rightarrow> (True, [])))"

subsection \<open>Checks\<close>

text \<open>The rows of the integrity pragmas and whether a foreign key is violated are up to SQLite.\<close>

record 'c checks =
  ck_quick :: "'c sqlite \<Rightarrow> string list"
  ck_integrity :: "'c sqlite \<Rightarrow> string list"
  ck_violation :: "'c sqlite \<Rightarrow> bool"

fun checkIntegrityRows :: "string list \<Rightarrow> st_error" where
  "checkIntegrityRows [] = []"
| "checkIntegrityRows (r # rs) = (if r \<noteq> ''ok'' then [Failed r] else checkIntegrityRows rs)"

definition QuickCheck :: "'c checks \<Rightarrow> io \<Rightarrow> 'c sqlite \<Rightarrow> st_error" where
  "QuickCheck ck io d = (case io ''quick_check'' of Some e \<Rightarrow> [Failed e] | None \<Rightarrow> checkIntegrityRows (ck_quick ck d))"

definition IntegrityCheck :: "'c checks \<Rightarrow> io \<Rightarrow> 'c sqlite \<Rightarrow> st_error" where
  "IntegrityCheck ck io d =
     (case io ''integrity_check'' of Some e \<Rightarrow> [Failed e] | None \<Rightarrow> checkIntegrityRows (ck_integrity ck d))"

definition ForeignKeyCheck :: "'c checks \<Rightarrow> io \<Rightarrow> 'c sqlite \<Rightarrow> st_error" where
  "ForeignKeyCheck ck io d =
     (case io ''foreign_key_check'' of
        Some e \<Rightarrow> [Failed e]
      | None \<Rightarrow> if ck_violation ck d then [Failed ''SQLite foreign key violation''] else [])"

text \<open>
  The version the migration tool last applied. The column is not null; a text or a blob sorts above every number,
  so that a version which does not scan is the maximum and fails.
\<close>

definition readGooseSchemaVersion :: "io \<Rightarrow> 'c sqlite \<Rightarrow> (st_error, int) result" where
  "readGooseSchemaVersion io d =
     (case io ''goose version'' of
        Some e \<Rightarrow> Inl [Failed e]
      | None \<Rightarrow>
          if history_tables d = 0 then Inl [Failed ''no such table: goose_db_version'']
          else let versions = map gv_version (filter (\<lambda>r. gv_applied r = Some 1) (sq_versions d)) in
            if None \<in> set versions then Inl [Failed ''query current Goose schema version'']
            else if versions = [] then Inr 0
            else Inr (Max (set (map the versions))))"

end
