(* ===== verification/Backup.thy ===== *)
theory Backup
  imports SqliteFile GoConv "HOL-Library.Sublist" "HOL-Library.Char_ord" "HOL-Library.List_Lexorder" "HOL-Library.Product_Lexorder"
begin

text \<open>
  Verified snapshots of the database (\<^verbatim>\<open>storage/backup.go\<close>): their names, the directory they are kept in,
  taking one, and pruning the automatic ones.

  The directory is the list of its entries by name. \<open>VACUUM INTO\<close> makes a copy of the open database.
\<close>

datatype 'c node = Snapshot "'c sqlite" | EmptyFile | NotRegular

type_synonym 'c backup_dir = "(string \<times> 'c node) list"

record BackupManager =
  bm_dbPath :: string
  bm_backupDir :: string
  bm_retention :: int

record ownedBackup =
  ob_name :: string
  ob_kind :: string
  ob_timestamp :: string
  ob_sequence :: nat
  ob_schemaVersion :: int

definition defaultBackupRetention :: int where
  "defaultBackupRetention = 3"

definition automaticBackupKind :: string where
  "automaticBackupKind = ''pre-migration''"

definition manualBackupKind :: string where
  "manualBackupKind = ''manual''"

definition filepath_Dir :: "string \<Rightarrow> string" where
  "filepath_Dir p = path_Clean (dir_of p)"

text \<open>\<open>filepath.Abs\<close> may fail; \<open>sha256\<close> gives the digest, of which six bytes go into the name.\<close>

definition NewBackupManager :: "(string \<Rightarrow> string option) \<Rightarrow> (string \<Rightarrow> string) \<Rightarrow> string \<Rightarrow> BackupManager" where
  "NewBackupManager make_abs sha256 dbPath =
     (let cleanPath = path_Clean dbPath;
          cleanPath = (case make_abs cleanPath of None \<Rightarrow> cleanPath | Some a \<Rightarrow> path_Clean a);
          directoryName = filepath_Base cleanPath @ ''-'' @ EncodeToString (take 6 (sha256 cleanPath))
      in \<lparr>bm_dbPath = cleanPath,
          bm_backupDir = path_Clean (filepath_Dir cleanPath @ ''/backups/'' @ directoryName),
          bm_retention = defaultBackupRetention\<rparr>)"

subsection \<open>Names\<close>

definition max_sequence :: nat where
  "max_sequence = 2 ^ 64 - 1"

definition backupFilename :: "BackupManager \<Rightarrow> string \<Rightarrow> string \<Rightarrow> nat \<Rightarrow> int \<Rightarrow> string" where
  "backupFilename m kind timestamp sequence schemaVersion =
     filepath_Base (bm_dbPath m) @ ''.'' @ kind @ ''.'' @ timestamp @ ''.s'' @ show_padded 6 (int sequence)
       @ ''.v'' @ show_padded 6 schemaVersion @ ''.db''"

definition strip_prefix :: "string \<Rightarrow> string \<Rightarrow> string option" where
  "strip_prefix p s = (if prefix p s then Some (drop (length p) s) else None)"

text \<open>
  A timestamp in the layout \<^verbatim>\<open>20060102T150405.000000000Z\<close>: its shape, and the checks of \<open>time.Parse\<close>. What
  parses is printed back as it was.
\<close>

definition timestamp_shape :: "string \<Rightarrow> bool" where
  "timestamp_shape s \<longleftrightarrow>
     length s = 26 \<and> list_all is_ascii_digit (take 8 s) \<and> s ! 8 = CHR ''T'' \<and> list_all is_ascii_digit (take 6 (drop 9 s))
     \<and> s ! 15 = CHR ''.'' \<and> list_all is_ascii_digit (take 9 (drop 16 s)) \<and> s ! 25 = CHR ''Z''"

definition timestamp_valid :: "string \<Rightarrow> bool" where
  "timestamp_valid s \<longleftrightarrow>
     (let num = (\<lambda>i n. int (digits_val (take n (drop i s)))) in
      1 \<le> num 4 2 \<and> num 4 2 \<le> 12 \<and> 1 \<le> num 6 2 \<and> num 6 2 \<le> days_in (num 0 4) (num 4 2)
      \<and> num 9 2 < 24 \<and> num 11 2 < 60 \<and> num 13 2 < 60)"

text \<open>A run of at least six digits and what follows it.\<close>

definition six_digits :: "string \<Rightarrow> (string \<times> string) option" where
  "six_digits s =
     (let ds = takeWhile is_ascii_digit s in if length ds < 6 then None else Some (ds, dropWhile is_ascii_digit s))"

text \<open>The match of the pattern, group by group.\<close>

definition match_tail :: "string \<Rightarrow> (string \<times> string \<times> string) option" where
  "match_tail s =
     (let ts = take 26 s in
      if \<not> timestamp_shape ts then None
      else case strip_prefix ''.s'' (drop 26 s) of
        None \<Rightarrow> None
      | Some s \<Rightarrow>
          (case six_digits s of
             None \<Rightarrow> None
           | Some (sq, s) \<Rightarrow>
               (case strip_prefix ''.v'' s of
                  None \<Rightarrow> None
                | Some s \<Rightarrow>
                    (case six_digits s of
                       None \<Rightarrow> None
                     | Some (ver, s) \<Rightarrow> if s = ''.db'' then Some (ts, sq, ver) else None))))"

definition match_name :: "BackupManager \<Rightarrow> string \<Rightarrow> (string \<times> string \<times> string \<times> string) option" where
  "match_name m name =
     (case strip_prefix (filepath_Base (bm_dbPath m) @ ''.'') name of
        None \<Rightarrow> None
      | Some s \<Rightarrow>
          (case strip_prefix (automaticBackupKind @ ''.'') s of
             Some s \<Rightarrow> map_option (Pair automaticBackupKind) (match_tail s)
           | None \<Rightarrow>
               (case strip_prefix (manualBackupKind @ ''.'') s of
                  Some s \<Rightarrow> map_option (Pair manualBackupKind) (match_tail s)
                | None \<Rightarrow> None)))"

definition parseOwnedBackup :: "BackupManager \<Rightarrow> string \<Rightarrow> ownedBackup option" where
  "parseOwnedBackup m name =
     (case match_name m name of
        None \<Rightarrow> None
      | Some (kind, timestamp, sequence, version) \<Rightarrow>
          if \<not> timestamp_valid timestamp then None
          else if digits_val sequence > max_sequence \<or> digits_val sequence = 0 then None
          else if int (digits_val version) > int64_max then None
          else Some \<lparr>ob_name = name, ob_kind = kind, ob_timestamp = timestamp, ob_sequence = digits_val sequence,
                     ob_schemaVersion = int (digits_val version)\<rparr>)"

subsection \<open>Taking a snapshot\<close>

text \<open>\<open>os.ReadDir\<close> gives the entries sorted by name.\<close>

definition owned_entry :: "BackupManager \<Rightarrow> string \<times> 'c node \<Rightarrow> ownedBackup option" where
  "owned_entry m x = (if snd x = NotRegular then None else parseOwnedBackup m (fst x))"

definition ownedBackups :: "BackupManager \<Rightarrow> 'c backup_dir \<Rightarrow> ownedBackup list" where
  "ownedBackups m dir = List.map_filter (owned_entry m) (sort_key fst dir)"

definition maximumSequence :: "ownedBackup list \<Rightarrow> nat" where
  "maximumSequence backups = fold (\<lambda>b mx. if ob_sequence b > mx then ob_sequence b else mx) backups 0"

definition remove_entry :: "io \<Rightarrow> string \<Rightarrow> 'c backup_dir \<Rightarrow> st_error \<times> 'c backup_dir" where
  "remove_entry io name dir =
     (case io (''remove '' @ name) of
        Some e \<Rightarrow> ([Failed e], dir)
      | None \<Rightarrow> ([], filter (\<lambda>x. fst x \<noteq> name) dir))"

text \<open>\<open>backupReservation.cleanup\<close>: the error of the operation, joined with that of the removal.\<close>

definition cleanup :: "io \<Rightarrow> string \<Rightarrow> st_error \<Rightarrow> 'c backup_dir \<Rightarrow> st_error \<times> 'c backup_dir" where
  "cleanup io name operationErr dir = (let (e, dir) = remove_entry io name dir in (operationErr @ e, dir))"

text \<open>The first free name from a sequence number on; an existing file is never opened.\<close>

function reserve_loop :: "BackupManager \<Rightarrow> io \<Rightarrow> string \<Rightarrow> string \<Rightarrow> int \<Rightarrow> 'c backup_dir \<Rightarrow> nat \<Rightarrow> (st_error, string) result" where
  "reserve_loop m io kind timestamp schemaVersion dir sequence =
     (let name = backupFilename m kind timestamp sequence schemaVersion in
      if name \<in> fst ` set dir
      then if sequence \<ge> max_sequence then Inl [Failed ''SQLite backup sequence is exhausted'']
           else reserve_loop m io kind timestamp schemaVersion dir (sequence + 1)
      else case io ''reserve backup'' of Some e \<Rightarrow> Inl [Failed e] | None \<Rightarrow> Inr name)"
  by pat_completeness auto
termination
  by (relation "measure (\<lambda>(m, io, kind, ts, v, dir, sequence). max_sequence - sequence)") auto

declare reserve_loop.simps [simp del]

definition reserveBackup ::
  "BackupManager \<Rightarrow> io \<Rightarrow> string \<Rightarrow> string \<Rightarrow> int \<Rightarrow> 'c backup_dir \<Rightarrow> (st_error, string) result \<times> 'c backup_dir" where
  "reserveBackup m io kind timestamp schemaVersion dir =
     (case io ''read backup directory'' of
        Some e \<Rightarrow> (Inl [Failed e], dir)
      | None \<Rightarrow>
          let mx = maximumSequence (ownedBackups m dir) in
          if mx = max_sequence then (Inl [Failed ''SQLite backup sequence is exhausted''], dir)
          else case reserve_loop m io kind timestamp schemaVersion dir (mx + 1) of
            Inl e \<Rightarrow> (Inl e, dir)
          | Inr name \<Rightarrow>
              let dir = dir @ [(name, EmptyFile)] in
              (case io ''close reserved backup'' of
                 Some e \<Rightarrow> (let (err, dir) = cleanup io name [Failed e] dir in (Inl err, dir))
               | None \<Rightarrow> (Inr name, dir)))"

definition validateSource :: "io \<Rightarrow> st_error \<Rightarrow> 'c sqlite \<Rightarrow> int \<Rightarrow> st_error" where
  "validateSource io pathErr d schemaVersion =
     (if schemaVersion < 0 then [Failed ''backup schema version must be non-negative'']
      else if pathErr \<noteq> [] then pathErr
      else if snd (InspectDatabaseIdentity io d) \<noteq> [] then snd (InspectDatabaseIdentity io d)
      else case readGooseSchemaVersion io d of
        Inl e \<Rightarrow> e
      | Inr currentVersion \<Rightarrow>
          if currentVersion \<noteq> schemaVersion then [Failed ''backup schema version differs from current Goose version''] else [])"

text \<open>The failures of the operations on the snapshot, which are those on the source under another name.\<close>

definition snapshot_io :: "io \<Rightarrow> io" where
  "snapshot_io io = (\<lambda>operation. io (''snapshot '' @ operation))"

definition verifyDatabaseFile :: "'c checks \<Rightarrow> io \<Rightarrow> 'c node option \<Rightarrow> int \<Rightarrow> st_error" where
  "verifyDatabaseFile ck io file expectedVersion =
     (case io ''open database file'' of
        Some e \<Rightarrow> [Failed e]
      | None \<Rightarrow>
          (case file of
             Some (Snapshot d) \<Rightarrow>
               (if QuickCheck ck io d \<noteq> [] then QuickCheck ck io d
                else if snd (InspectDatabaseIdentity io d) \<noteq> [] then snd (InspectDatabaseIdentity io d)
                else case readGooseSchemaVersion io d of
                  Inl e \<Rightarrow> e
                | Inr version \<Rightarrow> if version \<noteq> expectedVersion then [Failed ''database file Goose version differs''] else [])
               @ (case io ''close database file'' of Some e \<Rightarrow> [Failed e] | None \<Rightarrow> [])
           | _ \<Rightarrow> [Failed ''open database file'']))"

subsection \<open>Pruning\<close>

fun prune_loop :: "io \<Rightarrow> string \<Rightarrow> int \<Rightarrow> ownedBackup list \<Rightarrow> 'c backup_dir \<Rightarrow> st_error \<times> 'c backup_dir" where
  "prune_loop io current removeCount [] dir = ([], dir)"
| "prune_loop io current removeCount (b # bs) dir =
     (if removeCount \<le> 0 then ([], dir)
      else if ob_name b = current then prune_loop io current removeCount bs dir
      else case remove_entry io (ob_name b) dir of
        (e, dir) \<Rightarrow> if e \<noteq> [] then (e, dir) else prune_loop io current (removeCount - 1) bs dir)"

definition automatic_backups :: "BackupManager \<Rightarrow> 'c backup_dir \<Rightarrow> ownedBackup list" where
  "automatic_backups m dir =
     sort_key (\<lambda>b. (ob_sequence b, ob_name b)) (filter (\<lambda>b. ob_kind b = automaticBackupKind) (ownedBackups m dir))"

definition pruneAutomatic :: "BackupManager \<Rightarrow> io \<Rightarrow> string \<Rightarrow> 'c backup_dir \<Rightarrow> st_error \<times> 'c backup_dir" where
  "pruneAutomatic m io current dir =
     (case io ''read backup directory again'' of
        Some e \<Rightarrow> ([Failed e], dir)
      | None \<Rightarrow>
          let automatic = automatic_backups m dir
          in prune_loop io current (int (length automatic) - bm_retention m) automatic dir)"

text \<open>
  \<open>create\<close>: the name of a verified snapshot, empty when there is none, with the error. \<open>VACUUM INTO\<close>
  writes into the reserved file.
\<close>

definition create ::
  "BackupManager \<Rightarrow> 'c checks \<Rightarrow> io \<Rightarrow> st_error \<Rightarrow> string \<Rightarrow> string \<Rightarrow> bool \<Rightarrow> 'c sqlite \<Rightarrow> int \<Rightarrow> 'c backup_dir
   \<Rightarrow> string \<times> st_error \<times> 'c backup_dir" where
  "create m ck io pathErr now kind prune d schemaVersion dir =
     (if validateSource io pathErr d schemaVersion \<noteq> [] then ('''', validateSource io pathErr d schemaVersion, dir)
      else case io ''prepare backup directory'' of
        Some e \<Rightarrow> ('''', [Failed e], dir)
      | None \<Rightarrow>
          (case reserveBackup m io kind now schemaVersion dir of
             (Inl e, dir) \<Rightarrow> ('''', e, dir)
           | (Inr name, dir) \<Rightarrow>
               (case io ''vacuum into'' of
                  Some e \<Rightarrow> (let (err, dir) = cleanup io name [Failed e] dir in ('''', err, dir))
                | None \<Rightarrow>
                    let dir = map (\<lambda>x. if fst x = name then (name, Snapshot d) else x) dir in
                    (case io ''chmod backup'' of
                       Some e \<Rightarrow> (let (err, dir) = cleanup io name [Failed e] dir in ('''', err, dir))
                     | None \<Rightarrow>
                         let verr = verifyDatabaseFile ck (snapshot_io io) (map_of dir name) schemaVersion in
                         if verr \<noteq> [] then (let (err, dir) = cleanup io name verr dir in ('''', err, dir))
                         else if prune then (let (err, dir) = pruneAutomatic m io name dir in (name, err, dir))
                         else (name, [], dir)))))"

definition Create ::
  "BackupManager \<Rightarrow> 'c checks \<Rightarrow> io \<Rightarrow> st_error \<Rightarrow> string \<Rightarrow> 'c sqlite \<Rightarrow> int \<Rightarrow> 'c backup_dir \<Rightarrow> string \<times> st_error \<times> 'c backup_dir" where
  "Create m ck io pathErr now d schemaVersion dir = create m ck io pathErr now automaticBackupKind True d schemaVersion dir"

definition CreateManual ::
  "BackupManager \<Rightarrow> 'c checks \<Rightarrow> io \<Rightarrow> st_error \<Rightarrow> string \<Rightarrow> 'c sqlite \<Rightarrow> int \<Rightarrow> 'c backup_dir \<Rightarrow> string \<times> st_error \<times> 'c backup_dir" where
  "CreateManual m ck io pathErr now d schemaVersion dir = create m ck io pathErr now manualBackupKind False d schemaVersion dir"

end
