(* ===== verification/Preparation.thy ===== *)
theory Preparation
  imports Backup
begin

text \<open>
  Bringing a database to the schema of the program (\<^verbatim>\<open>storage/migrator.go\<close>, \<open>Initializer\<close> of
  \<^verbatim>\<open>storage/initializer.go\<close>, the maintenance access of \<^verbatim>\<open>storage/existing.go\<close>).

  The migration provider (goose) is a parameter: its sources, the versions and the status it reports, which
  may create its table, and applying migrations. An operation may fail in each of its three phases, before the
  migration, after it, and when the result is refreshed: \<open>io p\<close> are the failures of phase \<open>p\<close>.
\<close>

record goose_source =
  gs_Version :: int
  gs_Path :: string

record goose_result =
  gr_Source :: goose_source
  gr_Duration :: int

datatype goose_up_error = PartialError "goose_result list" goose_result string | OtherUpError string

record 'c provider =
  pv_sources :: "goose_source list"
  pv_versions :: "'c sqlite \<Rightarrow> (string, int \<times> int) result \<times> 'c sqlite"
  pv_status :: "'c sqlite \<Rightarrow> (string, (goose_source \<times> bool) list) result \<times> 'c sqlite"
  pv_up :: "'c sqlite \<Rightarrow> (goose_result list \<times> goose_up_error option) \<times> 'c sqlite"

record AppliedMigration =
  am_Info :: MigrationInfo
  am_Duration :: int

record MigrationResult =
  mr_From :: int
  mr_To :: int
  mr_Applied :: "AppliedMigration list"

record MigrationFailure =
  mf_From :: int
  mf_Target :: int
  mf_To :: int
  mf_Applied :: "AppliedMigration list"
  mf_Failed :: AppliedMigration
  mf_Err :: string

datatype up_failure = UpRefused st_error | UpFailed st_error | UpPartial MigrationFailure

subsection \<open>The migrator\<close>

definition zero_status :: MigrationStatus where
  "zero_status = \<lparr>ms_Current = 0, ms_Target = 0, ms_Pending = []\<rparr>"

definition migrationInfo :: "goose_source \<Rightarrow> MigrationInfo" where
  "migrationInfo s = \<lparr>mi_Version = gs_Version s, mi_Name = filepath_Base (gs_Path s)\<rparr>"

definition appliedMigration :: "goose_result \<Rightarrow> AppliedMigration" where
  "appliedMigration r = \<lparr>am_Info = migrationInfo (gr_Source r), am_Duration = gr_Duration r\<rparr>"

definition appliedMigrations :: "goose_result list \<Rightarrow> AppliedMigration list" where
  "appliedMigrations results = map appliedMigration results"

definition migrationResult :: "int \<Rightarrow> AppliedMigration list \<Rightarrow> MigrationResult" where
  "migrationResult from applied =
     \<lparr>mr_From = from,
      mr_To = fold (\<lambda>m to. if mi_Version (am_Info m) > to then mi_Version (am_Info m) else to) applied from,
      mr_Applied = applied\<rparr>"

definition Catalog :: "'c provider \<Rightarrow> MigrationStatus" where
  "Catalog m =
     \<lparr>ms_Current = 0, ms_Target = (if pv_sources m = [] then 0 else gs_Version (last (pv_sources m))),
      ms_Pending = map migrationInfo (pv_sources m)\<rparr>"

definition Status :: "'c provider \<Rightarrow> 'c sqlite \<Rightarrow> (MigrationStatus \<times> st_error) \<times> 'c sqlite" where
  "Status m d =
     (case pv_versions m d of
        (Inl e, d) \<Rightarrow> ((zero_status, [Failed e]), d)
      | (Inr (current, target), d) \<Rightarrow>
          if current > target then ((\<lparr>ms_Current = current, ms_Target = target, ms_Pending = []\<rparr>, []), d)
          else case pv_status m d of
            (Inl e, d) \<Rightarrow> ((zero_status, [Failed e]), d)
          | (Inr migrations, d) \<Rightarrow>
              ((\<lparr>ms_Current = current, ms_Target = target,
                 ms_Pending = map (\<lambda>x. migrationInfo (fst x)) (filter snd migrations)\<rparr>, []), d))"

definition Up :: "'c provider \<Rightarrow> 'c sqlite \<Rightarrow> (MigrationResult \<times> up_failure option) \<times> 'c sqlite" where
  "Up m d =
     (case Status m d of
        ((status, err), d) \<Rightarrow>
          if err \<noteq> [] then ((\<lparr>mr_From = 0, mr_To = 0, mr_Applied = []\<rparr>, Some (UpFailed err)), d)
          else if ms_Current status > ms_Target status
          then ((\<lparr>mr_From = ms_Current status, mr_To = ms_Current status, mr_Applied = []\<rparr>, Some (UpRefused [ErrSchemaTooNew])), d)
          else case pv_up m d of
            ((results, None), d) \<Rightarrow> ((migrationResult (ms_Current status) (appliedMigrations results), None), d)
          | ((results, Some (OtherUpError e)), d) \<Rightarrow>
              ((migrationResult (ms_Current status) (appliedMigrations results), Some (UpFailed [Failed e])), d)
          | ((results, Some (PartialError applied failed e)), d) \<Rightarrow>
              let result = migrationResult (ms_Current status) (appliedMigrations applied) in
              ((result,
                Some (UpPartial \<lparr>mf_From = ms_Current status, mf_Target = ms_Target status, mf_To = mr_To result,
                  mf_Applied = appliedMigrations applied, mf_Failed = appliedMigration failed, mf_Err = e\<rparr>)), d))"

text \<open>What \<open>errors.Is\<close> sees of a failure.\<close>

fun unwrap_failure :: "up_failure \<Rightarrow> st_error" where
  "unwrap_failure (UpRefused e) = e"
| "unwrap_failure (UpFailed e) = e"
| "unwrap_failure (UpPartial f) = [Failed (mf_Err f)]"

subsection \<open>Inspecting\<close>

record preparationInspection =
  pi_identity :: DatabaseIdentity
  pi_status :: MigrationStatus
  pi_retryableBootstrap :: bool

fun pendings_equal :: "MigrationInfo list \<Rightarrow> MigrationInfo list \<Rightarrow> bool" where
  "pendings_equal (p # ps) (q # qs) = (if p \<noteq> q then False else pendings_equal ps qs)"
| "pendings_equal ps qs = True"

definition bootstrapStatusMatchesCatalog :: "MigrationStatus \<Rightarrow> MigrationStatus \<Rightarrow> bool" where
  "bootstrapStatusMatchesCatalog status catalog =
     (if ms_Current status \<noteq> 0 \<or> ms_Target status \<noteq> ms_Target catalog
         \<or> length (ms_Pending status) \<noteq> length (ms_Pending catalog) then False
      else pendings_equal (ms_Pending status) (ms_Pending catalog))"

definition preparationStatus ::
  "'c provider \<Rightarrow> DatabaseIdentity \<Rightarrow> bool \<Rightarrow> 'c sqlite \<Rightarrow> (MigrationStatus \<times> st_error) \<times> 'c sqlite" where
  "preparationStatus m identity retryableBootstrap d =
     (if id_Fresh identity then ((Catalog m, []), d)
      else case Status m d of
        ((status, err), d) \<Rightarrow>
          if err \<noteq> [] then ((zero_status, err), d)
          else if retryableBootstrap
          then if \<not> bootstrapStatusMatchesCatalog status (Catalog m) then ((zero_status, [ErrSchemaNotReady]), d)
               else ((Catalog m, []), d)
          else ((status, []), d))"

definition inspectPreparation ::
  "'c provider \<Rightarrow> io \<Rightarrow> 'c sqlite \<Rightarrow> (preparationInspection \<times> st_error) \<times> 'c sqlite" where
  "inspectPreparation m io d =
     (let (identity, identityErr) = InspectDatabaseIdentity io d;
          (retryable, bootstrapErr) = (if ErrUnrecognizedDatabase \<in> set identityErr then inspectRetryableGooseBootstrap io d else (False, []));
          inspection = \<lparr>pi_identity = identity, pi_status = zero_status, pi_retryableBootstrap = retryable\<rparr>
      in if bootstrapErr \<noteq> [] then ((inspection, identityErr @ bootstrapErr), d)
         else if identityErr \<noteq> [] \<and> \<not> retryable then ((inspection, identityErr), d)
         else case preparationStatus m identity retryable d of
           ((status, err), d) \<Rightarrow>
             let inspection = inspection\<lparr>pi_status := status\<rparr> in
             if err \<noteq> [] then ((inspection, err), d)
             else if ms_Current status > ms_Target status then ((inspection, [ErrSchemaTooNew]), d)
             else if \<not> id_Fresh identity \<and> \<not> retryable \<and> ms_Current status = 0 then ((inspection, [ErrSchemaNotReady]), d)
             else ((inspection, []), d))"

definition InspectExistingEmbeddedPreparation ::
  "'c provider \<Rightarrow> io \<Rightarrow> 'c sqlite \<Rightarrow> (DatabaseIdentity \<times> MigrationStatus \<times> st_error) \<times> 'c sqlite" where
  "InspectExistingEmbeddedPreparation m io d =
     (case inspectPreparation m io d of
        ((inspection, err), d) \<Rightarrow>
          ((pi_identity inspection, pi_status inspection,
            if err \<noteq> [] then err else if id_Fresh (pi_identity inspection) then [ErrSchemaNotReady] else []), d))"

definition configure :: "io \<Rightarrow> st_error" where
  "configure io = (case io ''configure'' of Some e \<Rightarrow> [Failed e] | None \<Rightarrow> [])"

text \<open>The checks of \<open>OpenExistingForMaintenance\<close> on the handle it opened.\<close>

definition check_for_maintenance :: "'c provider \<Rightarrow> io \<Rightarrow> 'c sqlite \<Rightarrow> st_error \<times> 'c sqlite" where
  "check_for_maintenance m io d =
     (case InspectExistingEmbeddedPreparation m io d of
        ((identity, status, err), d) \<Rightarrow>
          (if err \<noteq> [] then err
           else if id_ApplicationID identity \<noteq> SQLiteApplicationID then [ErrSchemaNotReady]
           else configure io, d))"

subsection \<open>Preparing\<close>

record PreparationResult =
  pr_Before :: MigrationStatus
  pr_After :: MigrationStatus
  pr_Migration :: MigrationResult
  pr_BackupPath :: string
  pr_Identity :: DatabaseIdentity

definition refreshAfterMutation ::
  "'c provider \<Rightarrow> io \<Rightarrow> PreparationResult \<Rightarrow> 'c sqlite \<Rightarrow> (PreparationResult \<times> st_error) \<times> 'c sqlite" where
  "refreshAfterMutation m io result d =
     (let (identity, identityErr) = InspectDatabaseIdentity io d;
          result = result\<lparr>pr_Identity := identity\<rparr>;
          (retryable, bootstrapErr) = (if ErrUnrecognizedDatabase \<in> set identityErr then inspectRetryableGooseBootstrap io d else (False, []));
          refreshErr = bootstrapErr @ (if identityErr \<noteq> [] \<and> \<not> retryable then identityErr else [])
      in if id_Fresh identity \<or> retryable then ((result\<lparr>pr_After := Catalog m\<rparr>, refreshErr), d)
         else case Status m d of
           ((status, statusErr), d) \<Rightarrow> ((result\<lparr>pr_After := status\<rparr>, refreshErr @ statusErr), d))"

definition failAfterMutation ::
  "'c provider \<Rightarrow> io \<Rightarrow> PreparationResult \<Rightarrow> st_error \<Rightarrow> 'c sqlite \<Rightarrow> (PreparationResult \<times> st_error) \<times> 'c sqlite" where
  "failAfterMutation m io result primary d =
     (case refreshAfterMutation m io result d of
        ((result, err), d) \<Rightarrow> ((result, primary @ err), d))"

text \<open>The part of \<open>Prepare\<close> from the migration on.\<close>

definition migrate ::
  "'c provider \<Rightarrow> 'c checks \<Rightarrow> (nat \<Rightarrow> io) \<Rightarrow> PreparationResult \<Rightarrow> 'c sqlite \<Rightarrow> (PreparationResult \<times> st_error) \<times> 'c sqlite" where
  "migrate m ck io result d =
     (case Up m d of
        ((migration, failure), d) \<Rightarrow>
          let result = result\<lparr>pr_Migration := migration\<rparr>; fail = failAfterMutation m (io 2) in
          if failure \<noteq> None then fail result (unwrap_failure (the failure)) d
          else if ForeignKeyCheck ck (io 1) d \<noteq> [] then fail result (ForeignKeyCheck ck (io 1) d) d
          else if QuickCheck ck (io 1) d \<noteq> [] then fail result (QuickCheck ck (io 1) d) d
          else case Status m d of
            ((status, err), d) \<Rightarrow>
              let result = result\<lparr>pr_After := status\<rparr> in
              if err \<noteq> [] then fail result err d
              else let (identity, err) = InspectDatabaseIdentity (io 1) d; result = result\<lparr>pr_Identity := identity\<rparr> in
                if err \<noteq> [] then fail result err d
                else if RequireCurrentSchema identity status \<noteq> [] then fail result (RequireCurrentSchema identity status) d
                else ((result, []), d))"

text \<open>
  \<open>Prepare\<close>, with the answers of the gate (\<open>gateErr\<close>) and of the two path checks (\<open>pathErr\<close>), the clock
  of the backup, the database and the backup directory.
\<close>

definition empty_result :: PreparationResult where
  "empty_result = \<lparr>pr_Before = zero_status, pr_After = zero_status, pr_Migration = \<lparr>mr_From = 0, mr_To = 0, mr_Applied = []\<rparr>,
     pr_BackupPath = '''', pr_Identity = zero_identity\<rparr>"

definition Prepare ::
  "'c provider \<Rightarrow> BackupManager \<Rightarrow> 'c checks \<Rightarrow> (nat \<Rightarrow> io) \<Rightarrow> st_error \<Rightarrow> (nat \<Rightarrow> st_error) \<Rightarrow> string \<Rightarrow> 'c sqlite \<Rightarrow> 'c backup_dir
   \<Rightarrow> (PreparationResult \<times> st_error) \<times> 'c sqlite \<times> 'c backup_dir" where
  "Prepare m bm ck io gateErr pathErr now d dir =
     (if gateErr \<noteq> [] then ((empty_result, gateErr), d, dir)
      else if pathErr 0 \<noteq> [] then ((empty_result, pathErr 0), d, dir)
      else case inspectPreparation m (io 0) d of
        ((inspection, err), d) \<Rightarrow>
          let identity = pi_identity inspection; status = pi_status inspection;
              result = \<lparr>pr_Before = status, pr_After = status,
                pr_Migration = \<lparr>mr_From = ms_Current status, mr_To = ms_Current status, mr_Applied = []\<rparr>,
                pr_BackupPath = '''', pr_Identity = identity\<rparr>
          in if err \<noteq> [] then ((result, err), d, dir)
             else if configure (io 0) \<noteq> [] then ((result, configure (io 0)), d, dir)
             else if ms_Pending status = []
             then if RequireCurrentSchema identity status \<noteq> [] then ((result, RequireCurrentSchema identity status), d, dir)
                  else if ForeignKeyCheck ck (io 0) d \<noteq> [] then ((result, ForeignKeyCheck ck (io 0) d), d, dir)
                  else ((result, QuickCheck ck (io 0) d), d, dir)
             else if ms_Current status > 0
             then if QuickCheck ck (io 0) d \<noteq> [] then ((result, QuickCheck ck (io 0) d), d, dir)
                  else case Create bm ck (\<lambda>op. io 0 (''backup '' @ op)) (pathErr 1) now d (ms_Current status) dir of
                    (name, berr, dir) \<Rightarrow>
                      let result = result\<lparr>pr_BackupPath := name\<rparr> in
                      if berr \<noteq> [] then ((result, berr), d, dir)
                      else (case migrate m ck io result d of (r, d) \<Rightarrow> (r, d, dir))
             else (case migrate m ck io result d of (r, d) \<Rightarrow> (r, d, dir)))"

end
