(* ===== verification/OwnedPath.thy ===== *)
theory OwnedPath
  imports Backup
begin

text \<open>
  Which file a database path names, and owning it (\<^verbatim>\<open>storage/owner_lock.go\<close>, the path checks of
  \<^verbatim>\<open>storage/existing.go\<close> and \<^verbatim>\<open>storage/backup.go\<close>), on a system with slash-separated paths.

  The file system is a parameter: making a path absolute, resolving symbolic links, and looking at a path
  with and without following them.
\<close>

datatype stat_answer = StatOk | StatNotExist | StatFailed string

datatype lstat_answer = LstatOk bool | LstatNotExist | LstatFailed string

record filesystem =
  fs_Abs :: "string \<Rightarrow> (string, string) result"
  fs_EvalSymlinks :: "string \<Rightarrow> (string, string) result"
  fs_Stat :: "string \<Rightarrow> stat_answer"
  fs_Lstat :: "string \<Rightarrow> lstat_answer"

record OwnerLock =
  ol_lockPath :: string
  ol_databasePath :: string

definition IsAbs :: "string \<Rightarrow> bool" where
  "IsAbs p = (p \<noteq> [] \<and> hd p = CHR ''/'')"

text \<open>Resolving an existing path, and making what comes out absolute.\<close>

definition resolve_absolute :: "filesystem \<Rightarrow> string \<Rightarrow> (st_error, string) result" where
  "resolve_absolute fs p =
     (case fs_EvalSymlinks fs p of
        Inl e \<Rightarrow> Inl [Failed e]
      | Inr q \<Rightarrow> (case fs_Abs fs q of Inl e \<Rightarrow> Inl [Failed e] | Inr r \<Rightarrow> Inr r))"

definition canonicalDatabasePath :: "filesystem \<Rightarrow> string \<Rightarrow> (st_error, string) result" where
  "canonicalDatabasePath fs dbPath =
     (if dbPath = '''' then Inl [Failed ''database path is empty'']
      else case fs_Abs fs dbPath of
        Inl e \<Rightarrow> Inl [Failed e]
      | Inr absolutePath \<Rightarrow>
          (case fs_Stat fs absolutePath of
             StatOk \<Rightarrow> (case resolve_absolute fs absolutePath of Inl e \<Rightarrow> Inl e | Inr p \<Rightarrow> Inr (path_Clean p))
           | StatFailed e \<Rightarrow> Inl [Failed e]
           | StatNotExist \<Rightarrow>
               (case fs_Lstat fs absolutePath of
                  LstatOk symlink \<Rightarrow> Inl [Failed (if symlink then ''dangling database symlink'' else ''stat database path'')]
                | LstatFailed e \<Rightarrow> Inl [Failed e]
                | LstatNotExist \<Rightarrow>
                    (case resolve_absolute fs (filepath_Dir absolutePath) of
                       Inl e \<Rightarrow> Inl e
                     | Inr parent \<Rightarrow> Inr (path_Clean (path_Clean (parent @ ''/'' @ filepath_Base absolutePath)))))))"

text \<open>\<open>TryLock\<close> answers whether the lock was free, or fails.\<close>

definition AcquireOwnerLock :: "filesystem \<Rightarrow> (string \<Rightarrow> (string, bool) result) \<Rightarrow> string \<Rightarrow> (st_error, OwnerLock) result" where
  "AcquireOwnerLock fs trylock dbPath =
     (case canonicalDatabasePath fs dbPath of
        Inl e \<Rightarrow> Inl e
      | Inr canonicalPath \<Rightarrow>
          let lockPath = canonicalPath @ ''.lock'' in
          (case trylock lockPath of
             Inl e \<Rightarrow> Inl [Failed e]
           | Inr locked \<Rightarrow>
               if \<not> locked then Inl [ErrDatabaseInUse]
               else Inr \<lparr>ol_lockPath = lockPath, ol_databasePath = canonicalPath\<rparr>))"

subsection \<open>The path of an open database\<close>

fun main_row :: "(string \<times> string) list \<Rightarrow> (st_error, string) result" where
  "main_row [] = Inl [Failed ''SQLite database list has no main database'']"
| "main_row ((name, path) # rows) =
     (if name = ''main''
      then if path = '''' then Inl [Failed ''open SQLite main database has no filesystem path''] else Inr (path_Clean path)
      else main_row rows)"

definition mainDatabasePath :: "io \<Rightarrow> (string \<times> string) list \<Rightarrow> (st_error, string) result" where
  "mainDatabasePath io rows =
     (case io ''database list'' of Some e \<Rightarrow> Inl [Failed e] | None \<Rightarrow> main_row rows)"

definition sameDatabasePath :: "string \<Rightarrow> string \<Rightarrow> bool" where
  "sameDatabasePath left right = (path_Clean left = path_Clean right)"

definition validateDatabasePath :: "filesystem \<Rightarrow> io \<Rightarrow> (string \<times> string) list \<Rightarrow> BackupManager \<Rightarrow> st_error" where
  "validateDatabasePath fs io rows m =
     (case canonicalDatabasePath fs (bm_dbPath m) of
        Inl e \<Rightarrow> e
      | Inr configuredPath \<Rightarrow>
          (case mainDatabasePath io rows of
             Inl e \<Rightarrow> e
           | Inr mainPath \<Rightarrow>
               (case canonicalDatabasePath fs mainPath of
                  Inl e \<Rightarrow> e
                | Inr canonicalMainPath \<Rightarrow>
                    if \<not> sameDatabasePath configuredPath canonicalMainPath
                    then [Failed ''open SQLite main database differs from configured backup source''] else [])))"

text \<open>The checks of \<open>openOwnedDatabase\<close> before and after the file is opened; a failure after that closes it.\<close>

definition openOwnedDatabase :: "filesystem \<Rightarrow> io \<Rightarrow> (string \<times> string) list \<Rightarrow> string \<Rightarrow> bool \<Rightarrow> st_error" where
  "openOwnedDatabase fs io rows expectedPath configureConnection =
     (let close = (case io ''close database'' of Some e \<Rightarrow> [Failed e] | None \<Rightarrow> []) in
      if expectedPath = '''' then [Failed ''owned database path is required'']
      else if \<not> IsAbs expectedPath then [Failed ''owned database path must be absolute'']
      else if path_Clean expectedPath \<noteq> expectedPath then [Failed ''owned database path must be clean'']
      else case io ''open database'' of
        Some e \<Rightarrow> [Failed e]
      | None \<Rightarrow>
          (case io ''ping database'' of
             Some e \<Rightarrow> Failed e # close
           | None \<Rightarrow>
               (case mainDatabasePath io rows of
                  Inl e \<Rightarrow> e @ close
                | Inr actualPath \<Rightarrow>
                    (case canonicalDatabasePath fs actualPath of
                       Inl e \<Rightarrow> e @ close
                     | Inr canonicalActualPath \<Rightarrow>
                         if expectedPath \<noteq> canonicalActualPath
                         then Failed ''actual SQLite database path differs from owned database path'' # close
                         else if configureConnection
                         then (case io ''configure'' of Some e \<Rightarrow> Failed e # close | None \<Rightarrow> [])
                         else []))))"

definition OpenReadOnly :: "io \<Rightarrow> string \<Rightarrow> st_error" where
  "OpenReadOnly io path =
     (if path = '''' then [Failed ''database path is required'']
      else if \<not> IsAbs path then [Failed ''database path must be absolute'']
      else case io ''open database'' of
        Some e \<Rightarrow> [Failed e]
      | None \<Rightarrow> (case io ''ping database'' of Some e \<Rightarrow> [Failed e] | None \<Rightarrow> []))"

lemma main_row_nonempty: "main_row rows = Inl e \<Longrightarrow> e \<noteq> []"
  by (induction rows rule: main_row.induct) (auto split: if_splits)

lemma canonical_nonempty: "canonicalDatabasePath fs p = Inl e \<Longrightarrow> e \<noteq> []"
  by (auto simp: canonicalDatabasePath_def resolve_absolute_def split: if_splits sum.splits stat_answer.splits lstat_answer.splits)

lemma openOwnedDatabase_canonical:
  assumes "openOwnedDatabase fs io rows expectedPath conf = []"
  shows "IsAbs expectedPath" "path_Clean expectedPath = expectedPath"
    "\<exists>actual. main_row rows = Inr actual \<and> canonicalDatabasePath fs actual = Inr expectedPath"
  using assms
  by (auto simp: openOwnedDatabase_def mainDatabasePath_def Let_def split: if_splits option.splits sum.splits
      dest: main_row_nonempty canonical_nonempty)

end
