(* ===== verification/DatabaseCommand.thy ===== *)
theory DatabaseCommand
  imports Preparation OwnedPath
begin

text \<open>
  The maintenance commands on the database (\<^verbatim>\<open>internal/runner/database.go\<close>): \<open>status\<close>, \<open>migrate\<close>, \<open>verify\<close>
  and \<open>backup\<close>, each with the inspection of the file and, but for \<open>status\<close>, under the owner lock.

  The file may change between its first inspection and the lock, by whoever holds the lock then; nobody else
  writes it while the lock is held. The log lines are left out.
\<close>

datatype 'c file_node = Absent | Dangling | Irregular | ZeroBytes | NotSQLite | Sqlite "'c sqlite"

datatype databaseFileState = databaseFileMissing | databaseFileEmpty | databaseFileSQLite

datatype databaseOpenPolicy = databaseMayCreate | databaseMustExist

record 'c command_world =
  cw_file :: "'c file_node"
  cw_backups :: "'c backup_dir"

text \<open>
  The surroundings of a command: the file system and the lock, what SQLite lists of the open database, the
  migration provider, the checks, the failures by phase, what the file becomes before the lock is taken, what
  SQLite shows of an empty file, the digest and the clock of backup names.
\<close>

record 'c machine =
  mc_fs :: filesystem
  mc_TryLock :: "string \<Rightarrow> (string, bool) result"
  mc_databaseList :: "(string \<times> string) list"
  mc_provider :: "'c provider"
  mc_checks :: "'c checks"
  mc_io :: "nat \<Rightarrow> io"
  mc_between :: "'c file_node \<Rightarrow> 'c file_node"
  mc_empty :: "'c sqlite"
  mc_sha256 :: "string \<Rightarrow> string"
  mc_now :: string

type_synonym cmd_output = "string \<times> st_error"

subsection \<open>The file\<close>

definition inspectDatabaseFile :: "io \<Rightarrow> string \<Rightarrow> 'c file_node \<Rightarrow> (st_error, databaseFileState) result" where
  "inspectDatabaseFile io path f =
     (if path = '''' then Inl [Failed ''database path is empty'']
      else case io ''lstat'' of
        Some e \<Rightarrow> Inl [Failed e]
      | None \<Rightarrow>
          if f = Absent then Inr databaseFileMissing
          else if f = Dangling then Inl [Failed ''database path is a dangling symlink'']
          else case io ''stat'' of
            Some e \<Rightarrow> Inl [Failed e]
          | None \<Rightarrow>
              if f = Irregular then Inl [Failed ''database path is not a regular file'']
              else if f = ZeroBytes then Inr databaseFileEmpty
              else case io ''open database header'' of
                Some e \<Rightarrow> Inl [Failed e]
              | None \<Rightarrow>
                  let close = (case io ''close database header'' of Some e \<Rightarrow> [Failed e] | None \<Rightarrow> []) in
                  if io ''read database header'' \<noteq> None \<or> f = NotSQLite then Inl (ErrUnrecognizedDatabase # close)
                  else if close \<noteq> [] then Inl close
                  else Inr databaseFileSQLite)"

text \<open>What SQLite opens of a file, and the file after the handle is closed.\<close>

definition open_node :: "'c machine \<Rightarrow> bool \<Rightarrow> 'c file_node \<Rightarrow> 'c sqlite option" where
  "open_node mc mayCreate f =
     (case f of Sqlite d \<Rightarrow> Some d | ZeroBytes \<Rightarrow> Some (mc_empty mc) | Absent \<Rightarrow> (if mayCreate then Some (mc_empty mc) else None)
      | _ \<Rightarrow> None)"

definition close_node :: "'c machine \<Rightarrow> 'c file_node \<Rightarrow> 'c sqlite \<Rightarrow> 'c file_node" where
  "close_node mc f d = (case f of Sqlite _ \<Rightarrow> Sqlite d | _ \<Rightarrow> (if d = mc_empty mc then ZeroBytes else Sqlite d))"

definition close_error :: "io \<Rightarrow> st_error" where
  "close_error io = (case io ''close database'' of Some e \<Rightarrow> [Failed e] | None \<Rightarrow> [])"

text \<open>The candidate is opened for reading only, so that what the inspection does is not kept.\<close>

definition inspectExistingCandidate :: "'c machine \<Rightarrow> io \<Rightarrow> st_error \<Rightarrow> 'c file_node \<Rightarrow> bool \<Rightarrow> st_error" where
  "inspectExistingCandidate mc io openErr f requireReleasedApplication =
     (if openErr \<noteq> [] then openErr
      else case open_node mc False f of
        None \<Rightarrow> [Failed ''validate existing SQLite database'']
      | Some d \<Rightarrow>
          (case InspectExistingEmbeddedPreparation (mc_provider mc) io d of
             ((identity, status, err), d') \<Rightarrow>
               (if err \<noteq> [] then err
                else if requireReleasedApplication \<and> id_ApplicationID identity \<noteq> SQLiteApplicationID then [ErrSchemaNotReady]
                else []) @ close_error io))"

definition inspectExistingPreparationCandidate :: "'c machine \<Rightarrow> string \<Rightarrow> 'c file_node \<Rightarrow> st_error" where
  "inspectExistingPreparationCandidate mc ownedPath f =
     inspectExistingCandidate mc (mc_io mc 11) (openOwnedDatabase (mc_fs mc) (mc_io mc 11) (mc_databaseList mc) ownedPath False) f False"

definition requireExistingSQLiteDatabase :: "'c machine \<Rightarrow> string \<Rightarrow> 'c file_node \<Rightarrow> st_error" where
  "requireExistingSQLiteDatabase mc path f =
     (case inspectDatabaseFile (mc_io mc 10) path f of
        Inl e \<Rightarrow> e
      | Inr state \<Rightarrow>
          if state \<noteq> databaseFileSQLite then [ErrSchemaNotReady]
          else inspectExistingCandidate mc (mc_io mc 10) (OpenReadOnly (mc_io mc 10) path) f True)"

subsection \<open>Owning the file\<close>

type_synonym 'c command = "'c sqlite \<Rightarrow> string \<Rightarrow> 'c backup_dir \<Rightarrow> cmd_output \<times> 'c sqlite \<times> 'c backup_dir"

text \<open>The part of \<open>withOwnedDatabase\<close> that runs under the lock, up to the release of the lock.\<close>

definition owned_recheck :: "'c machine \<Rightarrow> databaseOpenPolicy \<Rightarrow> databaseFileState \<Rightarrow> string \<Rightarrow> 'c file_node \<Rightarrow> st_error" where
  "owned_recheck mc policy preOwnershipState ownedPath f =
     (if policy = databaseMayCreate
      then case inspectDatabaseFile (mc_io mc 11) ownedPath f of
        Inl e \<Rightarrow> e
      | Inr currentState \<Rightarrow>
          if preOwnershipState = databaseFileSQLite \<and> currentState \<noteq> databaseFileSQLite then [ErrSchemaNotReady]
          else if currentState = databaseFileSQLite then inspectExistingPreparationCandidate mc ownedPath f
          else []
      else [])"

text \<open>\<open>OpenForPreparation\<close>, or \<open>OpenExistingForMaintenance\<close> with its checks on the handle.\<close>

definition open_owned :: "'c machine \<Rightarrow> databaseOpenPolicy \<Rightarrow> string \<Rightarrow> 'c file_node \<Rightarrow> (st_error, 'c sqlite) result \<times> 'c file_node" where
  "open_owned mc policy ownedPath f =
     (let openErr = openOwnedDatabase (mc_fs mc) (mc_io mc 12) (mc_databaseList mc) ownedPath False in
      if openErr \<noteq> [] then (Inl openErr, f)
      else case open_node mc (policy = databaseMayCreate) f of
        None \<Rightarrow> (Inl [Failed ''open owned SQLite database''], f)
      | Some d \<Rightarrow>
          if policy = databaseMayCreate then (Inr d, f)
          else case check_for_maintenance (mc_provider mc) (mc_io mc 12) d of
            (err, d) \<Rightarrow>
              (if err \<noteq> [] then Inl (err @ close_error (mc_io mc 12)) else Inr d, close_node mc f d))"

definition owned_body ::
  "'c machine \<Rightarrow> databaseOpenPolicy \<Rightarrow> databaseFileState \<Rightarrow> string \<Rightarrow> 'c command \<Rightarrow> 'c command_world \<Rightarrow> cmd_output \<times> 'c command_world" where
  "owned_body mc policy preOwnershipState ownedPath fn w =
     (let err = owned_recheck mc policy preOwnershipState ownedPath (cw_file w) in
      if err \<noteq> [] then (('''', err), w)
      else case open_owned mc policy ownedPath (cw_file w) of
        (Inl e, f) \<Rightarrow> (('''', e), w\<lparr>cw_file := f\<rparr>)
      | (Inr d, f) \<Rightarrow>
          (case fn d ownedPath (cw_backups w) of
             ((out, err), d, dir) \<Rightarrow>
               ((out, err @ close_error (mc_io mc 12)), w\<lparr>cw_file := close_node mc f d, cw_backups := dir\<rparr>)))"

definition before_ownership :: "'c machine \<Rightarrow> databaseOpenPolicy \<Rightarrow> string \<Rightarrow> 'c file_node \<Rightarrow> (st_error, databaseFileState) result" where
  "before_ownership mc policy path f =
     (if policy = databaseMayCreate
      then case inspectDatabaseFile (mc_io mc 10) path f of
        Inl e \<Rightarrow> Inl e
      | Inr state \<Rightarrow> (case mc_io mc 10 ''create data directory'' of Some e \<Rightarrow> Inl [Failed e] | None \<Rightarrow> Inr state)
      else let err = requireExistingSQLiteDatabase mc path f in if err \<noteq> [] then Inl err else Inr databaseFileMissing)"

definition withOwnedDatabase ::
  "'c machine \<Rightarrow> string \<Rightarrow> databaseOpenPolicy \<Rightarrow> 'c command \<Rightarrow> 'c command_world \<Rightarrow> cmd_output \<times> 'c command_world" where
  "withOwnedDatabase mc path policy fn w =
     (case before_ownership mc policy path (cw_file w) of
        Inl e \<Rightarrow> (('''', e), w)
      | Inr preOwnershipState \<Rightarrow>
          let w = w\<lparr>cw_file := mc_between mc (cw_file w)\<rparr> in
          (case AcquireOwnerLock (mc_fs mc) (mc_TryLock mc) path of
             Inl e \<Rightarrow> (('''', e), w)
           | Inr owner \<Rightarrow>
               (case owned_body mc policy preOwnershipState (ol_databasePath owner) fn w of
                  ((out, err), w) \<Rightarrow>
                    ((out, err @ (case mc_io mc 13 ''close database owner lock'' of Some e \<Rightarrow> [Failed e] | None \<Rightarrow> [])), w))))"

subsection \<open>The commands\<close>

text \<open>The lines that were written, with the error that stopped the writing.\<close>

fun write_pending :: "io \<Rightarrow> MigrationInfo list \<Rightarrow> cmd_output" where
  "write_pending io [] = ('''', [])"
| "write_pending io (p # ps) =
     (case io (''write '' @ mi_Name p) of
        Some e \<Rightarrow> ('''', [Failed e])
      | None \<Rightarrow>
          (case write_pending io ps of
             (out, err) \<Rightarrow> (''pending_migration='' @ show_int (mi_Version p) @ '':'' @ mi_Name p @ ''\<newline>'' @ out, err)))"

definition writeMigrationStatus :: "io \<Rightarrow> MigrationStatus \<Rightarrow> cmd_output" where
  "writeMigrationStatus io status =
     (case io ''write status'' of
        Some e \<Rightarrow> ('''', [Failed e])
      | None \<Rightarrow>
          (case write_pending io (ms_Pending status) of
             (out, err) \<Rightarrow>
               (''current='' @ show_int (ms_Current status) @ '' target='' @ show_int (ms_Target status) @ '' pending=''
                  @ show_int (int (length (ms_Pending status))) @ ''\<newline>'' @ out, err)))"

definition EmbeddedMigrationCatalog :: "'c machine \<Rightarrow> (st_error, MigrationStatus) result" where
  "EmbeddedMigrationCatalog mc =
     (case mc_io mc 0 ''open in-memory database'' of
        Some e \<Rightarrow> Inl [Failed e]
      | None \<Rightarrow> (case mc_io mc 0 ''create migrator'' of Some e \<Rightarrow> Inl [Failed e] | None \<Rightarrow> Inr (Catalog (mc_provider mc))))"

definition writeEmbeddedCatalogStatus :: "'c machine \<Rightarrow> cmd_output" where
  "writeEmbeddedCatalogStatus mc =
     (case EmbeddedMigrationCatalog mc of Inl e \<Rightarrow> ('''', e) | Inr catalog \<Rightarrow> writeMigrationStatus (mc_io mc 0) catalog)"

definition NewEmbeddedMigrator :: "'c machine \<Rightarrow> st_error" where
  "NewEmbeddedMigrator mc = (case mc_io mc 0 ''create migrator'' of Some e \<Rightarrow> [Failed e] | None \<Rightarrow> [])"

definition runStatusCommand :: "'c machine \<Rightarrow> string \<Rightarrow> 'c command_world \<Rightarrow> cmd_output" where
  "runStatusCommand mc databasePath w =
     (case inspectDatabaseFile (mc_io mc 10) databasePath (cw_file w) of
        Inl e \<Rightarrow> ('''', e)
      | Inr state \<Rightarrow>
          if state = databaseFileMissing \<or> state = databaseFileEmpty then writeEmbeddedCatalogStatus mc
          else if OpenReadOnly (mc_io mc 10) databasePath \<noteq> [] then ('''', OpenReadOnly (mc_io mc 10) databasePath)
          else case open_node mc False (cw_file w) of
            None \<Rightarrow> ('''', [Failed ''open read-only SQLite database''])
          | Some d \<Rightarrow>
              (case InspectDatabaseIdentity (mc_io mc 0) d of
                 (identity, err) \<Rightarrow>
                   if err \<noteq> [] then ('''', err)
                   else if id_Fresh identity then writeEmbeddedCatalogStatus mc
                   else if NewEmbeddedMigrator mc \<noteq> [] then ('''', NewEmbeddedMigrator mc)
                   else case Status (mc_provider mc) d of
                     ((status, err), d) \<Rightarrow>
                       if err \<noteq> [] then ('''', err)
                       else case writeMigrationStatus (mc_io mc 0) status of
                         (out, werr) \<Rightarrow>
                           (out, if werr \<noteq> [] then werr
                                 else if ms_Current status > ms_Target status then [ErrSchemaTooNew] else [])))"

definition make_abs :: "'c machine \<Rightarrow> string \<Rightarrow> string option" where
  "make_abs mc p = (case fs_Abs (mc_fs mc) p of Inl _ \<Rightarrow> None | Inr q \<Rightarrow> Some q)"

definition backup_manager :: "'c machine \<Rightarrow> string \<Rightarrow> BackupManager" where
  "backup_manager mc ownedPath = NewBackupManager (make_abs mc) (mc_sha256 mc) ownedPath"

definition path_check :: "'c machine \<Rightarrow> string \<Rightarrow> nat \<Rightarrow> st_error" where
  "path_check mc ownedPath n =
     validateDatabasePath (mc_fs mc) (mc_io mc (20 + n)) (mc_databaseList mc) (backup_manager mc ownedPath)"

definition NewEmbeddedInitializer :: "'c machine \<Rightarrow> string \<Rightarrow> st_error" where
  "NewEmbeddedInitializer mc dbPath =
     (if dbPath = '''' then [Failed ''SQLite database path is required'']
      else if \<not> IsAbs dbPath then [Failed ''SQLite database path must be absolute'']
      else NewEmbeddedMigrator mc)"

definition migrate_command :: "'c machine \<Rightarrow> 'c command" where
  "migrate_command mc d ownedPath dir =
     (if NewEmbeddedInitializer mc ownedPath \<noteq> [] then (('''', NewEmbeddedInitializer mc ownedPath), d, dir)
      else case Prepare (mc_provider mc) (backup_manager mc ownedPath) (mc_checks mc) (mc_io mc) [] (path_check mc ownedPath)
                (mc_now mc) d dir of
        ((result, err), d, dir) \<Rightarrow>
          (if err \<noteq> [] then ('''', err) else writeMigrationStatus (mc_io mc 0) (pr_After result), d, dir))"

definition verify_command :: "'c machine \<Rightarrow> DatabaseIdentity \<Rightarrow> MigrationStatus \<Rightarrow> 'c sqlite \<Rightarrow> cmd_output" where
  "verify_command mc identity status d =
     (let io = mc_io mc 0 in
      if RequireCurrentSchema identity status \<noteq> [] then ('''', RequireCurrentSchema identity status)
      else if IntegrityCheck (mc_checks mc) io d \<noteq> [] then ('''', IntegrityCheck (mc_checks mc) io d)
      else if ForeignKeyCheck (mc_checks mc) io d \<noteq> [] then ('''', ForeignKeyCheck (mc_checks mc) io d)
      else case writeMigrationStatus io status of
        (out, err) \<Rightarrow>
          if err \<noteq> [] then (out, err)
          else case io ''write verification'' of
            Some e \<Rightarrow> (out, [Failed e])
          | None \<Rightarrow> (out @ ''verification=ok\<newline>'', []))"

definition backup_command :: "'c machine \<Rightarrow> MigrationStatus \<Rightarrow> 'c command" where
  "backup_command mc status d ownedPath dir =
     (if QuickCheck (mc_checks mc) (mc_io mc 0) d \<noteq> [] then (('''', QuickCheck (mc_checks mc) (mc_io mc 0) d), d, dir)
      else case CreateManual (backup_manager mc ownedPath) (mc_checks mc) (\<lambda>op. mc_io mc 0 (''backup '' @ op))
                (path_check mc ownedPath 0) (mc_now mc) d (ms_Current status) dir of
        (name, err, dir) \<Rightarrow>
          if err \<noteq> [] then (('''', err), d, dir)
          else case mc_io mc 0 ''write backup'' of
            Some e \<Rightarrow> (('''', [Failed e]), d, dir)
          | None \<Rightarrow>
              ((''backup='' @ path_Clean (bm_backupDir (backup_manager mc ownedPath) @ ''/'' @ name) @ ''\<newline>'', []), d, dir))"

definition maintenance_command :: "'c machine \<Rightarrow> string \<Rightarrow> 'c command" where
  "maintenance_command mc action d ownedPath dir =
     (case InspectDatabaseIdentity (mc_io mc 0) d of
        (identity, err) \<Rightarrow>
          if err \<noteq> [] then (('''', err), d, dir)
          else if id_Fresh identity then (('''', [ErrSchemaNotReady]), d, dir)
          else if NewEmbeddedMigrator mc \<noteq> [] then (('''', NewEmbeddedMigrator mc), d, dir)
          else case Status (mc_provider mc) d of
            ((status, err), d) \<Rightarrow>
              if err \<noteq> [] then (('''', err), d, dir)
              else if ms_Current status > ms_Target status then (('''', [ErrSchemaTooNew]), d, dir)
              else if action = ''verify'' then (verify_command mc identity status d, d, dir)
              else if action = ''backup'' then backup_command mc status d ownedPath dir
              else (('''', [Failed ''unsupported database action'']), d, dir))"

definition runDatabaseCommand :: "'c machine \<Rightarrow> string \<Rightarrow> string \<Rightarrow> 'c command_world \<Rightarrow> cmd_output \<times> 'c command_world" where
  "runDatabaseCommand mc action databasePath w =
     (if action = ''status'' then (runStatusCommand mc databasePath w, w)
      else if action \<noteq> ''migrate'' \<and> action \<noteq> ''verify'' \<and> action \<noteq> ''backup''
      then (('''', [Failed ''unsupported database action'']), w)
      else if action = ''migrate'' then withOwnedDatabase mc databasePath databaseMayCreate (migrate_command mc) w
      else withOwnedDatabase mc databasePath databaseMustExist (maintenance_command mc action) w)"

end
