(* ===== verification/BackupProps.thy ===== *)
theory BackupProps
  imports Backup
begin

text \<open>
  Lemmas on backups: names are read back, a new name takes a larger number than every other, and
  pruning removes the oldest automatic snapshots only.
\<close>

subsection \<open>Names\<close>

lemma take_digits:
  assumes "list_all is_ascii_digit ds" "s = [] \<or> \<not> is_ascii_digit (hd s)"
  shows "takeWhile is_ascii_digit (ds @ s) = ds" "dropWhile is_ascii_digit (ds @ s) = s"
proof -
  have "takeWhile is_ascii_digit s = []" "dropWhile is_ascii_digit s = s" using assms(2) by (cases s; simp)+
  then show "takeWhile is_ascii_digit (ds @ s) = ds" "dropWhile is_ascii_digit (ds @ s) = s"
    using assms(1) by (simp_all add: takeWhile_append2 dropWhile_append2 list_all_iff)
qed

lemma six_digits_append:
  assumes "list_all is_ascii_digit ds" "6 \<le> length ds" "s = [] \<or> \<not> is_ascii_digit (hd s)"
  shows "six_digits (ds @ s) = Some (ds, s)"
  using take_digits [OF assms(1,3)] assms(2) by (simp add: six_digits_def Let_def)

lemma show_padded_length: "w \<le> length (show_padded w (int n))"
  by (simp add: show_padded_def Let_def)

lemma strip_prefix_append [simp]: "strip_prefix p (p @ s) = Some s"
  by (simp add: strip_prefix_def)

lemma match_tail_filename:
  assumes "timestamp_shape ts" "0 \<le> ver"
  shows "match_tail (ts @ ''.s'' @ show_padded 6 (int sq) @ ''.v'' @ show_padded 6 ver @ ''.db'')
    = Some (ts, show_padded 6 (int sq), show_padded 6 ver)"
proof -
  have len: "length ts = 26" using assms(1) by (simp add: timestamp_shape_def)
  have dot: "\<not> is_ascii_digit (CHR ''.'')" by (simp add: is_ascii_digit_def byte_def)
  obtain v where v: "ver = int v" using assms(2) nonneg_int_cases by blast
  have "six_digits (show_padded 6 (int sq) @ ''.v'' @ show_padded 6 ver @ ''.db'')
      = Some (show_padded 6 (int sq), ''.v'' @ show_padded 6 ver @ ''.db'')"
    by (rule six_digits_append) (use show_padded_length [of 6 sq] dot in \<open>simp_all add: show_padded_nonneg\<close>)
  moreover have "six_digits (show_padded 6 ver @ ''.db'') = Some (show_padded 6 ver, ''.db'')"
    by (rule six_digits_append) (use show_padded_length [of 6 v] dot in \<open>simp_all add: show_padded_nonneg v\<close>)
  ultimately show ?thesis using assms(1) len strip_prefix_append [of "''.s''"] strip_prefix_append [of "''.v''"]
    by (simp add: match_tail_def Let_def)
qed

lemma parse_filename:
  assumes "kind \<in> {automaticBackupKind, manualBackupKind}" "timestamp_shape ts" "timestamp_valid ts" "0 < sq" "sq \<le> max_sequence"
    "0 \<le> ver" "ver \<le> int64_max"
  shows "parseOwnedBackup m (backupFilename m kind ts sq ver)
    = Some \<lparr>ob_name = backupFilename m kind ts sq ver, ob_kind = kind, ob_timestamp = ts, ob_sequence = sq, ob_schemaVersion = ver\<rparr>"
proof -
  let ?tail = "ts @ ''.s'' @ show_padded 6 (int sq) @ ''.v'' @ show_padded 6 ver @ ''.db''"
  have "match_name m (backupFilename m kind ts sq ver) = Some (kind, ts, show_padded 6 (int sq), show_padded 6 ver)"
  proof -
    have name: "backupFilename m kind ts sq ver = (filepath_Base (bm_dbPath m) @ ''.'') @ (kind @ ''.'') @ ?tail"
      by (simp add: backupFilename_def)
    have other: "strip_prefix (automaticBackupKind @ ''.'') ((manualBackupKind @ ''.'') @ s) = None" for s
      by (simp add: strip_prefix_def automaticBackupKind_def manualBackupKind_def)
    show ?thesis unfolding name match_name_def strip_prefix_append option.case
      using assms(1) other match_tail_filename [OF assms(2,6), of sq]
      by (auto simp: strip_prefix_append simp del: append_assoc)
  qed
  then show ?thesis using assms(3-7)
    by (simp add: parseOwnedBackup_def show_padded_nonneg)
qed

lemma parse_name: "parseOwnedBackup m name = Some b \<Longrightarrow> ob_name b = name"
  by (auto simp: parseOwnedBackup_def split: option.splits if_splits)

subsection \<open>The directory\<close>

lemma owned_entry_name: "owned_entry m x = Some b \<Longrightarrow> ob_name b = fst x"
  by (auto simp: owned_entry_def parse_name split: if_splits)

lemma owned_iff: "b \<in> set (ownedBackups m dir) \<longleftrightarrow> (\<exists>x \<in> set dir. owned_entry m x = Some b)"
  by (simp add: ownedBackups_def set_map_filter_iff)

lemma owned_filter:
  "ownedBackups m (filter (\<lambda>x. P (fst x)) dir) = filter (\<lambda>b. P (ob_name b)) (ownedBackups m dir)"
proof -
  have "List.map_filter (owned_entry m) (filter (\<lambda>x. P (fst x)) xs)
      = filter (\<lambda>b. P (ob_name b)) (List.map_filter (owned_entry m) xs)" for xs :: "(string \<times> 'a node) list"
  proof (induction xs)
    case (Cons x xs)
    then show ?case using owned_entry_name [of m x] by (cases "owned_entry m x") (auto simp: map_filter_simps)
  qed (simp add: map_filter_simps)
  then show ?thesis by (simp add: ownedBackups_def flip: filter_sort)
qed

lemma owned_distinct:
  assumes "distinct (map fst dir)"
  shows "distinct (map ob_name (ownedBackups m dir))"
proof -
  have "distinct (map fst xs) \<Longrightarrow> distinct (map ob_name (List.map_filter (owned_entry m) xs))
      \<and> set (map ob_name (List.map_filter (owned_entry m) xs)) \<subseteq> fst ` set xs"
    for xs :: "(string \<times> 'a node) list"
  proof (induction xs)
    case (Cons x xs)
    then show ?case using owned_entry_name [of m x] by (cases "owned_entry m x") (auto simp: map_filter_simps)
  qed (simp add: map_filter_simps)
  moreover have "distinct (map fst (sort_key fst dir))" using assms by (simp add: distinct_map)
  ultimately show ?thesis by (simp add: ownedBackups_def)
qed

lemma fold_max:
  fixes f :: "'b \<Rightarrow> nat"
  shows "n \<le> fold (\<lambda>b mx. if f b > mx then f b else mx) bs n"
    "b \<in> set bs \<Longrightarrow> f b \<le> fold (\<lambda>b mx. if f b > mx then f b else mx) bs n"
    "n \<le> u \<Longrightarrow> \<forall>b \<in> set bs. f b \<le> u \<Longrightarrow> fold (\<lambda>b mx. if f b > mx then f b else mx) bs n \<le> u"
proof -
  show up: "n \<le> fold (\<lambda>b mx. if f b > mx then f b else mx) bs n" for bs n
  proof (induction bs arbitrary: n)
    case (Cons a bs)
    have "n \<le> (if f a > n then f a else n)" by simp
    then show ?case using Cons [of "if f a > n then f a else n"] by (simp only: fold_Cons comp_apply)
  qed simp
  show "b \<in> set bs \<Longrightarrow> f b \<le> fold (\<lambda>b mx. if f b > mx then f b else mx) bs n"
  proof (induction bs arbitrary: n)
    case (Cons a bs)
    show ?case
    proof (cases "b = a")
      case True
      have "f a \<le> (if f a > n then f a else n)" by simp
      then show ?thesis using up [of "if f a > n then f a else n" bs] True by (simp only: fold_Cons comp_apply)
    next
      case False
      then show ?thesis using Cons by simp
    qed
  qed simp
  show "n \<le> u \<Longrightarrow> \<forall>b \<in> set bs. f b \<le> u \<Longrightarrow> fold (\<lambda>b mx. if f b > mx then f b else mx) bs n \<le> u"
    by (induction bs arbitrary: n) auto
qed

lemma owned_sequence: "b \<in> set (ownedBackups m dir) \<Longrightarrow> ob_sequence b \<le> max_sequence"
proof -
  assume "b \<in> set (ownedBackups m dir)"
  then obtain name where "parseOwnedBackup m name = Some b" by (auto simp: owned_iff owned_entry_def split: if_splits)
  then show ?thesis by (auto simp: parseOwnedBackup_def split: option.splits if_splits)
qed

lemma maximumSequence_ge: "b \<in> set bs \<Longrightarrow> ob_sequence b \<le> maximumSequence bs"
  unfolding maximumSequence_def by (rule fold_max(2))

lemma maximumSequence_bound: "maximumSequence (ownedBackups m dir) \<le> max_sequence"
  unfolding maximumSequence_def by (rule fold_max(3)) (simp_all add: owned_sequence)

lemma reserve_loop_Inr:
  assumes "reserve_loop m io kind ts ver dir sq = Inr name" "sq \<le> max_sequence"
  shows "\<exists>sq'. sq \<le> sq' \<and> sq' \<le> max_sequence \<and> name = backupFilename m kind ts sq' ver \<and> name \<notin> fst ` set dir"
  using assms
proof (induction m io kind ts ver dir sq rule: reserve_loop.induct)
  case (1 m io kind ts ver dir sq)
  let ?name = "backupFilename m kind ts sq ver"
  show ?case
  proof (cases "?name \<in> fst ` set dir")
    case True
    with 1(2) have "sq < max_sequence" "reserve_loop m io kind ts ver dir (sq + 1) = Inr name"
      by (subst (asm) reserve_loop.simps; simp add: Let_def split: if_splits)+
    with 1(1) [OF refl True] obtain sq' where "sq + 1 \<le> sq'" "sq' \<le> max_sequence" "name = backupFilename m kind ts sq' ver"
      "name \<notin> fst ` set dir" by auto
    then show ?thesis by (intro exI [of _ sq']) simp
  next
    case False
    with 1(2) have "name = ?name" by (subst (asm) reserve_loop.simps) (simp add: Let_def split: option.splits)
    with False 1(3) show ?thesis by blast
  qed
qed

subsection \<open>Pruning\<close>

lemma automatic_filter:
  "automatic_backups m (filter (\<lambda>x. P (fst x)) dir) = filter (\<lambda>b. P (ob_name b)) (automatic_backups m dir)"
  by (simp add: automatic_backups_def owned_filter filter_sort conj_commute)

lemma prune_loop_removes:
  assumes "prune_loop io current rc bs dir = (e, dir')"
  shows "\<exists>k \<le> nat rc. dir' = filter (\<lambda>x. fst x \<notin> ob_name ` set (take k (filter (\<lambda>b. ob_name b \<noteq> current) bs))) dir
    \<and> (e = [] \<longrightarrow> k = nat rc)"
  using assms
proof (induction io current rc bs dir rule: prune_loop.induct)
  case (1 io current rc dir)
  then show ?case by auto
next
  case (2 io current rc b bs dir)
  show ?case
  proof (cases "rc \<le> 0")
    case True
    with 2(3) show ?thesis by auto
  next
    case rc: False
    show ?thesis
    proof (cases "ob_name b = current")
      case True
      with 2 rc show ?thesis by simp
    next
      case False
      obtain e1 d1 where r: "remove_entry io (ob_name b) dir = (e1, d1)" by fastforce
      show ?thesis
      proof (cases "e1 = []")
        case True
        then have d1: "d1 = filter (\<lambda>x. fst x \<noteq> ob_name b) dir" using r by (auto simp: remove_entry_def split: option.splits)
        have "prune_loop io current (rc - 1) bs d1 = (e, dir')" using 2(3) rc False r True by simp
        from 2(2) [OF rc False r [symmetric] _ this] True obtain k where k: "k \<le> nat (rc - 1)"
          "dir' = filter (\<lambda>x. fst x \<notin> ob_name ` set (take k (filter (\<lambda>b. ob_name b \<noteq> current) bs))) d1" "e = [] \<longrightarrow> k = nat (rc - 1)"
          by auto
        then show ?thesis using rc False by (intro exI [of _ "Suc k"]) (auto simp: d1 intro!: filter_cong)
      next
        case err: False
        then have "d1 = dir" using r by (auto simp: remove_entry_def split: option.splits)
        with 2(3) rc False r err show ?thesis by (intro exI [of _ 0]) auto
      qed
    qed
  qed
qed


lemma prune_sorted:
  assumes "sorted_wrt r xs" "r' = filter P xs" "x \<in> set (take k r')" "y \<in> set (drop k r')"
  shows "r x y"
proof -
  have "sorted_wrt r (take k r' @ drop k r')" using assms(1,2) by (simp add: sorted_wrt_filter)
  then show ?thesis using assms(3,4) unfolding sorted_wrt_append by blast
qed

lemma automatic_sorted: "sorted_wrt (\<lambda>b c. ob_sequence b \<le> ob_sequence c) (automatic_backups m dir)"
proof -
  have "sorted (map (\<lambda>b. (ob_sequence b, ob_name b)) (automatic_backups m dir))" by (simp add: automatic_backups_def)
  then show ?thesis by (auto simp: sorted_wrt_map less_eq_prod_simp elim: sorted_wrt_mono_rel [rotated])
qed

lemma automatic_set: "set (automatic_backups m dir) = {b \<in> set (ownedBackups m dir). ob_kind b = automaticBackupKind}"
  by (simp add: automatic_backups_def)

lemma automatic_distinct: "distinct (map fst dir) \<Longrightarrow> distinct (map ob_name (automatic_backups m dir))"
  using owned_distinct [of dir m] by (auto simp: automatic_backups_def distinct_map intro: inj_on_subset)

lemma pruneAutomatic_outcome:
  assumes "distinct (map fst dir)" "1 \<le> bm_retention m" "pruneAutomatic m io current dir = (e, dir')"
    and newest: "\<forall>b \<in> set (automatic_backups m dir). ob_name b = current \<longrightarrow> (\<forall>a \<in> set (automatic_backups m dir). ob_sequence a \<le> ob_sequence b)"
    and current: "current \<in> ob_name ` set (automatic_backups m dir)"
  shows "\<exists>gone. gone \<subseteq> set (automatic_backups m dir) \<and> current \<notin> ob_name ` gone
    \<and> dir' = filter (\<lambda>x. fst x \<notin> ob_name ` gone) dir
    \<and> (\<forall>b \<in> gone. \<forall>a \<in> set (automatic_backups m dir'). ob_sequence b \<le> ob_sequence a)
    \<and> (e = [] \<longrightarrow> int (length (automatic_backups m dir')) \<le> bm_retention m)"
proof (cases "io ''read backup directory again''")
  case (Some err)
  with assms(3) show ?thesis by (intro exI [of _ "{}"]) (auto simp: pruneAutomatic_def)
next
  case None
  let ?A = "automatic_backups m dir" and ?o = "filter (\<lambda>b. ob_name b \<noteq> current) (automatic_backups m dir)"
  let ?rc = "int (length ?A) - bm_retention m"
  have "prune_loop io current ?rc ?A dir = (e, dir')" using assms(3) None by (simp add: pruneAutomatic_def Let_def)
  from prune_loop_removes [OF this] obtain k where k: "k \<le> nat ?rc" "e = [] \<longrightarrow> k = nat ?rc"
    and dir': "dir' = filter (\<lambda>x. fst x \<notin> ob_name ` set (take k ?o)) dir" by blast
  let ?g = "set (take k ?o)"
  have sub: "?g \<subseteq> set ?A" "current \<notin> ob_name ` ?g" by (auto dest: in_set_takeD)
  have inj: "inj_on ob_name (set ?A)" and dA: "distinct ?A" using automatic_distinct [OF assms(1)] by (simp_all add: distinct_map)
  have A': "automatic_backups m dir' = filter (\<lambda>b. ob_name b \<notin> ob_name ` ?g) ?A"
    unfolding dir' by (rule automatic_filter)
  have A'_eq: "filter (\<lambda>b. ob_name b \<notin> ob_name ` ?g) ?A = filter (\<lambda>b. b \<notin> ?g) ?A"
    using inj sub(1) by (intro filter_cong) (auto dest: inj_onD)
  have old: "ob_sequence b \<le> ob_sequence a" if b: "b \<in> ?g" and a: "a \<in> set (automatic_backups m dir')" for a b
  proof (cases "ob_name a = current")
    case True
    then show ?thesis using newest a b sub(1) by (auto simp: A')
  next
    case False
    then have "a \<in> set ?o" "a \<notin> ?g" using a by (auto simp: A')
    then have "a \<in> set (drop k ?o)" by (metis append_take_drop_id set_append Un_iff)
    then show ?thesis using prune_sorted [OF automatic_sorted refl b] by blast
  qed
  obtain nb where nb: "nb \<in> set ?A" "ob_name nb = current" using current by auto
  have others: "?o = filter (\<lambda>b. b \<noteq> nb) ?A" using inj nb by (intro filter_cong) (auto dest: inj_onD)
  have "length ?o = card (set ?A - {nb})" using dA by (simp add: others distinct_card [symmetric] set_diff_eq)
  then have "length ?o = length ?A - 1" using nb(1) dA by (simp add: distinct_card)
  have "length (automatic_backups m dir') = length ?A - length (take k ?o)"
  proof -
    have "length (filter (\<lambda>b. b \<notin> ?g) ?A) = card (set ?A - ?g)"
      using dA by (simp add: distinct_card [symmetric] set_diff_eq)
    also have "\<dots> = card (set ?A) - card ?g" using sub(1) by (intro card_Diff_subset) auto
    finally show ?thesis using dA by (simp add: A' A'_eq distinct_card)
  qed
  then have len: "e = [] \<longrightarrow> int (length (automatic_backups m dir')) \<le> bm_retention m"
    using k \<open>length ?o = length ?A - 1\<close> assms(2) by auto
  show ?thesis by (intro exI [of _ ?g] conjI ballI) (use sub dir' old len in auto)
qed

subsection \<open>Outcome\<close>

lemma remove_appended:
  assumes "name \<notin> fst ` set dir" "cleanup io name e (dir @ [(name, x)]) = (err, dir')"
  shows "e \<noteq> [] \<longrightarrow> err \<noteq> []" "(\<forall>n. io (''remove '' @ n) = None) \<longrightarrow> dir' = dir"
proof -
  have "filter (\<lambda>x. fst x \<noteq> name) dir = dir" using assms(1) by (auto simp: filter_id_conv)
  then show "e \<noteq> [] \<longrightarrow> err \<noteq> []" "(\<forall>n. io (''remove '' @ n) = None) \<longrightarrow> dir' = dir"
    using assms(2) by (auto simp: cleanup_def remove_entry_def split: option.splits)
qed

lemma reserve_loop_Inl: "reserve_loop m io kind ts ver dir sq = Inl e \<Longrightarrow> e \<noteq> []"
proof (induction m io kind ts ver dir sq rule: reserve_loop.induct)
  case (1 m io kind ts ver dir sq)
  from 1(2) show ?case
    by (subst (asm) reserve_loop.simps) (auto simp: Let_def 1(1) [OF refl, simplified] split: if_splits option.splits)
qed

lemma reserveBackup_outcome:
  assumes "reserveBackup m io kind ts ver dir = (r, dir')"
  shows "case r of
      Inl e \<Rightarrow> e \<noteq> [] \<and> ((\<forall>n. io (''remove '' @ n) = None) \<longrightarrow> dir' = dir)
    | Inr name \<Rightarrow> dir' = dir @ [(name, EmptyFile)] \<and> name \<notin> fst ` set dir
        \<and> (\<exists>sq. maximumSequence (ownedBackups m dir) < sq \<and> sq \<le> max_sequence \<and> name = backupFilename m kind ts sq ver)"
proof (cases "io ''read backup directory'' = None \<and> maximumSequence (ownedBackups m dir) \<noteq> max_sequence")
  case False
  with assms show ?thesis by (auto simp: reserveBackup_def Let_def split: option.splits)
next
  case True
  let ?mx = "maximumSequence (ownedBackups m dir)"
  have le: "?mx + 1 \<le> max_sequence" using True maximumSequence_bound [of m dir] by simp
  show ?thesis
  proof (cases "reserve_loop m io kind ts ver dir (?mx + 1)")
    case (Inl e)
    then have "e \<noteq> []" by (rule reserve_loop_Inl)
    moreover have "r = Inl e" "dir' = dir" using assms True Inl by (simp_all add: reserveBackup_def Let_def)
    ultimately show ?thesis by simp
  next
    case (Inr name)
    from reserve_loop_Inr [OF this le] obtain sq where sq: "?mx + 1 \<le> sq" "sq \<le> max_sequence"
      "name = backupFilename m kind ts sq ver" "name \<notin> fst ` set dir" by blast
    show ?thesis
    proof (cases "io ''close reserved backup''")
      case None
      have "r = Inr name" "dir' = dir @ [(name, EmptyFile)]"
        using assms True Inr None by (simp_all add: reserveBackup_def Let_def)
      then show ?thesis using sq by (auto intro!: exI [of _ sq])
    next
      case (Some err)
      then obtain e' d' where c: "cleanup io name [Failed err] (dir @ [(name, EmptyFile)]) = (e', d')" by fastforce
      with assms True Inr Some have "r = Inl e'" "dir' = d'" by (simp_all add: reserveBackup_def Let_def)
      then show ?thesis using remove_appended [OF sq(4) c] by simp
    qed
  qed
qed

text \<open>
  What taking a backup guarantees.
\<close>

lemma owned_append:
  assumes "owned_entry m x = Some b"
  shows "set (ownedBackups m (dir @ [x])) = insert b (set (ownedBackups m dir))"
  using assms by (auto simp: owned_iff)

lemma filename_nonempty: "backupFilename m kind ts sq ver \<noteq> []"
  by (simp add: backupFilename_def)

lemma create_taken:
  assumes "create m ck io pe now kind prune d ver dir = (name, err, dir')"
  shows "(name = [] \<and> err \<noteq> [] \<and> ((\<forall>n. io (''remove '' @ n) = None) \<longrightarrow> dir' = dir))
    \<or> (0 \<le> ver \<and> validateSource io pe d ver = [] \<and> verifyDatabaseFile ck (snapshot_io io) (Some (Snapshot d)) ver = [] \<and> name \<notin> fst ` set dir
       \<and> (\<exists>sq. maximumSequence (ownedBackups m dir) < sq \<and> sq \<le> max_sequence \<and> name = backupFilename m kind now sq ver)
       \<and> (if prune then pruneAutomatic m io name (dir @ [(name, Snapshot d)]) = (err, dir')
          else err = [] \<and> dir' = dir @ [(name, Snapshot d)]))"
proof (cases "validateSource io pe d ver = [] \<and> io ''prepare backup directory'' = None")
  case False
  with assms show ?thesis by (auto simp: create_def split: if_splits option.splits)
next
  case True
  then have ver: "0 \<le> ver" by (auto simp: validateSource_def split: if_splits)
  obtain r dir1 where res: "reserveBackup m io kind now ver dir = (r, dir1)" by fastforce
  note out = reserveBackup_outcome [OF res]
  show ?thesis
  proof (cases r)
    case (Inl e)
    with assms True res have "name = [] \<and> err = e \<and> dir' = dir1" by (simp add: create_def)
    then show ?thesis using out Inl by simp
  next
    case (Inr n)
    with out have dir1: "dir1 = dir @ [(n, EmptyFile)]" and new: "n \<notin> fst ` set dir"
      and sq: "\<exists>sq. maximumSequence (ownedBackups m dir) < sq \<and> sq \<le> max_sequence \<and> n = backupFilename m kind now sq ver"
      by auto
    have written: "map (\<lambda>x. if fst x = n then (n, Snapshot d) else x) dir1 = dir @ [(n, Snapshot d)]"
      using new by (force simp: dir1 intro: map_idI)
    have look: "map_of (dir @ [(n, Snapshot d)]) n = Some (Snapshot d)"
      using new by (simp add: map_add_Some_iff map_of_eq_None_iff)
    define fails where "fails = (name = [] \<and> err \<noteq> [] \<and> ((\<forall>n. io (''remove '' @ n) = None) \<longrightarrow> dir' = dir))"
    have clean: "fails" if "(let (err, dir) = cleanup io n e (dir @ [(n, x)]) in ('''', err, dir)) = (name, err, dir')" "e \<noteq> []" for e x
    proof -
      obtain e' d' where c: "cleanup io n e (dir @ [(n, x)]) = (e', d')" by fastforce
      then show ?thesis using remove_appended [OF new c] that by (simp add: fails_def)
    qed
    note body = assms [unfolded create_def res]
    consider (vac) err' where "io ''vacuum into'' = Some err'" | (mode) err' where "io ''vacuum into'' = None" "io ''chmod backup'' = Some err'"
      | (bad) "io ''vacuum into'' = None" "io ''chmod backup'' = None" "verifyDatabaseFile ck (snapshot_io io) (Some (Snapshot d)) ver \<noteq> []"
      | (ok) "io ''vacuum into'' = None" "io ''chmod backup'' = None" "verifyDatabaseFile ck (snapshot_io io) (Some (Snapshot d)) ver = []"
      by (cases "io ''vacuum into''"; cases "io ''chmod backup''") auto
    then show ?thesis
    proof cases
      case vac
      with body True Inr show ?thesis using clean [of "[Failed err']" EmptyFile] by (simp add: dir1 fails_def)
    next
      case mode
      with body True Inr show ?thesis using clean [of "[Failed err']" "Snapshot d"] by (simp add: written fails_def)
    next
      case bad
      obtain e' d' where c: "cleanup io n (verifyDatabaseFile ck (snapshot_io io) (Some (Snapshot d)) ver) (dir @ [(n, Snapshot d)]) = (e', d')"
        by fastforce
      then have "name = [] \<and> err = e' \<and> dir' = d'" using body True Inr bad by (simp add: written look Let_def del: map_of_append)
      then show ?thesis using remove_appended [OF new c] bad(3) by simp
    next
      case ok
      with body True Inr have "if prune then pruneAutomatic m io n (dir @ [(n, Snapshot d)]) = (err, dir') \<and> name = n
        else name = n \<and> err = [] \<and> dir' = dir @ [(n, Snapshot d)]"
        by (auto simp: written look Let_def simp del: map_of_append split: prod.splits)
      then show ?thesis using True ver ok new sq by (auto split: if_splits)
    qed
  qed
qed

lemma pruneAutomatic_new:
  assumes "distinct (map fst dir)" "name \<notin> fst ` set dir" "1 \<le> bm_retention m"
    and entry: "owned_entry m (name, Snapshot d) = Some b" "ob_kind b = automaticBackupKind"
    and newest: "\<forall>a \<in> set (ownedBackups m dir). ob_sequence a < ob_sequence b"
    and prune: "pruneAutomatic m io name (dir @ [(name, Snapshot d)]) = (e, dir')"
  shows "(name, Snapshot d) \<in> set dir'" "set dir' \<subseteq> insert (name, Snapshot d) (set dir)" "distinct (map fst dir')"
    "\<forall>x \<in> set dir. x \<notin> set dir' \<longrightarrow> (\<exists>a \<in> set (automatic_backups m dir). ob_name a = fst x
       \<and> (\<forall>c \<in> set (automatic_backups m dir'). ob_sequence a \<le> ob_sequence c))"
    "e = [] \<longrightarrow> int (length (automatic_backups m dir')) \<le> bm_retention m"
proof -
  let ?D = "dir @ [(name, Snapshot d)]"
  have name: "ob_name b = name" using owned_entry_name [OF entry(1)] by simp
  have owned: "set (ownedBackups m ?D) = insert b (set (ownedBackups m dir))" by (rule owned_append [OF entry(1)])
  then have auto: "set (automatic_backups m ?D) = insert b (set (automatic_backups m dir))"
    using entry(2) by (auto simp: automatic_set)
  have dist: "distinct (map fst ?D)" using assms(1,2) by auto
  have names: "ob_name a \<in> fst ` set dir" if "a \<in> set (ownedBackups m dir)" for a
    using that owned_entry_name by (force simp: owned_iff)
  have new: "\<forall>a \<in> set (automatic_backups m ?D). ob_name a = name \<longrightarrow> (\<forall>c \<in> set (automatic_backups m ?D). ob_sequence c \<le> ob_sequence a)"
    using names assms(2) newest unfolding auto by (auto simp: automatic_set less_imp_le)
  have cur: "name \<in> ob_name ` set (automatic_backups m ?D)" using name by (simp add: auto)
  from pruneAutomatic_outcome [OF dist assms(3) prune new cur]
  obtain gone where g: "gone \<subseteq> set (automatic_backups m ?D)" "name \<notin> ob_name ` gone"
    and dir': "dir' = filter (\<lambda>x. fst x \<notin> ob_name ` gone) ?D"
    and old: "\<forall>a \<in> gone. \<forall>c \<in> set (automatic_backups m dir'). ob_sequence a \<le> ob_sequence c"
    and len: "e = [] \<longrightarrow> int (length (automatic_backups m dir')) \<le> bm_retention m" by blast
  show "(name, Snapshot d) \<in> set dir'" "set dir' \<subseteq> insert (name, Snapshot d) (set dir)"
    using g(2) by (auto simp: dir')
  show "distinct (map fst dir')" using dist unfolding dir' by (rule distinct_map_filter)
  show "e = [] \<longrightarrow> int (length (automatic_backups m dir')) \<le> bm_retention m" by (rule len)
  show "\<forall>x \<in> set dir. x \<notin> set dir' \<longrightarrow> (\<exists>a \<in> set (automatic_backups m dir). ob_name a = fst x
       \<and> (\<forall>c \<in> set (automatic_backups m dir'). ob_sequence a \<le> ob_sequence c))"
  proof (intro ballI impI)
    fix x assume "x \<in> set dir" "x \<notin> set dir'"
    then obtain a where a: "a \<in> gone" "ob_name a = fst x" by (auto simp: dir')
    then have "a \<in> set (automatic_backups m dir)" using g name by (auto simp: auto)
    with a old show "\<exists>a \<in> set (automatic_backups m dir). ob_name a = fst x
       \<and> (\<forall>c \<in> set (automatic_backups m dir'). ob_sequence a \<le> ob_sequence c)" by blast
  qed
qed

lemma backup_complete:
  assumes "distinct (map fst dir)" "timestamp_shape now" "timestamp_valid now" "1 \<le> bm_retention m" "ver \<le> int64_max"
    and "Create m ck io pe now d ver dir = (name, err, dir')" "name \<noteq> []"
  shows "name \<notin> fst ` set dir \<and> map_of dir' name = Some (Snapshot d)
       \<and> (\<exists>b. parseOwnedBackup m name = Some b \<and> ob_kind b = automaticBackupKind \<and> ob_schemaVersion b = ver
            \<and> (\<forall>a \<in> set (ownedBackups m dir). ob_sequence a < ob_sequence b))
       \<and> (\<forall>x \<in> set dir. x \<notin> set dir' \<longrightarrow> (\<exists>a \<in> set (automatic_backups m dir). ob_name a = fst x
            \<and> (\<forall>c \<in> set (automatic_backups m dir'). ob_sequence a \<le> ob_sequence c)))
       \<and> set dir' \<subseteq> insert (name, Snapshot d) (set dir)
       \<and> (err = [] \<longrightarrow> int (length (automatic_backups m dir')) \<le> bm_retention m)"
proof -
  from assms(7) create_taken [OF assms(6) [unfolded Create_def]]
  obtain sq where "0 \<le> ver" and new: "name \<notin> fst ` set dir"
    and sq: "maximumSequence (ownedBackups m dir) < sq" "sq \<le> max_sequence" "name = backupFilename m automaticBackupKind now sq ver"
    and prune: "pruneAutomatic m io name (dir @ [(name, Snapshot d)]) = (err, dir')" by auto
  obtain b where b: "parseOwnedBackup m name = Some b" "ob_kind b = automaticBackupKind" "ob_schemaVersion b = ver" "ob_sequence b = sq"
    using parse_filename [of automaticBackupKind now sq ver m] assms(2,3,5) \<open>0 \<le> ver\<close> sq by auto
  have newest: "\<forall>a \<in> set (ownedBackups m dir). ob_sequence a < ob_sequence b"
    using maximumSequence_ge sq(1) b(4) by fastforce
  have entry: "owned_entry m (name, Snapshot d) = Some b" using b(1) by (simp add: owned_entry_def)
  note p = pruneAutomatic_new [OF assms(1) new assms(4) entry b(2) newest prune]
  have "map_of dir' name = Some (Snapshot d)" using p(1,3) by (rule map_of_is_SomeI [rotated])
  then show ?thesis using p assms(7) new b newest by blast
qed

text \<open>
  C36. A migration backup is complete or absent. \<open>Create\<close> either returns no name with an error, and the
  backup directory is then as it was as long as files can be removed; or it returns the name of a file that
  was not there before and that now holds the whole database. That name is recognised as an automatic backup
  of this schema version, with a sequence number above that of every snapshot that was there. What pruning
  removed are automatic backups, none of them newer than one that stays; nothing else in the directory is
  touched; and without an error at most the retained number of automatic backups is left.
\<close>

theorem migration_backup:
  assumes "distinct (map fst dir)" "timestamp_shape now" "timestamp_valid now" "1 \<le> bm_retention m" "ver \<le> int64_max"
    and "Create m ck io pe now d ver dir = (name, err, dir')"
  shows "(name = [] \<longrightarrow> err \<noteq> [] \<and> ((\<forall>n. io (''remove '' @ n) = None) \<longrightarrow> dir' = dir))
    \<and> (name \<noteq> [] \<longrightarrow> name \<notin> fst ` set dir \<and> map_of dir' name = Some (Snapshot d)
       \<and> (\<exists>b. parseOwnedBackup m name = Some b \<and> ob_kind b = automaticBackupKind \<and> ob_schemaVersion b = ver
            \<and> (\<forall>a \<in> set (ownedBackups m dir). ob_sequence a < ob_sequence b))
       \<and> (\<forall>x \<in> set dir. x \<notin> set dir' \<longrightarrow> (\<exists>a \<in> set (automatic_backups m dir). ob_name a = fst x
            \<and> (\<forall>c \<in> set (automatic_backups m dir'). ob_sequence a \<le> ob_sequence c)))
       \<and> set dir' \<subseteq> insert (name, Snapshot d) (set dir)
       \<and> (err = [] \<longrightarrow> int (length (automatic_backups m dir')) \<le> bm_retention m))"
proof (cases "name = []")
  case True
  then show ?thesis using create_taken [OF assms(6) [unfolded Create_def]] by (auto simp: filename_nonempty [symmetric])
next
  case False
  then show ?thesis using backup_complete [OF assms False] by blast
qed

text \<open>
  A manual backup never costs another one: with a name, the directory is what it was with the one new file
  holding the whole database, whose name is recognised as a manual backup of this version and which pruning
  therefore never takes; without one, nothing stays behind as long as the reserved file can be removed.
\<close>

lemma manual_backup:
  assumes "timestamp_shape now" "timestamp_valid now" "ver \<le> int64_max"
    and "CreateManual m ck io pe now d ver dir = (name, err, dir')"
  shows "(name = [] \<longrightarrow> err \<noteq> [] \<and> ((\<forall>n. io (''remove '' @ n) = None) \<longrightarrow> dir' = dir))
    \<and> (name \<noteq> [] \<longrightarrow> err = [] \<and> name \<notin> fst ` set dir \<and> dir' = dir @ [(name, Snapshot d)]
       \<and> name \<notin> ob_name ` set (automatic_backups m dir')
       \<and> (\<exists>b. parseOwnedBackup m name = Some b \<and> ob_kind b = manualBackupKind \<and> ob_schemaVersion b = ver
            \<and> (\<forall>a \<in> set (ownedBackups m dir). ob_sequence a < ob_sequence b)))"
proof (cases "name = []")
  case True
  then show ?thesis using create_taken [OF assms(4) [unfolded CreateManual_def]] by (auto simp: filename_nonempty filename_nonempty [symmetric])
next
  case False
  with create_taken [OF assms(4) [unfolded CreateManual_def]]
  obtain sq where "0 \<le> ver" and new: "name \<notin> fst ` set dir" "err = []" "dir' = dir @ [(name, Snapshot d)]"
    and sq: "maximumSequence (ownedBackups m dir) < sq" "sq \<le> max_sequence" "name = backupFilename m manualBackupKind now sq ver"
    by auto
  obtain b where b: "parseOwnedBackup m name = Some b" "ob_kind b = manualBackupKind" "ob_schemaVersion b = ver" "ob_sequence b = sq"
    using parse_filename [of manualBackupKind now sq ver m] assms(1-3) \<open>0 \<le> ver\<close> sq by auto
  have newest: "\<forall>a \<in> set (ownedBackups m dir). ob_sequence a < ob_sequence b"
    using maximumSequence_ge sq(1) b(4) by fastforce
  have "name \<notin> ob_name ` set (automatic_backups m dir')"
  proof
    assume "name \<in> ob_name ` set (automatic_backups m dir')"
    then obtain a where a: "ob_name a = name" "ob_kind a = automaticBackupKind" "a \<in> set (ownedBackups m dir')"
      by (auto simp: automatic_set)
    then have "parseOwnedBackup m name = Some a" by (auto simp: owned_iff owned_entry_def parse_name split: if_splits)
    with b a(2) show False by (simp add: automaticBackupKind_def manualBackupKind_def)
  qed
  then show ?thesis using False new b newest by blast
qed

subsection \<open>Witnesses\<close>

definition sample_checks :: "unit checks" where
  "sample_checks = \<lparr>ck_quick = (\<lambda>d. [''ok'']), ck_integrity = (\<lambda>d. [''ok'']), ck_violation = (\<lambda>d. False)\<rparr>"

definition sample_db :: "unit sqlite" where
  "sample_db = \<lparr>sq_application_id = 0x494B4341, sq_schema = [(''table'', ''users''), (''table'', ''goose_db_version'')],
     sq_columns = [], sq_versions = [\<lparr>gv_version = Some 3, gv_applied = Some 1, gv_versionType = ''integer'',
     gv_appliedType = ''integer''\<rparr>], sq_content = ()\<rparr>"

definition sample_manager :: BackupManager where
  "sample_manager = \<lparr>bm_dbPath = ''/d/a.db'', bm_backupDir = ''/d/backups/a'', bm_retention = 1\<rparr>"

definition sample_now :: string where
  "sample_now = ''20260102T030405.000000000Z''"

definition sample_old :: string where
  "sample_old = backupFilename sample_manager automaticBackupKind ''20250102T030405.000000000Z'' 1 2"

definition sample_dir :: "unit backup_dir" where
  "sample_dir = [(sample_old, Snapshot sample_db)]"

definition sample_new :: "string \<Rightarrow> string" where
  "sample_new kind = backupFilename sample_manager kind sample_now 2 3"

lemma sample_timestamps:
  "timestamp_shape sample_now" "timestamp_valid sample_now"
  "timestamp_shape ''20250102T030405.000000000Z''" "timestamp_valid ''20250102T030405.000000000Z''"
  by (simp_all add: sample_now_def timestamp_shape_def timestamp_valid_def is_ascii_digit_def byte_def digits_val_def days_in_def
      digit_val_def numeral_eq_Suc)

lemma sample_owned:
  "ownedBackups sample_manager sample_dir = [\<lparr>ob_name = sample_old, ob_kind = automaticBackupKind,
     ob_timestamp = ''20250102T030405.000000000Z'', ob_sequence = 1, ob_schemaVersion = 2\<rparr>]"
  using parse_filename [of automaticBackupKind "''20250102T030405.000000000Z''" 1 2 sample_manager] sample_timestamps
  by (simp add: ownedBackups_def sample_dir_def owned_entry_def sample_old_def map_filter_simps max_sequence_def
      int64_max_def)

lemma sample_new_free:
  assumes "kind \<in> {automaticBackupKind, manualBackupKind}"
  shows "sample_new kind \<notin> fst ` set sample_dir"
proof
  assume "sample_new kind \<in> fst ` set sample_dir"
  then have "parseOwnedBackup sample_manager (sample_new kind) = parseOwnedBackup sample_manager sample_old"
    by (simp add: sample_dir_def)
  then show False
    using parse_filename [of automaticBackupKind "''20250102T030405.000000000Z''" 1 2 sample_manager]
      parse_filename [of kind sample_now 2 3 sample_manager] assms sample_timestamps
    by (simp add: sample_new_def sample_old_def max_sequence_def int64_max_def)
qed

lemma prune_unhindered: "fst (pruneAutomatic m (\<lambda>_. None) current dir) = []"
proof -
  have "fst (prune_loop (\<lambda>_. None) current n bs dir) = []" for n bs dir
    by (induction "\<lambda>_::string. None::string option" current n bs dir rule: prune_loop.induct) (simp_all add: remove_entry_def)
  then show ?thesis by (simp add: pruneAutomatic_def Let_def)
qed

lemma sample_create:
  assumes "kind \<in> {automaticBackupKind, manualBackupKind}"
  shows "fst (create sample_manager sample_checks (\<lambda>_. None) [] sample_now kind prune sample_db 3 sample_dir) = sample_new kind
    \<and> fst (snd (create sample_manager sample_checks (\<lambda>_. None) [] sample_now kind prune sample_db 3 sample_dir)) = []"
proof -
  note files = sample_db_def InspectDatabaseIdentity_def readGooseSchemaVersion_def user_object_def application_table_def
    goose_table_def history_tables_def SQLiteApplicationID_def Let_def
  have valid: "validateSource (\<lambda>_. None) [] sample_db 3 = []" by (simp add: validateSource_def files)
  have verified: "verifyDatabaseFile sample_checks (snapshot_io (\<lambda>_. None)) (Some (Snapshot sample_db)) 3 = []"
    by (simp add: verifyDatabaseFile_def snapshot_io_def QuickCheck_def sample_checks_def files)
  have new: "sample_new kind \<notin> fst ` set sample_dir" by (rule sample_new_free [OF assms])
  have "reserve_loop sample_manager (\<lambda>_. None) kind sample_now 3 sample_dir 2 = Inr (sample_new kind)"
    using new by (subst reserve_loop.simps) (simp add: Let_def sample_new_def)
  then have "reserveBackup sample_manager (\<lambda>_. None) kind sample_now 3 sample_dir
      = (Inr (sample_new kind), sample_dir @ [(sample_new kind, EmptyFile)])"
    by (simp add: reserveBackup_def sample_owned maximumSequence_def max_sequence_def Let_def Suc_1 del: One_nat_def)
  moreover have "map (\<lambda>x. if fst x = sample_new kind then (sample_new kind, Snapshot sample_db) else x)
      (sample_dir @ [(sample_new kind, EmptyFile)]) = sample_dir @ [(sample_new kind, Snapshot sample_db)]"
    using new by (force intro: map_idI)
  moreover have "map_of (sample_dir @ [(sample_new kind, Snapshot sample_db)]) (sample_new kind) = Some (Snapshot sample_db)"
    using new by (simp add: map_add_Some_iff map_of_eq_None_iff)
  ultimately show ?thesis using valid verified
    by (simp add: create_def Let_def split_beta prune_unhindered del: map_of_append map_append)
qed

lemma migration_backup_witness:
  "map_of (snd (snd (Create sample_manager sample_checks (\<lambda>_. None) [] sample_now sample_db 3 sample_dir)))
     (sample_new automaticBackupKind) = Some (Snapshot sample_db)"
proof -
  have "distinct (map fst sample_dir)" "1 \<le> bm_retention sample_manager" "(3::int) \<le> int64_max"
    by (simp_all add: sample_dir_def sample_manager_def int64_max_def)
  moreover obtain name err dir' where c: "Create sample_manager sample_checks (\<lambda>_. None) [] sample_now sample_db 3 sample_dir
      = (name, err, dir')" by (metis prod.collapse)
  ultimately have "name \<noteq> [] \<longrightarrow> map_of dir' name = Some (Snapshot sample_db)"
    using migration_backup [OF _ sample_timestamps(1,2) _ _ c] by blast
  moreover have "name = sample_new automaticBackupKind" using sample_create [of automaticBackupKind True] c by (simp add: Create_def)
  ultimately show ?thesis using c filename_nonempty by (simp add: sample_new_def)
qed

lemma manual_backup_witness:
  "length (snd (snd (CreateManual sample_manager sample_checks (\<lambda>_. None) [] sample_now sample_db 3 sample_dir))) = 2"
proof -
  obtain name err dir' where c: "CreateManual sample_manager sample_checks (\<lambda>_. None) [] sample_now sample_db 3 sample_dir
      = (name, err, dir')" by (metis prod.collapse)
  have "name = sample_new manualBackupKind" using sample_create [of manualBackupKind False] c by (simp add: CreateManual_def)
  then have "name \<noteq> []" using filename_nonempty by (simp add: sample_new_def)
  then show ?thesis using manual_backup [OF sample_timestamps(1,2) _ c] c by (simp add: sample_dir_def int64_max_def)
qed

end
