(* ===== verification/PreparationProps.thy ===== *)
theory PreparationProps
  imports Preparation BackupProps
begin

text \<open>
  What preparing a database guarantees.
\<close>

text \<open>Documented of the provider: it creates its table when that is missing, and otherwise only reads.\<close>

definition provider_reads :: "'c provider \<Rightarrow> bool" where
  "provider_reads m \<longleftrightarrow> (\<forall>d. history_tables d > 0 \<longrightarrow> snd (pv_versions m d) = d \<and> snd (pv_status m d) = d)"

lemma Status_reads: "provider_reads m \<Longrightarrow> history_tables d > 0 \<Longrightarrow> snd (Status m d) = d"
  unfolding provider_reads_def
  by (auto simp: Status_def split: prod.splits sum.splits if_splits dest: spec [of _ d])

subsection \<open>Inspection\<close>

lemma identity_released:
  assumes "InspectDatabaseIdentity io d = (identity, [])"
  shows "identity = \<lparr>id_Fresh = (sq_application_id d = 0 \<and> filter user_object (sq_schema d) = []), id_ApplicationID = sq_application_id d,
      id_UserObjects = length (filter user_object (sq_schema d)),
      id_ApplicationTables = length (filter application_table (sq_schema d)), id_HasMigrationHistory = (history_tables d > 0)\<rparr>"
    "\<not> id_Fresh identity \<Longrightarrow> history_tables d > 0 \<and> sq_application_id d = SQLiteApplicationID"
  using assms by (auto simp: InspectDatabaseIdentity_def Let_def zero_identity_def split: option.splits if_splits)

lemma bootstrap_rows_Inl: "bootstrap_rows rs = Inl x \<Longrightarrow> \<not> fst x"
  by (induction rs) (auto split: if_splits sum.splits)

lemma bootstrap_shell:
  assumes "inspectRetryableGooseBootstrap io d = (True, e)"
  shows "sq_application_id d = 0" "length (filter user_object (sq_schema d)) = 1" "history_tables d = 1"
  using assms
  by (auto simp: inspectRetryableGooseBootstrap_def split: option.splits if_splits sum.splits dest!: bootstrap_rows_Inl)

lemma history_user_object: "history_tables d > 0 \<Longrightarrow> filter user_object (sq_schema d) \<noteq> []"
proof -
  assume "history_tables d > 0"
  then have "filter (\<lambda>x. fst x = ''table'' \<and> snd x = goose_table) (sq_schema d) \<noteq> []" by (simp add: history_tables_def)
  then obtain x where "x \<in> set (sq_schema d)" "snd x = goose_table" by (auto simp: filter_empty_conv)
  then show ?thesis by (auto simp: filter_empty_conv user_object_def goose_table_def intro!: bexI [of _ x])
qed

lemma preparationStatus_reads:
  assumes "provider_reads m" "id_Fresh identity \<or> history_tables d > 0"
  shows "snd (preparationStatus m identity rb d) = d"
  using Status_reads [OF assms(1), of d] assms(2) by (auto simp: preparationStatus_def split: prod.splits)

text \<open>The identity and the mark of the bootstrap shell, with the errors that stop the inspection.\<close>

definition inspected :: "io \<Rightarrow> 'c sqlite \<Rightarrow> DatabaseIdentity \<times> bool \<times> st_error" where
  "inspected io d =
     (let (identity, identityErr) = InspectDatabaseIdentity io d;
          (retryable, bootstrapErr) = (if ErrUnrecognizedDatabase \<in> set identityErr then inspectRetryableGooseBootstrap io d else (False, []))
      in (identity, retryable, if bootstrapErr \<noteq> [] then identityErr @ bootstrapErr else if retryable then [] else identityErr))"

lemma inspected_cases:
  assumes "inspected io d = (identity, rb, [])"
  shows "(rb \<and> history_tables d = 1 \<and> sq_application_id d = 0 \<and> length (filter user_object (sq_schema d)) = 1 \<and> \<not> id_Fresh identity)
     \<or> (\<not> rb \<and> InspectDatabaseIdentity io d = (identity, []))"
proof -
  obtain ident ierr where i: "InspectDatabaseIdentity io d = (ident, ierr)" by fastforce
  obtain r berr where b: "(if ErrUnrecognizedDatabase \<in> set ierr then inspectRetryableGooseBootstrap io d else (False, [])) = (r, berr)"
    by fastforce
  have eq: "identity = ident" "rb = r" "berr = []" "r \<or> ierr = []"
    using assms i b by (auto simp: inspected_def split: if_splits)
  show ?thesis
  proof (cases r)
    case True
    with b have un: "ErrUnrecognizedDatabase \<in> set ierr" and shell: "inspectRetryableGooseBootstrap io d = (True, berr)"
      by (auto split: if_splits)
    have "\<not> id_Fresh ident" using i un by (auto simp: InspectDatabaseIdentity_def Let_def zero_identity_def split: option.splits if_splits)
    then show ?thesis using bootstrap_shell [OF shell] True eq by simp
  next
    case False
    then show ?thesis using eq i by simp
  qed
qed

lemma inspectPreparation_eq:
  "inspectPreparation m io d =
     (let (identity, rb, err) = inspected io d;
          inspection = \<lparr>pi_identity = identity, pi_status = zero_status, pi_retryableBootstrap = rb\<rparr>
      in if err \<noteq> [] then ((inspection, err), d)
         else case preparationStatus m identity rb d of
           ((status, err), d) \<Rightarrow>
             let inspection = inspection\<lparr>pi_status := status\<rparr> in
             if err \<noteq> [] then ((inspection, err), d)
             else if ms_Current status > ms_Target status then ((inspection, [ErrSchemaTooNew]), d)
             else if \<not> id_Fresh identity \<and> \<not> rb \<and> ms_Current status = 0 then ((inspection, [ErrSchemaNotReady]), d)
             else ((inspection, []), d))"
  by (auto simp: inspectPreparation_def inspected_def Let_def split: prod.splits)

lemma inspected_readable:
  assumes "inspected io d = (identity, rb, [])"
  shows "id_Fresh identity \<or> history_tables d > 0"
  using inspected_cases [OF assms] identity_released(2) by fastforce

lemma inspectPreparation_reads:
  assumes "provider_reads m"
  shows "snd (inspectPreparation m io d) = d"
proof -
  obtain identity rb err where i: "inspected io d = (identity, rb, err)" by (metis prod.collapse)
  show ?thesis
  proof (cases "err = []")
    case True
    then show ?thesis using preparationStatus_reads [OF assms inspected_readable [OF i [unfolded True]], of rb] i
      by (auto simp: inspectPreparation_eq Let_def split: prod.splits)
  qed (simp add: inspectPreparation_eq i Let_def)
qed

text \<open>What an accepted inspection says.\<close>

lemma inspectPreparation_accepts:
  assumes "inspectPreparation m io d = ((insp, []), d1)"
  shows "inspected io d = (pi_identity insp, pi_retryableBootstrap insp, [])
    \<and> preparationStatus m (pi_identity insp) (pi_retryableBootstrap insp) d = ((pi_status insp, []), d1)
    \<and> ms_Current (pi_status insp) \<le> ms_Target (pi_status insp)
    \<and> (\<not> id_Fresh (pi_identity insp) \<and> \<not> pi_retryableBootstrap insp \<longrightarrow> ms_Current (pi_status insp) \<noteq> 0)"
  using assms by (auto simp: inspectPreparation_eq Let_def split: prod.splits if_splits)

subsection \<open>Migrating\<close>

lemma RequireCurrentSchema_iff:
  "RequireCurrentSchema identity status = [] \<longleftrightarrow>
     \<not> id_Fresh identity \<and> id_ApplicationID identity = SQLiteApplicationID \<and> id_ApplicationTables identity \<noteq> 0
     \<and> id_HasMigrationHistory identity \<and> ms_Current status = ms_Target status \<and> ms_Pending status = []"
  by (auto simp: RequireCurrentSchema_def)

lemma Up_failure: "Up m d = ((r, Some f), d') \<Longrightarrow> unwrap_failure f \<noteq> []"
  by (auto simp: Up_def Let_def split: prod.splits if_splits option.splits goose_up_error.splits)

lemma failAfterMutation_result:
  assumes "failAfterMutation m io r primary d = ((res, err), d')"
  shows "primary \<noteq> [] \<longrightarrow> err \<noteq> []" "pr_BackupPath res = pr_BackupPath r"
  using assms by (auto simp: failAfterMutation_def refreshAfterMutation_def Let_def split: prod.splits if_splits)

lemma migrate_outcome:
  assumes "migrate m ck io r d = ((res, err), d')"
  shows "pr_BackupPath res = pr_BackupPath r"
    and "err = [] \<longrightarrow> RequireCurrentSchema (pr_Identity res) (pr_After res) = []
       \<and> InspectDatabaseIdentity (io 1) d' = (pr_Identity res, [])
       \<and> ForeignKeyCheck ck (io 1) (snd (Up m d)) = [] \<and> QuickCheck ck (io 1) (snd (Up m d)) = []
       \<and> Status m (snd (Up m d)) = ((pr_After res, []), d')"
proof -
  obtain mig f d1 where up: "Up m d = ((mig, f), d1)" by (metis prod.collapse)
  let ?r1 = "r\<lparr>pr_Migration := mig\<rparr>"
  obtain status serr d2 where st: "Status m d1 = ((status, serr), d2)" by (metis prod.collapse)
  obtain ident ierr where id: "InspectDatabaseIdentity (io 1) d2 = (ident, ierr)" by fastforce
  have "pr_BackupPath res = pr_BackupPath r \<and> (err = [] \<longrightarrow> RequireCurrentSchema (pr_Identity res) (pr_After res) = []
       \<and> InspectDatabaseIdentity (io 1) d' = (pr_Identity res, [])
       \<and> ForeignKeyCheck ck (io 1) d1 = [] \<and> QuickCheck ck (io 1) d1 = [] \<and> Status m d1 = ((pr_After res, []), d'))"
  proof (cases "f = None \<and> ForeignKeyCheck ck (io 1) d1 = [] \<and> QuickCheck ck (io 1) d1 = [] \<and> serr = [] \<and> ierr = []
      \<and> RequireCurrentSchema ident status = []")
    case True
    with assms up st id show ?thesis by (auto simp: migrate_def Let_def)
  next
    case False
    have "\<exists>r2 primary d3. failAfterMutation m (io 2) r2 primary d3 = ((res, err), d') \<and> primary \<noteq> [] \<and> pr_BackupPath r2 = pr_BackupPath r"
    proof (cases f)
      case (Some g)
      with assms up Up_failure [of m d mig g d1] show ?thesis by (fastforce simp: migrate_def Let_def)
    next
      case None
      with assms up st id False show ?thesis
        by (auto simp: migrate_def Let_def split: if_splits) (fastforce+)?
    qed
    then show ?thesis using failAfterMutation_result by metis
  qed
  then show "pr_BackupPath res = pr_BackupPath r"
    "err = [] \<longrightarrow> RequireCurrentSchema (pr_Identity res) (pr_After res) = []
       \<and> InspectDatabaseIdentity (io 1) d' = (pr_Identity res, [])
       \<and> ForeignKeyCheck ck (io 1) (snd (Up m d)) = [] \<and> QuickCheck ck (io 1) (snd (Up m d)) = []
       \<and> Status m (snd (Up m d)) = ((pr_After res, []), d')"
    using up by simp_all
qed

subsection \<open>Preparing\<close>

text \<open>The runs of \<open>Prepare\<close> past the inspection: nothing to do, or a migration, after a backup when there is data.\<close>

lemma Prepare_cases:
  assumes "Prepare m bm ck io gateErr pathErr now d dir = ((res, err), d', dir')" "provider_reads m"
  obtains (refused) "d' = d" "dir' = dir" "err \<noteq> []" "pr_BackupPath res = ''''"
  | (current) insp where "inspectPreparation m (io 0) d = ((insp, []), d)" "d' = d" "dir' = dir" "pr_BackupPath res = ''''"
      "pr_Identity res = pi_identity insp" "pr_After res = pi_status insp" "ms_Pending (pi_status insp) = []"
      "configure (io 0) = []"
      "err = [] \<longrightarrow> RequireCurrentSchema (pi_identity insp) (pi_status insp) = [] \<and> ForeignKeyCheck ck (io 0) d = []
         \<and> QuickCheck ck (io 0) d = []"
  | (backup_failed) insp where "inspectPreparation m (io 0) d = ((insp, []), d)" "d' = d" "err \<noteq> []" "ms_Current (pi_status insp) > 0"
      "Create bm ck (\<lambda>op. io 0 (''backup '' @ op)) (pathErr 1) now d (ms_Current (pi_status insp)) dir = (pr_BackupPath res, err, dir')"
  | (migrated) insp r where "inspectPreparation m (io 0) d = ((insp, []), d)" "ms_Pending (pi_status insp) \<noteq> []"
      "migrate m ck io r d = ((res, err), d')"
      "if ms_Current (pi_status insp) > 0
       then Create bm ck (\<lambda>op. io 0 (''backup '' @ op)) (pathErr 1) now d (ms_Current (pi_status insp)) dir = (pr_BackupPath r, [], dir')
       else pr_BackupPath r = '''' \<and> dir' = dir"
proof -
  obtain insp ierr d0 where "inspectPreparation m (io 0) d = ((insp, ierr), d0)" by (metis prod.collapse)
  moreover from this have "d0 = d" using inspectPreparation_reads [OF assms(2), of "io 0" d] by simp
  ultimately have insp: "inspectPreparation m (io 0) d = ((insp, ierr), d)" by simp
  obtain name berr dir1 where c: "Create bm ck (\<lambda>op. io 0 (''backup '' @ op)) (pathErr 1) now d (ms_Current (pi_status insp)) dir
      = (name, berr, dir1)" by (metis prod.collapse)
  note body = assms(1) [unfolded Prepare_def insp]
  consider (early) "gateErr \<noteq> [] \<or> pathErr 0 \<noteq> [] \<or> ierr \<noteq> [] \<or> configure (io 0) \<noteq> []"
    | (nothing) "gateErr = []" "pathErr 0 = []" "ierr = []" "configure (io 0) = []" "ms_Pending (pi_status insp) = []"
    | (data) "gateErr = []" "pathErr 0 = []" "ierr = []" "configure (io 0) = []" "ms_Pending (pi_status insp) \<noteq> []" "ms_Current (pi_status insp) > 0"
    | (shell) "gateErr = []" "pathErr 0 = []" "ierr = []" "configure (io 0) = []" "ms_Pending (pi_status insp) \<noteq> []" "\<not> ms_Current (pi_status insp) > 0"
    by blast
  then show thesis
  proof cases
    case early
    with body show ?thesis by (intro refused) (auto simp: Let_def empty_result_def split: if_splits)
  next
    case nothing
    with body insp show ?thesis by (intro current [of insp]) (auto simp: Let_def split: if_splits)
  next
    case data
    show ?thesis
    proof (cases "QuickCheck ck (io 0) d = []")
      case False
      with body data show ?thesis by (intro refused) (auto simp: Let_def)
    next
      case quick: True
      show ?thesis
      proof (cases "berr = []")
        case False
        with body data quick c insp show ?thesis by (intro backup_failed [of insp]) (auto simp: Let_def)
      next
        case True
        let ?r = "\<lparr>pr_Before = pi_status insp, pr_After = pi_status insp,
                pr_Migration = \<lparr>mr_From = ms_Current (pi_status insp), mr_To = ms_Current (pi_status insp), mr_Applied = []\<rparr>,
                pr_BackupPath = name, pr_Identity = pi_identity insp\<rparr>"
        from True body data quick c insp show ?thesis
          by (intro migrated [of insp ?r]) (auto simp: Let_def split: prod.splits)
      qed
    qed
  next
    case shell
    let ?r = "\<lparr>pr_Before = pi_status insp, pr_After = pi_status insp,
            pr_Migration = \<lparr>mr_From = ms_Current (pi_status insp), mr_To = ms_Current (pi_status insp), mr_Applied = []\<rparr>,
            pr_BackupPath = '''', pr_Identity = pi_identity insp\<rparr>"
    from body shell insp show ?thesis by (intro migrated [of insp ?r]) (auto simp: Let_def split: prod.splits)
  qed
qed

lemma object_counts:
  "history_tables d + length (filter (\<lambda>x. user_object x \<and> snd x \<noteq> goose_table) (sq_schema d)) \<le> length (filter user_object (sq_schema d))"
proof -
  have "length (filter (\<lambda>x. fst x = ''table'' \<and> snd x = goose_table) S) + length (filter (\<lambda>x. user_object x \<and> snd x \<noteq> goose_table) S)
      \<le> length (filter user_object S)" for S
    by (induction S) (auto simp: user_object_def goose_table_def)
  then show ?thesis by (simp add: history_tables_def)
qed

lemma other_object:
  assumes "x \<in> set (sq_schema d)" "user_object x" "snd x \<noteq> goose_table"
  shows "history_tables d < length (filter user_object (sq_schema d))"
proof -
  have "filter (\<lambda>x. user_object x \<and> snd x \<noteq> goose_table) (sq_schema d) \<noteq> []" using assms by (auto simp: filter_empty_conv)
  then show ?thesis using object_counts [of d] by (cases "filter (\<lambda>x. user_object x \<and> snd x \<noteq> goose_table) (sq_schema d)") auto
qed

lemma released_inspection:
  assumes "inspectPreparation m io d = ((insp, []), d1)" "filter application_table (sq_schema d) \<noteq> []"
  shows "InspectDatabaseIdentity io d = (pi_identity insp, []) \<and> \<not> id_Fresh (pi_identity insp) \<and> history_tables d > 0
    \<and> Status m d = ((pi_status insp, []), d1) \<and> ms_Current (pi_status insp) \<noteq> 0"
proof -
  note acc = inspectPreparation_accepts [OF assms(1)]
  have count: "history_tables d < length (filter user_object (sq_schema d))"
    using assms(2) other_object [of _ d] by (auto simp: filter_empty_conv application_table_def)
  with inspected_cases [of io d "pi_identity insp" "pi_retryableBootstrap insp"] acc
  have id: "InspectDatabaseIdentity io d = (pi_identity insp, [])" and rb: "\<not> pi_retryableBootstrap insp" by auto
  have "\<not> id_Fresh (pi_identity insp)" using identity_released(1) [OF id] count by auto
  moreover from this have "history_tables d > 0" using identity_released(2) [OF id] by simp
  moreover have "Status m d = ((pi_status insp, []), d1)"
    using acc rb calculation(1) by (auto simp: preparationStatus_def split: prod.splits if_splits)
  ultimately show ?thesis using id acc rb by simp
qed

lemma Status_current:
  assumes "Status m d = ((status, []), d')"
  obtains c t d1 where "pv_versions m d = (Inr (c, t), d1)" "ms_Current status = c" "ms_Target status = t"
  using assms by (auto simp: Status_def split: prod.splits sum.splits if_splits)

lemma Prepare_success:
  assumes "provider_reads m"
    and "Prepare m bm ck io gateErr pathErr now d dir = ((res, []), d', dir')"
  shows "\<exists>p. RequireCurrentSchema (pr_Identity res) (pr_After res) = [] \<and> InspectDatabaseIdentity (io p) d' = (pr_Identity res, [])
      \<and> (history_tables (snd (Up m d)) > 0 \<longrightarrow> ForeignKeyCheck ck (io p) d' = [] \<and> QuickCheck ck (io p) d' = []
           \<and> Status m d' = ((pr_After res, []), d'))"
  using assms(2,1)
proof (cases rule: Prepare_cases)
  case (current insp)
  then have req: "RequireCurrentSchema (pi_identity insp) (pi_status insp) = []" by simp
  have "inspected (io 0) d = (pi_identity insp, pi_retryableBootstrap insp, [])"
    using inspectPreparation_accepts [OF current(1)] by blast
  moreover have "\<not> pi_retryableBootstrap insp"
  proof
    assume rb: "pi_retryableBootstrap insp"
    obtain ident ierr where i: "InspectDatabaseIdentity (io 0) d = (ident, ierr)" by fastforce
    from inspected_cases [OF calculation] rb have id0: "sq_application_id d = 0" by (auto dest: arg_cong [of _ _ fst])
    have "pi_identity insp = ident" using calculation i by (auto simp: inspected_def Let_def split: prod.splits)
    moreover have "id_ApplicationID ident = 0" using i id0
      by (auto simp: InspectDatabaseIdentity_def Let_def zero_identity_def split: option.splits if_splits)
    ultimately show False using req by (simp add: RequireCurrentSchema_iff SQLiteApplicationID_def)
  qed
  ultimately have "InspectDatabaseIdentity (io 0) d = (pi_identity insp, [])" using inspected_cases by blast
  moreover have "Status m d = ((pi_status insp, []), d)"
    using inspectPreparation_accepts [OF current(1)] req \<open>\<not> pi_retryableBootstrap insp\<close>
    by (auto simp: preparationStatus_def RequireCurrentSchema_iff split: prod.splits if_splits)
  ultimately show ?thesis using current req by (intro exI [of _ 0]) simp
next
  case (migrated insp r)
  note out = migrate_outcome(2) [OF migrated(3), THEN mp, OF refl]
  have "history_tables (snd (Up m d)) > 0 \<longrightarrow> snd (Up m d) = d'"
    using Status_reads [OF assms(1), of "snd (Up m d)"] out by auto
  then show ?thesis using out by (intro exI [of _ 1]) auto
qed auto

text \<open>
  A prepared database is current. When \<open>Prepare\<close> answers without an error, the schema it reports is the
  one the program needs: nothing is pending, the version is the target, and the reported identity is what an
  inspection of the database that is left finds: the application id of the program, its tables and the table
  of the migration tool. If the migrations left that table, this very database passed the foreign key check
  and the quick check.
\<close>

lemma prepared_is_current:
  assumes "provider_reads m"
    and "Prepare m bm ck io gateErr pathErr now d dir = ((res, []), d', dir')"
  shows "ms_Pending (pr_After res) = [] \<and> ms_Current (pr_After res) = ms_Target (pr_After res)
    \<and> (\<exists>p. InspectDatabaseIdentity (io p) d' = (pr_Identity res, [])
         \<and> (history_tables (snd (Up m d)) > 0 \<longrightarrow> ForeignKeyCheck ck (io p) d' = [] \<and> QuickCheck ck (io p) d' = []))
    \<and> sq_application_id d' = SQLiteApplicationID \<and> history_tables d' > 0 \<and> filter application_table (sq_schema d') \<noteq> []"
proof -
  from Prepare_success [OF assms] obtain p where p: "RequireCurrentSchema (pr_Identity res) (pr_After res) = []"
    "InspectDatabaseIdentity (io p) d' = (pr_Identity res, [])"
    and checked: "history_tables (snd (Up m d)) > 0 \<longrightarrow> ForeignKeyCheck ck (io p) d' = [] \<and> QuickCheck ck (io p) d' = []"
    by (elim exE conjE) simp
  have req: "\<not> id_Fresh (pr_Identity res)" "id_ApplicationTables (pr_Identity res) \<noteq> 0" "ms_Pending (pr_After res) = []"
    "ms_Current (pr_After res) = ms_Target (pr_After res)"
    using p(1) by (simp_all add: RequireCurrentSchema_iff)
  have ids: "history_tables d' > 0" "sq_application_id d' = SQLiteApplicationID" using identity_released(2) [OF p(2) req(1)] by simp_all
  have "id_ApplicationTables (pr_Identity res) = length (filter application_table (sq_schema d'))"
    by (subst identity_released(1) [OF p(2)]) simp
  with req(2) have "filter application_table (sq_schema d') \<noteq> []" by (metis list.size(3))
  then show ?thesis using req(3,4) ids p(2) checked by (intro conjI exI [of _ p])
qed

text \<open>
  Data is backed up before it is migrated. When \<open>Prepare\<close> changes a database that has application tables,
  whether it then succeeds or fails, it reports the name of a snapshot that was not there before and that
  holds the database exactly as it was, recognised as an automatic backup of the version it had, and no
  snapshot newer than one that is left was pruned for it.
\<close>

lemma backup_before_migration:
  assumes "provider_reads m" "\<forall>c t. fst (pv_versions m d) = Inr (c, t) \<longrightarrow> 0 \<le> c \<and> c \<le> int64_max"
    and "distinct (map fst dir)" "timestamp_shape now" "timestamp_valid now" "1 \<le> bm_retention bm"
    and "filter application_table (sq_schema d) \<noteq> []"
    and "Prepare m bm ck io gateErr pathErr now d dir = ((res, err), d', dir')" "d' \<noteq> d"
  shows "pr_BackupPath res \<noteq> [] \<and> pr_BackupPath res \<notin> fst ` set dir \<and> map_of dir' (pr_BackupPath res) = Some (Snapshot d)
    \<and> (\<exists>b c t. parseOwnedBackup bm (pr_BackupPath res) = Some b \<and> ob_kind b = automaticBackupKind
         \<and> fst (pv_versions m d) = Inr (c, t) \<and> ob_schemaVersion b = c)
    \<and> (\<forall>x \<in> set dir. x \<notin> set dir' \<longrightarrow> (\<exists>a \<in> set (automatic_backups bm dir). ob_name a = fst x
         \<and> (\<forall>b \<in> set (automatic_backups bm dir'). ob_sequence a \<le> ob_sequence b)))"
  using assms(8,1)
proof (cases rule: Prepare_cases)
  case (migrated insp r)
  note rel = released_inspection [OF migrated(1) assms(7)]
  from rel obtain c t d1 where v: "pv_versions m d = (Inr (c, t), d1)" "ms_Current (pi_status insp) = c"
    by (blast elim: Status_current)
  with rel assms(2) have c: "0 < c" "c \<le> int64_max" by auto
  with migrated(4) v(2) have create: "Create bm ck (\<lambda>op. io 0 (''backup '' @ op)) (pathErr 1) now d c dir = (pr_BackupPath r, [], dir')" by simp
  note out = create_taken [OF create [unfolded Create_def]]
  have "pr_BackupPath r \<noteq> []" using out by (auto simp: filename_nonempty filename_nonempty [symmetric])
  moreover have "pr_BackupPath res = pr_BackupPath r" by (rule migrate_outcome(1) [OF migrated(3)])
  ultimately show ?thesis using backup_complete [OF assms(3-6) c(2) create] v(1) by auto
qed (use assms(9) in auto)

text \<open>
  C37. A database of another program is left alone. A file whose application id is not that of the program,
  and which is not empty of it either (the id is set, or there is an object that is not the table of the
  migration tool), is refused by \<open>Prepare\<close>, by the inspection of an existing file and by the opening for
  maintenance; neither the file nor the backup directory changes, whatever the migration tool does.
\<close>

theorem foreign_database_untouched:
  assumes "sq_application_id d \<noteq> SQLiteApplicationID"
    and "sq_application_id d \<noteq> 0 \<or> (\<exists>x \<in> set (sq_schema d). user_object x \<and> snd x \<noteq> goose_table)"
    and "\<forall>p op. io p op = None"
  shows "\<exists>res. Prepare m bm ck io [] (\<lambda>_. []) now d dir = ((res, [ErrUnrecognizedDatabase]), d, dir)
      \<and> pr_BackupPath res = '''' \<and> mr_Applied (pr_Migration res) = []
      \<and> snd (snd (fst (InspectExistingEmbeddedPreparation m (io 0) d))) = [ErrUnrecognizedDatabase]
      \<and> check_for_maintenance m (io 0) d = ([ErrUnrecognizedDatabase], d)"
proof -
  have "sq_application_id d \<noteq> 0 \<or> length (filter user_object (sq_schema d)) \<noteq> 1 \<or> history_tables d \<noteq> 1"
    using assms(2) other_object [of _ d] by auto
  then have boot: "inspectRetryableGooseBootstrap (io 0) d = (False, [])"
    using assms(3) by (auto simp: inspectRetryableGooseBootstrap_def)
  have objects: "sq_application_id d = 0 \<Longrightarrow> filter user_object (sq_schema d) \<noteq> []"
    using assms(2) by (auto simp: filter_empty_conv)
  obtain identity where id: "InspectDatabaseIdentity (io 0) d = (identity, [ErrUnrecognizedDatabase])"
    using assms(1,3) objects by (auto simp: InspectDatabaseIdentity_def Let_def)
  have "inspectPreparation m (io 0) d
      = ((\<lparr>pi_identity = identity, pi_status = zero_status, pi_retryableBootstrap = False\<rparr>, [ErrUnrecognizedDatabase]), d)"
    by (simp add: inspectPreparation_def id boot Let_def)
  then show ?thesis
    by (simp add: Prepare_def InspectExistingEmbeddedPreparation_def check_for_maintenance_def Let_def)
qed

text \<open>
  A database of a newer program is refused. When the version a database is at lies above the last one the
  program knows, \<open>Prepare\<close>, \<open>Up\<close> and the opening for maintenance all answer that the schema is too new; no
  migration runs, no backup is taken and the database is as it was.
\<close>

lemma newer_schema_refused:
  assumes "sq_application_id d = SQLiteApplicationID" "filter application_table (sq_schema d) \<noteq> []" "history_tables d > 0"
    and "pv_versions m d = (Inr (current, target), d)" "target < current"
    and "\<forall>p op. io p op = None"
  shows "(\<exists>res. Prepare m bm ck io [] (\<lambda>_. []) now d dir = ((res, [ErrSchemaTooNew]), d, dir)
        \<and> ms_Current (pr_Before res) = current \<and> mr_Applied (pr_Migration res) = [])
    \<and> Up m d = ((\<lparr>mr_From = current, mr_To = current, mr_Applied = []\<rparr>, Some (UpRefused [ErrSchemaTooNew])), d)
    \<and> check_for_maintenance m (io 0) d = ([ErrSchemaTooNew], d)"
proof -
  have status: "Status m d = ((\<lparr>ms_Current = current, ms_Target = target, ms_Pending = []\<rparr>, []), d)"
    using assms(4,5) by (simp add: Status_def)
  obtain identity where id: "InspectDatabaseIdentity (io 0) d = (identity, [])" "\<not> id_Fresh identity"
    using assms(1-3,6) by (auto simp: InspectDatabaseIdentity_def Let_def SQLiteApplicationID_def)
  have insp: "inspectPreparation m (io 0) d
      = ((\<lparr>pi_identity = identity, pi_status = \<lparr>ms_Current = current, ms_Target = target, ms_Pending = []\<rparr>,
           pi_retryableBootstrap = False\<rparr>, [ErrSchemaTooNew]), d)"
    using assms(5) by (simp add: inspectPreparation_def id preparationStatus_def status Let_def)
  show ?thesis using assms(5)
    by (simp add: Prepare_def insp check_for_maintenance_def InspectExistingEmbeddedPreparation_def Up_def status Let_def)
qed

lemma checks_again:
  assumes "\<forall>op. io' op = None"
  shows "InspectDatabaseIdentity io d = (identity, []) \<Longrightarrow> InspectDatabaseIdentity io' d = (identity, [])"
    "ForeignKeyCheck ck io d = [] \<Longrightarrow> ForeignKeyCheck ck io' d = []" "QuickCheck ck io d = [] \<Longrightarrow> QuickCheck ck io' d = []"
  using assms by (auto simp: InspectDatabaseIdentity_def ForeignKeyCheck_def QuickCheck_def split: option.splits)

text \<open>
  Preparing is idempotent. After a run of \<open>Prepare\<close> without an error, a second run, in which no access
  fails, answers without an error as well: it takes no backup, applies nothing, reports the same identity and
  status, and leaves the database and the backup directory as they are.
\<close>

lemma prepare_idempotent:
  assumes "provider_reads m" "history_tables (snd (Up m d)) > 0"
    and "Prepare m bm ck io gateErr pathErr now d dir = ((res, []), d', dir')" "ms_Target (pr_After res) > 0"
    and "\<forall>p op. io' p op = None"
  shows "\<exists>res'. Prepare m bm ck io' [] (\<lambda>_. []) now' d' dir' = ((res', []), d', dir')
    \<and> pr_BackupPath res' = '''' \<and> pr_Identity res' = pr_Identity res \<and> pr_Before res' = pr_After res \<and> pr_After res' = pr_After res
    \<and> mr_Applied (pr_Migration res') = []"
proof -
  have none: "\<forall>op. io' 0 op = None" using assms(5) by simp
  from Prepare_success [OF assms(1,3)] assms(2) obtain p where req: "RequireCurrentSchema (pr_Identity res) (pr_After res) = []"
    and p: "InspectDatabaseIdentity (io p) d' = (pr_Identity res, [])" "ForeignKeyCheck ck (io p) d' = []" "QuickCheck ck (io p) d' = []"
    and status: "Status m d' = ((pr_After res, []), d')" by (elim exE conjE) simp
  have fresh: "\<not> id_Fresh (pr_Identity res)" and cur: "ms_Current (pr_After res) = ms_Target (pr_After res)"
    and pend: "ms_Pending (pr_After res) = []" using req by (simp_all add: RequireCurrentSchema_iff)
  note again = checks_again(1) [OF none p(1)] checks_again(2) [OF none p(2)] checks_again(3) [OF none p(3)]
  have "inspectPreparation m (io' 0) d'
      = ((\<lparr>pi_identity = pr_Identity res, pi_status = pr_After res, pi_retryableBootstrap = False\<rparr>, []), d')"
    using assms(4) by (simp add: inspectPreparation_def again(1) preparationStatus_def fresh status cur Let_def)
  moreover have "configure (io' 0) = []" using none by (simp add: configure_def)
  ultimately show ?thesis by (simp add: Prepare_def Let_def pend req again(2,3))
qed

subsection \<open>Witnesses\<close>

text \<open>A provider that knows versions one to four, on the sample database, which is at version three.\<close>

definition sample_version :: "unit sqlite \<Rightarrow> int" where
  "sample_version d = the (gv_version (last (sq_versions d)))"

definition sample_sources :: "goose_source list" where
  "sample_sources = map (\<lambda>(v, n). \<lparr>gs_Version = v, gs_Path = n\<rparr>) [(1, ''1.sql''), (2, ''2.sql''), (3, ''3.sql''), (4, ''4.sql'')]"

definition sample_provider :: "unit provider" where
  "sample_provider =
     \<lparr>pv_sources = sample_sources, pv_versions = (\<lambda>d. (Inr (sample_version d, 4), d)),
      pv_status = (\<lambda>d. (Inr (map (\<lambda>s. (s, gs_Version s > sample_version d)) sample_sources), d)),
      pv_up = (\<lambda>d. (([], None), d\<lparr>sq_versions := sq_versions d @ [\<lparr>gv_version = Some 4, gv_applied = Some 1,
        gv_versionType = ''integer'', gv_appliedType = ''integer''\<rparr>]\<rparr>))\<rparr>"

definition sample_up :: "unit sqlite" where
  "sample_up = snd (Up sample_provider sample_db)"

lemmas sample_files = sample_db_def sample_version_def sample_sources_def sample_provider_def
lemmas inspections = InspectDatabaseIdentity_def user_object_def application_table_def
    goose_table_def history_tables_def SQLiteApplicationID_def

lemma sample_reads: "provider_reads sample_provider"
  by (simp add: provider_reads_def sample_provider_def)

lemma sample_Status: "Status sample_provider sample_db
    = ((\<lparr>ms_Current = 3, ms_Target = 4, ms_Pending = [\<lparr>mi_Version = 4, mi_Name = filepath_Base ''4.sql''\<rparr>]\<rparr>, []), sample_db)"
  by (simp add: Status_def sample_files migrationInfo_def)

lemma sample_up_eq: "sample_up = sample_db\<lparr>sq_versions := sq_versions sample_db @ [\<lparr>gv_version = Some 4, gv_applied = Some 1,
        gv_versionType = ''integer'', gv_appliedType = ''integer''\<rparr>]\<rparr>" "history_tables sample_up = 1" "sample_up \<noteq> sample_db"
proof -
  show eq: "sample_up = sample_db\<lparr>sq_versions := sq_versions sample_db @ [\<lparr>gv_version = Some 4, gv_applied = Some 1,
        gv_versionType = ''integer'', gv_appliedType = ''integer''\<rparr>]\<rparr>"
    by (simp add: sample_up_def Up_def sample_Status) (simp add: sample_provider_def)
  show "history_tables sample_up = 1" "sample_up \<noteq> sample_db" by (simp_all add: eq sample_db_def history_tables_def goose_table_def)
qed

lemma sample_up_Status: "Status sample_provider sample_up = ((\<lparr>ms_Current = 4, ms_Target = 4, ms_Pending = []\<rparr>, []), sample_up)"
  by (simp add: Status_def sample_up_eq(1) sample_files)

lemma sample_Prepare:
  "\<exists>res dir'. Prepare sample_provider sample_manager sample_checks (\<lambda>_ _. None) [] (\<lambda>_. []) sample_now sample_db sample_dir
      = ((res, []), sample_up, dir') \<and> pr_After res = \<lparr>ms_Current = 4, ms_Target = 4, ms_Pending = []\<rparr>
     \<and> pr_BackupPath res = sample_new automaticBackupKind"
proof -
  obtain dir' where create: "Create sample_manager sample_checks (\<lambda>_. None) [] sample_now sample_db 3 sample_dir
      = (sample_new automaticBackupKind, [], dir')"
    using sample_create [of automaticBackupKind True] by (metis Create_def insertI1 prod.collapse)
  obtain identity where id: "InspectDatabaseIdentity (\<lambda>_. None) sample_db = (identity, [])" "\<not> id_Fresh identity"
    by (simp add: inspections sample_db_def Let_def)
  obtain identity' where id': "InspectDatabaseIdentity (\<lambda>_. None) sample_up = (identity', [])" "\<not> id_Fresh identity'"
    "id_ApplicationID identity' = SQLiteApplicationID" "id_ApplicationTables identity' \<noteq> 0" "id_HasMigrationHistory identity'"
    by (simp add: inspections sample_up_eq(1) sample_db_def Let_def)
  obtain mig where up: "Up sample_provider sample_db = ((mig, None), sample_up)"
    by (simp add: sample_up_def Up_def sample_Status) (simp add: sample_provider_def)
  have checks: "ForeignKeyCheck sample_checks (\<lambda>_. None) d = []" "QuickCheck sample_checks (\<lambda>_. None) d = []" for d
    by (simp_all add: ForeignKeyCheck_def QuickCheck_def sample_checks_def)
  have insp: "inspectPreparation sample_provider (\<lambda>_. None) sample_db
      = ((\<lparr>pi_identity = identity, pi_status = fst (fst (Status sample_provider sample_db)), pi_retryableBootstrap = False\<rparr>, []), sample_db)"
    by (simp add: inspectPreparation_def id preparationStatus_def sample_Status Let_def)
  show ?thesis
    by (simp add: Prepare_def insp sample_Status Let_def configure_def checks create migrate_def up sample_up_Status id'
        RequireCurrentSchema_def)
qed

lemma prepared_is_current_witness: "sq_application_id sample_up = SQLiteApplicationID \<and> history_tables sample_up > 0"
proof -
  obtain res dir' where p: "Prepare sample_provider sample_manager sample_checks (\<lambda>_ _. None) [] (\<lambda>_. []) sample_now sample_db sample_dir
      = ((res, []), sample_up, dir')" using sample_Prepare by blast
  show ?thesis using prepared_is_current [OF sample_reads p] by simp
qed

lemma backup_before_migration_witness:
  "map_of (snd (snd (Prepare sample_provider sample_manager sample_checks (\<lambda>_ _. None) [] (\<lambda>_. []) sample_now sample_db sample_dir)))
     (sample_new automaticBackupKind) = Some (Snapshot sample_db)"
proof -
  obtain res dir' where p: "Prepare sample_provider sample_manager sample_checks (\<lambda>_ _. None) [] (\<lambda>_. []) sample_now sample_db sample_dir
      = ((res, []), sample_up, dir')" "pr_BackupPath res = sample_new automaticBackupKind" using sample_Prepare by blast
  have "\<forall>c t. fst (pv_versions sample_provider sample_db) = Inr (c, t) \<longrightarrow> 0 \<le> c \<and> c \<le> int64_max"
    by (simp add: sample_files int64_max_def)
  moreover have "distinct (map fst sample_dir)" "1 \<le> bm_retention sample_manager" by (simp_all add: sample_dir_def sample_manager_def)
  moreover have "filter application_table (sq_schema sample_db) \<noteq> []" by (simp add: sample_db_def inspections)
  ultimately show ?thesis
    using backup_before_migration [OF sample_reads _ _ sample_timestamps(1,2) _ _ p(1) sample_up_eq(3)] p by simp
qed

lemma prepare_idempotent_witness:
  "\<exists>res dir'. Prepare sample_provider sample_manager sample_checks (\<lambda>_ _. None) [] (\<lambda>_. []) sample_now sample_up
     (snd (snd (Prepare sample_provider sample_manager sample_checks (\<lambda>_ _. None) [] (\<lambda>_. []) sample_now sample_db sample_dir)))
     = ((res, []), sample_up, dir') \<and> pr_BackupPath res = ''''"
proof -
  obtain res dir' where p: "Prepare sample_provider sample_manager sample_checks (\<lambda>_ _. None) [] (\<lambda>_. []) sample_now sample_db sample_dir
      = ((res, []), sample_up, dir')" "pr_After res = \<lparr>ms_Current = 4, ms_Target = 4, ms_Pending = []\<rparr>"
    using sample_Prepare by blast
  have "history_tables (snd (Up sample_provider sample_db)) > 0" using sample_up_eq(2) by (simp add: sample_up_def)
  from prepare_idempotent [OF sample_reads this p(1), of "\<lambda>_ _. None" sample_now] show ?thesis
    unfolding p(1) using p(2) by auto
qed

lemma foreign_database_untouched_witness:
  "snd (Prepare sample_provider sample_manager sample_checks (\<lambda>_ _. None) [] (\<lambda>_. []) sample_now
     (sample_db\<lparr>sq_application_id := 7\<rparr>) sample_dir) = (sample_db\<lparr>sq_application_id := 7\<rparr>, sample_dir)"
  using foreign_database_untouched [of "sample_db\<lparr>sq_application_id := 7\<rparr>" "\<lambda>_ _. None" sample_provider sample_manager sample_checks
      sample_now sample_dir] by (auto simp: SQLiteApplicationID_def)

lemma newer_schema_refused_witness:
  "check_for_maintenance (sample_provider\<lparr>pv_versions := (\<lambda>d. (Inr (3, 2), d))\<rparr>) (\<lambda>_. None) sample_db
     = ([ErrSchemaTooNew], sample_db)"
proof -
  have "sq_application_id sample_db = SQLiteApplicationID" "filter application_table (sq_schema sample_db) \<noteq> []" "history_tables sample_db > 0"
    by (simp_all add: sample_db_def inspections)
  from newer_schema_refused [OF this, of "sample_provider\<lparr>pv_versions := (\<lambda>d. (Inr (3, 2), d))\<rparr>" 3 2 "\<lambda>_ _. None"]
  show ?thesis by simp
qed

end
