(* ===== verification/CommandProps.thy ===== *)
theory CommandProps
  imports DatabaseCommand PreparationProps
begin

text \<open>
  What the maintenance commands guarantee, over the whole run: the first look at the file, the lock, the
  second look, the handle and the work on it.
\<close>

subsection \<open>The stages of a command\<close>

lemma check_for_maintenance_reads: "provider_reads m \<Longrightarrow> snd (check_for_maintenance m io d) = d"
  using inspectPreparation_reads [of m io d]
  by (auto simp: check_for_maintenance_def InspectExistingEmbeddedPreparation_def split: prod.splits)

text \<open>Without the lock the file is as somebody else left it.\<close>

lemma withOwnedDatabase_cases:
  assumes "withOwnedDatabase mc path policy fn w = ((out, err), w')"
  obtains (refused) "err \<noteq> []" "cw_file w' \<in> {cw_file w, mc_between mc (cw_file w)}" "cw_backups w' = cw_backups w"
  | (owned) pre owner err' where "before_ownership mc policy path (cw_file w) = Inr pre"
      "AcquireOwnerLock (mc_fs mc) (mc_TryLock mc) path = Inr owner"
      "owned_body mc policy pre (ol_databasePath owner) fn (w\<lparr>cw_file := mc_between mc (cw_file w)\<rparr>) = ((out, err'), w')"
      "err = err' @ (case mc_io mc 13 ''close database owner lock'' of Some e \<Rightarrow> [Failed e] | None \<Rightarrow> [])"
proof -
  have nonempty: "e \<noteq> []" if "before_ownership mc policy path f = Inl e" for e f
  proof -
    have "inspectDatabaseFile io p f = Inl e \<Longrightarrow> e \<noteq> []" for io p and f :: "'a file_node"
      by (auto simp: inspectDatabaseFile_def Let_def split: if_splits option.splits)
    then show ?thesis using that by (auto simp: before_ownership_def Let_def split: if_splits sum.splits option.splits)
  qed
  show thesis
  proof (cases "before_ownership mc policy path (cw_file w)")
    case (Inl e)
    with assms nonempty [OF Inl] show ?thesis by (intro refused) (auto simp: withOwnedDatabase_def)
  next
    case (Inr pre)
    show ?thesis
    proof (cases "AcquireOwnerLock (mc_fs mc) (mc_TryLock mc) path")
      case (Inl e)
      then have "e \<noteq> []" using canonical_nonempty by (auto simp: AcquireOwnerLock_def Let_def split: sum.splits if_splits)
      with assms Inr Inl show ?thesis by (intro refused) (auto simp: withOwnedDatabase_def)
    next
      case lock: (Inr owner)
      obtain o1 e1 w1 where "owned_body mc policy pre (ol_databasePath owner) fn (w\<lparr>cw_file := mc_between mc (cw_file w)\<rparr>) = ((o1, e1), w1)"
        by (metis prod.collapse)
      with assms Inr lock show ?thesis by (intro owned [of pre owner e1]) (auto simp: withOwnedDatabase_def)
    qed
  qed
qed

lemma close_open_node: "open_node mc b f = Some d \<Longrightarrow> f \<in> {Sqlite d, ZeroBytes, Absent} \<and> (f \<noteq> Sqlite d \<longrightarrow> d = mc_empty mc)"
  by (auto simp: open_node_def split: file_node.splits if_splits)

lemma owned_body_cases:
  assumes "owned_body mc policy pre owned fn w = ((out, err), w')" "provider_reads (mc_provider mc)"
  obtains (refused) "err \<noteq> []" "w' = w"
  | (ran) d e1 d1 dir1 where "owned_recheck mc policy pre owned (cw_file w) = []"
      "openOwnedDatabase (mc_fs mc) (mc_io mc 12) (mc_databaseList mc) owned False = []"
      "open_node mc (policy = databaseMayCreate) (cw_file w) = Some d" "fn d owned (cw_backups w) = ((out, e1), d1, dir1)"
      "err = e1 @ close_error (mc_io mc 12)" "w' = w\<lparr>cw_file := close_node mc (cw_file w) d1, cw_backups := dir1\<rparr>"
      "policy = databaseMustExist \<Longrightarrow> check_for_maintenance (mc_provider mc) (mc_io mc 12) d = ([], d)"
proof -
  obtain r f where opened: "open_owned mc policy owned (cw_file w) = (r, f)" by fastforce
  have node: "f = cw_file w \<and> (case r of Inl e \<Rightarrow> e \<noteq> [] | Inr d \<Rightarrow> open_node mc (policy = databaseMayCreate) (cw_file w) = Some d
      \<and> openOwnedDatabase (mc_fs mc) (mc_io mc 12) (mc_databaseList mc) owned False = []
      \<and> (policy = databaseMustExist \<longrightarrow> check_for_maintenance (mc_provider mc) (mc_io mc 12) d = ([], d)))"
  proof (cases "openOwnedDatabase (mc_fs mc) (mc_io mc 12) (mc_databaseList mc) owned False = []")
    case False
    with opened show ?thesis by (auto simp: open_owned_def Let_def)
  next
    case ok: True
    show ?thesis
    proof (cases "open_node mc (policy = databaseMayCreate) (cw_file w)")
      case None
      with opened ok show ?thesis by (auto simp: open_owned_def Let_def)
    next
      case (Some d)
      show ?thesis
      proof (cases "policy = databaseMayCreate")
        case True
        with opened ok Some show ?thesis by (auto simp: open_owned_def Let_def)
      next
        case False
        obtain e where check: "check_for_maintenance (mc_provider mc) (mc_io mc 12) d = (e, d)"
          using check_for_maintenance_reads [OF assms(2), of "mc_io mc 12" d] by (metis prod.collapse)
        have "close_node mc (cw_file w) d = cw_file w"
          using close_open_node [OF Some] Some False by (auto simp: close_node_def open_node_def)
        with opened ok Some False check show ?thesis by (auto simp: open_owned_def Let_def split: if_splits)
      qed
    qed
  qed
  show thesis
  proof (cases "owned_recheck mc policy pre owned (cw_file w) = []")
    case False
    with assms(1) show ?thesis by (intro refused) (auto simp: owned_body_def Let_def)
  next
    case checked: True
    show ?thesis
    proof (cases r)
      case (Inl e)
      with assms(1) checked opened node show ?thesis by (intro refused) (auto simp: owned_body_def Let_def)
    next
      case (Inr d)
      obtain o1 e1 d1 dir1 where "fn d owned (cw_backups w) = ((o1, e1), d1, dir1)" by (metis prod.collapse)
      with assms(1) checked opened node Inr show ?thesis
        by (intro ran [of d e1 d1 dir1]) (auto simp: owned_body_def Let_def)
    qed
  qed
qed

subsection \<open>Data is never lost\<close>

lemma unreleased_inspection:
  assumes "inspectPreparation m io d = ((insp, []), d1)" "filter application_table (sq_schema d) = []"
  shows "sq_application_id d = 0 \<and> (\<forall>x \<in> set (sq_schema d). user_object x \<longrightarrow> snd x = goose_table)"
proof -
  note acc = inspectPreparation_accepts [OF assms(1)]
  from inspected_cases [of io d "pi_identity insp" "pi_retryableBootstrap insp"] acc
  consider (shell) "history_tables d = 1" "sq_application_id d = 0" "length (filter user_object (sq_schema d)) = 1"
    | (other) "InspectDatabaseIdentity io d = (pi_identity insp, [])" by blast
  then show ?thesis
  proof cases
    case shell
    then show ?thesis using other_object [of _ d] by force
  next
    case other
    then have "id_Fresh (pi_identity insp)" using assms(2)
      by (auto simp: InspectDatabaseIdentity_def Let_def zero_identity_def split: option.splits if_splits elim: subst)
    then show ?thesis using identity_released(1) [OF other] by (auto simp: filter_empty_conv)
  qed
qed

definition versions_in_range :: "'c provider \<Rightarrow> bool" where
  "versions_in_range m \<longleftrightarrow> (\<forall>d c t. fst (pv_versions m d) = Inr (c, t) \<longrightarrow> 0 \<le> c \<and> c \<le> int64_max)"

text \<open>What \<open>Prepare\<close> may change, and what it then keeps of it.\<close>

lemma Prepare_keeps:
  assumes "provider_reads m" "versions_in_range m" "distinct (map fst dir)" "timestamp_shape now" "timestamp_valid now" "1 \<le> bm_retention bm"
    and "Prepare m bm ck io gateErr pathErr now d dir = ((res, err), d', dir')" "d' \<noteq> d"
  shows "(sq_application_id d = 0 \<and> (\<forall>x \<in> set (sq_schema d). user_object x \<longrightarrow> snd x = goose_table))
    \<or> (\<exists>name. name \<notin> fst ` set dir \<and> map_of dir' name = Some (Snapshot d))"
  using assms(7,1)
proof (cases rule: Prepare_cases)
  case (migrated insp r)
  show ?thesis
  proof (cases "filter application_table (sq_schema d) = []")
    case True
    then show ?thesis using unreleased_inspection [OF migrated(1)] by blast
  next
    case False
    note rel = released_inspection [OF migrated(1) False]
    then obtain c t d1 where "pv_versions m d = (Inr (c, t), d1)" "ms_Current (pi_status insp) = c" by (blast elim: Status_current)
    then have v: "ms_Current (pi_status insp) > 0" "ms_Current (pi_status insp) \<le> int64_max"
      using rel assms(2) by (auto simp: versions_in_range_def dest: spec [of _ d])
    with migrated(4) have create: "Create bm ck (\<lambda>op. io 0 (''backup '' @ op)) (pathErr 1) now d (ms_Current (pi_status insp)) dir
        = (pr_BackupPath r, [], dir')" by simp
    then have "pr_BackupPath r \<noteq> []" using create_taken [OF create [unfolded Create_def]]
      by (auto simp: filename_nonempty filename_nonempty [symmetric])
    then show ?thesis using backup_complete [OF assms(3-6) v(2) create] by blast
  qed
qed (use assms(8) in auto)

lemma maintenance_reads:
  assumes "provider_reads (mc_provider mc)" "maintenance_command mc action d path dir = (r, d', dir')"
  shows "d' = d"
proof -
  obtain ident err where id: "InspectDatabaseIdentity (mc_io mc 0) d = (ident, err)" by fastforce
  show ?thesis
  proof (cases "err = [] \<and> \<not> id_Fresh ident \<and> NewEmbeddedMigrator mc = []")
    case False
    with assms(2) id show ?thesis by (auto simp: maintenance_command_def split: if_splits)
  next
    case True
    then have "history_tables d > 0" using identity_released(2) [of "mc_io mc 0" d ident] id by simp
    then obtain status serr where "Status (mc_provider mc) d = ((status, serr), d)"
      using Status_reads [OF assms(1)] by (metis prod.collapse)
    with assms(2) id True show ?thesis
      by (auto simp: maintenance_command_def backup_command_def split: if_splits prod.splits option.splits)
  qed
qed

text \<open>
  C38. No command loses data. Take any of the four commands, on any file, with any failure on the way and
  whatever another process made of the file before the lock was taken. The file is afterwards as it was before
  the command or when the lock was taken, unless the command is \<open>migrate\<close>; and then it was missing or empty,
  or a SQLite database with no objects but the table of the migration tool, or the backup directory holds a
  snapshot, under a name that was free, of the database as it was.
\<close>

theorem command_keeps_data:
  assumes "provider_reads (mc_provider mc)" "versions_in_range (mc_provider mc)" "distinct (map fst (cw_backups w))"
    and "timestamp_shape (mc_now mc)" "timestamp_valid (mc_now mc)"
    and "runDatabaseCommand mc action path w = ((out, err), w')"
  shows "cw_file w' \<in> {cw_file w, mc_between mc (cw_file w)}
    \<or> (action = ''migrate''
       \<and> (mc_between mc (cw_file w) \<in> {Absent, ZeroBytes}
          \<or> (\<exists>d. mc_between mc (cw_file w) = Sqlite d
              \<and> ((sq_application_id d = 0 \<and> (\<forall>x \<in> set (sq_schema d). user_object x \<longrightarrow> snd x = goose_table))
                 \<or> (\<exists>name. name \<notin> fst ` set (cw_backups w) \<and> map_of (cw_backups w') name = Some (Snapshot d))))))"
proof -
  let ?f = "mc_between mc (cw_file w)"
  note run = assms(6) [unfolded runDatabaseCommand_def]
  consider (nothing) "w' = w" | (migrate) "action = ''migrate''" "withOwnedDatabase mc path databaseMayCreate (migrate_command mc) w = ((out, err), w')"
    | (maintain) "withOwnedDatabase mc path databaseMustExist (maintenance_command mc action) w = ((out, err), w')"
    using run by (auto split: if_splits)
  then show ?thesis
  proof cases
    case maintain
    from maintain show ?thesis
    proof (cases rule: withOwnedDatabase_cases)
      case (owned pre owner e1)
      from owned(3) assms(1) show ?thesis
      proof (cases rule: owned_body_cases)
        case (ran d e2 d1 dir1)
        have "d1 = d" using maintenance_reads [OF assms(1) ran(4)] .
        moreover have "?f = Sqlite d \<or> (?f = ZeroBytes \<and> d = mc_empty mc)"
          using ran(3) by (auto simp: open_node_def split: file_node.splits)
        ultimately have "cw_file w' = ?f" using ran(6) by (auto simp: close_node_def)
        then show ?thesis by simp
      qed simp
    qed simp
  next
    case migrate
    from migrate(2) show ?thesis
    proof (cases rule: withOwnedDatabase_cases)
      case (owned pre owner e1)
      from owned(3) assms(1) show ?thesis
      proof (cases rule: owned_body_cases)
        case (ran d e2 d1 dir1)
        let ?bm = "backup_manager mc (ol_databasePath owner)"
        have ret: "1 \<le> bm_retention ?bm" by (simp add: backup_manager_def NewBackupManager_def Let_def defaultBackupRetention_def)
        show ?thesis
        proof (cases "?f = Sqlite d \<and> d1 \<noteq> d")
          case False
          then have "cw_file w' = ?f \<or> ?f \<in> {Absent, ZeroBytes}"
            using ran(6) close_open_node [OF ran(3)] by (auto simp: close_node_def)
          then show ?thesis using migrate(1) by auto
        next
          case True
          obtain res perr where "Prepare (mc_provider mc) ?bm (mc_checks mc) (mc_io mc) [] (path_check mc (ol_databasePath owner)) (mc_now mc) d
              (cw_backups w) = ((res, perr), d1, dir1)"
            using ran(4) True by (auto simp: migrate_command_def split: if_splits prod.splits)
          from Prepare_keeps [OF assms(1-5) ret this] True show ?thesis using ran(6) migrate(1) by auto
        qed
      qed simp
    qed simp
  qed simp
qed

subsection \<open>Verifying what was migrated\<close>







subsection \<open>Witnesses\<close>

text \<open>A file system without symbolic links, where the database is an existing file.\<close>

definition sample_fs :: filesystem where
  "sample_fs = \<lparr>fs_Abs = Inr, fs_EvalSymlinks = Inr, fs_Stat = (\<lambda>_. StatOk), fs_Lstat = (\<lambda>_. LstatOk False)\<rparr>"

definition sample_empty :: "unit sqlite" where
  "sample_empty = \<lparr>sq_application_id = 0, sq_schema = [], sq_columns = [], sq_versions = [], sq_content = ()\<rparr>"

text \<open>A provider that builds the schema of version four.\<close>

definition building_version :: "unit sqlite \<Rightarrow> int" where
  "building_version d = (if history_tables d = 0 then 0 else min 4 (max 0 (sample_version d)))"

definition building_provider :: "unit provider" where
  "building_provider = sample_provider
     \<lparr>pv_versions := (\<lambda>d. (Inr (building_version d, 4), d)), pv_up := (\<lambda>d. (([], None), sample_up))\<rparr>"

definition sample_machine :: "unit machine" where
  "sample_machine = \<lparr>mc_fs = sample_fs, mc_TryLock = (\<lambda>_. Inr True), mc_databaseList = [(''main'', ''/a.db'')],
     mc_provider = building_provider, mc_checks = sample_checks, mc_io = (\<lambda>_ _. None), mc_between = id, mc_empty = sample_empty,
     mc_sha256 = (\<lambda>s. ''123456''), mc_now = sample_now\<rparr>"







lemma building_provider_reads: "provider_reads (mc_provider sample_machine)" "versions_in_range (mc_provider sample_machine)"
  by (auto simp: provider_reads_def versions_in_range_def sample_machine_def building_provider_def sample_provider_def
      building_version_def int64_max_def min_def max_def)

lemma command_keeps_data_witness:
  "cw_file (snd (runDatabaseCommand sample_machine ''backup'' ''/a.db'' \<lparr>cw_file = Sqlite sample_up, cw_backups = sample_dir\<rparr>)) = Sqlite sample_up"
proof -
  let ?w = "\<lparr>cw_file = Sqlite sample_up, cw_backups = sample_dir\<rparr>"
  have "distinct (map fst (cw_backups ?w))" "timestamp_shape (mc_now sample_machine)" "timestamp_valid (mc_now sample_machine)"
    using sample_timestamps by (simp_all add: sample_dir_def sample_machine_def)
  moreover obtain out err w' where run: "runDatabaseCommand sample_machine ''backup'' ''/a.db'' ?w = ((out, err), w')" by (metis prod.collapse)
  ultimately have "cw_file w' = Sqlite sample_up \<or> cw_file w' = mc_between sample_machine (Sqlite sample_up)"
    using command_keeps_data [OF building_provider_reads, of ?w "''backup''" "''/a.db''" out err w'] by simp
  then show ?thesis using run by (simp add: sample_machine_def)
qed


end
