(* ===== verification/RunnerConfig.thy ===== *)
theory RunnerConfig
  imports Admin DatabaseCommand
begin

text \<open>
  The settings of the binary (\<^verbatim>\<open>internal/runner/config.go\<close>), the choice of the log level and format
  (\<^verbatim>\<open>platform/logging/logging.go\<close>), the entry of the database commands and the shutdown of the server
  (\<^verbatim>\<open>internal/runner/serve.go\<close>).
\<close>

record RuntimeConfig =
  rc_Environment :: string
  rc_LogLevel :: string
  rc_LogFormat :: string

record OptionalBool =
  ob_Value :: bool
  ob_Set :: bool

record ServeConfig =
  se_Runtime :: RuntimeConfig
  se_Address :: string
  se_DatabasePath :: string
  se_BootstrapPassword :: string
  se_Frontend :: string
  se_SessionTTL :: int
  se_CookieSecure :: OptionalBool
  se_CookieSameSite :: string
  se_CSRFKey :: string
  se_TrustedOrigins :: string
  se_PlaintextCSRF :: bool

record DatabaseConfig =
  dc_Runtime :: RuntimeConfig
  dc_DatabasePath :: string

datatype FrontendMode = FrontendEmbedded | FrontendDisabled

record CSRFConfig =
  cc_Key :: string
  cc_TrustedOrigins :: "string list"
  cc_Plaintext :: bool

record ResolvedServeConfig =
  rs_Address :: string
  rs_DatabasePath :: string
  rs_BootstrapPassword :: string
  rs_Session :: SessionConfig
  rs_CSRF :: CSRFConfig
  rs_Frontend :: FrontendMode

datatype config_error = RelativeInProduction | AbsFailed string | SessionSettings session_config_error | BadFrontend string

definition isProduction :: "unicode \<Rightarrow> string \<Rightarrow> bool" where
  "isProduction u environment =
     (let e = ToLower u (TrimSpace environment) in e = ''prod'' \<or> e = ''production'')"

definition resolveDatabasePath :: "unicode \<Rightarrow> (string \<Rightarrow> (string, string) result) \<Rightarrow> RuntimeConfig \<Rightarrow> string \<Rightarrow> (config_error, string) result" where
  "resolveDatabasePath u abspath runtime databasePath =
     (if isProduction u (rc_Environment runtime) \<and> \<not> IsAbs databasePath then Inl RelativeInProduction
      else case abspath databasePath of
        Inl e \<Rightarrow> Inl (AbsFailed e)
      | Inr absolutePath \<Rightarrow> Inr (path_Clean absolutePath))"

fun csv_values :: "string list \<Rightarrow> string list" where
  "csv_values [] = []"
| "csv_values (value # values) =
     (let value = TrimSpace value in if value \<noteq> '''' then value # csv_values values else csv_values values)"

definition splitCSV :: "string \<Rightarrow> string list" where
  "splitCSV raw = csv_values (split_on (CHR '','') raw)"

definition ResolveServeConfig ::
  "unicode \<Rightarrow> (string \<Rightarrow> (string, string) result) \<Rightarrow> ServeConfig \<Rightarrow> (config_error, ResolvedServeConfig) result" where
  "ResolveServeConfig u abspath config =
     (case resolveDatabasePath u abspath (se_Runtime config) (se_DatabasePath config) of
        Inl e \<Rightarrow> Inl e
      | Inr databasePath \<Rightarrow>
          let secure = isProduction u (rc_Environment (se_Runtime config));
              secure = (if ob_Set (se_CookieSecure config) then ob_Value (se_CookieSecure config) else secure)
          in case NewSessionConfig u (se_SessionTTL config) (se_CookieSameSite config) secure of
            Inl e \<Rightarrow> Inl (SessionSettings e)
          | Inr session \<Rightarrow>
              let resolved = (\<lambda>frontend. \<lparr>rs_Address = se_Address config, rs_DatabasePath = databasePath,
                    rs_BootstrapPassword = se_BootstrapPassword config, rs_Session = session,
                    rs_CSRF = \<lparr>cc_Key = se_CSRFKey config, cc_TrustedOrigins = splitCSV (se_TrustedOrigins config),
                      cc_Plaintext = se_PlaintextCSRF config\<rparr>, rs_Frontend = frontend\<rparr>)
              in if se_Frontend config = ''embedded'' then Inr (resolved FrontendEmbedded)
                 else if se_Frontend config = ''disabled'' then Inr (resolved FrontendDisabled)
                 else Inl (BadFrontend (se_Frontend config)))"

definition ResolveDatabaseConfig ::
  "unicode \<Rightarrow> (string \<Rightarrow> (string, string) result) \<Rightarrow> DatabaseConfig \<Rightarrow> (config_error, string) result" where
  "ResolveDatabaseConfig u abspath config = resolveDatabasePath u abspath (dc_Runtime config) (dc_DatabasePath config)"

subsection \<open>Logging\<close>

text \<open>\<open>known_level\<close> is the parser of zap for level names.\<close>

definition parseLevel :: "unicode \<Rightarrow> (string \<Rightarrow> 'l option) \<Rightarrow> 'l \<Rightarrow> string \<Rightarrow> (string, 'l) result" where
  "parseLevel u known_level infoLevel raw =
     (if TrimSpace raw = '''' then Inr infoLevel
      else case known_level (ToLower u (TrimSpace raw)) of None \<Rightarrow> Inl raw | Some l \<Rightarrow> Inr l)"

definition resolveFormat :: "unicode \<Rightarrow> string \<Rightarrow> string \<Rightarrow> (string, string) result" where
  "resolveFormat u environment requested =
     (let requested = ToLower u (TrimSpace requested);
          chosen = (if requested = ''''
                    then let e = ToLower u (TrimSpace environment) in
                         if e = ''prod'' \<or> e = ''production'' then ''json'' else ''text''
                    else requested)
      in if chosen = ''json'' \<or> chosen = ''text'' then Inr chosen else Inl chosen)"

text \<open>Whether \<open>logging.New\<close> makes a logger; with one, the action runs.\<close>

definition logging_New :: "unicode \<Rightarrow> (string \<Rightarrow> 'l option) \<Rightarrow> 'l \<Rightarrow> RuntimeConfig \<Rightarrow> (string, 'l \<times> string) result" where
  "logging_New u known_level infoLevel config =
     (case parseLevel u known_level infoLevel (rc_LogLevel config) of
        Inl e \<Rightarrow> Inl e
      | Inr level \<Rightarrow>
          (case resolveFormat u (rc_Environment config) (rc_LogFormat config) of
             Inl e \<Rightarrow> Inl e
           | Inr chosen \<Rightarrow> Inr (level, chosen)))"

datatype run_error = ConfigError config_error | LoggerError string | DatabaseErrors st_error

definition RunDatabase ::
  "unicode \<Rightarrow> (string \<Rightarrow> 'l option) \<Rightarrow> 'l \<Rightarrow> 'c machine \<Rightarrow> string \<Rightarrow> DatabaseConfig \<Rightarrow> 'c command_world
   \<Rightarrow> (string \<times> run_error option) \<times> 'c command_world" where
  "RunDatabase u known_level infoLevel mc action config w =
     (case ResolveDatabaseConfig u (fs_Abs (mc_fs mc)) config of
        Inl e \<Rightarrow> (('''', Some (ConfigError e)), w)
      | Inr path \<Rightarrow>
          (case logging_New u known_level infoLevel (dc_Runtime config) of
             Inl e \<Rightarrow> (('''', Some (LoggerError e)), w)
           | Inr logger \<Rightarrow>
               (case runDatabaseCommand mc action path w of
                  ((out, err), w) \<Rightarrow> ((out, if err = [] then None else Some (DatabaseErrors err)), w))))"

subsection \<open>Shutdown\<close>

text \<open>
  The answers of the server: of \<open>Shutdown\<close> within its time, of \<open>Close\<close>, and what \<open>ListenAndServe\<close> returned
  (\<open>None\<close> for \<open>http.ErrServerClosed\<close>). The joined errors, and whether \<open>Close\<close> was called.
\<close>

definition shutdownServer :: "string option \<Rightarrow> string option \<Rightarrow> string option \<Rightarrow> string list \<times> bool" where
  "shutdownServer shutdownErr closeErr serveErr =
     (case shutdownErr of
        None \<Rightarrow> ((case serveErr of None \<Rightarrow> [] | Some e \<Rightarrow> [e]), False)
      | Some s \<Rightarrow> ([s] @ (case closeErr of None \<Rightarrow> [] | Some e \<Rightarrow> [e]) @ (case serveErr of None \<Rightarrow> [] | Some e \<Rightarrow> [e]), True))"

subsection \<open>Settings\<close>

text \<open>In production a session cookie is secure unless the setting says otherwise, and the path is absolute.\<close>

lemma ResolveServeConfig_production:
  assumes "ResolveServeConfig u abspath config = Inr r" "isProduction u (rc_Environment (se_Runtime config))"
  shows "IsAbs (se_DatabasePath config)" "\<not> ob_Set (se_CookieSecure config) \<Longrightarrow> sc_Secure (rs_Session r)"
  using assms
  by (auto simp: ResolveServeConfig_def resolveDatabasePath_def NewSessionConfig_def Let_def split: sum.splits if_splits)

lemma resolved_environments:
  assumes "isProduction u environment" "TrimSpace requested = ''''"
  shows "resolveFormat u environment requested = Inr ''json''"
  using assms by (simp add: resolveFormat_def isProduction_def ToLower_def is_ascii_def Let_def)

text \<open>A relative path in production is refused before the file or a backup is looked at.\<close>

lemma RunDatabase_relative:
  assumes "isProduction u (rc_Environment (dc_Runtime config))" "\<not> IsAbs (dc_DatabasePath config)"
  shows "RunDatabase u known_level infoLevel mc action config w = (('''', Some (ConfigError RelativeInProduction)), w)"
  using assms by (simp add: RunDatabase_def ResolveDatabaseConfig_def resolveDatabasePath_def)

end
