(* ===== verification/Normalization.thy ===== *)
theory Normalization
  imports GoURL "HOL-Library.Char_ord" "HOL-Library.List_Lexorder"
begin

text \<open>
  The canonical form in which the golden tests compare generated documents (\<^verbatim>\<open>documents/normalization.go\<close>).

  The regular expressions are their matches: a comment up to the next end of a comment, a run of blanks, a
  tag with something after its name. The replacement of a tag is appended to a slice of the text itself, so
  that one longer than the tag overwrites what follows it; \<open>room\<close> is the spare capacity behind the text.
\<close>

definition isTagNameByte :: "char \<Rightarrow> bool" where
  "isTagNameByte b \<longleftrightarrow>
     (CHR ''a'' \<le> b \<and> b \<le> CHR ''z'') \<or> (CHR ''A'' \<le> b \<and> b \<le> CHR ''Z'') \<or> (CHR ''0'' \<le> b \<and> b \<le> CHR ''9'')
     \<or> b = CHR ''_'' \<or> b = CHR '':'' \<or> b = CHR ''.'' \<or> b = CHR ''-''"

definition tag_start :: "char \<Rightarrow> bool" where
  "tag_start b \<longleftrightarrow>
     (CHR ''a'' \<le> b \<and> b \<le> CHR ''z'') \<or> (CHR ''A'' \<le> b \<and> b \<le> CHR ''Z'') \<or> b = CHR ''_''"

definition regex_blank :: "char \<Rightarrow> bool" where
  "regex_blank c \<longleftrightarrow> c \<in> {CHR 0x09, CHR 0x0A, CHR 0x0C, CHR 0x0D, CHR '' ''}"

subsection \<open>Comments and blanks\<close>

fun after_comment :: "string \<Rightarrow> string option" where
  "after_comment [] = None"
| "after_comment (c # s) = (if take 3 (c # s) = ''-->'' then Some (drop 3 (c # s)) else after_comment s)"

lemma after_comment_length: "after_comment s = Some r \<Longrightarrow> length r < length s"
  by (induction s) (auto split: if_splits)

function stripXMLComments :: "string \<Rightarrow> string" where
  "stripXMLComments [] = []"
| "stripXMLComments (c # s) =
     (if take 4 (c # s) = ''<!--''
      then case after_comment (drop 4 (c # s)) of
        Some rest \<Rightarrow> stripXMLComments rest
      | None \<Rightarrow> c # stripXMLComments s
      else c # stripXMLComments s)"
  by pat_completeness auto
termination
  by (relation "measure length") (auto dest!: after_comment_length)

function normalizeWhitespace :: "string \<Rightarrow> string" where
  "normalizeWhitespace [] = []"
| "normalizeWhitespace (c # s) =
     (if regex_blank c then CHR '' '' # normalizeWhitespace (dropWhile regex_blank s) else c # normalizeWhitespace s)"
  by pat_completeness auto
termination
  by (relation "measure length") (auto simp: le_imp_less_Suc length_dropWhile_le)

subsection \<open>Attributes\<close>

definition attr_blank :: "char \<Rightarrow> bool" where
  "attr_blank c \<longleftrightarrow> c = CHR '' '' \<or> c = CHR 0x09"

definition attr_name_byte :: "char \<Rightarrow> bool" where
  "attr_name_byte c \<longleftrightarrow> c \<noteq> CHR ''='' \<and> \<not> attr_blank c"

definition quote :: char where
  "quote = CHR 0x22"

text \<open>The loop of \<open>sortAttrs\<close>; it stops at the first piece that is no attribute.\<close>

function read_attrs :: "string \<Rightarrow> string list" where
  "read_attrs chunk =
     (let s = dropWhile attr_blank chunk; name = takeWhile attr_name_byte s; rest = dropWhile attr_name_byte s in
      if s = [] \<or> rest = [] \<or> hd rest \<noteq> CHR ''='' then []
      else let t = dropWhile attr_blank (tl rest) in
        if t = [] \<or> hd t \<noteq> quote \<or> quote \<notin> set (tl t) then []
        else (name @ ''='' @ [quote] @ takeWhile (\<lambda>c. c \<noteq> quote) (tl t) @ [quote])
             # read_attrs (tl (dropWhile (\<lambda>c. c \<noteq> quote) (tl t))))"
  by pat_completeness auto
termination
proof (relation "measure length")
  fix chunk s name rest t :: string
  assume def: "s = dropWhile attr_blank chunk" "rest = dropWhile attr_name_byte s" "t = dropWhile attr_blank (tl rest)"
    and go: "\<not> (s = [] \<or> rest = [] \<or> hd rest \<noteq> CHR ''='')" "\<not> (t = [] \<or> hd t \<noteq> quote \<or> quote \<notin> set (tl t))"
  have "length (tl (dropWhile (\<lambda>c. c \<noteq> quote) (tl t))) \<le> length (tl t)"
    by (metis diff_le_self le_trans length_dropWhile_le length_tl)
  also have "\<dots> < length t" using go(2) by (cases t) auto
  also have "length t \<le> length (tl rest)" unfolding def(3) by (rule length_dropWhile_le)
  also have "\<dots> \<le> length rest" by simp
  also have "\<dots> \<le> length s" unfolding def(2) by (rule length_dropWhile_le)
  also have "\<dots> \<le> length chunk" unfolding def(1) by (rule length_dropWhile_le)
  finally show "(tl (dropWhile (\<lambda>c. c \<noteq> quote) (tl t)), chunk) \<in> measure length" by simp
qed simp

declare read_attrs.simps [simp del]

definition trim_suffix :: "string \<Rightarrow> string \<Rightarrow> string" where
  "trim_suffix suf s = (if drop (length s - length suf) s = suf then take (length s - length suf) s else s)"

definition sortAttrs :: "string \<Rightarrow> string" where
  "sortAttrs chunk =
     (let chunk = TrimSpace (trim_suffix ''>'' (trim_suffix ''/>'' (TrimSpace chunk))) in
      if chunk = '''' then '''' else Join (sort (read_attrs chunk)) '' '')"

text \<open>The match of a tag: its opening with the name, the rest up to its end, and what follows.\<close>

definition match_tag :: "string \<Rightarrow> (string \<times> string \<times> string) option" where
  "match_tag s =
     (if take 1 s = ''<'' \<and> tl s \<noteq> [] \<and> tag_start (hd (tl s))
      then let name = takeWhile isTagNameByte (tl s); rest = dropWhile isTagNameByte (tl s) in
        if rest \<noteq> [] \<and> regex_blank (hd rest) \<and> CHR ''>'' \<in> set rest
        then Some (''<'' @ name, takeWhile (\<lambda>c. c \<noteq> CHR ''>'') rest @ ''>'', tl (dropWhile (\<lambda>c. c \<noteq> CHR ''>'') rest))
        else None
      else None)"

lemma match_tag_length: "match_tag s = Some (a, b, r) \<Longrightarrow> length r < length s"
proof -
  assume "match_tag s = Some (a, b, r)"
  then have r: "r = tl (dropWhile (\<lambda>c. c \<noteq> CHR ''>'') (dropWhile isTagNameByte (tl s)))" "s \<noteq> []"
    by (auto simp: match_tag_def Let_def split: if_splits)
  have "length r \<le> length (tl s)"
    unfolding r(1) by (metis diff_le_self le_trans length_dropWhile_le length_tl)
  then show ?thesis using r(2) by (cases s) auto
qed

text \<open>Writing a replacement longer than the tag over the text behind it, as far as the capacity goes.\<close>

definition overwrite :: "nat \<Rightarrow> string \<Rightarrow> string \<Rightarrow> string \<Rightarrow> string" where
  "overwrite room inner new after =
     (let k = length new - length inner in
      if k \<le> length after + room then take (length after) (drop (length inner) new @ drop k after) else after)"

lemma overwrite_length [simp]: "length (overwrite room inner new after) \<le> length after"
  by (simp add: overwrite_def Let_def del: take_append)

function sortAttributes :: "nat \<Rightarrow> string \<Rightarrow> string" where
  "sortAttributes room [] = []"
| "sortAttributes room (c # s) =
     (case match_tag (c # s) of
        None \<Rightarrow> c # sortAttributes room s
      | Some (opening, inner, after) \<Rightarrow>
          let new = '' '' @ sortAttrs (TrimSpace inner) in opening @ new @ sortAttributes room (overwrite room inner new after))"
  by pat_completeness auto
termination
  by (relation "measure (\<lambda>(room, s). length s)")
    (auto dest!: match_tag_length intro: le_trans [OF overwrite_length] simp: less_Suc_eq_le)

definition NormalizeXML :: "nat \<Rightarrow> string \<Rightarrow> string" where
  "NormalizeXML room raw =
     (if raw = '''' then raw else sortAttributes room (normalizeWhitespace (stripXMLComments raw)))"

subsection \<open>Archives\<close>

record NormalizedPart =
  np_Name :: string
  np_Kind :: string
  np_Body :: string
  np_Checksum :: string

text \<open>
  Reading the archive and the digest are parameters; a file of the archive is its name and what opening and
  reading it gives. The names of an archive are distinct.
\<close>

definition has_ending :: "string \<Rightarrow> string \<Rightarrow> bool" where
  "has_ending suf s = (drop (length s - length suf) s = suf)"

fun normalize_parts :: "(string \<Rightarrow> string) \<Rightarrow> nat \<Rightarrow> (string \<times> (string, string) result) list \<Rightarrow> (string, NormalizedPart list) result" where
  "normalize_parts sha256 room [] = Inr []"
| "normalize_parts sha256 room ((name, content) # fs) =
     (case content of
        Inl e \<Rightarrow> Inl e
      | Inr body \<Rightarrow>
          (case normalize_parts sha256 room fs of
             Inl e \<Rightarrow> Inl e
           | Inr parts \<Rightarrow>
               Inr ((if has_ending ''.xml'' name \<or> has_ending ''.rels'' name
                     then \<lparr>np_Name = name, np_Kind = ''xml'', np_Body = NormalizeXML room body, np_Checksum = ''''\<rparr>
                     else \<lparr>np_Name = name, np_Kind = ''binary'', np_Body = '''', np_Checksum = EncodeToString (sha256 body)\<rparr>) # parts)))"

definition NormalizeDOCX ::
  "(string \<Rightarrow> (string, (string \<times> (string, string) result) list) result) \<Rightarrow> (string \<Rightarrow> string) \<Rightarrow> nat \<Rightarrow> string
   \<Rightarrow> (string, NormalizedPart list) result" where
  "NormalizeDOCX unzip sha256 room raw =
     (if raw = '''' then Inl ''NormalizeDOCX: empty input''
      else case unzip raw of
        Inl e \<Rightarrow> Inl e
      | Inr files \<Rightarrow>
          (case normalize_parts sha256 room files of Inl e \<Rightarrow> Inl e | Inr parts \<Rightarrow> Inr (sort_key np_Name parts)))"

subsection \<open>The form of a tag\<close>

text \<open>Names and values as the generators write them: no blanks, quotes or angle brackets.\<close>

definition plain_char :: "char \<Rightarrow> bool" where
  "plain_char c \<longleftrightarrow> solid c \<and> c \<notin> {quote, CHR ''<'', CHR ''>''}"

definition plain_attr :: "string \<times> string \<Rightarrow> bool" where
  "plain_attr a \<longleftrightarrow> fst a \<noteq> [] \<and> (\<forall>c \<in> set (fst a). plain_char c \<and> c \<noteq> CHR ''='') \<and> (\<forall>c \<in> set (snd a). plain_char c)"

definition attr_text :: "string \<times> string \<Rightarrow> string" where
  "attr_text a = fst a @ ''='' @ [quote] @ snd a @ [quote]"

definition attrs_text :: "(string \<times> string) list \<Rightarrow> string" where
  "attrs_text xs = Join (map attr_text xs) '' ''"

lemma plain_char_facts:
  assumes "plain_char c"
  shows "\<not> regex_blank c" "\<not> attr_blank c" "c \<noteq> quote" "c \<noteq> CHR ''<''" "c \<noteq> CHR ''>''" "c \<noteq> CHR '' ''" "solid c"
  using assms by (auto simp: plain_char_def solid_def regex_blank_def attr_blank_def byte_def)

lemma attrs_text_Cons: "attrs_text (a # xs) = attr_text a @ (if xs = [] then [] else CHR '' '' # attrs_text xs)"
  by (cases xs) (simp_all add: attrs_text_def)

lemma attr_text_facts:
  assumes "plain_attr a"
  shows "attr_text a \<noteq> []" "solid (hd (attr_text a))" "last (attr_text a) = quote"
    "\<forall>c \<in> set (attr_text a). \<not> regex_blank c \<and> c \<noteq> CHR ''<'' \<and> c \<noteq> CHR ''>''"
proof -
  obtain n v where a: "a = (n, v)" by fastforce
  have n: "n \<noteq> []" "\<forall>c \<in> set n. plain_char c" and v: "\<forall>c \<in> set v. plain_char c" using assms by (simp_all add: a plain_attr_def)
  have "\<forall>c \<in> set (n @ v). \<not> regex_blank c \<and> c \<noteq> CHR ''<'' \<and> c \<noteq> CHR ''>''" using n(2) v plain_char_facts(1,4,5) unfolding set_append by blast
  then show "\<forall>c \<in> set (attr_text a). \<not> regex_blank c \<and> c \<noteq> CHR ''<'' \<and> c \<noteq> CHR ''>''"
    by (auto simp: a attr_text_def quote_def regex_blank_def)
  show "solid (hd (attr_text a))" using n plain_char_facts(7) by (cases n) (simp_all add: a attr_text_def)
qed (simp_all add: attr_text_def)

lemma attrs_text_facts:
  assumes "xs \<noteq> []" "\<forall>a \<in> set xs. plain_attr a"
  shows "attrs_text xs \<noteq> [] \<and> solid (hd (attrs_text xs)) \<and> last (attrs_text xs) = quote
    \<and> CHR ''<'' \<notin> set (attrs_text xs) \<and> CHR ''>'' \<notin> set (attrs_text xs)"
  using assms
proof (induction xs)
  case (Cons a xs)
  have a: "plain_attr a" using Cons.prems by simp
  note f = attr_text_facts [OF a]
  have lt: "CHR ''<'' \<notin> set (attr_text a)" "CHR ''>'' \<notin> set (attr_text a)" using f(4) by auto
  show ?case
  proof (cases "xs = []")
    case True
    then show ?thesis using f(1-3) lt by (simp add: attrs_text_Cons)
  next
    case False
    with Cons have "attrs_text xs \<noteq> [] \<and> solid (hd (attrs_text xs)) \<and> last (attrs_text xs) = quote
      \<and> CHR ''<'' \<notin> set (attrs_text xs) \<and> CHR ''>'' \<notin> set (attrs_text xs)" by simp
    then show ?thesis using f(1-3) lt False by (simp add: attrs_text_Cons)
  qed
qed simp

lemma read_attrs_text:
  "\<forall>a \<in> set xs. plain_attr a \<Longrightarrow> read_attrs (attrs_text xs) = map attr_text xs"
proof (induction xs)
  case Nil
  then show ?case by (subst read_attrs.simps) (simp add: attrs_text_def)
next
  case (Cons a xs)
  have a: "fst a \<noteq> []" "\<forall>c \<in> set (fst a). attr_name_byte c \<and> \<not> attr_blank c" "\<forall>c \<in> set (snd a). c \<noteq> quote"
    using Cons.prems plain_char_facts by (auto simp: plain_attr_def attr_name_byte_def)
  let ?r = "if xs = [] then [] else CHR '' '' # attrs_text xs"
  have skip: "read_attrs ?r = read_attrs (attrs_text xs)"
    by (subst (1 2) read_attrs.simps) (simp add: attr_blank_def attrs_text_def)
  have shape: "attrs_text (a # xs) = fst a @ CHR ''='' # quote # snd a @ quote # ?r"
    by (simp add: attrs_text_Cons attr_text_def)
  have start: "dropWhile attr_blank (attrs_text (a # xs)) = attrs_text (a # xs)"
    using a(1,2) by (cases "fst a") (auto simp: shape)
  have eq: "\<not> attr_name_byte (CHR ''='')" "\<not> attr_blank quote" by (simp_all add: attr_name_byte_def attr_blank_def quote_def)
  have name: "takeWhile attr_name_byte (attrs_text (a # xs)) = fst a"
    "dropWhile attr_name_byte (attrs_text (a # xs)) = CHR ''='' # quote # snd a @ quote # ?r"
    using a(2) eq(1) by (simp_all add: shape takeWhile_append2 dropWhile_append2)
  have val: "takeWhile (\<lambda>c. c \<noteq> quote) (snd a @ quote # ?r) = snd a" "dropWhile (\<lambda>c. c \<noteq> quote) (snd a @ quote # ?r) = quote # ?r"
    using a(3) by (simp_all add: takeWhile_append2 dropWhile_append2)
  have ne: "attrs_text (a # xs) \<noteq> []" "\<exists>x \<in> set (attrs_text (a # xs)). \<not> attr_name_byte x"
    using eq(1) by (auto simp: shape)
  have "read_attrs (attrs_text (a # xs)) = attr_text a # read_attrs ?r"
    using ne by (subst read_attrs.simps) (simp add: start name val Let_def eq attr_text_def shape [symmetric] dropWhile_eq_Nil_conv)
  then show ?case using Cons by (simp only: skip) simp
qed

lemma blank_char: "CHR '' '' = char_of (n :: nat) \<longleftrightarrow> take_bit 8 n = 32"
proof -
  have "of_char (CHR '' '') = (32 :: nat)" by simp
  then show ?thesis using char_of_eq_iff [of n "CHR '' ''"] by auto
qed

lemma TrimSpace_blank: "TrimSpace (CHR '' '' # s) = TrimSpace s"
proof -
  have "space_len space_encodings (CHR '' '' # s) = 1"
    by (simp add: space_len_def space_encodings_def bytes_def HasPrefix_def blank_char)
  then show ?thesis unfolding TrimSpace_def by (subst strip_left.simps) simp
qed

lemma sortAttrs_tag:
  assumes "xs \<noteq> []" "\<forall>a \<in> set xs. plain_attr a" "closing \<in> {''>'', ''/>''}"
  shows "sortAttrs (TrimSpace (CHR '' '' # attrs_text xs @ closing)) = Join (sort (map attr_text xs)) '' ''"
proof -
  let ?J = "attrs_text xs"
  note f = attrs_text_facts [OF assms(1,2)]
  obtain pre where pre: "?J = pre @ [quote]" using f by (metis append_butlast_last_id)
  have gt: "solid (CHR ''>'')" "solid quote" by (simp_all add: solid_def byte_def quote_def)
  have ends: "?J @ closing \<noteq> []" "hd (?J @ closing) = hd ?J" "last (?J @ closing) = CHR ''>''" using f assms(3) by auto
  have trim: "TrimSpace (CHR '' '' # ?J @ closing) = ?J @ closing"
    unfolding TrimSpace_blank by (rule TrimSpace_solid) (use ends f gt in simp_all)
  have self: "TrimSpace ?J = ?J" by (rule TrimSpace_solid) (use f gt in simp_all)
  have again: "TrimSpace (?J @ closing) = ?J @ closing" using trim TrimSpace_blank by metis
  have cut: "trim_suffix ''>'' (trim_suffix ''/>'' (?J @ closing)) = ?J"
    using assms(3) by (auto simp: trim_suffix_def pre quote_def)
  show ?thesis unfolding trim sortAttrs_def again cut self Let_def using f read_attrs_text [OF assms(2)] by simp
qed

subsection \<open>The canonical form\<close>

lemma strip_without: "CHR ''<'' \<notin> set s \<Longrightarrow> stripXMLComments s = s"
proof (induction s)
  case (Cons c s)
  then have "c \<noteq> CHR ''<''" by auto
  with Cons show ?case by simp
qed simp

lemma blanks_kept: "\<forall>c \<in> set s. \<not> regex_blank c \<Longrightarrow> normalizeWhitespace (s @ r) = s @ normalizeWhitespace r"
  by (induction s) auto

lemma blanks_of_attrs:
  assumes "\<forall>a \<in> set xs. plain_attr a" "\<forall>c \<in> set r. \<not> regex_blank c"
  shows "normalizeWhitespace (attrs_text xs @ r) = attrs_text xs @ r"
  using assms(1)
proof (induction xs)
  case Nil
  then show ?case using blanks_kept [of r "[]"] assms(2) by (simp add: attrs_text_def)
next
  case (Cons a xs)
  have a: "plain_attr a" using Cons.prems by simp
  note f = attr_text_facts [OF a]
  show ?case
  proof (cases "xs = []")
    case True
    have "\<forall>c \<in> set (attr_text a @ r). \<not> regex_blank c" using f(4) assms(2) by auto
    then show ?thesis using blanks_kept [of "attr_text a @ r" "[]"] True by (simp add: attrs_text_Cons)
  next
    case False
    have ih: "normalizeWhitespace (attrs_text xs @ r) = attrs_text xs @ r" using Cons by simp
    have "attrs_text xs \<noteq> []" "solid (hd (attrs_text xs))" using attrs_text_facts [OF False] Cons.prems by auto
    then obtain c t where t: "attrs_text xs = c # t" "solid c" by (cases "attrs_text xs") auto
    then have "\<not> regex_blank c" by (auto simp: solid_def regex_blank_def byte_def)
    then have "normalizeWhitespace (CHR '' '' # attrs_text xs @ r) = CHR '' '' # attrs_text xs @ r"
      using ih by (simp add: t(1) regex_blank_def)
    then show ?thesis using blanks_kept [of "attr_text a" "CHR '' '' # attrs_text xs @ r"] f(4) False by (simp add: attrs_text_Cons)
  qed
qed

text \<open>
  The order of the attributes of a tag does not matter to the canonical form; but neither does whether the tag
  is left open or closed at once, since the replacement drops the end of the tag.
\<close>

lemma NormalizeXML_tag:
  assumes "tag_start t" "\<forall>c \<in> set ts. isTagNameByte c" "xs \<noteq> []" "\<forall>a \<in> set xs. plain_attr a" "closing \<in> {''>'', ''/>''}"
  shows "NormalizeXML room (''<'' @ [t] @ ts @ '' '' @ attrs_text xs @ closing) = ''<'' @ [t] @ ts @ '' '' @ Join (sort (map attr_text xs)) '' ''"
proof -
  let ?J = "attrs_text xs" and ?S = "Join (sort (map attr_text xs)) '' ''"
  let ?rest = "CHR '' '' # ?J @ closing"
  note f = attrs_text_facts [OF assms(3,4)]
  have name: "isTagNameByte t" using assms(1) by (auto simp: tag_start_def isTagNameByte_def)
  have lt: "\<not> isTagNameByte (CHR ''<'')" "\<not> isTagNameByte (CHR '' '')" "\<not> tag_start (CHR ''!'')"
    by (simp_all add: isTagNameByte_def tag_start_def less_eq_char_def)
  have nb: "\<not> regex_blank c" if "isTagNameByte c" for c
    using that by (auto simp: regex_blank_def isTagNameByte_def less_eq_char_def)
  have body: "CHR ''<'' \<notin> set (t # ts @ ?rest)"
    using f assms(2,5) name lt(1) by auto
  have "t \<noteq> CHR ''!''" using assms(1) lt(3) by auto
  then have strip: "stripXMLComments (CHR ''<'' # t # ts @ ?rest) = CHR ''<'' # t # ts @ ?rest"
    using strip_without [OF body] by simp
  have "normalizeWhitespace ?rest = CHR '' '' # normalizeWhitespace (?J @ closing)"
    using f by (cases ?J) (auto simp: regex_blank_def solid_def byte_def)
  also have "\<dots> = ?rest" using blanks_of_attrs [OF assms(4), of closing] assms(5) by (auto simp: regex_blank_def)
  finally have rest: "normalizeWhitespace ?rest = ?rest" .
  have "\<forall>c \<in> set (CHR ''<'' # t # ts). \<not> regex_blank c" using nb name assms(2) by (auto simp: regex_blank_def)
  from blanks_kept [OF this, of ?rest] have blanks: "normalizeWhitespace (CHR ''<'' # t # ts @ ?rest) = CHR ''<'' # t # ts @ ?rest"
    by (simp add: rest del: normalizeWhitespace.simps)
  have gt: "takeWhile (\<lambda>c. c \<noteq> CHR ''>'') ?rest @ ''>'' = ?rest" "tl (dropWhile (\<lambda>c. c \<noteq> CHR ''>'') ?rest) = []"
  proof -
    obtain pre where pre: "?rest = pre @ [CHR ''>'']" "CHR ''>'' \<notin> set pre"
    proof (cases "closing = ''>''")
      case True
      then show ?thesis using that [of "CHR '' '' # ?J"] f by simp
    next
      case False
      then show ?thesis using that [of "CHR '' '' # ?J @ ''/''"] f assms(5) by auto
    qed
    have all: "\<forall>c \<in> set pre. c \<noteq> CHR ''>''" using pre(2) by auto
    show "takeWhile (\<lambda>c. c \<noteq> CHR ''>'') ?rest @ ''>'' = ?rest" "tl (dropWhile (\<lambda>c. c \<noteq> CHR ''>'') ?rest) = []"
      unfolding pre(1) using all by (simp_all add: takeWhile_append2 dropWhile_append2)
  qed
  have front: "takeWhile isTagNameByte (t # ts @ ?rest) = t # ts" "dropWhile isTagNameByte (t # ts @ ?rest) = ?rest"
    using name assms(2) lt(2) by (simp_all add: takeWhile_append2 dropWhile_append2)
  have "CHR ''>'' \<in> set ?rest" "regex_blank (hd ?rest)" using assms(5) by (auto simp: regex_blank_def)
  then have match: "match_tag (CHR ''<'' # t # ts @ ?rest) = Some (CHR ''<'' # t # ts, ?rest, [])"
    using assms(1) front gt by (simp add: match_tag_def Let_def)
  have "overwrite room ?rest (CHR '' '' # ?S) [] = []" by (simp add: overwrite_def Let_def)
  then have "sortAttributes room (CHR ''<'' # t # ts @ ?rest) = CHR ''<'' # t # ts @ CHR '' '' # ?S"
    using match sortAttrs_tag [OF assms(3-5)] by (simp add: Let_def)
  then show ?thesis using strip blanks by (simp add: NormalizeXML_def)
qed

end
