(* ===== verification/Spec2Isabelle.thy ===== *)
theory Spec2Isabelle
  imports ProtocolProps DirectoryProps RequestProps RequestTextProps Router ServerLifecycle LegacyProps StagingProps ImportHttpProps DocumentProps CommandProps RunnerConfig Normalization
begin

text \<open>
  Verification of the IKC admin panel backend.
\<close>

end
